(* ===== verification/Prelude.thy ===== *)
theory Prelude
  imports Complex_Main "HOL-Library.AList" "HOL-Library.Char_ord" "HOL-Library.List_Lexorder"
begin

text \<open>
  What every component shares: the values Python passes around as \<open>Any\<close> (dictionaries of
  JSON data), the few operations of the language and its standard library the source uses on
  them (truthiness, \<open>dict.get\<close>, slices, \<open>json.dumps\<close>, \<open>isoformat\<close>), time, the type of results
  that may raise, and the tables of the database.  The generic lemmas about them are declared
  as simplification rules or collected in \<open>py_defs\<close>.
\<close>

named_theorems py_defs \<open>definitions of the Python operations\<close>

section \<open>Values\<close>

text \<open>
  The JSON-shaped values of the source: \<open>None\<close>, booleans, integers, strings, lists and
  dictionaries.  A Python dictionary keeps insertion order, and assigning an existing key keeps
  its place: that is an association list under \<open>AList.update\<close>.  Floating-point numbers are not
  in this type.
\<close>

datatype pyval =
    PNone
  | PBool bool
  | PInt int
  | PStr string
  | PList "pyval list"
  | PDict "(string \<times> pyval) list"

type_synonym pydict = "(string \<times> pyval) list"

definition dget :: "pydict \<Rightarrow> string \<Rightarrow> pyval" where
  \<comment> \<open>\<open>d.get(k)\<close>\<close>
  "dget d k = (case map_of d k of None \<Rightarrow> PNone | Some v \<Rightarrow> v)"

definition dget_or :: "pydict \<Rightarrow> string \<Rightarrow> pyval \<Rightarrow> pyval" where
  \<comment> \<open>\<open>d.get(k, default)\<close>\<close>
  "dget_or d k v = (case map_of d k of None \<Rightarrow> v | Some w \<Rightarrow> w)"

definition dset :: "pydict \<Rightarrow> string \<Rightarrow> pyval \<Rightarrow> pydict" where
  \<comment> \<open>\<open>d[k] = v\<close>\<close>
  "dset d k v = AList.update k v d"

definition dmerge :: "pydict \<Rightarrow> pydict \<Rightarrow> pydict" where
  \<comment> \<open>\<open>{**d, **e}\<close>\<close>
  "dmerge d e = foldl (\<lambda>acc kv. dset acc (fst kv) (snd kv)) d e"

fun truthy :: "pyval \<Rightarrow> bool" where
  "truthy PNone = False"
| "truthy (PBool b) = b"
| "truthy (PInt n) = (n \<noteq> 0)"
| "truthy (PStr s) = (s \<noteq> [])"
| "truthy (PList xs) = (xs \<noteq> [])"
| "truthy (PDict d) = (d \<noteq> [])"

fun py_eq_int :: "pyval \<Rightarrow> int \<Rightarrow> bool" where
  \<comment> \<open>\<open>v == n\<close> for an integer \<open>n\<close>: in Python a boolean equals 0 or 1\<close>
  "py_eq_int (PInt m) n = (m = n)"
| "py_eq_int (PBool b) n = ((if b then 1 else 0) = n)"
| "py_eq_int v n = False"

fun py_int :: "pyval \<Rightarrow> int option" where
  \<comment> \<open>\<open>int(v)\<close> on the values the source applies it to; \<open>None\<close> is a TypeError\<close>
  "py_int (PInt n) = Some n"
| "py_int (PBool b) = Some (if b then 1 else 0)"
| "py_int v = None"

fun as_dict :: "pyval \<Rightarrow> pydict option" where
  "as_dict (PDict d) = Some d"
| "as_dict v = None"

definition str_or_none :: "string option \<Rightarrow> pyval" where
  "str_or_none s = (case s of None \<Rightarrow> PNone | Some t \<Rightarrow> PStr t)"

lemma dget_Nil [simp]: "dget [] k = PNone"
  by (simp add: dget_def)

lemma dget_Cons [simp]: "dget ((k, v) # d) k' = (if k' = k then v else dget d k')"
  by (simp add: dget_def)

lemma dget_dset [simp]: "dget (dset d k v) k' = (if k' = k then v else dget d k')"
  by (simp add: dget_def dset_def update_conv)

lemma dget_or_Nil [simp]: "dget_or [] k w = w"
  by (simp add: dget_or_def)

lemma dget_or_Cons [simp]: "dget_or ((k, v) # d) k' w = (if k' = k then v else dget_or d k' w)"
  by (simp add: dget_or_def)

lemma truthy_None [simp]: "truthy v \<Longrightarrow> v \<noteq> PNone"
  by auto

lemma map_of_foldl_update:
  "map_of (foldl (\<lambda>acc kv. dset acc (fst kv) (snd kv)) d e) k =
     (case map_of (rev e) k of None \<Rightarrow> map_of d k | Some v \<Rightarrow> Some v)"
  by (induction e arbitrary: d)
     (auto simp: dset_def update_conv map_add_def split: option.splits)

lemma dget_dmerge: "dget (dmerge d e) k =
    (case map_of (rev e) k of None \<Rightarrow> dget d k | Some v \<Rightarrow> v)"
  by (simp add: dget_def dmerge_def map_of_foldl_update split: option.splits)

section \<open>Strings and lists\<close>

definition starts_with :: "string \<Rightarrow> string \<Rightarrow> bool" where
  \<comment> \<open>\<open>s.startswith(p)\<close>\<close>
  "starts_with p s \<longleftrightarrow> take (length p) s = p"

lemma starts_with_Nil [simp]: "starts_with [] s"
  by (simp add: starts_with_def)

lemma starts_with_Cons [simp]:
  "starts_with (c # p) s = (case s of [] \<Rightarrow> False | d # t \<Rightarrow> c = d \<and> starts_with p t)"
  by (auto simp: starts_with_def split: list.splits)

definition py_head :: "int \<Rightarrow> 'a list \<Rightarrow> 'a list" where
  \<comment> \<open>\<open>xs[:n]\<close>, a negative bound counting from the end\<close>
  "py_head n xs = (if 0 \<le> n then take (nat n) xs else take (length xs - nat (- n)) xs)"

definition py_tail :: "int \<Rightarrow> 'a list \<Rightarrow> 'a list" where
  \<comment> \<open>\<open>xs[-n:]\<close>: the last \<open>n\<close> items, but the whole list for \<open>n = 0\<close>\<close>
  "py_tail n xs = (if 0 < n then drop (length xs - nat n) xs else drop (nat (- n)) xs)"

lemma length_py_tail: "0 < n \<Longrightarrow> int (length (py_tail n xs)) \<le> n"
  by (simp add: py_tail_def)

lemma set_py_tail: "set (py_tail n xs) \<subseteq> set xs"
  by (auto simp: py_tail_def dest: in_set_dropD)

lemma distinct_py_tail: "distinct xs \<Longrightarrow> distinct (py_tail n xs)"
  by (simp add: py_tail_def)

lemma py_tail_id: "int (length xs) \<le> n \<Longrightarrow> py_tail n xs = xs"
  by (cases "0 < n") (auto simp: py_tail_def)

lemma last_py_tail: "0 < n \<Longrightarrow> xs \<noteq> [] \<Longrightarrow> last (py_tail n xs) = last xs"
  by (simp add: py_tail_def last_drop)

lemma py_tail_append_single:
  assumes "0 < n"
  shows "x \<in> set (py_tail n (xs @ [x]))"
proof -
  have "py_tail n (xs @ [x]) \<noteq> []" using assms by (simp add: py_tail_def)
  then show ?thesis using last_in_set last_py_tail [OF assms, of "xs @ [x]"] by fastforce
qed

fun py_contains :: "string \<Rightarrow> string \<Rightarrow> bool" where
  \<comment> \<open>\<open>p in s\<close>\<close>
  "py_contains p [] \<longleftrightarrow> p = []"
| "py_contains p (c # s) \<longleftrightarrow> starts_with p (c # s) \<or> py_contains p s"

definition ends_with :: "string \<Rightarrow> string \<Rightarrow> bool" where
  \<comment> \<open>\<open>s.endswith(p)\<close>\<close>
  "ends_with p s \<longleftrightarrow> starts_with (rev p) (rev s)"

definition utf8 :: "nat list \<Rightarrow> string" where
  \<comment> \<open>a literal with characters outside ASCII, given by its UTF-8 bytes\<close>
  "utf8 = map char_of"

fun join :: "string \<Rightarrow> string list \<Rightarrow> string" where
  "join sep [] = []"
| "join sep [x] = x"
| "join sep (x # y # ys) = x @ sep @ join sep (y # ys)"

fun digits_of :: "nat \<Rightarrow> string" where
  "digits_of n = (if n < 10 then [char_of (48 + n)] else digits_of (n div 10) @ [char_of (48 + n mod 10)])"

declare digits_of.simps [simp del]

definition str_int :: "int \<Rightarrow> string" where
  \<comment> \<open>\<open>str(n)\<close>\<close>
  "str_int n = (if n < 0 then CHR ''-'' # digits_of (nat (- n)) else digits_of (nat n))"

section \<open>Canonical JSON\<close>

definition hex_digit :: "nat \<Rightarrow> char" where
  "hex_digit n = (if n < 10 then char_of (48 + n) else char_of (87 + n))"

definition json_char :: "char \<Rightarrow> string" where
  "json_char c =
     (if c = CHR 0x22 then [CHR 0x5C, CHR 0x22]
      else if c = CHR 0x5C then [CHR 0x5C, CHR 0x5C]
      else if c = CHR 0x0A then [CHR 0x5C, CHR ''n'']
      else if c = CHR 0x0D then [CHR 0x5C, CHR ''r'']
      else if c = CHR 0x09 then [CHR 0x5C, CHR ''t'']
      else if c = CHR 0x08 then [CHR 0x5C, CHR ''b'']
      else if c = CHR 0x0C then [CHR 0x5C, CHR ''f'']
      else if of_char c < (32 :: nat)
        then [CHR 0x5C, CHR ''u'', CHR ''0'', CHR ''0'',
              hex_digit (of_char c div 16), hex_digit (of_char c mod 16)]
      else [c])"

definition json_str :: "string \<Rightarrow> string" where
  "json_str s = [CHR 0x22] @ concat (map json_char s) @ [CHR 0x22]"

text \<open>
  \<open>json.dumps(v, ensure_ascii=False, sort_keys=..., separators=...)\<close>.  The first argument says
  whether keys are sorted, the second whether the separators are the compact pair; Python's
  default pair has a space after each.
\<close>

primrec json_dumps :: "bool \<Rightarrow> bool \<Rightarrow> pyval \<Rightarrow> string" where
  "json_dumps sk cp PNone = ''null''"
| "json_dumps sk cp (PBool b) = (if b then ''true'' else ''false'')"
| "json_dumps sk cp (PInt n) = str_int n"
| "json_dumps sk cp (PStr s) = json_str s"
| "json_dumps sk cp (PList xs) =
     ''['' @ join (if cp then '','' else '', '') (map (json_dumps sk cp) xs) @ '']''"
| "json_dumps sk cp (PDict d) =
     (let items = map (map_prod id (json_dumps sk cp)) d;
          ordered = (if sk then sort_key fst items else items)
      in ''{'' @ join (if cp then '','' else '', '')
           (map (\<lambda>(k, t). json_str k @ (if cp then '':'' else '': '') @ t) ordered) @ ''}'')"

text \<open>
  Sorting makes the text independent of the order in which a dictionary was filled: two
  dictionaries with the same entries have one canonical form.
\<close>

lemma sort_key_fst_unique:
  fixes xs ys :: "('a :: linorder \<times> 'b) list"
  assumes "distinct (map fst xs)" "distinct (map fst ys)" "set xs = set ys"
  shows "sort_key fst xs = sort_key fst ys"
proof -
  have inj: "inj_on fst (set (sort_key fst xs) \<union> set (sort_key fst ys))"
    using assms by (auto simp: distinct_map)
  have keys: "map fst (sort_key fst xs) = map fst (sort_key fst ys)"
  proof (rule sorted_distinct_set_unique)
    show "sorted (map fst (sort_key fst xs))" "sorted (map fst (sort_key fst ys))"
      by (rule sorted_sort_key)+
    have "distinct xs" "distinct ys" using assms by (auto simp: distinct_map)
    then have "distinct (sort_key fst xs)" "distinct (sort_key fst ys)" by simp_all
    then show "distinct (map fst (sort_key fst xs))" "distinct (map fst (sort_key fst ys))"
      using assms by (auto simp: distinct_map)
    show "set (map fst (sort_key fst xs)) = set (map fst (sort_key fst ys))"
      using assms(3) by simp
  qed
  show ?thesis using keys inj by (rule map_inj_on)
qed

lemma json_dumps_sorted_unique:
  assumes "distinct (map fst d)" "distinct (map fst e)" "set d = set e"
  shows "json_dumps True c (PDict d) = json_dumps True c (PDict e)"
proof -
  let ?f = "map_prod id (json_dumps True c)"
  have fst_f: "fst \<circ> ?f = fst" by (auto simp: fun_eq_iff)
  have "distinct (map fst (map ?f d))" "distinct (map fst (map ?f e))"
    using assms(1,2) by (simp_all add: fst_f)
  moreover have "set (map ?f d) = set (map ?f e)" using assms(3) by simp
  ultimately have "sort_key fst (map ?f d) = sort_key fst (map ?f e)"
    by (rule sort_key_fst_unique)
  then show ?thesis by simp
qed

section \<open>Time\<close>

text \<open>
  An aware \<open>datetime\<close> is a number of microseconds; \<open>timedelta(seconds=n)\<close> is \<open>secs n\<close>.  A string
  that should hold a timestamp either is one (\<open>Iso t\<close>, what \<open>isoformat\<close> gives and
  \<open>fromisoformat\<close> reads, a naive one taken as UTC) or is any other text.
\<close>

type_synonym time = int

definition secs :: "int \<Rightarrow> int" where
  "secs n = 1000000 * n"

definition ceil_secs :: "int \<Rightarrow> int" where
  \<comment> \<open>\<open>math.ceil(delta.total_seconds())\<close>\<close>
  "ceil_secs d = - ((- d) div 1000000)"

datatype isostr = Iso time | NotIso string

fun fromisoformat :: "isostr \<Rightarrow> time option" where
  "fromisoformat (Iso t) = Some t"
| "fromisoformat (NotIso s) = None"

lemma secs_mono [simp]: "secs a \<le> secs b \<longleftrightarrow> a \<le> b" "secs a < secs b \<longleftrightarrow> a < b"
  by (simp_all add: secs_def)

lemma secs_pos [simp]: "0 < secs a \<longleftrightarrow> 0 < a" "0 \<le> secs a \<longleftrightarrow> 0 \<le> a"
  by (simp_all add: secs_def)

lemma div_million_bounds:
  fixes e :: int
  shows "1000000 * (e div 1000000) \<le> e" and "e < 1000000 * (e div 1000000) + 1000000"
proof -
  have "1000000 * (e div 1000000) + e mod 1000000 = e" by (rule mult_div_mod_eq)
  moreover have "0 \<le> e mod 1000000" "e mod 1000000 < 1000000" by simp_all
  ultimately show "1000000 * (e div 1000000) \<le> e" "e < 1000000 * (e div 1000000) + 1000000"
    by linarith+
qed

lemma ceil_secs_ge: "d \<le> secs (ceil_secs d)"
  unfolding ceil_secs_def secs_def using div_million_bounds [of "- d"] by linarith

lemma ceil_secs_pos: "0 < d \<Longrightarrow> 0 < ceil_secs d"
  using ceil_secs_ge [of d] by (simp add: secs_def)

section \<open>Python text of values\<close>

definition py_repr_char :: "char \<Rightarrow> char \<Rightarrow> string" where
  "py_repr_char q c =
     (if c = q \<or> c = CHR 0x5C then [CHR 0x5C, c]
      else if c = CHR 0x0A then [CHR 0x5C, CHR ''n'']
      else if c = CHR 0x0D then [CHR 0x5C, CHR ''r'']
      else if c = CHR 0x09 then [CHR 0x5C, CHR ''t'']
      else if of_char c < (32 :: nat) \<or> of_char c = (127 :: nat)
        then [CHR 0x5C, CHR ''x'', hex_digit (of_char c div 16), hex_digit (of_char c mod 16)]
      else [c])"

definition py_repr_str :: "string \<Rightarrow> string" where
  \<comment> \<open>single quotes, unless the text has a single quote and no double quote\<close>
  "py_repr_str s =
     (let q = (if CHR 0x27 \<in> set s \<and> CHR 0x22 \<notin> set s then CHR 0x22 else CHR 0x27)
      in [q] @ concat (map (py_repr_char q) s) @ [q])"

primrec py_repr :: "pyval \<Rightarrow> string" where
  "py_repr PNone = ''None''"
| "py_repr (PBool b) = (if b then ''True'' else ''False'')"
| "py_repr (PInt n) = str_int n"
| "py_repr (PStr s) = py_repr_str s"
| "py_repr (PList xs) = ''['' @ join '', '' (map py_repr xs) @ '']''"
| "py_repr (PDict d) =
     ''{'' @ join '', '' (map (\<lambda>(k, t). py_repr_str k @ '': '' @ t) (map (map_prod id py_repr) d)) @ ''}''"

fun py_str :: "pyval \<Rightarrow> string" where
  "py_str (PStr s) = s"
| "py_str v = py_repr v"

definition str_bool :: "bool \<Rightarrow> string" where
  "str_bool b = (if b then ''True'' else ''False'')"

end
