(* ===== verification/Settings.thy ===== *)
theory Settings
  imports Prelude
begin

text \<open>
  The settings of \<open>backend/app/core/config.py\<close> that the modelled components read, with the
  defaults of the source, the derived set of allowed test commands, and the part of
  \<open>validate_security_config\<close> that bounds the agent loop.
\<close>

section \<open>Splitting and stripping\<close>

definition is_space :: "char \<Rightarrow> bool" where
  "is_space c \<longleftrightarrow> (let n = (of_char c :: nat) in n = 32 \<or> (9 \<le> n \<and> n \<le> 13) \<or> (28 \<le> n \<and> n \<le> 31))"

definition py_strip :: "string \<Rightarrow> string" where
  \<comment> \<open>\<open>s.strip()\<close>\<close>
  "py_strip s = rev (dropWhile is_space (rev (dropWhile is_space s)))"

fun py_split :: "char \<Rightarrow> string \<Rightarrow> string list" where
  \<comment> \<open>\<open>s.split(sep)\<close> for a one-character separator\<close>
  "py_split sep [] = [[]]"
| "py_split sep (c # s) =
     (if c = sep then [] # py_split sep s
      else (case py_split sep s of [] \<Rightarrow> [[c]] | w # ws \<Rightarrow> (c # w) # ws))"

definition is_upper :: "char \<Rightarrow> bool" where
  "is_upper c \<longleftrightarrow> (65 :: nat) \<le> of_char c \<and> of_char c \<le> (90 :: nat)"

definition lower_char :: "char \<Rightarrow> char" where
  "lower_char c = (if is_upper c then char_of ((of_char c :: nat) + 32) else c)"

definition py_lower :: "string \<Rightarrow> string" where
  \<comment> \<open>\<open>s.lower()\<close> on ASCII letters\<close>
  "py_lower = map lower_char"

section \<open>The settings record\<close>

record settings =
  max_agent_iterations :: int
  agent_planner_mode :: string
  agent_max_local_tool_calls :: int
  agent_max_planner_calls :: int
  agent_max_planner_tokens :: int
  agent_max_loop_seconds :: int
  agent_max_no_progress_steps :: int
  agent_max_read_lines :: int
  agent_max_evidence_items :: int
  agent_max_action_history :: int
  mcp_client_timeout_seconds :: rat
  mcp_client_max_result_chars :: int
  mcp_tool_router_max_rounds :: int
  mcp_tool_router_max_calls_per_run :: int
  mcp_tool_router_max_catalog_tools :: int
  mcp_approval_enabled :: bool
  mcp_approval_ttl_seconds :: int
  mcp_approval_resume_stale_seconds :: int
  mcp_approval_max_checkpoint_chars :: int
  mcp_execution_lease_seconds :: int
  mcp_execution_max_attempts :: int
  mcp_execution_max_checkpoint_chars :: int
  mcp_circuit_breaker_enabled :: bool
  mcp_circuit_failure_threshold :: int
  mcp_circuit_cooldown_seconds :: int
  mcp_circuit_half_open_lease_seconds :: int
  mcp_health_stale_seconds :: int
  mcp_client_enabled :: bool
  mcp_tool_router_enabled :: bool
  mcp_sandbox_enabled :: bool
  mcp_sandbox_broker_mode :: bool
  mcp_sandbox_broker_url :: "string option"
  mcp_sandbox_broker_token :: "string option"
  mcp_oauth_token_expiry_skew_seconds :: int
  mcp_tenant_authorization_enabled :: bool
  mcp_default_tenant_slug :: string
  mcp_delegated_oauth_state_ttl_seconds :: int
  mcp_quota_enabled :: bool
  mcp_quota_backend :: string
  mcp_quota_fail_closed :: bool
  mcp_quota_concurrency_lease_seconds :: int
  mcp_quota_max_policies_per_tenant :: int
  mcp_quota_default_call_cost_units :: rat
  mcp_quota_retention_days :: int
  sandbox_timeout_seconds :: int
  sandbox_network_disabled :: bool
  sandbox_runtime :: string
  sandbox_node_image :: string
  sandbox_python_image :: string
  sandbox_allowed_commands :: string
  sandbox_execution_broker_url :: "string option"
  sandbox_execution_plane_backend :: string
  sandbox_execution_lease_grace_seconds :: int
  sandbox_execution_state_retention_seconds :: int
  sandbox_execution_output_max_chars :: int
  sandbox_workload_identity_issuer :: string
  sandbox_workload_identity_subject :: string
  sandbox_workload_identity_audience :: string
  sandbox_workload_identity_public_key_path :: "string option"
  sandbox_gvisor_docker_runtime :: string
  sandbox_firecracker_command_template :: "string option"

definition default_settings :: settings where
  "default_settings = \<lparr>
     max_agent_iterations = 3,
     agent_planner_mode = ''adaptive'',
     agent_max_local_tool_calls = 12,
     agent_max_planner_calls = 16,
     agent_max_planner_tokens = 24000,
     agent_max_loop_seconds = 600,
     agent_max_no_progress_steps = 3,
     agent_max_read_lines = 800,
     agent_max_evidence_items = 40,
     agent_max_action_history = 64,
     mcp_client_timeout_seconds = 20,
     mcp_client_max_result_chars = 50000,
     mcp_tool_router_max_rounds = 2,
     mcp_tool_router_max_calls_per_run = 4,
     mcp_tool_router_max_catalog_tools = 64,
     mcp_approval_enabled = True,
     mcp_approval_ttl_seconds = 1800,
     mcp_approval_resume_stale_seconds = 300,
     mcp_approval_max_checkpoint_chars = 2000000,
     mcp_execution_lease_seconds = 60,
     mcp_execution_max_attempts = 3,
     mcp_execution_max_checkpoint_chars = 2000000,
     mcp_circuit_breaker_enabled = True,
     mcp_circuit_failure_threshold = 3,
     mcp_circuit_cooldown_seconds = 60,
     mcp_circuit_half_open_lease_seconds = 30,
     mcp_health_stale_seconds = 180,
     mcp_client_enabled = False,
     mcp_tool_router_enabled = True,
     mcp_sandbox_enabled = False,
     mcp_sandbox_broker_mode = False,
     mcp_sandbox_broker_url = None,
     mcp_sandbox_broker_token = None,
     mcp_oauth_token_expiry_skew_seconds = 60,
     mcp_tenant_authorization_enabled = False,
     mcp_default_tenant_slug = ''default'',
     mcp_delegated_oauth_state_ttl_seconds = 600,
     mcp_quota_enabled = False,
     mcp_quota_backend = ''redis'',
     mcp_quota_fail_closed = True,
     mcp_quota_concurrency_lease_seconds = 180,
     mcp_quota_max_policies_per_tenant = 64,
     mcp_quota_default_call_cost_units = 1,
     mcp_quota_retention_days = 90,
     sandbox_timeout_seconds = 120,
     sandbox_network_disabled = True,
     sandbox_runtime = ''docker'',
     sandbox_node_image = ''node:20-alpine'',
     sandbox_python_image = ''python:3.11-slim'',
     sandbox_allowed_commands =
       ''npm test,npm run test:targeted,npm run test:health,pnpm test,yarn test,pytest,'' @
       ''python -m pytest,'' @
       ''python -m unittest discover,python -m unittest tests.test_health'',
     sandbox_execution_broker_url = None,
     sandbox_execution_plane_backend = ''firecracker'',
     sandbox_execution_lease_grace_seconds = 60,
     sandbox_execution_state_retention_seconds = 86400,
     sandbox_execution_output_max_chars = 200000,
     sandbox_workload_identity_issuer = ''codemate'',
     sandbox_workload_identity_subject = ''spiffe://codemate/code-sandbox'',
     sandbox_workload_identity_audience = ''codemate-sandbox-execution-plane'',
     sandbox_workload_identity_public_key_path = None,
     sandbox_gvisor_docker_runtime = ''runsc'',
     sandbox_firecracker_command_template = None\<rparr>"

definition allowed_test_commands :: "settings \<Rightarrow> string set" where
  "allowed_test_commands cfg =
     set [py_strip command. command \<leftarrow> py_split CHR '','' (sandbox_allowed_commands cfg),
          py_strip command \<noteq> []]"

text \<open>The check of \<open>validate_security_config\<close> on the nine limits of the agent loop.\<close>

definition invalid_agent_limits :: "settings \<Rightarrow> string list" where
  "invalid_agent_limits cfg = map fst (filter (\<lambda>(name, v). v < 1)
     [(''MAX_AGENT_ITERATIONS'', max_agent_iterations cfg),
      (''AGENT_MAX_LOCAL_TOOL_CALLS'', agent_max_local_tool_calls cfg),
      (''AGENT_MAX_PLANNER_CALLS'', agent_max_planner_calls cfg),
      (''AGENT_MAX_PLANNER_TOKENS'', agent_max_planner_tokens cfg),
      (''AGENT_MAX_LOOP_SECONDS'', agent_max_loop_seconds cfg),
      (''AGENT_MAX_NO_PROGRESS_STEPS'', agent_max_no_progress_steps cfg),
      (''AGENT_MAX_READ_LINES'', agent_max_read_lines cfg),
      (''AGENT_MAX_EVIDENCE_ITEMS'', agent_max_evidence_items cfg),
      (''AGENT_MAX_ACTION_HISTORY'', agent_max_action_history cfg)])"

definition valid_agent_limits :: "settings \<Rightarrow> bool" where
  "valid_agent_limits cfg \<longleftrightarrow> invalid_agent_limits cfg = []"

lemma valid_agent_limitsD:
  assumes "valid_agent_limits cfg"
  shows "1 \<le> max_agent_iterations cfg" "1 \<le> agent_max_local_tool_calls cfg"
    "1 \<le> agent_max_planner_calls cfg" "1 \<le> agent_max_no_progress_steps cfg"
    "1 \<le> agent_max_read_lines cfg" "1 \<le> agent_max_evidence_items cfg"
    "1 \<le> agent_max_action_history cfg" "1 \<le> agent_max_planner_tokens cfg"
  using assms by (auto simp: valid_agent_limits_def invalid_agent_limits_def split: if_splits)

lemma default_settings_valid: "valid_agent_limits default_settings"
  by (simp add: valid_agent_limits_def invalid_agent_limits_def default_settings_def)

lemma allowed_test_commands_nonempty: "c \<in> allowed_test_commands cfg \<Longrightarrow> c \<noteq> []"
  by (auto simp: allowed_test_commands_def)

end
