(* ===== verification/FixState.thy ===== *)
theory FixState
  imports Settings
begin

text \<open>
  The state shared by the nodes of the repair graph (\<open>backend/app/agent/state.py\<close>), as one
  record in the order of the source's lifecycle sections.  A field the initial state does not
  set is an option, \<open>None\<close> while it is absent; nodes return partial updates, which here are
  record updates.  Two fields no node reads or writes (\<open>parsed_issue\<close>, \<open>external_context\<close>) are left out.
\<close>

text \<open>One entry of \<open>action_history\<close> and one item of \<open>evidence\<close>.\<close>

record history_entry =
  h_sequence :: int
  h_action :: pyval
  h_arguments :: pydict
  h_hypothesis :: pyval
  h_rationale :: pyval
  h_fingerprint :: "string option"
  h_status :: string
  h_observation :: string
  h_timestamp :: isostr

record evidence_item =
  e_id :: string
  e_action :: string
  e_summary :: string
  e_result_fingerprint :: string

text \<open>\<open>action_outcome\<close>: the route chosen, and what the executor says about the action.\<close>

record outcome =
  o_route :: string
  o_ok :: "bool option"
  o_reason :: "string option"
  o_guardrail :: "string option"
  o_observation :: "string option"
  o_evidence_id :: "string option"

definition outcome_of :: "string \<Rightarrow> outcome" where
  "outcome_of r = \<lparr>o_route = r, o_ok = None, o_reason = None, o_guardrail = None,
     o_observation = None, o_evidence_id = None\<rparr>"

text \<open>
  The MCP router's values: a catalog entry, a planned call, a refusal, and a plan.  The source's
  empty plan \<open>{}\<close> is read through \<open>.get(...) or []\<close> everywhere, hence the plan of empty lists.
\<close>

record catalog_entry =
  ct_qualified_name :: string
  ct_server :: string
  ct_name :: string
  ct_description :: pyval
  ct_input_schema :: pydict
  ct_annotations :: pyval
  ct_policy :: string

record mcp_call =
  c_qualified_name :: string
  c_server :: string
  c_tool :: string
  c_arguments :: pydict

record rejection =
  r_tool :: string
  r_reason :: string
  r_detail :: "string option"

record mcp_plan =
  p_calls :: "mcp_call list"
  p_approval_requests :: "mcp_call list"
  p_rejected :: "rejection list"

definition empty_plan :: mcp_plan where
  "empty_plan = \<lparr>p_calls = [], p_approval_requests = [], p_rejected = []\<rparr>"

record fix_state =
  run_id :: string
  repo_id :: string
  user_input :: string
  test_command :: "string option"
  resolved_test_command :: "string option"
  regression_test_command :: "string option"
  inspection_result :: pydict
  baseline_test_result :: "pydict option"
  diagnostic_test_result :: "pydict option"
  repo_memory :: pydict
  retrieved_chunks :: pyval
  code_graphs :: "pyval list"
  files :: "(string \<times> string) list"
  mcp_tool_catalog :: "catalog_entry list"
  mcp_catalog_errors :: "pydict list"
  mcp_tool_plan :: mcp_plan
  mcp_round_results :: "pydict list"
  mcp_observations :: "pydict list"
  mcp_router_round :: int
  mcp_call_count :: int
  mcp_max_rounds :: int
  mcp_max_calls :: int
  mcp_pending_approval_id :: "string option"
  mcp_pending_execution_id :: "string option"
  mcp_call_cursor :: int
  resume_from :: "string option"
  diagnosis :: string
  current_action :: pydict
  action_outcome :: "outcome option"
  action_history :: "history_entry list"
  hypotheses :: "string list"
  evidence :: "evidence_item list"
  evidence_fingerprints :: "string list"
  local_action_fingerprints :: "string list"
  patch_fingerprints :: "string list"
  local_tool_call_count :: int
  local_planner_call_count :: int
  local_planner_token_count :: int
  agent_loop_started_at :: isostr
  agent_loop_deadline_at :: isostr
  no_progress_count :: int
  finish_reason :: "string option"
  patch_is_duplicate :: bool
  patch :: string
  apply_result :: "pydict option"
  test_result :: "pydict option"
  targeted_test_result :: "pydict option"
  regression_test_result :: "pydict option"
  verification_result :: "pydict option"
  reflection :: "pydict option"
  iterations :: int
  max_iterations :: int
  final_diff :: "string option"
  final_summary :: "string option"
  status :: "string option"

text \<open>A dictionary in boolean context: absent and empty are both false.\<close>

definition present :: "pydict option \<Rightarrow> bool" where
  "present r \<longleftrightarrow> r \<noteq> None \<and> r \<noteq> Some []"

definition dict_or :: "pydict option \<Rightarrow> pydict option \<Rightarrow> pydict option" where
  \<comment> \<open>\<open>a or b\<close>\<close>
  "dict_or a b = (if present a then a else b)"

definition dict_of :: "pydict option \<Rightarrow> pydict" where
  \<comment> \<open>\<open>a or {}\<close>\<close>
  "dict_of a = (case a of None \<Rightarrow> [] | Some d \<Rightarrow> d)"

definition apply_ok :: "fix_state \<Rightarrow> bool" where
  \<comment> \<open>\<open>(state.get("apply_result") or {}).get("ok")\<close> as a condition\<close>
  "apply_ok s \<longleftrightarrow> truthy (dget (dict_of (apply_result s)) ''ok'')"

lemma present_simps [simp]: "\<not> present None" "present (Some d) \<longleftrightarrow> d \<noteq> []"
  by (simp_all add: present_def)

lemma dict_of_simps [simp]: "dict_of None = []" "dict_of (Some d) = d"
  by (simp_all add: dict_of_def)

end
