(* ===== verification/Verification.thy ===== *)
theory Verification
  imports FixState
begin

text \<open>
  \<open>backend/app/agent/verification.py\<close>: the classification of raw test evidence, the routing
  decisions of the graph that depend on it, and the only verdict a repair run can end with.
  Test evidence is the untyped mapping of the source, so a producer's flag of the wrong type
  is part of the model.  An \<open>exit_code\<close> that is not hashable is outside it.
\<close>

section \<open>Outcomes and statuses\<close>

datatype test_outcome = Passed | Failed | Skipped | Infra_error | Not_run

datatype verification_status =
  VERIFIED_SUCCESS | UNVERIFIED_PATCH | NOT_REPRODUCED | FAILED | INFRA_ERROR

fun status_str :: "verification_status \<Rightarrow> string" where
  "status_str VERIFIED_SUCCESS = ''verified_success''"
| "status_str UNVERIFIED_PATCH = ''unverified_patch''"
| "status_str NOT_REPRODUCED = ''not_reproduced''"
| "status_str FAILED = ''failed''"
| "status_str INFRA_ERROR = ''infra_error''"

definition TERMINAL_AGENT_RUN_STATUSES :: "string set" where
  "TERMINAL_AGENT_RUN_STATUSES =
     {status_str VERIFIED_SUCCESS, status_str UNVERIFIED_PATCH, status_str NOT_REPRODUCED,
      status_str FAILED, status_str INFRA_ERROR}"

lemma status_str_inject [simp]: "status_str a = status_str b \<longleftrightarrow> a = b"
  by (cases a; cases b) simp_all

lemma status_str_terminal [simp]: "status_str st \<in> TERMINAL_AGENT_RUN_STATUSES"
  by (cases st) (simp_all add: TERMINAL_AGENT_RUN_STATUSES_def)

section \<open>Classifying one test result\<close>

definition infrastructure_exit_code :: "pyval \<Rightarrow> bool" where
  "infrastructure_exit_code v \<longleftrightarrow> (\<exists>n \<in> {124, 125, 126, 127 :: int}. py_eq_int v n)"

definition classify_test_result :: "pydict option \<Rightarrow> test_outcome" where
  "classify_test_result result =
     (if \<not> present result then Not_run
      else
        let r = dict_of result; failure_kind = dget r ''failure_kind'' in
        if failure_kind = PStr ''infrastructure'' \<or> dget r ''timed_out'' = PBool True then Infra_error
        else if failure_kind = PStr ''skipped'' \<or> truthy (dget r ''skipped_reason'') then Skipped
        else if failure_kind = PStr ''test_failure'' then Failed
        else if dget r ''tests_ran'' \<noteq> PBool True then Infra_error
        else
          let exit_code = dget r ''exit_code'' in
          if dget r ''passed'' = PBool True \<and> py_eq_int exit_code 0 then Passed
          else if failure_kind = PStr ''infrastructure'' \<or> infrastructure_exit_code exit_code
          then Infra_error
          else Failed)"

text \<open>What a pass means: every piece of evidence agrees, whatever the producer claims.\<close>

definition pass_evidence :: "pydict \<Rightarrow> bool" where
  "pass_evidence r \<longleftrightarrow>
     dget r ''tests_ran'' = PBool True \<and> dget r ''passed'' = PBool True \<and>
     py_eq_int (dget r ''exit_code'') 0 \<and> dget r ''timed_out'' \<noteq> PBool True \<and>
     \<not> truthy (dget r ''skipped_reason'') \<and>
     dget r ''failure_kind'' \<notin> {PStr ''infrastructure'', PStr ''skipped'', PStr ''test_failure''}"

lemma classify_empty [simp]:
  "classify_test_result None = Not_run" "classify_test_result (Some []) = Not_run"
  by (simp_all add: classify_test_result_def)

lemma classify_passed_iff:
  "classify_test_result result = Passed \<longleftrightarrow> (\<exists>r. result = Some r \<and> pass_evidence r)"
  by (cases result)
     (auto simp: classify_test_result_def pass_evidence_def Let_def split: if_splits)

text \<open>
  A failure needs a run: no result that says the tests did not run counts as a failed suite,
  unless the producer states \<open>test_failure\<close> outright.
\<close>

lemma classify_failed_ran:
  "classify_test_result result = Failed \<Longrightarrow>
     \<exists>r. result = Some r \<and>
       (dget r ''failure_kind'' = PStr ''test_failure'' \<or> dget r ''tests_ran'' = PBool True)"
  by (cases result) (auto simp: classify_test_result_def Let_def split: if_splits)

section \<open>Routing\<close>

definition retry_or_finish :: "fix_state \<Rightarrow> string" where
  "retry_or_finish s = (if iterations s \<ge> max_iterations s then ''final'' else ''reflect'')"

definition route_after_reproduction :: "fix_state \<Rightarrow> string" where
  "route_after_reproduction s =
     (let baseline_outcome = classify_test_result (baseline_test_result s) in
      if baseline_outcome \<in> {Passed, Infra_error} then ''final'' else ''continue'')"

definition route_after_targeted_tests :: "fix_state \<Rightarrow> string" where
  "route_after_targeted_tests s =
     (if \<not> apply_ok s then retry_or_finish s
      else
        let targeted_outcome = classify_test_result (targeted_test_result s) in
        if targeted_outcome = Passed then ''regression''
        else if targeted_outcome \<in> {Skipped, Infra_error, Not_run} then ''final''
        else retry_or_finish s)"

definition route_after_regression_checks :: "fix_state \<Rightarrow> string" where
  "route_after_regression_checks s =
     (let regression_outcome = classify_test_result (regression_test_result s) in
      if regression_outcome \<in> {Passed, Skipped, Infra_error, Not_run} then ''final''
      else retry_or_finish s)"

section \<open>The verdict\<close>

definition determine_status ::
  "pydict option \<Rightarrow> pydict option \<Rightarrow> pydict option \<Rightarrow> pydict option \<Rightarrow> verification_status \<times> string" where
  "determine_status baseline targeted regression apply_res =
     (let baseline_outcome = classify_test_result baseline in
      if baseline_outcome = Infra_error then (INFRA_ERROR, ''baseline_infrastructure_error'')
      else if baseline_outcome = Passed then (NOT_REPRODUCED, ''baseline_already_passed'')
      else if \<not> present apply_res \<or> \<not> truthy (dget (dict_of apply_res) ''ok'')
      then (FAILED, ''patch_not_applied'')
      else
        let targeted_outcome = classify_test_result targeted in
        if targeted_outcome = Infra_error then (INFRA_ERROR, ''targeted_test_infrastructure_error'')
        else if targeted_outcome \<in> {Skipped, Not_run} then (UNVERIFIED_PATCH, ''targeted_tests_not_run'')
        else if targeted_outcome = Failed then (FAILED, ''targeted_tests_failed'')
        else
          let regression_outcome = classify_test_result regression in
          if regression_outcome = Infra_error
          then (INFRA_ERROR, ''regression_test_infrastructure_error'')
          else if regression_outcome \<in> {Skipped, Not_run}
          then (UNVERIFIED_PATCH, ''regression_tests_not_run'')
          else if regression_outcome = Failed then (FAILED, ''regression_tests_failed'')
          else if baseline_outcome \<noteq> Failed
          then (UNVERIFIED_PATCH, ''baseline_failure_not_reproduced'')
          else (VERIFIED_SUCCESS, ''baseline_failed_and_post_patch_suites_passed''))"

definition opt_dict :: "pydict option \<Rightarrow> pyval" where
  "opt_dict d = (case d of None \<Rightarrow> PNone | Some e \<Rightarrow> PDict e)"

definition build_verification_result :: "fix_state \<Rightarrow> pydict" where
  "build_verification_result s =
     (let baseline = baseline_test_result s;
          targeted = targeted_test_result s;
          regression = regression_test_result s;
          apply_res = apply_result s;
          (st, reason) = determine_status baseline targeted regression apply_res;
          last_result = dict_of (dict_or regression (dict_or targeted (dict_or baseline (Some []))));
          targeted_passed = (classify_test_result targeted = Passed);
          regression_passed = (classify_test_result regression = Passed)
      in [(''status'', PStr (status_str st)),
          (''reason'', PStr reason),
          (''verified'', PBool (st = VERIFIED_SUCCESS)),
          (''passed'', PBool (st = VERIFIED_SUCCESS)),
          (''tests_ran'', PBool (targeted_passed \<and> regression_passed)),
          (''exit_code'', dget last_result ''exit_code''),
          (''command'', dget last_result ''command''),
          (''stdout'', dget_or last_result ''stdout'' (PStr '''')),
          (''stderr'', dget_or last_result ''stderr'' (PStr '''')),
          (''timed_out'', PBool (truthy (dget last_result ''timed_out''))),
          (''runtime'', dget last_result ''runtime''),
          (''skipped_reason'', dget last_result ''skipped_reason''),
          (''baseline_reproduced'', PBool (classify_test_result baseline = Failed)),
          (''patch_applied'', PBool (present apply_res \<and> truthy (dget (dict_of apply_res) ''ok''))),
          (''targeted_tests_passed'', PBool targeted_passed),
          (''regression_tests_passed'', PBool regression_passed),
          (''baseline'', opt_dict baseline),
          (''targeted'', opt_dict targeted),
          (''regression'', opt_dict regression)])"

definition verification_evidence_is_complete :: "pydict option \<Rightarrow> bool" where
  "verification_evidence_is_complete result =
     (if \<not> present result \<or> dget (dict_of result) ''status'' \<noteq> PStr (status_str VERIFIED_SUCCESS)
      then False
      else
        let r = dict_of result in
        classify_test_result (as_dict (dget r ''baseline'')) = Failed \<and>
        classify_test_result (as_dict (dget r ''targeted'')) = Passed \<and>
        classify_test_result (as_dict (dget r ''regression'')) = Passed \<and>
        dget r ''patch_applied'' = PBool True)"

text \<open>The summaries are Chinese text; they are written as their UTF-8 bytes.\<close>

fun summary_text :: "verification_status \<Rightarrow> string" where
  "summary_text VERIFIED_SUCCESS = utf8
      [80, 97, 116, 99, 104, 32, 229, 137, 141, 229, 183, 178, 229, 164, 141, 231, 142,
      176, 229, 164, 177, 232, 180, 165, 239, 188, 155, 80, 97, 116, 99, 104, 32, 229,
      144, 142, 231, 155, 174, 230, 160, 135, 230, 181, 139, 232, 175, 149, 228, 184,
      142, 229, 155, 158, 229, 189, 146, 230, 181, 139, 232, 175, 149, 229, 157, 135,
      229, 174, 158, 233, 153, 133, 230, 137, 167, 232, 161, 140, 229, 185, 182, 233,
      128, 154, 232, 191, 135, 227, 128, 130]"
| "summary_text UNVERIFIED_PATCH = utf8
      [80, 97, 116, 99, 104, 32, 229, 183, 178, 229, 186, 148, 231, 148, 168, 239, 188,
      140, 228, 189, 134, 231, 155, 174, 230, 160, 135, 230, 181, 139, 232, 175, 149,
      230, 136, 150, 229, 155, 158, 229, 189, 146, 230, 181, 139, 232, 175, 149, 230,
      156, 170, 229, 174, 158, 233, 153, 133, 232, 191, 144, 232, 161, 140, 239, 188,
      140, 231, 187, 147, 230, 158, 156, 230, 156, 170, 233, 170, 140, 232, 175, 129,
      227, 128, 130]"
| "summary_text NOT_REPRODUCED = utf8
      [80, 97, 116, 99, 104, 32, 229, 137, 141, 230, 181, 139, 232, 175, 149, 229, 183,
      178, 231, 187, 143, 233, 128, 154, 232, 191, 135, 239, 188, 140, 230, 156, 170,
      229, 164, 141, 231, 142, 176, 229, 142, 159, 229, 167, 139, 229, 164, 177, 232,
      180, 165, 239, 188, 140, 229, 155, 160, 230, 173, 164, 230, 156, 170, 231, 148,
      159, 230, 136, 144, 228, 191, 174, 229, 164, 141, 227, 128, 130]"
| "summary_text FAILED = utf8
      [80, 97, 116, 99, 104, 32, 229, 186, 148, 231, 148, 168, 230, 136, 150, 230, 181,
      139, 232, 175, 149, 229, 156, 168, 230, 156, 128, 229, 164, 167, 232, 191, 173,
      228, 187, 163, 230, 172, 161, 230, 149, 176, 229, 134, 133, 230, 156, 170, 233,
      128, 154, 232, 191, 135, 227, 128, 130]"
| "summary_text INFRA_ERROR = utf8
      [230, 178, 153, 231, 174, 177, 227, 128, 129, 228, 190, 157, 232, 181, 150, 227,
      128, 129, 231, 189, 145, 231, 187, 156, 230, 136, 150, 230, 137, 167, 232, 161,
      140, 229, 159, 186, 231, 161, 128, 232, 174, 190, 230, 150, 189, 230, 149, 133,
      233, 154, 156, 239, 188, 140, 230, 151, 160, 230, 179, 149, 229, 174, 140, 230,
      136, 144, 229, 143, 175, 228, 191, 161, 233, 170, 140, 232, 175, 129, 227, 128,
      130]"

definition verification_summary :: "verification_status \<Rightarrow> string \<Rightarrow> string" where
  "verification_summary st reason = summary_text st @ utf8
      [32, 229, 142, 159, 229, 155, 160, 239, 188, 154] @ reason"

section \<open>Facts about the verdict\<close>

lemma as_dict_opt_dict [simp]: "as_dict (opt_dict d) = d"
  by (simp add: opt_dict_def split: option.splits)

lemma present_truthy_ok [simp]:
  "present r \<and> truthy (dget (dict_of r) k) \<longleftrightarrow> truthy (dget (dict_of r) k)"
  by (cases r) auto

lemma determine_status_verified_iff:
  "fst (determine_status b t r a) = VERIFIED_SUCCESS \<longleftrightarrow>
     classify_test_result b = Failed \<and> truthy (dget (dict_of a) ''ok'') \<and>
     classify_test_result t = Passed \<and> classify_test_result r = Passed"
proof -
  have "present a" if "truthy (dget (dict_of a) ''ok'')" using that by (cases a) auto
  then show ?thesis
    by (cases "classify_test_result b"; cases "classify_test_result t"; cases "classify_test_result r")
       (simp_all add: determine_status_def Let_def, blast+)
qed

lemma build_verification_result_fields:
  "dget (build_verification_result s) ''status'' =
     PStr (status_str (fst (determine_status (baseline_test_result s) (targeted_test_result s)
       (regression_test_result s) (apply_result s))))"
  "dget (build_verification_result s) ''reason'' =
     PStr (snd (determine_status (baseline_test_result s) (targeted_test_result s)
       (regression_test_result s) (apply_result s)))"
  "dget (build_verification_result s) ''baseline'' = opt_dict (baseline_test_result s)"
  "dget (build_verification_result s) ''targeted'' = opt_dict (targeted_test_result s)"
  "dget (build_verification_result s) ''regression'' = opt_dict (regression_test_result s)"
  "dget (build_verification_result s) ''patch_applied'' = PBool (apply_ok s)"
  "present (Some (build_verification_result s))"
  by (simp_all add: build_verification_result_def apply_ok_def Let_def split: prod.splits)

end
