(* ===== verification/LocalLoop.thy ===== *)
theory LocalLoop
  imports Verification
begin

text \<open>
  The controlled local loop: the action schema of \<open>backend/app/agent/actions.py\<close> and the
  deterministic executor of \<open>backend/app/agent/loop.py\<close>.  The schema validator (pydantic), the
  digest and the tools are parameters, collected in \<open>loop_env\<close>; a tool may raise.
\<close>

section \<open>Actions\<close>

text \<open>
  The discriminated union \<open>PlanNextAction\<close>: the two reasoning fields every action has, and the
  fields of its class.
\<close>

datatype request =
    SearchCode string int
  | ReadFile string int "int option"
  | ListFiles "string option"
  | FindSymbol string
  | FindReferences string
  | GetImportGraph string string int
  | GetCallGraph string string int
  | RunTests string
  | GeneratePatch
  | Finish string

record action =
  hypothesis :: string
  rationale :: string
  req :: request

fun action_name :: "request \<Rightarrow> string" where
  "action_name (SearchCode q k) = ''SearchCode''"
| "action_name (ReadFile p s e) = ''ReadFile''"
| "action_name (ListFiles p) = ''ListFiles''"
| "action_name (FindSymbol s) = ''FindSymbol''"
| "action_name (FindReferences s) = ''FindReferences''"
| "action_name (GetImportGraph p d n) = ''GetImportGraph''"
| "action_name (GetCallGraph s d n) = ''GetCallGraph''"
| "action_name (RunTests c) = ''RunTests''"
| "action_name GeneratePatch = ''GeneratePatch''"
| "action_name (Finish r) = ''Finish''"

fun request_fields :: "request \<Rightarrow> pydict" where
  "request_fields (SearchCode q k) = [(''query'', PStr q), (''top_k'', PInt k)]"
| "request_fields (ReadFile p s e) =
     [(''path'', PStr p), (''start_line'', PInt s),
      (''end_line'', case e of None \<Rightarrow> PNone | Some n \<Rightarrow> PInt n)]"
| "request_fields (ListFiles p) = [(''pattern'', str_or_none p)]"
| "request_fields (FindSymbol s) = [(''symbol'', PStr s)]"
| "request_fields (FindReferences s) = [(''symbol'', PStr s)]"
| "request_fields (GetImportGraph p d n) =
     [(''path'', PStr p), (''direction'', PStr d), (''depth'', PInt n)]"
| "request_fields (GetCallGraph s d n) =
     [(''symbol'', PStr s), (''direction'', PStr d), (''depth'', PInt n)]"
| "request_fields (RunTests c) = [(''command'', PStr c)]"
| "request_fields GeneratePatch = []"
| "request_fields (Finish r) = [(''reason'', PStr r)]"

definition model_dump :: "action \<Rightarrow> pydict" where
  "model_dump a =
     [(''hypothesis'', PStr (hypothesis a)), (''rationale'', PStr (rationale a)),
      (''action'', PStr (action_name (req a)))] @ request_fields (req a)"

definition LOCAL_TOOL_ACTIONS :: "request \<Rightarrow> bool" where
  "LOCAL_TOOL_ACTIONS r \<longleftrightarrow> (case r of GeneratePatch \<Rightarrow> False | Finish x \<Rightarrow> False | _ \<Rightarrow> True)"

text \<open>The field constraints of the schema, which every validated action satisfies.\<close>

definition len_in :: "nat \<Rightarrow> nat \<Rightarrow> string \<Rightarrow> bool" where
  "len_in lo hi s \<longleftrightarrow> lo \<le> length s \<and> length s \<le> hi \<and> py_strip s = s"

definition ident_start :: "char \<Rightarrow> bool" where
  "ident_start c \<longleftrightarrow> (let n = (of_char c :: nat) in
     (65 \<le> n \<and> n \<le> 90) \<or> (97 \<le> n \<and> n \<le> 122) \<or> n = 95 \<or> n = 36)"

definition symbol_char :: "char \<Rightarrow> bool" where
  \<comment> \<open>\<open>[\w$.:/-]\<close>, where \<open>\w\<close> takes every non-ASCII byte\<close>
  "symbol_char c \<longleftrightarrow> ident_start c \<or> (let n = (of_char c :: nat) in
     (48 \<le> n \<and> n \<le> 57) \<or> 128 \<le> n \<or> n \<in> {46, 58, 47, 45})"

definition symbol_ok :: "string \<Rightarrow> bool" where
  "symbol_ok s \<longleftrightarrow> len_in 1 255 s \<and> ident_start (hd s) \<and> list_all symbol_char (tl s)"

fun request_ok :: "request \<Rightarrow> bool" where
  "request_ok (SearchCode q k) \<longleftrightarrow> len_in 2 2000 q \<and> 1 \<le> k \<and> k \<le> 12"
| "request_ok (ReadFile p s e) \<longleftrightarrow> len_in 1 500 p \<and> 1 \<le> s \<and>
     (case e of None \<Rightarrow> True | Some n \<Rightarrow> 1 \<le> n \<and> s \<le> n)"
| "request_ok (ListFiles p) \<longleftrightarrow> (case p of None \<Rightarrow> True | Some s \<Rightarrow> len_in 0 500 s)"
| "request_ok (FindSymbol s) \<longleftrightarrow> symbol_ok s"
| "request_ok (FindReferences s) \<longleftrightarrow> symbol_ok s"
| "request_ok (GetImportGraph p d n) \<longleftrightarrow>
     len_in 1 500 p \<and> d \<in> {''imports'', ''importers'', ''both''} \<and> 1 \<le> n \<and> n \<le> 3"
| "request_ok (GetCallGraph s d n) \<longleftrightarrow>
     symbol_ok s \<and> d \<in> {''callers'', ''callees'', ''both''} \<and> 1 \<le> n \<and> n \<le> 3"
| "request_ok (RunTests c) \<longleftrightarrow> len_in 1 500 c"
| "request_ok GeneratePatch \<longleftrightarrow> True"
| "request_ok (Finish r) \<longleftrightarrow> len_in 1 2000 r"

definition action_ok :: "action \<Rightarrow> bool" where
  "action_ok a \<longleftrightarrow> len_in 1 2000 (hypothesis a) \<and> len_in 1 2000 (rationale a) \<and> request_ok (req a)"

definition action_fingerprint :: "(string \<Rightarrow> string) \<Rightarrow> action \<Rightarrow> string" where
  "action_fingerprint sha a =
     (let payload = filter (\<lambda>kv. fst kv \<notin> {''hypothesis'', ''rationale''}) (model_dump a)
      in sha (json_dumps True True (PDict payload)))"

section \<open>Tools\<close>

text \<open>The call a tool action makes, with the arguments \<open>_dispatch\<close> computes.\<close>

datatype tool_call =
    T_search_code string int
  | T_read_file string int int
  | T_list_files "string option"
  | T_find_symbol string
  | T_find_references string
  | T_get_import_graph string string int
  | T_get_call_graph string string int
  | T_run_tests string string

record loop_env =
  sha256 :: "string \<Rightarrow> string"
  validate_python :: "pydict \<Rightarrow> string + action"
  dispatch_tool :: "tool_call \<Rightarrow> string + pyval"
  now :: time

definition read_end :: "settings \<Rightarrow> int \<Rightarrow> int option \<Rightarrow> int" where
  \<comment> \<open>\<open>action.end_line or (action.start_line + agent_max_read_lines - 1)\<close>\<close>
  "read_end cfg start_line end_line =
     (case end_line of None \<Rightarrow> start_line + agent_max_read_lines cfg - 1
      | Some n \<Rightarrow> if n = 0 then start_line + agent_max_read_lines cfg - 1 else n)"

fun tool_of :: "settings \<Rightarrow> request \<Rightarrow> tool_call option" where
  "tool_of cfg (SearchCode q k) = Some (T_search_code q k)"
| "tool_of cfg (ReadFile p s e) = Some (T_read_file p s (read_end cfg s e))"
| "tool_of cfg (ListFiles p) = Some (T_list_files p)"
| "tool_of cfg (FindSymbol s) = Some (T_find_symbol s)"
| "tool_of cfg (FindReferences s) = Some (T_find_references s)"
| "tool_of cfg (GetImportGraph p d n) = Some (T_get_import_graph p d n)"
| "tool_of cfg (GetCallGraph s d n) = Some (T_get_call_graph s d n)"
| "tool_of cfg (RunTests c) = Some (T_run_tests c ''diagnostic'')"
| "tool_of cfg r = None"

definition dispatch :: "settings \<Rightarrow> loop_env \<Rightarrow> request \<Rightarrow> string + pyval" where
  "dispatch cfg env r =
     (case tool_of cfg r of
        None \<Rightarrow> Inl (''Unsupported local action: '' @ action_name r)
      | Some call \<Rightarrow> dispatch_tool env call)"

section \<open>Budgets\<close>

definition deadline_reached :: "time \<Rightarrow> fix_state \<Rightarrow> bool" where
  "deadline_reached t s =
     (if agent_loop_deadline_at s = NotIso '''' then False
      else case fromisoformat (agent_loop_deadline_at s) of
             None \<Rightarrow> True
           | Some deadline \<Rightarrow> t \<ge> deadline)"

definition planner_budget_violation :: "settings \<Rightarrow> time \<Rightarrow> fix_state \<Rightarrow> string option" where
  "planner_budget_violation cfg t s =
     (if deadline_reached t s then Some ''agent_loop_time_budget_exhausted''
      else if local_planner_call_count s \<ge> agent_max_planner_calls cfg
      then Some ''agent_planner_call_budget_exhausted''
      else if local_planner_token_count s \<ge> agent_max_planner_tokens cfg
      then Some ''agent_planner_token_budget_exhausted''
      else if no_progress_count s \<ge> agent_max_no_progress_steps cfg
      then Some ''agent_no_progress_limit_reached''
      else None)"

definition tool_budget_violation :: "settings \<Rightarrow> time \<Rightarrow> fix_state \<Rightarrow> string option" where
  "tool_budget_violation cfg t s =
     (if deadline_reached t s then Some ''agent_loop_time_budget_exhausted''
      else if local_tool_call_count s \<ge> agent_max_local_tool_calls cfg
      then Some ''agent_local_tool_call_budget_exhausted''
      else None)"

section \<open>Bookkeeping\<close>

definition action_arguments :: "pydict \<Rightarrow> pydict" where
  "action_arguments raw =
     filter (\<lambda>kv. fst kv \<notin> {''action'', ''hypothesis'', ''rationale''}) raw"

definition append_bounded_unique :: "int \<Rightarrow> string list \<Rightarrow> string \<Rightarrow> string list" where
  "append_bounded_unique limit items value =
     py_tail limit (if value \<notin> set items then items @ [value] else items)"

definition diagnosis_text :: "string list \<Rightarrow> evidence_item list \<Rightarrow> string" where
  "diagnosis_text hyps ev =
     (let nl = [CHR 0x0A];
          none = ''- None yet'';
          h = join nl (map (\<lambda>item. ''- '' @ item) (py_tail 8 hyps));
          e = join nl (map (\<lambda>item. ''- ['' @ e_id item @ ''] '' @ e_summary item) (py_tail 12 ev));
          hypothesis_text = (if h = [] then none else h);
          evidence_text = (if e = [] then none else e)
      in ''Current hypotheses:'' @ nl @ hypothesis_text @ nl @ nl @ ''Evidence:'' @ nl @ evidence_text)"

definition append_history ::
  "settings \<Rightarrow> loop_env \<Rightarrow> fix_state \<Rightarrow> action \<Rightarrow> string \<Rightarrow> string \<Rightarrow> history_entry list" where
  "append_history cfg env s a st observation =
     (let history = action_history s
      in py_tail (agent_max_action_history cfg) (history @
        [\<lparr>h_sequence = int (length history) + 1,
          h_action = PStr (action_name (req a)),
          h_arguments = action_arguments (model_dump a),
          h_hypothesis = PStr (hypothesis a),
          h_rationale = PStr (rationale a),
          h_fingerprint = Some (action_fingerprint (sha256 env) a),
          h_status = st,
          h_observation = take 4000 observation,
          h_timestamp = Iso (now env)\<rparr>]))"

definition guardrail_rejection ::
  "settings \<Rightarrow> loop_env \<Rightarrow> fix_state \<Rightarrow> pydict \<Rightarrow> string \<Rightarrow> string list \<Rightarrow> fix_state" where
  \<comment> \<open>the last argument is the source's optional \<open>hypotheses\<close>, \<open>[]\<close> when not given\<close>
  "guardrail_rejection cfg env s raw reason hyps =
     (let no_progress = no_progress_count s + 1;
          route = (if no_progress \<ge> agent_max_no_progress_steps cfg then ''final'' else ''plan'');
          history = action_history s;
          entry = \<lparr>h_sequence = int (length history) + 1,
                   h_action = dget_or raw ''action'' (PStr ''InvalidAction''),
                   h_arguments = action_arguments raw,
                   h_hypothesis = dget raw ''hypothesis'',
                   h_rationale = dget raw ''rationale'',
                   h_fingerprint = None,
                   h_status = ''rejected'',
                   h_observation = reason,
                   h_timestamp = Iso (now env)\<rparr>;
          final_hypotheses = (if hyps \<noteq> [] then hyps else hypotheses s)
      in s\<lparr>current_action := raw,
           action_outcome := Some ((outcome_of route)\<lparr>o_ok := Some False, o_guardrail := Some reason\<rparr>),
           action_history := py_tail (agent_max_action_history cfg) (history @ [entry]),
           hypotheses := final_hypotheses,
           no_progress_count := no_progress,
           finish_reason := (if route = ''final'' then Some reason else None),
           diagnosis := diagnosis_text final_hypotheses (evidence s)\<rparr>)"

definition forced_finish ::
  "settings \<Rightarrow> loop_env \<Rightarrow> fix_state \<Rightarrow> action \<Rightarrow> string \<Rightarrow> string list \<Rightarrow> fix_state" where
  "forced_finish cfg env s a reason hyps =
     s\<lparr>current_action := model_dump a,
       action_outcome := Some ((outcome_of ''final'')\<lparr>o_ok := Some False, o_guardrail := Some reason\<rparr>),
       action_history := append_history cfg env s a ''rejected'' reason,
       hypotheses := hyps,
       finish_reason := Some reason,
       diagnosis := diagnosis_text hyps (evidence s)\<rparr>"

section \<open>Evidence\<close>

fun result_paths :: "pyval list \<Rightarrow> string list \<Rightarrow> string list" where
  \<comment> \<open>the distinct string paths of a result list, in order\<close>
  "result_paths [] paths = paths"
| "result_paths (item # items) paths =
     (let path = (case item of PDict d \<Rightarrow> dget d ''file_path'' | v \<Rightarrow> v)
      in case path of
           PStr p \<Rightarrow> result_paths items (if p \<in> set paths then paths else paths @ [p])
         | _ \<Rightarrow> result_paths items paths)"

fun list_len :: "pyval \<Rightarrow> nat" where
  \<comment> \<open>\<open>len(v or [])\<close> for a list\<close>
  "list_len (PList xs) = length xs"
| "list_len v = 0"

definition generic_summary :: "string \<Rightarrow> pyval \<Rightarrow> string" where
  "generic_summary name result =
     (case result of
        PList items \<Rightarrow>
          (let paths = join '', '' (result_paths (take 8 items) [])
           in name @ '' returned '' @ str_int (int (length items)) @ '' result(s): '' @
              (if paths = [] then ''no paths'' else paths) @ ''.'')
      | _ \<Rightarrow> name @ '' returned: '' @ take 1000 (json_dumps False False result))"

definition relation_summary :: "string \<Rightarrow> pydict \<Rightarrow> string" where
  "relation_summary name d =
     name @ '' returned '' @ str_int (int (list_len (dget d ''nodes''))) @
     '' static-navigation node(s) and '' @ str_int (int (list_len (dget d ''edges''))) @ '' '' @
     py_str (dget_or d ''relation'' (PStr ''relations'')) @ '' candidate edge(s).''"

definition content_of :: "pydict \<Rightarrow> string" where
  \<comment> \<open>\<open>str(result.get("content") or "")\<close>\<close>
  "content_of d = (let c = dget d ''content'' in if truthy c then py_str c else [])"

definition observation_summary :: "(string \<Rightarrow> string) \<Rightarrow> request \<Rightarrow> pyval \<Rightarrow> string" where
  "observation_summary sha r result =
     (case (r, result) of
        (ReadFile path start_line end_line, PDict d) \<Rightarrow>
          (let content = content_of d in
           ''Read '' @ path @ '':'' @ str_int start_line @ ''-'' @
           (case end_line of None \<Rightarrow> ''bounded'' | Some n \<Rightarrow> if n = 0 then ''bounded'' else str_int n) @
           '' ('' @ str_int (int (length content)) @ '' chars, sha256='' @ take 12 (sha content) @ '').'')
      | (RunTests c, PDict d) \<Rightarrow>
          ''Diagnostic tests command='' @ py_repr (dget d ''command'') @
          '', tests_ran='' @ str_bool (truthy (dget d ''tests_ran'')) @
          '', exit_code='' @ py_str (dget d ''exit_code'') @
          '', passed='' @ str_bool (truthy (dget d ''passed'')) @ ''.''
      | (GetImportGraph p dir n, PDict d) \<Rightarrow> relation_summary ''GetImportGraph'' d
      | (GetCallGraph p dir n, PDict d) \<Rightarrow> relation_summary ''GetCallGraph'' d
      | _ \<Rightarrow> generic_summary (action_name r) result)"

definition build_evidence ::
  "(string \<Rightarrow> string) \<Rightarrow> request \<Rightarrow> pyval \<Rightarrow> evidence_item \<times> string \<times> bool" where
  "build_evidence sha r result =
     (let serialized = json_dumps True False result;
          fingerprint = sha serialized;
          item = \<lparr>e_id = take 16 fingerprint, e_action = action_name r,
                  e_summary = observation_summary sha r result,
                  e_result_fingerprint = fingerprint\<rparr>;
          made_progress =
            (case result of
               PDict d \<Rightarrow> truthy (dget d ''content'') \<or> truthy (dget d ''tests_ran'') \<or>
                          truthy (dget d ''nodes'') \<or> truthy (dget d ''edges'')
             | _ \<Rightarrow> truthy result)
      in (item, fingerprint, made_progress))"

fun put_file :: "(string \<times> string) list \<Rightarrow> string \<Rightarrow> string \<Rightarrow> (string \<times> string) list" where
  "put_file fs p c = AList.update p c fs"

end
