(* ===== verification/Executor.thy ===== *)
theory Executor
  imports LocalLoop
begin

text \<open>
  \<open>LocalAgentExecutor.execute\<close>: every guard in the source's order, the dispatch, and the state
  update.  \<open>Inl\<close> is an exception a tool raised, which nothing in the executor catches.
\<close>

section \<open>Guards\<close>

definition read_too_long :: "settings \<Rightarrow> request \<Rightarrow> bool" where
  "read_too_long cfg r =
     (case r of
        ReadFile path start_line end_line \<Rightarrow>
          read_end cfg start_line end_line - start_line + 1 > agent_max_read_lines cfg
      | _ \<Rightarrow> False)"

definition command_not_allowed :: "settings \<Rightarrow> request \<Rightarrow> bool" where
  "command_not_allowed cfg r =
     (case r of RunTests command \<Rightarrow> command \<notin> allowed_test_commands cfg | _ \<Rightarrow> False)"

section \<open>After the tool returned\<close>

definition record_result ::
  "settings \<Rightarrow> loop_env \<Rightarrow> fix_state \<Rightarrow> action \<Rightarrow> string list \<Rightarrow> pyval \<Rightarrow> string + fix_state" where
  "record_result cfg env s a hyps result =
     (let r = req a;
          fingerprint = action_fingerprint (sha256 env) a;
          (item, evidence_fingerprint, progress) = build_evidence (sha256 env) r result;
          fresh = (evidence_fingerprint \<notin> set (evidence_fingerprints s));
          ev = (if fresh then py_tail (agent_max_evidence_items cfg) (evidence s @ [item])
                else evidence s);
          ev_fps = (if fresh then py_tail (agent_max_evidence_items cfg)
                                    (evidence_fingerprints s @ [evidence_fingerprint])
                    else evidence_fingerprints s);
          made_progress = (fresh \<and> progress);
          no_progress = (if made_progress then 0 else no_progress_count s + 1);
          observation = e_summary item;
          history = append_history cfg env s a ''completed'' observation;
          outcome_route = (if no_progress \<ge> agent_max_no_progress_steps cfg then ''final'' else ''plan'');
          finish = (if outcome_route = ''final'' then Some ''agent_no_progress_limit_reached'' else None);
          s' = s\<lparr>current_action := model_dump a,
                 action_outcome := Some ((outcome_of outcome_route)
                   \<lparr>o_ok := Some True, o_observation := Some observation,
                    o_evidence_id := Some (e_id item)\<rparr>),
                 action_history := history,
                 hypotheses := hyps,
                 evidence := ev,
                 evidence_fingerprints := ev_fps,
                 local_action_fingerprints :=
                   py_tail (agent_max_action_history cfg) (local_action_fingerprints s @ [fingerprint]),
                 local_tool_call_count := local_tool_call_count s + 1,
                 no_progress_count := no_progress,
                 finish_reason := finish,
                 diagnosis := diagnosis_text hyps ev\<rparr>
      in case r of
           ReadFile path start_line end_line \<Rightarrow>
             (case result of
                PDict d \<Rightarrow> Inr (s'\<lparr>files := put_file (files s) path (content_of d)\<rparr>)
              | _ \<Rightarrow> Inl ''AttributeError'')
         | SearchCode q k \<Rightarrow> Inr (s'\<lparr>retrieved_chunks := result\<rparr>)
         | FindSymbol q \<Rightarrow> Inr (s'\<lparr>retrieved_chunks := result\<rparr>)
         | FindReferences q \<Rightarrow> Inr (s'\<lparr>retrieved_chunks := result\<rparr>)
         | GetImportGraph p d n \<Rightarrow> Inr (s'\<lparr>code_graphs := py_tail 4 (code_graphs s @ [result])\<rparr>)
         | GetCallGraph p d n \<Rightarrow> Inr (s'\<lparr>code_graphs := py_tail 4 (code_graphs s @ [result])\<rparr>)
         | RunTests c \<Rightarrow>
             (case result of
                PDict d \<Rightarrow> Inr (s'\<lparr>diagnostic_test_result := Some d\<rparr>)
              | _ \<Rightarrow> Inl ''AttributeError'')
         | _ \<Rightarrow> Inr s')"

definition execute_tool ::
  "settings \<Rightarrow> loop_env \<Rightarrow> fix_state \<Rightarrow> action \<Rightarrow> string list \<Rightarrow> string + fix_state" where
  "execute_tool cfg env s a hyps =
     (case tool_budget_violation cfg (now env) s of
        Some budget_reason \<Rightarrow> Inr (forced_finish cfg env s a budget_reason hyps)
      | None \<Rightarrow>
        if action_fingerprint (sha256 env) a \<in> set (local_action_fingerprints s)
        then Inr (guardrail_rejection cfg env s (model_dump a) ''duplicate_local_action'' hyps)
        else if read_too_long cfg (req a)
        then Inr (guardrail_rejection cfg env s (model_dump a) ''read_line_budget_exceeded'' hyps)
        else if command_not_allowed cfg (req a)
        then Inr (guardrail_rejection cfg env s (model_dump a) ''test_command_not_allowlisted'' hyps)
        else case dispatch cfg env (req a) of
               Inl e \<Rightarrow> Inl e
             | Inr result \<Rightarrow> record_result cfg env s a hyps result)"

definition execute :: "settings \<Rightarrow> loop_env \<Rightarrow> fix_state \<Rightarrow> pydict \<Rightarrow> string + fix_state" where
  "execute cfg env s raw_action =
     (case validate_python env raw_action of
        Inl errors \<Rightarrow>
          Inr (guardrail_rejection cfg env s raw_action (''invalid_action_schema: '' @ errors) [])
      | Inr a \<Rightarrow>
        let hyps = append_bounded_unique 20 (hypotheses s) (hypothesis a) in
        case req a of
          Finish reason \<Rightarrow>
            Inr (s\<lparr>current_action := model_dump a,
                   action_outcome := Some ((outcome_of ''final'')\<lparr>o_ok := Some True, o_reason := Some reason\<rparr>),
                   action_history := append_history cfg env s a ''finished'' reason,
                   hypotheses := hyps,
                   finish_reason := Some reason,
                   diagnosis := diagnosis_text hyps (evidence s)\<rparr>)
        | GeneratePatch \<Rightarrow>
            Inr (s\<lparr>current_action := model_dump a,
                   action_outcome := Some ((outcome_of ''generate'')\<lparr>o_ok := Some True\<rparr>),
                   action_history := append_history cfg env s a ''accepted''
                     ''Patch generation authorized by the planner.'',
                   hypotheses := hyps,
                   finish_reason := None,
                   diagnosis := diagnosis_text hyps (evidence s)\<rparr>)
        | _ \<Rightarrow>
            if \<not> LOCAL_TOOL_ACTIONS (req a)
            then Inr (guardrail_rejection cfg env s raw_action ''action_not_whitelisted'' [])
            else execute_tool cfg env s a hyps)"

section \<open>What an execution can leave\<close>

text \<open>The route of a state, and the frame of the executor: the fields no branch writes.\<close>

definition route_of :: "fix_state \<Rightarrow> string option" where
  "route_of s = map_option o_route (action_outcome s)"

definition verdict_fields ::
  "fix_state \<Rightarrow> pydict option \<times> pydict option \<times> pydict option \<times> pydict option \<times> string \<times> int \<times> int" where
  "verdict_fields s = (baseline_test_result s, targeted_test_result s, regression_test_result s,
     apply_result s, patch s, iterations s, max_iterations s)"

definition mcp_fields :: "fix_state \<Rightarrow> int \<times> int \<times> int \<times> int \<times> string option" where
  "mcp_fields s = (mcp_router_round s, mcp_call_count s, mcp_max_rounds s, mcp_max_calls s, resume_from s)"

definition planner_fields :: "fix_state \<Rightarrow> int \<times> int \<times> isostr \<times> isostr" where
  "planner_fields s = (local_planner_call_count s, local_planner_token_count s,
     agent_loop_started_at s, agent_loop_deadline_at s)"

lemma outcome_of_route [simp]: "o_route (outcome_of r) = r"
  by (simp add: outcome_of_def)

lemma record_result_frame:
  "record_result cfg env s a hyps result = Inr s' \<Longrightarrow>
     verdict_fields s' = verdict_fields s \<and> mcp_fields s' = mcp_fields s \<and>
     planner_fields s' = planner_fields s \<and> patch_fingerprints s' = patch_fingerprints s"
  by (auto simp: record_result_def Let_def verdict_fields_def mcp_fields_def planner_fields_def
      split: prod.splits request.splits pyval.splits)

lemma guardrail_rejection_frame:
  "verdict_fields (guardrail_rejection cfg env s raw r h) = verdict_fields s"
  "mcp_fields (guardrail_rejection cfg env s raw r h) = mcp_fields s"
  "planner_fields (guardrail_rejection cfg env s raw r h) = planner_fields s"
  "patch_fingerprints (guardrail_rejection cfg env s raw r h) = patch_fingerprints s"
  by (simp_all add: guardrail_rejection_def Let_def verdict_fields_def mcp_fields_def planner_fields_def)

lemma forced_finish_frame:
  "verdict_fields (forced_finish cfg env s a r h) = verdict_fields s"
  "mcp_fields (forced_finish cfg env s a r h) = mcp_fields s"
  "planner_fields (forced_finish cfg env s a r h) = planner_fields s"
  "patch_fingerprints (forced_finish cfg env s a r h) = patch_fingerprints s"
  by (simp_all add: forced_finish_def Let_def verdict_fields_def mcp_fields_def planner_fields_def)

lemmas rejection_frame = guardrail_rejection_frame forced_finish_frame

lemma execute_tool_frame:
  "execute_tool cfg env s a hyps = Inr s' \<Longrightarrow>
     verdict_fields s' = verdict_fields s \<and> mcp_fields s' = mcp_fields s \<and>
     planner_fields s' = planner_fields s \<and> patch_fingerprints s' = patch_fingerprints s"
  by (auto simp: execute_tool_def rejection_frame dest!: record_result_frame
      split: option.splits if_splits sum.splits)

lemma execute_frame:
  assumes "execute cfg env s raw = Inr s'"
  shows "verdict_fields s' = verdict_fields s \<and> mcp_fields s' = mcp_fields s \<and>
     planner_fields s' = planner_fields s \<and> patch_fingerprints s' = patch_fingerprints s"
proof (cases "validate_python env raw")
  case (Inl e)
  then show ?thesis using assms by (auto simp: execute_def rejection_frame)
next
  case (Inr a)
  then show ?thesis using assms
    by (cases "req a")
       (auto simp: execute_def Let_def rejection_frame LOCAL_TOOL_ACTIONS_def verdict_fields_def
         mcp_fields_def planner_fields_def dest!: execute_tool_frame)
qed

section \<open>Invariant of the loop's counters and windows\<close>

definition loop_inv :: "settings \<Rightarrow> fix_state \<Rightarrow> bool" where
  "loop_inv cfg s \<longleftrightarrow>
     0 \<le> local_tool_call_count s \<and> local_tool_call_count s \<le> agent_max_local_tool_calls cfg \<and>
     0 \<le> no_progress_count s \<and>
     distinct (local_action_fingerprints s) \<and> distinct (evidence_fingerprints s) \<and>
     int (length (local_action_fingerprints s)) \<le> local_tool_call_count s \<and>
     int (length (action_history s)) \<le> agent_max_action_history cfg \<and>
     int (length (evidence s)) \<le> agent_max_evidence_items cfg \<and>
     length (evidence s) = length (evidence_fingerprints s)"

lemma length_append_history:
  "1 \<le> agent_max_action_history cfg \<Longrightarrow>
     int (length (append_history cfg env s a st ob)) \<le> agent_max_action_history cfg"
  by (simp add: append_history_def Let_def length_py_tail)

lemma loop_inv_guardrail:
  "loop_inv cfg s \<Longrightarrow> 1 \<le> agent_max_action_history cfg \<Longrightarrow>
     loop_inv cfg (guardrail_rejection cfg env s raw r h)"
  by (simp add: loop_inv_def guardrail_rejection_def Let_def length_py_tail)

lemma loop_inv_forced:
  "loop_inv cfg s \<Longrightarrow> 1 \<le> agent_max_action_history cfg \<Longrightarrow>
     loop_inv cfg (forced_finish cfg env s a r h)"
  by (simp add: loop_inv_def forced_finish_def length_append_history)

lemma length_py_tail_snoc:
  "length (py_tail n (xs @ [x])) = length (py_tail n (ys @ [y]))" if "length xs = length ys"
  using that by (simp add: py_tail_def)

lemma record_result_fields:
  assumes "record_result cfg env s a hyps result = Inr s'"
    and "build_evidence (sha256 env) (req a) result = (item, fp, pr)"
  shows "local_tool_call_count s' = local_tool_call_count s + 1"
    and "local_action_fingerprints s' = py_tail (agent_max_action_history cfg)
           (local_action_fingerprints s @ [action_fingerprint (sha256 env) a])"
    and "no_progress_count s' =
           (if fp \<notin> set (evidence_fingerprints s) \<and> pr then 0 else no_progress_count s + 1)"
    and "action_history s' = append_history cfg env s a ''completed'' (e_summary item)"
    and "evidence s' = (if fp \<notin> set (evidence_fingerprints s)
           then py_tail (agent_max_evidence_items cfg) (evidence s @ [item]) else evidence s)"
    and "evidence_fingerprints s' = (if fp \<notin> set (evidence_fingerprints s)
           then py_tail (agent_max_evidence_items cfg) (evidence_fingerprints s @ [fp])
           else evidence_fingerprints s)"
    and "route_of s' = Some (if no_progress_count s' \<ge> agent_max_no_progress_steps cfg
           then ''final'' else ''plan'')"
  using assms(1)
  by (simp_all add: record_result_def assms(2) route_of_def Let_def
      split: request.splits pyval.splits) (safe; simp)+

lemma loop_inv_record_result:
  assumes inv: "loop_inv cfg s"
    and pos: "1 \<le> agent_max_action_history cfg" "1 \<le> agent_max_evidence_items cfg"
    and budget: "local_tool_call_count s < agent_max_local_tool_calls cfg"
    and new: "action_fingerprint (sha256 env) a \<notin> set (local_action_fingerprints s)"
    and res: "record_result cfg env s a hyps result = Inr s'"
  shows "loop_inv cfg s'"
proof -
  obtain item fp pr where b: "build_evidence (sha256 env) (req a) result = (item, fp, pr)"
    by (cases "build_evidence (sha256 env) (req a) result") auto
  note f = record_result_fields [OF res b]
  let ?n = "agent_max_evidence_items cfg"
  let ?fps = "local_action_fingerprints s @ [action_fingerprint (sha256 env) a]"
  have i: "0 \<le> local_tool_call_count s" "distinct (local_action_fingerprints s)"
    "distinct (evidence_fingerprints s)" "0 \<le> no_progress_count s"
    "int (length (local_action_fingerprints s)) \<le> local_tool_call_count s"
    "int (length (evidence s)) \<le> ?n" "length (evidence s) = length (evidence_fingerprints s)"
    using inv by (simp_all add: loop_inv_def)
  have "distinct (py_tail (agent_max_action_history cfg) ?fps)"
    using i new by (intro distinct_py_tail) simp
  moreover have "int (length (py_tail (agent_max_action_history cfg) ?fps)) \<le> local_tool_call_count s + 1"
    using i pos by (simp add: py_tail_def)
  moreover have "distinct (evidence_fingerprints s')" "length (evidence s') = length (evidence_fingerprints s')"
    using i by (simp_all add: f distinct_py_tail length_py_tail_snoc)
  moreover have "int (length (evidence s')) \<le> ?n"
    using i pos by (simp add: f length_py_tail)
  ultimately show ?thesis
    using i pos budget by (simp add: loop_inv_def f length_append_history)
qed

lemma loop_inv_execute_tool:
  assumes "loop_inv cfg s" "valid_agent_limits cfg" "execute_tool cfg env s a hyps = Inr s'"
  shows "loop_inv cfg s'"
  using assms(3) valid_agent_limitsD [OF assms(2)] assms(1)
  by (auto simp: execute_tool_def tool_budget_violation_def
      intro: loop_inv_guardrail loop_inv_forced loop_inv_record_result
      split: option.splits if_splits sum.splits)

lemma loop_inv_execute:
  assumes "loop_inv cfg s" "valid_agent_limits cfg" "execute cfg env s raw = Inr s'"
  shows "loop_inv cfg s'"
proof (cases "validate_python env raw")
  case (Inl e)
  then show ?thesis using assms valid_agent_limitsD [OF assms(2)]
    by (auto simp: execute_def intro: loop_inv_guardrail)
next
  case (Inr a)
  note lim = valid_agent_limitsD [OF assms(2)]
  show ?thesis
  proof (cases "LOCAL_TOOL_ACTIONS (req a)")
    case True
    then have "execute cfg env s raw =
        execute_tool cfg env s a (append_bounded_unique 20 (hypotheses s) (hypothesis a))"
      using Inr by (cases "req a") (simp_all add: execute_def Let_def LOCAL_TOOL_ACTIONS_def)
    then show ?thesis using assms loop_inv_execute_tool by metis
  next
    case False
    then show ?thesis using assms(1,3) Inr lim
      by (cases "req a")
         (auto simp: execute_def Let_def LOCAL_TOOL_ACTIONS_def loop_inv_def length_append_history)
  qed
qed

end
