(* ===== verification/FixGraph.thy ===== *)
theory FixGraph
  imports AgentNodes
begin

text \<open>
  The repair graph: the routing functions and edges of \<open>backend/app/agent/graph.py\<close>, the step
  relation they give over the nodes of \<open>AgentNodes\<close>, the workspace the steps act on, and the ways
  a run goes on in a later worker (checkpoint retry, approval, reconciled execution).
\<close>

section \<open>Nodes and routes\<close>

datatype node =
    InspectRepository | ReproduceFailure | InitializeAgentLoop | PlanNextAction
  | ExecuteLocalAction | PlanMCPTools | CallMCPTools | ObserveMCP | PauseForApproval
  | PauseForReconciliation | GeneratePatchNode | ApplyPatch | TargetedTests | RegressionChecks
  | Reflect | FinalAnswer | END

definition truthy_str :: "string option \<Rightarrow> bool" where
  "truthy_str x \<longleftrightarrow> x \<noteq> None \<and> x \<noteq> Some []"

definition after_reflect :: "fix_state \<Rightarrow> string" where
  "after_reflect s = (if truthy_str (finish_reason s) then ''final'' else ''plan'')"

definition after_local_action :: "fix_state \<Rightarrow> string" where
  "after_local_action s =
     (let route = route_of s in
      if route = Some ''generate'' then ''mcp'' else if route = Some ''final'' then ''final'' else ''plan'')"

definition after_patch_generation :: "fix_state \<Rightarrow> string" where
  "after_patch_generation s = (if patch_is_duplicate s then ''plan'' else ''apply'')"

definition after_mcp_plan :: "fix_state \<Rightarrow> string" where
  "after_mcp_plan s =
     (if truthy_str (mcp_pending_approval_id s) then ''pause''
      else if p_calls (mcp_tool_plan s) \<noteq> [] then ''call'' else ''generate'')"

definition after_mcp_observe :: "fix_state \<Rightarrow> string" where
  "after_mcp_observe s =
     (if mcp_router_round s \<ge> mcp_max_rounds s then ''generate''
      else if mcp_call_count s \<ge> mcp_max_calls s then ''generate''
      else ''plan'')"

definition after_mcp_call :: "fix_state \<Rightarrow> string" where
  "after_mcp_call s = (if truthy_str (mcp_pending_execution_id s) then ''pause'' else ''observe'')"

definition graph_entry :: "fix_state \<Rightarrow> string" where
  "graph_entry s =
     (if resume_from s = Some ''mcp_call'' then ''call''
      else if resume_from s = Some ''mcp_observe'' then ''observe'' else ''start'')"

section \<open>Edges\<close>

text \<open>
  The edges of \<open>build_fix_graph\<close>.  A conditional edge looks its route up in the declared table;
  a route missing from it would be an error of the graph (\<open>None\<close>).
\<close>

definition entry_node :: "fix_state \<Rightarrow> node option" where
  "entry_node s = map_of
     [(''start'', InspectRepository), (''call'', CallMCPTools), (''observe'', ObserveMCP)] (graph_entry s)"

fun next_node :: "node \<Rightarrow> fix_state \<Rightarrow> node option" where
  "next_node InspectRepository s = Some ReproduceFailure"
| "next_node ReproduceFailure s = map_of
     [(''continue'', InitializeAgentLoop), (''final'', FinalAnswer)] (route_after_reproduction s)"
| "next_node InitializeAgentLoop s = Some PlanNextAction"
| "next_node PlanNextAction s = Some ExecuteLocalAction"
| "next_node ExecuteLocalAction s = map_of
     [(''plan'', PlanNextAction), (''mcp'', PlanMCPTools), (''final'', FinalAnswer)] (after_local_action s)"
| "next_node PlanMCPTools s = map_of
     [(''call'', CallMCPTools), (''pause'', PauseForApproval), (''generate'', GeneratePatchNode)]
     (after_mcp_plan s)"
| "next_node PauseForApproval s = Some END"
| "next_node CallMCPTools s = map_of
     [(''pause'', PauseForReconciliation), (''observe'', ObserveMCP)] (after_mcp_call s)"
| "next_node PauseForReconciliation s = Some END"
| "next_node ObserveMCP s = map_of
     [(''plan'', PlanMCPTools), (''generate'', GeneratePatchNode)] (after_mcp_observe s)"
| "next_node GeneratePatchNode s = map_of
     [(''apply'', ApplyPatch), (''plan'', PlanNextAction)] (after_patch_generation s)"
| "next_node ApplyPatch s = Some TargetedTests"
| "next_node TargetedTests s = map_of
     [(''regression'', RegressionChecks), (''reflect'', Reflect), (''final'', FinalAnswer)]
     (route_after_targeted_tests s)"
| "next_node RegressionChecks s = map_of
     [(''reflect'', Reflect), (''final'', FinalAnswer)] (route_after_regression_checks s)"
| "next_node Reflect s = map_of
     [(''plan'', PlanNextAction), (''final'', FinalAnswer)] (after_reflect s)"
| "next_node FinalAnswer s = Some END"
| "next_node END s = None"

lemmas route_defs = after_reflect_def after_local_action_def after_patch_generation_def
  after_mcp_plan_def after_mcp_observe_def after_mcp_call_def graph_entry_def
  route_after_reproduction_def route_after_targeted_tests_def route_after_regression_checks_def
  retry_or_finish_def

lemma next_node_cases:
  "next_node ReproduceFailure s = Some n \<Longrightarrow> n = InitializeAgentLoop \<or> n = FinalAnswer"
  "next_node ExecuteLocalAction s = Some n \<Longrightarrow>
     (n = PlanNextAction \<and> route_of s \<noteq> Some ''final'' \<and> route_of s \<noteq> Some ''generate'') \<or>
     (n = PlanMCPTools \<and> route_of s = Some ''generate'') \<or> (n = FinalAnswer \<and> route_of s = Some ''final'')"
  "next_node PlanMCPTools s = Some n \<Longrightarrow>
     (n = CallMCPTools \<and> p_calls (mcp_tool_plan s) \<noteq> []) \<or>
     (n = PauseForApproval \<and> truthy_str (mcp_pending_approval_id s)) \<or> n = GeneratePatchNode"
  "next_node CallMCPTools s = Some n \<Longrightarrow>
     (n = PauseForReconciliation \<and> truthy_str (mcp_pending_execution_id s)) \<or>
     (n = ObserveMCP \<and> \<not> truthy_str (mcp_pending_execution_id s))"
  "next_node ObserveMCP s = Some n \<Longrightarrow>
     (n = PlanMCPTools \<and> mcp_router_round s < mcp_max_rounds s) \<or> n = GeneratePatchNode"
  "next_node GeneratePatchNode s = Some n \<Longrightarrow>
     (n = ApplyPatch \<and> \<not> patch_is_duplicate s) \<or> (n = PlanNextAction \<and> patch_is_duplicate s)"
  "next_node TargetedTests s = Some n \<Longrightarrow>
     (n = RegressionChecks \<and> apply_ok s \<and> classify_test_result (targeted_test_result s) = Passed) \<or>
     (n = Reflect \<and> iterations s < max_iterations s) \<or>
     (n = FinalAnswer \<and> (apply_ok s \<longrightarrow> classify_test_result (targeted_test_result s) \<noteq> Passed))"
  "next_node RegressionChecks s = Some n \<Longrightarrow>
     (n = Reflect \<and> iterations s < max_iterations s) \<or> n = FinalAnswer"
  "next_node Reflect s = Some n \<Longrightarrow> n = PlanNextAction \<or> n = FinalAnswer"
  by (auto simp: route_defs Let_def split: if_splits)

section \<open>The world\<close>

text \<open>
  The patches applied to the workspace since it was copied from the repository, and what the
  sandbox may answer on it: test runs, patch application, reset, and the diff.  Answers are
  relations, since a test run may differ between two tries.  The execution service names a paused
  call by a generated id, which is never empty.
\<close>

type_synonym workspace = "string list"

record world =
  test_answer :: "workspace \<Rightarrow> string option \<Rightarrow> string \<Rightarrow> pydict \<Rightarrow> bool"
  apply_answer :: "workspace \<Rightarrow> string \<Rightarrow> pydict \<Rightarrow> bool"
  reset_answer :: "workspace \<Rightarrow> pydict \<Rightarrow> bool"
  diff_answer :: "workspace \<Rightarrow> string"

definition answer_ok :: "pydict \<Rightarrow> bool" where
  "answer_ok d \<longleftrightarrow> truthy (dget d ''ok'')"

text \<open>
  What an answer means for the tree.  A patch that was applied stays in the workspace even when the
  answer is not ok, because the inventory of new files after \<open>git apply\<close> may still fail; a reset
  that is not ok may have left the tree as it was.
\<close>

definition apply_effect :: "workspace \<Rightarrow> string \<Rightarrow> pydict \<Rightarrow> workspace \<Rightarrow> bool" where
  "apply_effect ws p d ws' \<longleftrightarrow> ws' = ws @ [p] \<or> (\<not> answer_ok d \<and> ws' = ws)"

definition reset_effect :: "workspace \<Rightarrow> pydict \<Rightarrow> workspace \<Rightarrow> bool" where
  "reset_effect ws d ws' \<longleftrightarrow> ws' = [] \<or> (\<not> answer_ok d \<and> ws' = ws)"

section \<open>Steps\<close>

record fix_env =
  fe_cfg :: settings
  fe_sha :: "string \<Rightarrow> string"
  fe_validate :: "pydict \<Rightarrow> string + action"
  fe_router_on :: bool
  fe_world :: world

definition loop_env_of :: "fix_env \<Rightarrow> (tool_call \<Rightarrow> string + pyval) \<Rightarrow> time \<Rightarrow> loop_env" where
  "loop_env_of E tools t =
     \<lparr>sha256 = fe_sha E, validate_python = fe_validate E, dispatch_tool = tools, now = t\<rparr>"

inductive node_update :: "fix_env \<Rightarrow> node \<Rightarrow> fix_state \<times> workspace \<Rightarrow> fix_state \<times> workspace \<Rightarrow> bool"
  for E where
  inspect: "node_update E InspectRepository (s, ws) (inspect_repository detect n s, ws)"
| reproduce: "test_answer (fe_world E) ws (resolved_test_command s) ''baseline'' r \<Longrightarrow>
    node_update E ReproduceFailure (s, ws) (reproduce_failure r s, ws)"
| initialize: "node_update E InitializeAgentLoop (s, ws) (initialize_agent_loop (fe_cfg E) t s, ws)"
| plan: "plan_next_action (fe_cfg E) t planner s = Inr s' \<Longrightarrow>
    node_update E PlanNextAction (s, ws) (s', ws)"
| exec: "execute (fe_cfg E) (loop_env_of E tools t) s (current_action s) = Inr s' \<Longrightarrow>
    node_update E ExecuteLocalAction (s, ws) (s', ws)"
| plan_mcp: "(fe_router_on E \<longleftrightarrow> router \<noteq> None) \<Longrightarrow> plan_mcp_tools (fe_cfg E) router s = Inr s' \<Longrightarrow>
    node_update E PlanMCPTools (s, ws) (s', ws)"
| call_mcp: "(\<forall>i c. executions i c \<notin> {Reconciliation_required [], In_progress []}) \<Longrightarrow>
    call_mcp_tools (fe_router_on E) executions s = Inr s' \<Longrightarrow>
    node_update E CallMCPTools (s, ws) (s', ws)"
| observe: "node_update E ObserveMCP (s, ws) (observe_mcp (fe_cfg E) s, ws)"
| pause_approval: "node_update E PauseForApproval (s, ws) (pause_for_approval s, ws)"
| pause_recon: "node_update E PauseForReconciliation (s, ws) (pause_for_reconciliation s, ws)"
| generate: "node_update E GeneratePatchNode (s, ws) (generate_patch (fe_cfg E) (fe_sha E) diff s, ws)"
| apply_p: "apply_answer (fe_world E) ws (patch s) r \<Longrightarrow> apply_effect ws (patch s) r ws' \<Longrightarrow>
    node_update E ApplyPatch (s, ws) (apply_patch_node r s, ws')"
| targeted: "(apply_ok s \<longrightarrow> test_answer (fe_world E) ws (resolved_test_command s) ''targeted'' r) \<Longrightarrow>
    node_update E TargetedTests (s, ws) (targeted_tests r s, ws)"
| regression: "test_answer (fe_world E) ws (regression_test_command s) ''regression'' r \<Longrightarrow>
    node_update E RegressionChecks (s, ws) (regression_checks r s, ws)"
| reflects: "reset_answer (fe_world E) ws r \<Longrightarrow> reset_effect ws r ws' \<Longrightarrow>
    node_update E Reflect (s, ws) (reflect (fe_cfg E) (fe_sha E) r s, ws')"
| final: "node_update E FinalAnswer (s, ws) (final_answer (diff_answer (fe_world E) ws) s, ws)"

inductive_simps node_update_iff:
  "node_update E InspectRepository (s, ws) (s', ws')"
  "node_update E ReproduceFailure (s, ws) (s', ws')"
  "node_update E InitializeAgentLoop (s, ws) (s', ws')"
  "node_update E PlanNextAction (s, ws) (s', ws')"
  "node_update E ExecuteLocalAction (s, ws) (s', ws')"
  "node_update E PlanMCPTools (s, ws) (s', ws')"
  "node_update E CallMCPTools (s, ws) (s', ws')"
  "node_update E ObserveMCP (s, ws) (s', ws')"
  "node_update E PauseForApproval (s, ws) (s', ws')"
  "node_update E PauseForReconciliation (s, ws) (s', ws')"
  "node_update E GeneratePatchNode (s, ws) (s', ws')"
  "node_update E ApplyPatch (s, ws) (s', ws')"
  "node_update E TargetedTests (s, ws) (s', ws')"
  "node_update E RegressionChecks (s, ws) (s', ws')"
  "node_update E Reflect (s, ws) (s', ws')"
  "node_update E FinalAnswer (s, ws) (s', ws')"
  "node_update E END (s, ws) (s', ws')"

type_synonym fconfig = "node \<times> fix_state \<times> workspace"

inductive fix_step :: "fix_env \<Rightarrow> fconfig \<Rightarrow> fconfig \<Rightarrow> bool" for E where
  step: "node_update E n (s, ws) (s', ws') \<Longrightarrow> next_node n s' = Some n' \<Longrightarrow>
    fix_step E (n, s, ws) (n', s', ws')"

inductive_cases fix_stepE: "fix_step E (n, s, ws) (n', s', ws')"

text \<open>
  A worker that starts over from a checkpoint copies the repository again and applies the saved
  patch only where \<open>_rehydrate_checkpoint_workspace\<close> asks for it; a failed re-application raises.
\<close>

definition nodes_requiring_applied_patch :: "node set" where
  "nodes_requiring_applied_patch = {TargetedTests, RegressionChecks, Reflect, FinalAnswer}"

definition needs_rehydration :: "node \<Rightarrow> fix_state \<Rightarrow> bool" where
  "needs_rehydration n s \<longleftrightarrow> patch s \<noteq> [] \<and> apply_ok s \<and> n \<in> nodes_requiring_applied_patch"

definition rehydrate_checkpoint_workspace ::
  "(string \<Rightarrow> pydict) \<Rightarrow> node \<Rightarrow> fix_state \<Rightarrow> string + workspace" where
  "rehydrate_checkpoint_workspace apply_it n s =
     (if \<not> needs_rehydration n s then Inr []
      else
        let restored = apply_it (patch s) in
        if \<not> answer_ok restored
        then Inl (''Failed to rehydrate the patched workspace from the persisted checkpoint: '' @
                  (if truthy (dget restored ''stderr'') then py_str (dget restored ''stderr'')
                   else ''unknown git apply error''))
        else Inr [patch s])"

text \<open>
  Resuming after an approval was resolved (\<open>resume_from_approval\<close>) or an execution reconciled
  (\<open>resume_from_execution\<close>): the saved state with the fields the service sets, in a fresh
  workspace, entering the graph where \<open>graph_entry\<close> says.  The saved state is the checkpoint
  \<open>plan_mcp_tools\<close> and \<open>call_mcp_tools\<close> build when they pause, which already has an empty
  \<open>mcp_tool_plan\<close> or no \<open>mcp_pending_execution_id\<close>: the two functions below join that to the update of
  the service.
\<close>

definition resume_approval_state :: "pydict \<Rightarrow> bool \<Rightarrow> fix_state \<Rightarrow> fix_state" where
  "resume_approval_state result approved s =
     s\<lparr>mcp_tool_plan := empty_plan,
       mcp_round_results := [result],
       mcp_router_round := mcp_router_round s + 1,
       mcp_call_count := mcp_call_count s + (if approved then 1 else 0),
       mcp_pending_approval_id := None,
       mcp_tool_catalog := [],
       mcp_catalog_errors := [],
       resume_from := Some ''mcp_observe'',
       status := Some ''running''\<rparr>"

definition resume_execution_state :: "fix_state \<Rightarrow> fix_state" where
  "resume_execution_state s =
     s\<lparr>mcp_pending_execution_id := None, resume_from := Some ''mcp_call'', status := Some ''running''\<rparr>"

inductive resume_step :: "fix_env \<Rightarrow> fconfig \<Rightarrow> fconfig \<Rightarrow> bool" for E where
  retry: "n \<noteq> END \<Longrightarrow>
    (needs_rehydration n s \<longrightarrow> apply_answer (fe_world E) [] (patch s) (apply_it (patch s))) \<Longrightarrow>
    rehydrate_checkpoint_workspace apply_it n s = Inr ws' \<Longrightarrow>
    resume_step E (n, s, ws) (n, s, ws')"
| approval: "status s = Some ''waiting_approval'' \<Longrightarrow> s' = resume_approval_state result approved s \<Longrightarrow>
    entry_node s' = Some n' \<Longrightarrow> resume_step E (END, s, ws) (n', s', [])"
| execution: "status s = Some ''waiting_reconciliation'' \<Longrightarrow> s' = resume_execution_state s \<Longrightarrow>
    entry_node s' = Some n' \<Longrightarrow> resume_step E (END, s, ws) (n', s', [])"

inductive reachable :: "fix_env \<Rightarrow> fix_state \<Rightarrow> fconfig \<Rightarrow> bool" for E s0 where
  start: "entry_node s0 = Some n \<Longrightarrow> reachable E s0 (n, s0, [])"
| stepped: "reachable E s0 c \<Longrightarrow> fix_step E c c' \<Longrightarrow> reachable E s0 c'"
| resumed: "reachable E s0 c \<Longrightarrow> resume_step E c c' \<Longrightarrow> reachable E s0 c'"

end
