(* ===== verification/GraphProps.thy ===== *)
theory GraphProps
  imports FixGraph
begin

text \<open>
  What the repair graph guarantees: routing never leaves the declared edges, a verified verdict
  rests on test runs of the right workspace, and a run of the graph ends within a bound the
  settings give.
\<close>

section \<open>The evidence invariant\<close>

definition baseline_seen :: "world \<Rightarrow> fix_state \<Rightarrow> bool" where
  "baseline_seen w s \<longleftrightarrow>
     (\<exists>r. baseline_test_result s = Some r \<and> test_answer w [] (resolved_test_command s) ''baseline'' r)"

definition targeted_seen :: "world \<Rightarrow> fix_state \<Rightarrow> workspace \<Rightarrow> bool" where
  "targeted_seen w s ws \<longleftrightarrow>
     (\<exists>r. targeted_test_result s = Some r \<and> test_answer w ws (resolved_test_command s) ''targeted'' r)"

definition regression_seen :: "world \<Rightarrow> fix_state \<Rightarrow> workspace \<Rightarrow> bool" where
  "regression_seen w s ws \<longleftrightarrow>
     (\<exists>r. regression_test_result s = Some r \<and>
        test_answer w ws (regression_test_command s) ''regression'' r)"

fun node_inv :: "world \<Rightarrow> node \<Rightarrow> fix_state \<Rightarrow> workspace \<Rightarrow> bool" where
  "node_inv w TargetedTests s ws \<longleftrightarrow> baseline_seen w s \<and> (apply_ok s \<longrightarrow> patch s \<noteq> []) \<and>
     (apply_ok s \<longrightarrow> ws = [patch s])"
| "node_inv w RegressionChecks s ws \<longleftrightarrow>
     baseline_seen w s \<and> apply_ok s \<and> patch s \<noteq> [] \<and> ws = [patch s] \<and> targeted_seen w s ws"
| "node_inv w Reflect s ws \<longleftrightarrow> baseline_seen w s \<and> (apply_ok s \<longrightarrow> patch s \<noteq> []) \<and>
     (apply_ok s \<longrightarrow> ws = [patch s])"
| "node_inv w FinalAnswer s ws \<longleftrightarrow> baseline_seen w s \<and> (apply_ok s \<longrightarrow> patch s \<noteq> []) \<and>
     (apply_ok s \<longrightarrow> ws = [patch s]) \<and>
     (apply_ok s \<longrightarrow> classify_test_result (targeted_test_result s) = Passed \<longrightarrow>
        targeted_seen w s ws \<and> regression_seen w s ws)"
| "node_inv w END s ws \<longleftrightarrow> baseline_seen w s \<and>
     (if status s \<in> {Some ''waiting_approval'', Some ''waiting_reconciliation''} then \<not> apply_ok s
      else (apply_ok s \<longrightarrow> patch s \<noteq> []) \<and>
        (apply_ok s \<longrightarrow> ws = [patch s]) \<and> final_diff s = Some (diff_answer w ws) \<and>
        status s = Some (status_str (fst (determine_status (baseline_test_result s)
          (targeted_test_result s) (regression_test_result s) (apply_result s)))) \<and>
        (apply_ok s \<longrightarrow> classify_test_result (targeted_test_result s) = Passed \<longrightarrow>
           targeted_seen w s ws \<and> regression_seen w s ws))"
| "node_inv w n s ws \<longleftrightarrow>
     (n \<in> {InspectRepository, ReproduceFailure} \<or> baseline_seen w s) \<and> \<not> apply_ok s \<and> ws = []"

text \<open>
  Two facts about the sandbox the invariant rests on: an empty diff is never applied, and
  \<open>git reset --hard\<close> with \<open>git clean -fd\<close> succeeds in a workspace copied for the run.
\<close>

definition sandbox_ok :: "world \<Rightarrow> bool" where
  "sandbox_ok w \<longleftrightarrow> (\<forall>ws d. apply_answer w ws [] d \<longrightarrow> \<not> answer_ok d) \<and>
     (\<forall>ws d. reset_answer w ws d \<longrightarrow> answer_ok d)"

lemma seen_cong:
  "baseline_test_result s' = baseline_test_result s \<Longrightarrow>
   resolved_test_command s' = resolved_test_command s \<Longrightarrow> baseline_seen w s' = baseline_seen w s"
  by (simp add: baseline_seen_def)

lemma apply_ok_cong: "apply_result s' = apply_result s \<Longrightarrow> apply_ok s' = apply_ok s"
  by (simp add: apply_ok_def)

section \<open>What each node leaves alone\<close>

definition evidence_frame :: "fix_state \<Rightarrow> fix_state \<Rightarrow> bool" where
  "evidence_frame s s' \<longleftrightarrow> baseline_test_result s' = baseline_test_result s \<and>
     resolved_test_command s' = resolved_test_command s \<and>
     regression_test_command s' = regression_test_command s \<and>
     targeted_test_result s' = targeted_test_result s \<and>
     regression_test_result s' = regression_test_result s \<and>
     apply_result s' = apply_result s"

lemma evidence_frame_refl [simp]: "evidence_frame s s"
  by (simp add: evidence_frame_def)

lemma evidence_frame_keeps:
  assumes "evidence_frame s s'"
  shows "baseline_seen w s' = baseline_seen w s" "apply_ok s' = apply_ok s"
    "targeted_seen w s' ws = targeted_seen w s ws" "regression_seen w s' ws = regression_seen w s ws"
  using assms
  by (simp_all add: evidence_frame_def baseline_seen_def apply_ok_def targeted_seen_def regression_seen_def)

lemma record_result_commands:
  "record_result cfg env s a hyps result = Inr s' \<Longrightarrow>
     resolved_test_command s' = resolved_test_command s \<and>
     regression_test_command s' = regression_test_command s"
  by (auto simp: record_result_def Let_def split: prod.splits request.splits pyval.splits)

lemma execute_commands:
  assumes "execute cfg env s raw = Inr s'"
  shows "resolved_test_command s' = resolved_test_command s \<and>
     regression_test_command s' = regression_test_command s"
proof (cases "validate_python env raw")
  case (Inl e)
  then show ?thesis using assms by (auto simp: execute_def guardrail_rejection_def Let_def)
next
  case (Inr a)
  then show ?thesis using assms
    by (cases "req a")
       (auto simp: execute_def Let_def LOCAL_TOOL_ACTIONS_def execute_tool_def guardrail_rejection_def
         forced_finish_def dest!: record_result_commands split: option.splits if_splits sum.splits)
qed

lemma execute_evidence_frame: "execute cfg env s raw = Inr s' \<Longrightarrow> evidence_frame s s'"
  using execute_frame [of cfg env s raw s'] execute_commands [of cfg env s raw s']
  by (auto simp: evidence_frame_def verdict_fields_def)

lemma plan_next_action_frame:
  assumes "plan_next_action cfg t planner s = Inr s'"
  shows "evidence_frame s s'" "local_planner_call_count s' = local_planner_call_count s + 1"
    "mcp_router_round s' = mcp_router_round s" "mcp_max_rounds s' = mcp_max_rounds s"
  using assms
  by (auto simp: plan_next_action_def Let_def evidence_frame_def split: sum.splits prod.splits)

lemma plan_mcp_tools_frame:
  assumes "plan_mcp_tools cfg router s = Inr s'"
  shows "evidence_frame s s'" "mcp_router_round s' = mcp_router_round s"
    "mcp_max_rounds s' = mcp_max_rounds s" "local_planner_call_count s' = local_planner_call_count s"
  using assms
  by (auto simp: plan_mcp_tools_def Let_def evidence_frame_def
      split: option.splits if_splits prod.splits sum.splits list.splits)

lemma call_loop_frame:
  "call_loop exec s index calls results = Inr (Inl s') \<Longrightarrow>
     evidence_frame s s' \<and> mcp_router_round s' = mcp_router_round s \<and>
     mcp_max_rounds s' = mcp_max_rounds s \<and> local_planner_call_count s' = local_planner_call_count s \<and>
     mcp_pending_execution_id s' \<noteq> None"
  by (induction exec s index calls results rule: call_loop.induct)
     (auto simp: evidence_frame_def split: call_outcome.splits)

lemma call_mcp_tools_frame:
  assumes "call_mcp_tools on exec s = Inr s'"
  shows "evidence_frame s s'" "mcp_max_rounds s' = mcp_max_rounds s"
    "local_planner_call_count s' = local_planner_call_count s"
  using assms
  by (auto simp: call_mcp_tools_def Let_def evidence_frame_def dest!: call_loop_frame
      split: if_splits sum.splits)

section \<open>The invariant holds\<close>

lemma node_inv_planning_eq:
  "n \<notin> {TargetedTests, RegressionChecks, Reflect, FinalAnswer, END} \<Longrightarrow>
     node_inv w n s ws \<longleftrightarrow>
       (n \<in> {InspectRepository, ReproduceFailure} \<or> baseline_seen w s) \<and> \<not> apply_ok s \<and> ws = []"
  by (cases n) simp_all

lemma framed_planning:
  assumes "evidence_frame s s'" "baseline_seen w s" "\<not> apply_ok s" "ws = []"
  shows "n \<notin> {RegressionChecks, END} \<Longrightarrow> node_inv w n s' ws"
  using assms(2-4) evidence_frame_keeps [OF assms(1)]
  by (cases n) simp_all

lemma node_inv_step_before_patch:
  assumes step: "node_update E n (s, ws) (s', ws')" and nxt: "next_node n s' = Some n'"
    and inv: "node_inv (fe_world E) n s ws"
    and n: "n \<in> {InspectRepository, ReproduceFailure, InitializeAgentLoop, PlanNextAction,
      ExecuteLocalAction, PlanMCPTools, CallMCPTools, ObserveMCP, GeneratePatchNode}"
  shows "node_inv (fe_world E) n' s' ws'"
proof (cases n)
  case InspectRepository
  then show ?thesis using step inv nxt
    by (auto simp: node_update_iff inspect_repository_def Let_def apply_ok_def)
next
  case ReproduceFailure
  then obtain r where r: "test_answer (fe_world E) ws (resolved_test_command s) ''baseline'' r"
    "s' = reproduce_failure r s" "ws' = ws" using step by (auto simp: node_update_iff)
  have "baseline_seen (fe_world E) s'" "\<not> apply_ok s'" "ws' = []" using r inv ReproduceFailure
    by (auto simp: reproduce_failure_def baseline_seen_def apply_ok_def)
  then show ?thesis using nxt ReproduceFailure next_node_cases(1) [of s' n'] by auto
next
  case InitializeAgentLoop
  then show ?thesis using step inv nxt
    by (auto simp: node_update_iff initialize_agent_loop_def apply_ok_def baseline_seen_def)
next
  case PlanNextAction
  then have f: "evidence_frame s s'" "ws' = ws"
    using step by (auto simp: node_update_iff dest: plan_next_action_frame(1))
  then show ?thesis using inv nxt PlanNextAction evidence_frame_keeps [OF f(1)] by auto
next
  case ExecuteLocalAction
  then have f: "evidence_frame s s'" "ws' = ws"
    using step by (auto simp: node_update_iff dest: execute_evidence_frame)
  from nxt ExecuteLocalAction have "n' \<notin> {RegressionChecks, END}"
    using next_node_cases(2) [of s' n'] by auto
  then show ?thesis using inv ExecuteLocalAction f framed_planning [OF f(1)] by simp
next
  case PlanMCPTools
  then have f: "evidence_frame s s'" "ws' = ws"
    using step by (auto simp: node_update_iff dest: plan_mcp_tools_frame(1))
  from nxt PlanMCPTools have "n' \<notin> {RegressionChecks, END}" using next_node_cases(3) [of s' n'] by auto
  then show ?thesis using inv PlanMCPTools f framed_planning [OF f(1)] by simp
next
  case CallMCPTools
  then have f: "evidence_frame s s'" "ws' = ws"
    using step by (auto simp: node_update_iff dest: call_mcp_tools_frame(1))
  from nxt CallMCPTools have "n' \<notin> {RegressionChecks, END}" using next_node_cases(4) [of s' n'] by auto
  then show ?thesis using inv CallMCPTools f framed_planning [OF f(1)] by simp
next
  case ObserveMCP
  then have f: "evidence_frame s s'" "ws' = ws"
    using step by (auto simp: node_update_iff observe_mcp_def Let_def evidence_frame_def)
  from nxt ObserveMCP have "n' \<notin> {RegressionChecks, END}" using next_node_cases(5) [of s' n'] by auto
  then show ?thesis using inv ObserveMCP f framed_planning [OF f(1)] by simp
next
  case GeneratePatchNode
  then have f: "evidence_frame s s'" "ws' = ws"
    using step by (auto simp: node_update_iff generate_patch_def Let_def evidence_frame_def)
  from nxt GeneratePatchNode have "n' \<notin> {RegressionChecks, END}"
    using next_node_cases(6) [of s' n'] by auto
  then show ?thesis using inv GeneratePatchNode f framed_planning [OF f(1)] by simp
qed (use n in auto)

lemma node_inv_step_pause:
  assumes step: "node_update E n (s, ws) (s', ws')" and nxt: "next_node n s' = Some n'"
    and inv: "node_inv (fe_world E) n s ws" and n: "n \<in> {PauseForApproval, PauseForReconciliation}"
  shows "node_inv (fe_world E) n' s' ws'"
  using assms
  by (auto simp: node_update_iff pause_for_approval_def pause_for_reconciliation_def
      baseline_seen_def apply_ok_def)

lemma final_answer_verdict:
  fixes s :: fix_state
  defines "d \<equiv> determine_status (baseline_test_result s) (targeted_test_result s)
     (regression_test_result s) (apply_result s)"
  shows "status (final_answer df s) = Some (status_str (fst d))"
    "evidence_frame s (final_answer df s)" "patch (final_answer df s) = patch s"
    "final_diff (final_answer df s) = Some df"
    "status (final_answer df s) \<notin> {Some ''waiting_approval'', Some ''waiting_reconciliation''}"
  using assms
  by (cases "fst d"; auto simp: final_answer_def Let_def evidence_frame_def split: prod.splits)+

lemma node_inv_step_after_patch:
  assumes w: "sandbox_ok (fe_world E)"
    and step: "node_update E n (s, ws) (s', ws')" and nxt: "next_node n s' = Some n'"
    and inv: "node_inv (fe_world E) n s ws"
    and n: "n \<in> {ApplyPatch, TargetedTests, RegressionChecks, Reflect, FinalAnswer}"
  shows "node_inv (fe_world E) n' s' ws'"
proof (cases n)
  case ApplyPatch
  then obtain r where r: "apply_answer (fe_world E) ws (patch s) r"
    "s' = apply_patch_node r s" "apply_effect ws (patch s) r ws'"
    using step by (auto simp: node_update_iff)
  have "apply_ok s' = answer_ok r" "patch s' = patch s"
    using r by (simp_all add: apply_patch_node_def apply_ok_def answer_ok_def)
  moreover have "answer_ok r \<longrightarrow> patch s \<noteq> []" using w r(1) by (auto simp: sandbox_ok_def)
  ultimately show ?thesis using inv nxt r ApplyPatch
    by (auto simp: apply_patch_node_def apply_effect_def baseline_seen_def)
next
  case TargetedTests
  then obtain r where r: "apply_ok s \<longrightarrow> test_answer (fe_world E) ws (resolved_test_command s) ''targeted'' r"
    "s' = targeted_tests r s" "ws' = ws"
    using step by (auto simp: node_update_iff)
  have f: "apply_ok s' = apply_ok s" "patch s' = patch s"
    "baseline_seen (fe_world E) s' = baseline_seen (fe_world E) s"
    using r by (simp_all add: targeted_tests_def Let_def apply_ok_def baseline_seen_def)
  have t: "targeted_seen (fe_world E) s' ws" if "apply_ok s"
    using that r by (auto simp: targeted_tests_def Let_def targeted_seen_def)
  show ?thesis using inv nxt TargetedTests r(3) f t next_node_cases(7) [of s' n'] by auto
next
  case RegressionChecks
  then obtain r where r: "test_answer (fe_world E) ws (regression_test_command s) ''regression'' r"
    "s' = regression_checks r s" "ws' = ws"
    using step by (auto simp: node_update_iff)
  then have "regression_seen (fe_world E) s' ws" "patch s' = patch s" "apply_ok s' = apply_ok s"
    "targeted_seen (fe_world E) s' ws = targeted_seen (fe_world E) s ws"
    "baseline_seen (fe_world E) s' = baseline_seen (fe_world E) s"
    by (auto simp: regression_checks_def regression_seen_def targeted_seen_def baseline_seen_def apply_ok_def)
  then show ?thesis using inv nxt RegressionChecks r(3) next_node_cases(8) [of s' n'] by auto
next
  case Reflect
  then obtain r where r: "reset_answer (fe_world E) ws r"
    "s' = reflect (fe_cfg E) (fe_sha E) r s" "reset_effect ws r ws'"
    using step by (auto simp: node_update_iff)
  then have "answer_ok r" using w by (auto simp: sandbox_ok_def)
  then show ?thesis using inv nxt Reflect r next_node_cases(9) [of s' n']
    by (auto simp: reflect_def Let_def reset_effect_def baseline_seen_def apply_ok_def)
next
  case FinalAnswer
  then have s': "s' = final_answer (diff_answer (fe_world E) ws) s" "ws' = ws"
    using step by (auto simp: node_update_iff)
  note v = final_answer_verdict [where s = s and df = "diff_answer (fe_world E) ws", folded s']
  show ?thesis using inv nxt FinalAnswer s'(2) v evidence_frame_keeps [OF v(2)] v(2)
    by (auto simp: evidence_frame_def)
qed (use n in auto)

lemma node_inv_step:
  assumes w: "sandbox_ok (fe_world E)" and st: "fix_step E (n, s, ws) (n', s', ws')"
    and inv: "node_inv (fe_world E) n s ws"
  shows "node_inv (fe_world E) n' s' ws'"
proof -
  from st have u: "node_update E n (s, ws) (s', ws')" and x: "next_node n s' = Some n'"
    by (auto elim: fix_stepE)
  have "n \<noteq> END" using x by auto
  then consider "n \<in> {InspectRepository, ReproduceFailure, InitializeAgentLoop, PlanNextAction,
      ExecuteLocalAction, PlanMCPTools, CallMCPTools, ObserveMCP, GeneratePatchNode}"
    | "n \<in> {PauseForApproval, PauseForReconciliation}"
    | "n \<in> {ApplyPatch, TargetedTests, RegressionChecks, Reflect, FinalAnswer}"
    by (cases n) auto
  then show ?thesis
    using node_inv_step_before_patch [OF u x inv] node_inv_step_pause [OF u x inv]
      node_inv_step_after_patch [OF w u x inv] by cases
qed

lemma node_inv_resume:
  assumes "resume_step E (n, s, ws) (n', s', ws')" "node_inv (fe_world E) n s ws"
  shows "node_inv (fe_world E) n' s' ws'"
  using assms(1)
proof cases
  case (retry apply_it)
  then show ?thesis using assms(2)
    by (cases n) (auto simp: rehydrate_checkpoint_workspace_def needs_rehydration_def
      nodes_requiring_applied_patch_def Let_def split: if_splits)
next
  case (approval result approved)
  then show ?thesis using assms(2)
    by (auto simp: resume_approval_state_def entry_node_def graph_entry_def apply_ok_def
      baseline_seen_def split: if_splits)
next
  case execution
  then show ?thesis using assms(2)
    by (auto simp: resume_execution_state_def entry_node_def graph_entry_def apply_ok_def
      baseline_seen_def split: if_splits)
qed

lemma node_inv_reachable:
  assumes "reachable E s0 c" "sandbox_ok (fe_world E)"
    and "resume_from s0 = None" "apply_result s0 = None"
  shows "node_inv (fe_world E) (fst c) (fst (snd c)) (snd (snd c))"
  using assms(1)
proof induction
  case (start n)
  then show ?case using assms(3,4) by (auto simp: entry_node_def graph_entry_def apply_ok_def)
next
  case (stepped c c')
  then show ?case using node_inv_step [OF assms(2)] by (cases c; cases c'; auto)
next
  case (resumed c c')
  then show ?case using node_inv_resume by (cases c; cases c'; auto)
qed

end
