(* ===== verification/LoopTheorems.thy ===== *)
theory LoopTheorems
  imports Executor
begin

text \<open>
  What the verdict rules and the deterministic executor guarantee, each stated over the definitions
  of \<open>Verification\<close> and \<open>Executor\<close>, and a concrete schema validator the witnesses run with.
\<close>

section \<open>Verdicts\<close>

text \<open>
  C3.  A run is classified as verified exactly when the baseline run failed, the patch applied, and
  both post-patch suites carry the complete evidence of a pass: they ran, passed with exit code 0,
  did not time out, and no field says they were skipped, broken or failing.
\<close>

theorem verified_success_iff:
  "fst (determine_status b t r a) = VERIFIED_SUCCESS \<longleftrightarrow>
     classify_test_result b = Failed \<and> (\<exists>d. a = Some d \<and> truthy (dget d ''ok'')) \<and>
     (\<exists>d. t = Some d \<and> pass_evidence d) \<and> (\<exists>d. r = Some d \<and> pass_evidence d)"
proof -
  have "truthy (dget (dict_of a) ''ok'') \<longleftrightarrow> (\<exists>d. a = Some d \<and> truthy (dget d ''ok''))"
    by (cases a) auto
  then show ?thesis
    by (simp add: determine_status_verified_iff classify_passed_iff)
qed

text \<open>
  The independent re-check of a stored verification result agrees with the verdict that
  produced it: for the result built from any state, the evidence is complete exactly when the
  status is \<open>verified_success\<close>, provided the sandbox reports the patch application as a boolean.
\<close>

theorem evidence_check_agrees:
  "verification_evidence_is_complete (Some (build_verification_result s)) \<longleftrightarrow>
     fst (determine_status (baseline_test_result s) (targeted_test_result s)
       (regression_test_result s) (apply_result s)) = VERIFIED_SUCCESS"
  using build_verification_result_fields [of s]
  by (auto simp: verification_evidence_is_complete_def Let_def determine_status_verified_iff apply_ok_def
      simp del: status_str.simps)

section \<open>A schema validator\<close>

text \<open>
  A validator for the action schema, used where a statement needs a concrete one: it reads the
  fields of the dump back and accepts the actions that satisfy the constraints.
\<close>

fun int_opt :: "pyval \<Rightarrow> int option option" where
  "int_opt PNone = Some None"
| "int_opt (PInt n) = Some (Some n)"
| "int_opt v = None"

fun str_opt :: "pyval \<Rightarrow> string option option" where
  "str_opt PNone = Some None"
| "str_opt (PStr s) = Some (Some s)"
| "str_opt v = None"

fun str_of :: "pyval \<Rightarrow> string" where
  "str_of (PStr s) = s"
| "str_of v = []"

fun int_of_val :: "pyval \<Rightarrow> int" where
  "int_of_val (PInt n) = n"
| "int_of_val v = 0"

definition read_request :: "pydict \<Rightarrow> request option" where
  "read_request d =
     (let S = (\<lambda>k. str_of (dget d k)); N = (\<lambda>k. int_of_val (dget d k)); kind = dget d ''action'' in
      if kind = PStr ''SearchCode'' then Some (SearchCode (S ''query'') (N ''top_k''))
      else if kind = PStr ''ReadFile''
      then map_option (ReadFile (S ''path'') (N ''start_line'')) (int_opt (dget d ''end_line''))
      else if kind = PStr ''ListFiles'' then map_option ListFiles (str_opt (dget d ''pattern''))
      else if kind = PStr ''FindSymbol'' then Some (FindSymbol (S ''symbol''))
      else if kind = PStr ''FindReferences'' then Some (FindReferences (S ''symbol''))
      else if kind = PStr ''GetImportGraph''
      then Some (GetImportGraph (S ''path'') (S ''direction'') (N ''depth''))
      else if kind = PStr ''GetCallGraph''
      then Some (GetCallGraph (S ''symbol'') (S ''direction'') (N ''depth''))
      else if kind = PStr ''RunTests'' then Some (RunTests (S ''command''))
      else if kind = PStr ''GeneratePatch'' then Some GeneratePatch
      else if kind = PStr ''Finish'' then Some (Finish (S ''reason''))
      else None)"

definition read_action :: "pydict \<Rightarrow> string + action" where
  "read_action d =
     (case read_request d of
        None \<Rightarrow> Inl ''union_tag_invalid''
      | Some r \<Rightarrow>
          let a = \<lparr>hypothesis = str_of (dget d ''hypothesis''), rationale = str_of (dget d ''rationale''),
                   req = r\<rparr>
          in if action_ok a then Inr a else Inl ''constraint'')"

definition validator_ok :: "(pydict \<Rightarrow> string + action) \<Rightarrow> bool" where
  \<comment> \<open>what the loop relies on in the schema: the dump of an action that satisfies it validates to it\<close>
  "validator_ok v \<longleftrightarrow> (\<forall>a. action_ok a \<longrightarrow> v (model_dump a) = Inr a)"

lemma read_request_dump: "read_request (model_dump a) = Some (req a)"
proof (cases "req a")
  case (ReadFile p s e)
  then show ?thesis by (cases e) (simp_all add: read_request_def model_dump_def Let_def)
next
  case (ListFiles p)
  then show ?thesis by (cases p) (simp_all add: read_request_def model_dump_def Let_def str_or_none_def)
qed (simp_all add: read_request_def model_dump_def Let_def)

lemma read_action_ok: "validator_ok read_action"
proof -
  have "read_action (model_dump a) = Inr a" if "action_ok a" for a
  proof -
    have "dget (model_dump a) ''hypothesis'' = PStr (hypothesis a)"
      "dget (model_dump a) ''rationale'' = PStr (rationale a)" by (simp_all add: model_dump_def)
    moreover have "\<lparr>hypothesis = hypothesis a, rationale = rationale a, req = req a\<rparr> = a" by simp
    ultimately show ?thesis using that by (simp add: read_action_def read_request_dump Let_def action_ok_def)
  qed
  then show ?thesis by (simp add: validator_ok_def)
qed

section \<open>The executor's guards\<close>

text \<open>
  The environments of two executions that differ in their tools only.  Whatever the tools answer,
  a rejected action leaves the same state, so a different state shows that the tool was called.
\<close>

lemma execute_tool_guarded:
  assumes "execute_tool cfg (env\<lparr>dispatch_tool := t1\<rparr>) s a h \<noteq> execute_tool cfg (env\<lparr>dispatch_tool := t2\<rparr>) s a h"
  shows "tool_budget_violation cfg (now env) s = None"
    "action_fingerprint (sha256 env) a \<notin> set (local_action_fingerprints s)"
    "\<not> read_too_long cfg (req a)" "\<not> command_not_allowed cfg (req a)"
  using assms
  by (auto simp: execute_tool_def guardrail_rejection_def forced_finish_def append_history_def Let_def
      split: option.splits if_splits)

text \<open>
  C5.  The tools see an action only after every guard passed.  If the outcome of an execution
  depends on what the tools answer, then the raw action validated to a whitelisted local action,
  the deadline was not reached, the tool budget was not spent, the same action had not run before,
  a requested read was within the line budget and a requested test command was on the allow list.
\<close>

theorem dispatch_requires_guards:
  assumes differs: "execute cfg (env\<lparr>dispatch_tool := t1\<rparr>) s raw \<noteq> execute cfg (env\<lparr>dispatch_tool := t2\<rparr>) s raw"
  shows "\<exists>a. validate_python env raw = Inr a \<and> LOCAL_TOOL_ACTIONS (req a) \<and>
     \<not> deadline_reached (now env) s \<and> local_tool_call_count s < agent_max_local_tool_calls cfg \<and>
     action_fingerprint (sha256 env) a \<notin> set (local_action_fingerprints s) \<and>
     (\<forall>p i j. req a = ReadFile p i j \<longrightarrow> read_end cfg i j - i + 1 \<le> agent_max_read_lines cfg) \<and>
     (\<forall>c. req a = RunTests c \<longrightarrow> c \<in> allowed_test_commands cfg)"
proof (cases "validate_python env raw")
  case (Inl e)
  then show ?thesis using differs by (simp add: execute_def guardrail_rejection_def Let_def)
next
  case (Inr a)
  let ?h = "append_bounded_unique 20 (hypotheses s) (hypothesis a)"
  have tool: "LOCAL_TOOL_ACTIONS (req a)"
    using differs Inr
    by (cases "req a") (simp_all add: execute_def Let_def LOCAL_TOOL_ACTIONS_def append_history_def)
  then have ex: "execute cfg (env\<lparr>dispatch_tool := t\<rparr>) s raw =
      execute_tool cfg (env\<lparr>dispatch_tool := t\<rparr>) s a ?h" for t
    using Inr by (cases "req a") (simp_all add: execute_def Let_def LOCAL_TOOL_ACTIONS_def)
  note g = execute_tool_guarded [OF differs [unfolded ex]]
  have "\<not> deadline_reached (now env) s \<and> local_tool_call_count s < agent_max_local_tool_calls cfg"
    using g(1) by (auto simp: tool_budget_violation_def split: if_splits)
  then show ?thesis using Inr tool g(2-4)
    by (auto simp: read_too_long_def command_not_allowed_def)
qed

text \<open>
  C6.  The deterministic executor keeps its invariant: under validated limits the tool-call budget
  is never exceeded, the remembered fingerprints of actions and of evidence are pairwise distinct,
  there are at most as many of the former as calls, and history and evidence stay within their
  windows.
\<close>

theorem execute_preserves_loop_inv:
  assumes "loop_inv cfg s" "valid_agent_limits cfg" "execute cfg env s raw = Inr s'"
  shows "loop_inv cfg s'"
  using assms by (rule loop_inv_execute)

section \<open>Repeated actions\<close>

lemma fingerprint_of_prose:
  "req a = req b \<Longrightarrow> action_fingerprint sha a = action_fingerprint sha b"
  by (simp add: action_fingerprint_def model_dump_def)

text \<open>
  Re-wording the reasoning does not buy a second run: after a tool action completed, an action
  with the same tool and arguments, whatever its hypothesis and rationale, is rejected as a
  duplicate with the tool untouched, its rejection counting as a step without progress (or the run
  is already over its budget).
\<close>

theorem repeated_action_rejected:
  assumes first: "execute cfg env s raw = Inr s'" "validate_python env raw = Inr a"
    "LOCAL_TOOL_ACTIONS (req a)" "local_tool_call_count s < local_tool_call_count s'"
    and limits: "valid_agent_limits cfg"
    and again: "validate_python env' raw' = Inr b" "req b = req a" "sha256 env' = sha256 env"
    and budget: "tool_budget_violation cfg (now env') s' = None"
  shows "\<exists>h. execute cfg env' s' raw' =
     Inr (guardrail_rejection cfg env' s' (model_dump b) ''duplicate_local_action'' h)"
proof -
  let ?h = "\<lambda>s a. append_bounded_unique 20 (hypotheses s) (hypothesis a)"
  have ex: "execute cfg e u r = execute_tool cfg e u c (?h u c)"
    if "validate_python e r = Inr c" "LOCAL_TOOL_ACTIONS (req c)" for e u r c
    using that by (cases "req c") (simp_all add: execute_def Let_def LOCAL_TOOL_ACTIONS_def)
  have "execute_tool cfg env s a (?h s a) = Inr s'" using first ex by metis
  then obtain result where r: "record_result cfg env s a (?h s a) result = Inr s'"
    using first(4)
    by (auto simp: execute_tool_def guardrail_rejection_def forced_finish_def Let_def
        split: option.splits if_splits sum.splits)
  obtain item fp pr where b: "build_evidence (sha256 env) (req a) result = (item, fp, pr)"
    by (cases "build_evidence (sha256 env) (req a) result") auto
  have "action_fingerprint (sha256 env) a \<in> set (local_action_fingerprints s')"
    using record_result_fields(2) [OF r b] valid_agent_limitsD(7) [OF limits]
    by (simp add: py_tail_append_single)
  then have "action_fingerprint (sha256 env') b \<in> set (local_action_fingerprints s')"
    using again(2,3) fingerprint_of_prose by metis
  then show ?thesis
    using ex [OF again(1)] again(2) first(3) budget by (auto simp: execute_tool_def)
qed

text \<open>
  A tool that raises ends the run: the exception of a dispatched tool is the result of the
  executor itself, no observation is recorded and nothing is counted against the budgets.
\<close>

theorem tool_exception_escapes:
  assumes "validate_python env raw = Inr a" "LOCAL_TOOL_ACTIONS (req a)"
    and "tool_budget_violation cfg (now env) s = None"
    and "action_fingerprint (sha256 env) a \<notin> set (local_action_fingerprints s)"
    and "\<not> read_too_long cfg (req a)" "\<not> command_not_allowed cfg (req a)"
    and "\<And>call. dispatch_tool env call = Inl (exc call)"
  shows "\<exists>call. tool_of cfg (req a) = Some call \<and> execute cfg env s raw = Inl (exc call)"
  using assms
  by (cases "req a")
     (simp_all add: execute_def execute_tool_def Let_def LOCAL_TOOL_ACTIONS_def dispatch_def)

end
