(* ===== verification/RepairTheorems.thy ===== *)
theory RepairTheorems
  imports GraphProps LoopTheorems
begin

text \<open>
  The repair loop from its initial state: how many steps a run can take before the graph ends,
  and what a verified end rests on.  The step bound is a weight of the configuration that every
  edge of the graph lowers.
\<close>

section \<open>The weight of a configuration\<close>

fun node_rank :: "bool \<Rightarrow> node \<Rightarrow> int" where
  \<comment> \<open>the first argument says whether a further MCP round is possible\<close>
  "node_rank m END = 0"
| "node_rank m FinalAnswer = 1"
| "node_rank m PauseForApproval = 1"
| "node_rank m PauseForReconciliation = 1"
| "node_rank m PlanNextAction = 2"
| "node_rank m Reflect = 3"
| "node_rank m RegressionChecks = 4"
| "node_rank m TargetedTests = 5"
| "node_rank m ApplyPatch = 6"
| "node_rank m GeneratePatchNode = 7"
| "node_rank m CallMCPTools = (if m then 8 else 10)"
| "node_rank m PlanMCPTools = (if m then 9 else 8)"
| "node_rank m ObserveMCP = (if m then 10 else 9)"
| "node_rank m ExecuteLocalAction = 11"
| "node_rank m InitializeAgentLoop = 12"
| "node_rank m ReproduceFailure = 13"
| "node_rank m InspectRepository = 14"

definition rounds_left :: "fix_state \<Rightarrow> int" where
  "rounds_left s = max 0 (mcp_max_rounds s - mcp_router_round s)"

definition planner_calls_left :: "fix_env \<Rightarrow> fix_state \<Rightarrow> int" where
  "planner_calls_left E s = max 0 (agent_max_planner_calls (fe_cfg E) + 1 - local_planner_call_count s)"

definition run_weight :: "fix_env \<Rightarrow> node \<Rightarrow> fix_state \<Rightarrow> int" where
  "run_weight E n s = 16 * planner_calls_left E s + 16 * rounds_left s +
     node_rank (fe_router_on E \<and> 0 < rounds_left s) n"

lemma node_rank_bounds: "0 \<le> node_rank m n" "node_rank m n \<le> 14"
  by (cases n; simp)+

lemma run_weight_nonneg: "0 \<le> run_weight E n s"
  using node_rank_bounds(1) by (simp add: run_weight_def planner_calls_left_def rounds_left_def add_nonneg_nonneg)

section \<open>The planner stops at its budget\<close>

definition is_finish :: "(pydict \<Rightarrow> string + action) \<Rightarrow> pydict \<Rightarrow> bool" where
  "is_finish v raw \<longleftrightarrow> (\<exists>a r. v raw = Inr a \<and> req a = Finish r)"

lemma finish_action_validates:
  "validator_ok v \<Longrightarrow> finish_action h r t = Inr a \<Longrightarrow> is_finish v (model_dump a)"
  by (auto simp: finish_action_def Let_def validator_ok_def is_finish_def split: if_splits)

lemma map_sum_Inr: "map_sum id f x = Inr y \<longleftrightarrow> (\<exists>z. x = Inr z \<and> y = f z)"
  by (cases x) auto

lemma plan_next_action_at_budget:
  assumes v: "validator_ok v" and p: "plan_next_action cfg t planner s = Inr s'"
    and b: "agent_max_planner_calls cfg \<le> local_planner_call_count s"
  shows "is_finish v (current_action s')"
proof -
  obtain why where "planner_budget_violation cfg t s = Some why"
    using b by (cases "planner_budget_violation cfg t s") (auto simp: planner_budget_violation_def split: if_splits)
  then show ?thesis using p finish_action_validates [OF v]
    by (auto simp: plan_next_action_def Let_def map_sum_Inr split: sum.splits if_splits)
qed

lemma execute_finish_route:
  assumes "execute cfg env s raw = Inr s'" "is_finish (validate_python env) raw"
  shows "route_of s' = Some ''final''"
  using assms by (auto simp: execute_def is_finish_def route_of_def Let_def)

definition waiting :: "fix_state \<Rightarrow> bool" where
  "waiting s \<longleftrightarrow> status s \<in> {Some ''waiting_approval'', Some ''waiting_reconciliation''}"

fun budget_inv :: "fix_env \<Rightarrow> node \<Rightarrow> fix_state \<Rightarrow> bool" where
  "budget_inv E ExecuteLocalAction s \<longleftrightarrow>
     agent_max_planner_calls (fe_cfg E) < local_planner_call_count s \<longrightarrow>
       is_finish (fe_validate E) (current_action s)"
| "budget_inv E FinalAnswer s \<longleftrightarrow> True"
| "budget_inv E END s \<longleftrightarrow>
     (waiting s \<longrightarrow> local_planner_call_count s \<le> agent_max_planner_calls (fe_cfg E))"
| "budget_inv E n s \<longleftrightarrow> local_planner_call_count s \<le> agent_max_planner_calls (fe_cfg E)"

lemma budget_inv_le:
  "local_planner_call_count s \<le> agent_max_planner_calls (fe_cfg E) \<Longrightarrow> budget_inv E n s"
  by (cases n) auto

definition counters_kept :: "fix_state \<Rightarrow> fix_state \<Rightarrow> bool" where
  "counters_kept s s' \<longleftrightarrow> local_planner_call_count s' = local_planner_call_count s \<and>
     mcp_router_round s' = mcp_router_round s \<and> mcp_max_rounds s' = mcp_max_rounds s"

lemma execute_counters: "execute cfg env s raw = Inr s' \<Longrightarrow> counters_kept s s'"
  using execute_frame [of cfg env s raw s']
  by (simp add: planner_fields_def mcp_fields_def counters_kept_def)

lemma node_update_counters:
  assumes "node_update E n (s, ws) (s', ws')" "n \<notin> {PlanNextAction, CallMCPTools}"
  shows "counters_kept s s'"
  using assms
  by (cases n; clarsimp simp: node_update_iff)
     (auto simp: counters_kept_def inspect_repository_def reproduce_failure_def
        initialize_agent_loop_def observe_mcp_def pause_for_approval_def pause_for_reconciliation_def
        generate_patch_def apply_patch_node_def targeted_tests_def regression_checks_def reflect_def
        final_answer_def Let_def
        dest: plan_mcp_tools_frame execute_counters [unfolded counters_kept_def]
        split: prod.splits)

lemma call_loop_pending:
  "call_loop exec s i calls rs = Inr (Inl s') \<Longrightarrow>
     (\<forall>i c. exec i c \<notin> {Reconciliation_required [], In_progress []}) \<Longrightarrow>
     truthy_str (mcp_pending_execution_id s')"
  by (induction exec s i calls rs rule: call_loop.induct)
     (auto simp: truthy_str_def split: call_outcome.splits)

lemma call_mcp_tools_rounds:
  assumes "call_mcp_tools on exec s = Inr s'" "\<not> truthy_str (mcp_pending_execution_id s')"
    and "\<forall>i c. exec i c \<notin> {Reconciliation_required [], In_progress []}"
  shows "mcp_router_round s' = (if on then mcp_router_round s + 1 else mcp_router_round s)"
  using assms
  by (auto simp: call_mcp_tools_def Let_def dest: call_loop_pending split: if_splits sum.splits)

lemma plan_mcp_tools_calls:
  assumes "plan_mcp_tools cfg router s = Inr s'" "p_calls (mcp_tool_plan s') \<noteq> []"
  shows "router \<noteq> None" "mcp_router_round s < mcp_max_rounds s"
  using assms by (auto simp: plan_mcp_tools_def Let_def empty_plan_def split: option.splits if_splits)

section \<open>Every edge lowers the weight\<close>

lemma counters_kept_weight:
  assumes "counters_kept s s'"
  shows "planner_calls_left E s' = planner_calls_left E s" "rounds_left s' = rounds_left s"
  using assms by (simp_all add: counters_kept_def planner_calls_left_def rounds_left_def)

lemma weight_plan:
  assumes "node_update E PlanNextAction (s, ws) (s', ws')" "budget_inv E PlanNextAction s"
  shows "run_weight E ExecuteLocalAction s' < run_weight E PlanNextAction s"
proof -
  obtain t planner where p: "plan_next_action (fe_cfg E) t planner s = Inr s'"
    using assms(1) by (auto simp: node_update_iff)
  have "rounds_left s' = rounds_left s" "planner_calls_left E s' = planner_calls_left E s - 1"
    using plan_next_action_frame [OF p] assms(2)
    by (simp_all add: rounds_left_def planner_calls_left_def)
  then show ?thesis by (simp add: run_weight_def)
qed

lemma weight_call:
  assumes "node_update E CallMCPTools (s, ws) (s', ws')" "next_node CallMCPTools s' = Some n'"
  shows "run_weight E n' s' < run_weight E CallMCPTools s"
proof -
  obtain ex where c: "call_mcp_tools (fe_router_on E) ex s = Inr s'"
    and ids: "\<forall>i c. ex i c \<notin> {Reconciliation_required [], In_progress []}"
    using assms(1) by (auto simp: node_update_iff)
  note f = call_mcp_tools_frame [OF c]
  have pl: "planner_calls_left E s' = planner_calls_left E s"
    using f by (simp add: planner_calls_left_def)
  show ?thesis
  proof (cases "truthy_str (mcp_pending_execution_id s')")
    case True
    then have "n' = PauseForReconciliation" using next_node_cases(4) [OF assms(2)] by auto
    moreover have "rounds_left s' \<le> rounds_left s"
    proof -
      have "mcp_router_round s \<le> mcp_router_round s'"
        using c by (auto simp: call_mcp_tools_def Let_def dest!: call_loop_frame split: if_splits sum.splits)
      then show ?thesis using f(2) by (simp add: rounds_left_def)
    qed
    ultimately show ?thesis using pl by (simp add: run_weight_def)
  next
    case False
    then have "n' = ObserveMCP" using next_node_cases(4) [OF assms(2)] by auto
    then show ?thesis using pl f(2) call_mcp_tools_rounds [OF c False ids]
      by (auto simp: run_weight_def rounds_left_def max_def)
  qed
qed

lemma weight_plan_mcp:
  assumes "node_update E PlanMCPTools (s, ws) (s', ws')" "next_node PlanMCPTools s' = Some n'"
  shows "run_weight E n' s' < run_weight E PlanMCPTools s"
proof -
  obtain router where p: "plan_mcp_tools (fe_cfg E) router s = Inr s'"
    and on: "fe_router_on E \<longleftrightarrow> router \<noteq> None"
    using assms(1) by (auto simp: node_update_iff)
  note f = plan_mcp_tools_frame [OF p]
  have w: "planner_calls_left E s' = planner_calls_left E s" "rounds_left s' = rounds_left s"
    using f by (simp_all add: planner_calls_left_def rounds_left_def)
  from next_node_cases(3) [OF assms(2)] show ?thesis
  proof (elim disjE conjE)
    assume n: "n' = CallMCPTools" and "p_calls (mcp_tool_plan s') \<noteq> []"
    then have "fe_router_on E \<and> 0 < rounds_left s"
      using plan_mcp_tools_calls [OF p] on by (simp add: rounds_left_def)
    then show ?thesis using n w by (simp add: run_weight_def)
  qed (use w in \<open>simp_all add: run_weight_def\<close>)
qed

lemma weight_other:
  assumes u: "node_update E n (s, ws) (s', ws')" and x: "next_node n s' = Some n'"
    and n: "n \<notin> {PlanNextAction, CallMCPTools, PlanMCPTools}"
  shows "run_weight E n' s' < run_weight E n s"
proof -
  have "counters_kept s s'" using node_update_counters [OF u] n by simp
  note w = counters_kept_weight(1) [OF this, of E] counters_kept_weight(2) [OF this]
  have "node_rank m n' < node_rank m n" if m: "m = (fe_router_on E \<and> 0 < rounds_left s)" for m
  proof (cases n)
    case ReproduceFailure
    then show ?thesis using x next_node_cases(1) [of s' n'] by auto
  next
    case ExecuteLocalAction
    then show ?thesis using x next_node_cases(2) [of s' n'] by auto
  next
    case ObserveMCP
    then show ?thesis using x next_node_cases(5) [of s' n'] by auto
  next
    case GeneratePatchNode
    then show ?thesis using x next_node_cases(6) [of s' n'] by auto
  next
    case TargetedTests
    then show ?thesis using x next_node_cases(7) [of s' n'] by auto
  next
    case RegressionChecks
    then show ?thesis using x next_node_cases(8) [of s' n'] by auto
  next
    case Reflect
    then show ?thesis using x next_node_cases(9) [of s' n'] by auto
  qed (use x n in auto)
  then show ?thesis using w by (simp add: run_weight_def)
qed

lemma weight_step:
  assumes "fix_step E (n, s, ws) (n', s', ws')" "budget_inv E n s"
  shows "run_weight E n' s' < run_weight E n s"
proof -
  from assms(1) have u: "node_update E n (s, ws) (s', ws')" and x: "next_node n s' = Some n'"
    by (auto elim: fix_stepE)
  then show ?thesis using weight_plan [of E s ws s' ws'] weight_call [of E s ws s' ws' n']
      weight_plan_mcp [of E s ws s' ws' n'] weight_other [OF u x] assms(2)
    by (cases "n \<in> {PlanNextAction, CallMCPTools, PlanMCPTools}") auto
qed

lemma budget_inv_step:
  assumes v: "validator_ok (fe_validate E)"
    and st: "fix_step E (n, s, ws) (n', s', ws')" and inv: "budget_inv E n s"
  shows "budget_inv E n' s'"
proof -
  from st have u: "node_update E n (s, ws) (s', ws')" and x: "next_node n s' = Some n'"
    by (auto elim: fix_stepE)
  let ?max = "agent_max_planner_calls (fe_cfg E)"
  consider "n = PlanNextAction" | "n = ExecuteLocalAction" | "n = FinalAnswer"
    | "n \<notin> {PlanNextAction, ExecuteLocalAction, FinalAnswer, END}" using x by (cases n) auto
  then show ?thesis
  proof cases
    case 1
    then obtain t planner where p: "plan_next_action (fe_cfg E) t planner s = Inr s'"
      using u by (auto simp: node_update_iff)
    then show ?thesis using 1 x inv plan_next_action_at_budget [OF v p] plan_next_action_frame [OF p]
      by auto
  next
    case 2
    then obtain tools t where e: "execute (fe_cfg E) (loop_env_of E tools t) s (current_action s) = Inr s'"
      using u by (auto simp: node_update_iff)
    have k: "local_planner_call_count s' = local_planner_call_count s"
      using execute_counters [OF e] by (simp add: counters_kept_def)
    show ?thesis
    proof (cases "local_planner_call_count s \<le> ?max")
      case True
      then show ?thesis using k by (simp add: budget_inv_le)
    next
      case False
      then have "is_finish (fe_validate E) (current_action s)" using inv 2 by simp
      then have "route_of s' = Some ''final''"
        using execute_finish_route [OF e] by (simp add: loop_env_of_def)
      then show ?thesis using 2 x next_node_cases(2) [of s' n'] by auto
    qed
  next
    case 3
    then show ?thesis using u x by (auto simp: node_update_iff waiting_def final_answer_verdict(5) [simplified])
  next
    case 4
    then have "local_planner_call_count s \<le> ?max" using inv by (cases n) auto
    moreover have "local_planner_call_count s' = local_planner_call_count s"
      using 4 node_update_counters [OF u] call_mcp_tools_frame(3) u
      by (cases "n = CallMCPTools") (auto simp: counters_kept_def node_update_iff)
    ultimately show ?thesis by (simp add: budget_inv_le)
  qed
qed

lemma weight_steps:
  assumes "(fix_step E ^^ k) c c'" "validator_ok (fe_validate E)" "budget_inv E (fst c) (fst (snd c))"
  shows "budget_inv E (fst c') (fst (snd c')) \<and>
     int k + run_weight E (fst c') (fst (snd c')) \<le> run_weight E (fst c) (fst (snd c))"
  using assms(1)
proof (induction k arbitrary: c')
  case 0
  then show ?case using assms(3) by simp
next
  case (Suc k)
  then obtain d where d: "(fix_step E ^^ k) c d" "fix_step E d c'" by auto
  obtain n s ws n' s' ws' where "d = (n, s, ws)" "c' = (n', s', ws')" by (cases d; cases c')
  then show ?case using Suc.IH [OF d(1)] d(2) weight_step [of E n s ws n' s' ws']
      budget_inv_step [OF assms(2), of n s ws n' s' ws'] by auto
qed

section \<open>The run as a whole\<close>


text \<open>
  C2.  A run of the graph ends: from the initial state no run takes more than
  \<open>16 * (planner calls + MCP rounds) + 30\<close> node executions, whatever the model, the tools, the
  sandbox and the MCP servers answer.  It rests on the schema accepting its own dumps.
\<close>

theorem graph_run_bounded:
  assumes "(fix_step E ^^ k) (InspectRepository, initial_state (fe_cfg E) rid repo inp cmd mem, ws) c"
    and "validator_ok (fe_validate E)" and "0 \<le> agent_max_planner_calls (fe_cfg E)"
  shows "int k \<le> 16 * (agent_max_planner_calls (fe_cfg E) + max 0 (mcp_tool_router_max_rounds (fe_cfg E))) + 30"
proof -
  let ?s = "initial_state (fe_cfg E) rid repo inp cmd mem"
  have "budget_inv E InspectRepository ?s" using assms(3) by (simp add: initial_state_def)
  then have "int k + run_weight E (fst c) (fst (snd c)) \<le> run_weight E InspectRepository ?s"
    using weight_steps [OF assms(1,2)] by simp
  moreover have "run_weight E InspectRepository ?s =
      16 * (agent_max_planner_calls (fe_cfg E) + max 0 (mcp_tool_router_max_rounds (fe_cfg E))) + 30"
    using assms(3) by (simp add: run_weight_def planner_calls_left_def rounds_left_def initial_state_def)
  ultimately show ?thesis using run_weight_nonneg [of E "fst c" "fst (snd c)"] by linarith
qed

text \<open>
  C9.  Routing is total: the route a node chooses is always in its table of edges, so the graph
  stops at its end node only.
\<close>

theorem routing_total: "next_node n s = None \<longleftrightarrow> n = END"
  by (cases n) (simp_all add: route_defs Let_def)

text \<open>
  A failed reset is not noticed: reflection never looks at what \<open>reset_workspace\<close> answered, so
  when the reset fails the loop plans its next attempt on a workspace that still holds the patch
  it just rejected, while the state says that no patch is applied.
\<close>

theorem failed_reset_keeps_patch:
  assumes "reset_answer (fe_world E) [p] r" "\<not> answer_ok r" "\<not> truthy_str (finish_reason s)"
  shows "\<exists>s'. fix_step E (Reflect, s, [p]) (PlanNextAction, s', [p]) \<and> patch s' = [] \<and> \<not> apply_ok s'"
proof -
  let ?s = "reflect (fe_cfg E) (fe_sha E) r s"
  have "reset_effect [p] r [p]" using assms(2) by (simp add: reset_effect_def)
  with assms(1) have "node_update E Reflect (s, [p]) (?s, [p])" by (rule reflects)
  moreover have "next_node Reflect ?s = Some PlanNextAction"
    using assms(3) by (simp add: route_defs reflect_def Let_def truthy_str_def)
  ultimately have "fix_step E (Reflect, s, [p]) (PlanNextAction, ?s, [p])" by (metis fix_step.intros)
  then show ?thesis by (intro exI [of _ ?s]) (simp add: reflect_def Let_def apply_ok_def)
qed

end
