(* ===== verification/LoopWitnesses.thy ===== *)
theory LoopWitnesses
  imports LoopTheorems AgentNodes
begin

text \<open>
  The properties of the executor at concrete inputs: the default settings, the initial state of a
  run, the schema validator of \<open>LoopTheorems\<close>, and tools that answer or raise.
\<close>

definition demo_state :: fix_state where
  "demo_state = initial_state default_settings ''run1'' ''repo1'' ''add is wrong'' None []"

definition demo_env :: "string + pyval \<Rightarrow> loop_env" where
  "demo_env answer = \<lparr>sha256 = (\<lambda>x. x), validate_python = read_action,
     dispatch_tool = (\<lambda>call. answer), now = 0\<rparr>"

definition demo_search :: "string \<Rightarrow> action" where
  "demo_search why = \<lparr>hypothesis = why, rationale = ''look'', req = SearchCode ''add'' 5\<rparr>"

definition demo_hit :: pyval where
  "demo_hit = PList [PDict [(''file_path'', PStr ''a.py'')]]"

lemma demo_state_fields:
  "local_tool_call_count demo_state = 0" "local_action_fingerprints demo_state = []"
  "loop_inv default_settings demo_state" "tool_budget_violation default_settings 0 demo_state = None"
  by (simp_all add: demo_state_def initial_state_def loop_inv_def default_settings_def
      tool_budget_violation_def deadline_reached_def)

lemma demo_valid: "read_action (model_dump (demo_search ''x'')) = Inr (demo_search ''x'')"
  "read_action (model_dump (demo_search ''y'')) = Inr (demo_search ''y'')"
  "LOCAL_TOOL_ACTIONS (req (demo_search why))" "req (demo_search why) = SearchCode ''add'' 5"
  by (code_simp, code_simp, simp_all add: demo_search_def LOCAL_TOOL_ACTIONS_def)

definition demo_next :: fix_state where
  "demo_next = projr (execute default_settings (demo_env (Inr demo_hit)) demo_state
     (model_dump (demo_search ''x'')))"

lemma demo_first:
  "execute default_settings (demo_env (Inr demo_hit)) demo_state (model_dump (demo_search ''x'')) = Inr demo_next"
  "local_tool_call_count demo_next = 1"
  "tool_budget_violation default_settings 0 demo_next = None"
proof -
  have "case execute default_settings (demo_env (Inr demo_hit)) demo_state (model_dump (demo_search ''x'')) of
      Inl e \<Rightarrow> False
    | Inr s \<Rightarrow> local_tool_call_count s = 1 \<and> tool_budget_violation default_settings 0 s = None"
    by code_simp
  then show "execute default_settings (demo_env (Inr demo_hit)) demo_state (model_dump (demo_search ''x'')) =
      Inr demo_next" "local_tool_call_count demo_next = 1"
    "tool_budget_violation default_settings 0 demo_next = None"
    by (auto simp: demo_next_def split: sum.splits)
qed

lemma demo_raises:
  "execute default_settings (demo_env (Inl ''boom'')) demo_state (model_dump (demo_search ''x'')) = Inl ''boom''"
  by code_simp

theorem dispatch_requires_guards_witness:
  "\<exists>a. read_action (model_dump (demo_search ''x'')) = Inr a \<and> LOCAL_TOOL_ACTIONS (req a) \<and>
     \<not> deadline_reached 0 demo_state \<and> local_tool_call_count demo_state < 12"
  using dispatch_requires_guards [where cfg = default_settings and env = "demo_env (Inr demo_hit)"
      and ?t1.0 = "\<lambda>c. Inr demo_hit" and ?t2.0 = "\<lambda>c. Inl ''boom''" and s = demo_state
      and raw = "model_dump (demo_search ''x'')"] demo_first(1) demo_raises
  by (auto simp: demo_env_def default_settings_def)

theorem execute_preserves_loop_inv_witness: "loop_inv default_settings demo_next"
  by (rule execute_preserves_loop_inv [OF demo_state_fields(3) default_settings_valid demo_first(1)])

theorem repeated_action_rejected_witness:
  "\<exists>h. execute default_settings (demo_env (Inr demo_hit)) demo_next (model_dump (demo_search ''y'')) =
     Inr (guardrail_rejection default_settings (demo_env (Inr demo_hit)) demo_next
       (model_dump (demo_search ''y'')) ''duplicate_local_action'' h)"
  by (rule repeated_action_rejected [OF demo_first(1), where a = "demo_search ''x''"])
     (simp_all add: demo_env_def demo_valid demo_first demo_state_fields default_settings_valid LOCAL_TOOL_ACTIONS_def)

theorem tool_exception_escapes_witness:
  "\<exists>call. tool_of default_settings (SearchCode ''add'' 5) = Some call \<and>
     execute default_settings (demo_env (Inl ''boom'')) demo_state (model_dump (demo_search ''x'')) = Inl ''boom''"
  using tool_exception_escapes [where env = "demo_env (Inl ''boom'')" and raw = "model_dump (demo_search ''x'')"
      and a = "demo_search ''x''" and cfg = default_settings and s = demo_state and exc = "\<lambda>c. ''boom''"]
  by (simp add: demo_env_def demo_valid demo_state_fields read_too_long_def command_not_allowed_def LOCAL_TOOL_ACTIONS_def)

end
