(* ===== verification/RepairWitnesses.thy ===== *)
theory RepairWitnesses
  imports RepairTheorems LoopWitnesses
begin

text \<open>
  One whole run of the repair graph, evaluated: a sandbox in which the tests fail on the untouched
  workspace and pass once a patch is applied, a planner that asks for the patch at once, and no MCP
  router.  It ends as \<open>verified_success\<close> and is the concrete input of the run theorems.
\<close>

definition run_result :: "bool \<Rightarrow> string \<Rightarrow> pydict" where
  "run_result pass ph =
     [(''passed'', PBool pass), (''exit_code'', PInt (if pass then 0 else 1)), (''tests_ran'', PBool True),
      (''timed_out'', PBool False), (''phase'', PStr ph)]"

definition demo_world :: "bool \<Rightarrow> world" where
  \<comment> \<open>the argument says whether the reset succeeds\<close>
  "demo_world reset_works = \<lparr>
     test_answer = (\<lambda>ws cmd ph r. r = run_result (ws \<noteq> []) ph),
     apply_answer = (\<lambda>ws p r. r = [(''ok'', PBool (p \<noteq> []))]),
     reset_answer = (\<lambda>ws r. r = [(''ok'', PBool reset_works)]),
     diff_answer = concat\<rparr>"

definition demo_fix :: "bool \<Rightarrow> fix_env" where
  "demo_fix reset_works = \<lparr>fe_cfg = default_settings, fe_sha = (\<lambda>x. x), fe_validate = read_action,
     fe_router_on = False, fe_world = demo_world reset_works\<rparr>"

definition demo_detect :: "string option \<Rightarrow> string option" where
  "demo_detect c = Some ''pytest''"

definition demo_planner :: "fix_state \<Rightarrow> string + (action \<times> int)" where
  "demo_planner s = Inr (\<lparr>hypothesis = ''off by one'', rationale = ''fix'', req = GeneratePatch\<rparr>, 10)"

definition "run1 = inspect_repository demo_detect 3 demo_state"
definition "run2 = reproduce_failure (run_result False ''baseline'') run1"
definition "run3 = initialize_agent_loop default_settings 0 run2"
definition "run4 = projr (plan_next_action default_settings 0 demo_planner run3)"
definition "run5 = projr (execute default_settings (loop_env_of (demo_fix True) (\<lambda>c. Inl ''none'') 0) run4
  (current_action run4))"
definition "run6 = projr (plan_mcp_tools default_settings None run5)"
definition "run7 = generate_patch default_settings (\<lambda>x. x) ''--- a'' run6"
definition "run8 = apply_patch_node [(''ok'', PBool True)] run7"
definition "run9 = targeted_tests (run_result True ''targeted'') run8"
definition "run10 = regression_checks (run_result True ''regression'') run9"
definition "run11 = final_answer ''--- a'' run10"

lemmas run_defs = run1_def run2_def run3_def run4_def run5_def run6_def run7_def run8_def run9_def
  run10_def run11_def

lemma run4_ok: "plan_next_action default_settings 0 demo_planner run3 = Inr run4"
proof -
  have "\<not> isl (plan_next_action default_settings 0 demo_planner run3)" by code_simp
  then show ?thesis by (simp add: run4_def)
qed

lemma run5_ok:
  "execute default_settings (loop_env_of (demo_fix True) (\<lambda>c. Inl ''none'') 0) run4 (current_action run4) =
     Inr run5"
  "route_of run5 = Some ''generate''" "mcp_pending_approval_id run5 = None" "patch_fingerprints run5 = []"
  "baseline_test_result run5 = Some (run_result False ''baseline'')"
proof -
  have "case execute default_settings (loop_env_of (demo_fix True) (\<lambda>c. Inl ''none'') 0) run4 (current_action run4)
    of Inl e \<Rightarrow> False
     | Inr s \<Rightarrow> route_of s = Some ''generate'' \<and> mcp_pending_approval_id s = None \<and>
         patch_fingerprints s = [] \<and> baseline_test_result s = Some (run_result False ''baseline'')"
    by code_simp
  then show "execute default_settings (loop_env_of (demo_fix True) (\<lambda>c. Inl ''none'') 0) run4 (current_action run4) =
     Inr run5"
    "route_of run5 = Some ''generate''" "mcp_pending_approval_id run5 = None" "patch_fingerprints run5 = []"
    "baseline_test_result run5 = Some (run_result False ''baseline'')"
    by (auto simp: run5_def split: sum.splits)
qed

lemma run6_ok: "plan_mcp_tools default_settings None run5 = Inr run6"
  by (simp add: plan_mcp_tools_def run6_def)

lemma later_runs:
  "run6 = run5\<lparr>mcp_tool_plan := empty_plan\<rparr>"
  "patch run7 = ''--- a''" "patch_is_duplicate run7 = False" "patch run8 = ''--- a''" "apply_ok run8"
  "apply_ok run9" "targeted_test_result run9 = Some (run_result True ''targeted'')"
  "apply_ok run10" "targeted_test_result run10 = Some (run_result True ''targeted'')"
  "regression_test_result run10 = Some (run_result True ''regression'')"
  "baseline_test_result run10 = Some (run_result False ''baseline'')"
  by (simp_all add: run6_def plan_mcp_tools_def run7_def generate_patch_def Let_def run5_ok run8_def
      apply_patch_node_def apply_ok_def run9_def targeted_tests_def run10_def regression_checks_def)

lemma run_result_class:
  "classify_test_result (Some (run_result True ph)) = Passed"
  "classify_test_result (Some (run_result False ph)) = Failed"
  by (simp_all add: run_result_def classify_test_result_def Let_def infrastructure_exit_code_def)

lemma run2_baseline: "baseline_test_result run2 = Some (run_result False ''baseline'')"
  by (simp add: run2_def reproduce_failure_def)

lemma run11_status: "status run11 = Some ''verified_success''"
proof -
  have "fst (determine_status (baseline_test_result run10) (targeted_test_result run10)
      (regression_test_result run10) (apply_result run10)) = VERIFIED_SUCCESS"
    using later_runs(8) by (simp add: determine_status_verified_iff later_runs run_result_class apply_ok_def)
  then show ?thesis using final_answer_verdict(1) [where s = run10 and df = "''--- a''"]
    by (simp add: run11_def)
qed

lemma run_routes:
  "next_node ReproduceFailure run2 = Some InitializeAgentLoop"
  "next_node ExecuteLocalAction run5 = Some PlanMCPTools"
  "next_node PlanMCPTools run6 = Some GeneratePatchNode"
  "next_node GeneratePatchNode run7 = Some ApplyPatch"
  "next_node TargetedTests run9 = Some RegressionChecks"
  "next_node RegressionChecks run10 = Some FinalAnswer"
  by (simp_all add: route_defs Let_def later_runs run5_ok run2_baseline run_result_class truthy_str_def
      empty_plan_def)

section \<open>The steps\<close>

lemma demo_world_simps [simp]:
  "fe_world (demo_fix b) = demo_world b" "fe_cfg (demo_fix b) = default_settings"
  "fe_sha (demo_fix b) = (\<lambda>x. x)" "fe_validate (demo_fix b) = read_action" "\<not> fe_router_on (demo_fix b)"
  "test_answer (demo_world b) ws cmd ph r \<longleftrightarrow> r = run_result (ws \<noteq> []) ph"
  "apply_answer (demo_world b) ws p r \<longleftrightarrow> r = [(''ok'', PBool (p \<noteq> []))]"
  "reset_answer (demo_world b) ws r \<longleftrightarrow> r = [(''ok'', PBool b)]"
  "diff_answer (demo_world b) ws = concat ws"
  by (simp_all add: demo_fix_def demo_world_def)

lemma step_of:
  "node_update E n (s, ws) (s', ws') \<Longrightarrow> next_node n s' = Some n' \<Longrightarrow>
     reachable E s0 (n, s, ws) \<Longrightarrow> reachable E s0 (n', s', ws')"
  by (blast intro: reachable.stepped fix_step.intros)

lemma demo_update:
  "node_update (demo_fix True) InspectRepository (demo_state, []) (run1, [])"
  "node_update (demo_fix True) ReproduceFailure (run1, []) (run2, [])"
  "node_update (demo_fix True) InitializeAgentLoop (run2, []) (run3, [])"
  "node_update (demo_fix True) PlanNextAction (run3, []) (run4, [])"
  "node_update (demo_fix True) ExecuteLocalAction (run4, []) (run5, [])"
  "node_update (demo_fix True) PlanMCPTools (run5, []) (run6, [])"
  "node_update (demo_fix True) GeneratePatchNode (run6, []) (run7, [])"
  using run4_ok run5_ok(1) run6_ok
  by (simp_all add: node_update_iff) (fastforce simp: run1_def run2_def run3_def run7_def)+

lemma demo_apply:
  "node_update (demo_fix True) ApplyPatch (run7, []) (run8, [''--- a''])"
  by (simp add: node_update_iff run8_def later_runs apply_effect_def answer_ok_def)

lemma demo_targeted:
  "node_update (demo_fix True) TargetedTests (run8, [''--- a'']) (run9, [''--- a''])"
  by (auto simp: node_update_iff run9_def)

lemma demo_late:
  "node_update (demo_fix True) RegressionChecks (run9, [''--- a'']) (run10, [''--- a''])"
  "node_update (demo_fix True) FinalAnswer (run10, [''--- a'']) (run11, [''--- a''])"
  by (simp_all add: node_update_iff run10_def run11_def)

lemma demo_reachable: "reachable (demo_fix True) demo_state (END, run11, [''--- a''])"
proof -
  have "reachable (demo_fix True) demo_state (InspectRepository, demo_state, [])"
    by (rule reachable.start) (simp add: entry_node_def graph_entry_def demo_state_def initial_state_def)
  then show ?thesis
    using step_of demo_update demo_apply demo_targeted demo_late run_routes
    by (metis next_node.simps)
qed

lemma demo_chain:
  "(fix_step (demo_fix True) ^^ 11) (InspectRepository, demo_state, []) (END, run11, [''--- a''])"
proof -
  let ?R = "fix_step (demo_fix True)"
  have s: "?R (InspectRepository, demo_state, []) (ReproduceFailure, run1, [])"
    "?R (ReproduceFailure, run1, []) (InitializeAgentLoop, run2, [])"
    "?R (InitializeAgentLoop, run2, []) (PlanNextAction, run3, [])"
    "?R (PlanNextAction, run3, []) (ExecuteLocalAction, run4, [])"
    "?R (ExecuteLocalAction, run4, []) (PlanMCPTools, run5, [])"
    "?R (PlanMCPTools, run5, []) (GeneratePatchNode, run6, [])"
    "?R (GeneratePatchNode, run6, []) (ApplyPatch, run7, [])"
    "?R (ApplyPatch, run7, []) (TargetedTests, run8, [''--- a''])"
    "?R (TargetedTests, run8, [''--- a'']) (RegressionChecks, run9, [''--- a''])"
    "?R (RegressionChecks, run9, [''--- a'']) (FinalAnswer, run10, [''--- a''])"
    "?R (FinalAnswer, run10, [''--- a'']) (END, run11, [''--- a''])"
    using demo_update demo_apply demo_targeted demo_late run_routes
    by (auto intro!: fix_step.intros simp del: next_node.simps(2,5,6,11,13,14))
  have e: "(11 :: nat) = Suc (Suc (Suc (Suc (Suc (Suc (Suc (Suc (Suc (Suc (Suc 0))))))))))" by simp
  show ?thesis unfolding e by ((rule relpowp_Suc_I2, rule s)+, rule relpowp_0_I)
qed

section \<open>The run theorems on it\<close>


theorem graph_run_bounded_witness:
  "(fix_step (demo_fix True) ^^ 11) (InspectRepository, demo_state, []) (END, run11, [''--- a'']) \<and>
     int 11 \<le> 16 * (16 + max 0 2) + 30"
  using demo_chain graph_run_bounded [where E = "demo_fix True",
      unfolded demo_world_simps, OF demo_chain [unfolded demo_state_def]] read_action_ok
  by (simp add: default_settings_def)

theorem failed_reset_keeps_patch_witness:
  "\<exists>s'. fix_step (demo_fix False) (Reflect, run3, [''--- a'']) (PlanNextAction, s', [''--- a'']) \<and>
     patch s' = [] \<and> \<not> apply_ok s'"
  by (rule failed_reset_keeps_patch [where r = "[(''ok'', PBool False)]"])
     (simp_all add: answer_ok_def truthy_str_def run3_def initialize_agent_loop_def run2_def
       reproduce_failure_def run1_def inspect_repository_def Let_def demo_state_def initial_state_def)

end
