(* ===== verification/Patches.thy ===== *)
theory Patches
  imports Prelude
begin

text \<open>
  The normalisation of generated patches (\<open>backend/app/sandbox/patches.py\<close>): the scan over the lines
  of a unified diff that repairs stale hunk counts and refuses what it would have to guess.
  \<open>Inl\<close> is \<open>InvalidUnifiedDiffError\<close> with its message.  Text is UTF-8 bytes, digits are ASCII.
\<close>

section \<open>Lines\<close>

definition line_break :: "string \<Rightarrow> nat" where
  \<comment> \<open>the length of the line break the text starts with, as \<open>str.splitlines\<close> knows them\<close>
  "line_break s =
     (case s of
        [] \<Rightarrow> 0
      | c # t \<Rightarrow>
          if c = CHR 0x0D then (if starts_with [CHR 0x0A] t then 2 else 1)
          else if c \<in> {CHR 0x0A, CHR 0x0B, CHR 0x0C, CHR 0x1C, CHR 0x1D, CHR 0x1E} then 1
          else if c = CHR 0xC2 \<and> starts_with [CHR 0x85] t then 2
          else if c = CHR 0xE2 \<and> (starts_with [CHR 0x80, CHR 0xA8] t \<or> starts_with [CHR 0x80, CHR 0xA9] t)
          then 3
          else 0)"

function split_keep :: "string \<Rightarrow> string \<Rightarrow> string list" where
  "split_keep cur [] = (if cur = [] then [] else [rev cur])"
| "split_keep cur (c # s) =
     (if line_break (c # s) = 0 then split_keep (c # cur) s
      else (rev cur @ take (line_break (c # s)) (c # s)) # split_keep [] (drop (line_break (c # s)) (c # s)))"
  by pat_completeness auto
termination by (relation "measure (\<lambda>(cur, s). length s)") auto

definition splitlines_keepends :: "string \<Rightarrow> string list" where
  "splitlines_keepends = split_keep []"

lemma concat_split_keep: "concat (split_keep cur s) = rev cur @ s"
  by (induction cur s rule: split_keep.induct) auto

lemma concat_splitlines [simp]: "concat (splitlines_keepends s) = s"
  by (simp add: splitlines_keepends_def concat_split_keep)

definition rstrip_crlf :: "string \<Rightarrow> string" where
  "rstrip_crlf s = rev (dropWhile (\<lambda>c. c = CHR 0x0D \<or> c = CHR 0x0A) (rev s))"

definition chomp :: "string \<Rightarrow> string" where
  \<comment> \<open>a line without the line break it ends with\<close>
  "chomp l =
     (if ends_with [CHR 0x0D, CHR 0x0A] l \<or> ends_with [CHR 0xC2, CHR 0x85] l then take (length l - 2) l
      else if l \<noteq> [] \<and> last l \<in> {CHR 0x0A, CHR 0x0B, CHR 0x0C, CHR 0x0D, CHR 0x1C, CHR 0x1D, CHR 0x1E}
      then butlast l
      else if ends_with [CHR 0xE2, CHR 0x80, CHR 0xA8] l \<or> ends_with [CHR 0xE2, CHR 0x80, CHR 0xA9] l
      then take (length l - 3) l
      else l)"

definition py_splitlines :: "string \<Rightarrow> string list" where
  "py_splitlines s = map chomp (splitlines_keepends s)"

section \<open>Hunk headers\<close>

definition is_digit :: "char \<Rightarrow> bool" where
  "is_digit c \<longleftrightarrow> (let n = (of_char c :: nat) in 48 \<le> n \<and> n \<le> 57)"

definition digit_run :: "string \<Rightarrow> (string \<times> string) option" where
  \<comment> \<open>\<open>(\d+)\<close>, and what follows it\<close>
  "digit_run s = (case takeWhile is_digit s of [] \<Rightarrow> None | ds \<Rightarrow> Some (ds, dropWhile is_digit s))"

definition opt_count :: "string \<Rightarrow> (string option \<times> string) option" where
  \<comment> \<open>\<open>(?:,(\d+))?\<close>: without digits after the comma the group matches nothing\<close>
  "opt_count s =
     (if starts_with '','' s
      then (case digit_run (tl s) of None \<Rightarrow> Some (None, s) | Some (ds, r) \<Rightarrow> Some (Some ds, r))
      else Some (None, s))"

definition expect :: "string \<Rightarrow> string \<Rightarrow> string option" where
  "expect p s = (if starts_with p s then Some (drop (length p) s) else None)"

record hunk_header =
  old_start :: string
  old_declared :: "string option"
  new_start :: string
  new_declared :: "string option"
  suffix :: string

definition parse_hunk_header :: "string \<Rightarrow> hunk_header option" where
  "parse_hunk_header text =
     Option.bind (expect ''@@ -'' text) (\<lambda>s1.
     Option.bind (digit_run s1) (\<lambda>(g1, s2).
     Option.bind (opt_count s2) (\<lambda>(g2, s3).
     Option.bind (expect '' +'' s3) (\<lambda>s4.
     Option.bind (digit_run s4) (\<lambda>(g3, s5).
     Option.bind (opt_count s5) (\<lambda>(g4, s6).
     Option.bind (expect '' @@'' s6) (\<lambda>s7.
       Some \<lparr>old_start = g1, old_declared = g2, new_start = g3, new_declared = g4, suffix = s7\<rparr>)))))))"

fun int_of_digits :: "string \<Rightarrow> nat \<Rightarrow> nat" where
  "int_of_digits [] acc = acc"
| "int_of_digits (c # cs) acc = int_of_digits cs (acc * 10 + (of_char c - 48))"

definition declared_count :: "string option \<Rightarrow> nat" where
  \<comment> \<open>\<open>int(group or "1")\<close>\<close>
  "declared_count g = (case g of None \<Rightarrow> 1 | Some ds \<Rightarrow> int_of_digits ds 0)"

section \<open>The scan\<close>

definition starts_file_header :: "string \<Rightarrow> string list \<Rightarrow> bool" where
  \<comment> \<open>the line at hand and the lines after it\<close>
  "starts_file_header line rest \<longleftrightarrow>
     starts_with ''--- '' line \<and> (case rest of [] \<Rightarrow> False | next # _ \<Rightarrow> starts_with ''+++ '' next)"

fun count_hunk_lines :: "string list \<Rightarrow> nat \<Rightarrow> nat \<Rightarrow> nat \<Rightarrow> int \<Rightarrow> string + (nat \<times> nat \<times> int)" where
  \<comment> \<open>the loop of \<open>_count_hunk_lines\<close>: index, old and new count, last change index\<close>
  "count_hunk_lines [] index old new lst = Inr (old, new, lst)"
| "count_hunk_lines (line # body) index old new lst =
     (if starts_with '' '' line then count_hunk_lines body (Suc index) (old + 1) (new + 1) lst
      else if starts_with ''-'' line then count_hunk_lines body (Suc index) (old + 1) new (int index)
      else if starts_with ''+'' line then count_hunk_lines body (Suc index) old (new + 1) (int index)
      else if starts_with ([CHR 0x5C] @ '' No newline at end of file'') line
      then count_hunk_lines body (Suc index) old new lst
      else Inl (''invalid line in hunk: '' @ py_repr_str (rstrip_crlf line)))"

fun hunk_body :: "string list \<Rightarrow> string list" where
  \<comment> \<open>the lines up to the next file or hunk header\<close>
  "hunk_body [] = []"
| "hunk_body (line # rest) =
     (if starts_with ''diff --git '' line \<or> starts_with ''@@ '' line \<or> starts_file_header line rest then []
      else line # hunk_body rest)"

definition newline_of :: "string \<Rightarrow> string" where
  "newline_of line =
     (if ends_with [CHR 0x0D, CHR 0x0A] line then [CHR 0x0D, CHR 0x0A]
      else if ends_with [CHR 0x0A] line then [CHR 0x0A] else [])"

definition repaired_header :: "hunk_header \<Rightarrow> nat \<Rightarrow> nat \<Rightarrow> string \<Rightarrow> string" where
  "repaired_header h old new line =
     ''@@ -'' @ old_start h @ '','' @ digits_of old @ '' +'' @ new_start h @ '','' @ digits_of new @
     '' @@'' @ suffix h @ newline_of line"

definition repair_hunk :: "string \<Rightarrow> hunk_header \<Rightarrow> string list \<Rightarrow> string + (string \<times> nat)" where
  \<comment> \<open>the header line to write, and whether it counts as repaired\<close>
  "repair_hunk line h body =
     (case count_hunk_lines body 0 0 0 (- 1) of
        Inl e \<Rightarrow> Inl e
      | Inr (old, new, last_change) \<Rightarrow>
          if (declared_count (old_declared h), declared_count (new_declared h)) \<noteq> (old, new)
          then if last_change < 0 \<or> \<not> list_ex (starts_with '' '') (drop (nat (last_change + 1)) body)
               then Inl (''hunk line counts are wrong and the hunk has no trailing context; '' @
                         ''the generated patch may be truncated'')
               else Inr (repaired_header h old new line, 1)
          else Inr (line, 0))"

lemma length_hunk_body: "length (hunk_body ls) \<le> length ls"
  by (induction ls rule: hunk_body.induct) auto

definition add_lines :: "string list \<Rightarrow> nat \<Rightarrow> string + (string list \<times> nat) \<Rightarrow> string + (string list \<times> nat)" where
  "add_lines ls k r = (case r of Inl e \<Rightarrow> Inl e | Inr (out, n) \<Rightarrow> Inr (ls @ out, k + n))"

function normalize_lines :: "bool \<Rightarrow> string list \<Rightarrow> string + (string list \<times> nat)" where
  \<comment> \<open>the \<open>while\<close> loop, on the lines from \<open>index\<close> on; the flag is \<open>saw_file_header\<close>\<close>
  "normalize_lines saw [] = Inr ([], 0)"
| "normalize_lines saw (line # rest) =
     (if starts_with ''diff --git '' line \<or> starts_file_header line rest
      then add_lines [line] 0 (normalize_lines True rest)
      else if \<not> starts_with ''@@ '' (rstrip_crlf line) then add_lines [line] 0 (normalize_lines saw rest)
      else if \<not> saw then Inl ''hunk appears before a file header''
      else case parse_hunk_header (rstrip_crlf line) of
             None \<Rightarrow> Inl (''invalid hunk header: '' @ rstrip_crlf line)
           | Some h \<Rightarrow>
               (case repair_hunk line h (hunk_body rest) of
                  Inl e \<Rightarrow> Inl e
                | Inr (line', k) \<Rightarrow>
                    add_lines (line' # hunk_body rest) k
                      (normalize_lines saw (drop (length (hunk_body rest)) rest))))"
  by pat_completeness auto
termination by (relation "measure (\<lambda>(saw, ls). length ls)") auto

definition normalize_unified_diff_hunks :: "string \<Rightarrow> string + (string \<times> nat)" where
  \<comment> \<open>the content and the number of repaired hunks of \<open>NormalizedPatch\<close>\<close>
  "normalize_unified_diff_hunks diff =
     (case normalize_lines False (splitlines_keepends diff) of
        Inl e \<Rightarrow> Inl e
      | Inr (out, k) \<Rightarrow> Inr (concat out, k))"

end
