(* ===== verification/PatchTheorems.thy ===== *)
theory PatchTheorems
  imports Patches
begin

text \<open>
  What the patch normalisation guarantees: the lines it may change, the counts it leaves, that a
  second pass finds nothing to do, and what it refuses.
\<close>

section \<open>Digits\<close>

lemma digit_value: "d < 10 \<Longrightarrow> of_char (char_of (48 + d)) = (48 + d :: nat)" for d :: nat
  by (simp add: of_char_of)

lemma is_digit_digit: "d < 10 \<Longrightarrow> is_digit (char_of (48 + d))" for d :: nat
  by (simp add: is_digit_def digit_value)

lemma int_of_digits_append: "int_of_digits (xs @ ys) acc = int_of_digits ys (int_of_digits xs acc)"
  by (induction xs arbitrary: acc) auto

lemma digits_of_digits: "list_all is_digit (digits_of n)" "digits_of n \<noteq> []"
  by (induction n rule: digits_of.induct) (subst digits_of.simps, simp add: is_digit_digit)+

lemma int_of_digits_of [simp]: "int_of_digits (digits_of n) 0 = n"
  by (induction n rule: digits_of.induct)
     (subst digits_of.simps, simp add: int_of_digits_append digit_value)

lemma takeWhile_digits:
  "list_all P ds \<Longrightarrow> \<not> P c \<Longrightarrow> takeWhile P (ds @ c # s) = ds \<and> dropWhile P (ds @ c # s) = c # s"
  by (induction ds) auto

lemma digit_run_digits:
  "list_all is_digit ds \<Longrightarrow> ds \<noteq> [] \<Longrightarrow> \<not> is_digit c \<Longrightarrow> digit_run (ds @ c # s) = Some (ds, c # s)"
  using takeWhile_digits [of is_digit ds c s] by (auto simp: digit_run_def split: list.splits)

lemma digit_run_some:
  "digit_run s = Some (ds, r) \<Longrightarrow> list_all is_digit ds \<and> ds \<noteq> [] \<and> s = ds @ r"
  by (auto simp: digit_run_def list_all_iff dest: set_takeWhileD split: list.splits)

section \<open>A repaired header\<close>

lemma expect_some [simp]: "expect p (p @ s) = Some s"
  by (simp add: expect_def starts_with_def)

lemma not_digit [simp]: "\<not> is_digit CHR '',''" "\<not> is_digit CHR '' ''"
  by (simp_all add: is_digit_def)

lemma parse_hunk_header_digits:
  "parse_hunk_header text = Some h \<Longrightarrow>
     list_all is_digit (old_start h) \<and> old_start h \<noteq> [] \<and> list_all is_digit (new_start h) \<and> new_start h \<noteq> []"
  by (auto simp: parse_hunk_header_def bind_eq_Some_conv dest!: digit_run_some)

lemma opt_count_digits:
  assumes "list_all is_digit ds" "ds \<noteq> []" "\<not> is_digit c"
  shows "opt_count (CHR '','' # ds @ c # s) = Some (Some ds, c # s)"
  using digit_run_digits [OF assms] by (simp add: opt_count_def)

definition header_text :: "hunk_header \<Rightarrow> nat \<Rightarrow> nat \<Rightarrow> string" where
  "header_text h old new = ''@@ -'' @ old_start h @ '','' @ digits_of old @ '' +'' @ new_start h @ '','' @
     digits_of new @ '' @@'' @ suffix h"

lemma parse_header_text:
  assumes "parse_hunk_header t = Some h"
  shows "\<exists>h'. parse_hunk_header (header_text h old new) = Some h' \<and>
    declared_count (old_declared h') = old \<and> declared_count (new_declared h') = new"
proof -
  note d = parse_hunk_header_digits [OF assms]
  have 1: "expect ''@@ -'' (header_text h old new) =
      Some (old_start h @ '','' @ digits_of old @ '' +'' @ new_start h @ '','' @ digits_of new @ '' @@'' @ suffix h)"
    by (simp add: header_text_def expect_def)
  have 2: "digit_run (old_start h @ '','' @ r) = Some (old_start h, '','' @ r)" for r
    using d digit_run_digits [of "old_start h" "CHR '',''"] by simp
  have 3: "opt_count ('','' @ digits_of n @ '' +'' @ r) = Some (Some (digits_of n), '' +'' @ r)" for n r
    using opt_count_digits [OF digits_of_digits, of "CHR '' ''" n] by simp
  have 4: "expect '' +'' ('' +'' @ r) = Some r" for r by (simp add: expect_def)
  have 5: "digit_run (new_start h @ '','' @ r) = Some (new_start h, '','' @ r)" for r
    using d digit_run_digits [of "new_start h" "CHR '',''"] by simp
  have 6: "opt_count ('','' @ digits_of n @ '' @@'' @ r) = Some (Some (digits_of n), '' @@'' @ r)" for n r
    using opt_count_digits [OF digits_of_digits, of "CHR '' ''" n] by simp
  have 7: "expect '' @@'' ('' @@'' @ r) = Some r" for r by (simp add: expect_def)
  show ?thesis
    by (simp only: parse_hunk_header_def 1 2 3 4 5 6 7 Option.bind.simps prod.case)
       (simp add: declared_count_def)
qed

section \<open>What the scan may change\<close>

declare starts_with_Cons [simp del]

definition kept_line :: "string \<Rightarrow> string \<Rightarrow> bool" where
  \<comment> \<open>the same line, or two hunk headers\<close>
  "kept_line l l' \<longleftrightarrow> l' = l \<or> (starts_with ''@@ '' l \<and> starts_with ''@@ '' l')"

lemma kept_line_refl [simp]: "kept_line l l"
  by (simp add: kept_line_def)

lemma hunk_not_file:
  "starts_with ''@@ '' l \<Longrightarrow> \<not> starts_with ''diff --git '' l"
  "starts_with ''@@ '' l \<Longrightarrow> \<not> starts_with ''--- '' l"
  "starts_with ''@@ '' l \<Longrightarrow> \<not> starts_with ''+++ '' l"
  by (auto simp: starts_with_Cons split: list.splits)

lemma starts_with_rstrip: "starts_with ''@@ '' (rstrip_crlf l) \<Longrightarrow> starts_with ''@@ '' l"
proof -
  have "\<exists>t. l = rstrip_crlf l @ t"
  proof -
    have "rev l = takeWhile (\<lambda>c. c = CHR 0x0D \<or> c = CHR 0x0A) (rev l) @ rev (rstrip_crlf l)"
      by (simp add: rstrip_crlf_def)
    then have "l = rstrip_crlf l @ rev (takeWhile (\<lambda>c. c = CHR 0x0D \<or> c = CHR 0x0A) (rev l))"
      by (metis rev_append rev_rev_ident)
    then show ?thesis by blast
  qed
  then show "starts_with ''@@ '' (rstrip_crlf l) \<Longrightarrow> starts_with ''@@ '' l"
    by (metis append_take_drop_id append_assoc append_eq_conv_conj starts_with_def length_append
        take_append le_add1 append_Nil2 append_same_eq take_all)
qed

lemma hunk_body_prefix: "hunk_body ls @ drop (length (hunk_body ls)) ls = ls"
  by (induction ls rule: hunk_body.induct) auto

lemma repair_hunk_kept:
  "repair_hunk line h body = Inr (line', k) \<Longrightarrow> starts_with ''@@ '' line \<Longrightarrow>
     kept_line line line' \<and> (k = 0 \<longrightarrow> line' = line)"
  by (auto simp: repair_hunk_def kept_line_def repaired_header_def starts_with_Cons split: sum.splits if_splits)

lemma normalize_lines_kept:
  "normalize_lines saw ls = Inr (out, k) \<Longrightarrow> list_all2 kept_line ls out \<and> (k = 0 \<longrightarrow> out = ls)"
proof (induction saw ls arbitrary: out k rule: normalize_lines.induct)
  case (2 saw line rest)
  show ?case
  proof (cases "starts_with ''diff --git '' line \<or> starts_file_header line rest \<or>
      \<not> starts_with ''@@ '' (rstrip_crlf line)")
    case True
    then obtain saw' out' where "normalize_lines saw' rest = Inr (out', k)" "out = line # out'"
      "saw' = True \<or> saw' = saw"
      using 2(4) by (auto simp: add_lines_def split: sum.splits if_splits)
    then show ?thesis using 2(1,2) True 2(4) by (auto simp: add_lines_def split: sum.splits if_splits)
  next
    case False
    then obtain h line' k1 k2 out' where h: "repair_hunk line h (hunk_body rest) = Inr (line', k1)"
      and n: "normalize_lines saw (drop (length (hunk_body rest)) rest) = Inr (out', k2)"
      and o: "out = line' # hunk_body rest @ out'" "k = k1 + k2" and p: "saw"
      and ph: "parse_hunk_header (rstrip_crlf line) = Some h"
      using 2(4) by (auto simp: add_lines_def split: sum.splits if_splits option.splits prod.splits)
    have ih: "list_all2 kept_line (drop (length (hunk_body rest)) rest) out'"
      "k2 = 0 \<longrightarrow> out' = drop (length (hunk_body rest)) rest"
      using 2(3) False p ph h n by blast+
    have r: "rest = hunk_body rest @ drop (length (hunk_body rest)) rest"
      using hunk_body_prefix by metis
    have "list_all2 kept_line (hunk_body rest) (hunk_body rest)" by (simp add: list_all2_same)
    then have "list_all2 kept_line rest (hunk_body rest @ out')"
      using ih(1) r by (metis list_all2_appendI)
    then show ?thesis using repair_hunk_kept [OF h] starts_with_rstrip False o ih(2) r by auto
  qed
qed simp

section \<open>A second pass\<close>

lemma kept_line_starts:
  "kept_line l l' \<Longrightarrow> starts_with ''diff --git '' l' = starts_with ''diff --git '' l"
  "kept_line l l' \<Longrightarrow> starts_with ''--- '' l' = starts_with ''--- '' l"
  "kept_line l l' \<Longrightarrow> starts_with ''+++ '' l' = starts_with ''+++ '' l"
  "kept_line l l' \<Longrightarrow> starts_with ''@@ '' l' = starts_with ''@@ '' l"
  by (auto simp: kept_line_def hunk_not_file)

lemma kept_file_header:
  "kept_line l l' \<Longrightarrow> list_all2 kept_line ls ls' \<Longrightarrow> starts_file_header l' ls' = starts_file_header l ls"
  by (auto simp: starts_file_header_def kept_line_starts list_all2_Cons1 list_all2_Cons2 split: list.splits
     )

lemma kept_hunk_body: "list_all2 kept_line ls ls' \<Longrightarrow> hunk_body ls' = hunk_body ls"
proof (induction ls ls' rule: list_all2_induct)
  case (Cons l ls l' ls')
  then show ?case
    using kept_file_header [OF Cons(1,2)] kept_line_starts [OF Cons(1)]
    by (auto simp: kept_line_def)
qed simp

lemma rstrip_snoc:
  assumes "c \<noteq> CHR 0x0D" "c \<noteq> CHR 0x0A"
  shows "rstrip_crlf ((r @ [c]) @ newline_of l) = r @ [c]"
proof -
  have "newline_of l \<in> {[CHR 0x0D, CHR 0x0A], [CHR 0x0A], []}" by (simp add: newline_of_def)
  then show ?thesis using assms by (auto simp: rstrip_crlf_def)
qed

lemma rstrip_last:
  assumes "rstrip_crlf l = r @ [c]" shows "c \<noteq> CHR 0x0D" "c \<noteq> CHR 0x0A"
proof -
  have "dropWhile (\<lambda>c. c = CHR 0x0D \<or> c = CHR 0x0A) (rev l) = c # rev r"
    using assms by (simp add: rstrip_crlf_def rev_swap)
  then show "c \<noteq> CHR 0x0D" "c \<noteq> CHR 0x0A" by (auto simp: dropWhile_eq_Cons_conv)
qed

lemma expect_rest: "expect p t = Some r \<Longrightarrow> t = p @ r"
  by (auto simp: expect_def starts_with_def split: if_splits) (metis append_take_drop_id)

lemma opt_count_rest: "opt_count t = Some (g, r) \<Longrightarrow> \<exists>u. t = u @ r"
  by (cases t) (auto simp: opt_count_def dest!: digit_run_some split: if_splits option.splits)

lemma parse_suffix:
  assumes "parse_hunk_header t = Some h" shows "\<exists>u. t = u @ '' @@'' @ suffix h"
proof -
  obtain s1 g1 s2 g2 s3 s4 g3 s5 g4 s6 s7 where
    p: "expect ''@@ -'' t = Some s1" "digit_run s1 = Some (g1, s2)" "opt_count s2 = Some (g2, s3)"
      "expect '' +'' s3 = Some s4" "digit_run s4 = Some (g3, s5)" "opt_count s5 = Some (g4, s6)"
    and s7: "expect '' @@'' s6 = Some s7" "suffix h = s7"
    using assms by (auto simp: parse_hunk_header_def bind_eq_Some_conv)
  obtain u1 u2 where "s2 = u1 @ s3" "s5 = u2 @ s6" using opt_count_rest p(3,6) by blast
  moreover have "t = ''@@ -'' @ s1" "s1 = g1 @ s2" "s3 = '' +'' @ s4" "s4 = g3 @ s5"
    using p expect_rest digit_run_some by blast+
  ultimately have "t = (''@@ -'' @ g1 @ u1 @ '' +'' @ g3 @ u2) @ s6" by simp
  then have "\<exists>u. t = u @ s6" by blast
  then show ?thesis using s7 expect_rest by blast
qed

lemma repaired_header_text:
  "repaired_header h old new line = header_text h old new @ newline_of line"
  by (simp add: repaired_header_def header_text_def)

lemma rstrip_repaired:
  assumes "parse_hunk_header (rstrip_crlf line) = Some h"
  shows "rstrip_crlf (repaired_header h old new line) = header_text h old new"
proof -
  obtain u where u: "rstrip_crlf line = u @ '' @@'' @ suffix h" using parse_suffix [OF assms] by blast
  have ne: "'' @@'' @ suffix h \<noteq> []" by simp
  define c where "c = last ('' @@'' @ suffix h)"
  have "rstrip_crlf line = (u @ butlast ('' @@'' @ suffix h)) @ [c]"
    using u c_def append_butlast_last_id [OF ne] by (metis append_assoc)
  then have c: "c \<noteq> CHR 0x0D" "c \<noteq> CHR 0x0A" using rstrip_last by blast+
  define v where "v = ''@@ -'' @ old_start h @ '','' @ digits_of old @ '' +'' @ new_start h @ '','' @ digits_of new"
  have "header_text h old new = (v @ butlast ('' @@'' @ suffix h)) @ [c]"
    unfolding header_text_def v_def c_def append_assoc append_butlast_last_id [OF ne] ..
  then show ?thesis using rstrip_snoc [OF c] by (simp only: repaired_header_text)
qed

lemma repair_hunk_again:
  assumes p: "parse_hunk_header (rstrip_crlf line) = Some h"
    and r: "repair_hunk line h body = Inr (line', k)" and a: "starts_with ''@@ '' (rstrip_crlf line)"
  shows "starts_with ''@@ '' (rstrip_crlf line')"
    "\<exists>h'. parse_hunk_header (rstrip_crlf line') = Some h' \<and> repair_hunk line' h' body = Inr (line', 0)"
proof -
  obtain old new lst where c: "count_hunk_lines body 0 0 0 (- 1) = Inr (old, new, lst)"
    using r by (auto simp: repair_hunk_def split: sum.splits prod.splits)
  show "starts_with ''@@ '' (rstrip_crlf line')"
    using r c a rstrip_repaired [OF p, of old new]
    by (auto simp: repair_hunk_def header_text_def starts_with_Cons split: if_splits)
  show "\<exists>h'. parse_hunk_header (rstrip_crlf line') = Some h' \<and> repair_hunk line' h' body = Inr (line', 0)"
  proof (cases "(declared_count (old_declared h), declared_count (new_declared h)) = (old, new)")
    case True
    then have "line' = line" using r c by (simp add: repair_hunk_def)
    then show ?thesis using True p c by (simp add: repair_hunk_def)
  next
    case False
    then have "line' = repaired_header h old new line"
      using r c by (auto simp: repair_hunk_def split: if_splits)
    then obtain h' where "parse_hunk_header (rstrip_crlf line') = Some h'"
      "declared_count (old_declared h') = old" "declared_count (new_declared h') = new"
      using parse_header_text [OF p] rstrip_repaired [OF p] by metis
    then show ?thesis using c by (auto simp: repair_hunk_def)
  qed
qed

lemma normalize_plain_line:
  "starts_with ''diff --git '' line \<or> starts_file_header line rest \<or>
     \<not> starts_with ''@@ '' (rstrip_crlf line) \<Longrightarrow>
   normalize_lines saw (line # rest) = add_lines [line] 0 (normalize_lines
     (saw \<or> starts_with ''diff --git '' line \<or> starts_file_header line rest) rest)"
  by auto

lemma add_lines_Inr:
  "add_lines ls k r = Inr (out, n) \<longleftrightarrow> (\<exists>out' n'. r = Inr (out', n') \<and> out = ls @ out' \<and> n = k + n')"
  by (auto simp: add_lines_def split: sum.splits)

lemma normalize_lines_twice:
  "normalize_lines saw ls = Inr (out, k) \<Longrightarrow> normalize_lines saw out = Inr (out, 0)"
proof (induction saw ls arbitrary: out k rule: normalize_lines.induct)
  case (2 saw line rest)
  show ?case
  proof (cases "starts_with ''diff --git '' line \<or> starts_file_header line rest \<or>
      \<not> starts_with ''@@ '' (rstrip_crlf line)")
    case True
    define saw' where "saw' = (saw \<or> starts_with ''diff --git '' line \<or> starts_file_header line rest)"
    obtain out' where n: "normalize_lines saw' rest = Inr (out', k)" "out = line # out'"
      using 2(4) unfolding normalize_plain_line [OF True] add_lines_Inr saw'_def by auto
    have h: "starts_file_header line out' = starts_file_header line rest"
      using kept_file_header normalize_lines_kept [OF n(1)] by simp
    have "normalize_lines saw' out' = Inr (out', 0)"
    proof (cases "starts_with ''diff --git '' line \<or> starts_file_header line rest")
      case True
      then have "saw'" by (auto simp: saw'_def)
      then show ?thesis using 2(1) [OF True] n by simp
    next
      case plain: False
      then have "saw' = saw" by (simp add: saw'_def)
      then show ?thesis using 2(2) [OF plain] True plain n by blast
    qed
    moreover have "normalize_lines saw out = add_lines [line] 0 (normalize_lines saw' out')"
      using normalize_plain_line [of line out' saw] True h n(2) by (simp add: saw'_def)
    ultimately show ?thesis using n(2) by (simp add: add_lines_def)
  next
    case False
    then obtain h line' k1 k2 out' where h: "repair_hunk line h (hunk_body rest) = Inr (line', k1)"
      and n: "normalize_lines saw (drop (length (hunk_body rest)) rest) = Inr (out', k2)"
      and o: "out = line' # hunk_body rest @ out'" and p: "saw"
      and ph: "parse_hunk_header (rstrip_crlf line) = Some h"
      using 2(4) by (auto simp: add_lines_def
          split: sum.splits if_splits option.splits prod.splits)
    have ih: "normalize_lines saw out' = Inr (out', 0)" using 2(3) False p ph h n by blast
    have "list_all2 kept_line (hunk_body rest @ drop (length (hunk_body rest)) rest) (hunk_body rest @ out')"
      using normalize_lines_kept [OF n] by (intro list_all2_appendI) (simp_all add: list_all2_same)
    then have k: "list_all2 kept_line rest (hunk_body rest @ out')" by (simp only: hunk_body_prefix)
    then have body: "hunk_body (hunk_body rest @ out') = hunk_body rest" by (rule kept_hunk_body)
    have a: "starts_with ''@@ '' (rstrip_crlf line)" using False by blast
    obtain h' where h': "parse_hunk_header (rstrip_crlf line') = Some h'"
      "repair_hunk line' h' (hunk_body rest) = Inr (line', 0)" "starts_with ''@@ '' (rstrip_crlf line')"
      using repair_hunk_again [OF ph h a] by blast
    have "starts_with ''@@ '' line'" using h'(3) starts_with_rstrip by blast
    then have "\<not> starts_with ''diff --git '' line'" "\<not> starts_file_header line' (hunk_body rest @ out')"
      using hunk_not_file by (auto simp: starts_file_header_def)
    then show ?thesis using h' p body ih o by (simp add: add_lines_def)
  qed
qed simp

section \<open>Properties\<close>


text \<open>
  Normalisation repairs every hunk for good: scanning the lines it produced again succeeds,
  repairs nothing and changes nothing, so every header it leaves declares exactly the lines of its
  hunk.
\<close>

theorem normalize_idempotent:
  assumes "normalize_lines False lines = Inr (out, k)"
  shows "normalize_lines False out = Inr (out, 0)"
  using assms by (rule normalize_lines_twice)

text \<open>
  A hunk that may be cut off is refused: when the counts of a hunk header are wrong and no
  unchanged line follows the last change of its body, the scan ends with an error at that hunk and
  repairs nothing.
\<close>

theorem truncated_hunk_refused:
  assumes "starts_with ''@@ '' (rstrip_crlf line)" "parse_hunk_header (rstrip_crlf line) = Some h"
    and "count_hunk_lines (hunk_body rest) 0 0 0 (- 1) = Inr (old, new, lst)"
    and "(declared_count (old_declared h), declared_count (new_declared h)) \<noteq> (old, new)"
    and "\<not> list_ex (starts_with '' '') (drop (nat (lst + 1)) (hunk_body rest))"
  shows "normalize_lines True (line # rest) =
    Inl (''hunk line counts are wrong and the hunk has no trailing context; '' @
         ''the generated patch may be truncated'')"
proof -
  have "starts_with ''@@ '' line" using assms(1) by (rule starts_with_rstrip)
  then have "\<not> starts_with ''diff --git '' line" "\<not> starts_file_header line rest"
    using hunk_not_file by (auto simp: starts_file_header_def)
  then show ?thesis using assms by (simp add: repair_hunk_def)
qed

declare starts_with_Cons [simp]

section \<open>A concrete patch\<close>

text \<open>A hunk that declares nine lines and has three, before and after its last change.\<close>

definition stale_patch :: "string list" where
  "stale_patch = [''--- a'' @ [CHR 0x0A], ''+++ b'' @ [CHR 0x0A], ''@@ -1,9 +1,9 @@ f'' @ [CHR 0x0A],
     '' x'' @ [CHR 0x0A], ''-y'' @ [CHR 0x0A], ''+z'' @ [CHR 0x0A], '' w'' @ [CHR 0x0A]]"

definition fixed_patch :: "string list" where
  "fixed_patch = [''--- a'' @ [CHR 0x0A], ''+++ b'' @ [CHR 0x0A], ''@@ -1,3 +1,3 @@ f'' @ [CHR 0x0A],
     '' x'' @ [CHR 0x0A], ''-y'' @ [CHR 0x0A], ''+z'' @ [CHR 0x0A], '' w'' @ [CHR 0x0A]]"

lemma stale_patch_lines: "normalize_lines False stale_patch = Inr (fixed_patch, 1)"
  by code_simp

lemma stale_patch_text:
  "normalize_unified_diff_hunks (concat stale_patch) = Inr (concat fixed_patch, 1)"
  by code_simp


theorem normalize_idempotent_witness: "normalize_lines False fixed_patch = Inr (fixed_patch, 0)"
  by (rule normalize_idempotent [OF stale_patch_lines])

theorem truncated_hunk_refused_witness:
  "normalize_lines True [''@@ -1,9 +1,9 @@'', '' x'', ''-y''] =
    Inl (''hunk line counts are wrong and the hunk has no trailing context; '' @
         ''the generated patch may be truncated'')"
proof -
  have "parse_hunk_header (rstrip_crlf ''@@ -1,9 +1,9 @@'') =
      Some \<lparr>old_start = ''1'', old_declared = Some ''9'', new_start = ''1'', new_declared = Some ''9'', suffix = []\<rparr>"
    "hunk_body ['' x'', ''-y''] = ['' x'', ''-y'']"
    "count_hunk_lines ['' x'', ''-y''] 0 0 0 (- 1) = Inr (2, 1, 1)"
    "starts_with ''@@ '' (rstrip_crlf ''@@ -1,9 +1,9 @@'')"
    by code_simp+
  then show ?thesis
    using truncated_hunk_refused [of "''@@ -1,9 +1,9 @@''" _ "['' x'', ''-y'']"]
    by (simp add: declared_count_def)
qed

end
