(* ===== verification/Sandbox.thy ===== *)
theory Sandbox
  imports Patches Verification
begin

text \<open>
  The sandbox of \<open>backend/app/sandbox/runner.py\<close>: test results and the evidence they carry, the choice
  of test and install commands from the files of a workspace, the gates before a backend runs, the
  application of a patch, and the reading of files.  Git, docker, the broker and the file system are
  parameters; what they answered is an argument.
\<close>

section \<open>Test results\<close>

record test_report =
  tr_passed :: bool
  tr_exit_code :: int
  tr_stdout :: string
  tr_stderr :: string
  tr_command :: "string option"
  tr_tests_ran :: bool
  tr_timed_out :: bool
  tr_runtime :: string
  tr_skipped_reason :: "string option"
  tr_failure_kind :: "string option"

definition post_init :: "test_report \<Rightarrow> test_report" where
  \<comment> \<open>\<open>TestResult.__post_init__\<close>\<close>
  "post_init r =
     (let p = tr_tests_ran r \<and> tr_exit_code r = 0 \<and> tr_passed r \<and> tr_failure_kind r = None \<and>
              \<not> tr_timed_out r \<and> tr_skipped_reason r = None;
          kind = (if tr_failure_kind r \<noteq> None then tr_failure_kind r
                  else if tr_skipped_reason r \<noteq> None \<and> tr_skipped_reason r \<noteq> Some [] then Some ''skipped''
                  else if tr_timed_out r \<or> \<not> tr_tests_ran r \<or> tr_exit_code r \<in> {124, 125, 126, 127}
                  then Some ''infrastructure''
                  else if tr_exit_code r \<noteq> 0 then Some ''test_failure''
                  else None)
      in r\<lparr>tr_passed := p, tr_failure_kind := kind\<rparr>)"

definition to_dict :: "test_report \<Rightarrow> pydict" where
  "to_dict r =
     [(''passed'', PBool (tr_passed r)), (''exit_code'', PInt (tr_exit_code r)),
      (''stdout'', PStr (tr_stdout r)), (''stderr'', PStr (tr_stderr r)),
      (''command'', str_or_none (tr_command r)), (''tests_ran'', PBool (tr_tests_ran r)),
      (''timed_out'', PBool (tr_timed_out r)), (''runtime'', PStr (tr_runtime r)),
      (''skipped_reason'', str_or_none (tr_skipped_reason r)),
      (''failure_kind'', str_or_none (tr_failure_kind r))]"

definition refused :: "int \<Rightarrow> string \<Rightarrow> string \<Rightarrow> string \<Rightarrow> test_report" where
  \<comment> \<open>the \<open>TestResult\<close> of a run that never started\<close>
  "refused code err command rt = post_init
     \<lparr>tr_passed = False, tr_exit_code = code, tr_stdout = [], tr_stderr = err, tr_command = Some command,
      tr_tests_ran = False, tr_timed_out = False, tr_runtime = rt, tr_skipped_reason = None,
      tr_failure_kind = None\<rparr>"

definition test_result_from_execution ::
  "bool \<Rightarrow> int \<Rightarrow> string \<Rightarrow> string \<Rightarrow> string \<Rightarrow> string \<Rightarrow> bool \<Rightarrow> test_report" where
  "test_result_from_execution reported_passed code out err command rt timed_out = post_init
     \<lparr>tr_passed = reported_passed, tr_exit_code = code, tr_stdout = out, tr_stderr = err,
      tr_command = Some command, tr_tests_ran = (\<not> timed_out \<and> code \<noteq> 125), tr_timed_out = timed_out,
      tr_runtime = rt, tr_skipped_reason = None, tr_failure_kind = None\<rparr>"

section \<open>Commands\<close>

text \<open>What the workspace holds at its root: file texts, and which lock and marker files exist.\<close>

record workspace_probe =
  wp_package_json :: "string option"
  wp_requirements :: "string option"
  wp_pyproject :: "string option"
  wp_existing :: "string set"
  wp_has_python :: bool

definition uses_pytest :: "workspace_probe \<Rightarrow> bool" where
  "uses_pytest w \<longleftrightarrow>
     (\<exists>n \<in> {''pytest.ini'', ''tox.ini'', ''conftest.py''}. n \<in> wp_existing w) \<or>
     (case wp_requirements w of None \<Rightarrow> False | Some t \<Rightarrow> py_contains ''pytest'' (py_lower t)) \<or>
     (case wp_pyproject w of None \<Rightarrow> False | Some t \<Rightarrow> py_contains ''pytest'' (py_lower t))"

definition py_get :: "pyval \<Rightarrow> string \<Rightarrow> pyval \<Rightarrow> string + pyval" where
  \<comment> \<open>\<open>v.get(k, default)\<close>, which only a dictionary has\<close>
  "py_get v k dflt = (case v of PDict d \<Rightarrow> Inr (dget_or d k dflt) | _ \<Rightarrow> Inl ''AttributeError'')"

definition detect_test_command ::
  "(string \<Rightarrow> pyval option) \<Rightarrow> workspace_probe \<Rightarrow> string option \<Rightarrow> string + string option" where
  "detect_test_command json_loads w requested =
     (case requested of
        Some (c # cs) \<Rightarrow> Inr (Some (py_strip (c # cs)))
      | _ \<Rightarrow>
        let rest = Inr (if wp_has_python w
                        then (if uses_pytest w then Some ''python -m pytest''
                              else Some ''python -m unittest discover'')
                        else None)
        in case wp_package_json w of
             None \<Rightarrow> rest
           | Some text \<Rightarrow>
               (let data = (case json_loads text of None \<Rightarrow> PDict [] | Some v \<Rightarrow> v)
                in case py_get data ''scripts'' (PDict []) of
                     Inl e \<Rightarrow> Inl e
                   | Inr scripts \<Rightarrow>
                       (case py_get scripts ''test'' PNone of
                          Inl e \<Rightarrow> Inl e
                        | Inr t \<Rightarrow> if truthy t then Inr (Some ''npm test'') else rest)))"

definition node_command :: "string \<Rightarrow> bool" where
  "node_command c \<longleftrightarrow> starts_with ''npm'' c \<or> starts_with ''pnpm'' c \<or> starts_with ''yarn'' c"

definition image_for_command :: "settings \<Rightarrow> string \<Rightarrow> string" where
  "image_for_command cfg c = (if node_command c then sandbox_node_image cfg else sandbox_python_image cfg)"

definition has_node_dependencies :: "pyval \<Rightarrow> string + bool" where
  "has_node_dependencies v =
     (case v of
        PDict d \<Rightarrow> Inr (list_ex (\<lambda>k. case dget d k of PDict s \<Rightarrow> s \<noteq> [] | _ \<Rightarrow> False)
          [''dependencies'', ''devDependencies'', ''optionalDependencies'', ''peerDependencies''])
      | _ \<Rightarrow> Inl ''AttributeError'')"

definition node_dependency_install_command ::
  "(string \<Rightarrow> pyval option) \<Rightarrow> workspace_probe \<Rightarrow> string \<Rightarrow> string + string option" where
  "node_dependency_install_command json_loads w command =
     (case Option.bind (wp_package_json w) json_loads of
        None \<Rightarrow> Inr None
      | Some data \<Rightarrow>
          (case has_node_dependencies data of
             Inl e \<Rightarrow> Inl e
           | Inr False \<Rightarrow> Inr None
           | Inr True \<Rightarrow> Inr (Some (
               if starts_with ''pnpm'' command
               then ''corepack enable && '' @
                 (if ''pnpm-lock.yaml'' \<in> wp_existing w then ''pnpm install --frozen-lockfile --ignore-scripts''
                  else ''pnpm install --ignore-scripts'')
               else if starts_with ''yarn'' command
               then ''corepack enable && '' @
                 (if ''yarn.lock'' \<in> wp_existing w then ''yarn install --frozen-lockfile --ignore-scripts''
                  else ''yarn install --ignore-scripts'')
               else if ''package-lock.json'' \<in> wp_existing w then ''npm ci --ignore-scripts''
               else ''npm install --ignore-scripts''))))"

definition requirements_has_dependencies :: "string \<Rightarrow> bool" where
  "requirements_has_dependencies text \<longleftrightarrow>
     list_ex (\<lambda>line. let stripped = py_strip line in stripped \<noteq> [] \<and> \<not> starts_with ''#'' stripped)
       (py_splitlines text)"

definition python_dependency_install_command :: "workspace_probe \<Rightarrow> string" where
  "python_dependency_install_command w = join '' && ''
     ([''python -m pip install --upgrade pip''] @
      (case wp_requirements w of
         Some t \<Rightarrow> if requirements_has_dependencies t then [''python -m pip install -r requirements.txt''] else []
       | None \<Rightarrow> []) @
      (if wp_pyproject w \<noteq> None then [''python -m pip install -e .''] else []) @
      [''python -m pip install pytest''])"

definition dependency_install_command ::
  "(string \<Rightarrow> pyval option) \<Rightarrow> workspace_probe \<Rightarrow> string \<Rightarrow> string + string option" where
  "dependency_install_command json_loads w command =
     (if node_command command then node_dependency_install_command json_loads w command
      else if command \<in> {''pytest'', ''python -m pytest''}
      then Inr (Some (python_dependency_install_command w))
      else Inr None)"

definition test_shell_command :: "string option \<Rightarrow> string \<Rightarrow> string" where
  "test_shell_command dependency command =
     (case dependency of
        None \<Rightarrow> command
      | Some d \<Rightarrow> ''{ '' @ d @ ''; } || exit 125; '' @ command)"

section \<open>Running tests\<close>

datatype process_outcome = Exited int string string | Timed_out string string

text \<open>
  The backends: a local process by its argument vector, the execution broker (\<open>Inl\<close> for any
  exception of the request, \<open>Inr\<close> the report it sent), the rendering of the firecracker template
  (\<open>None\<close> for what is not an argument vector), and the name given to a container.
\<close>

record backends =
  be_process :: "string list \<Rightarrow> process_outcome"
  be_broker :: "string \<Rightarrow> string \<Rightarrow> string \<Rightarrow> string \<Rightarrow> string + test_report"
  be_in_volume :: bool
  be_render :: "string \<Rightarrow> string \<Rightarrow> string \<Rightarrow> string list option"
  be_container :: string
  be_workspace :: string

definition process_result :: "process_outcome \<Rightarrow> string \<Rightarrow> string \<Rightarrow> test_report" where
  "process_result p command rt =
     (case p of
        Exited code out err \<Rightarrow> test_result_from_execution (code = 0) code out err command rt False
      | Timed_out out err \<Rightarrow>
          test_result_from_execution False 124 out (err @ [CHR 0x0A] @ ''Test command timed out.'')
            command rt True)"

definition docker_command :: "settings \<Rightarrow> backends \<Rightarrow> string \<Rightarrow> string \<Rightarrow> string \<Rightarrow> string list" where
  "docker_command cfg B rt img shell =
     [''docker'', ''run'', ''--rm'', ''--name'', be_container B, ''--memory'', ''512m'', ''--cpus'', ''1.0'',
      ''-v'', be_workspace B @ '':/workspace:rw'', ''-w'', ''/workspace''] @
     (if rt = ''gvisor'' then [''--runtime'', sandbox_gvisor_docker_runtime cfg] else []) @
     (if sandbox_network_disabled cfg then [''--network'', ''none''] else []) @
     [img, ''sh'', ''-lc'', shell]"

definition has_broker :: "settings \<Rightarrow> bool" where
  "has_broker cfg \<longleftrightarrow> sandbox_execution_broker_url cfg \<notin> {None, Some []}"

definition run_remote_docker_tests ::
  "backends \<Rightarrow> string \<Rightarrow> string \<Rightarrow> string \<Rightarrow> string \<Rightarrow> test_report" where
  "run_remote_docker_tests B command shell img rt =
     (if \<not> be_in_volume B then refused 126 ''Sandbox workspace is outside the broker volume'' command rt
      else case be_broker B command shell img rt of
             Inr r \<Rightarrow> post_init r
           | Inl exc \<Rightarrow> refused 126 (''Sandbox execution broker failed: '' @ exc) command rt)"

definition run_docker_tests ::
  "settings \<Rightarrow> backends \<Rightarrow> string \<Rightarrow> string \<Rightarrow> string \<Rightarrow> string \<Rightarrow> test_report" where
  "run_docker_tests cfg B command shell img rt =
     (if has_broker cfg then run_remote_docker_tests B command shell img rt
      else process_result (be_process B (docker_command cfg B rt img shell)) command rt)"

definition run_firecracker_tests ::
  "settings \<Rightarrow> backends \<Rightarrow> string \<Rightarrow> string \<Rightarrow> string \<Rightarrow> test_report" where
  "run_firecracker_tests cfg B command shell img =
     (case sandbox_firecracker_command_template cfg of
        Some (c # cs) \<Rightarrow>
          (case be_render B (c # cs) shell img of
             None \<Rightarrow> refused 126 ''SANDBOX_FIRECRACKER_COMMAND_TEMPLATE must be a JSON argv array.''
               command ''firecracker''
           | Some argv \<Rightarrow> process_result (be_process B argv) command ''firecracker'')
      | _ \<Rightarrow> refused 126
          ''SANDBOX_FIRECRACKER_COMMAND_TEMPLATE is required when SANDBOX_RUNTIME=firecracker.''
          command ''firecracker'')"

definition skipped :: "string \<Rightarrow> string option \<Rightarrow> string \<Rightarrow> string \<Rightarrow> test_report" where
  "skipped out command rt reason = post_init
     \<lparr>tr_passed = False, tr_exit_code = 0, tr_stdout = out, tr_stderr = [], tr_command = command,
      tr_tests_ran = False, tr_timed_out = False, tr_runtime = rt, tr_skipped_reason = Some reason,
      tr_failure_kind = Some ''skipped''\<rparr>"

definition no_command_text :: string where
  "no_command_text = utf8
     [230, 156, 170, 230, 163, 128, 230, 181, 139, 229, 136, 176, 230, 181, 139, 232,
     175, 149, 229, 145, 189, 228, 187, 164, 239, 188, 140, 230, 156, 170, 232, 191,
     144, 232, 161, 140, 230, 181, 139, 232, 175, 149, 239, 188, 155, 228, 187, 133,
     229, 174, 140, 230, 136, 144, 32, 112, 97, 116, 99, 104, 32, 229, 186, 148, 231,
     148, 168, 230, 160, 161, 233, 170, 140, 227, 128, 130]"

definition offline_text :: string where
  "offline_text = utf8
     [230, 156, 170, 232, 191, 144, 232, 161, 140, 230, 181, 139, 232, 175, 149, 239,
     188, 154, 115, 97, 110, 100, 98, 111, 120, 32, 229, 189, 147, 229, 137, 141, 231,
     166, 129, 231, 148, 168, 231, 189, 145, 231, 187, 156, 239, 188, 140, 228, 184,
     148, 230, 181, 139, 232, 175, 149, 229, 145, 189, 228, 187, 164, 233, 156, 128,
     232, 166, 129, 229, 133, 136, 229, 174, 137, 232, 163, 133, 228, 190, 157, 232,
     181, 150, 239, 188, 155, 228, 187, 133, 229, 174, 140, 230, 136, 144, 32, 112, 97,
     116, 99, 104, 32, 229, 186, 148, 231, 148, 168, 230, 160, 161, 233, 170, 140, 227,
     128, 130]"

definition offline_dependency_skip :: "string \<Rightarrow> string \<Rightarrow> test_report" where
  "offline_dependency_skip command rt = skipped offline_text (Some command) rt
     (''Sandbox network is disabled and the test command requires dependency '' @
      ''installation before it can run.'')"

definition run_tests ::
  "settings \<Rightarrow> (string \<Rightarrow> pyval option) \<Rightarrow> backends \<Rightarrow> workspace_probe \<Rightarrow> string option
    \<Rightarrow> string + test_report" where
  "run_tests cfg json_loads B w cmd =
     (let rt = py_lower (sandbox_runtime cfg) in
      case cmd of
        None \<Rightarrow> Inr (skipped no_command_text None rt ''No test command was configured or detected.'')
      | Some command \<Rightarrow>
        if command \<notin> allowed_test_commands cfg
        then Inr (refused 126 (''Test command is not allowed: '' @ command) command rt)
        else if rt \<notin> {''docker'', ''gvisor'', ''firecracker''}
        then Inr (refused 126 (''Unsupported sandbox runtime: '' @ sandbox_runtime cfg) command rt)
        else case dependency_install_command json_loads w command of
          Inl e \<Rightarrow> Inl e
        | Inr dependency \<Rightarrow>
            if rt \<in> {''docker'', ''gvisor''} \<and> sandbox_network_disabled cfg \<and> dependency \<noteq> None
            then Inr (offline_dependency_skip command rt)
            else
              let shell = test_shell_command dependency command; img = image_for_command cfg command in
              if rt = ''firecracker'' then
                (if has_broker cfg then Inr (run_remote_docker_tests B command shell img rt)
                 else Inr (run_firecracker_tests cfg B command shell img))
              else Inr (run_docker_tests cfg B command shell img rt))"

section \<open>Patches and files\<close>

text \<open>What git answered to the calls of \<open>_apply_patch\<close>, in their order.\<close>

record git_result =
  gr_returncode :: int
  gr_stdout :: string
  gr_stderr :: string

record git_answers =
  ga_untracked_before :: "string + string set"
  ga_check :: "string \<Rightarrow> git_result"
  ga_apply :: "string \<Rightarrow> git_result"
  ga_untracked_after :: "string + string set"
  ga_intent :: "string set \<Rightarrow> git_result"

definition git_failure :: "git_result \<Rightarrow> bool \<Rightarrow> pydict" where
  "git_failure r normalized =
     [(''ok'', PBool False), (''stdout'', PStr (gr_stdout r)), (''stderr'', PStr (gr_stderr r)),
      (''exit_code'', PInt (gr_returncode r)), (''patch_normalized'', PBool normalized)]"

definition apply_patch :: "git_answers \<Rightarrow> string \<Rightarrow> pydict" where
  "apply_patch g diff =
     (if py_strip diff = [] then
        [(''ok'', PBool False), (''stdout'', PStr []), (''stderr'', PStr ''Empty patch'')]
      else case normalize_unified_diff_hunks diff of
        Inl exc \<Rightarrow>
          [(''ok'', PBool False), (''stdout'', PStr []),
           (''stderr'', PStr (''Invalid unified diff: '' @ exc)), (''exit_code'', PInt 128)]
      | Inr (content, repaired_hunks) \<Rightarrow>
        (case ga_untracked_before g of
           Inl e \<Rightarrow> [(''ok'', PBool False), (''stdout'', PStr []), (''stderr'', PStr e), (''exit_code'', PInt 1)]
         | Inr untracked_before \<Rightarrow>
           let check = ga_check g content; result = ga_apply g content in
           if gr_returncode check \<noteq> 0 then git_failure check (0 < repaired_hunks)
           else if gr_returncode result \<noteq> 0 then git_failure result (0 < repaired_hunks)
           else case ga_untracked_after g of
             Inl e \<Rightarrow> [(''ok'', PBool False), (''stdout'', PStr (gr_stdout result)), (''stderr'', PStr e),
                       (''exit_code'', PInt 1)]
           | Inr untracked_after \<Rightarrow>
             let added = untracked_after - untracked_before; intent = ga_intent g added in
             if added \<noteq> {} \<and> gr_returncode intent \<noteq> 0 then
               [(''ok'', PBool False), (''stdout'', PStr (gr_stdout result @ gr_stdout intent)),
                (''stderr'', PStr (gr_stderr result @ gr_stderr intent)),
                (''exit_code'', PInt (gr_returncode intent))]
             else
               [(''ok'', PBool True), (''stdout'', PStr (gr_stdout result)),
                (''stderr'', PStr (gr_stderr result)), (''exit_code'', PInt 0),
                (''patch_normalized'', PBool (0 < repaired_hunks))]))"

definition reset_workspace :: "git_result \<Rightarrow> git_result \<Rightarrow> pydict" where
  "reset_workspace reset clean =
     [(''ok'', PBool (gr_returncode reset = 0 \<and> gr_returncode clean = 0)),
      (''stdout'', PStr (gr_stdout reset @ gr_stdout clean)),
      (''stderr'', PStr (gr_stderr reset @ gr_stderr clean))]"

definition git_diff :: "git_result \<Rightarrow> string" where
  "git_diff r = (if gr_returncode r = 0 then gr_stdout r else gr_stderr r)"

definition IGNORED_NAMES :: "string set" where
  "IGNORED_NAMES = {''node_modules'', ''dist'', ''build'', ''.next'', ''coverage'', ''.env'', ''.env.local'',
     ''.env.development'', ''.env.production''}"

definition ignore_names :: "(string \<Rightarrow> bool) \<Rightarrow> string list \<Rightarrow> string set" where
  \<comment> \<open>\<open>_ignore\<close>: the names of a directory the copy leaves out; the first argument says which are links\<close>
  "ignore_names is_symlink names =
     {name \<in> set names. name \<in> IGNORED_NAMES \<or> starts_with ''.env'' name \<or> is_symlink name}"

definition path_parts :: "string \<Rightarrow> string list" where
  "path_parts p = filter (\<lambda>part. part \<noteq> [] \<and> part \<noteq> ''.'') (py_split CHR ''/'' p)"

fun py_slice :: "int \<Rightarrow> int \<Rightarrow> 'a list \<Rightarrow> 'a list" where
  \<comment> \<open>\<open>xs[i:j]\<close> for \<open>0 \<le> i\<close>; a negative end counts from the end\<close>
  "py_slice i j xs = drop (nat i) (py_head j xs)"

text \<open>
  \<open>_read_file\<close>: which prefixes of the path are symbolic links, whether the resolved path stays inside
  the workspace, and the text of the file (\<open>None\<close> when it cannot be read).
\<close>

definition read_file ::
  "(string list \<Rightarrow> bool) \<Rightarrow> (string list \<Rightarrow> bool) \<Rightarrow> (string list \<Rightarrow> string option)
    \<Rightarrow> string \<Rightarrow> int option \<Rightarrow> int option \<Rightarrow> string + pydict" where
  "read_file is_symlink inside file_text file_path start_line end_line =
     (let parts = path_parts file_path in
      if starts_with ''/'' file_path \<or> ''..'' \<in> set parts then Inl ''PermissionError: Invalid file path''
      else if list_ex (\<lambda>n. is_symlink (take n parts)) [1..<length parts + 1]
      then Inl ''PermissionError: Symbolic links are not readable in the sandbox''
      else if \<not> inside parts then Inl ''PermissionError: Invalid file path''
      else case file_text parts of
             None \<Rightarrow> Inl ''OSError''
           | Some text \<Rightarrow>
               let lines = py_splitlines text;
                   safe_start = max (case start_line of None \<Rightarrow> 1 | Some n \<Rightarrow> if n = 0 then 1 else n) 1;
                   n_lines = int (length lines);
                   safe_end = min (case end_line of None \<Rightarrow> n_lines | Some n \<Rightarrow> if n = 0 then n_lines else n) n_lines
               in Inr [(''file_path'', PStr file_path), (''start_line'', PInt safe_start),
                       (''end_line'', PInt safe_end),
                       (''content'', PStr (join [CHR 0x0A] (py_slice (safe_start - 1) safe_end lines)))])"

end
