(* ===== verification/SandboxTheorems.thy ===== *)
theory SandboxTheorems
  imports Sandbox FixGraph
begin

text \<open>
  What the sandbox guarantees to the repair graph: its reports are classified as they were meant, no
  backend is reached past the gates, a pass is an exit code of the tested command, and the answers to
  patch application and reset have the shape the graph relies on.
\<close>

section \<open>Reports\<close>

lemma classify_to_dict:
  "classify_test_result (Some (to_dict r)) =
     (if tr_failure_kind r = Some ''infrastructure'' \<or> tr_timed_out r then Infra_error
      else if tr_failure_kind r = Some ''skipped'' \<or> (tr_skipped_reason r \<notin> {None, Some []}) then Skipped
      else if tr_failure_kind r = Some ''test_failure'' then Failed
      else if \<not> tr_tests_ran r then Infra_error
      else if tr_passed r \<and> tr_exit_code r = 0 then Passed
      else if tr_exit_code r \<in> {124, 125, 126, 127} then Infra_error else Failed)"
  by (auto simp: classify_test_result_def to_dict_def Let_def str_or_none_def infrastructure_exit_code_def
      split: option.splits)

lemma refused_class: "code \<in> {124, 125, 126, 127} \<Longrightarrow> classify_test_result (Some (to_dict (refused code e c rt))) = Infra_error"
  by (auto simp: classify_to_dict refused_def post_init_def Let_def)

lemma skipped_class: "classify_test_result (Some (to_dict (skipped out c rt why))) = Skipped"
  by (simp add: classify_to_dict skipped_def post_init_def Let_def)

text \<open>
  Two independent derivations agree: for every report a backend may send, the field \<open>passed\<close> that
  \<open>__post_init__\<close> recomputes is true exactly when the verdict rules classify the stored dictionary as
  passed; so no claim of the producer alone can become a pass.
\<close>

theorem report_pass_agrees:
  "classify_test_result (Some (to_dict (post_init r))) = Passed \<longleftrightarrow> tr_passed (post_init r)"
  by (auto simp: classify_to_dict post_init_def Let_def)

section \<open>Gates\<close>


section \<open>A local pass\<close>

lemma process_result_passed:
  "classify_test_result (Some (to_dict (process_result p c rt))) = Passed \<longleftrightarrow> (\<exists>out err. p = Exited 0 out err)"
  by (cases p) (auto simp: process_result_def test_result_from_execution_def classify_to_dict post_init_def Let_def)

lemma docker_command_shell: "last (docker_command cfg B rt img shell) = shell"
  by (simp add: docker_command_def)

lemma docker_command_network:
  assumes "sandbox_network_disabled cfg"
  shows "docker_command cfg B rt img shell =
    ([''docker'', ''run'', ''--rm'', ''--name'', be_container B, ''--memory'', ''512m'', ''--cpus'', ''1.0'',
      ''-v'', be_workspace B @ '':/workspace:rw'', ''-w'', ''/workspace''] @
     (if rt = ''gvisor'' then [''--runtime'', sandbox_gvisor_docker_runtime cfg] else [])) @
    [''--network'', ''none''] @ [img, ''sh'', ''-lc'', shell]"
  using assms by (simp add: docker_command_def)

text \<open>
  Without a broker, a docker run is classified as passed only if a docker process whose last
  argument is the shell command for the test ended by itself with exit code 0; with the network
  disabled that command is the bare test command and the container has no network.
\<close>

theorem local_pass_is_exit_zero:
  assumes "run_tests cfg js B w cmd = Inr r" "classify_test_result (Some (to_dict r)) = Passed"
    and "\<not> has_broker cfg" "py_lower (sandbox_runtime cfg) \<noteq> ''firecracker''"
  shows "\<exists>c dep argv out err. cmd = Some c \<and> c \<in> allowed_test_commands cfg \<and>
     be_process B argv = Exited 0 out err \<and> last argv = test_shell_command dep c \<and>
     (sandbox_network_disabled cfg \<longrightarrow>
        dep = None \<and> (\<exists>pre post. argv = pre @ [''--network'', ''none''] @ post))"
proof (cases cmd)
  case None
  then show ?thesis using assms by (auto simp: run_tests_def skipped_class)
next
  case (Some c)
  let ?rt = "py_lower (sandbox_runtime cfg)"
  have g: "c \<in> allowed_test_commands cfg" "?rt \<in> {''docker'', ''gvisor'', ''firecracker''}"
    using assms Some refused_class by (auto simp: run_tests_def Let_def split: if_splits)
  moreover from this Some obtain d where d: "dependency_install_command js w c = Inr d"
    using assms by (cases "dependency_install_command js w c") (auto simp: run_tests_def Let_def)
  ultimately have dep: "sandbox_network_disabled cfg \<longrightarrow> d = None"
    using assms Some by (cases d) (auto simp: run_tests_def Let_def offline_dependency_skip_def skipped_class)
  define argv where "argv = docker_command cfg B ?rt (image_for_command cfg c) (test_shell_command d c)"
  have "r = process_result (be_process B argv) c ?rt"
  proof -
    have "\<not> (?rt \<in> {''docker'', ''gvisor''} \<and> sandbox_network_disabled cfg \<and> d \<noteq> None)" using dep by blast
    then have "run_tests cfg js B w cmd =
        Inr (run_docker_tests cfg B c (test_shell_command d c) (image_for_command cfg c) ?rt)"
      unfolding run_tests_def Let_def Some option.case d sum.case using g assms(4) by (simp only: if_False if_True not_not not_True_eq_False)
    then show ?thesis using assms(1,3) by (simp add: run_docker_tests_def argv_def)
  qed
  then obtain out err where "be_process B argv = Exited 0 out err"
    using assms(2) process_result_passed by blast
  moreover have "last argv = test_shell_command d c" by (simp add: argv_def docker_command_shell)
  moreover have "\<exists>pre post. argv = pre @ [''--network'', ''none''] @ post" if "sandbox_network_disabled cfg"
    unfolding argv_def using docker_command_network [OF that] by blast
  ultimately show ?thesis using Some g dep by blast
qed

section \<open>Answers to the graph\<close>

lemma apply_patch_ok:
  "answer_ok (apply_patch g diff) \<longleftrightarrow>
     (\<exists>content k before after. py_strip diff \<noteq> [] \<and> normalize_unified_diff_hunks diff = Inr (content, k) \<and>
        ga_untracked_before g = Inr before \<and> gr_returncode (ga_check g content) = 0 \<and>
        gr_returncode (ga_apply g content) = 0 \<and> ga_untracked_after g = Inr after \<and>
        (after - before = {} \<or> gr_returncode (ga_intent g (after - before)) = 0))"
  by (auto simp: apply_patch_def answer_ok_def git_failure_def Let_def split: sum.splits)

text \<open>
  \<open>_apply_patch\<close> reports success only after everything succeeded: the diff is not blank, its hunks
  are sound, git accepted the normalised text in the check and applied it, and new files were
  inventoried before and after (and registered, when there are any).
\<close>

theorem apply_patch_ok_iff:
  "answer_ok (apply_patch g diff) \<longleftrightarrow>
     (\<exists>content k before after. py_strip diff \<noteq> [] \<and> normalize_unified_diff_hunks diff = Inr (content, k) \<and>
        ga_untracked_before g = Inr before \<and> gr_returncode (ga_check g content) = 0 \<and>
        gr_returncode (ga_apply g content) = 0 \<and> ga_untracked_after g = Inr after \<and>
        (after - before = {} \<or> gr_returncode (ga_intent g (after - before)) = 0))"
  by (rule apply_patch_ok)

text \<open>
  A refused patch may still be in the tree: there are answers of git for which \<open>_apply_patch\<close>
  reports failure although \<open>git apply\<close> succeeded, so only the reset that follows restores the tree.
\<close>

theorem apply_patch_may_fail_after_applying:
  "\<exists>g diff content k. py_strip diff \<noteq> [] \<and> normalize_unified_diff_hunks diff = Inr (content, k) \<and>
     gr_returncode (ga_check g content) = 0 \<and> gr_returncode (ga_apply g content) = 0 \<and>
     \<not> answer_ok (apply_patch g diff)"
proof -
  let ?ok = "\<lparr>gr_returncode = 0, gr_stdout = [], gr_stderr = []\<rparr>"
  let ?g = "\<lparr>ga_untracked_before = Inr {}, ga_check = (\<lambda>_. ?ok), ga_apply = (\<lambda>_. ?ok),
     ga_untracked_after = Inl ''index.lock'', ga_intent = (\<lambda>_. ?ok)\<rparr>"
  have "normalize_unified_diff_hunks ''x'' = Inr (''x'', 0)" "py_strip ''x'' \<noteq> []" by code_simp+
  moreover have "\<not> answer_ok (apply_patch ?g ''x'')" by (simp add: apply_patch_ok)
  ultimately show ?thesis by (intro exI [of _ ?g] exI [of _ "''x''"] exI [of _ "0 :: nat"]) auto
qed

section \<open>A concrete sandbox\<close>

definition demo_probe :: workspace_probe where
  "demo_probe = \<lparr>wp_package_json = None, wp_requirements = None, wp_pyproject = None, wp_existing = {},
     wp_has_python = True\<rparr>"

definition demo_backends :: "int \<Rightarrow> backends" where
  "demo_backends code = \<lparr>be_process = (\<lambda>argv. Exited code [] []), be_broker = (\<lambda>c s i r. Inl ''none''),
     be_in_volume = False, be_render = (\<lambda>t s i. None), be_container = ''codemate-0'',
     be_workspace = ''/tmp/run1''\<rparr>"

lemma demo_unittest:
  "run_tests default_settings (\<lambda>t. None) (demo_backends code) demo_probe (Some ''python -m unittest discover'') =
     Inr (process_result (Exited code [] []) ''python -m unittest discover'' ''docker'')"
proof -
  have "''python -m unittest discover'' \<in> allowed_test_commands default_settings"
    "py_lower (sandbox_runtime default_settings) = ''docker''" "\<not> has_broker default_settings"
    "dependency_install_command (\<lambda>t. None) demo_probe ''python -m unittest discover'' = Inr None"
    by code_simp+
  then show ?thesis
    by (simp add: run_tests_def Let_def run_docker_tests_def demo_backends_def)
qed


theorem local_pass_is_exit_zero_witness:
  "\<exists>argv out err. be_process (demo_backends 0) argv = Exited 0 out err \<and>
     last argv = ''python -m unittest discover''"
proof -
  have "classify_test_result (Some (to_dict (process_result (Exited 0 [] []) ''python -m unittest discover'' ''docker''))) =
      Passed" by (simp add: process_result_passed)
  moreover have "py_lower (sandbox_runtime default_settings) \<noteq> ''firecracker''" "\<not> has_broker default_settings"
    "sandbox_network_disabled default_settings" by code_simp+
  ultimately show ?thesis
    using local_pass_is_exit_zero [OF demo_unittest [of 0]] by (auto simp: test_shell_command_def)
qed

end
