(* ===== verification/Tables.thy ===== *)
theory Tables
  imports Settings
begin

text \<open>
  The tables of the database the agent services share (\<open>backend/app/models\<close>): runs, MCP approvals, MCP
  executions and MCP server health, each a map from the primary key to its row.  A service method is
  one transaction: it takes the database, gives a result or the exception it raises, and the database
  it committed.  The rows are locked while it runs, so methods are atomic.
\<close>

section \<open>Rows\<close>

record run_row =
  u_repo_id :: string
  u_user_input :: string
  u_test_command :: "string option"
  u_status :: string
  u_final_diff :: "string option"
  u_final_summary :: "string option"
  u_failure_reason :: "string option"
  u_test_result :: "pydict option"
  u_iterations :: int
  u_updated_at :: time
  u_finished_at :: "time option"

record approval_row =
  a_run_id :: string
  a_qualified_name :: string
  a_server_name :: string
  a_tool_name :: string
  a_arguments :: pydict
  a_arguments_hash :: string
  a_tool_schema :: pydict
  a_policy_snapshot :: string
  a_checkpoint :: pydict
  a_checkpoint_hash :: string
  a_status :: string
  a_decision :: "string option"
  a_decision_note :: "string option"
  a_decided_by :: "string option"
  a_decided_provider :: "string option"
  a_result :: "pydict option"
  a_error_message :: "string option"
  a_version :: int
  a_requested_at :: time
  a_expires_at :: time
  a_decided_at :: "time option"
  a_execution_started_at :: "time option"
  a_execution_finished_at :: "time option"
  a_updated_at :: time

record execution_row =
  x_run_id :: string
  x_approval_id :: "string option"
  x_qualified_name :: string
  x_server_name :: string
  x_tool_name :: string
  x_arguments :: pydict
  x_arguments_hash :: string
  x_idempotency_key :: string
  x_idempotency_mode :: string
  x_status :: string
  x_attempt_count :: int
  x_recovery_count :: int
  x_deduplication_hits :: int
  x_retry_safe :: bool
  x_lease_token :: "string option"
  x_lease_owner :: "string option"
  x_lease_expires_at :: "time option"
  x_checkpoint :: "pydict option"
  x_checkpoint_hash :: "string option"
  x_result :: "pydict option"
  x_error_message :: "string option"
  x_reconciliation_note :: "string option"
  x_reconciled_by :: "string option"
  x_reconciled_provider :: "string option"
  x_version :: int
  x_created_at :: time
  x_started_at :: "time option"
  x_finished_at :: "time option"
  x_reconciled_at :: "time option"
  x_updated_at :: time

record health_row =
  hl_public_url :: "string option"
  hl_circuit_state :: string
  hl_manual_open :: bool
  hl_consecutive_failures :: int
  hl_total_requests :: int
  hl_total_transport_successes :: int
  hl_total_transport_failures :: int
  hl_circuit_rejections :: int
  hl_circuit_open_count :: int
  hl_total_probes :: int
  hl_failed_probes :: int
  hl_last_probe_status :: string
  hl_last_probe_at :: "time option"
  hl_last_success_at :: "time option"
  hl_last_failure_at :: "time option"
  hl_last_error :: "string option"
  hl_protocol_version :: "string option"
  hl_server_info :: "pydict option"
  hl_opened_at :: "time option"
  hl_cooldown_until :: "time option"
  hl_half_open_trial_id :: "string option"
  hl_half_open_lease_expires_at :: "time option"
  hl_version :: int
  hl_updated_at :: time

record db =
  db_runs :: "string \<Rightarrow> run_row option"
  db_approvals :: "string \<Rightarrow> approval_row option"
  db_executions :: "string \<Rightarrow> execution_row option"
  db_health :: "string \<Rightarrow> health_row option"

definition empty_db :: db where
  "empty_db = \<lparr>db_runs = (\<lambda>_. None), db_approvals = (\<lambda>_. None), db_executions = (\<lambda>_. None),
     db_health = (\<lambda>_. None)\<rparr>"

definition put_run :: "string \<Rightarrow> run_row \<Rightarrow> db \<Rightarrow> db" where
  "put_run i r d = d\<lparr>db_runs := (db_runs d)(i := Some r)\<rparr>"

definition put_approval :: "string \<Rightarrow> approval_row \<Rightarrow> db \<Rightarrow> db" where
  "put_approval i r d = d\<lparr>db_approvals := (db_approvals d)(i := Some r)\<rparr>"

definition put_execution :: "string \<Rightarrow> execution_row \<Rightarrow> db \<Rightarrow> db" where
  "put_execution i r d = d\<lparr>db_executions := (db_executions d)(i := Some r)\<rparr>"

definition put_health :: "string \<Rightarrow> health_row \<Rightarrow> db \<Rightarrow> db" where
  "put_health i r d = d\<lparr>db_health := (db_health d)(i := Some r)\<rparr>"

lemmas put_defs = put_run_def put_approval_def put_execution_def put_health_def

lemma put_run_simps [simp]:
  "db_runs (put_run i r d) = (db_runs d)(i := Some r)"
  "db_approvals (put_run i r d) = db_approvals d"
  "db_executions (put_run i r d) = db_executions d"
  "db_health (put_run i r d) = db_health d"
  by (simp_all add: put_run_def)

lemma put_approval_simps [simp]:
  "db_runs (put_approval i a d) = db_runs d"
  "db_approvals (put_approval i a d) = (db_approvals d)(i := Some a)"
  "db_executions (put_approval i a d) = db_executions d"
  "db_health (put_approval i a d) = db_health d"
  by (simp_all add: put_approval_def)

lemma put_execution_simps [simp]:
  "db_runs (put_execution i x d) = db_runs d"
  "db_approvals (put_execution i x d) = db_approvals d"
  "db_executions (put_execution i x d) = (db_executions d)(i := Some x)"
  "db_health (put_execution i x d) = db_health d"
  by (simp_all add: put_execution_def)

lemma put_health_simps [simp]:
  "db_runs (put_health i h d) = db_runs d"
  "db_approvals (put_health i h d) = db_approvals d"
  "db_executions (put_health i h d) = db_executions d"
  "db_health (put_health i h d) = (db_health d)(i := Some h)"
  by (simp_all add: put_health_def)

section \<open>Exceptions of the services\<close>

datatype service_error =
    Not_found string
  | Conflict string
  | Execution_in_progress string
  | Reconciliation_needed string string
  | Circuit_open string "int option"
  | Raised string

fun error_text :: "service_error \<Rightarrow> string" where
  \<comment> \<open>\<open>str(exc)\<close>\<close>
  "error_text (Not_found m) = m"
| "error_text (Conflict m) = m"
| "error_text (Execution_in_progress i) = ''MCP execution is already in progress''"
| "error_text (Reconciliation_needed i m) = m"
| "error_text (Circuit_open server r) =
     ''MCP circuit is open for server '' @ [CHR 0x27] @ server @ [CHR 0x27]"
| "error_text (Raised m) = m"

section \<open>Canonical JSON and digests\<close>

definition canonical_json :: "pyval \<Rightarrow> string" where
  "canonical_json v = json_dumps True True v"

definition sha256_json :: "(string \<Rightarrow> string) \<Rightarrow> pyval \<Rightarrow> string" where
  "sha256_json sha v = sha (canonical_json v)"

definition none_or_empty :: "string option \<Rightarrow> bool" where
  \<comment> \<open>a string in boolean context is false\<close>
  "none_or_empty s \<longleftrightarrow> s = None \<or> s = Some []"

definition or_default :: "string option \<Rightarrow> string \<Rightarrow> string" where
  \<comment> \<open>\<open>value or default\<close>\<close>
  "or_default s dflt = (if none_or_empty s then dflt else the s)"

section \<open>Rows under optimistic concurrency\<close>

text \<open>
  The discipline the services share: every committed change of a row raises its version.  A history
  of a row is a chain of such changes.
\<close>

locale versioned_row =
  fixes version :: "'row \<Rightarrow> int" and step :: "'row \<Rightarrow> 'row \<Rightarrow> bool"
  assumes step_version: "step r r' \<Longrightarrow> version r < version r'"
begin

lemma history_version: "step\<^sup>*\<^sup>* r r' \<Longrightarrow> version r \<le> version r'"
  by (induction rule: rtranclp_induct) (auto dest: step_version)

lemma history_same_version: "step\<^sup>*\<^sup>* r r' \<Longrightarrow> version r' = version r \<Longrightarrow> r' = r"
proof (induction rule: rtranclp_induct)
  case (step y z)
  then show ?case using history_version [of r y] step_version [of y z] by simp
qed simp

text \<open>Two states of one history with the same version are the same state: no lost update.\<close>

lemma version_identifies:
  assumes "step\<^sup>*\<^sup>* r a" "step\<^sup>*\<^sup>* a b" "version a = version b" shows "a = b"
  using history_same_version [OF assms(2)] assms(3) by simp

lemma version_ge_steps: "(step ^^ n) r r' \<Longrightarrow> version r + int n \<le> version r'"
proof (induction n arbitrary: r')
  case (Suc n)
  then obtain y where "(step ^^ n) r y" "step y r'" by auto
  then show ?case using Suc.IH [of y] step_version [of y r'] by simp
qed simp

end

locale settled_row = versioned_row version step
  for version :: "'row \<Rightarrow> int" and step :: "'row \<Rightarrow> 'row \<Rightarrow> bool" +
  fixes settled :: "'row \<Rightarrow> bool" and outcome :: "'row \<Rightarrow> 'o"
  assumes settled_step: "settled r \<Longrightarrow> step r r' \<Longrightarrow> settled r' \<and> outcome r' = outcome r"
begin

lemma settled_forever: "step\<^sup>*\<^sup>* r r' \<Longrightarrow> settled r \<Longrightarrow> settled r' \<and> outcome r' = outcome r"
  by (induction rule: rtranclp_induct) (auto dest: settled_step)

end

end
