(* ===== verification/Approvals.thy ===== *)
theory Approvals
  imports Tables FixState
begin

text \<open>
  The approval workflow of \<open>backend/app/services/mcp_approval_service.py\<close>: one method per operation on
  the approval rows, and what each leaves.  The clock, the generated id and the digest are arguments.
\<close>

section \<open>Operations\<close>

definition ACTIVE_APPROVAL_STATUSES :: "string set" where
  "ACTIVE_APPROVAL_STATUSES = {''pending'', ''queued'', ''resuming'', ''reconciliation_required''}"

text \<open>The newest active approval of a run: the row \<open>create_pending\<close> returns instead of a second one.\<close>

definition active_approval :: "db \<Rightarrow> string \<Rightarrow> string \<Rightarrow> bool" where
  "active_approval d rid i \<longleftrightarrow>
     (\<exists>a. db_approvals d i = Some a \<and> a_run_id a = rid \<and> a_status a \<in> ACTIVE_APPROVAL_STATUSES \<and>
        (\<forall>j b. db_approvals d j = Some b \<longrightarrow> a_run_id b = rid \<longrightarrow> a_status b \<in> ACTIVE_APPROVAL_STATUSES \<longrightarrow>
           a_requested_at b \<le> a_requested_at a))"

definition approval_waiting_summary :: string where
  "approval_waiting_summary = utf8
    [65, 103, 101, 110, 116, 32, 230, 173, 163, 229, 156, 168, 231, 173, 137, 229, 190,
    133, 32, 77, 67, 80, 32, 229, 183, 165, 229, 133, 183, 229, 174, 161, 230, 137, 185,
    227, 128, 130]"

definition approval_checkpoint :: "string \<Rightarrow> pydict \<Rightarrow> pydict" where
  "approval_checkpoint aid checkpoint =
     dset (dset checkpoint ''resume_from'' (PStr ''mcp_observe'')) ''mcp_pending_approval_id'' (PStr aid)"

definition new_approval ::
  "settings \<Rightarrow> (string \<Rightarrow> string) \<Rightarrow> time \<Rightarrow> string \<Rightarrow> string \<Rightarrow> mcp_call \<Rightarrow> catalog_entry \<Rightarrow> pydict
    \<Rightarrow> approval_row" where
  "new_approval cfg sha t aid rid call entry checkpoint = \<lparr>
     a_run_id = rid, a_qualified_name = c_qualified_name call, a_server_name = c_server call,
     a_tool_name = c_tool call,
     a_arguments = c_arguments call, a_arguments_hash = sha256_json sha (PDict (c_arguments call)),
     a_tool_schema = ct_input_schema entry,
     a_policy_snapshot = (if ct_policy entry = [] then ''deny'' else ct_policy entry),
     a_checkpoint = approval_checkpoint aid checkpoint,
     a_checkpoint_hash = sha (canonical_json (PDict (approval_checkpoint aid checkpoint))),
     a_status = ''pending'', a_decision = None, a_decision_note = None, a_decided_by = None,
     a_decided_provider = None, a_result = None, a_error_message = None, a_version = 1,
     a_requested_at = t, a_expires_at = t + secs (max 1 (mcp_approval_ttl_seconds cfg)),
     a_decided_at = None, a_execution_started_at = None, a_execution_finished_at = None,
     a_updated_at = t\<rparr>"

text \<open>
  \<open>create_pending\<close> for a run that is loaded; \<open>newest\<close> is what the query for an active approval found.
\<close>

definition create_pending ::
  "settings \<Rightarrow> (string \<Rightarrow> string) \<Rightarrow> time \<Rightarrow> string \<Rightarrow> string option \<Rightarrow> string \<Rightarrow> mcp_call \<Rightarrow> catalog_entry
    \<Rightarrow> pydict \<Rightarrow> db \<Rightarrow> (service_error + string) \<times> db" where
  "create_pending cfg sha t aid newest rid call entry checkpoint d =
     (if \<not> mcp_approval_enabled cfg then (Inl (Conflict ''MCP approval workflow is disabled''), d)
      else case newest of
        Some existing \<Rightarrow> (Inr existing, d)
      | None \<Rightarrow>
        if int (length (canonical_json (PDict (approval_checkpoint aid checkpoint))))
             > mcp_approval_max_checkpoint_chars cfg
        then (Inl (Conflict ''Agent checkpoint exceeds the configured size limit''), d)
        else case db_runs d rid of
          None \<Rightarrow> (Inl (Raised ''IntegrityError''), d)
        | Some run \<Rightarrow>
          (Inr aid,
           put_run rid (run\<lparr>u_status := ''waiting_approval'', u_final_summary := Some approval_waiting_summary,
               u_failure_reason := None, u_updated_at := t\<rparr>)
             (put_approval aid (new_approval cfg sha t aid rid call entry checkpoint) d)))"

definition normalized_decision :: "string \<Rightarrow> string" where
  "normalized_decision decision = (if decision = ''approve'' then ''approved'' else ''rejected'')"

definition decided_row :: "time \<Rightarrow> string \<Rightarrow> string option \<Rightarrow> string \<Rightarrow> string \<Rightarrow> approval_row \<Rightarrow> approval_row" where
  "decided_row t decision note actor provider a =
     (let expired = t \<ge> a_expires_at a in
      a\<lparr>a_decision := Some (if expired then ''rejected'' else normalized_decision decision),
        a_decision_note := (if expired then Some ''Approval expired before decision'' else note),
        a_decided_by := Some actor, a_decided_provider := Some provider, a_decided_at := Some t,
        a_status := ''queued'', a_version := a_version a + 1, a_updated_at := t\<rparr>)"

definition decide ::
  "time \<Rightarrow> string \<Rightarrow> string \<Rightarrow> string option \<Rightarrow> string \<Rightarrow> string \<Rightarrow> int \<Rightarrow> db
    \<Rightarrow> (service_error + approval_row) \<times> db" where
  "decide t aid decision note actor provider expected_version d =
     (case db_approvals d aid of
        None \<Rightarrow> (Inl (Not_found ''MCP approval not found''), d)
      | Some a \<Rightarrow>
        if a_version a \<noteq> expected_version then
          (if a_decision a = Some (normalized_decision decision) then (Inr a, d)
           else (Inl (Conflict ''MCP approval version conflict''), d))
        else if a_status a \<noteq> ''pending'' then
          (if a_decision a = Some (normalized_decision decision) then (Inr a, d)
           else (Inl (Conflict ''MCP approval has already been decided''), d))
        else (Inr (decided_row t decision note actor provider a),
              put_approval aid (decided_row t decision note actor provider a) d))"

definition expired_row :: "time \<Rightarrow> approval_row \<Rightarrow> approval_row" where
  "expired_row t a =
     a\<lparr>a_decision := Some ''rejected'', a_decision_note := Some ''Approval expired'',
       a_decided_by := Some ''system-expiry'', a_decided_provider := Some ''system'',
       a_decided_at := Some t, a_status := ''queued'', a_version := a_version a + 1, a_updated_at := t\<rparr>"

definition expire :: "time \<Rightarrow> string \<Rightarrow> db \<Rightarrow> approval_row option \<times> db" where
  "expire t aid d =
     (case db_approvals d aid of
        None \<Rightarrow> (None, d)
      | Some a \<Rightarrow>
        if a_status a \<noteq> ''pending'' then (None, d)
        else if t < a_expires_at a then (None, d)
        else (Some (expired_row t a), put_approval aid (expired_row t a) d))"

definition claimed_row :: "time \<Rightarrow> approval_row \<Rightarrow> approval_row" where
  "claimed_row t a = a\<lparr>a_status := ''resuming'', a_execution_started_at := Some t,
     a_version := a_version a + 1, a_updated_at := t\<rparr>"

definition claimable :: "settings \<Rightarrow> time \<Rightarrow> approval_row \<Rightarrow> bool" where
  \<comment> \<open>queued, or resuming by a worker that started too long ago\<close>
  "claimable cfg t a \<longleftrightarrow>
     (if a_status a = ''resuming''
      then (case a_execution_started_at a of
              None \<Rightarrow> True
            | Some started \<Rightarrow> \<not> t - started < secs (max 1 (mcp_approval_resume_stale_seconds cfg)))
      else a_status a = ''queued'')"

definition claim_for_resume ::
  "settings \<Rightarrow> time \<Rightarrow> string \<Rightarrow> db \<Rightarrow> (service_error + approval_row option) \<times> db" where
  "claim_for_resume cfg t aid d =
     (case db_approvals d aid of
        None \<Rightarrow> (Inl (Not_found ''MCP approval not found''), d)
      | Some a \<Rightarrow>
        if claimable cfg t a then (Inr (Some (claimed_row t a)), put_approval aid (claimed_row t a) d)
        else (Inr None, d))"

definition finished_row :: "time \<Rightarrow> pydict \<Rightarrow> bool \<Rightarrow> approval_row \<Rightarrow> approval_row" where
  "finished_row t result failed a =
     a\<lparr>a_status := (if failed then ''failed'' else ''completed''),
       a_result := Some result,
       a_error_message := (if failed then Some (take 4000 (py_str (dget result ''error''))) else None),
       a_execution_finished_at := Some t,
       a_version := a_version a + 1, a_updated_at := t\<rparr>"

definition finish_approval :: "time \<Rightarrow> string \<Rightarrow> pydict \<Rightarrow> bool \<Rightarrow> db \<Rightarrow> db" where
  \<comment> \<open>\<open>finish\<close>: it looks at no status\<close>
  "finish_approval t aid result failed d =
     (case db_approvals d aid of
        None \<Rightarrow> d
      | Some a \<Rightarrow> put_approval aid (finished_row t result failed a) d)"

definition verify_checkpoint :: "(string \<Rightarrow> string) \<Rightarrow> approval_row \<Rightarrow> bool" where
  "verify_checkpoint sha a \<longleftrightarrow> sha (canonical_json (PDict (a_checkpoint a))) = a_checkpoint_hash a"

section \<open>What callers see\<close>

definition SENSITIVE_KEY_PARTS :: "string list" where
  "SENSITIVE_KEY_PARTS = [''authorization'', ''password'', ''secret'', ''token'', ''api_key'', ''apikey'']"

definition sensitive_key :: "string \<Rightarrow> bool" where
  "sensitive_key key =
     (let normalized = map (\<lambda>c. if c = CHR ''-'' then CHR ''_'' else c) (py_lower key)
      in list_ex (\<lambda>part. py_contains part normalized) SENSITIVE_KEY_PARTS)"

primrec redact_sensitive :: "pyval \<Rightarrow> pyval" where
  "redact_sensitive PNone = PNone"
| "redact_sensitive (PBool b) = PBool b"
| "redact_sensitive (PInt n) = PInt n"
| "redact_sensitive (PStr s) = PStr s"
| "redact_sensitive (PList xs) = PList (map redact_sensitive xs)"
| "redact_sensitive (PDict d) =
     PDict (map (\<lambda>(k, v). (k, if sensitive_key k then PStr ''***redacted***'' else v))
       (map (map_prod id redact_sensitive) d))"

section \<open>Changes the execution service makes\<close>

text \<open>\<open>mark_run_waiting_reconciliation\<close> and \<open>prepare_resume_target\<close> on the approval row.\<close>

definition unreconciled_row :: "time \<Rightarrow> string option \<Rightarrow> approval_row \<Rightarrow> approval_row" where
  "unreconciled_row t err a = a\<lparr>a_status := ''reconciliation_required'', a_error_message := err,
     a_version := a_version a + 1, a_updated_at := t\<rparr>"

definition requeued_row :: "time \<Rightarrow> approval_row \<Rightarrow> approval_row" where
  "requeued_row t a = a\<lparr>a_status := ''queued'', a_error_message := None, a_execution_started_at := None,
     a_execution_finished_at := None, a_version := a_version a + 1, a_updated_at := t\<rparr>"

section \<open>Histories of a row\<close>

inductive approval_step :: "settings \<Rightarrow> approval_row \<Rightarrow> approval_row \<Rightarrow> bool" for cfg where
  decided: "a_status a = ''pending'' \<Longrightarrow> approval_step cfg a (decided_row t decision note actor provider a)"
| expired: "a_status a = ''pending'' \<Longrightarrow> a_expires_at a \<le> t \<Longrightarrow> approval_step cfg a (expired_row t a)"
| claimed: "claimable cfg t a \<Longrightarrow> approval_step cfg a (claimed_row t a)"
| finished: "approval_step cfg a (finished_row t result failed a)"
| unreconciled: "a_status a \<notin> {''completed'', ''failed''} \<Longrightarrow> approval_step cfg a (unreconciled_row t err a)"
| requeued: "a_status a \<in> {''reconciliation_required'', ''resuming'', ''failed''} \<Longrightarrow>
    approval_step cfg a (requeued_row t a)"

inductive_simps approval_step_iff: "approval_step cfg a b"

lemmas approval_row_defs = decided_row_def expired_row_def claimed_row_def finished_row_def
  unreconciled_row_def requeued_row_def

interpretation approvals: versioned_row a_version "approval_step cfg" for cfg
  by unfold_locales (auto simp: approval_step_iff approval_row_defs Let_def)

end
