(* ===== verification/Circuit.thy ===== *)
theory Circuit
  imports Tables
begin

text \<open>
  The circuit breaker of \<open>backend/app/services/mcp_operations_service.py\<close> on the health rows of the MCP
  servers: admission of an execution, the record of transport outcomes and probes, and the manual
  control.  Latencies are floating-point display values and are left out.
\<close>

section \<open>The row\<close>

definition new_health :: "time \<Rightarrow> health_row" where
  "new_health t = \<lparr>hl_public_url = None, hl_circuit_state = ''closed'', hl_manual_open = False,
     hl_consecutive_failures = 0, hl_total_requests = 0, hl_total_transport_successes = 0,
     hl_total_transport_failures = 0, hl_circuit_rejections = 0, hl_circuit_open_count = 0,
     hl_total_probes = 0, hl_failed_probes = 0, hl_last_probe_status = ''unknown'',
     hl_last_probe_at = None, hl_last_success_at = None, hl_last_failure_at = None,
     hl_last_error = None, hl_protocol_version = None, hl_server_info = None, hl_opened_at = None,
     hl_cooldown_until = None, hl_half_open_trial_id = None, hl_half_open_lease_expires_at = None,
     hl_version = 1, hl_updated_at = t\<rparr>"

definition locked_or_create :: "time \<Rightarrow> string \<Rightarrow> db \<Rightarrow> health_row" where
  "locked_or_create t server d = (case db_health d server of None \<Rightarrow> new_health t | Some h \<Rightarrow> h)"

definition close_circuit :: "health_row \<Rightarrow> health_row" where
  "close_circuit h = h\<lparr>hl_circuit_state := ''closed'', hl_consecutive_failures := 0, hl_opened_at := None,
     hl_cooldown_until := None, hl_half_open_trial_id := None, hl_half_open_lease_expires_at := None\<rparr>"

definition open_circuit :: "settings \<Rightarrow> time \<Rightarrow> bool \<Rightarrow> health_row \<Rightarrow> health_row" where
  "open_circuit cfg t manual h = h\<lparr>
     hl_circuit_open_count := hl_circuit_open_count h + (if hl_circuit_state h \<noteq> ''open'' then 1 else 0),
     hl_circuit_state := ''open'', hl_manual_open := manual, hl_opened_at := Some t,
     hl_cooldown_until := (if manual then None else Some (t + secs (max 1 (mcp_circuit_cooldown_seconds cfg)))),
     hl_half_open_trial_id := None, hl_half_open_lease_expires_at := None\<rparr>"

definition record_failure :: "settings \<Rightarrow> time \<Rightarrow> string \<Rightarrow> health_row \<Rightarrow> health_row" where
  "record_failure cfg t err h =
     (let h1 = h\<lparr>hl_consecutive_failures := hl_consecutive_failures h + 1, hl_last_failure_at := Some t,
                 hl_last_error := Some (take 4000 err)\<rparr>;
          should_open = (hl_circuit_state h1 = ''half_open'' \<or>
            hl_consecutive_failures h1 \<ge> max 1 (mcp_circuit_failure_threshold cfg))
      in if mcp_circuit_breaker_enabled cfg \<and> should_open \<and> \<not> hl_manual_open h1
         then open_circuit cfg t False h1 else h1)"

definition touched :: "time \<Rightarrow> health_row \<Rightarrow> health_row" where
  "touched t h = h\<lparr>hl_version := hl_version h + 1, hl_updated_at := t\<rparr>"

section \<open>Admission\<close>

definition half_open_for :: "settings \<Rightarrow> time \<Rightarrow> string \<Rightarrow> health_row \<Rightarrow> health_row" where
  "half_open_for cfg t execution_id h = h\<lparr>hl_circuit_state := ''half_open'',
     hl_half_open_trial_id := Some execution_id,
     hl_half_open_lease_expires_at :=
       Some (t + secs (max 1 (mcp_circuit_half_open_lease_seconds cfg)))\<rparr>"

definition active_trial :: "time \<Rightarrow> string \<Rightarrow> health_row \<Rightarrow> bool" where
  "active_trial t execution_id h \<longleftrightarrow>
     \<not> none_or_empty (hl_half_open_trial_id h) \<and> hl_half_open_trial_id h \<noteq> Some execution_id \<and>
     (case hl_half_open_lease_expires_at h of None \<Rightarrow> False | Some e \<Rightarrow> t < e)"

definition still_open :: "time \<Rightarrow> health_row \<Rightarrow> bool" where
  "still_open t h \<longleftrightarrow> hl_manual_open h \<or> (case hl_cooldown_until h of None \<Rightarrow> True | Some c \<Rightarrow> t < c)"

definition admit :: "settings \<Rightarrow> time \<Rightarrow> string \<Rightarrow> health_row \<Rightarrow> health_row option" where
  \<comment> \<open>the row of an admitted execution, \<open>None\<close> for a rejection\<close>
  "admit cfg t execution_id h =
     (if \<not> mcp_circuit_breaker_enabled cfg then Some h
      else if hl_circuit_state h = ''open'' then
        (if still_open t h then None else Some (half_open_for cfg t execution_id h))
      else if hl_circuit_state h = ''half_open'' then
        (if active_trial t execution_id h then None else Some (half_open_for cfg t execution_id h))
      else Some h)"

definition rejected_row :: "time \<Rightarrow> health_row \<Rightarrow> health_row" where
  "rejected_row t h = touched t (h\<lparr>hl_circuit_rejections := hl_circuit_rejections h + 1\<rparr>)"

definition retry_after_seconds :: "time \<Rightarrow> health_row \<Rightarrow> int option" where
  "retry_after_seconds t h = map_option (\<lambda>c. max 0 (ceil_secs (c - t))) (hl_cooldown_until h)"

definition before_execution :: "settings \<Rightarrow> time \<Rightarrow> string \<Rightarrow> string \<Rightarrow> db \<Rightarrow> (service_error + health_row) \<times> db" where
  "before_execution cfg t server execution_id d =
     (let h = locked_or_create t server d in
      case admit cfg t execution_id h of
        None \<Rightarrow> (Inl (Circuit_open server (retry_after_seconds t h)), put_health server (rejected_row t h) d)
      | Some h1 \<Rightarrow>
          let h2 = touched t (h1\<lparr>hl_total_requests := hl_total_requests h1 + 1\<rparr>)
          in (Inr h2, put_health server h2 d))"

section \<open>Outcomes, probes and control\<close>

definition success_row :: "time \<Rightarrow> health_row \<Rightarrow> health_row" where
  "success_row t h =
     (let h1 = h\<lparr>hl_total_transport_successes := hl_total_transport_successes h + 1,
                 hl_consecutive_failures := 0, hl_last_success_at := Some t, hl_last_error := None\<rparr>
      in touched t (if hl_manual_open h1 then h1 else close_circuit h1))"

definition failure_row :: "settings \<Rightarrow> time \<Rightarrow> string \<Rightarrow> health_row \<Rightarrow> health_row" where
  "failure_row cfg t err h = touched t (record_failure cfg t err
     (h\<lparr>hl_total_transport_failures := hl_total_transport_failures h + 1\<rparr>))"

definition record_transport_success :: "time \<Rightarrow> string \<Rightarrow> db \<Rightarrow> db" where
  "record_transport_success t server d = put_health server (success_row t (locked_or_create t server d)) d"

definition record_transport_failure :: "settings \<Rightarrow> time \<Rightarrow> string \<Rightarrow> string \<Rightarrow> db \<Rightarrow> db" where
  "record_transport_failure cfg t server err d =
     put_health server (failure_row cfg t err (locked_or_create t server d)) d"

definition probe_row :: "settings \<Rightarrow> time \<Rightarrow> bool \<Rightarrow> pydict \<Rightarrow> string option \<Rightarrow> health_row \<Rightarrow> health_row" where
  "probe_row cfg t ok result err h =
     (let h1 = h\<lparr>hl_total_probes := hl_total_probes h + 1, hl_last_probe_at := Some t\<rparr> in
      touched t
        (if ok then
           (let version_text = (case dget result ''protocol_version'' of PStr s \<Rightarrow> s | v \<Rightarrow> if truthy v then py_str v else []);
                h2 = h1\<lparr>hl_last_probe_status := ''healthy'', hl_last_success_at := Some t,
                        hl_consecutive_failures := 0, hl_last_error := None,
                        hl_protocol_version := (if version_text = [] then None else Some version_text),
                        hl_server_info := as_dict (dget result ''server_info'')\<rparr>
            in if hl_manual_open h2 then h2 else close_circuit h2)
         else record_failure cfg t (or_default err ''Health probe failed'')
                (h1\<lparr>hl_failed_probes := hl_failed_probes h1 + 1, hl_last_probe_status := ''unhealthy''\<rparr>)))"

definition record_probe :: "settings \<Rightarrow> time \<Rightarrow> string \<Rightarrow> bool \<Rightarrow> pydict \<Rightarrow> string option \<Rightarrow> db \<Rightarrow> db" where
  "record_probe cfg t server ok result err d =
     put_health server (probe_row cfg t ok result err (locked_or_create t server d)) d"

definition controlled_row :: "settings \<Rightarrow> time \<Rightarrow> string \<Rightarrow> health_row \<Rightarrow> health_row" where
  "controlled_row cfg t action h = touched t
     (if action = ''open'' then open_circuit cfg t True h
      else
        let h1 = close_circuit (h\<lparr>hl_manual_open := False\<rparr>) in
        if action = ''reset'' then
          h1\<lparr>hl_total_requests := 0, hl_total_transport_successes := 0, hl_total_transport_failures := 0,
             hl_circuit_rejections := 0, hl_circuit_open_count := 0, hl_total_probes := 0,
             hl_failed_probes := 0\<rparr>
        else h1)"

definition control_circuit ::
  "settings \<Rightarrow> time \<Rightarrow> string \<Rightarrow> string \<Rightarrow> int \<Rightarrow> db \<Rightarrow> (service_error + health_row) \<times> db" where
  "control_circuit cfg t server action expected_version d =
     (if action \<notin> {''open'', ''close'', ''reset''} then (Inl (Conflict ''Unsupported circuit action''), d)
      else case db_health d server of
        None \<Rightarrow> (Inl (Not_found ''MCP server health record not found''), d)
      | Some h \<Rightarrow>
        if hl_version h \<noteq> expected_version
        then (Inl (Conflict ''MCP server health version conflict''), d)
        else (Inr (controlled_row cfg t action h), put_health server (controlled_row cfg t action h) d))"

definition server_operational_status :: "settings \<Rightarrow> time \<Rightarrow> health_row \<Rightarrow> string" where
  "server_operational_status cfg t h =
     (if hl_circuit_state h = ''open'' then ''unhealthy''
      else if hl_last_probe_status h = ''unhealthy'' then ''unhealthy''
      else case hl_last_probe_at h of
             None \<Rightarrow> ''unknown''
           | Some p \<Rightarrow> if t - p > secs (max 1 (mcp_health_stale_seconds cfg)) then ''unhealthy'' else ''healthy'')"

section \<open>Histories of a row\<close>

inductive circuit_step :: "settings \<Rightarrow> time \<Rightarrow> health_row \<Rightarrow> health_row \<Rightarrow> bool" for cfg where
  admitted: "admit cfg t e h = Some h1 \<Longrightarrow> e \<noteq> [] \<Longrightarrow>
    circuit_step cfg t h (touched t (h1\<lparr>hl_total_requests := hl_total_requests h1 + 1\<rparr>))"
| rejected: "admit cfg t e h = None \<Longrightarrow> circuit_step cfg t h (rejected_row t h)"
| success: "circuit_step cfg t h (success_row t h)"
| failure: "circuit_step cfg t h (failure_row cfg t err h)"
| probed: "circuit_step cfg t h (probe_row cfg t ok result err h)"
| controlled: "action \<in> {''open'', ''close'', ''reset''} \<Longrightarrow> circuit_step cfg t h (controlled_row cfg t action h)"

inductive_simps circuit_step_iff: "circuit_step cfg t a b"

lemmas circuit_row_defs = touched_def rejected_row_def success_row_def failure_row_def probe_row_def
  controlled_row_def record_failure_def open_circuit_def close_circuit_def half_open_for_def

lemma admit_version: "admit cfg t e h = Some h1 \<Longrightarrow> hl_version h1 = hl_version h"
  by (auto simp: admit_def half_open_for_def split: if_splits)

lemma row_versions [simp]:
  "hl_version (rejected_row t h) = hl_version h + 1" "hl_version (success_row t h) = hl_version h + 1"
  "hl_version (failure_row cfg t err h) = hl_version h + 1"
  "hl_version (probe_row cfg t ok result why h) = hl_version h + 1"
  "hl_version (controlled_row cfg t action h) = hl_version h + 1"
  by (simp_all add: circuit_row_defs Let_def)

interpretation health: versioned_row hl_version "\<lambda>h h'. \<exists>t. circuit_step cfg t h h'" for cfg
  by unfold_locales (auto simp: circuit_step_iff touched_def dest: admit_version)

section \<open>The invariant of the breaker\<close>

definition circuit_inv :: "settings \<Rightarrow> health_row \<Rightarrow> bool" where
  "circuit_inv cfg h \<longleftrightarrow>
     hl_circuit_state h \<in> {''closed'', ''open'', ''half_open''} \<and>
     (hl_manual_open h \<longrightarrow> hl_circuit_state h = ''open'' \<and> hl_cooldown_until h = None) \<and>
     (hl_circuit_state h = ''open'' \<and> \<not> hl_manual_open h \<longrightarrow> hl_cooldown_until h \<noteq> None) \<and>
     (hl_circuit_state h = ''closed'' \<longrightarrow> hl_opened_at h = None \<and> hl_half_open_trial_id h = None \<and>
        hl_cooldown_until h = None \<and>
        hl_consecutive_failures h < max 1 (mcp_circuit_failure_threshold cfg)) \<and>
     (hl_circuit_state h = ''half_open'' \<longrightarrow> \<not> none_or_empty (hl_half_open_trial_id h) \<and>
        hl_half_open_lease_expires_at h \<noteq> None) \<and>
     0 \<le> hl_consecutive_failures h"

lemma circuit_inv_new: "circuit_inv cfg (new_health t)"
  by (simp add: circuit_inv_def new_health_def)

lemma circuit_inv_touched [simp]: "circuit_inv cfg (touched t h) = circuit_inv cfg h"
  by (simp add: circuit_inv_def touched_def)

lemma circuit_inv_open: "0 \<le> hl_consecutive_failures h \<Longrightarrow> circuit_inv cfg (open_circuit cfg t m h)"
  by (simp add: circuit_inv_def open_circuit_def)

lemma circuit_inv_close: "\<not> hl_manual_open h \<Longrightarrow> circuit_inv cfg (close_circuit h)"
  by (simp add: circuit_inv_def close_circuit_def)

lemma circuit_inv_record_failure:
  assumes "mcp_circuit_breaker_enabled cfg" "circuit_inv cfg h"
  shows "circuit_inv cfg (record_failure cfg t err h)"
proof -
  define h1 where "h1 = h\<lparr>hl_consecutive_failures := hl_consecutive_failures h + 1, hl_last_failure_at := Some t,
                 hl_last_error := Some (take 4000 err)\<rparr>"
  have pos: "0 \<le> hl_consecutive_failures h1" using assms(2) by (simp add: h1_def circuit_inv_def)
  show ?thesis
  proof (cases "hl_circuit_state h1 = ''half_open'' \<or>
      hl_consecutive_failures h1 \<ge> max 1 (mcp_circuit_failure_threshold cfg)")
    case True
    show ?thesis
    proof (cases "hl_manual_open h1")
      case False
      then show ?thesis using True assms(1) circuit_inv_open [OF pos]
        by (simp add: record_failure_def Let_def h1_def)
    next
      case m: True
      then have "record_failure cfg t err h = h1" by (simp add: record_failure_def Let_def h1_def)
      then show ?thesis using m assms(2) by (simp add: circuit_inv_def h1_def)
    qed
  next
    case False
    then have "record_failure cfg t err h = h1" by (auto simp: record_failure_def Let_def h1_def)
    then show ?thesis using False assms(2) by (simp add: circuit_inv_def h1_def)
  qed
qed

lemma circuit_inv_cong:
  assumes "hl_circuit_state h' = hl_circuit_state h" "hl_manual_open h' = hl_manual_open h"
    "hl_cooldown_until h' = hl_cooldown_until h" "hl_opened_at h' = hl_opened_at h"
    "hl_half_open_trial_id h' = hl_half_open_trial_id h"
    "hl_half_open_lease_expires_at h' = hl_half_open_lease_expires_at h"
    "hl_consecutive_failures h' \<in> {0, hl_consecutive_failures h}"
  shows "circuit_inv cfg h \<Longrightarrow> circuit_inv cfg h'"
  using assms by (auto simp: circuit_inv_def)

lemma circuit_inv_admit:
  assumes "circuit_inv cfg h" "admit cfg t e h = Some h1" "e \<noteq> []"
  shows "circuit_inv cfg h1"
  using assms
  by (auto simp: admit_def split: if_splits)
     (auto simp: circuit_inv_def half_open_for_def none_or_empty_def still_open_def)

lemma circuit_inv_step:
  assumes en: "mcp_circuit_breaker_enabled cfg" and inv: "circuit_inv cfg h" and st: "circuit_step cfg t h h'"
  shows "circuit_inv cfg h'"
  using st
proof cases
  case (admitted e h1)
  then have "circuit_inv cfg h1" using circuit_inv_admit inv by blast
  then show ?thesis using admitted by (simp add: circuit_inv_cong [of "h1\<lparr>hl_total_requests := hl_total_requests h1 + 1\<rparr>" h1])
next
  case (rejected e)
  then show ?thesis using inv circuit_inv_cong [of "h\<lparr>hl_circuit_rejections := hl_circuit_rejections h + 1\<rparr>" h]
    by (simp add: rejected_row_def)
next
  case success
  define h1 where "h1 = h\<lparr>hl_total_transport_successes := hl_total_transport_successes h + 1,
                 hl_consecutive_failures := 0, hl_last_success_at := Some t, hl_last_error := None\<rparr>"
  have "circuit_inv cfg h1" using inv circuit_inv_cong [of h1 h] by (simp add: h1_def)
  then show ?thesis using success circuit_inv_close [of h1] by (simp add: success_row_def Let_def h1_def)
next
  case (failure err)
  have "circuit_inv cfg (h\<lparr>hl_total_transport_failures := hl_total_transport_failures h + 1\<rparr>)"
    using inv circuit_inv_cong [of "h\<lparr>hl_total_transport_failures := hl_total_transport_failures h + 1\<rparr>" h] by simp
  then show ?thesis using failure circuit_inv_record_failure [OF en] by (simp add: failure_row_def)
next
  case (probed ok result err)
  define h1 where "h1 = h\<lparr>hl_total_probes := hl_total_probes h + 1, hl_last_probe_at := Some t\<rparr>"
  show ?thesis
  proof (cases ok)
    case True
    obtain p i where h2: "h' = touched t
       (let h2 = h1\<lparr>hl_last_probe_status := ''healthy'', hl_last_success_at := Some t,
                        hl_consecutive_failures := 0, hl_last_error := None,
                        hl_protocol_version := p, hl_server_info := i\<rparr>
        in if hl_manual_open h2 then h2 else close_circuit h2)"
      using probed True by (simp add: probe_row_def Let_def h1_def)
    define h2 where "h2 = h1\<lparr>hl_last_probe_status := ''healthy'', hl_last_success_at := Some t,
       hl_consecutive_failures := 0, hl_last_error := None, hl_protocol_version := p, hl_server_info := i\<rparr>"
    have "circuit_inv cfg h2" using inv circuit_inv_cong [of h2 h] by (simp add: h2_def h1_def)
    then show ?thesis using h2 circuit_inv_close [of h2] by (simp add: Let_def h2_def [symmetric])
  next
    case False
    define h2 where "h2 = h1\<lparr>hl_failed_probes := hl_failed_probes h1 + 1, hl_last_probe_status := ''unhealthy''\<rparr>"
    have "circuit_inv cfg h2" using inv circuit_inv_cong [of h2 h] by (simp add: h2_def h1_def)
    then show ?thesis using probed False circuit_inv_record_failure [OF en]
      by (simp add: probe_row_def Let_def h2_def h1_def)
  qed
next
  case (controlled action)
  have "0 \<le> hl_consecutive_failures h" using inv by (simp add: circuit_inv_def)
  then have "circuit_inv cfg (open_circuit cfg t True h)" by (rule circuit_inv_open)
  moreover have "circuit_inv cfg (close_circuit (h\<lparr>hl_manual_open := False\<rparr>))" by (rule circuit_inv_close) simp
  ultimately show ?thesis using controlled
    by (auto simp: controlled_row_def Let_def intro: circuit_inv_cong)
qed

end
