(* ===== verification/Executions.thy ===== *)
theory Executions
  imports Approvals Circuit Verification
begin

text \<open>
  The durable executions of \<open>backend/app/services/mcp_execution_service.py\<close>: preparation under an
  idempotency key, the lease of the worker that calls the server, completion, recovery and
  reconciliation, and the call itself with the circuit breaker around it.
\<close>

section \<open>Preparation\<close>

definition TERMINAL_EXECUTION_STATUSES :: "string set" where
  "TERMINAL_EXECUTION_STATUSES = {''succeeded'', ''failed''}"

definition effective_execution_lease_seconds :: "settings \<Rightarrow> int" where
  "effective_execution_lease_seconds cfg =
     max 1 (max (mcp_execution_lease_seconds cfg) (\<lceil>mcp_client_timeout_seconds cfg\<rceil> + 5))"

definition execution_idempotency_key :: "(string \<Rightarrow> string) \<Rightarrow> pyval list \<Rightarrow> string" where
  "execution_idempotency_key sha parts = sha (canonical_json (PList parts))"

definition same_request :: "execution_row \<Rightarrow> string \<Rightarrow> mcp_call \<Rightarrow> string \<Rightarrow> string option \<Rightarrow> bool" where
  "same_request x rid call arguments_hash aid \<longleftrightarrow>
     x_run_id x = rid \<and> x_approval_id x = aid \<and> x_qualified_name x = c_qualified_name call \<and>
     x_arguments_hash x = arguments_hash"

definition new_execution ::
  "(string \<Rightarrow> string) \<Rightarrow> time \<Rightarrow> string \<Rightarrow> mcp_call \<Rightarrow> string \<Rightarrow> string \<Rightarrow> string option \<Rightarrow> pydict option
    \<Rightarrow> execution_row" where
  "new_execution sha t rid call key mode aid checkpoint = \<lparr>
     x_run_id = rid, x_approval_id = aid, x_qualified_name = c_qualified_name call,
     x_server_name = c_server call, x_tool_name = c_tool call, x_arguments = c_arguments call,
     x_arguments_hash = sha256_json sha (PDict (c_arguments call)),
     x_idempotency_key = key, x_idempotency_mode = mode, x_status = ''prepared'',
     x_attempt_count = 0, x_recovery_count = 0, x_deduplication_hits = 0,
     x_retry_safe = (mode = ''metadata''),
     x_lease_token = None, x_lease_owner = None, x_lease_expires_at = None,
     x_checkpoint = checkpoint,
     x_checkpoint_hash = map_option (\<lambda>c. sha (canonical_json (PDict c))) checkpoint,
     x_result = None, x_error_message = None, x_reconciliation_note = None, x_reconciled_by = None,
     x_reconciled_provider = None, x_version = 1, x_created_at = t, x_started_at = None,
     x_finished_at = None, x_reconciled_at = None, x_updated_at = t\<rparr>"

text \<open>
  \<open>prepare\<close>; \<open>existing\<close> is the row the query by key found, before the insert or after the unique
  index refused it.  The result is the id of the row.
\<close>

definition prepare ::
  "settings \<Rightarrow> (string \<Rightarrow> string) \<Rightarrow> time \<Rightarrow> string \<Rightarrow> (string \<times> execution_row) option \<Rightarrow> string \<Rightarrow> mcp_call
    \<Rightarrow> string \<Rightarrow> string \<Rightarrow> string option \<Rightarrow> pydict option \<Rightarrow> db \<Rightarrow> (service_error + string) \<times> db" where
  "prepare cfg sha t xid existing rid call key mode aid checkpoint d =
     (case existing of
        Some (i, x) \<Rightarrow>
          (if same_request x rid call (sha256_json sha (PDict (c_arguments call))) aid then (Inr i, d)
           else (Inl (Conflict ''Idempotency key is already bound to a different MCP request''), d))
      | None \<Rightarrow>
          (case checkpoint of
             Some c \<Rightarrow>
               if int (length (canonical_json (PDict c))) > mcp_execution_max_checkpoint_chars cfg
               then (Inl (Conflict ''MCP execution checkpoint exceeds the configured size limit''), d)
               else (Inr xid, put_execution xid (new_execution sha t rid call key mode aid checkpoint) d)
           | None \<Rightarrow> (Inr xid, put_execution xid (new_execution sha t rid call key mode aid None) d)))"

definition key_lookup :: "db \<Rightarrow> string \<Rightarrow> (string \<times> execution_row) option \<Rightarrow> bool" where
  \<comment> \<open>what \<open>scalar_one_or_none\<close> may return for the unique column\<close>
  "key_lookup d key found \<longleftrightarrow>
     (case found of
        Some (i, x) \<Rightarrow> db_executions d i = Some x \<and> x_idempotency_key x = key
      | None \<Rightarrow> \<forall>i x. db_executions d i = Some x \<longrightarrow> x_idempotency_key x \<noteq> key)"

section \<open>Rows\<close>

definition unknown_row :: "time \<Rightarrow> string \<Rightarrow> bool \<Rightarrow> execution_row \<Rightarrow> execution_row" where
  \<comment> \<open>\<open>_set_unknown\<close>\<close>
  "unknown_row t reason increment x = x\<lparr>x_status := ''unknown'', x_error_message := Some (take 4000 reason),
     x_lease_token := None, x_lease_owner := None, x_lease_expires_at := None, x_finished_at := None,
     x_version := x_version x + (if increment then 1 else 0), x_updated_at := t\<rparr>"

definition recovered_row :: "settings \<Rightarrow> time \<Rightarrow> execution_row \<Rightarrow> execution_row" where
  \<comment> \<open>\<open>_recover_expired_locked\<close>\<close>
  "recovered_row cfg t x =
     (let x1 = x\<lparr>x_recovery_count := x_recovery_count x + 1, x_lease_token := None, x_lease_owner := None,
                 x_lease_expires_at := None, x_version := x_version x + 1, x_updated_at := t\<rparr>
      in if x_retry_safe x1 \<and> x_attempt_count x1 < mcp_execution_max_attempts cfg
         then x1\<lparr>x_status := ''prepared'',
                x_error_message := Some ''Previous worker lease expired; retry scheduled with same key''\<rparr>
         else unknown_row t
           ''Worker lease expired after remote call may have started; reconciliation required'' False x1)"

definition leased_row :: "settings \<Rightarrow> time \<Rightarrow> string \<Rightarrow> string \<Rightarrow> execution_row \<Rightarrow> execution_row" where
  "leased_row cfg t token owner x = x\<lparr>x_status := ''executing'', x_lease_token := Some token,
     x_lease_owner := Some owner,
     x_lease_expires_at := Some (t + secs (effective_execution_lease_seconds cfg)),
     x_attempt_count := x_attempt_count x + 1,
     x_started_at := (case x_started_at x of None \<Rightarrow> Some t | s \<Rightarrow> s),
     x_version := x_version x + 1, x_updated_at := t\<rparr>"

definition completed_row :: "time \<Rightarrow> pydict \<Rightarrow> bool \<Rightarrow> execution_row \<Rightarrow> execution_row" where
  "completed_row t result failed x = x\<lparr>x_status := (if failed then ''failed'' else ''succeeded''),
     x_result := Some result,
     x_error_message :=
       (if failed
        then Some (take 4000 (if truthy (dget result ''error'') then py_str (dget result ''error'')
                              else ''MCP tool returned an error''))
        else None),
     x_lease_token := None, x_lease_owner := None, x_lease_expires_at := None,
     x_finished_at := Some t, x_version := x_version x + 1, x_updated_at := t\<rparr>"

definition deduplicated_row :: "time \<Rightarrow> execution_row \<Rightarrow> execution_row" where
  "deduplicated_row t x = x\<lparr>x_deduplication_hits := x_deduplication_hits x + 1,
     x_version := x_version x + 1, x_updated_at := t\<rparr>"

definition lease_valid :: "time \<Rightarrow> execution_row \<Rightarrow> bool" where
  "lease_valid t x \<longleftrightarrow> (case x_lease_expires_at x of None \<Rightarrow> False | Some e \<Rightarrow> t < e)"

section \<open>Operations\<close>

datatype claim_result = Cached | Leased string

definition claim ::
  "settings \<Rightarrow> time \<Rightarrow> string \<Rightarrow> string \<Rightarrow> string \<Rightarrow> db \<Rightarrow> (service_error + claim_result) \<times> db" where
  "claim cfg t token owner xid d =
     (case db_executions d xid of
        None \<Rightarrow> (Inl (Not_found ''MCP execution not found''), d)
      | Some x \<Rightarrow>
        if x_status x \<in> TERMINAL_EXECUTION_STATUSES then (Inr Cached, d)
        else if x_status x \<in> {''unknown'', ''reconciling''}
        then (Inl (Reconciliation_needed xid
                (or_default (x_error_message x) ''MCP execution requires reconciliation'')), d)
        else if x_status x = ''executing'' \<and> lease_valid t x then (Inl (Execution_in_progress xid), d)
        else
          let x1 = (if x_status x = ''executing'' then recovered_row cfg t x else x) in
          if x_status x = ''executing'' \<and> x_status x1 \<noteq> ''prepared''
          then (Inl (Reconciliation_needed xid
                  (or_default (x_error_message x1) ''MCP execution outcome is unknown'')),
                put_execution xid x1 d)
          else if x_status x1 \<noteq> ''prepared''
          then (Inl (Conflict (''MCP execution cannot be claimed from status '' @ [CHR 0x27] @
                  x_status x1 @ [CHR 0x27])), d)
          else (Inr (Leased token), put_execution xid (leased_row cfg t token owner x1) d))"

definition complete ::
  "time \<Rightarrow> string \<Rightarrow> string \<Rightarrow> pydict \<Rightarrow> bool \<Rightarrow> db \<Rightarrow> (service_error + execution_row) \<times> db" where
  "complete t xid token result failed d =
     (case db_executions d xid of
        None \<Rightarrow> (Inl (Not_found ''MCP execution not found''), d)
      | Some x \<Rightarrow>
        if x_status x \<in> TERMINAL_EXECUTION_STATUSES then (Inr x, d)
        else if x_status x \<noteq> ''executing'' \<or> x_lease_token x \<noteq> Some token
        then (Inl (Conflict ''MCP execution lease is no longer valid''), d)
        else (Inr (completed_row t result failed x), put_execution xid (completed_row t result failed x) d))"

definition mark_unknown ::
  "time \<Rightarrow> string \<Rightarrow> string \<Rightarrow> string \<Rightarrow> db \<Rightarrow> (service_error + execution_row) \<times> db" where
  "mark_unknown t xid token reason d =
     (case db_executions d xid of
        None \<Rightarrow> (Inl (Not_found ''MCP execution not found''), d)
      | Some x \<Rightarrow>
        if x_status x \<in> TERMINAL_EXECUTION_STATUSES then (Inr x, d)
        else if x_status x \<noteq> ''executing'' \<or> x_lease_token x \<noteq> Some token
        then (Inl (Conflict ''MCP execution lease is no longer valid''), d)
        else (Inr (unknown_row t reason True x), put_execution xid (unknown_row t reason True x) d))"

definition reconciliation_waiting_summary :: string where
  "reconciliation_waiting_summary = utf8
    [65, 103, 101, 110, 116, 32, 230, 173, 163, 229, 156, 168, 231, 173, 137, 229, 190,
    133, 32, 77, 67, 80, 32, 230, 137, 167, 232, 161, 140, 231, 187, 147, 230, 158, 156,
    229, 175, 185, 232, 180, 166, 227, 128, 130]"

definition mark_run_waiting_reconciliation :: "time \<Rightarrow> execution_row \<Rightarrow> db \<Rightarrow> db" where
  "mark_run_waiting_reconciliation t x d =
     (let d1 = (case db_runs d (x_run_id x) of
                  None \<Rightarrow> d
                | Some run \<Rightarrow>
                    if u_status run \<in> TERMINAL_AGENT_RUN_STATUSES then d
                    else put_run (x_run_id x) (run\<lparr>u_status := ''waiting_reconciliation'',
                      u_final_summary := Some reconciliation_waiting_summary, u_failure_reason := None,
                      u_updated_at := t\<rparr>) d)
      in if none_or_empty (x_approval_id x) then d1
         else case db_approvals d1 (the (x_approval_id x)) of
                None \<Rightarrow> d1
              | Some a \<Rightarrow>
                  if a_status a \<in> {''completed'', ''failed''} then d1
                  else put_approval (the (x_approval_id x)) (unreconciled_row t (x_error_message x) a) d1)"

definition recover_stale ::
  "settings \<Rightarrow> time \<Rightarrow> string \<Rightarrow> db \<Rightarrow> (service_error + execution_row option) \<times> db" where
  "recover_stale cfg t xid d =
     (case db_executions d xid of
        None \<Rightarrow> (Inl (Not_found ''MCP execution not found''), d)
      | Some x \<Rightarrow>
        if x_status x \<noteq> ''executing'' \<or> lease_valid t x then (Inr None, d)
        else
          let x1 = recovered_row cfg t x; d1 = put_execution xid x1 d in
          (Inr (Some x1),
           if x_status x1 = ''unknown'' then mark_run_waiting_reconciliation t x1 d1 else d1))"

definition reconciled_result :: "execution_row \<Rightarrow> string \<Rightarrow> pydict option \<Rightarrow> bool \<Rightarrow> string option \<Rightarrow> pydict" where
  "reconciled_result x xid result ok note =
     dmerge (dict_of result)
       ([(''ok'', PBool ok), (''qualified_name'', PStr (x_qualified_name x)), (''execution_id'', PStr xid),
         (''idempotency_key'', PStr (x_idempotency_key x))] @
        (if ok then []
         else [(''error'', if truthy (dget (dict_of result) ''error'') then dget (dict_of result) ''error''
                           else PStr (or_default note ''Execution manually confirmed as failed''))]) @
        [(''reconciled'', PBool True)])"

definition signed_off :: "time \<Rightarrow> string option \<Rightarrow> string \<Rightarrow> string \<Rightarrow> execution_row \<Rightarrow> execution_row" where
  "signed_off t note actor provider x = x\<lparr>x_reconciliation_note := note, x_reconciled_by := Some actor,
     x_reconciled_provider := Some provider, x_reconciled_at := Some t, x_version := x_version x + 1,
     x_updated_at := t\<rparr>"

definition retried_row :: "execution_row \<Rightarrow> execution_row" where
  "retried_row x = x\<lparr>x_status := ''prepared'', x_result := None, x_error_message := None,
     x_finished_at := None\<rparr>"

definition confirmed_row ::
  "time \<Rightarrow> string \<Rightarrow> bool \<Rightarrow> string option \<Rightarrow> pydict option \<Rightarrow> execution_row \<Rightarrow> execution_row" where
  "confirmed_row t xid ok note result x =
     (let stored = reconciled_result x xid result ok note in
      x\<lparr>x_status := (if ok then ''succeeded'' else ''failed''), x_result := Some stored,
        x_error_message := (if ok then None else Some (take 4000 (py_str (dget stored ''error'')))),
        x_finished_at := Some t\<rparr>)"

definition reconcile ::
  "settings \<Rightarrow> time \<Rightarrow> string \<Rightarrow> string \<Rightarrow> int \<Rightarrow> string \<Rightarrow> string \<Rightarrow> string option \<Rightarrow> pydict option
    \<Rightarrow> db \<Rightarrow> (service_error + execution_row) \<times> db" where
  "reconcile cfg t xid action expected_version actor provider note result d =
     (if action \<notin> {''confirm_succeeded'', ''confirm_failed'', ''retry''}
      then (Inl (Conflict ''Unsupported MCP reconciliation action''), d)
      else case db_executions d xid of
        None \<Rightarrow> (Inl (Not_found ''MCP execution not found''), d)
      | Some x \<Rightarrow>
        if x_version x \<noteq> expected_version then (Inl (Conflict ''MCP execution version conflict''), d)
        else if x_status x \<noteq> ''unknown''
        then (Inl (Conflict (''MCP execution cannot be reconciled from status '' @ [CHR 0x27] @
                x_status x @ [CHR 0x27])), d)
        else if action = ''retry'' \<and> \<not> x_retry_safe x
        then (Inl (Conflict ''Remote server did not declare metadata idempotency; retry is unsafe''), d)
        else if action = ''retry'' \<and> x_attempt_count x \<ge> mcp_execution_max_attempts cfg
        then (Inl (Conflict ''MCP execution retry budget is exhausted''), d)
        else
          let x1 = signed_off t note actor provider
                (if action = ''retry'' then retried_row x
                 else confirmed_row t xid (action = ''confirm_succeeded'') note result x)
          in (Inr x1, put_execution xid x1 d))"

definition prepare_resume_target :: "time \<Rightarrow> execution_row \<Rightarrow> db \<Rightarrow> approval_row option \<times> db" where
  "prepare_resume_target t x d =
     (if none_or_empty (x_approval_id x) then (None, d)
      else let aid = the (x_approval_id x) in
        case db_approvals d aid of
          None \<Rightarrow> (None, d)
        | Some a \<Rightarrow>
            if a_status a \<in> {''reconciliation_required'', ''resuming'', ''failed''}
            then (Some (requeued_row t a), put_approval aid (requeued_row t a) d)
            else (Some a, d))"

definition verify_execution_checkpoint :: "(string \<Rightarrow> string) \<Rightarrow> execution_row \<Rightarrow> bool" where
  "verify_execution_checkpoint sha x \<longleftrightarrow>
     (case (x_checkpoint x, x_checkpoint_hash x) of
        (Some c, Some h) \<Rightarrow> sha (canonical_json (PDict c)) = h
      | _ \<Rightarrow> False)"

section \<open>The call\<close>

text \<open>What the remote call gives: its result, a refusal of the quota service, or any other exception.\<close>

datatype remote_outcome =
    Remote_result pydict
  | Quota_refused string pyval pyval pyval
  | Remote_raised string

text \<open>
  \<open>execute_once\<close> as the sequence of its transactions: claim, admission by the breaker, the call, the
  record of its outcome.  Between two transactions other workers may act, which the argument \<open>others\<close>
  stands for: what they made of the database while the server was called.
\<close>

definition execute_once ::
  "settings \<Rightarrow> time \<Rightarrow> time \<Rightarrow> string \<Rightarrow> string \<Rightarrow> string \<Rightarrow> (string \<Rightarrow> string \<Rightarrow> remote_outcome)
    \<Rightarrow> (db \<Rightarrow> db) \<Rightarrow> db \<Rightarrow> (service_error + pydict) \<times> db" where
  "execute_once cfg t t' token owner xid fn others d =
     (case claim cfg t token owner xid d of
        (Inl e, d1) \<Rightarrow> (Inl e, d1)
      | (Inr Cached, d1) \<Rightarrow>
          (case db_executions d1 xid of
             None \<Rightarrow> (Inl (Not_found ''MCP execution not found''), d1)
           | Some x \<Rightarrow>
               (Inr (dmerge (dict_of (x_result x))
                  [(''execution_id'', PStr xid), (''deduplicated'', PBool True)]),
                put_execution xid (deduplicated_row t x) d1))
      | (Inr (Leased tok), d1) \<Rightarrow>
          (case db_executions d1 xid of
             None \<Rightarrow> (Inl (Not_found ''MCP execution not found''), d1)
           | Some x \<Rightarrow>
             let server = x_server_name x; key = x_idempotency_key x;
                 stored = (\<lambda>(r, d'). (map_sum id (\<lambda>y. dict_of (x_result y)) r, d')) in
             case before_execution cfg t server xid d1 of
               (Inl e, d2) \<Rightarrow>
                 stored (complete t xid tok
                   [(''ok'', PBool False), (''qualified_name'', PStr (x_qualified_name x)),
                    (''error'', PStr ''mcp_circuit_open''), (''server_name'', PStr server),
                    (''retry_after_seconds'', case e of Circuit_open s (Some n) \<Rightarrow> PInt n | _ \<Rightarrow> PNone),
                    (''execution_id'', PStr xid), (''idempotency_key'', PStr key)] True d2)
             | (Inr h, d2) \<Rightarrow>
                 let d3 = others d2 in
                 case fn key xid of
                   Quota_refused why reason policy retry_after \<Rightarrow>
                     stored (complete t' xid tok
                       [(''ok'', PBool False), (''qualified_name'', PStr (x_qualified_name x)),
                        (''error'', PStr why), (''reason'', reason), (''policy_id'', policy),
                        (''retry_after_seconds'', retry_after),
                        (''execution_id'', PStr xid), (''idempotency_key'', PStr key)] True d3)
                 | Remote_raised exc \<Rightarrow>
                     (case mark_unknown t' xid tok (''Remote outcome is unknown: '' @ exc)
                             (record_transport_failure cfg t' server exc d3) of
                        (Inl e, d5) \<Rightarrow> (Inl e, d5)
                      | (Inr y, d5) \<Rightarrow>
                          (Inl (Reconciliation_needed xid (or_default (x_error_message y) exc)), d5))
                 | Remote_result raw \<Rightarrow>
                     let result = dmerge raw [(''execution_id'', PStr xid), (''idempotency_key'', PStr key)] in
                     stored (complete t' xid tok result (\<not> truthy (dget result ''ok''))
                       (record_transport_success t' server d3))))"

section \<open>Histories of a row\<close>

inductive execution_step :: "settings \<Rightarrow> execution_row \<Rightarrow> execution_row \<Rightarrow> bool" for cfg where
  leased: "x_status x = ''prepared'' \<Longrightarrow> execution_step cfg x (leased_row cfg t token owner x)"
| recovered: "x_status x = ''executing'' \<Longrightarrow> \<not> lease_valid t x \<Longrightarrow> execution_step cfg x (recovered_row cfg t x)"
| completed: "x_status x = ''executing'' \<Longrightarrow> execution_step cfg x (completed_row t result failed x)"
| unknown: "x_status x = ''executing'' \<Longrightarrow> execution_step cfg x (unknown_row t reason True x)"
| deduplicated: "x_status x \<in> TERMINAL_EXECUTION_STATUSES \<Longrightarrow> execution_step cfg x (deduplicated_row t x)"
| retried: "x_status x = ''unknown'' \<Longrightarrow> x_retry_safe x \<Longrightarrow>
    x_attempt_count x < mcp_execution_max_attempts cfg \<Longrightarrow>
    execution_step cfg x (signed_off t note actor provider (retried_row x))"
| confirmed: "x_status x = ''unknown'' \<Longrightarrow>
    execution_step cfg x (signed_off t note actor provider (confirmed_row t xid ok note result x))"

inductive_simps execution_step_iff: "execution_step cfg x y"

lemmas execution_row_defs = leased_row_def recovered_row_def unknown_row_def completed_row_def
  deduplicated_row_def signed_off_def retried_row_def confirmed_row_def

definition settled_execution :: "execution_row \<Rightarrow> bool" where
  "settled_execution x \<longleftrightarrow> x_status x \<in> TERMINAL_EXECUTION_STATUSES"

definition execution_outcome :: "execution_row \<Rightarrow> string \<times> pydict option \<times> string option" where
  "execution_outcome x = (x_status x, x_result x, x_error_message x)"

interpretation executions: settled_row x_version "execution_step cfg" settled_execution execution_outcome for cfg
  by unfold_locales
     (auto simp: execution_step_iff execution_row_defs settled_execution_def execution_outcome_def
        TERMINAL_EXECUTION_STATUSES_def Let_def)

end
