(* ===== verification/McpTheorems.thy ===== *)
theory McpTheorems
  imports Executions
begin

text \<open>
  What the MCP services guarantee about their rows: attempts are bounded, unsafe calls are made once,
  settled outcomes and decisions are final, leases exclude each other, and the breaker admits one
  trial at a time.
\<close>

section \<open>Execution rows\<close>

definition execution_ok :: "settings \<Rightarrow> execution_row \<Rightarrow> bool" where
  "execution_ok cfg x \<longleftrightarrow>
     x_status x \<in> {''prepared'', ''executing'', ''unknown'', ''succeeded'', ''failed''} \<and>
     0 \<le> x_attempt_count x \<and> x_attempt_count x \<le> max 1 (mcp_execution_max_attempts cfg) \<and>
     (x_status x = ''prepared'' \<longrightarrow> x_attempt_count x < max 1 (mcp_execution_max_attempts cfg)) \<and>
     (\<not> x_retry_safe x \<longrightarrow> x_attempt_count x \<le> 1 \<and> (x_status x = ''prepared'' \<longrightarrow> x_attempt_count x = 0)) \<and>
     (x_lease_token x \<noteq> None \<longleftrightarrow> x_status x = ''executing'') \<and>
     (x_result x \<noteq> None \<longleftrightarrow> x_status x \<in> TERMINAL_EXECUTION_STATUSES)"

lemma execution_ok_new: "execution_ok cfg (new_execution sha t rid call key mode aid checkpoint)"
  by (auto simp: execution_ok_def new_execution_def TERMINAL_EXECUTION_STATUSES_def max_def)

lemma execution_ok_step:
  assumes "execution_ok cfg x" "execution_step cfg x y" shows "execution_ok cfg y"
  using assms(2)
proof cases
  case (leased t token owner)
  then show ?thesis using assms(1) by (simp add: execution_ok_def leased_row_def TERMINAL_EXECUTION_STATUSES_def)
next
  case (recovered t)
  then show ?thesis using assms(1)
    by (auto simp: execution_ok_def recovered_row_def unknown_row_def Let_def TERMINAL_EXECUTION_STATUSES_def)
next
  case (completed t result failed)
  then show ?thesis using assms(1) by (simp add: execution_ok_def completed_row_def TERMINAL_EXECUTION_STATUSES_def)
next
  case (unknown t reason)
  then show ?thesis using assms(1) by (simp add: execution_ok_def unknown_row_def TERMINAL_EXECUTION_STATUSES_def)
next
  case (deduplicated t)
  then show ?thesis using assms(1) by (simp add: execution_ok_def deduplicated_row_def TERMINAL_EXECUTION_STATUSES_def)
next
  case (retried t remark actor provider)
  then show ?thesis using assms(1)
    by (auto simp: execution_ok_def signed_off_def retried_row_def TERMINAL_EXECUTION_STATUSES_def)
next
  case (confirmed t remark actor provider xid ok result)
  then show ?thesis using assms(1)
    by (simp add: execution_ok_def signed_off_def confirmed_row_def Let_def TERMINAL_EXECUTION_STATUSES_def)
qed

lemma execution_ok_history:
  "(execution_step cfg)\<^sup>*\<^sup>* x y \<Longrightarrow> execution_ok cfg x \<Longrightarrow> execution_ok cfg y"
  by (induction rule: rtranclp_induct) (auto intro: execution_ok_step)

lemma retry_safe_kept: "(execution_step cfg)\<^sup>*\<^sup>* x y \<Longrightarrow> x_retry_safe y = x_retry_safe x"
  by (induction rule: rtranclp_induct) (auto simp: execution_step_iff execution_row_defs Let_def)

section \<open>Operations move rows along histories\<close>

text \<open>How an operation may change the table: every row it had goes on along its history.\<close>

definition executions_evolve :: "settings \<Rightarrow> db \<Rightarrow> db \<Rightarrow> bool" where
  "executions_evolve cfg d d' \<longleftrightarrow>
     (\<forall>i x. db_executions d i = Some x \<longrightarrow>
        (\<exists>y. db_executions d' i = Some y \<and> (execution_step cfg)\<^sup>*\<^sup>* x y))"

lemma evolve_refl [simp]: "executions_evolve cfg d d"
  by (simp add: executions_evolve_def)

lemma evolve_trans: "executions_evolve cfg a b \<Longrightarrow> executions_evolve cfg b c \<Longrightarrow> executions_evolve cfg a c"
  unfolding executions_evolve_def by (meson rtranclp_trans)

lemma evolve_same: "db_executions d' = db_executions d \<Longrightarrow> executions_evolve cfg d d'"
  by (simp add: executions_evolve_def)

lemma evolve_into: "executions_evolve cfg a b \<Longrightarrow> db_executions c = db_executions b \<Longrightarrow> executions_evolve cfg a c"
  by (simp add: executions_evolve_def)

lemma evolve_put:
  "db_executions d i = Some x \<Longrightarrow> (execution_step cfg)\<^sup>*\<^sup>* x y \<Longrightarrow> executions_evolve cfg d (put_execution i y d)"
  by (simp add: executions_evolve_def)

lemma evolve_put_step:
  "db_executions d i = Some x \<Longrightarrow> execution_step cfg x y \<Longrightarrow> executions_evolve cfg d (put_execution i y d)"
  by (blast intro: evolve_put)

lemma claim_evolves: "executions_evolve cfg d (snd (claim cfg t token owner xid d))"
proof (cases "db_executions d xid")
  case (Some x)
  let ?x1 = "if x_status x = ''executing'' then recovered_row cfg t x else x"
  show ?thesis
  proof (cases "x_status x = ''executing'' \<and> \<not> lease_valid t x")
    case True
    then have r: "execution_step cfg x ?x1" by (simp add: execution_step.recovered)
    moreover have "execution_step cfg ?x1 (leased_row cfg t token owner ?x1)" if "x_status ?x1 = ''prepared''"
      using that by (rule execution_step.leased)
    ultimately show ?thesis using Some True
      by (auto simp: claim_def Let_def TERMINAL_EXECUTION_STATUSES_def intro!: evolve_put
          dest: rtranclp.rtrancl_into_rtrancl)
  next
    case False
    then show ?thesis using Some
      by (auto simp: claim_def Let_def intro!: evolve_put_step execution_step.leased)
  qed
qed (simp add: claim_def)

lemma complete_evolves: "executions_evolve cfg d (snd (complete t xid token result failed d))"
  by (auto simp: complete_def intro!: evolve_put_step execution_step.completed split: option.splits)

lemma mark_unknown_evolves: "executions_evolve cfg d (snd (mark_unknown t xid token reason d))"
  by (auto simp: mark_unknown_def intro!: evolve_put_step execution_step.unknown split: option.splits)

lemma mark_run_executions [simp]: "db_executions (mark_run_waiting_reconciliation t x d) = db_executions d"
  by (auto simp: mark_run_waiting_reconciliation_def Let_def split: option.splits)

lemma recover_stale_evolves: "executions_evolve cfg d (snd (recover_stale cfg t xid d))"
proof (cases "db_executions d xid")
  case (Some x)
  show ?thesis
  proof (cases "x_status x = ''executing'' \<and> \<not> lease_valid t x")
    case True
    then have "executions_evolve cfg d (put_execution xid (recovered_row cfg t x) d)"
      using Some by (blast intro: evolve_put_step execution_step.recovered)
    then show ?thesis using Some True
      by (auto simp: recover_stale_def Let_def intro: evolve_into)
  qed (use Some in \<open>auto simp: recover_stale_def\<close>)
qed (simp add: recover_stale_def)

lemma reconcile_evolves:
  "executions_evolve cfg d (snd (reconcile cfg t xid action ver actor provider note result d))"
proof (cases "db_executions d xid")
  case (Some x)
  then show ?thesis
    by (auto simp: reconcile_def Let_def intro!: evolve_put_step execution_step.retried execution_step.confirmed)
qed (simp add: reconcile_def)

lemma before_execution_executions [simp]:
  "db_executions (snd (before_execution cfg t server e d)) = db_executions d"
  by (auto simp: before_execution_def Let_def split: option.splits)

lemma record_transport_executions [simp]:
  "db_executions (record_transport_success t server d) = db_executions d"
  "db_executions (record_transport_failure cfg t server err d) = db_executions d"
  by (simp_all add: record_transport_success_def record_transport_failure_def)

lemma execute_once_evolves:
  assumes others: "\<And>d. executions_evolve cfg d (others d)"
  shows "executions_evolve cfg d (snd (execute_once cfg t t' token owner xid fn others d))"
proof -
  obtain r d1 where c: "claim cfg t token owner xid d = (r, d1)" by (cases "claim cfg t token owner xid d")
  have e1: "executions_evolve cfg d d1" using claim_evolves [of cfg d t token owner xid] c by simp
  show ?thesis
  proof (cases r)
    case (Inl e)
    then show ?thesis using c e1 by (simp add: execute_once_def)
  next
    case (Inr k)
    show ?thesis
    proof (cases "db_executions d1 xid")
      case None
      then show ?thesis using c e1 Inr by (cases k) (simp_all add: execute_once_def)
    next
      case (Some x)
      show ?thesis
      proof (cases k)
        case Cached
        then have "d1 = d" "x_status x \<in> TERMINAL_EXECUTION_STATUSES"
          using c Inr Some by (auto simp: claim_def Let_def split: option.splits if_splits)
        then have "executions_evolve cfg d1 (put_execution xid (deduplicated_row t x) d1)"
          using Some by (blast intro: evolve_put_step execution_step.deduplicated)
        then show ?thesis using c Inr Cached Some e1 by (auto simp: execute_once_def intro: evolve_trans)
      next
        case (Leased tok)
        obtain b d2 where b: "before_execution cfg t (x_server_name x) xid d1 = (b, d2)"
          by (cases "before_execution cfg t (x_server_name x) xid d1")
        have "db_executions d2 = db_executions d1"
          using before_execution_executions [of cfg t "x_server_name x" xid d1] b by simp
        then have e2: "executions_evolve cfg d d2" using e1 by (rule evolve_into [rotated])
        have e3: "executions_evolve cfg d (others d2)" using evolve_trans [OF e2 others] .
        show ?thesis
        proof (cases b)
          case (Inl e)
          then show ?thesis using c Inr Some Leased b evolve_trans [OF e2 complete_evolves]
            by (simp add: execute_once_def Let_def split_beta)
        next
          case b': (Inr h)
          show ?thesis
          proof (cases "fn (x_idempotency_key x) xid")
            case (Remote_result raw)
            have "executions_evolve cfg d (record_transport_success t' (x_server_name x) (others d2))"
              using e3 by (rule evolve_into) simp
            from evolve_trans [OF this complete_evolves] show ?thesis
              using c Inr Some Leased b b' Remote_result by (simp add: execute_once_def Let_def split_beta)
          next
            case (Quota_refused why reason policy retry_after)
            from evolve_trans [OF e3 complete_evolves] show ?thesis
              using c Inr Some Leased b b' Quota_refused by (simp add: execute_once_def Let_def split_beta)
          next
            case (Remote_raised exc)
            have "executions_evolve cfg d (record_transport_failure cfg t' (x_server_name x) exc (others d2))"
              using e3 by (rule evolve_into) simp
            moreover obtain q d5 where m: "mark_unknown t' xid tok (''Remote outcome is unknown: '' @ exc)
                (record_transport_failure cfg t' (x_server_name x) exc (others d2)) = (q, d5)"
              by (cases "mark_unknown t' xid tok (''Remote outcome is unknown: '' @ exc)
                (record_transport_failure cfg t' (x_server_name x) exc (others d2))")
            moreover have "executions_evolve cfg (record_transport_failure cfg t' (x_server_name x) exc (others d2)) d5"
              using mark_unknown_evolves m by (metis snd_conv)
            ultimately have "executions_evolve cfg d d5" by (blast intro: evolve_trans)
            then show ?thesis using c Inr Some Leased b b' Remote_raised m
              by (cases q) (simp_all add: execute_once_def Let_def)
          qed
        qed
      qed
    qed
  qed
qed

section \<open>Properties of executions\<close>

text \<open>
  C19.  Attempts are bounded, and an unsafe call is made once.  Whatever workers, watchdogs and
  operators do to an execution from its preparation on, it is started at most
  \<open>max 1 mcp_execution_max_attempts\<close> times, and at most once when its server did not declare
  idempotency by metadata; it holds a lease exactly while it executes and a result exactly once it is
  settled.
\<close>

theorem execution_attempts_bounded:
  assumes "(execution_step cfg)\<^sup>*\<^sup>* (new_execution sha t rid call key mode aid checkpoint) x"
  shows "x_attempt_count x \<le> max 1 (mcp_execution_max_attempts cfg) \<and>
     (mode \<noteq> ''metadata'' \<longrightarrow> x_attempt_count x \<le> 1) \<and>
     (x_lease_token x \<noteq> None \<longleftrightarrow> x_status x = ''executing'') \<and>
     (x_result x \<noteq> None \<longleftrightarrow> x_status x \<in> TERMINAL_EXECUTION_STATUSES)"
proof -
  have "execution_ok cfg x" using assms execution_ok_new by (rule execution_ok_history)
  moreover have "x_retry_safe x \<longleftrightarrow> mode = ''metadata''"
    using retry_safe_kept [OF assms] by (simp add: new_execution_def)
  ultimately show ?thesis by (simp add: execution_ok_def)
qed

text \<open>
  C20.  \<open>execute_once\<close> keeps the discipline of the rows: whatever the server answers and whatever other
  workers do meanwhile within that discipline, every execution of the table moves along its history
  and none is lost.
\<close>

theorem execute_once_refines_history:
  assumes "\<And>d. executions_evolve cfg d (others d)"
    and "db_executions d i = Some x"
  shows "\<exists>y. db_executions (snd (execute_once cfg t t' token owner xid fn others d)) i = Some y \<and>
     (execution_step cfg)\<^sup>*\<^sup>* x y"
  using execute_once_evolves [OF assms(1)] assms(2) by (simp add: executions_evolve_def)

lemma settled_claim:
  "db_executions d xid = Some x \<Longrightarrow> settled_execution x \<Longrightarrow> claim cfg t token owner xid d = (Inr Cached, d)"
  by (simp add: claim_def settled_execution_def)

text \<open>
  C21.  A settled outcome is final and is never bought twice.  Once an execution has succeeded or
  failed, every later history keeps its status, result and error; and executing it again gives the
  stored result marked as deduplicated without calling the server, whatever the server would answer.
\<close>

theorem settled_execution_is_final:
  assumes "db_executions d xid = Some x" "settled_execution x"
  shows "(\<forall>y. (execution_step cfg)\<^sup>*\<^sup>* x y \<longrightarrow>
       settled_execution y \<and> execution_outcome y = execution_outcome x) \<and>
     execute_once cfg t t' token owner xid fn others d =
      (Inr (dmerge (dict_of (x_result x)) [(''execution_id'', PStr xid), (''deduplicated'', PBool True)]),
       put_execution xid (deduplicated_row t x) d)"
proof
  show "\<forall>y. (execution_step cfg)\<^sup>*\<^sup>* x y \<longrightarrow> settled_execution y \<and> execution_outcome y = execution_outcome x"
    using executions.settled_forever [of cfg x] assms(2) by blast
  show "execute_once cfg t t' token owner xid fn others d =
      (Inr (dmerge (dict_of (x_result x)) [(''execution_id'', PStr xid), (''deduplicated'', PBool True)]),
       put_execution xid (deduplicated_row t x) d)"
    unfolding execute_once_def settled_claim [OF assms] using assms(1) by simp
qed

text \<open>
  Leases exclude each other.  While a worker holds an unexpired lease, nobody else can claim the
  execution, and once its lease was taken over the token of the first worker neither completes the
  execution nor marks it unknown; each refusal leaves the database as it was.
\<close>

theorem lease_excludes:
  assumes "db_executions d xid = Some x" "x_status x = ''executing''"
  shows "(lease_valid t x \<longrightarrow> claim cfg t token owner xid d = (Inl (Execution_in_progress xid), d)) \<and>
     (x_lease_token x \<noteq> Some stale \<longrightarrow>
      complete t xid stale result failed d = (Inl (Conflict ''MCP execution lease is no longer valid''), d) \<and>
      mark_unknown t xid stale reason d = (Inl (Conflict ''MCP execution lease is no longer valid''), d))"
  using assms by (simp add: claim_def complete_def mark_unknown_def TERMINAL_EXECUTION_STATUSES_def)

text \<open>
  An unanswered call is never taken for a result.  If the server call raises while the worker still
  holds its lease, the execution becomes \<open>unknown\<close> with no result, the breaker of the server records the
  failure, and the caller is told to reconcile.
\<close>

theorem raised_call_becomes_unknown:
  assumes x: "db_executions d xid = Some x" "x_status x = ''prepared''"
    and h: "mcp_circuit_breaker_enabled cfg \<longrightarrow> hl_circuit_state (locked_or_create t (x_server_name x) d) = ''closed''"
    and fn: "fn (x_idempotency_key x) xid = Remote_raised exc"
  shows "\<exists>y d'. execute_once cfg t t' token owner xid fn id d =
      (Inl (Reconciliation_needed xid (take 4000 (''Remote outcome is unknown: '' @ exc))), d') \<and>
     db_executions d' xid = Some y \<and> x_status y = ''unknown'' \<and> x_result y = x_result x \<and>
     x_lease_token y = None"
proof -
  let ?x1 = "leased_row cfg t token owner x"
  have 1: "claim cfg t token owner xid d = (Inr (Leased token), put_execution xid ?x1 d)"
    using x by (simp add: claim_def TERMINAL_EXECUTION_STATUSES_def)
  let ?d1 = "put_execution xid ?x1 d"
  have s: "x_server_name ?x1 = x_server_name x" "x_idempotency_key ?x1 = x_idempotency_key x"
    "x_status ?x1 = ''executing''" "x_lease_token ?x1 = Some token" "x_result ?x1 = x_result x"
    by (simp_all add: leased_row_def)
  have "admit cfg t xid (locked_or_create t (x_server_name x) ?d1) \<noteq> None"
    using h by (auto simp: admit_def locked_or_create_def)
  then obtain h2 where 2: "before_execution cfg t (x_server_name x) xid ?d1 = (Inr h2, put_health (x_server_name x) h2 ?d1)"
    by (auto simp: before_execution_def Let_def)
  let ?d3 = "record_transport_failure cfg t' (x_server_name x) exc (put_health (x_server_name x) h2 ?d1)"
  let ?y = "unknown_row t' (''Remote outcome is unknown: '' @ exc) True ?x1"
  have "db_executions ?d3 xid = Some ?x1" by simp
  then have 3: "mark_unknown t' xid token (''Remote outcome is unknown: '' @ exc) ?d3 =
      (Inr ?y, put_execution xid ?y ?d3)"
    using s by (simp add: mark_unknown_def TERMINAL_EXECUTION_STATUSES_def)
  have m: "or_default (x_error_message ?y) exc = take 4000 (''Remote outcome is unknown: '' @ exc)"
    by (simp add: unknown_row_def or_default_def none_or_empty_def)
  have "execute_once cfg t t' token owner xid fn id d =
      (Inl (Reconciliation_needed xid (take 4000 (''Remote outcome is unknown: '' @ exc))), put_execution xid ?y ?d3)"
    unfolding execute_once_def 1 prod.case sum.case claim_result.case
    using s fn 2 3 m by (simp add: Let_def)
  moreover have "x_status ?y = ''unknown''" "x_result ?y = x_result x" "x_lease_token ?y = None"
    using s by (simp_all add: unknown_row_def)
  ultimately show ?thesis by auto
qed

text \<open>
  Reconciliation is guarded: it changes the database only for an execution in status \<open>unknown\<close>, under
  the version the operator saw, and a retry only if the server declared idempotency by metadata and the
  attempts are not spent.
\<close>

theorem reconcile_guarded:
  assumes "snd (reconcile cfg t xid action ver actor provider remark result d) \<noteq> d"
  shows "\<exists>x. db_executions d xid = Some x \<and> x_status x = ''unknown'' \<and> x_version x = ver \<and>
     action \<in> {''confirm_succeeded'', ''confirm_failed'', ''retry''} \<and>
     (action = ''retry'' \<longrightarrow> x_retry_safe x \<and> x_attempt_count x < mcp_execution_max_attempts cfg)"
  using assms by (auto simp: reconcile_def Let_def split: option.splits if_splits)

section \<open>Idempotency keys\<close>

definition keys_unique :: "db \<Rightarrow> bool" where
  "keys_unique d \<longleftrightarrow> (\<forall>i j x y. db_executions d i = Some x \<longrightarrow> db_executions d j = Some y \<longrightarrow>
     x_idempotency_key x = x_idempotency_key y \<longrightarrow> i = j)"

text \<open>
  One key, one request.  Preparing an execution keeps the idempotency keys unique, and a key that is
  already bound gives back the row it is bound to, or a conflict when run, tool, arguments or approval
  differ; it never creates a second row.
\<close>

theorem prepare_keeps_keys_unique:
  assumes u: "keys_unique d" and l: "key_lookup d key existing" and "db_executions d xid = None"
    and p: "prepare cfg sha t xid existing rid call key mode aid checkpoint d = (r, d')"
  shows "keys_unique d' \<and>
     (\<forall>i x. existing = Some (i, x) \<longrightarrow> d' = d \<and> (r = Inr i \<longleftrightarrow>
        same_request x rid call (sha256_json sha (PDict (c_arguments call))) aid))"
proof (cases existing)
  case None
  have key: "x_idempotency_key (new_execution sha t rid call key mode aid c) = key" for c
    by (simp add: new_execution_def)
  have "keys_unique (put_execution xid (new_execution sha t rid call key mode aid c) d)" for c
    using u l None unfolding keys_unique_def key_lookup_def by (simp add: key) metis
  then show ?thesis using p None u
    by (auto simp: prepare_def split: option.splits if_splits)
next
  case (Some e)
  then show ?thesis using p u by (auto simp: prepare_def split: if_splits prod.splits)
qed

end
