(* ===== verification/McpWitnesses.thy ===== *)
theory McpWitnesses
  imports McpTheorems
begin

text \<open>
  Concrete executions at which the theorems on MCP executions apply: one call to a documentation server,
  prepared, claimed, answered, lost and reconciled.
\<close>

definition w_call :: mcp_call where
  "w_call = \<lparr>c_qualified_name = ''docs__search'', c_server = ''docs'', c_tool = ''search'', c_arguments = []\<rparr>"

definition w_row :: execution_row where
  "w_row = new_execution id 0 ''run'' w_call ''key'' ''metadata'' None None"

definition w_done :: execution_row where
  "w_done = completed_row 5 [(''ok'', PBool True)] False (leased_row default_settings 0 ''tok'' ''me'' w_row)"

definition w_db :: "execution_row \<Rightarrow> db" where
  "w_db x = put_execution ''e1'' x empty_db"

lemma w_db_simps [simp]:
  "db_executions (w_db x) = (\<lambda>_. None)(''e1'' := Some x)" "db_health (w_db x) = (\<lambda>_. None)"
  by (simp_all add: w_db_def empty_db_def)

lemma w_row_simps [simp]:
  "x_status w_row = ''prepared''" "x_server_name w_row = ''docs''" "x_version w_row = 1"
  "x_idempotency_key w_row = ''key''" "x_retry_safe w_row"
  by (simp_all add: w_row_def new_execution_def w_call_def)

lemma w_leased: "execution_step default_settings w_row (leased_row default_settings 0 ''tok'' ''me'' w_row)"
  by (rule execution_step.leased) simp

lemma w_done_history: "(execution_step default_settings)\<^sup>*\<^sup>* w_row w_done"
proof -
  have "execution_step default_settings (leased_row default_settings 0 ''tok'' ''me'' w_row) w_done"
    unfolding w_done_def by (rule execution_step.completed) (simp add: leased_row_def)
  then show ?thesis using w_leased by (meson rtranclp.rtrancl_into_rtrancl rtranclp.rtrancl_refl)
qed

lemma w_done_settled: "settled_execution w_done"
  by (simp add: settled_execution_def w_done_def completed_row_def TERMINAL_EXECUTION_STATUSES_def)

theorem execution_attempts_bounded_witness:
  "x_attempt_count w_done \<le> 3 \<and> (x_result w_done \<noteq> None \<longleftrightarrow> x_status w_done \<in> TERMINAL_EXECUTION_STATUSES)"
  using execution_attempts_bounded [OF w_done_history [unfolded w_row_def]]
  by (simp add: default_settings_def)

text \<open>Another worker that claims whatever it can find under \<open>e1\<close>.\<close>

theorem execute_once_refines_history_witness:
  "\<exists>y. db_executions (snd (execute_once default_settings 0 9 ''tok'' ''me'' ''e1''
       (\<lambda>k i. Remote_result [(''ok'', PBool True)])
       (\<lambda>d. snd (claim default_settings 7 ''other'' ''you'' ''e1'' d)) (w_db w_row))) ''e1'' = Some y \<and>
     (execution_step default_settings)\<^sup>*\<^sup>* w_row y"
  by (rule execute_once_refines_history) (simp_all add: claim_evolves)

theorem settled_execution_is_final_witness:
  "execution_outcome (deduplicated_row 9 w_done) = execution_outcome w_done \<and>
   fst (execute_once default_settings 9 9 ''t2'' ''you'' ''e1'' (\<lambda>k i. Remote_raised ''boom'') id (w_db w_done)) =
     Inr [(''ok'', PBool True), (''execution_id'', PStr ''e1''), (''deduplicated'', PBool True)]"
proof -
  have s: "execution_step default_settings w_done (deduplicated_row 9 w_done)"
    using w_done_settled by (auto simp: settled_execution_def intro: execution_step.deduplicated)
  have "db_executions (w_db w_done) ''e1'' = Some w_done" by simp
  note fin = settled_execution_is_final [OF this w_done_settled, of default_settings 9 9 "''t2''" "''you''"
      "\<lambda>k i. Remote_raised ''boom''" id]
  have "x_result w_done = Some [(''ok'', PBool True)]" by (simp add: w_done_def completed_row_def)
  then have "fst (execute_once default_settings 9 9 ''t2'' ''you'' ''e1'' (\<lambda>k i. Remote_raised ''boom'') id (w_db w_done)) =
     Inr (dmerge [(''ok'', PBool True)] [(''execution_id'', PStr ''e1''), (''deduplicated'', PBool True)])"
    using fin [THEN conjunct2] by simp
  moreover have "execution_outcome (deduplicated_row 9 w_done) = execution_outcome w_done"
    using fin [THEN conjunct1] s by blast
  ultimately show ?thesis by (simp add: dmerge_def dset_def)
qed

theorem lease_excludes_witness:
  "let x = leased_row default_settings 0 ''tok'' ''me'' w_row in
   claim default_settings 5 ''t2'' ''you'' ''e1'' (w_db x) = (Inl (Execution_in_progress ''e1''), w_db x) \<and>
   complete 5 ''e1'' ''old'' [] False (w_db x) = (Inl (Conflict ''MCP execution lease is no longer valid''), w_db x)"
proof -
  let ?x = "leased_row default_settings 0 ''tok'' ''me'' w_row"
  have 1: "db_executions (w_db ?x) ''e1'' = Some ?x" by simp
  have 2: "x_status ?x = ''executing''" by (simp add: leased_row_def)
  have "lease_valid 5 ?x"
    by (simp add: lease_valid_def leased_row_def effective_execution_lease_seconds_def default_settings_def secs_def)
  moreover have "x_lease_token ?x \<noteq> Some ''old''" by (simp add: leased_row_def)
  ultimately show ?thesis
    using lease_excludes [OF 1 2, of 5 default_settings "''t2''" "''you''" "''old''" "[]" False] by (simp add: Let_def)
qed

theorem raised_call_becomes_unknown_witness:
  "\<exists>y d'. execute_once default_settings 0 9 ''tok'' ''me'' ''e1'' (\<lambda>k i. Remote_raised ''boom'') id (w_db w_row) =
      (Inl (Reconciliation_needed ''e1'' (take 4000 (''Remote outcome is unknown: '' @ ''boom''))), d') \<and>
     db_executions d' ''e1'' = Some y \<and> x_status y = ''unknown'' \<and> x_result y = x_result w_row \<and>
     x_lease_token y = None"
  by (rule raised_call_becomes_unknown) (simp_all add: locked_or_create_def new_health_def)

definition w_unknown :: execution_row where
  "w_unknown = unknown_row 9 ''lost'' True (leased_row default_settings 0 ''tok'' ''me'' w_row)"

theorem reconcile_guarded_witness:
  "\<exists>x. db_executions (w_db w_unknown) ''e1'' = Some x \<and> x_retry_safe x \<and> x_attempt_count x < 3"
proof -
  have "snd (reconcile default_settings 20 ''e1'' ''retry'' 3 ''op'' ''local'' None None (w_db w_unknown)) \<noteq> w_db w_unknown"
  proof
    assume "snd (reconcile default_settings 20 ''e1'' ''retry'' 3 ''op'' ''local'' None None (w_db w_unknown)) = w_db w_unknown"
    then have "db_executions (snd (reconcile default_settings 20 ''e1'' ''retry'' 3 ''op'' ''local'' None None
        (w_db w_unknown))) ''e1'' = Some w_unknown" by simp
    then show False
      by (simp add: reconcile_def w_unknown_def unknown_row_def leased_row_def w_row_def new_execution_def
          default_settings_def signed_off_def retried_row_def Let_def)
  qed
  from reconcile_guarded [OF this] show ?thesis by (auto simp: default_settings_def)
qed

theorem prepare_keeps_keys_unique_witness:
  "keys_unique (snd (prepare default_settings id 0 ''e1'' None ''run'' w_call ''key'' ''metadata'' None None empty_db))"
proof -
  have "keys_unique empty_db" "key_lookup empty_db ''key'' None" "db_executions empty_db ''e1'' = None"
    by (simp_all add: keys_unique_def key_lookup_def empty_db_def)
  from prepare_keeps_keys_unique [OF this] show ?thesis by (metis prod.collapse)
qed

end
