(* ===== verification/ApprovalTheorems.thy ===== *)
theory ApprovalTheorems
  imports Executions
begin

text \<open>
  What the approval service and the circuit breaker guarantee over whole histories of their rows, and
  what the redaction of approval arguments leaves of a secret; each property with its witness.
\<close>

section \<open>The circuit breaker\<close>

lemma circuit_inv_history:
  assumes "mcp_circuit_breaker_enabled cfg" "(\<lambda>h h'. \<exists>t. circuit_step cfg t h h')\<^sup>*\<^sup>* a b" "circuit_inv cfg a"
  shows "circuit_inv cfg b"
  using assms(2,3) by (induction rule: rtranclp_induct) (auto intro: circuit_inv_step [OF assms(1)])

inductive health_change :: "settings \<Rightarrow> db \<Rightarrow> db \<Rightarrow> bool" for cfg where
  \<comment> \<open>one operation of the operations service\<close>
  before: "e \<noteq> [] \<Longrightarrow> health_change cfg d (snd (before_execution cfg t server e d))"
| succeeded: "health_change cfg d (record_transport_success t server d)"
| failed: "health_change cfg d (record_transport_failure cfg t server err d)"
| probed: "health_change cfg d (record_probe cfg t server ok result why d)"
| controlled: "health_change cfg d (snd (control_circuit cfg t server action v d))"

lemma health_change_row:
  assumes "health_change cfg d d'" "db_health d' server = Some h'"
  shows "db_health d server = Some h' \<or> (\<exists>t. circuit_step cfg t (locked_or_create t server d) h')"
  using assms
proof (cases rule: health_change.cases)
  case (before e t other)
  show ?thesis
  proof (cases "admit cfg t e (locked_or_create t other d)")
    case None
    then have "circuit_step cfg t (locked_or_create t other d) (rejected_row t (locked_or_create t other d))"
      by (rule circuit_step.rejected)
    then show ?thesis using before assms(2) None by (auto simp: before_execution_def Let_def split: if_splits)
  next
    case (Some h1)
    from circuit_step.admitted [OF this before(2)] show ?thesis
      using before(1) assms(2) Some by (auto simp: before_execution_def Let_def split: if_splits)
  qed
next
  case (controlled t other action v)
  then show ?thesis using assms(2)
    by (auto simp: control_circuit_def locked_or_create_def split: if_splits option.splits
        intro: circuit_step.controlled exI [of _ t])
qed (auto simp: record_transport_success_def record_transport_failure_def record_probe_def split: if_splits
       intro: circuit_step.success circuit_step.failure circuit_step.probed)

lemma health_change_inv:
  assumes "mcp_circuit_breaker_enabled cfg" "health_change cfg d d'"
    and "\<And>server h. db_health d server = Some h \<Longrightarrow> circuit_inv cfg h" "db_health d' server = Some h'"
  shows "circuit_inv cfg h'"
  using health_change_row [OF assms(2,4)]
proof
  assume "\<exists>t. circuit_step cfg t (locked_or_create t server d) h'"
  then obtain t where s: "circuit_step cfg t (locked_or_create t server d) h'" ..
  have "circuit_inv cfg (locked_or_create t server d)"
    using assms(3) by (simp add: locked_or_create_def circuit_inv_new split: option.split)
  from circuit_inv_step [OF assms(1) this s] show ?thesis .
qed (rule assms(3))

text \<open>
  C26.  The breaker state machine.  Whatever sequence of admissions, outcomes, probes and manual controls the
  operations service runs on any servers, every health row keeps the invariant: the state is one of three; a
  manually opened circuit is open and has no cooldown, any other open circuit has one; a closed circuit has
  counted fewer failures than the threshold and carries no trial; a half-open circuit has a named trial with a
  lease.
\<close>

theorem breaker_invariant:
  assumes "mcp_circuit_breaker_enabled cfg" and "(health_change cfg)\<^sup>*\<^sup>* d d'"
    and "\<forall>server h. db_health d server = Some h \<longrightarrow> circuit_inv cfg h"
  shows "\<forall>server h. db_health d' server = Some h \<longrightarrow> circuit_inv cfg h"
  using assms(2,3) by (induction rule: rtranclp_induct) (blast intro: health_change_inv [OF assms(1)])+

theorem breaker_invariant_witness:
  "\<exists>h. db_health (record_transport_failure default_settings 9 ''docs'' ''boom'' empty_db) ''docs'' = Some h \<and>
     circuit_inv default_settings h"
proof -
  have "mcp_circuit_breaker_enabled default_settings" by (simp add: default_settings_def)
  moreover have "(health_change default_settings)\<^sup>*\<^sup>* empty_db (record_transport_failure default_settings 9 ''docs'' ''boom'' empty_db)"
    by (blast intro: health_change.failed)
  moreover have "\<forall>server h. db_health empty_db server = Some h \<longrightarrow> circuit_inv default_settings h"
    by (simp add: empty_db_def)
  ultimately have "\<forall>server h. db_health (record_transport_failure default_settings 9 ''docs'' ''boom'' empty_db) server = Some h \<longrightarrow>
      circuit_inv default_settings h"
    by (rule breaker_invariant)
  from spec [OF this, of "''docs''"] show ?thesis by (simp add: record_transport_failure_def)
qed

lemma admit_open_after_cooldown:
  assumes "circuit_inv cfg h" "hl_circuit_state h = ''open''" "\<not> hl_manual_open h"
    "hl_cooldown_until h = Some c" "c \<le> t"
  shows "admit cfg t e h \<noteq> None"
  using assms by (simp add: admit_def still_open_def)

text \<open>
  The advice of a refusal is honest.  A circuit that failures opened refuses an execution with a
  positive number of seconds, and an execution that comes back after that many seconds is admitted.
\<close>

theorem retry_after_is_enough:
  assumes "circuit_inv cfg (locked_or_create t server d)"
    and "\<not> hl_manual_open (locked_or_create t server d)"
    and "hl_circuit_state (locked_or_create t server d) = ''open''"
    and "before_execution cfg t server e d = (Inl err, d')"
  shows "\<exists>r. err = Circuit_open server (Some r) \<and> 0 < r \<and>
     (\<forall>t' e'. t + secs r \<le> t' \<longrightarrow> (\<exists>h d''. before_execution cfg t' server e' d' = (Inr h, d'')))"
proof -
  let ?h = "locked_or_create t server d"
  obtain c where c: "hl_cooldown_until ?h = Some c"
    using assms(1-3) by (auto simp: circuit_inv_def)
  have n: "admit cfg t e ?h = None" and err: "err = Circuit_open server (retry_after_seconds t ?h)"
    and d': "d' = put_health server (rejected_row t ?h) d"
    using assms(4) by (auto simp: before_execution_def Let_def split: option.splits)
  have "t < c" using n c assms(2,3) by (auto simp: admit_def still_open_def split: if_splits)
  then have p: "0 < ceil_secs (c - t)" by (simp add: ceil_secs_pos)
  have r: "err = Circuit_open server (Some (ceil_secs (c - t)))"
    using err c p by (simp add: retry_after_seconds_def)
  have admitted: "\<exists>h d''. before_execution cfg t' server e' d' = (Inr h, d'')"
    if "t + secs (ceil_secs (c - t)) \<le> t'" for t' e'
  proof -
    have "c \<le> t'" using that ceil_secs_ge [of "c - t"] by linarith
    moreover have "locked_or_create t' server d' = rejected_row t ?h" using d' by (simp add: locked_or_create_def)
    ultimately have "admit cfg t' e' (locked_or_create t' server d') \<noteq> None"
      using assms(2,3) c by (simp add: admit_def still_open_def rejected_row_def touched_def)
    then show ?thesis by (auto simp: before_execution_def Let_def)
  qed
  show ?thesis using r p admitted by blast
qed

definition w_open :: health_row where
  "w_open = open_circuit default_settings 0 False (new_health 0)"

definition w_open_db :: db where
  "w_open_db = put_health ''docs'' w_open empty_db"

lemma w_open_lookup [simp]: "locked_or_create t ''docs'' w_open_db = w_open"
  by (simp add: w_open_db_def locked_or_create_def)

lemma w_open_inv: "circuit_inv default_settings w_open"
  unfolding w_open_def by (rule circuit_inv_open) (simp add: new_health_def)

lemma w_open_simps: "\<not> hl_manual_open w_open" "hl_circuit_state w_open = ''open''"
    "hl_cooldown_until w_open = Some 60000000"
  by (simp_all add: w_open_def open_circuit_def default_settings_def secs_def)

theorem retry_after_is_enough_witness:
  "\<exists>r h d''. before_execution default_settings (10000000 + secs r) ''docs'' ''e2''
     (snd (before_execution default_settings 10000000 ''docs'' ''e1'' w_open_db)) = (Inr h, d'')"
proof -
  obtain err d' where b: "before_execution default_settings 10000000 ''docs'' ''e1'' w_open_db = (Inl err, d')"
    by (simp add: before_execution_def admit_def still_open_def w_open_simps default_settings_def Let_def)
  have "circuit_inv default_settings (locked_or_create 10000000 ''docs'' w_open_db)"
    "\<not> hl_manual_open (locked_or_create 10000000 ''docs'' w_open_db)"
    "hl_circuit_state (locked_or_create 10000000 ''docs'' w_open_db) = ''open''"
    by (simp_all add: w_open_inv w_open_simps)
  from retry_after_is_enough [OF this b] obtain r where
    "\<forall>t' e'. 10000000 + secs r \<le> t' \<longrightarrow>
       (\<exists>h d''. before_execution default_settings t' ''docs'' e' d' = (Inr h, d''))" by blast
  then have "\<exists>h d''. before_execution default_settings (10000000 + secs r) ''docs'' ''e2'' d' = (Inr h, d'')" by simp
  then show ?thesis by (simp add: b) blast
qed

text \<open>
  One trial at a time.  The execution that an open circuit admits after its cooldown becomes the
  trial of the half-open circuit; until its lease ends every other execution is refused, its transport
  success closes the circuit, and its transport failure opens it again for a full cooldown.
\<close>

theorem half_open_single_trial:
  assumes "mcp_circuit_breaker_enabled cfg"
    and "hl_circuit_state h = ''open''" "\<not> hl_manual_open h" "e \<noteq> []"
    and "admit cfg t e h = Some h'"
  shows "hl_circuit_state h' = ''half_open'' \<and>
     (\<forall>t' e'. t' < t + secs (max 1 (mcp_circuit_half_open_lease_seconds cfg)) \<longrightarrow> e' \<noteq> e \<longrightarrow> admit cfg t' e' h' = None) \<and>
     (\<forall>t'. hl_circuit_state (success_row t' h') = ''closed'') \<and>
     (\<forall>t' msg. hl_circuit_state (failure_row cfg t' msg h') = ''open'' \<and>
        hl_cooldown_until (failure_row cfg t' msg h') = Some (t' + secs (max 1 (mcp_circuit_cooldown_seconds cfg))))"
proof -
  have h': "h' = half_open_for cfg t e h"
    using assms(1,2,5) by (auto simp: admit_def split: if_splits)
  show ?thesis using assms(1,3,4) unfolding h'
    by (auto simp: half_open_for_def admit_def active_trial_def none_or_empty_def success_row_def failure_row_def
        record_failure_def open_circuit_def close_circuit_def touched_def Let_def)
qed

theorem half_open_single_trial_witness:
  "admit default_settings 60000005 ''other'' (half_open_for default_settings 60000000 ''e1'' w_open) = None"
proof -
  have "mcp_circuit_breaker_enabled default_settings" by (simp add: default_settings_def)
  moreover have "admit default_settings 60000000 ''e1'' w_open = Some (half_open_for default_settings 60000000 ''e1'' w_open)"
    by (simp add: admit_def still_open_def w_open_simps default_settings_def)
  ultimately show ?thesis
    using half_open_single_trial [of default_settings w_open "''e1''" 60000000] w_open_simps
    by (simp add: default_settings_def secs_def)
qed

section \<open>Approvals\<close>

definition approval_facts :: "approval_row \<Rightarrow> string \<times> string \<times> pydict \<times> pydict \<times> string \<times> time" where
  \<comment> \<open>what no operation changes\<close>
  "approval_facts a = (a_run_id a, a_qualified_name a, a_arguments a, a_checkpoint a, a_checkpoint_hash a, a_expires_at a)"

definition approval_ok :: "approval_row \<Rightarrow> bool" where
  "approval_ok a \<longleftrightarrow>
     (a_status a = ''pending'' \<longrightarrow> a_decision a = None) \<and>
     a_decision a \<in> {None, Some ''approved'', Some ''rejected''} \<and>
     (a_decision a = Some ''approved'' \<longrightarrow> (\<exists>t. a_decided_at a = Some t \<and> t < a_expires_at a))"

lemma approval_facts_step: "approval_step cfg a b \<Longrightarrow> approval_facts b = approval_facts a"
  by (erule approval_step.cases) (simp_all add: approval_row_defs approval_facts_def Let_def)

lemma approval_ok_step: "approval_step cfg a b \<Longrightarrow> approval_ok a \<Longrightarrow> approval_ok b"
  by (erule approval_step.cases) (auto simp: approval_row_defs approval_ok_def normalized_decision_def Let_def)

lemma approval_history:
  assumes "(approval_step cfg)\<^sup>*\<^sup>* a b"
  shows "approval_facts b = approval_facts a" "approval_ok a \<Longrightarrow> approval_ok b"
  using assms by (induction rule: rtranclp_induct) (auto dest: approval_facts_step approval_ok_step)

lemma approval_ok_new: "approval_ok (new_approval cfg sha t aid rid call entry checkpoint)"
  by (simp add: approval_ok_def new_approval_def)

lemma decision_kept:
  "approval_step cfg a b \<Longrightarrow> approval_ok a \<Longrightarrow> a_decision a \<noteq> None \<Longrightarrow>
   a_decision b = a_decision a \<and> a_decided_by b = a_decided_by a"
  by (erule approval_step.cases) (auto simp: approval_row_defs approval_ok_def Let_def)

lemma decision_kept_history:
  "(approval_step cfg)\<^sup>*\<^sup>* a b \<Longrightarrow> approval_ok a \<Longrightarrow> a_decision a \<noteq> None \<Longrightarrow>
   a_decision b = a_decision a \<and> a_decided_by b = a_decided_by a"
proof (induction rule: rtranclp_induct)
  case (step b c)
  then show ?case using decision_kept [of cfg b c] approval_history(2) [of cfg a b] by auto
qed simp

text \<open>
  How an operation may change the table: every approval it had goes on along its history.  The operations of the
  approval service and what the execution service does to approvals all do.
\<close>

definition approvals_evolve :: "settings \<Rightarrow> db \<Rightarrow> db \<Rightarrow> bool" where
  "approvals_evolve cfg d d' \<longleftrightarrow>
     (\<forall>i a. db_approvals d i = Some a \<longrightarrow> (\<exists>b. db_approvals d' i = Some b \<and> (approval_step cfg)\<^sup>*\<^sup>* a b))"

lemma approvals_evolve_refl [simp]: "approvals_evolve cfg d d"
  by (simp add: approvals_evolve_def)

lemma approvals_evolve_trans: "approvals_evolve cfg a b \<Longrightarrow> approvals_evolve cfg b c \<Longrightarrow> approvals_evolve cfg a c"
  unfolding approvals_evolve_def by (meson rtranclp_trans)

lemma approvals_evolve_put:
  "db_approvals d i = Some a \<Longrightarrow> approval_step cfg a b \<Longrightarrow> approvals_evolve cfg d (put_approval i b d)"
  by (auto simp: approvals_evolve_def)

lemma decide_evolves: "approvals_evolve cfg d (snd (decide t aid decision remark actor provider v d))"
  by (auto simp: decide_def split: option.splits intro: approvals_evolve_put approval_step.decided)

lemma expire_evolves: "approvals_evolve cfg d (snd (expire t aid d))"
  by (auto simp: expire_def not_less split: option.splits intro!: approvals_evolve_put approval_step.expired)

lemma claim_for_resume_evolves: "approvals_evolve cfg d (snd (claim_for_resume cfg t aid d))"
  by (auto simp: claim_for_resume_def split: option.splits intro: approvals_evolve_put approval_step.claimed)

lemma finish_approval_evolves: "approvals_evolve cfg d (finish_approval t aid result failed d)"
  by (auto simp: finish_approval_def split: option.splits intro: approvals_evolve_put approval_step.finished)

lemma prepare_resume_target_evolves: "approvals_evolve cfg d (snd (prepare_resume_target t x d))"
  by (auto simp: prepare_resume_target_def Let_def split: option.splits intro: approvals_evolve_put approval_step.requeued)

lemma mark_run_waiting_reconciliation_evolves: "approvals_evolve cfg d (mark_run_waiting_reconciliation t x d)"
proof -
  define d1 where "d1 = (case db_runs d (x_run_id x) of None \<Rightarrow> d
       | Some run \<Rightarrow> if u_status run \<in> TERMINAL_AGENT_RUN_STATUSES then d
           else put_run (x_run_id x) (run\<lparr>u_status := ''waiting_reconciliation'',
             u_final_summary := Some reconciliation_waiting_summary, u_failure_reason := None, u_updated_at := t\<rparr>) d)"
  have "db_approvals d1 = db_approvals d" by (simp add: d1_def split: option.split)
  then have "approvals_evolve cfg d d1" by (simp add: approvals_evolve_def)
  moreover have "approvals_evolve cfg d1 (mark_run_waiting_reconciliation t x d)"
    unfolding mark_run_waiting_reconciliation_def Let_def d1_def [symmetric]
    by (auto split: option.split intro: approvals_evolve_put approval_step.unreconciled)
  ultimately show ?thesis by (rule approvals_evolve_trans)
qed

lemma decide_decided:
  \<comment> \<open>deciding what is decided changes nothing\<close>
  assumes "db_approvals d aid = Some a" "approval_ok a" "a_decision a \<noteq> None"
  shows "decide t aid decision remark actor provider v d =
     (if a_decision a = Some (normalized_decision decision) then Inr a
      else Inl (Conflict (if a_version a = v then ''MCP approval has already been decided''
                          else ''MCP approval version conflict'')), d)"
proof -
  have "a_status a \<noteq> ''pending''" using assms(2,3) by (auto simp: approval_ok_def)
  then show ?thesis using assms(1) by (simp add: decide_def)
qed

text \<open>
  C29.  What was approved is what is resumed.  A new approval is stored; after whatever decisions, expiries,
  claims, completions and reconciliations move the table along, its call, its arguments and its checkpoint are
  as they were requested and the checkpoint still matches its digest; and the decision is \<open>approved\<close> only if
  a person took it before the approval expired.
\<close>

theorem approval_history_is_sound:
  assumes "create_pending cfg sha t aid None rid call entry checkpoint d = (Inr i, d1)"
    and "approvals_evolve cfg d1 d2"
  shows "i = aid \<and> (\<exists>a. db_approvals d2 aid = Some a \<and> verify_checkpoint sha a \<and>
     a_qualified_name a = c_qualified_name call \<and> a_arguments a = c_arguments call \<and>
     a_checkpoint a = approval_checkpoint aid checkpoint \<and>
     (a_decision a = Some ''approved'' \<longrightarrow> (\<exists>u. a_decided_at a = Some u \<and> u < a_expires_at a)) \<and>
     (a_status a = ''pending'' \<longrightarrow> a_decision a = None))"
proof -
  let ?n = "new_approval cfg sha t aid rid call entry checkpoint"
  have n: "i = aid" "db_approvals d1 aid = Some ?n"
    using assms(1) by (auto simp: create_pending_def split: if_splits option.splits)
  then obtain a where a: "db_approvals d2 aid = Some a" "(approval_step cfg)\<^sup>*\<^sup>* ?n a"
    using assms(2) by (auto simp: approvals_evolve_def)
  then show ?thesis
    using n(1) approval_history [OF a(2)] approval_ok_new [of cfg sha t aid rid call entry checkpoint]
    by (simp add: approval_ok_def approval_facts_def new_approval_def verify_checkpoint_def)
qed

text \<open>
  A decision is taken once.  Once an approval is decided, then after whatever operations move the table
  along, its decision and who took it are the same, and whoever decides again, under whatever version, changes
  nothing: the answer is the approval if the decision is the same, and a conflict otherwise.
\<close>

theorem decision_is_final:
  assumes "approval_ok a" "a_status a = ''pending''" "db_approvals d aid = Some a"
    and "decide t aid decision remark actor provider (a_version a) d = (r, d1)"
  shows "\<exists>b. r = Inr b \<and> db_approvals d1 aid = Some b \<and> a_decision b \<noteq> None \<and> approvals_evolve cfg d d1 \<and>
     (\<forall>d2. approvals_evolve cfg d1 d2 \<longrightarrow>
        (\<exists>c. db_approvals d2 aid = Some c \<and> a_decision c = a_decision b \<and> a_decided_by c = Some actor \<and>
           (\<forall>t2 decision2 remark2 actor2 provider2 v.
              decide t2 aid decision2 remark2 actor2 provider2 v d2 =
                (if a_decision b = Some (normalized_decision decision2) then Inr c
                 else Inl (Conflict (if a_version c = v then ''MCP approval has already been decided''
                                     else ''MCP approval version conflict'')), d2))))"
proof -
  let ?b = "decided_row t decision remark actor provider a"
  have r: "r = Inr ?b" "d1 = put_approval aid ?b d"
    using assms(2-4) by (auto simp: decide_def)
  have b: "a_decision ?b \<noteq> None" "a_decided_by ?b = Some actor"
    by (simp_all add: decided_row_def Let_def)
  have ok: "approval_ok ?b"
    using assms(1,2) approval_step.decided approval_ok_step by blast
  have at: "db_approvals d1 aid = Some ?b" using r by simp
  have later: "\<exists>c. db_approvals d2 aid = Some c \<and> a_decision c = a_decision ?b \<and> a_decided_by c = Some actor \<and> approval_ok c"
    if ev: "approvals_evolve cfg d1 d2" for d2
  proof -
    obtain c where c: "db_approvals d2 aid = Some c" "(approval_step cfg)\<^sup>*\<^sup>* ?b c"
      using ev at by (auto simp: approvals_evolve_def)
    then show ?thesis using decision_kept_history [OF c(2) ok b(1)] approval_history(2) [OF c(2) ok] b(2) by simp
  qed
  have "approvals_evolve cfg d d1" using decide_evolves [of cfg d t aid decision remark actor provider "a_version a"] assms(4) by simp
  moreover have "\<exists>c. db_approvals d2 aid = Some c \<and> a_decision c = a_decision ?b \<and> a_decided_by c = Some actor \<and>
           (\<forall>t2 decision2 remark2 actor2 provider2 v.
              decide t2 aid decision2 remark2 actor2 provider2 v d2 =
                (if a_decision ?b = Some (normalized_decision decision2) then Inr c
                 else Inl (Conflict (if a_version c = v then ''MCP approval has already been decided''
                                     else ''MCP approval version conflict'')), d2))"
    if "approvals_evolve cfg d1 d2" for d2
  proof -
    from later [OF that] obtain c where c: "db_approvals d2 aid = Some c" "a_decision c = a_decision ?b"
      "a_decided_by c = Some actor" "approval_ok c" by blast
    then have "a_decision c \<noteq> None" using b(1) by simp
    note again = decide_decided [OF c(1,4) this, unfolded c(2)]
    show ?thesis using c(1-3) again by (intro exI [of _ c] conjI allI)
  qed
  ultimately show ?thesis using r(1) at b(1) by blast
qed

definition w_acall :: mcp_call where
  "w_acall = \<lparr>c_qualified_name = ''docs__search'', c_server = ''docs'', c_tool = ''search'', c_arguments = []\<rparr>"

definition w_aentry :: catalog_entry where
  "w_aentry = \<lparr>ct_qualified_name = ''docs__search'', ct_server = ''docs'', ct_name = ''search'', ct_description = PNone,
      ct_input_schema = [], ct_annotations = PNone, ct_policy = ''approval_required''\<rparr>"

definition w_approval :: approval_row where
  "w_approval = new_approval default_settings id 0 ''a1'' ''run'' w_acall w_aentry []"

definition w_run_db :: db where
  "w_run_db = put_run ''run'' \<lparr>u_repo_id = ''repo'', u_user_input = ''x'', u_test_command = None, u_status = ''running'',
     u_final_diff = None, u_final_summary = None, u_failure_reason = None, u_test_result = None, u_iterations = 0,
     u_updated_at = 0, u_finished_at = None\<rparr> empty_db"

theorem approval_history_is_sound_witness:
  "\<exists>a. db_approvals (snd (expire 1800000000 ''a1''
        (snd (create_pending default_settings id 0 ''a1'' None ''run'' w_acall w_aentry [] w_run_db)))) ''a1'' = Some a \<and>
     verify_checkpoint id a \<and> a_arguments a = []"
proof -
  obtain d1 where c: "create_pending default_settings id 0 ''a1'' None ''run'' w_acall w_aentry [] w_run_db = (Inr ''a1'', d1)"
  proof -
    have "\<not> mcp_approval_max_checkpoint_chars default_settings < int (length (canonical_json (PDict (approval_checkpoint ''a1'' []))))"
      by code_simp
    moreover have "mcp_approval_enabled default_settings" by (simp add: default_settings_def)
    moreover have "\<exists>run. db_runs w_run_db ''run'' = Some run" by (simp add: w_run_db_def)
    ultimately show ?thesis using that by (auto simp: create_pending_def)
  qed
  have args: "c_arguments w_acall = []" by (simp add: w_acall_def)
  from approval_history_is_sound [OF c expire_evolves [of default_settings d1 1800000000 "''a1''"]] show ?thesis
    unfolding c snd_conv by (auto simp: args)
qed

theorem decision_is_final_witness:
  "\<exists>b d1. decide 5 ''a1'' ''approve'' None ''ann'' ''local'' 1 (put_approval ''a1'' w_approval empty_db) = (Inr b, d1) \<and>
     a_decision b = Some ''approved'' \<and>
     decide 6 ''a1'' ''reject'' None ''bob'' ''local'' 1 d1 = (Inl (Conflict ''MCP approval version conflict''), d1)"
proof -
  let ?d = "put_approval ''a1'' w_approval empty_db"
  let ?b = "decided_row 5 ''approve'' None ''ann'' ''local'' w_approval"
  have a: "approval_ok w_approval" "a_status w_approval = ''pending''" "db_approvals ?d ''a1'' = Some w_approval"
    "a_version w_approval = 1"
    by (simp_all add: w_approval_def approval_ok_new) (simp_all add: new_approval_def)
  have dec: "decide 5 ''a1'' ''approve'' None ''ann'' ''local'' (a_version w_approval) ?d = (Inr ?b, put_approval ''a1'' ?b ?d)"
    using a by (simp add: decide_def)
  have ap: "a_decision ?b = Some ''approved''"
    by (simp add: decided_row_def w_approval_def new_approval_def default_settings_def secs_def normalized_decision_def)
  have at: "db_approvals (put_approval ''a1'' ?b ?d) ''a1'' = Some ?b" "a_version ?b = 2"
    using a(4) by (simp_all add: decided_row_def Let_def)
  let ?d1 = "put_approval ''a1'' ?b ?d"
  from decision_is_final [OF a(1-3) dec, of default_settings] obtain b
    where b: "Inr ?b = (Inr b :: service_error + approval_row)"
      and later: "\<forall>d2. approvals_evolve default_settings ?d1 d2 \<longrightarrow>
        (\<exists>c. db_approvals d2 ''a1'' = Some c \<and> a_decision c = a_decision b \<and> a_decided_by c = Some ''ann'' \<and>
           (\<forall>t2 decision2 remark2 actor2 provider2 v.
              decide t2 ''a1'' decision2 remark2 actor2 provider2 v d2 =
                (if a_decision b = Some (normalized_decision decision2) then Inr c
                 else Inl (Conflict (if a_version c = v then ''MCP approval has already been decided''
                                     else ''MCP approval version conflict'')), d2)))"
    by (elim exE conjE) (rule that)
  from later [rule_format, of ?d1] obtain c where c: "db_approvals ?d1 ''a1'' = Some c"
      and again: "\<And>t2 decision2 remark2 actor2 provider2 v. decide t2 ''a1'' decision2 remark2 actor2 provider2 v ?d1 =
                (if a_decision b = Some (normalized_decision decision2) then Inr c
                 else Inl (Conflict (if a_version c = v then ''MCP approval has already been decided''
                                     else ''MCP approval version conflict'')), ?d1)"
    by (auto simp del: put_approval_simps)
  have "c = ?b" "b = ?b" using b c at(1) by simp_all
  then have "decide 6 ''a1'' ''reject'' None ''bob'' ''local'' 1 ?d1 = (Inl (Conflict ''MCP approval version conflict''), ?d1)"
    using again [of 6 "''reject''" None "''bob''" "''local''" 1] ap at(2) by (simp add: normalized_decision_def)
  then show ?thesis using dec ap a(4) by auto
qed

section \<open>Redaction\<close>

primrec redacted :: "pyval \<Rightarrow> bool" where
  "redacted PNone = True"
| "redacted (PBool b) = True"
| "redacted (PInt n) = True"
| "redacted (PStr s) = True"
| "redacted (PList xs) = list_all id (map redacted xs)"
| "redacted (PDict d) = list_all (\<lambda>(k, clean, v). clean \<and> (sensitive_key k \<longrightarrow> v = PStr ''***redacted***''))
     (map (\<lambda>(k, v). (k, snd v, fst v)) (map (map_prod id (\<lambda>v. (v, redacted v))) d))"

lemma redact_redacted: "redacted (redact_sensitive v)"
  by (induction v) (auto simp: list_all_iff snds.simps split: prod.splits if_splits)

lemma redact_id: "redacted v \<Longrightarrow> redact_sensitive v = v"
proof (induction v)
  case (PList xs)
  then show ?case by (auto simp: list_all_iff intro: map_idI)
next
  case (PDict d)
  have "redact_sensitive v = v" if "(k, v) \<in> set d" for k v
    using PDict.IH [OF that, of v] PDict.prems that by (fastforce simp: list_all_iff snds.simps)
  moreover have "v = PStr ''***redacted***''" if "(k, v) \<in> set d" "sensitive_key k" for k v
    using PDict.prems that by (fastforce simp: list_all_iff)
  ultimately show ?case by (auto intro!: map_idI)
qed simp_all

text \<open>
  Redaction leaves no secret under a sensitive key: at every depth of lists and dictionaries the value of
  a key whose normalised name contains a sensitive part is the placeholder, keys and their order stay, and
  redacting again changes nothing.
\<close>

theorem redaction_is_complete:
  "redacted (redact_sensitive v) \<and> redact_sensitive (redact_sensitive v) = redact_sensitive v \<and>
   (case redact_sensitive v of PDict d \<Rightarrow> (\<exists>e. v = PDict e \<and> map fst d = map fst e) | _ \<Rightarrow> \<forall>e. v \<noteq> PDict e)"
proof -
  have "case redact_sensitive v of PDict d \<Rightarrow> (\<exists>e. v = PDict e \<and> map fst d = map fst e) | _ \<Rightarrow> \<forall>e. v \<noteq> PDict e"
    by (cases v) (auto simp: comp_def split_beta)
  then show ?thesis using redact_redacted redact_id by blast
qed

end
