(* ===== verification/Router.thy ===== *)
theory Router
  imports Executions
begin

text \<open>
  The MCP client and the tool router (\<open>backend/app/mcp/client.py\<close>, \<open>backend/app/mcp/router.py\<close>): server
  configurations and their validation, discovery of the catalog, validation of what the planner proposes,
  and the two ways a call reaches a server.  The transport, the broker, the quota service and the JSON
  schema validator (a package) answer through the fields of \<open>client\<close> and \<open>schema_tools\<close>.
\<close>

section \<open>Server configurations\<close>

record server_config =
  sv_name :: string
  sv_url_has_credentials :: bool
  sv_bearer_token_env :: "string option"
  sv_bearer_token :: "string option"
  sv_allowed_tools :: "string list"
  sv_tool_policies :: "(string \<times> string) list"
  sv_agent_context_tools :: "(string \<times> pydict) list"
  sv_idempotency_mode :: string
  sv_registry_managed :: bool
  sv_enabled :: bool

definition name_start :: "char \<Rightarrow> bool" where
  "name_start c \<longleftrightarrow> (let n = (of_char c :: nat) in
     (48 \<le> n \<and> n \<le> 57) \<or> (65 \<le> n \<and> n \<le> 90) \<or> (97 \<le> n \<and> n \<le> 122))"

definition name_char :: "char \<Rightarrow> bool" where
  "name_char c \<longleftrightarrow> name_start c \<or> c = CHR ''_'' \<or> c = CHR ''-''"

definition valid_name :: "string \<Rightarrow> bool" where
  \<comment> \<open>\<open>SERVER_NAME_PATTERN\<close>\<close>
  "valid_name s \<longleftrightarrow> (case s of [] \<Rightarrow> False | c # t \<Rightarrow> name_start c \<and> list_all name_char t \<and> length t \<le> 63)"

definition valid_token_env :: "string \<Rightarrow> bool" where
  \<comment> \<open>\<open>ENV_NAME_PATTERN\<close>\<close>
  "valid_token_env s \<longleftrightarrow>
     (let digit = (\<lambda>c. (48 :: nat) \<le> of_char c \<and> of_char c \<le> (57 :: nat));
          letter = (\<lambda>c. (name_start c \<and> \<not> digit c) \<or> c = CHR ''_'')
      in case s of [] \<Rightarrow> False | c # t \<Rightarrow> letter c \<and> list_all (\<lambda>d. letter d \<or> digit d) t)"

definition normalized_tools :: "string list \<Rightarrow> string list" where
  "normalized_tools value = [py_strip tool. tool \<leftarrow> value, py_strip tool \<noteq> []]"

definition assoc_get :: "('k \<times> 'v) list \<Rightarrow> 'k \<Rightarrow> 'v option" where
  "assoc_get d k = map_of d k"

text \<open>The validators in the order pydantic runs them: per field, then on the model.\<close>

definition validate_server_config :: "server_config \<Rightarrow> string + server_config" where
  "validate_server_config s =
     (let tools = normalized_tools (sv_allowed_tools s);
          unknown_policy = sort (filter (\<lambda>k. k \<notin> set tools) (remdups (map fst (sv_tool_policies s))));
          invalid = sort (filter (\<lambda>k. k \<notin> set tools) (remdups (map fst (sv_agent_context_tools s))));
          unsafe = sort (filter (\<lambda>k. assoc_get (sv_tool_policies s) k \<noteq> Some ''auto'')
                     (map fst (sv_agent_context_tools s)))
      in if \<not> valid_name (sv_name s)
         then Inl ''name must contain only letters, digits, underscores, and hyphens''
         else if (case sv_bearer_token_env s of None \<Rightarrow> False | Some e \<Rightarrow> \<not> valid_token_env e)
         then Inl ''bearer_token_env must be a valid environment variable name''
         else if \<not> distinct tools then Inl ''allowed_tools must not contain duplicates''
         else if sv_url_has_credentials s then Inl ''MCP server URL must not contain credentials''
         else if unknown_policy \<noteq> []
         then Inl (''tool_policies keys must also appear in allowed_tools: '' @ join '', '' unknown_policy)
         else if invalid \<noteq> []
         then Inl (''agent_context_tools must also appear in allowed_tools: '' @ join '', '' invalid)
         else if unsafe \<noteq> []
         then Inl (''agent_context_tools require an explicit auto policy: '' @ join '', '' unsafe)
         else if sv_bearer_token s \<noteq> None \<and> \<not> none_or_empty (sv_bearer_token_env s)
         then Inl ''bearer_token and bearer_token_env are mutually exclusive''
         else Inr (s\<lparr>sv_allowed_tools := tools\<rparr>))"

section \<open>The client\<close>

text \<open>
  What the client calls: \<open>cl_transport\<close> is the session with the server, \<open>cl_broker\<close> the request to the
  sandbox broker, either giving the dumped result or the text of the exception; \<open>cl_quota_reserve\<close> is the
  hook of the quota service, absent when quotas are off.
\<close>

record client =
  cl_servers :: "server_config list"
  cl_max_result_chars :: int
  cl_sandbox_enabled :: bool
  cl_sandbox_broker_mode :: bool
  cl_transport :: "server_config \<Rightarrow> string \<Rightarrow> pydict \<Rightarrow> pydict option \<Rightarrow> string + pydict"
  cl_broker :: "server_config \<Rightarrow> string \<Rightarrow> pydict \<Rightarrow> string + pydict"
  cl_quota_reserve :: "(string \<Rightarrow> string \<Rightarrow> pydict \<Rightarrow> string option \<Rightarrow> string option \<Rightarrow> remote_outcome + string) option"

definition find_server :: "client \<Rightarrow> string \<Rightarrow> string + server_config" where
  \<comment> \<open>\<open>_server\<close>\<close>
  "find_server cl name =
     (case List.find (\<lambda>s. sv_enabled s \<and> sv_name s = name) (cl_servers cl) of
        None \<Rightarrow> Inl (''MCP server '' @ [CHR 0x27] @ name @ [CHR 0x27] @ '' is not configured'')
      | Some s \<Rightarrow> Inr s)"

definition execution_meta :: "string option \<Rightarrow> string option \<Rightarrow> pydict option" where
  "execution_meta key xid =
     (if none_or_empty key \<and> none_or_empty xid then None
      else Some [(''codemate.io/idempotency-key'', str_or_none key), (''codemate.io/execution-id'', str_or_none xid)])"

definition bounded_tool_result :: "client \<Rightarrow> pydict \<Rightarrow> pydict" where
  "bounded_tool_result cl payload =
     (let serialized = json_dumps False False (PDict payload) in
      if int (length serialized) \<le> cl_max_result_chars cl
      then dset payload ''truncated'' (PBool False)
      else [(''isError'', PBool (truthy (dget payload ''isError''))),
            (''content'', PList [PDict [(''type'', PStr ''text''),
               (''text'', PStr (py_head (cl_max_result_chars cl) serialized))]]),
            (''truncated'', PBool True)])"

primrec render_arguments :: "(string \<Rightarrow> string) \<Rightarrow> pyval \<Rightarrow> pyval" where
  \<comment> \<open>\<open>subst\<close> is the chain of \<open>str.replace\<close> calls over the variables\<close>
  "render_arguments subst PNone = PNone"
| "render_arguments subst (PBool b) = PBool b"
| "render_arguments subst (PInt n) = PInt n"
| "render_arguments subst (PStr s) = PStr (subst s)"
| "render_arguments subst (PList xs) = PList (map (render_arguments subst) xs)"
| "render_arguments subst (PDict d) = PDict (map (map_prod id (render_arguments subst)) d)"

text \<open>
  \<open>call_tool\<close>: the outcome, and the releases of the reservation it made, as pairs of reservation and outcome.
\<close>

definition call_tool ::
  "client \<Rightarrow> string \<Rightarrow> string \<Rightarrow> pydict \<Rightarrow> string option \<Rightarrow> string option
    \<Rightarrow> remote_outcome \<times> (string \<times> string) list" where
  "call_tool cl server_name tool_name arguments key xid =
     (case find_server cl server_name of
        Inl e \<Rightarrow> (Remote_raised e, [])
      | Inr server \<Rightarrow>
        if tool_name \<notin> set (sv_allowed_tools server)
        then (Remote_raised (''Tool '' @ [CHR 0x27] @ tool_name @ [CHR 0x27] @ '' is not allowed for MCP server '' @
                [CHR 0x27] @ server_name @ [CHR 0x27]), [])
        else case (case cl_quota_reserve cl of
                     None \<Rightarrow> Inr None
                   | Some reserve \<Rightarrow> map_sum id Some (reserve server_name tool_name arguments key xid)) of
          Inl refusal \<Rightarrow> (refusal, [])
        | Inr reservation \<Rightarrow>
          let released = (\<lambda>how. case reservation of None \<Rightarrow> [] | Some r \<Rightarrow> [(r, how)]);
              answer = (if cl_sandbox_enabled cl \<and> \<not> cl_sandbox_broker_mode cl
                then (case cl_broker cl server ''call_tool''
                             [(''tool_name'', PStr tool_name), (''arguments'', PDict arguments),
                              (''idempotency_key'', str_or_none key), (''execution_id'', str_or_none xid)] of
                        Inl e \<Rightarrow> Inl e
                      | Inr payload \<Rightarrow>
                          if \<not> truthy (dget payload ''result'') then Inr []
                          else case as_dict (dget payload ''result'') of
                                 None \<Rightarrow> Inl ''TypeError''
                               | Some d \<Rightarrow> Inr d)
                else map_sum id (bounded_tool_result cl)
                       (cl_transport cl server tool_name arguments (execution_meta key xid)))
          in case answer of
               Inl e \<Rightarrow> (Remote_raised e, released ''transport_unknown'')
             | Inr payload \<Rightarrow>
                 (Remote_result payload,
                  released (if truthy (dget payload ''isError'') then ''failed'' else ''succeeded'')))"

section \<open>Schemas\<close>

fun find_external_ref :: "pyval \<Rightarrow> string option"
and find_in_values :: "(string \<times> pyval) list \<Rightarrow> string option"
and find_in_list :: "pyval list \<Rightarrow> string option" where
  "find_external_ref (PDict d) =
     (case dget d ''$ref'' of
        PStr ref \<Rightarrow> if starts_with ''#'' ref then find_in_values d else Some ref
      | _ \<Rightarrow> find_in_values d)"
| "find_external_ref (PList xs) = find_in_list xs"
| "find_external_ref v = None"
| "find_in_values [] = None"
| "find_in_values (kv # d) =
     (let found = find_external_ref (snd kv) in if none_or_empty found then find_in_values d else found)"
| "find_in_list [] = None"
| "find_in_list (v # xs) =
     (let found = find_external_ref v in if none_or_empty found then find_in_list xs else found)"

text \<open>
  The package \<open>jsonschema\<close>: \<open>st_schema_error\<close> is the message of \<open>check_schema\<close>'s exception, if any;
  \<open>st_first_error\<close> the first of the sorted errors of the validator, as the texts of its path and its message.
\<close>

record schema_tools =
  st_schema_error :: "pydict \<Rightarrow> string option"
  st_first_error :: "pydict \<Rightarrow> pydict \<Rightarrow> (string list \<times> string) option"

definition validate_tool_arguments :: "schema_tools \<Rightarrow> pydict \<Rightarrow> pydict \<Rightarrow> string option" where
  "validate_tool_arguments st schema arguments =
     (let external = find_external_ref (PDict schema) in
      if \<not> none_or_empty external
      then Some (''external schema references are not allowed: '' @ the external)
      else case st_schema_error st schema of
        Some e \<Rightarrow> Some (''invalid tool schema: '' @ e)
      | None \<Rightarrow>
        case st_first_error st schema arguments of
          None \<Rightarrow> None
        | Some (path, message) \<Rightarrow>
            let location = join ''.'' path in
            Some (take 1000 ((if location = [] then [] else location @ '': '') @ message)))"

definition call_fingerprint :: "string \<Rightarrow> pyval \<Rightarrow> string" where
  "call_fingerprint qualified_name arguments = json_dumps True False (PList [PStr qualified_name, arguments])"

definition sha256_arguments :: "(string \<Rightarrow> string) \<Rightarrow> pydict \<Rightarrow> string" where
  "sha256_arguments sha arguments = sha (json_dumps True True (PDict arguments))"

section \<open>The router\<close>

record router =
  rt_client :: client
  rt_max_catalog_tools :: int
  rt_authorize :: "(string \<Rightarrow> string \<Rightarrow> string \<Rightarrow> string option) option"

definition new_router :: "settings \<Rightarrow> client \<Rightarrow> int option \<Rightarrow> (string \<Rightarrow> string \<Rightarrow> string \<Rightarrow> string option) option \<Rightarrow> router" where
  \<comment> \<open>\<open>max_catalog_tools or settings...\<close>: zero counts as absent\<close>
  "new_router cfg cl limit auth = \<lparr>rt_client = cl,
     rt_max_catalog_tools = max 1 (case limit of Some n \<Rightarrow> if n = 0 then mcp_tool_router_max_catalog_tools cfg else n
                                   | None \<Rightarrow> mcp_tool_router_max_catalog_tools cfg),
     rt_authorize = auth\<rparr>"

definition make_catalog_entry :: "server_config \<Rightarrow> string \<Rightarrow> pydict \<Rightarrow> pydict \<Rightarrow> catalog_entry" where
  "make_catalog_entry server tool_name tool input_schema = \<lparr>
     ct_qualified_name = sv_name server @ ''.'' @ tool_name, ct_server = sv_name server, ct_name = tool_name,
     ct_description = (if truthy (dget tool ''description'') then dget tool ''description'' else PStr []),
     ct_input_schema = input_schema, ct_annotations = dget tool ''annotations'',
     ct_policy = (case assoc_get (sv_tool_policies server) tool_name of None \<Rightarrow> ''deny'' | Some p \<Rightarrow> p)\<rparr>"

text \<open>
  The tools of one server: \<open>Inl\<close> when the catalog became full.  A tool is its name and the rest of what
  \<open>list_tools\<close> said of it.
\<close>

fun add_tools ::
  "int \<Rightarrow> server_config \<Rightarrow> (string \<times> pydict) list \<Rightarrow> catalog_entry list \<times> pydict list
    \<Rightarrow> (catalog_entry list \<times> pydict list) + (catalog_entry list \<times> pydict list)" where
  "add_tools limit server [] acc = Inr acc"
| "add_tools limit server ((tool_name, tool) # rest) (catalog, errors) =
     (if tool_name \<notin> set (sv_allowed_tools server) then add_tools limit server rest (catalog, errors)
      else
        let input_schema = (if truthy (dget tool ''input_schema'') then dget tool ''input_schema''
                            else PDict [(''type'', PStr ''object'')]) in
        if length (json_dumps False False input_schema) > 20000
        then add_tools limit server rest
               (catalog, errors @ [[(''server'', PStr (sv_name server)),
                                    (''error'', PStr (''Tool schema too large: '' @ tool_name))]])
        else
          let catalog1 = catalog @ [make_catalog_entry server tool_name tool
                (case as_dict input_schema of Some d \<Rightarrow> d | None \<Rightarrow> [])] in
          if int (length catalog1) \<ge> limit then Inl (catalog1, errors)
          else add_tools limit server rest (catalog1, errors))"

fun add_servers ::
  "int \<Rightarrow> (server_config \<times> (string + (string \<times> pydict) list)) list \<Rightarrow> catalog_entry list \<times> pydict list
    \<Rightarrow> (catalog_entry list \<times> pydict list) \<times> bool" where
  "add_servers limit [] acc = (acc, False)"
| "add_servers limit ((server, Inl e) # rest) (catalog, errors) =
     add_servers limit rest
       (catalog, errors @ [[(''server'', PStr (sv_name server)), (''error'', PStr e)]])"
| "add_servers limit ((server, Inr tools) # rest) acc =
     (case add_tools limit server tools acc of Inl full \<Rightarrow> (full, True) | Inr acc1 \<Rightarrow> add_servers limit rest acc1)"

definition discover_catalog ::
  "router \<Rightarrow> (server_config \<Rightarrow> string + (string \<times> pydict) list) \<Rightarrow> (catalog_entry list \<times> pydict list) \<times> bool" where
  "discover_catalog rt list_tools =
     add_servers (rt_max_catalog_tools rt)
       (map (\<lambda>s. (s, list_tools s))
          (filter (\<lambda>s. sv_enabled s \<and> sv_allowed_tools s \<noteq> []) (cl_servers (rt_client rt)))) ([], [])"

section \<open>Validation of a plan\<close>

record plan_state =
  ps_accepted :: "mcp_call list"
  ps_requests :: "mcp_call list"
  ps_rejected :: "rejection list"
  ps_seen :: "string list"

definition reject :: "string \<Rightarrow> string \<Rightarrow> string option \<Rightarrow> plan_state \<Rightarrow> plan_state" where
  "reject tool why detail ps =
     ps\<lparr>ps_rejected := ps_rejected ps @ [\<lparr>r_tool = tool, r_reason = why, r_detail = detail\<rparr>]\<rparr>"

definition lookup_tool :: "catalog_entry list \<Rightarrow> string \<Rightarrow> catalog_entry option" where
  \<comment> \<open>\<open>by_name\<close>: of two entries with one name the later one counts\<close>
  "lookup_tool catalog name = List.find (\<lambda>e. ct_qualified_name e = name) (rev catalog)"

definition validate_call ::
  "schema_tools \<Rightarrow> catalog_entry list \<Rightarrow> int \<Rightarrow> pydict \<Rightarrow> plan_state \<Rightarrow> plan_state" where
  "validate_call st catalog remaining_calls proposed ps =
     (case (dget proposed ''tool'', dget proposed ''arguments'') of
        (PStr name, PDict arguments) \<Rightarrow>
          (case lookup_tool catalog name of
             None \<Rightarrow> reject name ''tool_not_in_catalog'' None ps
           | Some e \<Rightarrow>
             if ct_policy e = ''deny'' then reject name ''deny'' None ps
             else if call_fingerprint name (PDict arguments) \<in> set (ps_seen ps)
             then reject name ''duplicate_call'' None ps
             else
               let schema_error = validate_tool_arguments st (ct_input_schema e) arguments in
               if \<not> none_or_empty schema_error then reject name ''schema_validation_failed'' schema_error ps
               else if int (length (ps_accepted ps) + length (ps_requests ps)) \<ge> remaining_calls
               then reject name ''call_budget_exhausted'' None ps
               else
                 let ps1 = ps\<lparr>ps_seen := ps_seen ps @ [call_fingerprint name (PDict arguments)]\<rparr>;
                     call = \<lparr>c_qualified_name = name, c_server = ct_server e, c_tool = ct_name e,
                             c_arguments = arguments\<rparr>
                 in if ct_policy e = ''approval_required'' then ps1\<lparr>ps_requests := ps_requests ps1 @ [call]\<rparr>
                    else if ct_policy e = ''auto'' then ps1\<lparr>ps_accepted := ps_accepted ps1 @ [call]\<rparr>
                    else reject name ''invalid_policy'' None ps1)
      | (tool, _) \<Rightarrow>
          reject (if truthy tool then py_str tool else ''unknown'') ''invalid_plan_shape'' None ps)"

definition prior_fingerprints :: "pydict list \<Rightarrow> string list" where
  "prior_fingerprints observations =
     map (\<lambda>ob. call_fingerprint (py_str (dget ob ''qualified_name''))
                 (if truthy (dget ob ''arguments'') then dget ob ''arguments'' else PDict []))
       (filter (\<lambda>ob. truthy (dget ob ''qualified_name'')) observations)"

definition plan_of :: "plan_state \<Rightarrow> mcp_plan" where
  "plan_of ps = \<lparr>p_calls = ps_accepted ps, p_approval_requests = ps_requests ps, p_rejected = ps_rejected ps\<rparr>"

definition validate_plan ::
  "schema_tools \<Rightarrow> pydict list \<Rightarrow> catalog_entry list \<Rightarrow> int \<Rightarrow> pydict list \<Rightarrow> mcp_plan" where
  "validate_plan st proposed catalog remaining_calls prior =
     plan_of (fold (validate_call st catalog remaining_calls) (take 20 proposed)
       \<lparr>ps_accepted = [], ps_requests = [], ps_rejected = [], ps_seen = prior_fingerprints prior\<rparr>)"

definition plan_tools ::
  "schema_tools \<Rightarrow> (int \<Rightarrow> string + pydict list) \<Rightarrow> catalog_entry list \<Rightarrow> pydict list \<Rightarrow> int \<Rightarrow> string + mcp_plan" where
  \<comment> \<open>\<open>plan\<close>: the model is asked only when something could be called\<close>
  "plan_tools st llm catalog observations remaining_calls =
     (if remaining_calls \<le> 0 \<or> \<not> list_ex (\<lambda>e. ct_policy e \<in> {''auto'', ''approval_required''}) catalog
      then Inr empty_plan
      else map_sum id (\<lambda>proposed. validate_plan st proposed catalog remaining_calls observations)
             (llm remaining_calls))"

section \<open>Execution\<close>

definition tool_answer :: "string \<Rightarrow> pydict \<Rightarrow> pydict \<Rightarrow> remote_outcome \<Rightarrow> remote_outcome" where
  "tool_answer qualified_name arguments extra answer =
     (case answer of
        Remote_result result \<Rightarrow>
          Remote_result ([(''ok'', PBool (\<not> truthy (dget result ''isError''))), (''qualified_name'', PStr qualified_name),
             (''arguments'', PDict arguments), (''result'', PDict result)] @ extra)
      | other \<Rightarrow> other)"

definition authorized_call ::
  "router \<Rightarrow> string \<Rightarrow> string \<Rightarrow> pydict \<Rightarrow> string option \<Rightarrow> string option \<Rightarrow> remote_outcome \<times> (string \<times> string) list" where
  \<comment> \<open>the authorizer raises, or the client is called\<close>
  "authorized_call rt server tool arguments key xid =
     (case (case rt_authorize rt of None \<Rightarrow> None | Some auth \<Rightarrow> auth server tool ''execute'') of
        Some denial \<Rightarrow> (Remote_raised denial, [])
      | None \<Rightarrow>
          if none_or_empty key \<and> none_or_empty xid
          then call_tool (rt_client rt) server tool arguments None None
          else call_tool (rt_client rt) server tool arguments key xid)"

definition execute_call ::
  "schema_tools \<Rightarrow> router \<Rightarrow> mcp_call \<Rightarrow> catalog_entry list \<Rightarrow> string option \<Rightarrow> string option
    \<Rightarrow> remote_outcome \<times> (string \<times> string) list" where
  "execute_call st rt call catalog key xid =
     (let validation = validate_plan st
            [[(''tool'', PStr (c_qualified_name call)), (''arguments'', PDict (c_arguments call))]] catalog 1 [] in
      case p_calls validation of
        [] \<Rightarrow>
          (Remote_result [(''ok'', PBool False), (''qualified_name'', PStr (c_qualified_name call)),
             (''policy_rejection'',
                PDict (if p_approval_requests validation \<noteq> []
                  then [(''tool'', PStr (c_qualified_name call)), (''reason'', PStr ''approval_required'')]
                  else case p_rejected validation of
                         [] \<Rightarrow> []
                       | r # _ \<Rightarrow> [(''tool'', PStr (r_tool r)), (''reason'', PStr (r_reason r))] @
                           (case r_detail r of None \<Rightarrow> [] | Some why \<Rightarrow> [(''detail'', PStr why)])))], [])
      | validated # _ \<Rightarrow>
          map_prod (tool_answer (c_qualified_name validated) (c_arguments validated) []) id
            (authorized_call rt (c_server validated) (c_tool validated) (c_arguments validated) key xid))"

definition refused_approved :: "string \<Rightarrow> string \<Rightarrow> string option \<Rightarrow> remote_outcome \<times> (string \<times> string) list" where
  "refused_approved qualified_name why detail =
     (Remote_result ([(''ok'', PBool False), (''qualified_name'', PStr qualified_name), (''error'', PStr why)] @
        (case detail of None \<Rightarrow> [] | Some t \<Rightarrow> [(''detail'', PStr t)])), [])"

definition execute_approved ::
  "schema_tools \<Rightarrow> (string \<Rightarrow> string) \<Rightarrow> router \<Rightarrow> string \<Rightarrow> pydict \<Rightarrow> string \<Rightarrow> catalog_entry list
    \<Rightarrow> string option \<Rightarrow> string option \<Rightarrow> remote_outcome \<times> (string \<times> string) list" where
  "execute_approved st sha rt qualified_name arguments expected_hash catalog key xid =
     (case List.find (\<lambda>e. ct_qualified_name e = qualified_name) catalog of
        None \<Rightarrow> refused_approved qualified_name ''approved_tool_not_in_current_catalog'' None
      | Some e \<Rightarrow>
        if ct_policy e \<noteq> ''approval_required'' then refused_approved qualified_name ''approval_policy_changed'' None
        else if sha256_arguments sha arguments \<noteq> expected_hash
        then refused_approved qualified_name ''approved_arguments_hash_mismatch'' None
        else
          let schema_error = validate_tool_arguments st (ct_input_schema e) arguments in
          if \<not> none_or_empty schema_error
          then refused_approved qualified_name ''approved_arguments_no_longer_valid'' schema_error
          else map_prod (tool_answer qualified_name arguments [(''approved'', PBool True)]) id
                 (authorized_call rt (ct_server e) (ct_name e) arguments key xid))"

end
