(* ===== verification/RouterTheorems.thy ===== *)
theory RouterTheorems
  imports Router
begin

text \<open>
  What the router guarantees: a validated plan holds only catalogued, policy-conforming, valid, fresh calls
  within the budget; and a remote tool runs only behind the policy, the hash of what was approved, the
  authorizer and the client's own allow list.
\<close>

section \<open>Plans\<close>

definition call_of :: "catalog_entry \<Rightarrow> mcp_call \<Rightarrow> bool" where
  "call_of e c \<longleftrightarrow> ct_qualified_name e = c_qualified_name c \<and> ct_server e = c_server c \<and> ct_name e = c_tool c"

definition fingerprint_of :: "mcp_call \<Rightarrow> string" where
  "fingerprint_of c = call_fingerprint (c_qualified_name c) (PDict (c_arguments c))"

definition sound_call :: "schema_tools \<Rightarrow> catalog_entry list \<Rightarrow> string \<Rightarrow> mcp_call \<Rightarrow> bool" where
  "sound_call st catalog policy c \<longleftrightarrow>
     (\<exists>e\<in>set catalog. call_of e c \<and> ct_policy e = policy \<and>
        none_or_empty (validate_tool_arguments st (ct_input_schema e) (c_arguments c)))"

definition plan_inv :: "schema_tools \<Rightarrow> catalog_entry list \<Rightarrow> int \<Rightarrow> string list \<Rightarrow> plan_state \<Rightarrow> bool" where
  "plan_inv st catalog remaining prior ps \<longleftrightarrow>
     (\<forall>c\<in>set (ps_accepted ps). sound_call st catalog ''auto'' c) \<and>
     (\<forall>c\<in>set (ps_requests ps). sound_call st catalog ''approval_required'' c) \<and>
     int (length (ps_accepted ps) + length (ps_requests ps)) \<le> max 0 remaining \<and>
     distinct (map fingerprint_of (ps_accepted ps @ ps_requests ps)) \<and>
     fingerprint_of ` set (ps_accepted ps @ ps_requests ps) \<subseteq> set (ps_seen ps) \<and>
     set prior \<subseteq> set (ps_seen ps) \<and>
     fingerprint_of ` set (ps_accepted ps @ ps_requests ps) \<inter> set prior = {}"

lemma plan_inv_reject: "plan_inv st catalog n prior ps \<Longrightarrow> plan_inv st catalog n prior (reject tool why detail ps)"
  by (simp add: plan_inv_def reject_def)

lemma plan_inv_seen:
  "plan_inv st catalog n prior ps \<Longrightarrow> plan_inv st catalog n prior (ps\<lparr>ps_seen := ps_seen ps @ [f]\<rparr>)"
  by (auto simp: plan_inv_def)

lemma find_someD: "List.find P xs = Some x \<Longrightarrow> x \<in> set xs \<and> P x"
  by (induction xs) (auto split: if_splits)

lemma lookup_tool_some: "lookup_tool catalog name = Some e \<Longrightarrow> e \<in> set catalog \<and> ct_qualified_name e = name"
  unfolding lookup_tool_def by (drule find_someD) simp

lemma plan_inv_accept:
  assumes "plan_inv st catalog n prior ps" "sound_call st catalog ''auto'' c" "fingerprint_of c \<notin> set (ps_seen ps)"
    "int (length (ps_accepted ps) + length (ps_requests ps)) < n"
  shows "plan_inv st catalog n prior (ps\<lparr>ps_seen := ps_seen ps @ [fingerprint_of c], ps_accepted := ps_accepted ps @ [c]\<rparr>)"
  using assms by (auto simp: plan_inv_def)

lemma plan_inv_request:
  assumes "plan_inv st catalog n prior ps" "sound_call st catalog ''approval_required'' c"
    "fingerprint_of c \<notin> set (ps_seen ps)"
    "int (length (ps_accepted ps) + length (ps_requests ps)) < n"
  shows "plan_inv st catalog n prior (ps\<lparr>ps_seen := ps_seen ps @ [fingerprint_of c], ps_requests := ps_requests ps @ [c]\<rparr>)"
  using assms by (auto simp: plan_inv_def)

lemma plan_inv_validate_call:
  assumes inv: "plan_inv st catalog n prior ps"
  shows "plan_inv st catalog n prior (validate_call st catalog n proposed ps)"
proof -
  have shape: ?thesis if "\<And>name arguments. \<not> (dget proposed ''tool'' = PStr name \<and> dget proposed ''arguments'' = PDict arguments)"
    using that plan_inv_reject [OF inv] by (auto simp: validate_call_def split: pyval.splits)
  show ?thesis
  proof (cases "\<exists>name arguments. dget proposed ''tool'' = PStr name \<and> dget proposed ''arguments'' = PDict arguments")
    case False
    then show ?thesis using shape by blast
  next
    case True
    then obtain name arguments where p: "dget proposed ''tool'' = PStr name" "dget proposed ''arguments'' = PDict arguments"
      by blast
    show ?thesis
    proof (cases "lookup_tool catalog name")
      case None
      then show ?thesis using p plan_inv_reject [OF inv] by (simp add: validate_call_def)
    next
      case (Some e)
      define c where "c = \<lparr>c_qualified_name = name, c_server = ct_server e, c_tool = ct_name e, c_arguments = arguments\<rparr>"
      have e: "e \<in> set catalog" "ct_qualified_name e = name" using lookup_tool_some [OF Some] by auto
      have f: "call_fingerprint name (PDict arguments) = fingerprint_of c" by (simp add: fingerprint_of_def c_def)
      have snd: "sound_call st catalog (ct_policy e) c"
        if "none_or_empty (validate_tool_arguments st (ct_input_schema e) arguments)"
        using that e unfolding sound_call_def call_of_def c_def by auto
      note a = plan_inv_accept [OF inv, of c] and r = plan_inv_request [OF inv, of c]
      show ?thesis using p Some snd a r plan_inv_reject [OF inv] plan_inv_reject [OF plan_inv_seen [OF inv]]
        by (auto simp: validate_call_def Let_def f not_le simp flip: c_def)
    qed
  qed
qed

lemma plan_inv_validate_plan:
  "plan_inv st catalog n prior ps \<Longrightarrow> plan_inv st catalog n prior (fold (validate_call st catalog n) xs ps)"
  by (induction xs arbitrary: ps) (auto intro: plan_inv_validate_call)

text \<open>
  C32.  A plan is what policy allows, whatever the model proposed.  Every call of a validated plan is a tool
  of the catalog with its server, runs without asking only under policy \<open>auto\<close> and waits for approval only
  under \<open>approval_required\<close>, has arguments its schema accepts; the calls fit the remaining budget, no two of
  them are the same call, and none repeats an earlier observation.
\<close>

theorem plan_is_sound:
  assumes "p = validate_plan st proposed catalog remaining prior"
  shows "(\<forall>c\<in>set (p_calls p). sound_call st catalog ''auto'' c) \<and>
     (\<forall>c\<in>set (p_approval_requests p). sound_call st catalog ''approval_required'' c) \<and>
     int (length (p_calls p @ p_approval_requests p)) \<le> max 0 remaining \<and>
     distinct (map fingerprint_of (p_calls p @ p_approval_requests p)) \<and>
     fingerprint_of ` set (p_calls p @ p_approval_requests p) \<inter> set (prior_fingerprints prior) = {}"
proof -
  let ?s = "\<lparr>ps_accepted = [], ps_requests = [], ps_rejected = [], ps_seen = prior_fingerprints prior\<rparr>"
  have "plan_inv st catalog remaining (prior_fingerprints prior) ?s" by (simp add: plan_inv_def)
  from plan_inv_validate_plan [OF this, of "take 20 proposed"] show ?thesis
    unfolding assms validate_plan_def plan_of_def by (simp add: plan_inv_def)
qed

section \<open>Calls\<close>

lemma call_tool_allowed:
  assumes "\<And>s. s \<in> set (cl_servers cl) \<Longrightarrow> sv_enabled s \<Longrightarrow> sv_name s = server \<Longrightarrow> tool \<notin> set (sv_allowed_tools s)"
  shows "call_tool (cl\<lparr>cl_transport := tr, cl_broker := br, cl_quota_reserve := q\<rparr>) server tool args key xid =
     call_tool cl server tool args key xid"
proof -
  have f: "find_server (cl\<lparr>cl_transport := tr, cl_broker := br, cl_quota_reserve := q\<rparr>) server = find_server cl server"
    by (simp add: find_server_def)
  show ?thesis
  proof (cases "find_server cl server")
    case (Inl e)
    then show ?thesis by (simp add: call_tool_def f)
  next
    case (Inr s)
    then have "s \<in> set (cl_servers cl)" "sv_enabled s" "sv_name s = server"
      by (auto simp: find_server_def dest: find_someD split: option.splits)
    then have "tool \<notin> set (sv_allowed_tools s)" by (rule assms)
    then show ?thesis by (simp add: call_tool_def f Inr)
  qed
qed

definition with_remote ::
  "(server_config \<Rightarrow> string \<Rightarrow> pydict \<Rightarrow> pydict option \<Rightarrow> string + pydict) \<Rightarrow>
   (server_config \<Rightarrow> string \<Rightarrow> pydict \<Rightarrow> string + pydict) \<Rightarrow>
   (string \<Rightarrow> string \<Rightarrow> pydict \<Rightarrow> string option \<Rightarrow> string option \<Rightarrow> remote_outcome + string) option \<Rightarrow> router \<Rightarrow> router" where
  \<comment> \<open>the same router before other servers, another broker and another quota service\<close>
  "with_remote tr br q rt = rt\<lparr>rt_client := (rt_client rt)\<lparr>cl_transport := tr, cl_broker := br, cl_quota_reserve := q\<rparr>\<rparr>"

definition may_call :: "router \<Rightarrow> string \<Rightarrow> string \<Rightarrow> bool" where
  "may_call rt server tool \<longleftrightarrow>
     (case rt_authorize rt of None \<Rightarrow> True | Some auth \<Rightarrow> auth server tool ''execute'' = None) \<and>
     (\<exists>s\<in>set (cl_servers (rt_client rt)). sv_enabled s \<and> sv_name s = server \<and> tool \<in> set (sv_allowed_tools s))"

lemma authorized_call_guard:
  assumes "\<not> may_call rt server tool"
  shows "authorized_call (with_remote tr br q rt) server tool args key xid = authorized_call rt server tool args key xid"
proof -
  have same: "rt_authorize (with_remote tr br q rt) = rt_authorize rt" by (simp add: with_remote_def)
  show ?thesis
  proof (cases "case rt_authorize rt of None \<Rightarrow> None | Some auth \<Rightarrow> auth server tool ''execute''")
    case (Some denial)
    then show ?thesis by (simp add: authorized_call_def same)
  next
    case None
    then have "case rt_authorize rt of None \<Rightarrow> True | Some auth \<Rightarrow> auth server tool ''execute'' = None"
      by (cases "rt_authorize rt") auto
    then have "tool \<notin> set (sv_allowed_tools s)"
      if "s \<in> set (cl_servers (rt_client rt))" "sv_enabled s" "sv_name s = server" for s
      using assms that by (auto simp: may_call_def)
    from call_tool_allowed [OF this] show ?thesis
      by (simp add: authorized_call_def same None with_remote_def)
  qed
qed

lemma execute_approved_guarded:
  assumes "execute_approved st sha (with_remote tr br q rt) name args h catalog key xid \<noteq>
     execute_approved st sha rt name args h catalog key xid"
  shows "sha256_arguments sha args = h \<and>
     (\<exists>e\<in>set catalog. ct_qualified_name e = name \<and> ct_policy e = ''approval_required'' \<and>
        none_or_empty (validate_tool_arguments st (ct_input_schema e) args) \<and>
        may_call rt (ct_server e) (ct_name e))"
proof (cases "List.find (\<lambda>e. ct_qualified_name e = name) catalog")
  case None
  then show ?thesis using assms by (simp add: execute_approved_def)
next
  case (Some e)
  then have "e \<in> set catalog" "ct_qualified_name e = name" by (auto dest: find_someD)
  moreover have "may_call rt (ct_server e) (ct_name e)"
  proof (rule ccontr)
    assume "\<not> ?thesis"
    note same = authorized_call_guard [OF this]
    show False using assms by (simp add: execute_approved_def Some Let_def same cong: if_cong)
  qed
  ultimately show ?thesis using assms by (auto simp: execute_approved_def Some Let_def split: if_splits)
qed


lemma execute_call_guarded:
  assumes "execute_call st (with_remote tr br q rt) call catalog key xid \<noteq> execute_call st rt call catalog key xid"
  shows "\<exists>e\<in>set catalog. ct_policy e = ''auto'' \<and> may_call rt (ct_server e) (ct_name e)"
proof -
  define p where "p = validate_plan st
            [[(''tool'', PStr (c_qualified_name call)), (''arguments'', PDict (c_arguments call))]] catalog 1 []"
  obtain v vs where v: "p_calls p = v # vs"
    using assms by (cases "p_calls p") (auto simp: execute_call_def Let_def p_def)
  define ps where "ps = fold (validate_call st catalog 1)
     (take 20 [[(''tool'', PStr (c_qualified_name call)), (''arguments'', PDict (c_arguments call))]])
     \<lparr>ps_accepted = [], ps_requests = [], ps_rejected = [], ps_seen = prior_fingerprints []\<rparr>"
  have "plan_inv st catalog 1 (prior_fingerprints []) ps"
    unfolding ps_def by (rule plan_inv_validate_plan) (simp add: plan_inv_def)
  moreover have "ps_accepted ps = v # vs" using v by (simp add: p_def ps_def validate_plan_def plan_of_def)
  ultimately have "sound_call st catalog ''auto'' v" by (simp add: plan_inv_def)
  then obtain e where e: "e \<in> set catalog" "ct_policy e = ''auto''" "ct_server e = c_server v" "ct_name e = c_tool v"
    by (auto simp: sound_call_def call_of_def)
  have "may_call rt (c_server v) (c_tool v)"
  proof (rule ccontr)
    assume "\<not> ?thesis"
    note same = authorized_call_guard [OF this]
    show False using assms v by (simp add: execute_call_def Let_def same flip: p_def)
  qed
  then show ?thesis using e by metis
qed

section \<open>External references\<close>

text \<open>
  A schema whose \<open>$ref\<close> is the empty string hides the external references beside and below it: the check
  returns the empty string, which counts as no reference.
\<close>

lemma empty_ref_hides_external:
  "none_or_empty (find_external_ref (PDict [(''$ref'', PStr []), (''properties'', PDict [(''x'',
     PDict [(''$ref'', PStr ''http://evil/schema'')])])]))"
  by (simp add: none_or_empty_def)

lemma external_ref_found:
  "find_external_ref (PDict [(''properties'', PDict [(''x'', PDict [(''$ref'', PStr ''http://evil/schema'')])])]) =
     Some ''http://evil/schema''"
  by (simp add: none_or_empty_def Let_def)

section \<open>Witnesses\<close>

definition w_tools :: schema_tools where
  "w_tools = \<lparr>st_schema_error = (\<lambda>_. None), st_first_error = (\<lambda>_ _. None)\<rparr>"

definition w_entry :: "string \<Rightarrow> catalog_entry" where
  "w_entry policy = \<lparr>ct_qualified_name = ''docs.search'', ct_server = ''docs'', ct_name = ''search'', ct_description = PNone,
     ct_input_schema = [], ct_annotations = PNone, ct_policy = policy\<rparr>"

definition w_server :: server_config where
  "w_server = \<lparr>sv_name = ''docs'', sv_url_has_credentials = False, sv_bearer_token_env = None, sv_bearer_token = None,
     sv_allowed_tools = [''search''], sv_tool_policies = [(''search'', ''approval_required'')],
     sv_agent_context_tools = [], sv_idempotency_mode = ''none'', sv_registry_managed = False, sv_enabled = True\<rparr>"

definition w_router :: router where
  "w_router = \<lparr>rt_client = \<lparr>cl_servers = [w_server], cl_max_result_chars = 1000, cl_sandbox_enabled = False,
     cl_sandbox_broker_mode = False, cl_transport = (\<lambda>s t a m. Inl ''down''), cl_broker = (\<lambda>s u a. Inl ''off''),
     cl_quota_reserve = None\<rparr>, rt_max_catalog_tools = 64, rt_authorize = None\<rparr>"


theorem plan_is_sound_witness:
  "int (length (p_calls (validate_plan w_tools [[(''tool'', PStr ''docs.search''), (''arguments'', PDict [])]]
      [w_entry ''auto''] 3 []))) \<le> 3 \<and>
   p_calls (validate_plan w_tools [[(''tool'', PStr ''docs.search''), (''arguments'', PDict [])]] [w_entry ''auto''] 3 []) =
     [\<lparr>c_qualified_name = ''docs.search'', c_server = ''docs'', c_tool = ''search'', c_arguments = []\<rparr>]"
proof -
  have "p_calls (validate_plan w_tools [[(''tool'', PStr ''docs.search''), (''arguments'', PDict [])]] [w_entry ''auto''] 3 []) =
     [\<lparr>c_qualified_name = ''docs.search'', c_server = ''docs'', c_tool = ''search'', c_arguments = []\<rparr>]"
    by (simp add: validate_plan_def plan_of_def validate_call_def lookup_tool_def w_entry_def prior_fingerprints_def
        validate_tool_arguments_def w_tools_def none_or_empty_def Let_def)
  then show ?thesis using plan_is_sound [OF refl, of w_tools "[[(''tool'', PStr ''docs.search''), (''arguments'', PDict [])]]"
      "[w_entry ''auto'']" 3 "[]"] by simp
qed

end
