(* ===== verification/RunLifecycle.thy ===== *)
theory RunLifecycle
  imports Router
begin

text \<open>
  The life of a run around its graph (\<open>backend/app/services/agent_service.py\<close>): the retry-safe start, the
  resumptions after an approval and after a reconciliation, the resolution of an approval, and the
  persistence of final states.  States are the dictionaries the checkpoints hold; the graph library and
  the sandbox answer through \<open>graph_env\<close>, the MCP side through \<open>resume_env\<close>.  Timeline records are output
  and are left out.
\<close>

section \<open>Final states\<close>

definition opt_str :: "pyval \<Rightarrow> string option" where
  \<comment> \<open>a nullable text column\<close>
  "opt_str v = (case v of PStr s \<Rightarrow> Some s | _ \<Rightarrow> None)"

definition finish_infra_error :: "time \<Rightarrow> string \<Rightarrow> string \<Rightarrow> db \<Rightarrow> db" where
  "finish_infra_error t rid why d =
     (case db_runs d rid of
        None \<Rightarrow> d
      | Some run \<Rightarrow> put_run rid (run\<lparr>u_status := status_str INFRA_ERROR, u_failure_reason := Some why,
          u_final_summary := Some why, u_finished_at := Some t, u_updated_at := t\<rparr>) d)"

definition final_evidence :: "pydict \<Rightarrow> pyval" where
  \<comment> \<open>\<open>state.get("verification_result") or state.get("test_result")\<close>\<close>
  "final_evidence state = (if truthy (dget state ''verification_result'') then dget state ''verification_result''
                           else dget state ''test_result'')"

definition verified_evidence_is_valid :: "pydict \<Rightarrow> bool" where
  "verified_evidence_is_valid state \<longleftrightarrow>
     dget state ''status'' \<noteq> PStr (status_str VERIFIED_SUCCESS) \<or>
     (case final_evidence state of PDict d \<Rightarrow> verification_evidence_is_complete (Some d) | _ \<Rightarrow> False)"

definition terminal_status_is_valid :: "pydict \<Rightarrow> bool" where
  "terminal_status_is_valid state \<longleftrightarrow>
     (case dget state ''status'' of PStr st \<Rightarrow> st \<in> TERMINAL_AGENT_RUN_STATUSES | _ \<Rightarrow> False) \<and>
     verified_evidence_is_valid state"

definition final_run :: "time \<Rightarrow> pydict \<Rightarrow> run_row \<Rightarrow> run_row" where
  "final_run t state run =
     (let valid = terminal_status_is_valid state;
          st = (case dget state ''status'' of PStr s \<Rightarrow> if valid then s else status_str INFRA_ERROR
                | _ \<Rightarrow> status_str INFRA_ERROR);
          summary = (if valid then opt_str (dget state ''final_summary'')
                     else Some (''Invalid terminal verification status or evidence: '' @ py_repr (dget state ''status'')))
      in run\<lparr>u_status := st, u_final_diff := opt_str (dget state ''final_diff''), u_final_summary := summary,
           u_test_result := as_dict (final_evidence state),
           u_iterations := (case dget_or state ''iterations'' (PInt 0) of PInt n \<Rightarrow> n | _ \<Rightarrow> 0),
           u_failure_reason := (if st = status_str VERIFIED_SUCCESS then None else summary),
           u_finished_at := Some t, u_updated_at := t\<rparr>)"

definition persist_final_state :: "time \<Rightarrow> string \<Rightarrow> pydict \<Rightarrow> db \<Rightarrow> db" where
  "persist_final_state t rid state d =
     (case db_runs d rid of None \<Rightarrow> d | Some run \<Rightarrow> put_run rid (final_run t state run) d)"

definition WAITING_STATUSES :: "pyval set" where
  "WAITING_STATUSES = {PStr ''waiting_approval'', PStr ''waiting_reconciliation''}"

definition persist_unless_waiting :: "time \<Rightarrow> string \<Rightarrow> pydict \<Rightarrow> db \<Rightarrow> db" where
  "persist_unless_waiting t rid state d =
     (if dget state ''status'' \<in> WAITING_STATUSES then d else persist_final_state t rid state d)"

section \<open>Entering the graph\<close>

text \<open>
  A thread of the checkpointer is its last values and the nodes that come next.  \<open>ge_start\<close> is
  \<open>graph.invoke(state)\<close>, \<open>ge_continue\<close> \<open>graph.invoke(None)\<close>; both may raise, and both change the database
  through the nodes they run.  \<open>ge_create\<close> is the exception of \<open>create_workspace\<close>, if any; \<open>ge_apply\<close> applies
  a patch in the fresh workspace.
\<close>

record thread =
  th_values :: pydict
  th_next :: "string list"

record graph_env =
  ge_workspace :: "string \<Rightarrow> bool"
  ge_create :: "string option"
  ge_thread :: "string \<Rightarrow> thread"
  ge_start :: "string \<Rightarrow> pydict \<Rightarrow> db \<Rightarrow> (service_error + pydict) \<times> db"
  ge_continue :: "string \<Rightarrow> db \<Rightarrow> (service_error + pydict) \<times> db"
  ge_apply :: "string \<Rightarrow> pydict"

definition checkpoint_is_complete :: "thread \<Rightarrow> pydict \<Rightarrow> bool" where
  "checkpoint_is_complete th state \<longleftrightarrow>
     th_values th \<noteq> [] \<and> th_next th = [] \<and>
     dget (th_values th) ''status'' \<in> PStr ` TERMINAL_AGENT_RUN_STATUSES \<union> WAITING_STATUSES \<and>
     \<not> truthy (dget state ''resume_from'')"

definition rehydrate_saved :: "(string \<Rightarrow> pydict) \<Rightarrow> thread \<Rightarrow> string option" where
  \<comment> \<open>the exception of \<open>_rehydrate_checkpoint_workspace\<close>, if any\<close>
  "rehydrate_saved apply_it th =
     (let saved = dget (th_values th) ''patch'';
          applied = dget (dict_of (as_dict (dget (th_values th) ''apply_result''))) ''ok''
      in if \<not> truthy saved \<or> \<not> truthy applied \<or>
            set (th_next th) \<inter> {''TargetedTests'', ''RegressionChecks'', ''Reflect'', ''FinalAnswer''} = {}
         then None
         else
           let restored = apply_it (py_str saved) in
           if truthy (dget restored ''ok'') then None
           else Some (''Failed to rehydrate the patched workspace from the persisted checkpoint: '' @
             (if truthy (dget restored ''stderr'') then py_str (dget restored ''stderr'')
              else ''unknown git apply error'')))"

definition invoke_fix_graph ::
  "graph_env \<Rightarrow> string \<Rightarrow> string \<Rightarrow> pydict \<Rightarrow> db \<Rightarrow> (service_error + pydict) \<times> db" where
  "invoke_fix_graph G rid repo state d =
     (if \<not> ge_workspace G repo then (Inl (Raised ''Repository workspace is not available.''), d)
      else case ge_create G of
        Some e \<Rightarrow> (Inl (Raised e), d)
      | None \<Rightarrow>
        let th = ge_thread G rid in
        if checkpoint_is_complete th state then (Inr (th_values th), d)
        else if th_next th \<noteq> [] \<and> \<not> truthy (dget state ''resume_from'')
        then (case rehydrate_saved (ge_apply G) th of
                Some e \<Rightarrow> (Inl (Raised e), d)
              | None \<Rightarrow> ge_continue G rid d)
        else ge_start G rid state d)"

definition run_fix :: "graph_env \<Rightarrow> time \<Rightarrow> time \<Rightarrow> pydict \<Rightarrow> string \<Rightarrow> db \<Rightarrow> db" where
  \<comment> \<open>\<open>initial\<close> is \<open>_initial_state(run)\<close>\<close>
  "run_fix G t t' initial rid d =
     (case db_runs d rid of
        None \<Rightarrow> d
      | Some run \<Rightarrow>
        if u_status run \<in> TERMINAL_AGENT_RUN_STATUSES then d
        else if \<not> ge_workspace G (u_repo_id run)
        then finish_infra_error t rid ''Repository workspace is not available.'' d
        else
          let d1 = put_run rid (run\<lparr>u_status := ''running'', u_updated_at := t\<rparr>) d in
          case invoke_fix_graph G rid (u_repo_id run) initial d1 of
            (Inl e, d2) \<Rightarrow> finish_infra_error t' rid (error_text e) d2
          | (Inr final, d2) \<Rightarrow> persist_unless_waiting t' rid final d2)"

section \<open>Resolving an approval\<close>

record resume_env =
  re_cfg :: settings
  re_sha :: "string \<Rightarrow> string"
  re_router :: "(schema_tools \<times> router) option"
  re_list_tools :: "server_config \<Rightarrow> string + (string \<times> pydict) list"
  re_existing :: "db \<Rightarrow> string \<Rightarrow> (string \<times> execution_row) option"
  re_new_id :: string
  re_token :: string
  re_owner :: string
  re_others :: "db \<Rightarrow> db"

definition rejected_result :: "approval_row \<Rightarrow> pydict" where
  "rejected_result a =
     [(''ok'', PBool False), (''qualified_name'', PStr (a_qualified_name a)), (''arguments'', PDict (a_arguments a)),
      (''policy_rejection'', PDict
         [(''reason'', PStr (if py_contains ''expired'' (py_lower (or_default (a_decision_note a) [])) then ''approval_expired''
                             else ''human_rejected'')),
          (''note'', str_or_none (a_decision_note a))])]"

definition approval_call :: "approval_row \<Rightarrow> mcp_call" where
  "approval_call a = \<lparr>c_qualified_name = a_qualified_name a, c_server = a_server_name a, c_tool = a_tool_name a,
     c_arguments = a_arguments a\<rparr>"

definition resolve_approval ::
  "resume_env \<Rightarrow> time \<Rightarrow> time \<Rightarrow> string \<Rightarrow> approval_row \<Rightarrow> db \<Rightarrow> (service_error + pydict \<times> bool) \<times> db" where
  "resolve_approval R t t' aid a d =
     (if a_decision a \<noteq> Some ''approved'' then (Inr (rejected_result a, False), d)
      else if t \<ge> a_expires_at a
      then (Inr ([(''ok'', PBool False), (''qualified_name'', PStr (a_qualified_name a)),
                  (''arguments'', PDict (a_arguments a)), (''error'', PStr ''approval_expired_before_execution'')], True), d)
      else case re_router R of
        None \<Rightarrow> (Inr ([(''ok'', PBool False), (''qualified_name'', PStr (a_qualified_name a)),
                       (''error'', PStr ''mcp_tool_router_unavailable'')], True), d)
      | Some (st, rt) \<Rightarrow>
        let catalog = fst (fst (discover_catalog rt (re_list_tools R)));
            key = execution_idempotency_key (re_sha R) [PStr ''approval'', PStr aid] in
        case find_server (rt_client rt) (a_server_name a) of
          Inl e \<Rightarrow> (Inl (Raised e), d)
        | Inr server \<Rightarrow>
          case prepare (re_cfg R) (re_sha R) t (re_new_id R) (re_existing R d key) (a_run_id a) (approval_call a) key
                 (sv_idempotency_mode server) (Some aid) None d of
            (Inl e, d1) \<Rightarrow> (Inl e, d1)
          | (Inr xid, d1) \<Rightarrow>
            case execute_once (re_cfg R) t t' (re_token R) (re_owner R) xid
                   (\<lambda>k i. fst (execute_approved st (re_sha R) rt (a_qualified_name a) (a_arguments a) (a_arguments_hash a)
                                catalog (Some k) (Some i))) (re_others R) d1 of
              (Inl (Reconciliation_needed i m), d2) \<Rightarrow> (Inl (Reconciliation_needed i m), d2)
            | (Inl e, d2) \<Rightarrow> (Inr ([(''ok'', PBool False), (''qualified_name'', PStr (a_qualified_name a)),
                                   (''error'', PStr (error_text e))], True), d2)
            | (Inr result, d2) \<Rightarrow> (Inr (result, \<not> truthy (dget result ''ok'')), d2))"

section \<open>Resuming\<close>

definition running_again :: "time \<Rightarrow> run_row \<Rightarrow> run_row" where
  "running_again t run = run\<lparr>u_status := ''running'', u_final_summary := None, u_failure_reason := None, u_updated_at := t\<rparr>"

definition matches_run :: "pydict \<Rightarrow> string \<Rightarrow> run_row \<Rightarrow> bool" where
  "matches_run state rid run \<longleftrightarrow> dget state ''run_id'' = PStr rid \<and> dget state ''repo_id'' = PStr (u_repo_id run)"

definition resumed_dict :: "pydict \<Rightarrow> bool \<Rightarrow> int \<Rightarrow> int \<Rightarrow> pydict \<Rightarrow> pydict" where
  "resumed_dict result approved rounds calls state = dmerge state
     [(''mcp_round_results'', PList [PDict result]), (''mcp_router_round'', PInt (rounds + 1)),
      (''mcp_call_count'', PInt (calls + (if approved then 1 else 0))), (''mcp_pending_approval_id'', PNone),
      (''mcp_tool_catalog'', PList []), (''mcp_catalog_errors'', PList []), (''resume_from'', PStr ''mcp_observe''),
      (''status'', PStr ''running'')]"

definition reconcile_later :: "time \<Rightarrow> string \<Rightarrow> db \<Rightarrow> db" where
  "reconcile_later t xid d =
     (case db_executions d xid of None \<Rightarrow> d | Some x \<Rightarrow> mark_run_waiting_reconciliation t x d)"

text \<open>The body of the \<open>try\<close> after the approval was claimed; exceptions are the left results.\<close>

definition resume_claimed ::
  "graph_env \<Rightarrow> resume_env \<Rightarrow> time \<Rightarrow> time \<Rightarrow> string \<Rightarrow> approval_row \<Rightarrow> run_row \<Rightarrow> db \<Rightarrow> (service_error + unit) \<times> db" where
  "resume_claimed G R t t' aid a run d =
     (let rid = a_run_id a; state = a_checkpoint a in
      if \<not> verify_checkpoint (re_sha R) a
      then (Inl (Raised ''MCP approval checkpoint integrity check failed''), d)
      else if \<not> matches_run state rid run
      then (Inl (Raised ''MCP approval checkpoint does not match the Agent Run''), d)
      else
        case resolve_approval R t t' aid a (put_run rid (running_again t run) d) of
          (Inl e, d2) \<Rightarrow> (Inl e, d2)
        | (Inr (result, failed), d2) \<Rightarrow>
            let d3 = finish_approval t' aid result failed d2 in
            case (py_int (dget_or state ''mcp_router_round'' (PInt 0)), py_int (dget_or state ''mcp_call_count'' (PInt 0))) of
              (Some rounds, Some calls) \<Rightarrow>
                (case invoke_fix_graph G rid (u_repo_id run)
                        (resumed_dict result (a_decision a = Some ''approved'') rounds calls state) d3 of
                   (Inl e, d4) \<Rightarrow> (Inl e, d4)
                 | (Inr final, d4) \<Rightarrow> (Inr (), persist_unless_waiting t' rid final d4))
            | _ \<Rightarrow> (Inl (Raised ''TypeError''), d3))"

definition resume_from_approval ::
  "graph_env \<Rightarrow> resume_env \<Rightarrow> time \<Rightarrow> time \<Rightarrow> string \<Rightarrow> db \<Rightarrow> service_error option \<times> db" where
  "resume_from_approval G R t t' aid d =
     (case claim_for_resume (re_cfg R) t aid d of
        (Inl e, d1) \<Rightarrow> (Some e, d1)
      | (Inr None, d1) \<Rightarrow> (None, d1)
      | (Inr (Some a), d1) \<Rightarrow>
        case db_runs d1 (a_run_id a) of
          None \<Rightarrow> (None, finish_approval t' aid
                    [(''ok'', PBool False), (''error'', PStr ''approval_run_not_found'')] True d1)
        | Some run \<Rightarrow>
          case resume_claimed G R t t' aid a run d1 of
            (Inr u, d2) \<Rightarrow> (None, d2)
          | (Inl (Reconciliation_needed xid m), d2) \<Rightarrow> (None, reconcile_later t' xid d2)
          | (Inl (Execution_in_progress xid), d2) \<Rightarrow> (None, d2)
          | (Inl e, d2) \<Rightarrow>
              (None, finish_infra_error t' (a_run_id a) (error_text e)
                 (finish_approval t' aid [(''ok'', PBool False), (''error'', PStr (error_text e))] True d2)))"

definition resume_from_execution ::
  "graph_env \<Rightarrow> resume_env \<Rightarrow> time \<Rightarrow> time \<Rightarrow> string \<Rightarrow> db \<Rightarrow> service_error option \<times> db" where
  "resume_from_execution G R t t' xid d =
     (case db_executions d xid of
        None \<Rightarrow> (Some (Not_found ''MCP execution not found''), d)
      | Some x \<Rightarrow>
        if \<not> none_or_empty (x_approval_id x) then resume_from_approval G R t t' (the (x_approval_id x)) d
        else case db_runs d (x_run_id x) of
          None \<Rightarrow> (None, d)
        | Some run \<Rightarrow>
          let rid = x_run_id x; state = dict_of (x_checkpoint x);
              outcome =
                (if \<not> verify_execution_checkpoint (re_sha R) x
                 then (Inl (Raised ''MCP execution checkpoint integrity check failed''), d)
                 else if \<not> matches_run state rid run
                 then (Inl (Raised ''MCP execution checkpoint does not match the Agent Run''), d)
                 else case invoke_fix_graph G rid (u_repo_id run)
                        (dset (dset state ''resume_from'' (PStr ''mcp_call'')) ''status'' (PStr ''running''))
                        (put_run rid (running_again t run) d) of
                   (Inl e, d2) \<Rightarrow> (Inl e, d2)
                 | (Inr final, d2) \<Rightarrow> (Inr (), persist_unless_waiting t' rid final d2))
          in case outcome of
               (Inr u, d2) \<Rightarrow> (None, d2)
             | (Inl (Reconciliation_needed i m), d2) \<Rightarrow> (None, reconcile_later t' i d2)
             | (Inl (Execution_in_progress i), d2) \<Rightarrow> (None, d2)
             | (Inl e, d2) \<Rightarrow> (None, finish_infra_error t' rid (error_text e) d2))"

end
