(* ===== verification/LifecycleTheorems.thy ===== *)
theory LifecycleTheorems
  imports RunLifecycle
begin

text \<open>
  What the life of a run guarantees at the boundary of the database, and three places where an error path
  leaves a row that says something else than what happened.
\<close>

section \<open>Success is backed\<close>

definition backed :: "run_row \<Rightarrow> bool" where
  "backed run \<longleftrightarrow> (u_status run = status_str VERIFIED_SUCCESS \<longrightarrow> verification_evidence_is_complete (u_test_result run))"

lemma final_run_backed: "backed (final_run t state run)"
  by (auto simp: backed_def final_run_def Let_def terminal_status_is_valid_def verified_evidence_is_valid_def
      split: pyval.splits)

lemma persist_backed:
  "db_runs d rid = Some run \<Longrightarrow> backed run \<Longrightarrow>
   \<exists>run'. db_runs (persist_unless_waiting t rid state d) rid = Some run' \<and> backed run'"
  by (simp add: persist_unless_waiting_def persist_final_state_def final_run_backed)

lemma finish_infra_backed:
  "db_runs d rid = Some run \<Longrightarrow> \<exists>run'. db_runs (finish_infra_error t rid why d) rid = Some run' \<and> backed run'"
  by (simp add: finish_infra_error_def backed_def)

text \<open>The nodes of the graph write no verdict into the row of the run.\<close>

definition graph_keeps_backed :: "graph_env \<Rightarrow> string \<Rightarrow> bool" where
  "graph_keeps_backed G rid \<longleftrightarrow>
     (\<forall>state d run r d'. db_runs d rid = Some run \<longrightarrow> backed run \<longrightarrow>
        ge_start G rid state d = (r, d') \<or> ge_continue G rid d = (r, d') \<longrightarrow>
        (\<exists>run'. db_runs d' rid = Some run' \<and> backed run'))"

lemma invoke_backed:
  assumes "graph_keeps_backed G rid" "db_runs d rid = Some run" "backed run"
    and "invoke_fix_graph G rid repo state d = (r, d')"
  shows "\<exists>run'. db_runs d' rid = Some run' \<and> backed run'"
  using assms unfolding graph_keeps_backed_def invoke_fix_graph_def Let_def
  by (auto split: if_splits option.splits)

text \<open>
  No success without evidence reaches the database.  Whatever the graph returns (a success claimed by a
  planner, a stale or tampered checkpoint, an exception), a run whose row says \<open>verified_success\<close> after
  \<open>run_fix\<close> carries a complete verification result; and a run that is already terminal is not touched.
\<close>

theorem run_success_is_backed:
  assumes "graph_keeps_backed G rid" "db_runs d rid = Some run" "backed run"
  shows "(\<exists>run'. db_runs (run_fix G t t' initial rid d) rid = Some run' \<and> backed run') \<and>
     (u_status run \<in> TERMINAL_AGENT_RUN_STATUSES \<longrightarrow> run_fix G t t' initial rid d = d)"
proof
  show "u_status run \<in> TERMINAL_AGENT_RUN_STATUSES \<longrightarrow> run_fix G t t' initial rid d = d"
    using assms(2) by (simp add: run_fix_def)
  let ?run1 = "run\<lparr>u_status := ''running'', u_updated_at := t\<rparr>"
  obtain r d2 where i: "invoke_fix_graph G rid (u_repo_id run) initial (put_run rid ?run1 d) = (r, d2)"
    by (cases "invoke_fix_graph G rid (u_repo_id run) initial (put_run rid ?run1 d)")
  have "backed ?run1" by (simp add: backed_def)
  then obtain run2 where run2: "db_runs d2 rid = Some run2" "backed run2"
    using invoke_backed [OF assms(1) _ _ i, of ?run1] by auto
  show "\<exists>run'. db_runs (run_fix G t t' initial rid d) rid = Some run' \<and> backed run'"
  proof (cases "u_status run \<in> TERMINAL_AGENT_RUN_STATUSES \<or> \<not> ge_workspace G (u_repo_id run)")
    case True
    then show ?thesis using assms(2,3) finish_infra_backed [OF assms(2)] by (auto simp: run_fix_def)
  next
    case False
    then show ?thesis
      using assms(2) i finish_infra_backed [OF run2(1)] persist_backed [OF run2]
      by (cases r) (auto simp: run_fix_def Let_def)
  qed
qed

section \<open>Rows that lag behind\<close>

text \<open>
  A retried job forgets that the run waits.  When the queue starts \<open>run_fix\<close> again for a run that waits for
  an approval, the graph gives back its finished checkpoint and nothing else changes, but the row of the run
  now says \<open>running\<close>.
\<close>

theorem retry_forgets_waiting:
  assumes "db_runs d rid = Some run" "u_status run = ''waiting_approval''"
    and "ge_workspace G (u_repo_id run)" "ge_create G = None"
    and "ge_thread G rid = \<lparr>th_values = saved, th_next = []\<rparr>" "dget saved ''status'' = PStr ''waiting_approval''"
    and "\<not> truthy (dget initial ''resume_from'')"
  shows "run_fix G t t' initial rid d = put_run rid (run\<lparr>u_status := ''running'', u_updated_at := t\<rparr>) d"
proof -
  have "saved \<noteq> []" using assms(6) by auto
  then have "checkpoint_is_complete (ge_thread G rid) initial"
    using assms(5-7) by (simp add: checkpoint_is_complete_def WAITING_STATUSES_def)
  moreover have "''waiting_approval'' \<notin> TERMINAL_AGENT_RUN_STATUSES" by (simp add: TERMINAL_AGENT_RUN_STATUSES_def)
  ultimately show ?thesis using assms
    by (simp add: run_fix_def invoke_fix_graph_def Let_def persist_unless_waiting_def WAITING_STATUSES_def)
qed

text \<open>
  A failure after the tool loses the result of the tool.  If a resumed approval was resolved, with
  whatever result, and the graph then raises, the approval ends \<open>failed\<close> with the exception as its result,
  while the execution that answered it stays as it is.
\<close>

theorem graph_failure_overwrites_approval:
  assumes "claim_for_resume (re_cfg R) t aid d = (Inr (Some a), d1)" "db_runs d1 (a_run_id a) = Some run"
    and "resume_claimed G R t t' aid a run d1 = (Inl (Raised why), d4)"
    and "db_approvals d4 aid = Some b" "a_status b = ''completed''"
  shows "\<exists>c d5. resume_from_approval G R t t' aid d = (None, d5) \<and> db_approvals d5 aid = Some c \<and>
     a_status c = ''failed'' \<and> a_result c = Some [(''ok'', PBool False), (''error'', PStr why)] \<and>
     db_executions d5 = db_executions d4"
proof -
  let ?d5 = "finish_infra_error t' (a_run_id a) why
     (finish_approval t' aid [(''ok'', PBool False), (''error'', PStr why)] True d4)"
  have "resume_from_approval G R t t' aid d = (None, ?d5)"
    using assms(1-3) by (simp add: resume_from_approval_def)
  moreover have "db_approvals ?d5 aid = Some (finished_row t' [(''ok'', PBool False), (''error'', PStr why)] True b)"
    "db_executions ?d5 = db_executions d4"
    using assms(4) by (simp_all add: finish_infra_error_def finish_approval_def split: option.splits)
  ultimately show ?thesis by (simp add: finished_row_def)
qed

text \<open>
  A call that another worker is still making counts as a failed one: the exception of an execution in
  progress never reaches the handler that would wait for it.
\<close>

lemma in_progress_is_failure:
  assumes "execute_once (re_cfg R) t t' (re_token R) (re_owner R) xid fn (re_others R) d1 = (Inl (Execution_in_progress i), d2)"
    and "a_decision a = Some ''approved''" "t < a_expires_at a" "re_router R = Some (st, rt)"
    and "find_server (rt_client rt) (a_server_name a) = Inr server"
    and "prepare (re_cfg R) (re_sha R) t (re_new_id R)
       (re_existing R d (execution_idempotency_key (re_sha R) [PStr ''approval'', PStr aid])) (a_run_id a) (approval_call a)
       (execution_idempotency_key (re_sha R) [PStr ''approval'', PStr aid])
       (sv_idempotency_mode server) (Some aid) None d = (Inr xid, d1)"
    and "fn = (\<lambda>k i. fst (execute_approved st (re_sha R) rt (a_qualified_name a) (a_arguments a) (a_arguments_hash a)
       (fst (fst (discover_catalog rt (re_list_tools R)))) (Some k) (Some i)))"
  shows "resolve_approval R t t' aid a d =
     (Inr ([(''ok'', PBool False), (''qualified_name'', PStr (a_qualified_name a)),
            (''error'', PStr ''MCP execution is already in progress'')], True), d2)"
  using assms by (simp add: resolve_approval_def Let_def)

section \<open>Witnesses\<close>

definition w_run :: "string \<Rightarrow> run_row" where
  "w_run st = \<lparr>u_repo_id = ''repo'', u_user_input = ''fix it'', u_test_command = None, u_status = st, u_final_diff = None,
     u_final_summary = None, u_failure_reason = None, u_test_result = None, u_iterations = 0, u_updated_at = 0,
     u_finished_at = None\<rparr>"

definition w_evidence :: pydict where
  "w_evidence = [(''status'', PStr ''verified_success''), (''patch_applied'', PBool True),
     (''baseline'', PDict [(''passed'', PBool False), (''tests_ran'', PBool True), (''exit_code'', PInt 1)]),
     (''targeted'', PDict [(''passed'', PBool True), (''tests_ran'', PBool True), (''exit_code'', PInt 0)]),
     (''regression'', PDict [(''passed'', PBool True), (''tests_ran'', PBool True), (''exit_code'', PInt 0)])]"

definition w_graph :: "thread \<Rightarrow> (service_error + pydict) \<Rightarrow> graph_env" where
  "w_graph th answer = \<lparr>ge_workspace = (\<lambda>_. True), ge_create = None, ge_thread = (\<lambda>_. th),
     ge_start = (\<lambda>rid s d. (answer, d)), ge_continue = (\<lambda>rid d. (answer, d)), ge_apply = (\<lambda>_. [(''ok'', PBool True)])\<rparr>"

definition w_success :: pydict where
  "w_success = [(''status'', PStr ''verified_success''), (''verification_result'', PDict w_evidence)]"

lemma w_graph_keeps: "graph_keeps_backed (w_graph th answer) rid"
  by (simp add: graph_keeps_backed_def w_graph_def)

theorem run_success_is_backed_witness:
  "\<exists>run'. db_runs (run_fix (w_graph \<lparr>th_values = [], th_next = []\<rparr> (Inr w_success)) 1 2 [] ''r1''
       (put_run ''r1'' (w_run ''pending'') empty_db)) ''r1'' = Some run' \<and> backed run' \<and>
     u_status run' = ''verified_success''"
proof -
  let ?G = "w_graph \<lparr>th_values = [], th_next = []\<rparr> (Inr w_success)"
  let ?d = "put_run ''r1'' (w_run ''pending'') empty_db"
  have "db_runs ?d ''r1'' = Some (w_run ''pending'')" "backed (w_run ''pending'')"
    by (simp_all add: backed_def w_run_def)
  from run_success_is_backed [OF w_graph_keeps this, of "\<lparr>th_values = [], th_next = []\<rparr>" "Inr w_success" 1 2 "[]"]
  obtain run' where r: "db_runs (run_fix ?G 1 2 [] ''r1'' ?d) ''r1'' = Some run'" "backed run'" by blast
  have "terminal_status_is_valid w_success"
    by (simp add: terminal_status_is_valid_def verified_evidence_is_valid_def w_success_def w_evidence_def final_evidence_def
        TERMINAL_AGENT_RUN_STATUSES_def verification_evidence_is_complete_def classify_test_result_def infrastructure_exit_code_def Let_def)
  then have "u_status (final_run t w_success run) = ''verified_success''" for t run
    by (simp add: final_run_def Let_def) (simp add: w_success_def)
  moreover have "run_fix ?G 1 2 [] ''r1'' ?d = persist_final_state 2 ''r1'' w_success
      (put_run ''r1'' ((w_run ''pending'')\<lparr>u_status := ''running'', u_updated_at := 1\<rparr>) ?d)"
    by (simp add: run_fix_def w_run_def TERMINAL_AGENT_RUN_STATUSES_def w_graph_def invoke_fix_graph_def
        checkpoint_is_complete_def persist_unless_waiting_def WAITING_STATUSES_def w_success_def)
  ultimately have "u_status run' = ''verified_success''" using r(1) by (auto simp: persist_final_state_def)
  then show ?thesis using r by blast
qed

theorem retry_forgets_waiting_witness:
  "db_runs (run_fix (w_graph \<lparr>th_values = [(''status'', PStr ''waiting_approval'')], th_next = []\<rparr> (Inr [])) 1 2 [] ''r1''
     (put_run ''r1'' (w_run ''waiting_approval'') empty_db)) ''r1'' =
   Some ((w_run ''waiting_approval'')\<lparr>u_status := ''running'', u_updated_at := 1\<rparr>)"
proof -
  have "run_fix (w_graph \<lparr>th_values = [(''status'', PStr ''waiting_approval'')], th_next = []\<rparr> (Inr [])) 1 2 [] ''r1''
     (put_run ''r1'' (w_run ''waiting_approval'') empty_db) =
   put_run ''r1'' ((w_run ''waiting_approval'')\<lparr>u_status := ''running'', u_updated_at := 1\<rparr>)
     (put_run ''r1'' (w_run ''waiting_approval'') empty_db)"
    by (rule retry_forgets_waiting [where saved = "[(''status'', PStr ''waiting_approval'')]"]) (simp_all add: w_run_def w_graph_def)
  then show ?thesis by simp
qed

definition w_queued :: approval_row where
  "w_queued = \<lparr>a_run_id = ''r1'', a_qualified_name = ''docs.search'', a_server_name = ''docs'', a_tool_name = ''search'',
     a_arguments = [], a_arguments_hash = [], a_tool_schema = [], a_policy_snapshot = ''approval_required'',
     a_checkpoint = [(''run_id'', PStr ''r1''), (''repo_id'', PStr ''repo'')], a_checkpoint_hash = ''digest'',
     a_status = ''queued'', a_decision = Some ''rejected'', a_decision_note = None, a_decided_by = Some ''ann'',
     a_decided_provider = Some ''local'', a_result = None, a_error_message = None, a_version = 2, a_requested_at = 0,
     a_expires_at = 10, a_decided_at = Some 1, a_execution_started_at = None, a_execution_finished_at = None,
     a_updated_at = 1\<rparr>"

definition w_resume :: resume_env where
  "w_resume = \<lparr>re_cfg = default_settings, re_sha = (\<lambda>_. ''digest''), re_router = None, re_list_tools = (\<lambda>_. Inr []),
     re_existing = (\<lambda>_ _. None), re_new_id = ''e1'', re_token = ''tok'', re_owner = ''me'', re_others = id\<rparr>"

theorem graph_failure_overwrites_approval_witness:
  "\<exists>c d5. resume_from_approval (w_graph \<lparr>th_values = [], th_next = []\<rparr> (Inl (Raised ''out of memory''))) w_resume 2 3 ''a1''
       (put_approval ''a1'' w_queued (put_run ''r1'' (w_run ''waiting_approval'') empty_db)) = (None, d5) \<and>
     db_approvals d5 ''a1'' = Some c \<and> a_status c = ''failed''"
proof -
  let ?G = "w_graph \<lparr>th_values = [], th_next = []\<rparr> (Inl (Raised ''out of memory''))"
  let ?d = "put_approval ''a1'' w_queued (put_run ''r1'' (w_run ''waiting_approval'') empty_db)"
  let ?a = "claimed_row 2 w_queued"
  let ?d1 = "put_approval ''a1'' ?a ?d"
  let ?run = "w_run ''waiting_approval''"
  let ?d4 = "finish_approval 3 ''a1'' (rejected_result ?a) False (put_run ''r1'' (running_again 2 ?run) ?d1)"
  have a: "a_run_id ?a = ''r1''" "a_checkpoint ?a = [(''run_id'', PStr ''r1''), (''repo_id'', PStr ''repo'')]"
    "a_decision ?a = Some ''rejected''" "a_checkpoint_hash ?a = ''digest''"
    by (simp_all add: claimed_row_def w_queued_def)
  have "claim_for_resume (re_cfg w_resume) 2 ''a1'' ?d = (Inr (Some ?a), ?d1)"
    by (simp add: claim_for_resume_def claimable_def w_queued_def)
  moreover have "db_runs ?d1 (a_run_id ?a) = Some ?run" by (simp add: a)
  moreover have "resume_claimed ?G w_resume 2 3 ''a1'' ?a ?run ?d1 = (Inl (Raised ''out of memory''), ?d4)"
    by (simp add: resume_claimed_def Let_def verify_checkpoint_def matches_run_def a resolve_approval_def w_resume_def
        dget_or_def invoke_fix_graph_def w_graph_def checkpoint_is_complete_def) (simp add: w_run_def)
  moreover have "db_approvals ?d4 ''a1'' = Some (finished_row 3 (rejected_result ?a) False ?a)"
    by (simp add: finish_approval_def)
  moreover have "a_status (finished_row 3 (rejected_result ?a) False ?a) = ''completed''" by (simp add: finished_row_def)
  ultimately show ?thesis using graph_failure_overwrites_approval by blast
qed

end
