(* ===== verification/ExecutionPlane.thy ===== *)
theory ExecutionPlane
  imports Sandbox Tables
begin

text \<open>
  The remote execution plane (\<open>backend/app/sandbox/execution_store.py\<close>, \<open>execution_plane.py\<close>,
  \<open>workload_identity.py\<close>): the shared state of executions in memory and in Redis, the check of a workload
  identity, and the endpoint that runs a request once.  Times are whole seconds.
\<close>

section \<open>Requests and responses\<close>

record exec_request =
  rq_execution_id :: string
  rq_archive_base64 :: string
  rq_archive_sha256 :: string
  rq_command :: string
  rq_shell_command :: string
  rq_image :: string
  rq_requested_runtime :: string
  rq_timeout_seconds :: int

record exec_response =
  rs_execution_id :: string
  rs_backend :: string
  rs_passed :: bool
  rs_exit_code :: int
  rs_stdout :: string
  rs_stderr :: string
  rs_timed_out :: bool
  rs_archive_sha256 :: string
  rs_workload_subject :: string
  rs_attestation :: "(string \<times> string) list"

definition binding_hash :: "(string \<Rightarrow> string) \<Rightarrow> exec_request \<Rightarrow> string" where
  "binding_hash sha rq = sha (json_dumps True True (PDict
     [(''execution_id'', PStr (rq_execution_id rq)), (''archive_sha256'', PStr (rq_archive_sha256 rq)),
      (''command'', PStr (rq_command rq)), (''shell_command'', PStr (rq_shell_command rq)),
      (''image'', PStr (rq_image rq)), (''requested_runtime'', PStr (rq_requested_runtime rq)),
      (''timeout_seconds'', PInt (rq_timeout_seconds rq))]))"

section \<open>Workload identity\<close>

record identity_scope =
  id_issuer :: string
  id_subject :: string
  id_audience :: string

text \<open>
  \<open>decode\<close> is the header and the claims of a token whose signature verifies, or \<open>None\<close>.  A claim that is no
  number raises from \<open>int\<close>.
\<close>

definition verify_assertion ::
  "(string \<Rightarrow> (pydict \<times> pydict) option) \<Rightarrow> identity_scope \<Rightarrow> string \<Rightarrow> int \<Rightarrow> int \<Rightarrow> string \<Rightarrow> string + pydict" where
  "verify_assertion decode scope request_hash current skew token =
     (case decode token of
        None \<Rightarrow> Inl ''Invalid workload identity assertion''
      | Some (header, claims) \<Rightarrow>
        if header \<noteq> [(''alg'', PStr ''EdDSA''), (''typ'', PStr ''JWT'')] \<and>
           header \<noteq> [(''typ'', PStr ''JWT''), (''alg'', PStr ''EdDSA'')]
        then Inl ''Unsupported workload identity algorithm''
        else if py_str (dget_or claims ''iss'' (PStr [])) \<noteq> id_issuer scope \<or>
           py_str (dget_or claims ''sub'' (PStr [])) \<noteq> id_subject scope \<or>
           py_str (dget_or claims ''aud'' (PStr [])) \<noteq> id_audience scope
        then Inl ''Workload identity scope mismatch''
        else case (py_int (dget_or claims ''iat'' (PInt 0)), py_int (dget_or claims ''exp'' (PInt 0))) of
          (Some iat, Some expiry) \<Rightarrow>
            if iat > current + skew then Inl ''Workload identity is not active''
            else if expiry < current - skew then Inl ''Workload identity expired''
            else if py_str (dget_or claims ''request_hash'' (PStr [])) \<noteq> request_hash
            then Inl ''Workload identity request binding mismatch''
            else if \<not> truthy (dget claims ''jti'') then Inl ''Workload identity has no replay identifier''
            else Inr claims
        | _ \<Rightarrow> Inl ''ValueError'')"

section \<open>The state of executions\<close>

record exec_row =
  er_request_hash :: string
  er_completed :: bool
  er_owner :: string
  er_lease_until :: int
  er_attempt :: int
  er_response :: "exec_response option"

datatype claim_answer =
    Acquired int
  | Cached_response "exec_response option" int
  | In_progress int
  | Claim_conflict
  | Replayed

record claim_request =
  cq_execution_id :: string
  cq_request_hash :: string
  cq_assertion_jti :: string
  cq_assertion_ttl :: int
  cq_owner :: string
  cq_lease_seconds :: int

record complete_request =
  dq_execution_id :: string
  dq_request_hash :: string
  dq_owner :: string
  dq_attempt :: int
  dq_response :: exec_response

definition acquired_row :: "int \<Rightarrow> claim_request \<Rightarrow> exec_row option \<Rightarrow> exec_row" where
  "acquired_row t q row = \<lparr>er_request_hash = cq_request_hash q, er_completed = False, er_owner = cq_owner q,
     er_lease_until = t + cq_lease_seconds q, er_attempt = (case row of None \<Rightarrow> 0 | Some y \<Rightarrow> er_attempt y) + 1,
     er_response = None\<rparr>"

definition answered_row :: "exec_response \<Rightarrow> exec_row \<Rightarrow> exec_row" where
  "answered_row r y = y\<lparr>er_completed := True, er_response := Some r, er_lease_until := 0\<rparr>"

definition may_complete :: "int \<Rightarrow> complete_request \<Rightarrow> exec_row \<Rightarrow> bool" where
  "may_complete t q y \<longleftrightarrow> \<not> er_completed y \<and> er_request_hash y = dq_request_hash q \<and> er_owner y = dq_owner q \<and>
     er_attempt y = dq_attempt q \<and> \<not> er_lease_until y \<le> t"

subsection \<open>In memory\<close>

record mem_store =
  mem_replays :: "string \<Rightarrow> (int \<times> string) option"
  mem_executions :: "string \<Rightarrow> exec_row option"

definition mem_prune :: "int \<Rightarrow> mem_store \<Rightarrow> mem_store" where
  "mem_prune t s = s\<lparr>mem_replays := (\<lambda>k. case mem_replays s k of
     Some (e, x) \<Rightarrow> if e \<ge> t then Some (e, x) else None | None \<Rightarrow> None)\<rparr>"

definition mem_claim :: "int \<Rightarrow> claim_request \<Rightarrow> mem_store \<Rightarrow> claim_answer \<times> mem_store" where
  "mem_claim t q s0 =
     (let s = mem_prune t s0; row = mem_executions s (cq_execution_id q); jti = cq_assertion_jti q in
      if (case row of None \<Rightarrow> False | Some y \<Rightarrow> er_request_hash y \<noteq> cq_request_hash q) then (Claim_conflict, s)
      else if (case row of None \<Rightarrow> False | Some y \<Rightarrow> er_completed y)
      then (Cached_response (er_response (the row)) (er_attempt (the row)), s)
      else case mem_replays s jti of
        Some (e, x) \<Rightarrow>
          (if x = cq_execution_id q \<and> row \<noteq> None then In_progress (er_attempt (the row)) else Replayed, s)
      | None \<Rightarrow>
          let s1 = s\<lparr>mem_replays := (mem_replays s)(jti := Some (t + cq_assertion_ttl q, cq_execution_id q))\<rparr> in
          if (case row of None \<Rightarrow> False | Some y \<Rightarrow> er_lease_until y > t)
          then (In_progress (er_attempt (the row)), s1)
          else let y = acquired_row t q row in
               (Acquired (er_attempt y),
                s1\<lparr>mem_executions := (mem_executions s1)(cq_execution_id q := Some y)\<rparr>))"

definition mem_complete :: "int \<Rightarrow> complete_request \<Rightarrow> mem_store \<Rightarrow> bool \<times> mem_store" where
  "mem_complete t q s =
     (case mem_executions s (dq_execution_id q) of
        None \<Rightarrow> (False, s)
      | Some y \<Rightarrow>
        if \<not> may_complete t q y then (False, s)
        else (True, s\<lparr>mem_executions := (mem_executions s)(dq_execution_id q := Some (answered_row (dq_response q) y))\<rparr>))"

subsection \<open>In Redis\<close>

text \<open>
  A key carries the time at which it expires; a script sees the keys that are still alive.  The hash of an
  execution is the row; the two scripts are atomic.
\<close>

record redis_store =
  rd_replays :: "string \<Rightarrow> (string \<times> int) option"
  rd_executions :: "string \<Rightarrow> (exec_row \<times> int) option"

definition alive :: "int \<Rightarrow> ('v \<times> int) option \<Rightarrow> 'v option" where
  "alive t v = (case v of None \<Rightarrow> None | Some (x, e) \<Rightarrow> if t < e then Some x else None)"

definition redis_claim :: "int \<Rightarrow> int \<Rightarrow> claim_request \<Rightarrow> redis_store \<Rightarrow> claim_answer \<times> redis_store" where
  "redis_claim retention t q s =
     (let row = alive t (rd_executions s (cq_execution_id q)); jti = cq_assertion_jti q in
      if (case row of None \<Rightarrow> False | Some y \<Rightarrow> er_request_hash y \<noteq> cq_request_hash q) then (Claim_conflict, s)
      else if (case row of None \<Rightarrow> False | Some y \<Rightarrow> er_completed y)
      then (Cached_response (er_response (the row)) (er_attempt (the row)), s)
      else case alive t (rd_replays s jti) of
        Some x \<Rightarrow>
          (if x = cq_execution_id q \<and> row \<noteq> None then In_progress (er_attempt (the row)) else Replayed, s)
      | None \<Rightarrow>
          let s1 = s\<lparr>rd_replays := (rd_replays s)(jti := Some (cq_execution_id q, t + max 1 (cq_assertion_ttl q)))\<rparr> in
          if (case row of None \<Rightarrow> False | Some y \<Rightarrow> er_lease_until y > t)
          then (In_progress (er_attempt (the row)), s1)
          else let y = acquired_row t q row in
               (Acquired (er_attempt y),
                s1\<lparr>rd_executions := (rd_executions s1)(cq_execution_id q := Some (y, t + retention))\<rparr>))"

definition redis_complete :: "int \<Rightarrow> int \<Rightarrow> complete_request \<Rightarrow> redis_store \<Rightarrow> bool \<times> redis_store" where
  "redis_complete retention t q s =
     (case alive t (rd_executions s (dq_execution_id q)) of
        None \<Rightarrow> (False, s)
      | Some y \<Rightarrow>
        if \<not> may_complete t q y then (False, s)
        else (True, s\<lparr>rd_executions := (rd_executions s)(dq_execution_id q :=
                Some (answered_row (dq_response q) y, t + retention))\<rparr>))"

section \<open>The contract of a store\<close>

locale lease_store =
  fixes row :: "'s \<Rightarrow> string \<Rightarrow> exec_row option"
    and claim :: "int \<Rightarrow> claim_request \<Rightarrow> 's \<Rightarrow> claim_answer \<times> 's"
    and complete :: "int \<Rightarrow> complete_request \<Rightarrow> 's \<Rightarrow> bool \<times> 's"
  assumes claim_acquired: "claim t q s = (Acquired n, s') \<Longrightarrow>
      row s' = (row s)(cq_execution_id q := Some (acquired_row t q (row s (cq_execution_id q)))) \<and>
      n = er_attempt (acquired_row t q (row s (cq_execution_id q))) \<and>
      (\<forall>y. row s (cq_execution_id q) = Some y \<longrightarrow>
         \<not> er_completed y \<and> er_lease_until y \<le> t \<and> er_request_hash y = cq_request_hash q)"
    and claim_refused: "claim t q s = (a, s') \<Longrightarrow> (\<And>n. a \<noteq> Acquired n) \<Longrightarrow> row s' = row s"
    and claim_cached: "claim t q s = (Cached_response r n, s') \<Longrightarrow>
      \<exists>y. row s (cq_execution_id q) = Some y \<and> er_completed y \<and> er_response y = r \<and>
          er_request_hash y = cq_request_hash q"
    and complete_true: "complete t d s = (True, s') \<Longrightarrow>
      \<exists>y. row s (dq_execution_id d) = Some y \<and> may_complete t d y \<and>
          row s' = (row s)(dq_execution_id d := Some (answered_row (dq_response d) y))"
    and complete_false: "complete t d s = (False, s') \<Longrightarrow> row s' = row s"
begin

text \<open>What clients of a store may do, in any order and at any times.\<close>

inductive used :: "'s \<Rightarrow> 's \<Rightarrow> bool" where
  start: "used s s"
| claimed: "used s s' \<Longrightarrow> claim t q s' = (a, s'') \<Longrightarrow> used s s''"
| completed: "used s s' \<Longrightarrow> complete t d s' = (b, s'') \<Longrightarrow> used s s''"

lemma claim_row:
  assumes "claim t q s = (a, s')" "row s i = Some y"
  shows "row s' i = Some y \<or> (\<not> er_completed y \<and> (\<exists>z. row s' i = Some z \<and> er_attempt z = er_attempt y + 1))"
proof (cases "\<exists>n. a = Acquired n")
  case True
  then show ?thesis using claim_acquired [of t q s _ s'] assms
    by (cases "i = cq_execution_id q") (auto simp: acquired_row_def)
next
  case False
  then show ?thesis using claim_refused [OF assms(1)] assms(2) by auto
qed

lemma complete_row:
  assumes "complete t d s = (b, s')" "row s i = Some y"
  shows "row s' i = Some y \<or> (\<not> er_completed y \<and> (\<exists>z. row s' i = Some z \<and> er_attempt z = er_attempt y))"
proof (cases b)
  case True
  then show ?thesis using complete_true [of t d s s'] assms
    by (cases "i = dq_execution_id d") (auto simp: answered_row_def may_complete_def)
next
  case False
  then show ?thesis using complete_false [of t d s s'] assms by auto
qed

text \<open>An answer once committed stays the answer.\<close>

lemma completed_forever: "used s s' \<Longrightarrow> row s i = Some y \<Longrightarrow> er_completed y \<Longrightarrow> row s' i = Some y"
proof (induction rule: used.induct)
  case (claimed s s' t q a s'')
  then show ?case using claim_row [of t q s' a s'' i y] by auto
next
  case (completed s s' t d b s'')
  then show ?case using complete_row [of t d s' b s'' i y] by auto
qed simp

text \<open>Attempts only grow, so a worker whose lease was taken over is fenced off.\<close>

lemma attempts_grow: "used s s' \<Longrightarrow> row s i = Some y \<Longrightarrow> \<exists>z. row s' i = Some z \<and> er_attempt y \<le> er_attempt z"
proof (induction rule: used.induct)
  case (claimed s s' t q a s'')
  then obtain z where "row s' i = Some z" "er_attempt y \<le> er_attempt z" by blast
  then show ?case using claim_row [OF claimed(2), of i z] by auto
next
  case (completed s s' t d b s'')
  then obtain z where "row s' i = Some z" "er_attempt y \<le> er_attempt z" by blast
  then show ?case using complete_row [OF completed(2), of i z] by auto
qed auto

lemma fenced:
  assumes "used s s'" "row s (dq_execution_id d) = Some y" "dq_attempt d < er_attempt y"
  shows "\<not> fst (complete t d s')"
proof
  assume "fst (complete t d s')"
  then obtain s'' where "complete t d s' = (True, s'')" by (metis prod.collapse)
  then obtain z where "row s' (dq_execution_id d) = Some z" "er_attempt z = dq_attempt d"
    using complete_true by (fastforce simp: may_complete_def)
  then show False using attempts_grow [OF assms(1,2)] assms(3) by auto
qed

end

interpretation mem: lease_store mem_executions mem_claim mem_complete
  by unfold_locales
     (auto simp: mem_claim_def mem_prune_def mem_complete_def Let_def acquired_row_def split: if_splits option.splits)

section \<open>The endpoint\<close>

record backend_result =
  bk_passed :: bool
  bk_exit_code :: int
  bk_stdout :: string
  bk_stderr :: string
  bk_timed_out :: bool
  bk_execution_node :: "string option"

text \<open>
  What the endpoint calls: the verified tokens, the extraction of the archive (the text of its error, or the
  probe of the workspace), the JSON reader, the supply-chain and node checks (their error or the evidence
  they add), and the backend, which may raise.
\<close>

record plane_env =
  pe_cfg :: settings
  pe_sha :: "string \<Rightarrow> string"
  pe_decode :: "string \<Rightarrow> (pydict \<times> pydict) option"
  pe_instance :: string
  pe_hostname :: string
  pe_extract :: "exec_request \<Rightarrow> string + workspace_probe"
  pe_json :: "string \<Rightarrow> pyval option"
  pe_supply_chain :: "string \<Rightarrow> string \<Rightarrow> string + (string \<times> string) list"
  pe_attest_node :: "string option \<Rightarrow> string + (string \<times> string) list"
  pe_backend :: "exec_request \<Rightarrow> string + backend_result"

datatype http_answer =
    Answer exec_response bool
  | Http_error int string
  | Server_error string

definition bearer :: "string option \<Rightarrow> string option" where
  \<comment> \<open>\<open>_bearer\<close>: \<open>None\<close> is the refusal; the header is cut at its first space\<close>
  "bearer authorization =
     (let text = or_default authorization []; scheme = takeWhile (\<lambda>c. c \<noteq> CHR '' '') text;
          rest = dropWhile (\<lambda>c. c \<noteq> CHR '' '') text; token = py_strip (drop 1 rest)
      in if rest = [] \<or> py_lower scheme \<noteq> ''bearer'' \<or> token = [] then None else Some token)"

definition evidence_update :: "(string \<times> string) list \<Rightarrow> (string \<times> string) list \<Rightarrow> (string \<times> string) list" where
  "evidence_update e new = foldl (\<lambda>acc kv. AList.update (fst kv) (snd kv) acc) e new"

definition plane_response ::
  "plane_env \<Rightarrow> exec_request \<Rightarrow> pydict \<Rightarrow> int \<Rightarrow> (string \<times> string) list \<Rightarrow> backend_result \<Rightarrow> exec_response" where
  "plane_response E rq claims attempt proofs result =
     (let limit = sandbox_execution_output_max_chars (pe_cfg E) in
      \<lparr>rs_execution_id = rq_execution_id rq, rs_backend = sandbox_execution_plane_backend (pe_cfg E),
       rs_passed = bk_passed result, rs_exit_code = bk_exit_code result,
       rs_stdout = py_head limit (bk_stdout result), rs_stderr = py_head limit (bk_stderr result),
       rs_timed_out = bk_timed_out result, rs_archive_sha256 = rq_archive_sha256 rq,
       rs_workload_subject = py_str (dget claims ''sub''),
       rs_attestation = evidence_update proofs
         [(''execution_plane_instance'', pe_instance E),
          (''execution_node'', or_default (bk_execution_node result) (pe_hostname E)),
          (''execution_attempt'', str_int attempt)]\<rparr>)"

text \<open>What happens in the workspace of an acquired execution, up to the response.\<close>

definition run_request :: "plane_env \<Rightarrow> exec_request \<Rightarrow> pydict \<Rightarrow> int \<Rightarrow> http_answer + exec_response" where
  "run_request E rq claims attempt =
     (let cfg = pe_cfg E; backend = sandbox_execution_plane_backend cfg in
      case pe_extract E rq of
        Inl e \<Rightarrow> Inl (Http_error 400 e)
      | Inr w \<Rightarrow>
        case dependency_install_command (pe_json E) w (rq_command rq) of
          Inl e \<Rightarrow> Inl (Server_error e)
        | Inr dependency \<Rightarrow>
          if rq_shell_command rq \<noteq> test_shell_command dependency (rq_command rq)
          then Inl (Http_error 403 ''Execution shell command was not independently derived by policy'')
          else case pe_supply_chain E (rq_image rq) backend of
            Inl e \<Rightarrow> Inl (Http_error 412 e)
          | Inr proofs \<Rightarrow>
            case (if backend = ''firecracker'' then map_sum id (evidence_update proofs) (pe_attest_node E None)
                  else Inr proofs) of
              Inl e \<Rightarrow> Inl (Http_error 412 e)
            | Inr proofs1 \<Rightarrow>
              case pe_backend E rq of
                Inl e \<Rightarrow> Inl (Server_error e)
              | Inr result \<Rightarrow>
                if backend = ''kubernetes'' \<and> none_or_empty (bk_execution_node result)
                then Inl (Http_error 503 ''Kubernetes did not report the sandbox Job execution node'')
                else case (if backend = ''kubernetes''
                           then map_sum id (evidence_update proofs1) (pe_attest_node E (bk_execution_node result))
                           else Inr proofs1) of
                  Inl e \<Rightarrow> Inl (Http_error 412 e)
                | Inr proofs2 \<Rightarrow> Inr (plane_response E rq claims attempt proofs2 result))"

text \<open>Everything the endpoint asks before it touches the store: the claims, or its refusal.\<close>

definition admit_request :: "plane_env \<Rightarrow> int \<Rightarrow> string option \<Rightarrow> exec_request \<Rightarrow> http_answer + pydict" where
  "admit_request E t authorization rq =
     (let cfg = pe_cfg E;
          scope = \<lparr>id_issuer = sandbox_workload_identity_issuer cfg, id_subject = sandbox_workload_identity_subject cfg,
                   id_audience = sandbox_workload_identity_audience cfg\<rparr> in
      case bearer authorization of
        None \<Rightarrow> Inl (Http_error 401 ''Workload identity required'')
      | Some assertion \<Rightarrow>
        if none_or_empty (sandbox_workload_identity_public_key_path cfg)
        then Inl (Http_error 503 ''Workload identity verifier is not configured'')
        else case verify_assertion (pe_decode E) scope (binding_hash (pe_sha E) rq) t 5 assertion of
          Inl e \<Rightarrow> Inl (if e = ''ValueError'' then Server_error e else Http_error 401 e)
        | Inr claims \<Rightarrow>
          if rq_image rq \<notin> {sandbox_node_image cfg, sandbox_python_image cfg} \<or>
             rq_command rq \<notin> allowed_test_commands cfg
          then Inl (Http_error 403 ''Execution request is not allowlisted'')
          else Inr claims)"

definition claim_of_request :: "plane_env \<Rightarrow> int \<Rightarrow> exec_request \<Rightarrow> pydict \<Rightarrow> claim_request" where
  "claim_of_request E t rq claims =
     (let expiry = (case py_int (dget_or claims ''exp'' (PInt 0)) of Some e \<Rightarrow> e | None \<Rightarrow> 0) in
      \<lparr>cq_execution_id = rq_execution_id rq, cq_request_hash = binding_hash (pe_sha E) rq,
       cq_assertion_jti = py_str (dget claims ''jti''), cq_assertion_ttl = max 1 (expiry - t),
       cq_owner = pe_instance E,
       cq_lease_seconds = rq_timeout_seconds rq + max 10 (sandbox_execution_lease_grace_seconds (pe_cfg E))\<rparr>)"

definition run_and_commit ::
  "plane_env \<Rightarrow> (int \<Rightarrow> complete_request \<Rightarrow> 's \<Rightarrow> bool \<times> 's) \<Rightarrow> ('s \<Rightarrow> 's) \<Rightarrow> int \<Rightarrow> exec_request \<Rightarrow> pydict \<Rightarrow> int \<Rightarrow> 's
    \<Rightarrow> http_answer \<times> 's" where
  "run_and_commit E do_complete others t' rq claims attempt s =
     (case run_request E rq claims attempt of
        Inl e \<Rightarrow> (e, s)
      | Inr r \<Rightarrow>
          (case do_complete t' \<lparr>dq_execution_id = rq_execution_id rq, dq_request_hash = binding_hash (pe_sha E) rq,
                  dq_owner = pe_instance E, dq_attempt = attempt, dq_response = r\<rparr> (others s) of
             (committed, s2) \<Rightarrow>
               (if committed then Answer r False else Http_error 409 ''Execution lease ownership was lost'', s2)))"

text \<open>
  The endpoint on a store given by its two operations; \<open>t\<close> is the time of the request, \<open>t'\<close> the time of the
  commit, and \<open>others\<close> what other instances do to the store in between.
\<close>

definition plane_execute ::
  "plane_env \<Rightarrow> (int \<Rightarrow> claim_request \<Rightarrow> 's \<Rightarrow> claim_answer \<times> 's) \<Rightarrow> (int \<Rightarrow> complete_request \<Rightarrow> 's \<Rightarrow> bool \<times> 's)
    \<Rightarrow> ('s \<Rightarrow> 's) \<Rightarrow> int \<Rightarrow> int \<Rightarrow> string option \<Rightarrow> exec_request \<Rightarrow> 's \<Rightarrow> http_answer \<times> 's" where
  "plane_execute E do_claim do_complete others t t' authorization rq s =
     (case admit_request E t authorization rq of
        Inl e \<Rightarrow> (e, s)
      | Inr claims \<Rightarrow>
        (case do_claim t (claim_of_request E t rq claims) s of
           (Cached_response (Some r) n, s1) \<Rightarrow> (Answer r True, s1)
         | (Cached_response None n, s1) \<Rightarrow> run_and_commit E do_complete others t' rq claims n s1
         | (In_progress n, s1) \<Rightarrow> (Http_error 409 ''Execution is already in progress'', s1)
         | (Claim_conflict, s1) \<Rightarrow> (Http_error 409 ''Execution ID is bound to another request'', s1)
         | (Replayed, s1) \<Rightarrow> (Http_error 401 ''Workload identity assertion was replayed'', s1)
         | (Acquired n, s1) \<Rightarrow> run_and_commit E do_complete others t' rq claims n s1))"

end
