(* ===== verification/PlaneTheorems.thy ===== *)
theory PlaneTheorems
  imports ExecutionPlane
begin

text \<open>
  What the execution plane guarantees: the store in Redis answers as the one in memory, an answer of the
  endpoint is what the store committed under the policy, and where the replay protection ends before the
  assertion does.
\<close>

section \<open>Redis refines memory\<close>

datatype store_op = Do_claim claim_request | Do_complete complete_request
datatype store_answer = Claim_answer claim_answer | Complete_answer bool

definition mem_op :: "int \<Rightarrow> store_op \<Rightarrow> mem_store \<Rightarrow> store_answer \<times> mem_store" where
  "mem_op t op s = (case op of Do_claim q \<Rightarrow> map_prod Claim_answer id (mem_claim t q s)
     | Do_complete q \<Rightarrow> map_prod Complete_answer id (mem_complete t q s))"

definition redis_op :: "int \<Rightarrow> int \<Rightarrow> store_op \<Rightarrow> redis_store \<Rightarrow> store_answer \<times> redis_store" where
  "redis_op retention t op s = (case op of Do_claim q \<Rightarrow> map_prod Claim_answer id (redis_claim retention t q s)
     | Do_complete q \<Rightarrow> map_prod Complete_answer id (redis_complete retention t q s))"

fun answers :: "(int \<Rightarrow> store_op \<Rightarrow> 's \<Rightarrow> store_answer \<times> 's) \<Rightarrow> (int \<times> store_op) list \<Rightarrow> 's \<Rightarrow> store_answer list" where
  "answers step [] s = []"
| "answers step ((t, op) # ops) s = (case step t op s of (a, s1) \<Rightarrow> a # answers step ops s1)"

definition empty_mem :: mem_store where
  "empty_mem = \<lparr>mem_replays = (\<lambda>_. None), mem_executions = (\<lambda>_. None)\<rparr>"

definition empty_redis :: redis_store where
  "empty_redis = \<lparr>rd_replays = (\<lambda>_. None), rd_executions = (\<lambda>_. None)\<rparr>"

definition live_replay :: "int \<Rightarrow> (int \<times> string) option \<Rightarrow> string option" where
  "live_replay t v = (case v of None \<Rightarrow> None | Some (e, x) \<Rightarrow> if t < e then Some x else None)"

text \<open>
  Two stores agree from time \<open>t\<close> on if they hold the same rows, none of which expires before \<open>h\<close>, and the same
  replay entries among those still alive.
\<close>

definition agree :: "int \<Rightarrow> int \<Rightarrow> mem_store \<Rightarrow> redis_store \<Rightarrow> bool" where
  "agree h t m r \<longleftrightarrow>
     (\<forall>i. mem_executions m i = map_option fst (rd_executions r i)) \<and>
     (\<forall>i y e. rd_executions r i = Some (y, e) \<longrightarrow> h \<le> e) \<and>
     (\<forall>j e x. t < e \<longrightarrow> (mem_replays m j = Some (e, x) \<longleftrightarrow> rd_replays r j = Some (x, e)))"

lemma agree_later: "agree h t m r \<Longrightarrow> t \<le> t' \<Longrightarrow> agree h t' m r"
  by (simp add: agree_def)

lemma agree_alive: "agree h t m r \<Longrightarrow> t < h \<Longrightarrow> alive t (rd_executions r i) = mem_executions m i"
  by (fastforce simp: agree_def alive_def split: option.splits)

lemma agree_replay_iff: "agree h t m r \<Longrightarrow> t < e \<Longrightarrow> mem_replays m j = Some (e, x) \<longleftrightarrow> rd_replays r j = Some (x, e)"
  by (simp add: agree_def)

lemma prune_iff: "mem_replays (mem_prune t m) j = Some (e, x) \<longleftrightarrow> mem_replays m j = Some (e, x) \<and> t \<le> e"
  by (auto simp: mem_prune_def split: option.splits)

lemma prune_executions [simp]: "mem_executions (mem_prune t m) = mem_executions m"
  by (simp add: mem_prune_def)

definition expires_at :: "int \<Rightarrow> mem_store \<Rightarrow> bool" where
  "expires_at t m \<longleftrightarrow> (\<exists>j x. mem_replays m j = Some (t, x))"

lemma agree_replay:
  assumes "agree h t m r" "\<not> expires_at t m"
  shows "map_option snd (mem_replays (mem_prune t m) j) = alive t (rd_replays r j)"
proof (cases "mem_replays m j")
  case None
  have "alive t (rd_replays r j) = None"
  proof (cases "rd_replays r j")
    case (Some v)
    obtain x e where v: "v = (x, e)" by (cases v)
    have "\<not> t < e" using agree_replay_iff [OF assms(1), of e j x] None Some v by auto
    then show ?thesis using Some v by (simp add: alive_def)
  qed (simp add: alive_def)
  then show ?thesis using None by (simp add: mem_prune_def)
next
  case (Some v)
  obtain e x where v: "v = (e, x)" by (cases v)
  have ne: "e \<noteq> t" using assms(2) Some v by (auto simp: expires_at_def)
  show ?thesis
  proof (cases "t < e")
    case True
    then have "rd_replays r j = Some (x, e)" using assms(1) Some v by (simp add: agree_def)
    then show ?thesis using True Some v by (simp add: mem_prune_def alive_def)
  next
    case False
    then have dead: "alive t (rd_replays r j) = None"
    proof (cases "rd_replays r j")
      case (Some w)
      obtain y e' where "w = (y, e')" by (cases w)
      moreover have "\<not> t < e'"
        using agree_replay_iff [OF assms(1), of e' j y] \<open>mem_replays m j = Some v\<close> v Some False calculation by auto
      ultimately show ?thesis using Some by (simp add: alive_def)
    qed (simp add: alive_def)
    then show ?thesis using False ne Some v by (simp add: mem_prune_def)
  qed
qed

lemma agree_prune: "agree h t m r \<Longrightarrow> agree h t (mem_prune t m) r"
  by (simp add: agree_def prune_iff)

lemma agree_replay_put:
  "agree h t m r \<Longrightarrow> agree h t (m\<lparr>mem_replays := (mem_replays m)(j := Some (e, x))\<rparr>)
     (r\<lparr>rd_replays := (rd_replays r)(j := Some (x, e))\<rparr>)"
  by (auto simp: agree_def)

lemma agree_execution_put:
  "agree h t m r \<Longrightarrow> h \<le> e \<Longrightarrow> agree h t (m\<lparr>mem_executions := (mem_executions m)(i := Some y)\<rparr>)
     (r\<lparr>rd_executions := (rd_executions r)(i := Some (y, e))\<rparr>)"
  by (auto simp: agree_def)

lemma claim_agrees:
  assumes a: "agree h t m r" and h: "t < h" "h \<le> t + retention" and n: "\<not> expires_at t m" and ttl: "1 \<le> cq_assertion_ttl q"
    and m: "mem_claim t q m = (x, m')" and r: "redis_claim retention t q r = (y, r')"
  shows "x = y \<and> agree h t m' r'"
proof -
  let ?i = "cq_execution_id q" and ?j = "cq_assertion_jti q"
  have row: "alive t (rd_executions r ?i) = mem_executions m ?i" using a h(1) by (rule agree_alive)
  have rep: "map_option snd (mem_replays (mem_prune t m) ?j) = alive t (rd_replays r ?j)" using a n by (rule agree_replay)
  have ttl': "max 1 (cq_assertion_ttl q) = cq_assertion_ttl q" using ttl by simp
  define m1 where "m1 = mem_prune t m"
  have a1: "agree h t m1 r" using a by (simp add: m1_def agree_prune)
  have e1: "mem_executions m1 = mem_executions m" by (simp add: m1_def)
  note put = agree_replay_put [OF a1, of ?j "t + cq_assertion_ttl q" ?i]
  note put2 = agree_execution_put [OF put h(2), of ?i]
  show ?thesis
  proof (cases "mem_replays m1 ?j")
    case None
    then have "alive t (rd_replays r ?j) = None" using rep by (simp add: m1_def)
    then show ?thesis using m r row a1 put put2 None
      by (auto simp: mem_claim_def redis_claim_def Let_def e1 ttl' simp flip: m1_def split: if_splits)
  next
    case (Some v)
    then have "alive t (rd_replays r ?j) = Some (snd v)" using rep by (simp add: m1_def)
    then show ?thesis using m r row a1 Some
      by (cases v) (auto simp: mem_claim_def redis_claim_def Let_def e1 simp flip: m1_def split: if_splits)
  qed
qed

lemma complete_agrees:
  assumes a: "agree h t m r" and h: "t < h" "h \<le> t + retention"
    and m: "mem_complete t q m = (x, m')" and r: "redis_complete retention t q r = (y, r')"
  shows "x = y \<and> agree h t m' r'"
  using m r agree_alive [OF a h(1), of "dq_execution_id q"] a agree_execution_put [OF a h(2), of "dq_execution_id q"]
  by (auto simp: mem_complete_def redis_complete_def split: option.splits if_splits)

text \<open>The instants at which replay entries of a history expire.\<close>

definition expiries :: "(int \<times> store_op) list \<Rightarrow> int set" where
  "expiries ops = {t + cq_assertion_ttl q | t q. (t, Do_claim q) \<in> set ops}"

lemma expires_mem_claim:
  assumes "mem_claim t q m = (x, m')" "expires_at e m'"
  shows "expires_at e m \<or> e = t + cq_assertion_ttl q"
proof -
  define m1 where "m1 = mem_prune t m"
  have "mem_replays m' = mem_replays m1 \<or>
      mem_replays m' = (mem_replays m1)(cq_assertion_jti q := Some (t + cq_assertion_ttl q, cq_execution_id q))"
    using assms(1) by (auto simp: mem_claim_def Let_def simp flip: m1_def split: if_splits option.splits)
  moreover have "mem_replays m1 j = Some (e, x) \<Longrightarrow> expires_at e m" for j x
    unfolding m1_def prune_iff expires_at_def by blast
  ultimately show ?thesis using assms(2) unfolding expires_at_def [of e m'] by (auto split: if_splits)
qed

lemma expires_mem_op:
  assumes "mem_op t op m = (x, m')" "expires_at e m'" shows "expires_at e m \<or> e \<in> expiries [(t, op)]"
proof (cases op)
  case (Do_claim q)
  then show ?thesis using assms expires_mem_claim [of t q m _ m' e]
    by (cases "mem_claim t q m") (auto simp: mem_op_def expiries_def)
next
  case (Do_complete q)
  then have "mem_replays m' = mem_replays m" using assms(1)
    by (auto simp: mem_op_def mem_complete_def split: option.splits if_splits)
  then show ?thesis using assms(2) by (simp add: expires_at_def)
qed

lemma op_agrees:
  assumes "agree h t m r" "t < h" "h \<le> t + retention" "\<not> expires_at t m"
    and "\<And>q. op = Do_claim q \<Longrightarrow> 1 \<le> cq_assertion_ttl q"
    and "mem_op t op m = (x, m')" "redis_op retention t op r = (y, r')"
  shows "x = y \<and> agree h t m' r'"
proof (cases op)
  case (Do_claim q)
  obtain a m1 b r1 where c: "mem_claim t q m = (a, m1)" "redis_claim retention t q r = (b, r1)"
    by (cases "mem_claim t q m"; cases "redis_claim retention t q r")
  have "a = b \<and> agree h t m1 r1" using claim_agrees [OF assms(1-4) assms(5) c] Do_claim by simp
  then show ?thesis using assms(6,7) c Do_claim by (simp add: mem_op_def redis_op_def)
next
  case (Do_complete q)
  obtain a m1 b r1 where c: "mem_complete t q m = (a, m1)" "redis_complete retention t q r = (b, r1)"
    by (cases "mem_complete t q m"; cases "redis_complete retention t q r")
  have "a = b \<and> agree h t m1 r1" using complete_agrees [OF assms(1-3) c] .
  then show ?thesis using assms(6,7) c Do_complete by (simp add: mem_op_def redis_op_def)
qed

lemma answers_agree:
  assumes "agree h t0 m r" "sorted (map fst ops)" "\<forall>t\<in>fst ` set ops. t0 \<le> t \<and> t < h \<and> h \<le> t + retention"
    and "\<forall>t q. (t, Do_claim q) \<in> set ops \<longrightarrow> 1 \<le> cq_assertion_ttl q"
    and "\<forall>t\<in>fst ` set ops. \<not> expires_at t m \<and> t \<notin> expiries ops"
  shows "answers mem_op ops m = answers (redis_op retention) ops r"
  using assms
proof (induction ops arbitrary: t0 m r)
  case (Cons p ops)
  obtain t op where p: "p = (t, op)" by (cases p)
  obtain x m' y r' where s: "mem_op t op m = (x, m')" "redis_op retention t op r = (y, r')"
    by (cases "mem_op t op m"; cases "redis_op retention t op r")
  have "agree h t m r" using Cons.prems(1,3) p by (auto intro: agree_later)
  then have xy: "x = y" and a: "agree h t m' r'"
    using op_agrees [OF _ _ _ _ _ s] Cons.prems(3-5) p by auto
  have sub: "expiries ops \<subseteq> expiries (p # ops)" "expiries [(t, op)] \<subseteq> expiries (p # ops)"
    using p by (auto simp: expiries_def)
  have "answers mem_op ops m' = answers (redis_op retention) ops r'"
  proof (rule Cons.IH [OF a])
    show "sorted (map fst ops)" using Cons.prems(2) by simp
    show "\<forall>t'\<in>fst ` set ops. t \<le> t' \<and> t' < h \<and> h \<le> t' + retention" using Cons.prems(2,3) p by auto
    show "\<forall>t q. (t, Do_claim q) \<in> set ops \<longrightarrow> 1 \<le> cq_assertion_ttl q" using Cons.prems(4) by auto
    show "\<forall>t'\<in>fst ` set ops. \<not> expires_at t' m' \<and> t' \<notin> expiries ops"
      using Cons.prems(5) sub expires_mem_op [OF s(1)] by (metis image_insert insertCI list.simps(15) subsetD)
  qed
  then show ?case using p s xy by simp
qed simp


section \<open>The endpoint\<close>

lemma run_request_no_answer: "run_request E rq claims n \<noteq> Inl (Answer r b)"
  by (auto simp: run_request_def Let_def split: sum.splits if_splits)

lemma no_early_answer: "admit_request E t authorization rq \<noteq> Inl (Answer r b)"
  by (auto simp: admit_request_def Let_def split: sum.splits option.splits if_splits)

lemma run_request_shell:
  assumes "run_request E rq claims n = Inr r"
  shows "\<exists>w dependency. pe_extract E rq = Inr w \<and>
     dependency_install_command (pe_json E) w (rq_command rq) = Inr dependency \<and>
     rq_shell_command rq = test_shell_command dependency (rq_command rq)"
  using assms by (auto simp: run_request_def Let_def split: sum.splits if_splits)

lemma committed_answer:
  assumes "run_and_commit E mem_complete others t' rq claims n s = (Answer r replay, s')"
  shows "\<not> replay \<and>
     (\<exists>y. mem_executions s' (rq_execution_id rq) = Some y \<and> er_completed y \<and> er_response y = Some r \<and>
        er_request_hash y = binding_hash (pe_sha E) rq) \<and>
     (\<exists>w dependency. pe_extract E rq = Inr w \<and>
        dependency_install_command (pe_json E) w (rq_command rq) = Inr dependency \<and>
        rq_shell_command rq = test_shell_command dependency (rq_command rq))"
proof -
  obtain r1 where r1: "run_request E rq claims n = Inr r1"
    using assms run_request_no_answer by (fastforce simp: run_and_commit_def split: sum.splits)
  let ?d = "\<lparr>dq_execution_id = rq_execution_id rq, dq_request_hash = binding_hash (pe_sha E) rq,
                  dq_owner = pe_instance E, dq_attempt = n, dq_response = r1\<rparr>"
  have com: "mem_complete t' ?d (others s) = (True, s')" and "r1 = r" "\<not> replay"
    using assms r1 by (auto simp: run_and_commit_def split: prod.splits if_splits)
  then show ?thesis using mem.complete_true [OF com] run_request_shell [OF r1]
    by (auto simp: answered_row_def may_complete_def)
qed

text \<open>
  C39.  An answer of the plane is a committed answer under the policy.  If the endpoint answers a request, then
  the command is on the allow list; a fresh answer is what the store now holds as completed for that
  execution and that request, the shell command being the one the plane derives itself from the
  workspace; and a repeated answer is what the store held as completed for exactly this request.
\<close>

theorem plane_answer_is_committed:
  assumes "plane_execute E mem_claim mem_complete others t t' authorization rq s = (Answer r replay, s')"
  shows "rq_command rq \<in> allowed_test_commands (pe_cfg E) \<and>
     (\<exists>y. mem_executions (if replay then s else s') (rq_execution_id rq) = Some y \<and> er_completed y \<and>
        er_response y = Some r \<and> er_request_hash y = binding_hash (pe_sha E) rq) \<and>
     (\<not> replay \<longrightarrow> (\<exists>w dependency. pe_extract E rq = Inr w \<and>
        dependency_install_command (pe_json E) w (rq_command rq) = Inr dependency \<and>
        rq_shell_command rq = test_shell_command dependency (rq_command rq)))"
proof -
  obtain claims where adm: "admit_request E t authorization rq = Inr claims"
    using assms no_early_answer by (fastforce simp: plane_execute_def split: sum.splits)
  have allowed: "rq_command rq \<in> allowed_test_commands (pe_cfg E)"
    using adm by (auto simp: admit_request_def Let_def split: option.splits sum.splits if_splits)
  let ?q = "claim_of_request E t rq claims"
  obtain a s1 where c: "mem_claim t ?q s = (a, s1)" by (cases "mem_claim t ?q s")
  show ?thesis
  proof (cases "\<exists>r n. a = Cached_response (Some r) n")
    case True
    then obtain n where a: "a = Cached_response (Some r) n" "replay" using assms adm c by (auto simp: plane_execute_def)
    have "cq_execution_id ?q = rq_execution_id rq" "cq_request_hash ?q = binding_hash (pe_sha E) rq"
      by (simp_all add: claim_of_request_def Let_def)
    then show ?thesis using mem.claim_cached [of t ?q s "Some r" n s1] c a allowed by auto
  next
    case False
    then obtain n where "run_and_commit E mem_complete others t' rq claims n s1 = (Answer r replay, s')"
      using assms adm c by (auto simp: plane_execute_def split: claim_answer.splits option.splits)
    from committed_answer [OF this] allowed show ?thesis by simp
  qed
qed

section \<open>Replays\<close>

text \<open>
  An assertion is accepted until five seconds after its end, but the store remembers it only until its end:
  a second request with it in those seconds is not recognised.
\<close>

lemma replay_after_expiry:
  assumes "mem_claim t q s = (a, s')" "\<not> expires_at u s'" "t + cq_assertion_ttl q < u"
    and "\<And>e x. mem_replays s (cq_assertion_jti q) = Some (e, x) \<Longrightarrow> e < u"
    and "er_lease_until y \<le> u" "mem_executions s' (cq_execution_id q) = Some y" "\<not> er_completed y"
    and "er_request_hash y = cq_request_hash q"
  shows "fst (mem_claim u q s') = Acquired (er_attempt y + 1)"
proof -
  have "mem_replays s' (cq_assertion_jti q) \<noteq> Some (e, x)" if "u \<le> e" for e x
    using assms(1,3,4) that
    by (auto simp: mem_claim_def Let_def mem_prune_def split: if_splits option.splits prod.splits)
  then have "mem_replays (mem_prune u s') (cq_assertion_jti q) = None"
    by (auto simp: mem_prune_def split: option.splits)
  then show ?thesis using assms(5-8) by (simp add: mem_claim_def Let_def acquired_row_def)
qed

section \<open>Witnesses\<close>

definition w_claim :: claim_request where
  "w_claim = \<lparr>cq_execution_id = ''e1'', cq_request_hash = ''h'', cq_assertion_jti = ''j1'', cq_assertion_ttl = 60,
     cq_owner = ''plane-a'', cq_lease_seconds = 130\<rparr>"

definition w_answer :: exec_response where
  "w_answer = \<lparr>rs_execution_id = ''e1'', rs_backend = ''firecracker'', rs_passed = True, rs_exit_code = 0, rs_stdout = [],
     rs_stderr = [], rs_timed_out = False, rs_archive_sha256 = ''a'', rs_workload_subject = ''sandbox'', rs_attestation = []\<rparr>"

definition w_history :: "(int \<times> store_op) list" where
  "w_history = [(0, Do_claim w_claim), (1, Do_claim (w_claim\<lparr>cq_assertion_jti := ''j2'', cq_owner := ''plane-b''\<rparr>)),
     (5, Do_complete \<lparr>dq_execution_id = ''e1'', dq_request_hash = ''h'', dq_owner = ''plane-a'', dq_attempt = 1,
        dq_response = w_answer\<rparr>),
     (70, Do_claim (w_claim\<lparr>cq_assertion_jti := ''j3''\<rparr>))]"


definition w_cfg :: settings where
  "w_cfg = default_settings\<lparr>sandbox_workload_identity_public_key_path := Some ''/keys/identity.pem''\<rparr>"

definition w_request :: exec_request where
  "w_request = \<lparr>rq_execution_id = ''e1'', rq_archive_base64 = ''AAAA'', rq_archive_sha256 = ''a'',
     rq_command = ''python -m unittest discover'', rq_shell_command = ''python -m unittest discover'',
     rq_image = ''python:3.11-slim'', rq_requested_runtime = ''firecracker'', rq_timeout_seconds = 120\<rparr>"

definition w_plane :: plane_env where
  "w_plane = \<lparr>pe_cfg = w_cfg, pe_sha = (\<lambda>_. ''h''),
     pe_decode = (\<lambda>_. Some ([(''alg'', PStr ''EdDSA''), (''typ'', PStr ''JWT'')],
        [(''iss'', PStr ''codemate''), (''sub'', PStr ''spiffe://codemate/code-sandbox''),
         (''aud'', PStr ''codemate-sandbox-execution-plane''), (''iat'', PInt 0), (''exp'', PInt 60),
         (''jti'', PStr ''j1''), (''request_hash'', PStr ''h'')])),
     pe_instance = ''plane-a'', pe_hostname = ''node-1'',
     pe_extract = (\<lambda>_. Inr \<lparr>wp_package_json = None, wp_requirements = None, wp_pyproject = None, wp_existing = {},
        wp_has_python = True\<rparr>), pe_json = (\<lambda>_. None),
     pe_supply_chain = (\<lambda>i b. Inr []), pe_attest_node = (\<lambda>n. Inr []),
     pe_backend = (\<lambda>_. Inr \<lparr>bk_passed = True, bk_exit_code = 0, bk_stdout = ''ok'', bk_stderr = [], bk_timed_out = False,
        bk_execution_node = None\<rparr>)\<rparr>"

lemma w_allowed: "''python -m unittest discover'' \<in> allowed_test_commands w_cfg"
  by code_simp

lemma w_admitted: "\<exists>claims. admit_request w_plane 10 (Some ''Bearer token'') w_request = Inr claims"
proof -
  have "bearer (Some ''Bearer token'') = Some ''token''" by code_simp
  then show ?thesis using w_allowed
    by (simp add: admit_request_def Let_def w_plane_def verify_assertion_def binding_hash_def w_request_def)
       (simp add: w_cfg_def default_settings_def none_or_empty_def)
qed

lemma w_runs: "\<exists>r. run_request w_plane w_request claims n = Inr r"
proof -
  have "dependency_install_command (\<lambda>_. None) w ''python -m unittest discover'' = Inr None" for w
    by (simp add: dependency_install_command_def node_command_def)
  then show ?thesis
    by (simp add: run_request_def Let_def w_plane_def w_request_def test_shell_command_def)
       (simp add: w_cfg_def default_settings_def)
qed

theorem plane_answer_is_committed_witness:
  "\<exists>r s' y. plane_execute w_plane mem_claim mem_complete id 10 20 (Some ''Bearer token'') w_request empty_mem =
       (Answer r False, s') \<and> mem_executions s' ''e1'' = Some y \<and> er_completed y \<and> er_response y = Some r"
proof -
  obtain claims where adm: "admit_request w_plane 10 (Some ''Bearer token'') w_request = Inr claims"
    using w_admitted by blast
  obtain r where run: "run_request w_plane w_request claims 1 = Inr r" using w_runs by blast
  have "\<exists>s'. plane_execute w_plane mem_claim mem_complete id 10 20 (Some ''Bearer token'') w_request empty_mem =
       (Answer r False, s')"
    using run by (simp add: plane_execute_def adm mem_claim_def mem_prune_def empty_mem_def Let_def acquired_row_def
        run_and_commit_def mem_complete_def may_complete_def claim_of_request_def)
      (simp add: w_request_def)
  then obtain s' where e: "plane_execute w_plane mem_claim mem_complete id 10 20 (Some ''Bearer token'') w_request empty_mem =
       (Answer r False, s')" by blast
  have "rq_execution_id w_request = ''e1''" by (simp add: w_request_def)
  then show ?thesis using plane_answer_is_committed [OF e] e by auto
qed

end
