(* ===== verification/Quota.thy ===== *)
theory Quota
  imports ExecutionPlane
begin

text \<open>
  The MCP quota service (\<open>backend/app/services/mcp_quota_service.py\<close>): policies and their effective limits,
  the usage of a policy over its charges, the reservation of a call before it is made and its release, the
  Redis limiter beside the database, and the maintenance of policies and old usage.  Cost units are
  rationals.  A transaction sees and leaves one \<open>quota_db\<close>.
\<close>

section \<open>Rows\<close>

record quota_policy =
  pl_id :: string
  pl_tenant_id :: string
  pl_repo_id :: "string option"
  pl_principal_type :: string
  pl_principal_id :: string
  pl_server_name :: string
  pl_tool_name :: string
  pl_rate_limit_per_minute :: "rat option"
  pl_daily_call_limit :: "rat option"
  pl_daily_cost_limit :: "rat option"
  pl_concurrent_limit :: "rat option"
  pl_run_call_limit :: "rat option"
  pl_max_run_duration_seconds :: "rat option"
  pl_call_cost_units :: rat
  pl_enabled :: bool
  pl_frozen :: bool
  pl_temporary_override :: "(string \<times> rat option) list"
  pl_temporary_override_expires_at :: "time option"
  pl_reset_at :: "time option"
  pl_version :: int
  pl_updated_by :: string
  pl_updated_at :: time

record quota_event =
  qe_id :: string
  qe_idempotency_key :: string
  qe_execution_id :: "string option"
  qe_tenant_id :: string
  qe_run_id :: "string option"
  qe_server_name :: string
  qe_tool_name :: string
  qe_cost_units :: rat
  qe_status :: string
  qe_lease_token :: "string option"
  qe_lease_expires_at :: "time option"
  qe_released_at :: "time option"
  qe_created_at :: time

record quota_charge =
  qc_event_id :: string
  qc_policy_id :: string
  qc_calls :: int
  qc_cost_units :: rat
  qc_created_at :: time

record quota_rejection =
  qr_policy_id :: "string option"
  qr_tenant_id :: string
  qr_server_name :: string
  qr_tool_name :: string
  qr_reason :: string
  qr_retry_after_seconds :: "int option"
  qr_created_at :: time

record quota_db =
  qd_policies :: "quota_policy list"
  qd_events :: "quota_event list"
  qd_charges :: "quota_charge list"
  qd_rejections :: "quota_rejection list"

record quota_context =
  cx_tenant_id :: string
  cx_repo_id :: string
  cx_run_id :: "string option"
  cx_principal_type :: string
  cx_principal_id :: string
  cx_role :: "string option"
  cx_run_created_at :: "time option"

record quota_reservation =
  rv_event_id :: "string option"
  rv_lease_token :: "string option"
  rv_policy_ids :: "string list"
  rv_enabled :: bool

datatype quota_error =
    Quota_exceeded string "string option" "int option"
  | Quota_unavailable string
  | Quota_conflict string
  | Quota_not_found

section \<open>Limits\<close>

definition policy_values :: "quota_policy \<Rightarrow> (string \<times> rat option) list" where
  "policy_values p =
     [(''rate_limit_per_minute'', pl_rate_limit_per_minute p), (''daily_call_limit'', pl_daily_call_limit p),
      (''daily_cost_limit'', pl_daily_cost_limit p), (''concurrent_limit'', pl_concurrent_limit p),
      (''run_call_limit'', pl_run_call_limit p), (''max_run_duration_seconds'', pl_max_run_duration_seconds p),
      (''call_cost_units'', Some (pl_call_cost_units p))]"

definition override_active :: "quota_policy \<Rightarrow> time \<Rightarrow> bool" where
  "override_active p now' \<longleftrightarrow>
     (case pl_temporary_override_expires_at p of None \<Rightarrow> False | Some e \<Rightarrow> e > now') \<and> pl_temporary_override p \<noteq> []"

definition effective_policy_values :: "quota_policy \<Rightarrow> time \<Rightarrow> string \<Rightarrow> rat option" where
  "effective_policy_values p now' key =
     (case (if override_active p now' then map_of (pl_temporary_override p) key else None) of
        Some v \<Rightarrow> v
      | None \<Rightarrow> (case map_of (policy_values p) key of Some v \<Rightarrow> v | None \<Rightarrow> None))"

definition exceeds :: "rat option \<Rightarrow> rat \<Rightarrow> bool" where
  "exceeds limit proposed \<longleftrightarrow> (case limit of None \<Rightarrow> False | Some l \<Rightarrow> proposed > l)"

definition matching_policies :: "quota_context \<Rightarrow> string \<Rightarrow> string \<Rightarrow> quota_db \<Rightarrow> quota_policy list" where
  \<comment> \<open>policies come in the order of their ids; \<open>cx_role\<close> is the role of a user's membership\<close>
  "matching_policies cx server tool d =
     filter (\<lambda>p. pl_tenant_id p = cx_tenant_id cx \<and> pl_enabled p \<and>
         (pl_repo_id p = None \<or> pl_repo_id p = Some (cx_repo_id cx)) \<and>
         pl_server_name p \<in> {server, ''*''} \<and> pl_tool_name p \<in> {tool, ''*''} \<and>
         (pl_principal_type p, pl_principal_id p) \<in>
           {(cx_principal_type cx, cx_principal_id cx), (''*'', ''*'')} \<union>
           (case cx_role cx of Some role \<Rightarrow> if cx_principal_type cx = ''user'' then {(''role'', role)} else {}
            | None \<Rightarrow> {}))
       (sort_key pl_id (qd_policies d))"

section \<open>Usage\<close>

definition day_start :: "time \<Rightarrow> time" where
  "day_start now' = now' - now' mod secs 86400"

definition seconds_until_tomorrow :: "time \<Rightarrow> int" where
  "seconds_until_tomorrow now' = max 1 (ceil_secs (day_start now' + secs 86400 - now'))"

definition max_datetime :: "time \<Rightarrow> time option \<Rightarrow> time" where
  "max_datetime a b = (case b of None \<Rightarrow> a | Some x \<Rightarrow> max a x)"

definition find_event :: "quota_db \<Rightarrow> string \<Rightarrow> quota_event option" where
  "find_event d i = List.find (\<lambda>e. qe_id e = i) (qd_events d)"

definition counted :: "quota_policy \<Rightarrow> quota_db \<Rightarrow> quota_charge list" where
  \<comment> \<open>\<open>base\<close>: the policy's charges since its reset, joined with their events\<close>
  "counted p d = filter (\<lambda>c. qc_policy_id c = pl_id p \<and> find_event d (qc_event_id c) \<noteq> None \<and>
     (case pl_reset_at p of None \<Rightarrow> True | Some r \<Rightarrow> qc_created_at c \<ge> r)) (qd_charges d)"

definition calls_since :: "time \<Rightarrow> quota_charge list \<Rightarrow> int" where
  "calls_since cutoff cs = sum_list (map qc_calls (filter (\<lambda>c. qc_created_at c \<ge> cutoff) cs))"

definition cost_since :: "time \<Rightarrow> quota_charge list \<Rightarrow> rat" where
  "cost_since cutoff cs = sum_list (map qc_cost_units (filter (\<lambda>c. qc_created_at c \<ge> cutoff) cs))"

definition run_calls :: "string option \<Rightarrow> quota_db \<Rightarrow> quota_charge list \<Rightarrow> int" where
  "run_calls run d cs =
     (if none_or_empty run then 0
      else sum_list (map qc_calls (filter (\<lambda>c. Option.bind (find_event d (qc_event_id c)) qe_run_id = run) cs)))"

definition lease_alive :: "time \<Rightarrow> quota_event \<Rightarrow> bool" where
  "lease_alive now' e \<longleftrightarrow> (case qe_lease_expires_at e of None \<Rightarrow> False | Some x \<Rightarrow> x > now')"

definition active_ids :: "time \<Rightarrow> string option \<Rightarrow> quota_db \<Rightarrow> quota_charge list \<Rightarrow> string list" where
  "active_ids now' excluded d cs = remdups (map qc_event_id (filter (\<lambda>c.
     (case find_event d (qc_event_id c) of None \<Rightarrow> False | Some e \<Rightarrow> lease_alive now' e) \<and>
     excluded \<noteq> Some (qc_event_id c)) cs))"

record quota_usage =
  us_minute_calls :: int
  us_daily_calls :: int
  us_daily_cost :: rat
  us_run_calls :: int
  us_active :: int
  us_retry_after :: "int option"

definition policy_usage :: "quota_policy \<Rightarrow> time \<Rightarrow> string option \<Rightarrow> string option \<Rightarrow> quota_db \<Rightarrow> quota_usage" where
  "policy_usage p now' run excluded d =
     (let base = counted p d;
          active = active_ids now' excluded d base;
          expiries = map (\<lambda>i. the (qe_lease_expires_at (the (find_event d i)))) active in
      \<lparr>us_minute_calls = calls_since (max_datetime (now' - secs 60) (pl_reset_at p)) base,
       us_daily_calls = calls_since (max_datetime (day_start now') (pl_reset_at p)) base,
       us_daily_cost = cost_since (max_datetime (day_start now') (pl_reset_at p)) base,
       us_run_calls = run_calls run d base,
       us_active = int (length active),
       us_retry_after = (case expiries of [] \<Rightarrow> None | x # xs \<Rightarrow> Some (max 1 (ceil_secs (Min (set (x # xs)) - now'))))\<rparr>)"

section \<open>Checks\<close>

definition check_policy ::
  "quota_policy \<Rightarrow> quota_context \<Rightarrow> time \<Rightarrow> rat \<Rightarrow> quota_event option \<Rightarrow> quota_db \<Rightarrow> (string \<times> int option) option" where
  \<comment> \<open>the reason and the retry hint of a rejection\<close>
  "check_policy p cx now' cost existing d =
     (let limit = effective_policy_values p now';
          usage = policy_usage p now' (cx_run_id cx) (map_option qe_id existing) d in
      if pl_frozen p then Some (''tenant_frozen'', None)
      else if (case (limit ''max_run_duration_seconds'', cx_run_created_at cx) of
                 (Some s, Some t0) \<Rightarrow> of_int (now' - t0) \<ge> 1000000 * s | _ \<Rightarrow> False)
      then Some (''run_duration_limit'', None)
      else if existing = None \<and> exceeds (limit ''rate_limit_per_minute'') (of_int (us_minute_calls usage + 1))
      then Some (''rate_limit_per_minute'', Some 60)
      else if existing = None \<and> exceeds (limit ''daily_call_limit'') (of_int (us_daily_calls usage + 1))
      then Some (''daily_call_limit'', Some (seconds_until_tomorrow now'))
      else if existing = None \<and> exceeds (limit ''daily_cost_limit'') (us_daily_cost usage + cost)
      then Some (''daily_cost_limit'', Some (seconds_until_tomorrow now'))
      else if existing = None \<and> exceeds (limit ''run_call_limit'') (of_int (us_run_calls usage + 1))
      then Some (''run_call_limit'', None)
      else if exceeds (limit ''concurrent_limit'') (of_int (us_active usage + 1))
      then Some (''concurrent_limit'', us_retry_after usage)
      else None)"

fun first_rejection ::
  "quota_context \<Rightarrow> time \<Rightarrow> rat \<Rightarrow> quota_event option \<Rightarrow> quota_db \<Rightarrow> quota_policy list
    \<Rightarrow> (quota_policy \<times> string \<times> int option) option" where
  "first_rejection cx now' cost existing d [] = None"
| "first_rejection cx now' cost existing d (p # ps) =
     (case check_policy p cx now' cost existing d of
        Some (why, retry) \<Rightarrow> Some (p, why, retry)
      | None \<Rightarrow> first_rejection cx now' cost existing d ps)"

definition add_rejection ::
  "quota_context \<Rightarrow> string \<Rightarrow> string \<Rightarrow> time \<Rightarrow> string option \<Rightarrow> string \<Rightarrow> int option \<Rightarrow> quota_db \<Rightarrow> quota_db" where
  "add_rejection cx server tool now' policy why retry d =
     d\<lparr>qd_rejections := qd_rejections d @ [\<lparr>qr_policy_id = policy, qr_tenant_id = cx_tenant_id cx, qr_server_name = server,
        qr_tool_name = tool, qr_reason = why, qr_retry_after_seconds = retry, qr_created_at = now'\<rparr>]\<rparr>"

section \<open>The Redis limiter\<close>

text \<open>
  The counters of the script, by policy and window; a policy's concurrency is the sorted set of its members
  with the time at which each lease ends.  Keys outlive their windows, so their own expiry is left out.
\<close>

record limiter =
  rl_reconciling :: "string \<Rightarrow> bool"
  rl_minute :: "string \<Rightarrow> int \<Rightarrow> int"
  rl_day_calls :: "string \<Rightarrow> int \<Rightarrow> int"
  rl_day_cost :: "string \<Rightarrow> int \<Rightarrow> rat"
  rl_run :: "string \<Rightarrow> string \<Rightarrow> int"
  rl_members :: "string \<Rightarrow> (string \<times> time) list"
  rl_idem :: "string \<Rightarrow> string \<Rightarrow> bool"

record limiter_call =
  lc_now :: time
  lc_lease_expiry :: time
  lc_member :: string
  lc_cost :: rat
  lc_counted :: bool
  lc_run :: string
  lc_idem :: string

definition minute_of :: "time \<Rightarrow> int" where "minute_of now' = now' div secs 60"
definition day_of :: "time \<Rightarrow> int" where "day_of now' = now' div secs 86400"

definition purge_members :: "time \<Rightarrow> (string \<times> time) list \<Rightarrow> (string \<times> time) list" where
  \<comment> \<open>\<open>ZREMRANGEBYSCORE\<close>\<close>
  "purge_members now' ms = filter (\<lambda>(m, e). e > now') ms"

definition limiter_check :: "limiter_call \<Rightarrow> limiter \<Rightarrow> quota_policy \<Rightarrow> string option" where
  "limiter_check c L p =
     (let limit = effective_policy_values p (lc_now c); i = pl_id p; members = purge_members (lc_now c) (rl_members L i) in
      if \<not> (lc_counted c \<or> rl_idem L i (lc_idem c)) \<and>
         exceeds (limit ''rate_limit_per_minute'') (of_int (rl_minute L i (minute_of (lc_now c)) + 1))
      then Some ''rate_limit_per_minute''
      else if \<not> (lc_counted c \<or> rl_idem L i (lc_idem c)) \<and>
         exceeds (limit ''daily_call_limit'') (of_int (rl_day_calls L i (day_of (lc_now c)) + 1))
      then Some ''daily_call_limit''
      else if \<not> (lc_counted c \<or> rl_idem L i (lc_idem c)) \<and>
         exceeds (limit ''daily_cost_limit'') (rl_day_cost L i (day_of (lc_now c)) + lc_cost c)
      then Some ''daily_cost_limit''
      else if \<not> (lc_counted c \<or> rl_idem L i (lc_idem c)) \<and>
         exceeds (limit ''run_call_limit'') (of_int (rl_run L i (lc_run c) + 1))
      then Some ''run_call_limit''
      else if lc_member c \<notin> fst ` set members \<and> exceeds (limit ''concurrent_limit'') (of_nat (length members + 1))
      then Some ''concurrent_limit''
      else None)"

definition limiter_purge :: "limiter_call \<Rightarrow> quota_policy \<Rightarrow> limiter \<Rightarrow> limiter" where
  "limiter_purge c p L = L\<lparr>rl_members := (rl_members L)(pl_id p := purge_members (lc_now c) (rl_members L (pl_id p)))\<rparr>"

definition limiter_charge :: "limiter_call \<Rightarrow> quota_policy \<Rightarrow> limiter \<Rightarrow> limiter" where
  "limiter_charge c p L =
     (let i = pl_id p; m = minute_of (lc_now c); day = day_of (lc_now c);
          L1 = (if lc_counted c \<or> rl_idem L i (lc_idem c) then L
                else L\<lparr>rl_minute := (rl_minute L)(i := (rl_minute L i)(m := rl_minute L i m + 1)),
                       rl_day_calls := (rl_day_calls L)(i := (rl_day_calls L i)(day := rl_day_calls L i day + 1)),
                       rl_day_cost := (rl_day_cost L)(i := (rl_day_cost L i)(day := rl_day_cost L i day + lc_cost c)),
                       rl_run := (rl_run L)(i := (rl_run L i)(lc_run c := rl_run L i (lc_run c) + 1)),
                       rl_idem := (rl_idem L)(i := (rl_idem L i)(lc_idem c := True))\<rparr>)
      in L1\<lparr>rl_members := (rl_members L1)(i := AList.update (lc_member c) (lc_lease_expiry c) (rl_members L1 i))\<rparr>)"

fun limiter_first :: "limiter_call \<Rightarrow> quota_policy list \<Rightarrow> limiter \<Rightarrow> (string \<times> string) option \<times> limiter" where
  \<comment> \<open>the first loop of the script: the policy and the reason of a refusal, and the purged limiter\<close>
  "limiter_first c [] L = (None, L)"
| "limiter_first c (p # ps) L =
     (let L1 = limiter_purge c p L in
      case limiter_check c L1 p of Some why \<Rightarrow> (Some (pl_id p, why), L1) | None \<Rightarrow> limiter_first c ps L1)"

definition limiter_script ::
  "string \<Rightarrow> limiter_call \<Rightarrow> quota_policy list \<Rightarrow> limiter \<Rightarrow> (string option \<times> string) option \<times> limiter" where
  "limiter_script tenant c ps L =
     (if rl_reconciling L tenant then (Some (None, ''quota_reconciling''), L)
      else case limiter_first c ps L of
        (Some (i, why), L1) \<Rightarrow> (Some (Some i, why), L1)
      | (None, L1) \<Rightarrow> (None, fold (limiter_charge c) ps L1))"

section \<open>Reservation and release\<close>

definition no_reservation :: quota_reservation where
  "no_reservation = \<lparr>rv_event_id = None, rv_lease_token = None, rv_policy_ids = [], rv_enabled = False\<rparr>"

definition uses_redis :: "settings \<Rightarrow> bool" where
  "uses_redis cfg \<longleftrightarrow> py_lower (py_strip (mcp_quota_backend cfg)) = ''redis''"

definition call_cost :: "settings \<Rightarrow> quota_policy list \<Rightarrow> time \<Rightarrow> rat" where
  "call_cost cfg ps now' =
     (case map (\<lambda>p. case effective_policy_values p now' ''call_cost_units'' of Some v \<Rightarrow> v | None \<Rightarrow> 0) ps of
        [] \<Rightarrow> mcp_quota_default_call_cost_units cfg
      | x # xs \<Rightarrow> Max (set (x # xs)))"

definition reserved_event ::
  "settings \<Rightarrow> time \<Rightarrow> quota_context \<Rightarrow> string \<Rightarrow> string \<Rightarrow> string \<Rightarrow> string option \<Rightarrow> string \<Rightarrow> rat \<Rightarrow> string
    \<Rightarrow> quota_event option \<Rightarrow> quota_event" where
  "reserved_event cfg now' cx server tool key xid eid cost token existing =
     (case existing of
        Some e \<Rightarrow> e
      | None \<Rightarrow> \<lparr>qe_id = eid, qe_idempotency_key = key, qe_execution_id = xid, qe_tenant_id = cx_tenant_id cx,
          qe_run_id = cx_run_id cx, qe_server_name = server, qe_tool_name = tool, qe_cost_units = cost,
          qe_status = [], qe_lease_token = None, qe_lease_expires_at = None, qe_released_at = None, qe_created_at = now'\<rparr>)
     \<lparr>qe_status := ''reserved'', qe_lease_token := Some token,
      qe_lease_expires_at := Some (now' + secs (max 1 (mcp_quota_concurrency_lease_seconds cfg))), qe_released_at := None\<rparr>"

definition put_event :: "quota_event \<Rightarrow> quota_db \<Rightarrow> quota_db" where
  "put_event e d =
     (if \<exists>x\<in>set (qd_events d). qe_id x = qe_id e
      then d\<lparr>qd_events := map (\<lambda>x. if qe_id x = qe_id e then e else x) (qd_events d)\<rparr>
      else d\<lparr>qd_events := qd_events d @ [e]\<rparr>)"

definition charge_policies :: "quota_event \<Rightarrow> rat \<Rightarrow> time \<Rightarrow> quota_policy list \<Rightarrow> quota_db \<Rightarrow> quota_db" where
  "charge_policies e cost now' ps d =
     d\<lparr>qd_charges := qd_charges d @ map (\<lambda>p. \<lparr>qc_event_id = qe_id e, qc_policy_id = pl_id p, qc_calls = 1,
         qc_cost_units = cost, qc_created_at = now'\<rparr>) ps\<rparr>"

text \<open>
  \<open>redis\<close> is the limiter, \<open>None\<close> while Redis cannot be reached.  The unique key makes a second insert fail and
  start over with the row of the first, which is the case \<open>existing\<close>.
\<close>

definition reserve ::
  "settings \<Rightarrow> time \<Rightarrow> string \<Rightarrow> string \<Rightarrow> quota_context \<Rightarrow> string \<Rightarrow> string \<Rightarrow> string \<Rightarrow> string option
    \<Rightarrow> limiter option \<Rightarrow> quota_db \<Rightarrow> (quota_error + quota_reservation) \<times> limiter option \<times> quota_db" where
  "reserve cfg now' eid token cx server tool key xid redis d =
     (if \<not> mcp_quota_enabled cfg then (Inr no_reservation, redis, d)
      else if cx_tenant_id cx = [] then (Inl (Quota_unavailable ''MCP quota context has no tenant''), redis, d)
      else
        let ps = matching_policies cx server tool d;
            existing = List.find (\<lambda>e. qe_idempotency_key e = key) (qd_events d) in
        if ps = [] then (Inr no_reservation, redis, d)
        else if (case existing of None \<Rightarrow> False | Some e \<Rightarrow>
                   qe_tenant_id e \<noteq> cx_tenant_id cx \<or> qe_server_name e \<noteq> server \<or> qe_tool_name e \<noteq> tool)
        then (Inl (Quota_conflict ''Quota idempotency key was reused for another request''), redis, d)
        else if (case existing of None \<Rightarrow> False | Some e \<Rightarrow> lease_alive now' e)
        then (let retry = Some (max 1 (ceil_secs (the (qe_lease_expires_at (the existing)) - now'))); i = Some (pl_id (hd ps))
              in (Inl (Quota_exceeded ''idempotency_in_progress'' i retry), redis,
                  add_rejection cx server tool now' i ''idempotency_in_progress'' retry d))
        else
          let cost = call_cost cfg ps now' in
          case first_rejection cx now' cost existing d ps of
            Some (p, why, retry) \<Rightarrow>
              (Inl (Quota_exceeded why (Some (pl_id p)) retry), redis,
               add_rejection cx server tool now' (Some (pl_id p)) why retry d)
          | None \<Rightarrow>
            let e = reserved_event cfg now' cx server tool key xid eid cost token existing;
                d1 = put_event e d;
                d2 = (if existing = None then charge_policies e cost now' ps d1 else d1);
                granted = \<lparr>rv_event_id = Some (qe_id e), rv_lease_token = Some token, rv_policy_ids = map pl_id ps,
                           rv_enabled = True\<rparr> in
            if \<not> uses_redis cfg then (Inr granted, redis, d2)
            else case redis of
              None \<Rightarrow>
                if mcp_quota_fail_closed cfg
                then (Inl (Quota_unavailable ''MCP quota Redis backend is unavailable''), redis, d)
                else (Inr granted, redis, d2)
            | Some L \<Rightarrow>
                (case limiter_script (cx_tenant_id cx)
                        \<lparr>lc_now = now', lc_lease_expiry = now' + secs (max 1 (mcp_quota_concurrency_lease_seconds cfg)),
                         lc_member = qe_id e, lc_cost = cost, lc_counted = (existing \<noteq> None),
                         lc_run = or_default (cx_run_id cx) (qe_id e), lc_idem = key\<rparr> ps L of
                   (None, L1) \<Rightarrow> (Inr granted, Some L1, d2)
                 | (Some (i, why), L1) \<Rightarrow>
                     (Inl (Quota_exceeded why i None), Some L1, add_rejection cx server tool now' i why None d)))"

definition limiter_release :: "string list \<Rightarrow> string \<Rightarrow> limiter \<Rightarrow> limiter" where
  "limiter_release ps eid L =
     L\<lparr>rl_members := (\<lambda>i. if i \<in> set ps then filter (\<lambda>(m, e). m \<noteq> eid) (rl_members L i) else rl_members L i)\<rparr>"

definition release ::
  "settings \<Rightarrow> time \<Rightarrow> quota_reservation \<Rightarrow> string \<Rightarrow> limiter option \<Rightarrow> quota_db \<Rightarrow> limiter option \<times> quota_db" where
  "release cfg now' rv how redis d =
     (if \<not> rv_enabled rv \<or> none_or_empty (rv_event_id rv) then (redis, d)
      else
        let eid = the (rv_event_id rv);
            redis1 = (if uses_redis cfg \<and> rv_policy_ids rv \<noteq> [] then map_option (limiter_release (rv_policy_ids rv) eid) redis
                      else redis) in
        case find_event d eid of
          None \<Rightarrow> (redis1, d)
        | Some e \<Rightarrow>
            if qe_lease_token e = rv_lease_token rv
            then (redis1, put_event (e\<lparr>qe_status := take 32 how, qe_lease_token := None, qe_lease_expires_at := None,
                    qe_released_at := Some now'\<rparr>) d)
            else (redis1, d))"

section \<open>Maintenance\<close>

definition find_policy :: "quota_db \<Rightarrow> string \<Rightarrow> quota_policy option" where
  "find_policy d i = List.find (\<lambda>p. pl_id p = i) (qd_policies d)"

definition put_policy :: "quota_policy \<Rightarrow> quota_db \<Rightarrow> quota_db" where
  "put_policy p d = d\<lparr>qd_policies := map (\<lambda>x. if pl_id x = pl_id p then p else x) (qd_policies d)\<rparr>"

definition versioned_policy ::
  "time \<Rightarrow> string \<Rightarrow> string \<Rightarrow> int option \<Rightarrow> (quota_policy \<Rightarrow> quota_policy) \<Rightarrow> quota_db \<Rightarrow> (quota_error + quota_policy) \<times> quota_db" where
  \<comment> \<open>lock, compare the version where one is expected, change, raise the version\<close>
  "versioned_policy now' i actor expected change d =
     (case find_policy d i of
        None \<Rightarrow> (Inl Quota_not_found, d)
      | Some p \<Rightarrow>
        if expected \<noteq> None \<and> expected \<noteq> Some (pl_version p)
        then (Inl (Quota_conflict ''Quota policy version conflict''), d)
        else let p1 = (change p)\<lparr>pl_id := pl_id p, pl_updated_by := actor, pl_version := pl_version p + 1,
                        pl_updated_at := now'\<rparr>
             in (Inr p1, put_policy p1 d))"

definition disable_policy :: "time \<Rightarrow> string \<Rightarrow> string \<Rightarrow> quota_db \<Rightarrow> (quota_error + quota_policy) \<times> quota_db" where
  "disable_policy now' i actor d = versioned_policy now' i actor None (\<lambda>p. p\<lparr>pl_enabled := False\<rparr>) d"

definition limiter_clear :: "string \<Rightarrow> limiter \<Rightarrow> limiter" where
  \<comment> \<open>\<open>_clear_redis_policy\<close>: every key of the policy\<close>
  "limiter_clear i L = L\<lparr>rl_minute := (rl_minute L)(i := \<lambda>_. 0), rl_day_calls := (rl_day_calls L)(i := \<lambda>_. 0),
     rl_day_cost := (rl_day_cost L)(i := \<lambda>_. 0), rl_run := (rl_run L)(i := \<lambda>_. 0),
     rl_members := (rl_members L)(i := []), rl_idem := (rl_idem L)(i := \<lambda>_. False)\<rparr>"

definition reset_policy ::
  "settings \<Rightarrow> time \<Rightarrow> string \<Rightarrow> int \<Rightarrow> string \<Rightarrow> limiter option \<Rightarrow> quota_db
    \<Rightarrow> (quota_error + quota_policy) \<times> limiter option \<times> quota_db" where
  "reset_policy cfg now' i expected actor redis d =
     (case versioned_policy now' i actor (Some expected) (\<lambda>p. p\<lparr>pl_reset_at := Some now'\<rparr>) d of
        (Inl e, d1) \<Rightarrow> (Inl e, redis, d1)
      | (Inr p, d1) \<Rightarrow>
        if \<not> uses_redis cfg then (Inr p, redis, d1)
        else case redis of
          Some L \<Rightarrow> (Inr p, Some (limiter_clear i L), d1)
        | None \<Rightarrow> if mcp_quota_fail_closed cfg
                  then (Inl (Quota_unavailable ''MCP quota Redis backend is unavailable''), None, d)
                  else (Inr p, None, d1))"

definition temporarily_adjust_policy ::
  "time \<Rightarrow> string \<Rightarrow> (string \<times> rat option) list \<Rightarrow> int \<Rightarrow> int \<Rightarrow> string \<Rightarrow> quota_db \<Rightarrow> (quota_error + quota_policy) \<times> quota_db" where
  "temporarily_adjust_policy now' i overrides duration expected actor d =
     (if overrides = [] \<or> \<not> fst ` set overrides \<subseteq> {''rate_limit_per_minute'', ''daily_call_limit'', ''daily_cost_limit'',
           ''concurrent_limit'', ''run_call_limit'', ''max_run_duration_seconds''}
      then (Inl (Quota_conflict ''Unsupported temporary quota override''), d)
      else versioned_policy now' i actor (Some expected)
        (\<lambda>p. p\<lparr>pl_temporary_override := overrides,
               pl_temporary_override_expires_at := Some (now' + secs (max 60 (min duration (7 * 24 * 60 * 60))))\<rparr>) d)"

definition purge_usage :: "settings \<Rightarrow> time \<Rightarrow> string \<Rightarrow> int option \<Rightarrow> bool \<Rightarrow> quota_db \<Rightarrow> (int \<times> nat \<times> nat) \<times> quota_db" where
  \<comment> \<open>the days, the number of events and of rejections that go, and what is left\<close>
  "purge_usage cfg now' tenant retention dry_run d =
     (let days = max 30 (case retention of Some n \<Rightarrow> if n = 0 then mcp_quota_retention_days cfg else n
                         | None \<Rightarrow> mcp_quota_retention_days cfg);
          cutoff = now' - secs (days * 86400);
          old_event = (\<lambda>e. qe_tenant_id e = tenant \<and> qe_created_at e < cutoff \<and>
            (case qe_lease_expires_at e of None \<Rightarrow> True | Some x \<Rightarrow> x < now'));
          old_rejection = (\<lambda>r. qr_tenant_id r = tenant \<and> qr_created_at r < cutoff);
          gone = map qe_id (filter old_event (qd_events d)) in
      ((days, length gone, length (filter old_rejection (qd_rejections d))),
       if dry_run then d
       else d\<lparr>qd_charges := filter (\<lambda>c. qc_event_id c \<notin> set gone) (qd_charges d),
              qd_events := filter (\<lambda>e. \<not> old_event e) (qd_events d),
              qd_rejections := filter (\<lambda>r. \<not> old_rejection r) (qd_rejections d)\<rparr>))"

end
