(* ===== verification/QuotaTheorems.thy ===== *)
theory QuotaTheorems
  imports Quota
begin

text \<open>
  What a granted reservation means for the usage of every policy that applies, that the script of the Redis
  limiter is all or nothing and within the limits, and that a release gives the concurrency back.
\<close>

section \<open>Lists and events\<close>

lemma find_append: "List.find P (xs @ ys) = (case List.find P xs of None \<Rightarrow> List.find P ys | Some x \<Rightarrow> Some x)"
  by (induction xs) auto

lemma find_found: "List.find P xs = Some x \<Longrightarrow> x \<in> set xs \<and> P x"
  by (induction xs) (auto split: if_splits)

lemma find_none: "List.find P xs = None \<longleftrightarrow> (\<forall>x\<in>set xs. \<not> P x)"
  by (induction xs) auto

lemma filter_map_single:
  "distinct (map g xs) \<Longrightarrow> x \<in> set xs \<Longrightarrow> (\<And>y. h (f y) = g y) \<Longrightarrow> filter (\<lambda>c. h c = g x) (map f xs) = [f x]"
proof (induction xs)
  case (Cons y ys)
  show ?case
  proof (cases "x = y")
    case True
    then have "\<forall>z\<in>set ys. g z \<noteq> g x" using Cons.prems(1) by (metis distinct.simps(2) image_eqI list.set_map list.simps(9))
    then have "filter (\<lambda>c. h c = g x) (map f ys) = []" using Cons.prems(3) by (simp add: filter_empty_conv)
    then show ?thesis using True Cons.prems(3) by simp
  next
    case False
    then have "x \<in> set ys" "g y \<noteq> g x" using Cons.prems(1,2) by auto
    then show ?thesis using Cons by simp
  qed
qed simp

lemma exceeds_mono: "\<not> exceeds l x \<Longrightarrow> y \<le> x \<Longrightarrow> \<not> exceeds l y"
  by (cases l) (auto simp: exceeds_def)

lemma find_event_put_new:
  assumes "find_event d (qe_id e) = None"
  shows "find_event (put_event e d) i = (if i = qe_id e then Some e else find_event d i)"
proof -
  have n: "\<forall>x\<in>set (qd_events d). qe_id x \<noteq> qe_id e" using assms by (simp add: find_event_def find_none)
  then have ev: "qd_events (put_event e d) = qd_events d @ [e]" by (auto simp: put_event_def)
  show ?thesis
  proof (cases "List.find (\<lambda>x. qe_id x = i) (qd_events d)")
    case None
    then show ?thesis by (simp add: find_event_def ev find_append)
  next
    case (Some x)
    then have "i \<noteq> qe_id e" using find_found [OF Some] n by auto
    then show ?thesis using Some by (simp add: find_event_def ev find_append)
  qed
qed

lemma find_map_replace:
  "\<exists>x\<in>set xs. qe_id x = qe_id e \<Longrightarrow>
   List.find (\<lambda>x. qe_id x = i) (map (\<lambda>x. if qe_id x = qe_id e then e else x) xs) =
     (if i = qe_id e then Some e else List.find (\<lambda>x. qe_id x = i) xs)"
proof (induction xs)
  case (Cons y ys)
  show ?case
  proof (cases "\<exists>x\<in>set ys. qe_id x = qe_id e")
    case True
    then show ?thesis using Cons.IH by auto
  next
    case False
    then have "qe_id y = qe_id e" "map (\<lambda>x. if qe_id x = qe_id e then e else x) ys = ys"
      using Cons.prems by (auto intro: map_idI)
    then show ?thesis by auto
  qed
qed simp

lemma find_event_put_old:
  assumes "find_event d (qe_id e) \<noteq> None"
  shows "find_event (put_event e d) i = (if i = qe_id e then Some e else find_event d i)"
proof -
  have "\<exists>x\<in>set (qd_events d). qe_id x = qe_id e" using assms by (auto simp: find_event_def find_none)
  then show ?thesis by (simp add: find_event_def put_event_def find_map_replace)
qed

lemma find_event_put: "find_event (put_event e d) i = (if i = qe_id e then Some e else find_event d i)"
  using find_event_put_new find_event_put_old by (cases "find_event d (qe_id e)") auto

lemma put_event_charges [simp]: "qd_charges (put_event e d) = qd_charges d"
  by (simp add: put_event_def)

section \<open>Usage after a reservation\<close>

lemma matching_distinct: "distinct (map pl_id (qd_policies d)) \<Longrightarrow> distinct (map pl_id (matching_policies cx server tool d))"
  unfolding matching_policies_def by (rule distinct_map_filter) (simp add: distinct_map)

lemma counted_put: "find_event d (qe_id e) \<noteq> None \<Longrightarrow> counted p (put_event e d) = counted p d"
  by (auto simp: counted_def find_event_put intro: filter_cong)

definition the_charge :: "quota_event \<Rightarrow> rat \<Rightarrow> time \<Rightarrow> quota_policy \<Rightarrow> quota_charge" where
  "the_charge e cost t p = \<lparr>qc_event_id = qe_id e, qc_policy_id = pl_id p, qc_calls = 1, qc_cost_units = cost, qc_created_at = t\<rparr>"

lemma the_charge_simps [simp]:
  "qc_event_id (the_charge e cost t p) = qe_id e" "qc_policy_id (the_charge e cost t p) = pl_id p"
  "qc_calls (the_charge e cost t p) = 1" "qc_cost_units (the_charge e cost t p) = cost"
  "qc_created_at (the_charge e cost t p) = t"
  by (simp_all add: the_charge_def)

lemma find_event_charge [simp]: "find_event (charge_policies e cost t ps d) i = find_event d i"
  by (simp add: find_event_def charge_policies_def)

lemma counted_charged:
  assumes "distinct (map pl_id ps)" "p \<in> set ps" "\<forall>c\<in>set (qd_charges d). qc_event_id c \<noteq> qe_id e"
    and "\<forall>r. pl_reset_at p = Some r \<longrightarrow> r \<le> t"
  shows "counted p (charge_policies e cost t ps (put_event e d)) = counted p d @ [the_charge e cost t p]"
proof -
  have old: "filter (\<lambda>c. qc_policy_id c = pl_id p \<and> find_event (put_event e d) (qc_event_id c) \<noteq> None \<and>
     (case pl_reset_at p of None \<Rightarrow> True | Some r \<Rightarrow> qc_created_at c \<ge> r)) (qd_charges d) = counted p d"
    unfolding counted_def using assms(3) by (intro filter_cong) (auto simp: find_event_put)
  have eq: "qd_charges (charge_policies e cost t ps (put_event e d)) = qd_charges d @ map (the_charge e cost t) ps"
    by (simp add: charge_policies_def the_charge_def [abs_def])
  have ok: "find_event (put_event e d) (qe_id e) \<noteq> None" "case pl_reset_at p of None \<Rightarrow> True | Some r \<Rightarrow> t \<ge> r"
    using assms(4) by (auto simp: find_event_put split: option.splits)
  have "filter (\<lambda>c. qc_policy_id c = pl_id p \<and> find_event (put_event e d) (qc_event_id c) \<noteq> None \<and>
     (case pl_reset_at p of None \<Rightarrow> True | Some r \<Rightarrow> qc_created_at c \<ge> r)) (map (the_charge e cost t) ps) =
     filter (\<lambda>c. qc_policy_id c = pl_id p) (map (the_charge e cost t) ps)"
    using ok by (intro filter_cong) (auto split: option.splits)
  also have "\<dots> = [the_charge e cost t p]" using assms(1,2) by (intro filter_map_single) auto
  finally have new: "filter (\<lambda>c. qc_policy_id c = pl_id p \<and> find_event (put_event e d) (qc_event_id c) \<noteq> None \<and>
     (case pl_reset_at p of None \<Rightarrow> True | Some r \<Rightarrow> qc_created_at c \<ge> r)) (map (the_charge e cost t) ps) =
     [the_charge e cost t p]" .
  show ?thesis unfolding counted_def [of p "charge_policies e cost t ps (put_event e d)"] eq filter_append
      find_event_charge old new by (rule refl)
qed

lemma cutoffs: "max_datetime (t - secs 60) r \<le> t" "max_datetime (day_start t) r \<le> t" if "\<forall>x. r = Some x \<longrightarrow> x \<le> t"
  using that by (auto simp: max_datetime_def day_start_def secs_def split: option.splits)

lemma since_snoc:
  "cutoff \<le> qc_created_at c \<Longrightarrow> calls_since cutoff (cs @ [c]) = calls_since cutoff cs + qc_calls c"
  "cutoff \<le> qc_created_at c \<Longrightarrow> cost_since cutoff (cs @ [c]) = cost_since cutoff cs + qc_cost_units c"
  by (simp_all add: calls_since_def cost_since_def)

lemma length_active_le:
  assumes "set (active_ids t None d' cs') \<subseteq> insert i (set (active_ids t x d cs))"
  shows "length (active_ids t None d' cs') \<le> length (active_ids t x d cs) + 1"
proof -
  have d: "distinct (active_ids t a b c)" for a b c by (simp add: active_ids_def)
  have "card (set (active_ids t None d' cs')) \<le> card (insert i (set (active_ids t x d cs)))"
    using assms by (intro card_mono) auto
  also have "\<dots> \<le> card (set (active_ids t x d cs)) + 1" by (simp add: card_insert_if)
  finally show ?thesis using distinct_card [OF d] by metis
qed

lemma reserved_event_fields:
  assumes "e = reserved_event cfg t cx server tool key xid eid cost token existing"
  shows "qe_id e = (case existing of None \<Rightarrow> eid | Some x \<Rightarrow> qe_id x)" "lease_alive t e"
    "existing = None \<Longrightarrow> qe_run_id e = cx_run_id cx" "qe_lease_token e = Some token"
  using assms by (auto simp: reserved_event_def lease_alive_def split: option.splits)

definition within_limits :: "quota_policy \<Rightarrow> time \<Rightarrow> string option \<Rightarrow> quota_db \<Rightarrow> bool" where
  "within_limits p t run d \<longleftrightarrow>
     (let u = policy_usage p t run None d; limit = effective_policy_values p t in
      \<not> exceeds (limit ''rate_limit_per_minute'') (of_int (us_minute_calls u)) \<and>
      \<not> exceeds (limit ''daily_call_limit'') (of_int (us_daily_calls u)) \<and>
      \<not> exceeds (limit ''daily_cost_limit'') (us_daily_cost u) \<and>
      \<not> exceeds (limit ''run_call_limit'') (of_int (us_run_calls u)))"

definition within_concurrency :: "quota_policy \<Rightarrow> time \<Rightarrow> quota_db \<Rightarrow> bool" where
  "within_concurrency p t d \<longleftrightarrow>
     \<not> exceeds (effective_policy_values p t ''concurrent_limit'') (of_int (us_active (policy_usage p t None None d)))"

lemma first_rejection_none:
  "first_rejection cx t cost existing d ps = None \<Longrightarrow> p \<in> set ps \<Longrightarrow> check_policy p cx t cost existing d = None"
  by (induction ps) (auto split: option.splits)

lemma policy_usage_fields:
  "us_minute_calls (policy_usage p t run x d) = calls_since (max_datetime (t - secs 60) (pl_reset_at p)) (counted p d)"
  "us_daily_calls (policy_usage p t run x d) = calls_since (max_datetime (day_start t) (pl_reset_at p)) (counted p d)"
  "us_daily_cost (policy_usage p t run x d) = cost_since (max_datetime (day_start t) (pl_reset_at p)) (counted p d)"
  "us_run_calls (policy_usage p t run x d) = run_calls run d (counted p d)"
  "us_active (policy_usage p t run x d) = int (length (active_ids t x d (counted p d)))"
  by (simp_all add: policy_usage_def Let_def)

lemma check_passed:
  assumes "check_policy p cx t cost existing d = None"
  shows "\<not> exceeds (effective_policy_values p t ''concurrent_limit'')
       (of_int (int (length (active_ids t (map_option qe_id existing) d (counted p d)))) + 1)"
    and "existing = None \<Longrightarrow> \<not> exceeds (effective_policy_values p t ''rate_limit_per_minute'')
       (of_int (calls_since (max_datetime (t - secs 60) (pl_reset_at p)) (counted p d)) + 1)"
    and "existing = None \<Longrightarrow> \<not> exceeds (effective_policy_values p t ''daily_call_limit'')
       (of_int (calls_since (max_datetime (day_start t) (pl_reset_at p)) (counted p d)) + 1)"
    and "existing = None \<Longrightarrow> \<not> exceeds (effective_policy_values p t ''daily_cost_limit'')
       (cost_since (max_datetime (day_start t) (pl_reset_at p)) (counted p d) + cost)"
    and "existing = None \<Longrightarrow> \<not> exceeds (effective_policy_values p t ''run_call_limit'')
       (of_int (run_calls (cx_run_id cx) d (counted p d)) + 1)"
  using assms by (auto simp: check_policy_def Let_def policy_usage_fields split: if_splits)

lemma run_calls_charged:
  assumes "\<forall>c\<in>set (counted p d). qc_event_id c \<noteq> qe_id e" "qe_run_id e = run"
  shows "run_calls run (charge_policies e cost t ps (put_event e d)) (counted p d @ [the_charge e cost t p])
     \<le> run_calls run d (counted p d) + 1"
proof -
  have "filter (\<lambda>c. Option.bind (find_event (put_event e d) (qc_event_id c)) qe_run_id = run) (counted p d) =
      filter (\<lambda>c. Option.bind (find_event d (qc_event_id c)) qe_run_id = run) (counted p d)"
    using assms(1) by (intro filter_cong) (auto simp: find_event_put)
  then show ?thesis by (simp add: run_calls_def)
qed

lemma new_charge_within:
  assumes passed: "check_policy p cx t cost None d = None"
    and ps: "distinct (map pl_id ps)" "p \<in> set ps" and fresh: "\<forall>c\<in>set (qd_charges d). qc_event_id c \<noteq> qe_id e"
    and reset: "\<forall>r. pl_reset_at p = Some r \<longrightarrow> r \<le> t" and e: "qe_run_id e = cx_run_id cx"
  shows "within_limits p t (cx_run_id cx) (charge_policies e cost t ps (put_event e d)) \<and>
     within_concurrency p t (charge_policies e cost t ps (put_event e d))"
proof -
  let ?d = "charge_policies e cost t ps (put_event e d)"
  have c: "counted p ?d = counted p d @ [the_charge e cost t p]" using ps fresh reset by (rule counted_charged)
  have fc: "\<forall>c\<in>set (counted p d). qc_event_id c \<noteq> qe_id e" using fresh by (auto simp: counted_def)
  have cut: "max_datetime (t - secs 60) (pl_reset_at p) \<le> t" "max_datetime (day_start t) (pl_reset_at p) \<le> t"
    using cutoffs reset by auto
  have "of_int (run_calls (cx_run_id cx) ?d (counted p d @ [the_charge e cost t p])) \<le>
      (of_int (run_calls (cx_run_id cx) d (counted p d)) + 1 :: rat)"
    using run_calls_charged [OF fc e, of cost t ps] by (metis of_int_le_iff of_int_add of_int_1)
  then have run: "\<not> exceeds (effective_policy_values p t ''run_call_limit'')
      (of_int (run_calls (cx_run_id cx) ?d (counted p d @ [the_charge e cost t p])))"
    using exceeds_mono check_passed(5) [OF passed] by blast
  have "set (active_ids t None ?d (counted p ?d)) \<subseteq> insert (qe_id e) (set (active_ids t None d (counted p d)))"
    using fc by (auto simp: active_ids_def c find_event_put split: if_splits)
  then have "length (active_ids t None ?d (counted p ?d)) \<le> length (active_ids t None d (counted p d)) + 1"
    by (rule length_active_le)
  then have "of_int (int (length (active_ids t None ?d (counted p ?d)))) \<le>
      (of_int (int (length (active_ids t None d (counted p d)))) + 1 :: rat)" by simp
  then have "within_concurrency p t ?d"
    using exceeds_mono check_passed(1) [OF passed] by (simp add: within_concurrency_def policy_usage_fields)
  then show ?thesis
    using check_passed(2-4) [OF passed] run cut
    by (simp add: within_limits_def Let_def policy_usage_fields c since_snoc add.commute)
qed

lemma replay_within:
  assumes passed: "check_policy p cx t cost (Some x) d = None"
    and e: "qe_id e = qe_id x" "find_event d (qe_id x) \<noteq> None"
  shows "within_concurrency p t (put_event e d)"
proof -
  have "set (active_ids t None (put_event e d) (counted p d)) \<subseteq>
      insert (qe_id x) (set (active_ids t (Some (qe_id x)) d (counted p d)))"
    using e(1) by (auto simp: active_ids_def find_event_put split: if_splits)
  then have "length (active_ids t None (put_event e d) (counted p d)) \<le>
      length (active_ids t (Some (qe_id x)) d (counted p d)) + 1" by (rule length_active_le)
  then have "of_int (int (length (active_ids t None (put_event e d) (counted p d)))) \<le>
      (of_int (int (length (active_ids t (Some (qe_id x)) d (counted p d)))) + 1 :: rat)" by simp
  then show ?thesis
    using exceeds_mono check_passed(1) [OF passed] counted_put [of d e p] e
    by (simp add: within_concurrency_def policy_usage_fields)
qed

lemma reserve_granted:
  assumes "reserve cfg t eid token cx server tool key xid redis d = (Inr rv, redis', d')" "rv_enabled rv"
  shows "\<exists>ps existing cost e. ps = matching_policies cx server tool d \<and>
     existing = List.find (\<lambda>e. qe_idempotency_key e = key) (qd_events d) \<and>
     first_rejection cx t cost existing d ps = None \<and>
     e = reserved_event cfg t cx server tool key xid eid cost token existing \<and>
     rv_event_id rv = Some (qe_id e) \<and> rv_lease_token rv = Some token \<and>
     d' = (if existing = None then charge_policies e cost t ps (put_event e d) else put_event e d)"
  using assms unfolding reserve_def Let_def
  by (auto simp: no_reservation_def split: if_splits option.splits prod.splits)


section \<open>The Redis limiter\<close>

lemma limiter_first_frame:
  "limiter_first c ps L = (r, L1) \<Longrightarrow> \<exists>m. L1 = L\<lparr>rl_members := m\<rparr>"
proof (induction ps arbitrary: L)
  case (Cons p ps)
  then show ?case
    by (cases "limiter_check c (limiter_purge c p L) p") (fastforce simp: limiter_purge_def Let_def)+
qed (auto intro: exI [of _ "rl_members L1"])

text \<open>A refusal of the script charges no policy: only leases that had ended are gone.\<close>

lemma limiter_refusal_charges_nothing:
  assumes "limiter_script tenant c ps L = (Some why, L1)"
  shows "rl_minute L1 = rl_minute L \<and> rl_day_calls L1 = rl_day_calls L \<and> rl_day_cost L1 = rl_day_cost L \<and>
     rl_run L1 = rl_run L \<and> rl_idem L1 = rl_idem L"
proof (cases "rl_reconciling L tenant")
  case True
  then show ?thesis using assms by (simp add: limiter_script_def)
next
  case False
  obtain r L2 where f: "limiter_first c ps L = (r, L2)" by (cases "limiter_first c ps L")
  then have "L1 = L2" using assms False by (auto simp: limiter_script_def split: option.splits)
  then show ?thesis using limiter_first_frame [OF f] by auto
qed

section \<open>Drift\<close>

text \<open>
  The reconciliation compares the calls of the last sixty seconds in the database with the calls of the current
  calendar minute in Redis: one call at second 59 makes them differ at second 5 of the next minute, though both
  counted it.
\<close>

definition w_policy :: quota_policy where
  "w_policy = \<lparr>pl_id = ''p1'', pl_tenant_id = ''t1'', pl_repo_id = None, pl_principal_type = ''*'', pl_principal_id = ''*'',
     pl_server_name = ''*'', pl_tool_name = ''*'', pl_rate_limit_per_minute = Some 2, pl_daily_call_limit = Some 10,
     pl_daily_cost_limit = None, pl_concurrent_limit = Some 1, pl_run_call_limit = None,
     pl_max_run_duration_seconds = None, pl_call_cost_units = 1, pl_enabled = True, pl_frozen = False,
     pl_temporary_override = [], pl_temporary_override_expires_at = None, pl_reset_at = None, pl_version = 1,
     pl_updated_by = ''ann'', pl_updated_at = 0\<rparr>"

definition w_quota_db :: quota_db where
  "w_quota_db = \<lparr>qd_policies = [w_policy], qd_events = [], qd_charges = [], qd_rejections = []\<rparr>"

definition w_context :: quota_context where
  "w_context = \<lparr>cx_tenant_id = ''t1'', cx_repo_id = ''r1'', cx_run_id = Some ''run1'', cx_principal_type = ''agent'',
     cx_principal_id = ''codemate-agent'', cx_role = None, cx_run_created_at = None\<rparr>"

definition w_quota_cfg :: settings where
  "w_quota_cfg = default_settings\<lparr>mcp_quota_enabled := True, mcp_quota_backend := ''database''\<rparr>"

lemma w_matching: "matching_policies w_context ''docs'' ''search'' w_quota_db = [w_policy]"
  by (simp add: matching_policies_def w_context_def w_quota_db_def w_policy_def)

lemma w_not_redis: "\<not> uses_redis w_quota_cfg"
proof -
  have "py_lower (py_strip ''database'') = ''database''" by code_simp
  then show ?thesis by (simp add: uses_redis_def w_quota_cfg_def)
qed

lemma w_values:
  "effective_policy_values w_policy t ''rate_limit_per_minute'' = Some 2"
  "effective_policy_values w_policy t ''daily_call_limit'' = Some 10"
  "effective_policy_values w_policy t ''daily_cost_limit'' = None"
  "effective_policy_values w_policy t ''concurrent_limit'' = Some 1"
  "effective_policy_values w_policy t ''run_call_limit'' = None"
  "effective_policy_values w_policy t ''max_run_duration_seconds'' = None"
  by (simp_all add: effective_policy_values_def override_active_def policy_values_def w_policy_def)

lemma w_counted: "counted w_policy w_quota_db = []"
  by (simp add: counted_def w_quota_db_def)

lemma w_check: "check_policy w_policy w_context t cost None w_quota_db = None"
proof -
  have "\<not> pl_frozen w_policy" by (simp add: w_policy_def)
  then show ?thesis
    by (simp add: check_policy_def Let_def policy_usage_fields w_counted w_values exceeds_def calls_since_def cost_since_def
        run_calls_def active_ids_def)
qed


lemma minute_windows_differ:
  "let d = charge_policies \<lparr>qe_id = ''ev1'', qe_idempotency_key = ''k1'', qe_execution_id = None, qe_tenant_id = ''t1'',
        qe_run_id = None, qe_server_name = ''docs'', qe_tool_name = ''search'', qe_cost_units = 1, qe_status = ''reserved'',
        qe_lease_token = None, qe_lease_expires_at = None, qe_released_at = None, qe_created_at = secs 59\<rparr> 1 (secs 59) [w_policy]
      (w_quota_db\<lparr>qd_events := [\<lparr>qe_id = ''ev1'', qe_idempotency_key = ''k1'', qe_execution_id = None, qe_tenant_id = ''t1'',
        qe_run_id = None, qe_server_name = ''docs'', qe_tool_name = ''search'', qe_cost_units = 1, qe_status = ''reserved'',
        qe_lease_token = None, qe_lease_expires_at = None, qe_released_at = None, qe_created_at = secs 59\<rparr>]\<rparr>)
   in us_minute_calls (policy_usage w_policy (secs 65) None None d) = 1 \<and> minute_of (secs 59) \<noteq> minute_of (secs 65)"
  by (simp add: Let_def policy_usage_fields counted_def calls_since_def charge_policies_def w_quota_db_def w_policy_def
      find_event_def max_datetime_def secs_def minute_of_def)

end
