(* ===== verification/Tenancy.thy ===== *)
theory Tenancy
  imports Router
begin

text \<open>
  Tenants, grants and delegated identities (\<open>backend/app/services/mcp_tenancy_service.py\<close>) and the client
  and router a run gets under them (\<open>_create_mcp_client\<close> and \<open>_create_mcp_router\<close> of
  \<open>agent_service.py\<close>).  The tables are lists of rows, a \<open>select\<close> is a filter on them and \<open>scalar\<close> its
  first row.  Encryption, the validators of URLs, the token endpoint and the generated secrets answer
  through the fields of \<open>identity_env\<close>.
\<close>

section \<open>Rows and contexts\<close>

record tenant_row =
  tn_id :: string
  tn_slug :: string
  tn_name :: string

record membership_row =
  mb_tenant_id :: string
  mb_provider :: string
  mb_subject :: string
  mb_role :: string

record binding_row =
  bd_tenant_id :: string
  bd_server_name :: string
  bd_enabled :: bool

record grant_row =
  gr_tenant_id :: string
  gr_repo_id :: "string option"
  gr_principal_type :: string
  gr_principal_id :: string
  gr_server_name :: string
  gr_tool_name :: string
  gr_permissions :: "string list"
  gr_effect :: string
  gr_expires_at :: "time option"

record provider_row =
  pv_id :: string
  pv_tenant_id :: string
  pv_server_name :: string
  pv_authorization_url :: string
  pv_token_url :: string
  pv_client_id :: string
  pv_encrypted_client_secret :: "string option"
  pv_scopes :: "string list"
  pv_redirect_uri :: string
  pv_version :: int

record identity_row =
  id_id :: string
  id_tenant_id :: string
  id_provider_id :: string
  id_server_name :: string
  id_subject_provider :: string
  id_subject :: string
  id_encrypted_token_payload :: string
  id_delegation_token_hash :: string
  id_scopes :: "string list"
  id_expires_at :: "time option"
  id_revoked :: bool
  id_version :: int
  id_created_at :: time
  id_updated_at :: time

record oauth_state_row =
  os_state_hash :: string
  os_provider_id :: string
  os_subject_provider :: string
  os_subject :: string
  os_encrypted_verifier :: string
  os_expires_at :: time
  os_consumed_at :: "time option"

record tenancy_db =
  td_tenants :: "tenant_row list"
  td_memberships :: "membership_row list"
  td_bindings :: "binding_row list"
  td_grants :: "grant_row list"
  td_providers :: "provider_row list"
  td_identities :: "identity_row list"
  td_states :: "oauth_state_row list"

record run_owner =
  ro_tenant_id :: "string option"
  ro_repo_id :: string
  ro_principal_type :: string
  ro_principal_id :: string
  ro_delegated_identity_id :: "string option"

record auth_context =
  ac_tenant_id :: string
  ac_repo_id :: "string option"
  ac_principal_type :: string
  ac_principal_id :: string
  ac_principal_provider :: "string option"
  ac_delegated_identity_id :: "string option"

datatype tenancy_error =
    Authorization_denied string
  | Identity_error string
  | Other_error string

definition find_identity :: "tenancy_db \<Rightarrow> string \<Rightarrow> identity_row option" where
  "find_identity d i = List.find (\<lambda>r. id_id r = i) (td_identities d)"

definition find_provider :: "tenancy_db \<Rightarrow> string \<Rightarrow> provider_row option" where
  "find_provider d i = List.find (\<lambda>r. pv_id r = i) (td_providers d)"

definition put_identity :: "identity_row \<Rightarrow> tenancy_db \<Rightarrow> tenancy_db" where
  "put_identity r d = d\<lparr>td_identities := map (\<lambda>x. if id_id x = id_id r then r else x) (td_identities d)\<rparr>"

definition put_provider :: "provider_row \<Rightarrow> tenancy_db \<Rightarrow> tenancy_db" where
  "put_provider r d = d\<lparr>td_providers := map (\<lambda>x. if pv_id x = pv_id r then r else x) (td_providers d)\<rparr>"

definition put_state :: "oauth_state_row \<Rightarrow> tenancy_db \<Rightarrow> tenancy_db" where
  "put_state r d = d\<lparr>td_states := map (\<lambda>x. if os_state_hash x = os_state_hash r then r else x) (td_states d)\<rparr>"

section \<open>Authorization\<close>

definition default_tenant :: "settings \<Rightarrow> string \<Rightarrow> tenancy_db \<Rightarrow> tenant_row \<times> tenancy_db" where
  "default_tenant cfg new_id d =
     (case List.find (\<lambda>t. tn_slug t = mcp_default_tenant_slug cfg) (td_tenants d) of
        Some t \<Rightarrow> (t, d)
      | None \<Rightarrow> let t = \<lparr>tn_id = new_id, tn_slug = mcp_default_tenant_slug cfg, tn_name = ''Default''\<rparr>
          in (t, d\<lparr>td_tenants := td_tenants d @ [t]\<rparr>))"

definition context_for_run :: "settings \<Rightarrow> string \<Rightarrow> run_owner \<Rightarrow> tenancy_db \<Rightarrow> auth_context \<times> tenancy_db" where
  "context_for_run cfg new_id run d =
     (let (tenant, d') = (if none_or_empty (ro_tenant_id run)
                          then (let (t, d') = default_tenant cfg new_id d in (tn_id t, d'))
                          else (the (ro_tenant_id run), d));
          provider = (if none_or_empty (ro_delegated_identity_id run) then None
                      else map_option id_subject_provider (find_identity d' (the (ro_delegated_identity_id run))))
      in (\<lparr>ac_tenant_id = tenant, ac_repo_id = Some (ro_repo_id run),
            ac_principal_type = ro_principal_type run, ac_principal_id = ro_principal_id run,
            ac_principal_provider = provider, ac_delegated_identity_id = ro_delegated_identity_id run\<rparr>, d'))"

definition server_bound :: "tenancy_db \<Rightarrow> auth_context \<Rightarrow> string \<Rightarrow> bool" where
  \<comment> \<open>the first query of \<open>is_allowed\<close> finds a row\<close>
  "server_bound d cx server \<longleftrightarrow>
     list_ex (\<lambda>b. bd_tenant_id b = ac_tenant_id cx \<and> bd_server_name b = server \<and> bd_enabled b) (td_bindings d)"

definition grants_in_scope :: "time \<Rightarrow> tenancy_db \<Rightarrow> auth_context \<Rightarrow> string \<Rightarrow> string \<Rightarrow> grant_row list" where
  \<comment> \<open>the second query; \<open>repo_id = NULL\<close> holds of no row\<close>
  "grants_in_scope now d cx server tool =
     filter (\<lambda>g. gr_tenant_id g = ac_tenant_id cx \<and>
                 (gr_repo_id g = None \<or> (ac_repo_id cx \<noteq> None \<and> gr_repo_id g = ac_repo_id cx)) \<and>
                 gr_server_name g \<in> {server, ''*''} \<and> gr_tool_name g \<in> {tool, ''*''} \<and>
                 (case gr_expires_at g of None \<Rightarrow> True | Some t \<Rightarrow> now < t)) (td_grants d)"

definition membership_of :: "tenancy_db \<Rightarrow> auth_context \<Rightarrow> membership_row option" where
  "membership_of d cx =
     List.find (\<lambda>m. mb_tenant_id m = ac_tenant_id cx \<and> mb_subject m = ac_principal_id cx \<and>
                    (case ac_principal_provider cx of None \<Rightarrow> True | Some p \<Rightarrow> mb_provider m = p))
       (td_memberships d)"

definition principals :: "tenancy_db \<Rightarrow> auth_context \<Rightarrow> (string \<times> string) list" where
  "principals d cx =
     [(ac_principal_type cx, ac_principal_id cx), (''*'', ''*'')] @
     (if ac_principal_type cx = ''user''
      then (case membership_of d cx of None \<Rightarrow> [] | Some m \<Rightarrow> [(''role'', mb_role m)])
      else [])"

definition matching_grants :: "time \<Rightarrow> tenancy_db \<Rightarrow> auth_context \<Rightarrow> string \<Rightarrow> string \<Rightarrow> string \<Rightarrow> grant_row list" where
  "matching_grants now d cx server tool permission =
     filter (\<lambda>g. (gr_principal_type g, gr_principal_id g) \<in> set (principals d cx) \<and>
                 permission \<in> set (gr_permissions g))
       (grants_in_scope now d cx server tool)"

definition is_allowed :: "settings \<Rightarrow> time \<Rightarrow> tenancy_db \<Rightarrow> auth_context \<Rightarrow> string \<Rightarrow> string \<Rightarrow> string \<Rightarrow> bool" where
  "is_allowed cfg now d cx server tool permission =
     (if \<not> mcp_tenant_authorization_enabled cfg then True
      else if \<not> server_bound d cx server then False
      else let matching = matching_grants now d cx server tool permission in
        if list_ex (\<lambda>g. gr_effect g = ''deny'') matching then False
        else list_ex (\<lambda>g. gr_effect g = ''allow'') matching)"

definition require :: "settings \<Rightarrow> time \<Rightarrow> tenancy_db \<Rightarrow> auth_context \<Rightarrow> string \<Rightarrow> string \<Rightarrow> string \<Rightarrow> string option" where
  \<comment> \<open>the text of the exception, if it raises\<close>
  "require cfg now d cx server tool permission =
     (if \<not> is_allowed cfg now d cx server tool permission
      then Some (''Tenant policy denied '' @ permission @ '' for '' @ server @ ''.'' @ tool)
      else None)"

definition filter_config :: "settings \<Rightarrow> time \<Rightarrow> tenancy_db \<Rightarrow> auth_context \<Rightarrow> server_config \<Rightarrow> server_config option" where
  "filter_config cfg now d cx config =
     (let allowed = filter (\<lambda>tool. is_allowed cfg now d cx (sv_name config) tool ''discover'' \<and>
                                   is_allowed cfg now d cx (sv_name config) tool ''execute'')
                      (sv_allowed_tools config)
      in if allowed = [] then None
         else Some (config\<lparr>sv_allowed_tools := allowed,
                sv_tool_policies := filter (\<lambda>(tool, _). tool \<in> set allowed) (sv_tool_policies config),
                sv_agent_context_tools := filter (\<lambda>(tool, _). tool \<in> set allowed) (sv_agent_context_tools config)\<rparr>))"

definition filter_configs :: "settings \<Rightarrow> time \<Rightarrow> tenancy_db \<Rightarrow> auth_context \<Rightarrow> server_config list \<Rightarrow> server_config list" where
  "filter_configs cfg now d cx configs =
     (if \<not> mcp_tenant_authorization_enabled cfg then configs
      else List.map_filter (filter_config cfg now d cx) configs)"

section \<open>Delegated identities\<close>

record identity_env =
  ie_sha :: "string \<Rightarrow> string"
  ie_encrypt :: "string \<Rightarrow> pydict \<Rightarrow> string"
  ie_decrypt :: "string option \<Rightarrow> string \<Rightarrow> string + pydict"
  ie_unbound :: "string \<Rightarrow> bool"
  ie_check_url :: "bool \<Rightarrow> string \<Rightarrow> string option"
  ie_check_egress :: "string \<Rightarrow> string option"
  ie_post :: "string \<Rightarrow> pydict \<Rightarrow> string + pydict"

definition provider_secret_binding :: "string \<Rightarrow> string \<Rightarrow> string" where
  "provider_secret_binding tenant server = ''mcp-oauth-provider:'' @ tenant @ '':'' @ server"

definition oauth_state_binding :: "string \<Rightarrow> string" where
  "oauth_state_binding h = ''mcp-oauth-state:'' @ h"

definition delegated_identity_binding :: "string \<Rightarrow> string" where
  "delegated_identity_binding i = ''mcp-delegated-identity:'' @ i"

definition decrypt_sensitive :: "identity_env \<Rightarrow> string \<Rightarrow> string \<Rightarrow> string + pydict \<times> bool" where
  \<comment> \<open>\<open>decrypt_sensitive_payload\<close>: the flag tells that the envelope was bound to nothing\<close>
  "decrypt_sensitive ie text binding =
     (let unbound = ie_unbound ie text in
      case ie_decrypt ie (if unbound then None else Some binding) text of
        Inl e \<Rightarrow> Inl e
      | Inr payload \<Rightarrow> Inr (payload, unbound))"

definition configure_provider ::
  "identity_env \<Rightarrow> string \<Rightarrow> string \<Rightarrow> string \<Rightarrow> string \<Rightarrow> string \<Rightarrow> string \<Rightarrow> string option \<Rightarrow>
   string list \<Rightarrow> string \<Rightarrow> tenancy_db \<Rightarrow> (tenancy_error + provider_row) \<times> tenancy_db" where
  \<comment> \<open>an omitted secret keeps the stored one\<close>
  "configure_provider ie new_id tenant server authorization_url token_url client_id client_secret scopes redirect_uri d =
     (case List.find (\<lambda>e. e \<noteq> None) (map (ie_check_url ie False) [authorization_url, token_url, redirect_uri]) of
        Some e \<Rightarrow> (Inl (Other_error (the e)), d)
      | None \<Rightarrow>
        let found = List.find (\<lambda>p. pv_tenant_id p = tenant \<and> pv_server_name p = server) (td_providers d);
            secret = (if none_or_empty client_secret then Option.bind found pv_encrypted_client_secret
                      else Some (ie_encrypt ie (provider_secret_binding tenant server)
                                  [(''client_secret'', PStr (the client_secret))]));
            row = \<lparr>pv_id = (case found of None \<Rightarrow> new_id | Some p \<Rightarrow> pv_id p), pv_tenant_id = tenant,
              pv_server_name = server, pv_authorization_url = authorization_url, pv_token_url = token_url,
              pv_client_id = client_id, pv_encrypted_client_secret = secret, pv_scopes = scopes,
              pv_redirect_uri = redirect_uri,
              pv_version = (case found of None \<Rightarrow> 1 | Some p \<Rightarrow> pv_version p + 1)\<rparr>
        in (Inr row, if found = None then d\<lparr>td_providers := td_providers d @ [row]\<rparr> else put_provider row d))"

definition start_authorization ::
  "settings \<Rightarrow> identity_env \<Rightarrow> string \<Rightarrow> string \<Rightarrow> time \<Rightarrow> string \<Rightarrow> string \<Rightarrow> string \<Rightarrow> tenancy_db
     \<Rightarrow> (tenancy_error + string) \<times> tenancy_db" where
  \<comment> \<open>the result is the \<open>state\<close> parameter of the URL the user is sent to\<close>
  "start_authorization cfg ie state verifier now provider_id subject_provider subject d =
     (case find_provider d provider_id of
        None \<Rightarrow> (Inl (Identity_error ''Delegated OAuth provider not found''), d)
      | Some provider \<Rightarrow>
          (Inr state, d\<lparr>td_states := td_states d @
             [\<lparr>os_state_hash = ie_sha ie state, os_provider_id = pv_id provider,
                os_subject_provider = subject_provider, os_subject = subject,
                os_encrypted_verifier = ie_encrypt ie (oauth_state_binding (ie_sha ie state))
                  [(''verifier'', PStr verifier)],
                os_expires_at = now + secs (max 60 (mcp_delegated_oauth_state_ttl_seconds cfg)),
                os_consumed_at = None\<rparr>]\<rparr>))"

definition exchange ::
  "settings \<Rightarrow> identity_env \<Rightarrow> provider_row \<Rightarrow> pydict \<Rightarrow> (tenancy_error + pydict) \<times> provider_row" where
  \<comment> \<open>\<open>_exchange\<close>; the second component is the provider with its secret bound again\<close>
  "exchange cfg ie provider data =
     (case ie_check_url ie True (pv_token_url provider) of
        Some e \<Rightarrow> (Inl (Other_error e), provider)
      | None \<Rightarrow>
     (case (if mcp_sandbox_enabled cfg then ie_check_egress ie (pv_token_url provider) else None) of
        Some e \<Rightarrow> (Inl (Other_error e), provider)
      | None \<Rightarrow>
        let payload = dset data ''client_id'' (PStr (pv_client_id provider));
            binding = provider_secret_binding (pv_tenant_id provider) (pv_server_name provider)
        in case (if none_or_empty (pv_encrypted_client_secret provider) then Inr (payload, provider)
                 else (case decrypt_sensitive ie (the (pv_encrypted_client_secret provider)) binding of
                         Inl e \<Rightarrow> Inl (Other_error e)
                       | Inr (secret, migrated) \<Rightarrow>
                           Inr (dset payload ''client_secret'' (dget secret ''client_secret''),
                                if migrated
                                then provider\<lparr>pv_encrypted_client_secret := Some (ie_encrypt ie binding secret)\<rparr>
                                else provider))) of
             Inl e \<Rightarrow> (Inl e, provider)
           | Inr (payload, provider) \<Rightarrow>
               (case ie_post ie (pv_token_url provider) payload of
                  Inl e \<Rightarrow> (Inl (Identity_error (''Delegated OAuth token exchange failed: '' @ e)), provider)
                | Inr result \<Rightarrow>
                    if \<not> truthy (dget result ''access_token'')
                    then (Inl (Identity_error ''OAuth response did not include access_token''), provider)
                    else (Inr result, provider))))"

fun ascii_digits :: "bool \<Rightarrow> int \<Rightarrow> string \<Rightarrow> int option" where
  \<comment> \<open>digits, single underscores allowed between two; the flag tells that a digit came last\<close>
  "ascii_digits after n [] = (if after then Some n else None)"
| "ascii_digits after n (c # s) =
     (if 48 \<le> (of_char c :: nat) \<and> (of_char c :: nat) \<le> 57 then ascii_digits True (10 * n + (of_char c - 48)) s
      else if c = CHR ''_'' \<and> after then ascii_digits False n s
      else None)"

definition int_of_text :: "string \<Rightarrow> int option" where
  \<comment> \<open>\<open>int(s)\<close>\<close>
  "int_of_text s =
     (case py_strip s of
        [] \<Rightarrow> None
      | c # t \<Rightarrow> if c = CHR ''-'' then map_option uminus (ascii_digits False 0 t)
                 else if c = CHR ''+'' then ascii_digits False 0 t
                 else ascii_digits False 0 (c # t))"

definition token_lifetime :: "pydict \<Rightarrow> tenancy_error + int" where
  \<comment> \<open>\<open>max(1, int(token_data.get("expires_in") or 3600))\<close>\<close>
  "token_lifetime token =
     (let v = dget token ''expires_in'' in
      if \<not> truthy v then Inr 3600
      else case (case v of PStr s \<Rightarrow> int_of_text s | _ \<Rightarrow> py_int v) of
             None \<Rightarrow> Inl (Other_error ''invalid literal for int()'')
           | Some n \<Rightarrow> Inr (max 1 n))"

definition py_words :: "string \<Rightarrow> string list" where
  \<comment> \<open>\<open>s.split()\<close>\<close>
  "py_words s = filter (\<lambda>w. w \<noteq> []) (py_split CHR '' '' (map (\<lambda>c. if is_space c then CHR '' '' else c) s))"

definition granted_scopes :: "provider_row \<Rightarrow> pydict \<Rightarrow> string list" where
  "granted_scopes provider token =
     (let scope = dget token ''scope'';
          scopes = py_words (if truthy scope then py_str scope else [])
      in if scopes = [] then pv_scopes provider else scopes)"

definition complete_authorization ::
  "settings \<Rightarrow> identity_env \<Rightarrow> string \<Rightarrow> string \<Rightarrow> time \<Rightarrow> string \<Rightarrow> string \<Rightarrow> tenancy_db
     \<Rightarrow> (tenancy_error + identity_row \<times> string) \<times> tenancy_db" where
  "complete_authorization cfg ie identity_id delegation_token now code state d =
     (case List.find (\<lambda>s. os_state_hash s = ie_sha ie state) (td_states d) of
        None \<Rightarrow> (Inl (Identity_error ''Delegated OAuth state is invalid or expired''), d)
      | Some st \<Rightarrow>
      if os_consumed_at st \<noteq> None \<or> os_expires_at st \<le> now
      then (Inl (Identity_error ''Delegated OAuth state is invalid or expired''), d)
      else case find_provider d (os_provider_id st) of
        None \<Rightarrow> (Inl (Identity_error ''Delegated OAuth provider not found''), d)
      | Some provider \<Rightarrow>
      let binding = oauth_state_binding (os_state_hash st) in
      case decrypt_sensitive ie (os_encrypted_verifier st) binding of
        Inl e \<Rightarrow> (Inl (Other_error e), d)
      | Inr (verifier, migrated) \<Rightarrow>
      case exchange cfg ie provider
             [(''grant_type'', PStr ''authorization_code''), (''code'', PStr code),
              (''redirect_uri'', PStr (pv_redirect_uri provider)),
              (''code_verifier'', dget verifier ''verifier'')] of
        (Inl e, _) \<Rightarrow> (Inl e, d)
      | (Inr token, provider') \<Rightarrow>
      case token_lifetime token of
        Inl e \<Rightarrow> (Inl e, d)
      | Inr lifetime \<Rightarrow>
        let st' = st\<lparr>os_consumed_at := Some now,
              os_encrypted_verifier := (if migrated then ie_encrypt ie binding verifier
                                        else os_encrypted_verifier st)\<rparr>;
            identity = \<lparr>id_id = identity_id, id_tenant_id = pv_tenant_id provider', id_provider_id = pv_id provider',
              id_server_name = pv_server_name provider', id_subject_provider = os_subject_provider st,
              id_subject = os_subject st,
              id_encrypted_token_payload = ie_encrypt ie (delegated_identity_binding identity_id) token,
              id_delegation_token_hash = ie_sha ie delegation_token,
              id_scopes = granted_scopes provider' token, id_expires_at = Some (now + secs lifetime),
              id_revoked = False, id_version = 1, id_created_at = now, id_updated_at = now\<rparr>;
            d' = put_provider provider' (put_state st' d)
        in (Inr (identity, delegation_token), d'\<lparr>td_identities := td_identities d' @ [identity]\<rparr>))"

definition verify_for_run :: "identity_env \<Rightarrow> string \<Rightarrow> string \<Rightarrow> string \<Rightarrow> tenancy_db \<Rightarrow> tenancy_error + identity_row" where
  "verify_for_run ie identity_id delegation_token tenant d =
     (case find_identity d identity_id of
        None \<Rightarrow> Inl (Identity_error ''Delegated identity proof is invalid'')
      | Some identity \<Rightarrow>
          if id_tenant_id identity \<noteq> tenant \<or> id_revoked identity \<or>
             id_delegation_token_hash identity \<noteq> ie_sha ie delegation_token
          then Inl (Identity_error ''Delegated identity proof is invalid'')
          else Inr identity)"

definition access_token ::
  "settings \<Rightarrow> identity_env \<Rightarrow> time \<Rightarrow> string \<Rightarrow> tenancy_db \<Rightarrow> (tenancy_error + string) \<times> tenancy_db" where
  "access_token cfg ie now identity_id d =
     (case find_identity d identity_id of
        None \<Rightarrow> (Inl (Identity_error ''Delegated identity is unavailable''), d)
      | Some identity \<Rightarrow>
      if id_revoked identity then (Inl (Identity_error ''Delegated identity is unavailable''), d)
      else
      let binding = delegated_identity_binding (id_id identity) in
      case decrypt_sensitive ie (id_encrypted_token_payload identity) binding of
        Inl e \<Rightarrow> (Inl (Other_error e), d)
      | Inr (payload, migrated) \<Rightarrow>
      let skew = secs (max 0 (mcp_oauth_token_expiry_skew_seconds cfg)) in
      if (case id_expires_at identity of None \<Rightarrow> False | Some t \<Rightarrow> now + skew < t)
      then (Inr (py_str (dget payload ''access_token'')),
            if migrated
            then put_identity (identity\<lparr>id_encrypted_token_payload := ie_encrypt ie binding payload\<rparr>) d
            else d)
      else
      let refresh_token = (if truthy (dget payload ''refresh_token'') then py_str (dget payload ''refresh_token'') else []) in
      if refresh_token = []
      then (Inl (Identity_error ''Delegated identity has expired without refresh token''), d)
      else case find_provider d (id_provider_id identity) of
        None \<Rightarrow> (Inl (Identity_error ''Delegated OAuth provider not found''), d)
      | Some provider \<Rightarrow>
      case exchange cfg ie provider
             [(''grant_type'', PStr ''refresh_token''), (''refresh_token'', PStr refresh_token)] of
        (Inl e, _) \<Rightarrow> (Inl e, d)
      | (Inr refreshed, provider') \<Rightarrow>
      let refreshed = (if map_of refreshed ''refresh_token'' = None
                       then dset refreshed ''refresh_token'' (PStr refresh_token) else refreshed) in
      case token_lifetime refreshed of
        Inl e \<Rightarrow> (Inl e, d)
      | Inr lifetime \<Rightarrow>
          (Inr (py_str (dget refreshed ''access_token'')),
           put_identity (identity\<lparr>id_encrypted_token_payload := ie_encrypt ie binding refreshed,
                id_expires_at := Some (now + secs lifetime), id_version := id_version identity + 1,
                id_updated_at := now\<rparr>) (put_provider provider' d)))"

definition revoke :: "time \<Rightarrow> string \<Rightarrow> tenancy_db \<Rightarrow> (tenancy_error + identity_row) \<times> tenancy_db" where
  "revoke now identity_id d =
     (case find_identity d identity_id of
        None \<Rightarrow> (Inl (Identity_error ''Delegated identity not found''), d)
      | Some identity \<Rightarrow>
          let row = identity\<lparr>id_revoked := True, id_version := id_version identity + 1, id_updated_at := now\<rparr>
          in (Inr row, put_identity row d))"

section \<open>The client and the router of a run\<close>

definition bearer_for :: "identity_row \<Rightarrow> string \<Rightarrow> server_config list \<Rightarrow> server_config list" where
  "bearer_for identity token configs =
     map (\<lambda>c. if sv_name c = id_server_name identity then c\<lparr>sv_bearer_token := Some token\<rparr> else c) configs"

definition run_configs ::
  "settings \<Rightarrow> identity_env \<Rightarrow> string \<Rightarrow> time \<Rightarrow> run_owner \<Rightarrow> server_config list \<Rightarrow> tenancy_db
     \<Rightarrow> (tenancy_error + server_config list) \<times> tenancy_db" where
  \<comment> \<open>the server configurations \<open>_create_mcp_client\<close> gives the client of a run\<close>
  "run_configs cfg ie new_id now run configs d =
     (if \<not> mcp_tenant_authorization_enabled cfg then (Inr configs, d)
      else
      let (cx, d') = context_for_run cfg new_id run d;
          configs' = filter_configs cfg now d' cx configs
      in if none_or_empty (ro_delegated_identity_id run) then (Inr configs', d')
         else case find_identity d' (the (ro_delegated_identity_id run)) of
           None \<Rightarrow> (Inr configs', d')
         | Some identity \<Rightarrow>
             (case access_token cfg ie now (id_id identity) d' of
                (Inl e, d'') \<Rightarrow> (Inl e, d'')
              | (Inr token, d'') \<Rightarrow> (Inr (bearer_for identity token configs'), d'')))"

definition run_authorizer ::
  "settings \<Rightarrow> time \<Rightarrow> tenancy_db \<Rightarrow> auth_context \<Rightarrow> (string \<Rightarrow> string \<Rightarrow> string \<Rightarrow> string option) option" where
  \<comment> \<open>the closure \<open>authorizer\<close> of \<open>_create_mcp_router\<close>, called at time \<open>now\<close> on the tables of that time\<close>
  "run_authorizer cfg now d cx =
     (if mcp_tenant_authorization_enabled cfg then Some (require cfg now d cx) else None)"

definition run_router :: "settings \<Rightarrow> client \<Rightarrow> time \<Rightarrow> tenancy_db \<Rightarrow> auth_context \<Rightarrow> router option" where
  \<comment> \<open>\<open>_create_mcp_router\<close>\<close>
  "run_router cfg cl now d cx =
     (if \<not> mcp_client_enabled cfg \<or> \<not> mcp_tool_router_enabled cfg then None
      else Some (new_router cfg cl None (run_authorizer cfg now d cx)))"

end
