(* ===== verification/TenancyTheorems.thy ===== *)
theory TenancyTheorems
  imports Tenancy RouterTheorems
begin

text \<open>
  What the tenant policy permits, stated over the tables without the code's order of tests, and that both
  places that apply it, the filter of the configurations and the authorizer of the router, apply exactly it.
  Then the guarantees of delegated identities: a state is used once, a revoked identity gives no token.
\<close>

section \<open>The policy as a specification\<close>

definition speaks_for :: "tenancy_db \<Rightarrow> auth_context \<Rightarrow> grant_row \<Rightarrow> bool" where
  "speaks_for d cx g \<longleftrightarrow>
     (gr_principal_type g = ac_principal_type cx \<and> gr_principal_id g = ac_principal_id cx) \<or>
     (gr_principal_type g = ''*'' \<and> gr_principal_id g = ''*'') \<or>
     (ac_principal_type cx = ''user'' \<and> gr_principal_type g = ''role'' \<and>
        map_option mb_role (membership_of d cx) = Some (gr_principal_id g))"

definition applies :: "time \<Rightarrow> tenancy_db \<Rightarrow> auth_context \<Rightarrow> string \<Rightarrow> string \<Rightarrow> string \<Rightarrow> grant_row \<Rightarrow> bool" where
  "applies now d cx server tool permission g \<longleftrightarrow>
     g \<in> set (td_grants d) \<and> gr_tenant_id g = ac_tenant_id cx \<and>
     (\<forall>r. gr_repo_id g = Some r \<longrightarrow> ac_repo_id cx = Some r) \<and>
     (gr_server_name g = server \<or> gr_server_name g = ''*'') \<and>
     (gr_tool_name g = tool \<or> gr_tool_name g = ''*'') \<and>
     (\<forall>t. gr_expires_at g = Some t \<longrightarrow> now < t) \<and>
     permission \<in> set (gr_permissions g) \<and> speaks_for d cx g"

definition permits :: "time \<Rightarrow> tenancy_db \<Rightarrow> auth_context \<Rightarrow> string \<Rightarrow> string \<Rightarrow> string \<Rightarrow> bool" where
  \<comment> \<open>the server is bound to the tenant, some grant allows, and none denies\<close>
  "permits now d cx server tool permission \<longleftrightarrow>
     (\<exists>b\<in>set (td_bindings d). bd_tenant_id b = ac_tenant_id cx \<and> bd_server_name b = server \<and> bd_enabled b) \<and>
     (\<exists>g. applies now d cx server tool permission g \<and> gr_effect g = ''allow'') \<and>
     (\<nexists>g. applies now d cx server tool permission g \<and> gr_effect g = ''deny'')"

lemma matching_iff: "g \<in> set (matching_grants now d cx server tool permission) \<longleftrightarrow> applies now d cx server tool permission g"
proof -
  have p: "(gr_principal_type g, gr_principal_id g) \<in> set (principals d cx) \<longleftrightarrow> speaks_for d cx g"
    by (cases "membership_of d cx"; cases "ac_principal_type cx = ''user''"; unfold principals_def speaks_for_def; simp)
      auto
  have r: "gr_repo_id g = None \<or> (ac_repo_id cx \<noteq> None \<and> gr_repo_id g = ac_repo_id cx) \<longleftrightarrow>
      (\<forall>r. gr_repo_id g = Some r \<longrightarrow> ac_repo_id cx = Some r)"
    by (cases "gr_repo_id g") auto
  have e: "(case gr_expires_at g of None \<Rightarrow> True | Some t \<Rightarrow> now < t) \<longleftrightarrow> (\<forall>t. gr_expires_at g = Some t \<longrightarrow> now < t)"
    by (cases "gr_expires_at g") auto
  show ?thesis
    unfolding matching_grants_def grants_in_scope_def applies_def set_filter mem_Collect_eq p r e insert_iff empty_iff
    by blast
qed

lemma is_allowed_iff:
  assumes "mcp_tenant_authorization_enabled cfg"
  shows "is_allowed cfg now d cx server tool permission \<longleftrightarrow> permits now d cx server tool permission"
  using assms unfolding is_allowed_def permits_def server_bound_def list_ex_iff Let_def
  by (auto simp: matching_iff)

lemma require_iff:
  assumes "mcp_tenant_authorization_enabled cfg"
  shows "require cfg now d cx server tool permission = None \<longleftrightarrow> permits now d cx server tool permission"
  by (simp add: require_def is_allowed_iff [OF assms])

section \<open>The filter\<close>

definition offers :: "server_config list \<Rightarrow> string \<Rightarrow> string \<Rightarrow> bool" where
  "offers configs server tool \<longleftrightarrow> (\<exists>c\<in>set configs. sv_name c = server \<and> tool \<in> set (sv_allowed_tools c))"

lemma filter_configs_offers:
  assumes "mcp_tenant_authorization_enabled cfg"
  shows "offers (filter_configs cfg now d cx configs) server tool \<longleftrightarrow>
     offers configs server tool \<and> permits now d cx server tool ''discover'' \<and> permits now d cx server tool ''execute''"
proof -
  have one: "(\<exists>c'. filter_config cfg now d cx c = Some c' \<and> sv_name c' = server \<and> tool \<in> set (sv_allowed_tools c')) \<longleftrightarrow>
     sv_name c = server \<and> tool \<in> set (sv_allowed_tools c) \<and> permits now d cx server tool ''discover'' \<and>
     permits now d cx server tool ''execute''" for c
  proof -
    define as where "as = filter (\<lambda>tool. permits now d cx (sv_name c) tool ''discover'' \<and>
        permits now d cx (sv_name c) tool ''execute'') (sv_allowed_tools c)"
    have "filter_config cfg now d cx c = (if as = [] then None else Some (c\<lparr>sv_allowed_tools := as,
           sv_tool_policies := filter (\<lambda>(tool, _). tool \<in> set as) (sv_tool_policies c),
           sv_agent_context_tools := filter (\<lambda>(tool, _). tool \<in> set as) (sv_agent_context_tools c)\<rparr>))"
      by (simp add: filter_config_def is_allowed_iff [OF assms] as_def Let_def)
    then show ?thesis by (auto simp: as_def filter_empty_conv split: if_splits)
  qed
  have "offers (filter_configs cfg now d cx configs) server tool \<longleftrightarrow>
     (\<exists>c\<in>set configs. \<exists>c'. filter_config cfg now d cx c = Some c' \<and> sv_name c' = server \<and> tool \<in> set (sv_allowed_tools c'))"
    using assms by (force simp: offers_def filter_configs_def map_filter_def)
  then show ?thesis unfolding one by (auto simp: offers_def)
qed

lemma filter_config_restricts:
  assumes "filter_config cfg now d cx c = Some c'"
  shows "sv_name c' = sv_name c \<and> sv_enabled c' = sv_enabled c \<and> sv_allowed_tools c' \<noteq> [] \<and>
     fst ` set (sv_tool_policies c') \<subseteq> set (sv_allowed_tools c') \<and>
     fst ` set (sv_agent_context_tools c') \<subseteq> set (sv_allowed_tools c')"
  using assms by (auto simp: filter_config_def Let_def split: if_splits)

lemma bearer_for_offers: "offers (bearer_for identity token configs) server tool \<longleftrightarrow> offers configs server tool"
  unfolding offers_def bearer_for_def list.set_map bex_simps by (rule bex_cong) auto

lemma run_configs_offers:
  assumes "mcp_tenant_authorization_enabled cfg" and "run_configs cfg ie new_id now run configs d = (Inr configs', d')"
    and "offers configs' server tool"
  shows "\<exists>d\<^sub>1 cx. context_for_run cfg new_id run d = (cx, d\<^sub>1) \<and> offers configs server tool \<and>
     permits now d\<^sub>1 cx server tool ''discover'' \<and> permits now d\<^sub>1 cx server tool ''execute''"
proof -
  obtain cx d1 where c: "context_for_run cfg new_id run d = (cx, d1)" by fastforce
  have "offers (filter_configs cfg now d1 cx configs) server tool"
    using assms(2,3) by (auto simp: run_configs_def assms(1) c Let_def bearer_for_offers split: option.splits if_splits prod.splits sum.splits)
  then show ?thesis using c by (simp add: filter_configs_offers [OF assms(1)])
qed

section \<open>Delegated identities\<close>

lemma find_put_identity:
  "find_identity (put_identity r d) (id_id r) = (if find_identity d (id_id r) = None then None else Some r)"
proof -
  have "List.find (\<lambda>x. id_id x = id_id r) (map (\<lambda>x. if id_id x = id_id r then r else x) xs) =
     (if List.find (\<lambda>x. id_id x = id_id r) xs = None then None else Some r)" for xs
    by (induction xs) auto
  then show ?thesis by (simp add: find_identity_def put_identity_def)
qed

lemma find_identity_id: "find_identity d i = Some r \<Longrightarrow> id_id r = i"
  by (auto simp: find_identity_def dest: find_someD)

lemma revoked_gives_nothing:
  \<comment> \<open>from the revocation on, the identity can neither start a run nor give a token\<close>
  assumes "revoke now i d = (Inr r, d')"
  shows "find_identity d' i = Some r \<and> id_revoked r \<and>
     access_token cfg ie later i d' = (Inl (Identity_error ''Delegated identity is unavailable''), d') \<and>
     verify_for_run ie i proof tenant d' = Inl (Identity_error ''Delegated identity proof is invalid'')"
proof -
  obtain x where x: "find_identity d i = Some x" "r = x\<lparr>id_revoked := True, id_version := id_version x + 1, id_updated_at := now\<rparr>"
      "d' = put_identity r d"
    using assms by (auto simp: revoke_def Let_def split: option.splits)
  then have "id_id r = i" by (simp add: find_identity_id)
  then have "find_identity d' i = Some r" using find_put_identity [of r d] x by simp
  then show ?thesis using x(2) by (simp add: access_token_def verify_for_run_def)
qed

lemma find_put_state:
  "List.find (\<lambda>s. os_state_hash s = os_state_hash r) (td_states (put_state r d)) =
     (if List.find (\<lambda>s. os_state_hash s = os_state_hash r) (td_states d) = None then None else Some r)"
proof -
  have "List.find (\<lambda>x. os_state_hash x = os_state_hash r) (map (\<lambda>x. if os_state_hash x = os_state_hash r then r else x) xs) =
     (if List.find (\<lambda>x. os_state_hash x = os_state_hash r) xs = None then None else Some r)" for xs
    by (induction xs) auto
  then show ?thesis by (simp add: put_state_def)
qed

lemma state_is_used_once:
  assumes "complete_authorization cfg ie i tok now code state d = (Inr res, d')"
  shows "fst (complete_authorization cfg' ie i' tok' now' code' state d') =
     Inl (Identity_error ''Delegated OAuth state is invalid or expired'')"
proof -
  obtain st where st: "List.find (\<lambda>s. os_state_hash s = ie_sha ie state) (td_states d) = Some st"
    using assms by (auto simp: complete_authorization_def split: option.splits)
  then have h: "os_state_hash st = ie_sha ie state" by (auto dest: find_someD)
  obtain v m where dec: "decrypt_sensitive ie (os_encrypted_verifier st) (oauth_state_binding (os_state_hash st)) = Inr (v, m)"
    using assms st by (auto simp: complete_authorization_def Let_def split: option.splits if_splits sum.splits prod.splits)
  define ev where "ev = (if m then ie_encrypt ie (oauth_state_binding (os_state_hash st)) v else os_encrypted_verifier st)"
  have "td_states d' = td_states (put_state (st\<lparr>os_consumed_at := Some now, os_encrypted_verifier := ev\<rparr>) d)"
    using assms st dec unfolding ev_def
    by (auto simp: complete_authorization_def Let_def put_provider_def put_state_def
        split: option.splits if_splits sum.splits prod.splits)
  then have "List.find (\<lambda>s. os_state_hash s = ie_sha ie state) (td_states d') =
      Some (st\<lparr>os_consumed_at := Some now, os_encrypted_verifier := ev\<rparr>)"
    using find_put_state [of "st\<lparr>os_consumed_at := Some now, os_encrypted_verifier := ev\<rparr>" d] st h by simp
  then show ?thesis by (simp add: complete_authorization_def)
qed

section \<open>The policy at the server\<close>

lemma may_call_permits:
  assumes "mcp_tenant_authorization_enabled cfg" and "run_router cfg cl now d cx = Some rt" and "may_call rt server tool"
  shows "permits now d cx server tool ''execute'' \<and> offers (cl_servers cl) server tool"
  using assms(2,3) unfolding run_router_def new_router_def run_authorizer_def
  by (auto simp: may_call_def offers_def assms(1) require_iff [OF assms(1)] split: if_splits)


definition w_tenancy :: tenancy_db where
  "w_tenancy = \<lparr>td_tenants = [], td_memberships = [],
     td_bindings = [\<lparr>bd_tenant_id = ''t'', bd_server_name = ''docs'', bd_enabled = True\<rparr>],
     td_grants = [\<lparr>gr_tenant_id = ''t'', gr_repo_id = None, gr_principal_type = ''*'', gr_principal_id = ''*'',
        gr_server_name = ''docs'', gr_tool_name = ''*'', gr_permissions = [''discover'', ''execute''],
        gr_effect = ''allow'', gr_expires_at = None\<rparr>],
     td_providers = [], td_identities = [], td_states = []\<rparr>"

definition w_owner :: run_owner where
  "w_owner = \<lparr>ro_tenant_id = Some ''t'', ro_repo_id = ''r'', ro_principal_type = ''service'',
     ro_principal_id = ''ci'', ro_delegated_identity_id = None\<rparr>"

definition w_tenant_context :: auth_context where
  "w_tenant_context = \<lparr>ac_tenant_id = ''t'', ac_repo_id = Some ''r'', ac_principal_type = ''service'',
     ac_principal_id = ''ci'', ac_principal_provider = None, ac_delegated_identity_id = None\<rparr>"

definition w_tenancy_cfg :: settings where
  "w_tenancy_cfg = default_settings\<lparr>mcp_client_enabled := True, mcp_tenant_authorization_enabled := True\<rparr>"

definition w_identity_env :: identity_env where
  "w_identity_env = \<lparr>ie_sha = id, ie_encrypt = (\<lambda>b p. []), ie_decrypt = (\<lambda>b t. Inl ''no''), ie_unbound = (\<lambda>_. False),
     ie_check_url = (\<lambda>_ _. None), ie_check_egress = (\<lambda>_. None), ie_post = (\<lambda>u p. Inl ''down'')\<rparr>"

definition w_tenant_router :: router where
  "w_tenant_router = new_router w_tenancy_cfg (rt_client w_router) None (Some (require w_tenancy_cfg 5 w_tenancy w_tenant_context))"

lemma w_tenant_allowed: "p \<in> {''discover'', ''execute''} \<Longrightarrow> is_allowed w_tenancy_cfg now w_tenancy w_tenant_context ''docs'' ''search'' p"
  by (auto simp: is_allowed_def w_tenancy_cfg_def server_bound_def w_tenancy_def w_tenant_context_def matching_grants_def
      grants_in_scope_def principals_def)

lemma w_run_configs: "run_configs w_tenancy_cfg w_identity_env ''n'' 0 w_owner [w_server] w_tenancy = (Inr (cl_servers (rt_client w_router)), w_tenancy)"
proof -
  have "context_for_run w_tenancy_cfg ''n'' w_owner w_tenancy = (w_tenant_context, w_tenancy)"
    by (simp add: context_for_run_def w_owner_def w_tenant_context_def none_or_empty_def)
  moreover have "filter_configs w_tenancy_cfg 0 w_tenancy w_tenant_context [w_server] = [w_server]"
    using w_tenant_allowed [of "''discover''" 0] w_tenant_allowed [of "''execute''" 0]
    by (simp add: filter_configs_def filter_config_def w_server_def map_filter_def w_tenancy_cfg_def)
  ultimately show ?thesis
    by (simp add: run_configs_def w_router_def w_owner_def none_or_empty_def w_tenancy_cfg_def)
qed


end
