(* ===== verification/Timeline.thy ===== *)
theory Timeline
  imports Settings
begin

text \<open>
  The redacted timeline of a run: \<open>backend/app/core/sensitive_data.py\<close> and
  \<open>backend/app/services/agent_step_service.py\<close>.  Public columns hold redacted payloads; what they leave out is
  kept encrypted for a while.  The envelope encryption answers through \<open>kms\<close>; spans are output.  Lengths count
  the bytes of the text.
\<close>

section \<open>Redaction\<close>

definition SENSITIVE_KEY_MARKERS :: "string list" where
  "SENSITIVE_KEY_MARKERS = [''api_key'', ''apikey'', ''authorization'', ''cookie'', ''credential'', ''password'',
     ''private_key'', ''secret'', ''token'']"

definition CONTENT_KEY_MARKERS :: "string list" where
  "CONTENT_KEY_MARKERS = [''argument'', ''command'', ''content'', ''diff'', ''error'', ''message'', ''output'',
     ''patch'', ''prompt'', ''query'', ''result'', ''stderr'', ''stdout'', ''summary'']"

definition matches_marker :: "string \<Rightarrow> string list \<Rightarrow> bool" where
  "matches_marker key markers = list_ex (\<lambda>m. py_contains m key) markers"

text \<open>The pattern \<open>_SECRET_VALUE_PATTERN\<close>, matched on the lower-cased text because it ignores case.\<close>

definition assignment_follows :: "string \<Rightarrow> bool" where
  "assignment_follows s \<longleftrightarrow> (case dropWhile is_space s of [] \<Rightarrow> False | c # _ \<Rightarrow> c = CHR '':'' \<or> c = CHR ''='')"

fun key_header :: "string \<Rightarrow> bool" where
  "key_header [] = False"
| "key_header (c # s) \<longleftrightarrow> starts_with ''private key-----'' (c # s) \<or>
     ((c = CHR '' '' \<or> (97 \<le> (of_char c :: nat) \<and> (of_char c :: nat) \<le> 122)) \<and> key_header s)"

definition secret_here :: "string \<Rightarrow> bool" where
  "secret_here s \<longleftrightarrow>
     list_ex (\<lambda>w. starts_with w s \<and> assignment_follows (drop (length w) s))
       [''api_key'', ''api-key'', ''apikey'', ''authorization'', ''password'', ''secret'', ''token''] \<or>
     list_ex (\<lambda>w. starts_with w s) [''ghp_'', ''gho_'', ''ghu_'', ''ghs_'', ''ghr_'', ''sk-''] \<or>
     (starts_with ''-----begin '' s \<and> key_header (drop 11 s))"

fun secret_somewhere :: "string \<Rightarrow> bool" where
  "secret_somewhere [] = False"
| "secret_somewhere (c # s) \<longleftrightarrow> secret_here (c # s) \<or> secret_somewhere s"

definition is_secret_value :: "string \<Rightarrow> bool" where
  "is_secret_value s = secret_somewhere (py_lower s)"

definition redacted_marker :: "string \<Rightarrow> string \<Rightarrow> pyval" where
  "redacted_marker s classification =
     PDict [(''redacted'', PBool True), (''classification'', PStr classification),
            (''char_count'', PInt (int (length (json_dumps False False (PStr s)))))]"

definition redact_text :: "string \<Rightarrow> string \<Rightarrow> pyval" where
  "redact_text s key =
     (let normalized_key = py_lower key in
      if is_secret_value s then redacted_marker s ''secret''
      else if matches_marker normalized_key SENSITIVE_KEY_MARKERS then redacted_marker s ''secret''
      else if matches_marker normalized_key CONTENT_KEY_MARKERS then redacted_marker s ''content''
      else redacted_marker s ''text'')"

definition is_marker :: "pydict \<Rightarrow> bool" where
  "is_marker d \<longleftrightarrow> dget d ''redacted'' = PBool True \<and> set (map fst d) \<subseteq> {''redacted'', ''classification'', ''char_count''}"

text \<open>
  \<open>_redact\<close> with the key it was reached under, and separately whether it met text to hide, which the
  code records in \<open>state["restricted"]\<close>.
\<close>

primrec redact :: "pyval \<Rightarrow> string \<Rightarrow> pyval" where
  "redact PNone = (\<lambda>key. PNone)"
| "redact (PBool b) = (\<lambda>key. PBool b)"
| "redact (PInt n) = (\<lambda>key. PInt n)"
| "redact (PStr s) = redact_text s"
| "redact (PList xs) = (\<lambda>key. PList (map (\<lambda>f. f key) (map redact xs)))"
| "redact (PDict d) =
     (\<lambda>key. if is_marker d then PDict d else PDict (map (\<lambda>(k, f). (k, f k)) (map (map_prod id redact) d)))"

primrec meets_text :: "pyval \<Rightarrow> bool" where
  "meets_text PNone = False"
| "meets_text (PBool b) = False"
| "meets_text (PInt n) = False"
| "meets_text (PStr s) = True"
| "meets_text (PList xs) = list_ex id (map meets_text xs)"
| "meets_text (PDict d) = (\<not> is_marker d \<and> list_ex snd (map (map_prod id meets_text) d))"

definition redact_timeline_payload :: "pyval \<Rightarrow> pyval \<times> string" where
  "redact_timeline_payload v = (redact v [], if meets_text v then ''restricted'' else ''metadata'')"

definition word_char :: "char \<Rightarrow> bool" where
  "word_char c \<longleftrightarrow> (let n = (of_char c :: nat) in (48 \<le> n \<and> n \<le> 57) \<or> (97 \<le> n \<and> n \<le> 122))"

fun collapse :: "bool \<Rightarrow> string \<Rightarrow> string" where
  \<comment> \<open>\<open>re.sub(r"[^a-z0-9]+", "_", s)\<close>; the flag is set inside a run of other characters\<close>
  "collapse inside [] = []"
| "collapse inside (c # s) =
     (if word_char c then c # collapse False s
      else if inside then collapse True s
      else CHR ''_'' # collapse True s)"

definition safe_exception_code :: "string \<Rightarrow> string" where
  \<comment> \<open>of the name of the exception's type\<close>
  "safe_exception_code name =
     (let strip = (\<lambda>s. dropWhile (\<lambda>c. c = CHR ''_'') s);
          normalized = rev (strip (rev (strip (collapse False (py_lower name)))))
      in if take 64 normalized = [] then ''error'' else take 64 normalized)"

section \<open>Steps\<close>

record step_row =
  sp_id :: string
  sp_run_id :: string
  sp_step_type :: string
  sp_tool_name :: "string option"
  sp_input :: pyval
  sp_output :: pyval
  sp_input_classification :: string
  sp_output_classification :: string
  sp_input_encrypted :: "string option"
  sp_output_encrypted :: "string option"
  sp_payload_expires_at :: "time option"
  sp_created_at :: time

record kms =
  km_encrypt :: "string \<Rightarrow> pyval \<Rightarrow> string option"
  km_decrypt :: "string \<Rightarrow> string \<Rightarrow> pyval option"

definition step_binding :: "string \<Rightarrow> string \<Rightarrow> string \<Rightarrow> string" where
  "step_binding run_id step_id side = run_id @ '':'' @ step_id @ '':'' @ side"

definition encrypt_restricted_payload :: "kms \<Rightarrow> pyval \<Rightarrow> string \<Rightarrow> string \<Rightarrow> string option" where
  \<comment> \<open>\<open>km_encrypt\<close> is \<open>None\<close> when the key service is not configured or fails\<close>
  "encrypt_restricted_payload km value classification binding =
     (if value = PNone \<or> classification \<noteq> ''restricted'' then None else km_encrypt km binding value)"

definition decrypt_payload :: "kms \<Rightarrow> string option \<Rightarrow> string \<Rightarrow> pyval" where
  "decrypt_payload km text binding =
     (case text of None \<Rightarrow> PNone
      | Some t \<Rightarrow> (case km_decrypt km binding t of None \<Rightarrow> PNone | Some v \<Rightarrow> v))"

definition payload_expired :: "time \<Rightarrow> step_row \<Rightarrow> bool" where
  "payload_expired now st \<longleftrightarrow> (case sp_payload_expires_at st of None \<Rightarrow> False | Some t \<Rightarrow> t \<le> now)"

definition purge_expired_payloads :: "time \<Rightarrow> step_row list \<Rightarrow> step_row list" where
  "purge_expired_payloads now steps =
     map (\<lambda>st. if payload_expired now st
               then st\<lparr>sp_input_encrypted := None, sp_output_encrypted := None, sp_payload_expires_at := None\<rparr>
               else st) steps"

definition new_step ::
  "int \<Rightarrow> kms \<Rightarrow> time \<Rightarrow> string \<Rightarrow> string \<Rightarrow> string \<Rightarrow> string option \<Rightarrow> pyval \<Rightarrow> pyval \<Rightarrow> step_row" where
  "new_step retention_hours km now step_id run_id step_type tool_name input output =
     (let (safe_input, input_class) = redact_timeline_payload input;
          (safe_output, output_class) = redact_timeline_payload output;
          input_encrypted = encrypt_restricted_payload km input input_class (step_binding run_id step_id ''input'');
          output_encrypted = encrypt_restricted_payload km output output_class (step_binding run_id step_id ''output'')
      in \<lparr>sp_id = step_id, sp_run_id = run_id, sp_step_type = step_type, sp_tool_name = tool_name,
          sp_input = safe_input, sp_output = safe_output, sp_input_classification = input_class,
          sp_output_classification = output_class, sp_input_encrypted = input_encrypted,
          sp_output_encrypted = output_encrypted,
          sp_payload_expires_at =
            (if input_encrypted \<notin> {None, Some []} \<or> output_encrypted \<notin> {None, Some []}
             then Some (now + secs (3600 * retention_hours)) else None),
          sp_created_at = now\<rparr>)"

definition record_step ::
  "int \<Rightarrow> kms \<Rightarrow> time \<Rightarrow> string \<Rightarrow> string \<Rightarrow> string \<Rightarrow> string option \<Rightarrow> pyval \<Rightarrow> pyval \<Rightarrow> step_row list \<Rightarrow> step_row list" where
  \<comment> \<open>\<open>record\<close>\<close>
  "record_step retention_hours km now step_id run_id step_type tool_name input output steps =
     purge_expired_payloads now
       (steps @ [new_step retention_hours km now step_id run_id step_type tool_name input output])"

definition classified :: "string \<Rightarrow> pyval \<Rightarrow> string" where
  "classified stored v = (if stored = [] then snd (redact_timeline_payload v) else stored)"

definition public_dict :: "step_row \<Rightarrow> pydict" where
  "public_dict st =
     [(''id'', PStr (sp_id st)), (''run_id'', PStr (sp_run_id st)), (''step_type'', PStr (sp_step_type st)),
      (''tool_name'', str_or_none (sp_tool_name st)),
      (''input_json'', fst (redact_timeline_payload (sp_input st))),
      (''output_json'', fst (redact_timeline_payload (sp_output st))),
      (''input_classification'', PStr (classified (sp_input_classification st) (sp_input st))),
      (''output_classification'', PStr (classified (sp_output_classification st) (sp_output st)))]"

definition restricted_payloads :: "kms \<Rightarrow> time \<Rightarrow> step_row \<Rightarrow> pyval \<times> pyval" where
  \<comment> \<open>the two payloads of \<open>restricted_dict\<close>\<close>
  "restricted_payloads km now st =
     (if payload_expired now st then (PNone, PNone)
      else (decrypt_payload km (sp_input_encrypted st) (step_binding (sp_run_id st) (sp_id st) ''input''),
            decrypt_payload km (sp_output_encrypted st) (step_binding (sp_run_id st) (sp_id st) ''output'')))"

text \<open>
  \<open>record_tool\<close>: the call is recorded before the tool runs and its result after it, an exception as its code.
  The tool answers its JSON form or the name of the exception's type.
\<close>

definition record_tool ::
  "int \<Rightarrow> kms \<Rightarrow> time \<Rightarrow> time \<Rightarrow> string \<Rightarrow> string \<Rightarrow> string \<Rightarrow> string \<Rightarrow> pyval \<Rightarrow> string + pyval \<Rightarrow>
   step_row list \<Rightarrow> (string + pyval) \<times> step_row list" where
  "record_tool retention_hours km t0 t1 id0 id1 run_id tool_name input answer steps =
     (let steps1 = record_step retention_hours km t0 id0 run_id ''tool_call'' (Some tool_name) input PNone steps;
          output = (case answer of
                      Inl name \<Rightarrow> PDict [(''ok'', PBool False), (''error_code'', PStr (safe_exception_code name))]
                    | Inr v \<Rightarrow> v)
      in (answer, record_step retention_hours km t1 id1 run_id ''tool_result'' (Some tool_name) PNone output steps1))"

end
