(* ===== verification/TimelineTheorems.thy ===== *)
theory TimelineTheorems
  imports Timeline
begin

text \<open>
  What the public timeline of a run shows, and for how long the rest can be read.
\<close>

section \<open>Redaction\<close>

primrec texts :: "pyval \<Rightarrow> string set" where
  \<comment> \<open>the strings among the values of a payload\<close>
  "texts PNone = {}"
| "texts (PBool b) = {}"
| "texts (PInt n) = {}"
| "texts (PStr s) = {s}"
| "texts (PList xs) = \<Union> (set (map texts xs))"
| "texts (PDict d) = \<Union> (snd ` set (map (map_prod id texts) d))"

primrec posing :: "pyval \<Rightarrow> string set" where
  \<comment> \<open>the strings in dictionaries that look like the marker of something redacted\<close>
  "posing PNone = {}"
| "posing (PBool b) = {}"
| "posing (PInt n) = {}"
| "posing (PStr s) = {}"
| "posing (PList xs) = \<Union> (set (map posing xs))"
| "posing (PDict d) = (if is_marker d then texts (PDict d) else \<Union> (snd ` set (map (map_prod id posing) d)))"

lemma redact_dict: "\<not> is_marker d \<Longrightarrow> redact (PDict d) key = PDict (map (\<lambda>(k, v). (k, redact v k)) d)"
  by (simp add: case_prod_unfold comp_def)

lemma redact_marker [simp]: "is_marker d \<Longrightarrow> redact (PDict d) key = PDict d"
  by simp

lemma redact_list [simp]: "redact (PList xs) key = PList (map (\<lambda>v. redact v key) xs)"
  by (simp add: comp_def)

declare redact.simps(5,6) [simp del]

lemma redact_text_is_marker: "\<exists>d. redact_text s key = PDict d \<and> is_marker d \<and> texts (PDict d) \<subseteq> {''secret'', ''content'', ''text''}"
  unfolding redact_text_def Let_def redacted_marker_def by (auto simp: is_marker_def)

lemma redact_bool: "redact v key = PBool b \<longleftrightarrow> v = PBool b"
proof (cases v)
  case (PStr s)
  then show ?thesis using redact_text_is_marker [of s key] by auto
next
  case (PDict d)
  then show ?thesis by (cases "is_marker d") (simp_all add: redact_dict)
qed simp_all

lemma map_of_redacted: "map_of (map (\<lambda>(k, v). (k, redact v k)) d) key = map_option (\<lambda>v. redact v key) (map_of d key)"
  by (induction d) auto

lemma is_marker_redacted: "is_marker (map (\<lambda>(k, v). (k, redact v k)) d) = is_marker d"
proof -
  have "dget (map (\<lambda>(k, v). (k, redact v k)) d) ''redacted'' = PBool True \<longleftrightarrow> dget d ''redacted'' = PBool True"
    by (simp add: dget_def map_of_redacted redact_bool split: option.split)
  moreover have "map fst (map (\<lambda>(k, v). (k, redact v k)) d) = map fst d" by (simp add: case_prod_unfold comp_def)
  ultimately show ?thesis unfolding is_marker_def by (simp only:)
qed

lemma texts_dict: "texts (PDict d) = (\<Union>(k, v)\<in>set d. texts v)"
  by auto

lemma posing_dict: "\<not> is_marker d \<Longrightarrow> posing (PDict d) = (\<Union>(k, v)\<in>set d. posing v)"
  by auto

lemma texts_redacted: "texts (redact v key) \<subseteq> {''secret'', ''content'', ''text''} \<union> posing v"
proof (induction v arbitrary: key)
  case (PStr s)
  obtain d where "redact_text s key = PDict d" "texts (PDict d) \<subseteq> {''secret'', ''content'', ''text''}"
    using redact_text_is_marker [of s key] by blast
  then show ?case by (simp del: texts.simps)
next
  case (PList xs)
  then show ?case by fastforce
next
  case (PDict d)
  show ?case
  proof (cases "is_marker d")
    case False
    have "texts (redact v k) \<subseteq> {''secret'', ''content'', ''text''} \<union> posing v" if "(k, v) \<in> set d" for k v
      using PDict [OF that, of v k] by (simp add: snds.simps)
    then show ?thesis unfolding redact_dict [OF False] texts_dict posing_dict [OF False] by fastforce
  qed auto
qed simp_all

lemma redact_again: "redact (redact v key) key' = redact v key"
proof (induction v arbitrary: key key')
  case (PStr s)
  obtain d where "redact_text s key = PDict d" "is_marker d" using redact_text_is_marker [of s key] by blast
  then show ?case by simp
next
  case (PList xs)
  then show ?case by simp
next
  case (PDict d)
  show ?case
  proof (cases "is_marker d")
    case False
    then have m: "\<not> is_marker (map (\<lambda>(k, v). (k, redact v k)) d)" by (simp add: is_marker_redacted)
    have "redact (redact v k) k = redact v k" if "(k, v) \<in> set d" for k v
      using PDict [OF that, of v k k] by (simp add: snds.simps)
    then show ?thesis unfolding redact_dict [OF False] redact_dict [OF m] by auto
  qed simp
qed simp_all

lemma meets_text_dict: "meets_text (PDict d) \<longleftrightarrow> \<not> is_marker d \<and> (\<exists>(k, v)\<in>set d. meets_text v)"
  by (force simp: list_ex_iff)

lemma untouched_iff: "redact v key = v \<longleftrightarrow> \<not> meets_text v"
proof (induction v arbitrary: key)
  case (PStr s)
  then show ?case using redact_text_is_marker [of s key] by auto
next
  case (PList xs)
  have "(\<forall>v\<in>set xs. redact v key = v) \<longleftrightarrow> (\<forall>v\<in>set xs. \<not> meets_text v)" using PList by blast
  then show ?case by (simp add: list_ex_iff map_idI map_eq_conv [of _ xs id, simplified])
next
  case (PDict d)
  show ?case
  proof (cases "is_marker d")
    case True
    then show ?thesis by (simp add: meets_text_dict)
  next
    case False
    have "redact v k = v \<longleftrightarrow> \<not> meets_text v" if "(k, v) \<in> set d" for k v
      using PDict [OF that, of v k] by (simp add: snds.simps)
    then have "(\<forall>(k, v)\<in>set d. redact v k = v) \<longleftrightarrow> (\<forall>(k, v)\<in>set d. \<not> meets_text v)" by blast
    moreover have "map (\<lambda>(k, v). (k, redact v k)) d = d \<longleftrightarrow> (\<forall>(k, v)\<in>set d. redact v k = v)"
      using map_eq_conv [of "\<lambda>(k, v). (k, redact v k)" d id] by (auto simp: case_prod_unfold prod_eq_iff)
    ultimately show ?thesis unfolding redact_dict [OF False] meets_text_dict using False by auto
  qed
qed simp_all


text \<open>
  A payload that poses as a marker passes: its text is stored in the public column, classified as metadata, and
  nothing is encrypted.
\<close>

lemma posing_payload_is_public:
  "redact_timeline_payload (PDict [(''redacted'', PBool True), (''classification'', PStr secret)]) =
     (PDict [(''redacted'', PBool True), (''classification'', PStr secret)], ''metadata'')"
  by (simp add: redact_timeline_payload_def is_marker_def)

section \<open>Retention\<close>

lemma purge_keeps: "\<not> payload_expired now st \<Longrightarrow> st \<in> set steps \<Longrightarrow> st \<in> set (purge_expired_payloads now steps)"
  by (force simp: purge_expired_payloads_def)

lemma purge_removes:
  assumes "st \<in> set (purge_expired_payloads now steps)" "payload_expired now st"
  shows "sp_input_encrypted st = None \<and> sp_output_encrypted st = None"
  using assms by (auto simp: purge_expired_payloads_def payload_expired_def split: if_splits)


definition w_kms :: kms where
  "w_kms = \<lparr>km_encrypt = (\<lambda>b v. if v = PStr ''hello'' then Some ''sealed'' else None),
     km_decrypt = (\<lambda>b c. Some (PStr ''hello''))\<rparr>"


end
