(* ===== verification/Checkpoints.thy ===== *)
theory Checkpoints
  imports Prelude
begin

text \<open>
  The checkpoint saver of the repair graph, \<open>SQLAlchemyCheckpointSaver\<close> in
  \<open>backend/app/agent/checkpointer.py\<close>.  Tables are lists of rows with at most one row per key; \<open>merge\<close> is
  \<open>db.merge\<close>.  The serialiser of langgraph and its map of reserved write positions answer through
  \<open>serde\<close>; \<open>'b\<close> is the type of its bytes.
\<close>

section \<open>Tables\<close>

record 'b checkpoint_row =
  kp_thread :: string
  kp_ns :: string
  kp_id :: string
  kp_parent :: "string option"
  kp_checkpoint :: "string \<times> 'b"
  kp_metadata :: "string \<times> 'b"

record 'b blob_row =
  bl_thread :: string
  bl_ns :: string
  bl_channel :: string
  bl_version :: string
  bl_value :: "string \<times> 'b"

record 'b write_row =
  wr_thread :: string
  wr_ns :: string
  wr_checkpoint :: string
  wr_task :: string
  wr_index :: int
  wr_channel :: string
  wr_value :: "string \<times> 'b"
  wr_path :: string

record 'b saver_db =
  sd_checkpoints :: "'b checkpoint_row list"
  sd_blobs :: "'b blob_row list"
  sd_writes :: "'b write_row list"

record 'b serde =
  se_dumps :: "pyval \<Rightarrow> string \<times> 'b"
  se_loads :: "string \<times> 'b \<Rightarrow> pyval"
  se_no_bytes :: 'b
  se_write_index :: "string \<Rightarrow> int option"

record thread_config =
  tc_thread :: string
  tc_ns :: string
  tc_checkpoint :: "string option"

definition merge :: "('r \<Rightarrow> 'k) \<Rightarrow> 'r \<Rightarrow> 'r list \<Rightarrow> 'r list" where
  "merge key r rows =
     (if \<exists>x\<in>set rows. key x = key r then map (\<lambda>x. if key x = key r then r else x) rows else rows @ [r])"

definition lookup :: "('r \<Rightarrow> 'k) \<Rightarrow> 'k \<Rightarrow> 'r list \<Rightarrow> 'r option" where
  "lookup key k rows = List.find (\<lambda>x. key x = k) rows"

definition checkpoint_key :: "'b checkpoint_row \<Rightarrow> string \<times> string \<times> string" where
  "checkpoint_key r = (kp_thread r, kp_ns r, kp_id r)"

definition blob_key :: "'b blob_row \<Rightarrow> string \<times> string \<times> string \<times> string" where
  "blob_key r = (bl_thread r, bl_ns r, bl_channel r, bl_version r)"

definition write_key :: "'b write_row \<Rightarrow> string \<times> string \<times> string \<times> string \<times> int" where
  "write_key r = (wr_thread r, wr_ns r, wr_checkpoint r, wr_task r, wr_index r)"

definition version_key :: "pyval \<Rightarrow> string" where
  "version_key v = json_dumps True False v"

section \<open>Writing\<close>

definition drop_key :: "string \<Rightarrow> pydict \<Rightarrow> pydict" where
  "drop_key k d = filter (\<lambda>(k', _). k' \<noteq> k) d"

definition dict_or_empty :: "pyval \<Rightarrow> pydict" where
  "dict_or_empty v = (case v of PDict d \<Rightarrow> d | _ \<Rightarrow> [])"

definition empty_blob :: "'b serde \<Rightarrow> string \<times> 'b" where
  "empty_blob se = (''empty'', se_no_bytes se)"

definition put_blobs ::
  "'b serde \<Rightarrow> thread_config \<Rightarrow> pydict \<Rightarrow> (string \<times> pyval) list \<Rightarrow> 'b blob_row list \<Rightarrow> 'b blob_row list" where
  "put_blobs se tc channel_values new_versions blobs =
     fold (\<lambda>(channel, version). merge blob_key
        \<lparr>bl_thread = tc_thread tc, bl_ns = tc_ns tc, bl_channel = channel, bl_version = version_key version,
         bl_value = (case map_of channel_values channel of None \<Rightarrow> empty_blob se | Some v \<Rightarrow> se_dumps se v)\<rparr>)
       new_versions blobs"

definition put ::
  "'b serde \<Rightarrow> thread_config \<Rightarrow> pydict \<Rightarrow> pydict \<Rightarrow> (string \<times> pyval) list \<Rightarrow> 'b saver_db \<Rightarrow> (string + thread_config) \<times> 'b saver_db" where
  \<comment> \<open>a checkpoint without its channel values is a KeyError; the metadata is what langgraph joins from the config\<close>
  "put se tc checkpoint metadata new_versions d =
     (case (map_of checkpoint ''channel_values'', map_of checkpoint ''id'') of
        (Some values', Some cid) \<Rightarrow>
          (Inr (tc\<lparr>tc_checkpoint := Some (py_str cid)\<rparr>),
           d\<lparr>sd_blobs := put_blobs se tc (dict_or_empty values') new_versions (sd_blobs d),
             sd_checkpoints := merge checkpoint_key
               \<lparr>kp_thread = tc_thread tc, kp_ns = tc_ns tc, kp_id = py_str cid, kp_parent = tc_checkpoint tc,
                kp_checkpoint = se_dumps se (PDict (drop_key ''channel_values'' checkpoint)),
                kp_metadata = se_dumps se (PDict metadata)\<rparr> (sd_checkpoints d)\<rparr>)
      | _ \<Rightarrow> (Inl ''KeyError'', d))"

definition put_write ::
  "'b serde \<Rightarrow> thread_config \<Rightarrow> string \<Rightarrow> string \<Rightarrow> string \<Rightarrow> nat \<times> string \<times> pyval \<Rightarrow> 'b write_row list \<Rightarrow> 'b write_row list" where
  "put_write se tc cid task path w rows =
     (case w of (position, channel, v) \<Rightarrow>
       let index = (case se_write_index se channel of None \<Rightarrow> int position | Some i \<Rightarrow> i);
           row = \<lparr>wr_thread = tc_thread tc, wr_ns = tc_ns tc, wr_checkpoint = cid, wr_task = task, wr_index = index,
             wr_channel = channel, wr_value = se_dumps se v, wr_path = path\<rparr>
       in if lookup write_key (write_key row) rows \<noteq> None \<and> 0 \<le> index then rows
          else merge write_key row rows)"

definition put_writes ::
  "'b serde \<Rightarrow> thread_config \<Rightarrow> (string \<times> pyval) list \<Rightarrow> string \<Rightarrow> string \<Rightarrow> 'b saver_db \<Rightarrow> (string + unit) \<times> 'b saver_db" where
  "put_writes se tc writes task path d =
     (case tc_checkpoint tc of
        None \<Rightarrow> (Inl ''KeyError'', d)
      | Some cid \<Rightarrow> (Inr (), d\<lparr>sd_writes := fold (put_write se tc cid task path) (enumerate 0 writes) (sd_writes d)\<rparr>))"

definition delete_thread :: "string \<Rightarrow> 'b saver_db \<Rightarrow> 'b saver_db" where
  "delete_thread thread d = d\<lparr>sd_writes := filter (\<lambda>r. wr_thread r \<noteq> thread) (sd_writes d),
     sd_blobs := filter (\<lambda>r. bl_thread r \<noteq> thread) (sd_blobs d),
     sd_checkpoints := filter (\<lambda>r. kp_thread r \<noteq> thread) (sd_checkpoints d)\<rparr>"

section \<open>Reading\<close>

record checkpoint_tuple =
  ct_config :: thread_config
  ct_checkpoint :: pydict
  ct_metadata :: pyval
  ct_parent :: "thread_config option"
  ct_pending :: "(string \<times> string \<times> pyval) list"

definition channel_value :: "'b serde \<Rightarrow> 'b checkpoint_row \<Rightarrow> 'b blob_row list \<Rightarrow> string \<times> pyval \<Rightarrow> (string \<times> pyval) option" where
  "channel_value se r blobs cv =
     (case lookup blob_key (kp_thread r, kp_ns r, fst cv, version_key (snd cv)) blobs of
        None \<Rightarrow> None
      | Some b \<Rightarrow> if fst (bl_value b) = ''empty'' then None else Some (fst cv, se_loads se (bl_value b)))"

definition pending_writes :: "'b serde \<Rightarrow> 'b checkpoint_row \<Rightarrow> 'b write_row list \<Rightarrow> (string \<times> string \<times> pyval) list" where
  "pending_writes se r rows =
     map (\<lambda>w. (wr_task w, wr_channel w, se_loads se (wr_value w)))
       (sort_key (\<lambda>w. wr_task w) (sort_key (\<lambda>w. wr_index w)
         (filter (\<lambda>w. wr_thread w = kp_thread r \<and> wr_ns w = kp_ns r \<and> wr_checkpoint w = kp_id r) rows)))"

definition to_tuple :: "'b serde \<Rightarrow> 'b saver_db \<Rightarrow> 'b checkpoint_row \<Rightarrow> checkpoint_tuple" where
  \<comment> \<open>\<open>_checkpoint_tuple\<close>\<close>
  "to_tuple se d r =
     (let checkpoint = dict_or_empty (se_loads se (kp_checkpoint r));
          values' = List.map_filter (channel_value se r (sd_blobs d)) (dict_or_empty (dget checkpoint ''channel_versions''))
      in \<lparr>ct_config = \<lparr>tc_thread = kp_thread r, tc_ns = kp_ns r, tc_checkpoint = Some (kp_id r)\<rparr>,
          ct_checkpoint = dset checkpoint ''channel_values'' (PDict values'),
          ct_metadata = se_loads se (kp_metadata r),
          ct_parent = (case kp_parent r of None \<Rightarrow> None
                       | Some p \<Rightarrow> if p = [] then None
                           else Some \<lparr>tc_thread = kp_thread r, tc_ns = kp_ns r, tc_checkpoint = Some p\<rparr>),
          ct_pending = pending_writes se r (sd_writes d)\<rparr>)"

definition newest_first :: "'b checkpoint_row list \<Rightarrow> 'b checkpoint_row list" where
  \<comment> \<open>\<open>order_by(checkpoint_id.desc())\<close>\<close>
  "newest_first rows = rev (sort_key kp_id rows)"

definition find_record :: "'b saver_db \<Rightarrow> thread_config \<Rightarrow> 'b checkpoint_row option" where
  "find_record d tc =
     (let rows = filter (\<lambda>r. kp_thread r = tc_thread tc \<and> kp_ns r = tc_ns tc) (sd_checkpoints d)
      in case tc_checkpoint tc of
           Some cid \<Rightarrow> if cid \<noteq> [] then List.find (\<lambda>r. kp_id r = cid) rows
                       else (case newest_first rows of [] \<Rightarrow> None | r # _ \<Rightarrow> Some r)
         | None \<Rightarrow> (case newest_first rows of [] \<Rightarrow> None | r # _ \<Rightarrow> Some r))"

definition get_tuple :: "'b serde \<Rightarrow> thread_config \<Rightarrow> 'b saver_db \<Rightarrow> checkpoint_tuple option" where
  "get_tuple se tc d = map_option (to_tuple se d) (find_record d tc)"

definition list_tuples ::
  "'b serde \<Rightarrow> (string \<times> string option \<times> string option) option \<Rightarrow> pydict \<Rightarrow> string option \<Rightarrow> nat option \<Rightarrow> 'b saver_db
     \<Rightarrow> checkpoint_tuple list" where
  \<comment> \<open>\<open>list\<close>: the thread with an optional namespace and checkpoint, the metadata wanted, the id to stay below and a limit\<close>
  "list_tuples se scope wanted before limit d =
     (let nonempty = (\<lambda>s. case s of None \<Rightarrow> None | Some t \<Rightarrow> if t = [] then None else Some t);
          in_scope = (\<lambda>r. case scope of None \<Rightarrow> True
             | Some (thread, ns, cid) \<Rightarrow> kp_thread r = thread \<and> (case ns of None \<Rightarrow> True | Some n \<Rightarrow> kp_ns r = n) \<and>
                 (case nonempty cid of None \<Rightarrow> True | Some c \<Rightarrow> kp_id r = c));
          below = (\<lambda>r. case nonempty before of None \<Rightarrow> True | Some b \<Rightarrow> kp_id r < b);
          found = map (to_tuple se d) (newest_first (filter (\<lambda>r. in_scope r \<and> below r) (sd_checkpoints d)));
          kept = filter (\<lambda>tp. list_all (\<lambda>(k, v). dget (dict_or_empty (ct_metadata tp)) k = v) wanted) found
      in case limit of None \<Rightarrow> kept | Some n \<Rightarrow> take n kept)"

end
