(* ===== verification/CheckpointTheorems.thy ===== *)
theory CheckpointTheorems
  imports Checkpoints
begin

text \<open>
  What the checkpoint saver guarantees to a resumed run: a stored checkpoint reads back as it was put, later
  checkpoints of the thread leave it alone, repeating the writes of a task changes nothing, and a deleted
  thread leaves nothing.
\<close>

section \<open>Rows under keys\<close>

lemma lookup_merge: "lookup key k (merge key r rows) = (if k = key r then Some r else lookup key k rows)"
proof -
  have "List.find (\<lambda>x. key x = k) (map (\<lambda>x. if key x = key r then r else x) rows) =
      (if k = key r then (if \<exists>x\<in>set rows. key x = key r then Some r else None) else List.find (\<lambda>x. key x = k) rows)"
    by (induction rows) auto
  moreover have "List.find (\<lambda>x. key x = k) (rows @ [r]) =
      (if k = key r then Some r else List.find (\<lambda>x. key x = k) rows)"
    if "\<not> (\<exists>x\<in>set rows. key x = key r)"
    using that by (induction rows) auto
  ultimately show ?thesis unfolding lookup_def merge_def by (cases "\<exists>x\<in>set rows. key x = key r") simp_all
qed

lemma lookup_SomeD: "lookup key k rows = Some r \<Longrightarrow> key r = k \<and> r \<in> set rows"
  unfolding lookup_def by (induction rows) (auto split: if_splits)

definition held :: "'b serde \<Rightarrow> string \<Rightarrow> string \<Rightarrow> 'b blob_row list \<Rightarrow> string \<Rightarrow> string \<Rightarrow> pyval option" where
  \<comment> \<open>the value stored of a channel under a version key\<close>
  "held se thread ns blobs ch vk =
     (case lookup blob_key (thread, ns, ch, vk) blobs of
        None \<Rightarrow> None
      | Some b \<Rightarrow> if fst (bl_value b) = ''empty'' then None else Some (se_loads se (bl_value b)))"

lemma channel_value_held:
  "channel_value se r blobs cv =
     map_option (\<lambda>v. (fst cv, v)) (held se (kp_thread r) (kp_ns r) blobs (fst cv) (version_key (snd cv)))"
  by (simp add: channel_value_def held_def split: option.split)

definition faithful :: "'b serde \<Rightarrow> bool" where
  "faithful se \<longleftrightarrow> (\<forall>v. se_loads se (se_dumps se v) = v \<and> fst (se_dumps se v) \<noteq> ''empty'')"

lemma held_put_blobs:
  assumes "faithful se"
  shows "held se thread ns (put_blobs se tc cv nv blobs) ch vk =
     (if thread = tc_thread tc \<and> ns = tc_ns tc \<and> (\<exists>(c, v)\<in>set nv. c = ch \<and> version_key v = vk)
      then map_of cv ch else held se thread ns blobs ch vk)"
proof (induction nv arbitrary: blobs)
  case Nil
  then show ?case by (simp add: put_blobs_def)
next
  case (Cons n nv)
  obtain c v where n: "n = (c, v)" by fastforce
  define row where "row = \<lparr>bl_thread = tc_thread tc, bl_ns = tc_ns tc, bl_channel = c, bl_version = version_key v,
         bl_value = (case map_of cv c of None \<Rightarrow> empty_blob se | Some w \<Rightarrow> se_dumps se w)\<rparr>"
  have step: "put_blobs se tc cv (n # nv) blobs = put_blobs se tc cv nv (merge blob_key row blobs)"
    by (simp add: put_blobs_def n row_def)
  have "held se thread ns (merge blob_key row blobs) ch vk =
      (if thread = tc_thread tc \<and> ns = tc_ns tc \<and> c = ch \<and> version_key v = vk then map_of cv ch
       else held se thread ns blobs ch vk)"
    using assms
    by (auto simp: held_def lookup_merge blob_key_def row_def empty_blob_def faithful_def split: option.split)
  then show ?case unfolding step Cons.IH by (auto simp: n)
qed

lemma drop_key_get: "k \<noteq> k' \<Longrightarrow> dget (drop_key k' d) k = dget d k"
proof -
  assume "k \<noteq> k'"
  then have "map_of (filter (\<lambda>(a, _). a \<noteq> k') d) k = map_of d k" by (induction d) auto
  then show ?thesis by (simp add: drop_key_def dget_def)
qed

lemma map_of_channel_values:
  assumes "distinct (map fst vs)"
  shows "map_of (List.map_filter (\<lambda>cv. map_option (\<lambda>v. (fst cv, v)) (f (fst cv) (snd cv))) vs) ch =
     (case map_of vs ch of None \<Rightarrow> None | Some ver \<Rightarrow> f ch ver)"
  using assms
proof (induction vs)
  case (Cons x xs)
  have "map_of xs (fst x) = None" using Cons.prems by (simp add: map_of_eq_None_iff)
  then show ?case using Cons by (auto simp: map_filter_simps split: option.split)
qed (simp add: map_filter_simps)

lemma find_record_put:
  assumes "tc_checkpoint tc2 = Some i" "i \<noteq> []"
  shows "find_record d tc2 = lookup checkpoint_key (tc_thread tc2, tc_ns tc2, i) (sd_checkpoints d)"
proof -
  have "List.find (\<lambda>r. kp_id r = i) (filter (\<lambda>r. kp_thread r = a \<and> kp_ns r = b) rows) =
      List.find (\<lambda>r. checkpoint_key r = (a, b, i)) rows" for a b rows
    by (induction rows) (auto simp: checkpoint_key_def)
  then show ?thesis using assms by (simp add: find_record_def lookup_def Let_def)
qed

section \<open>Round trip\<close>

definition put_row :: "'b serde \<Rightarrow> thread_config \<Rightarrow> pydict \<Rightarrow> pydict \<Rightarrow> string \<Rightarrow> 'b checkpoint_row" where
  "put_row se tc cp md i = \<lparr>kp_thread = tc_thread tc, kp_ns = tc_ns tc, kp_id = i, kp_parent = tc_checkpoint tc,
      kp_checkpoint = se_dumps se (PDict (drop_key ''channel_values'' cp)), kp_metadata = se_dumps se (PDict md)\<rparr>"

lemma put_result:
  assumes "put se tc cp md nv d = (Inr tc', d')" "map_of cp ''id'' = Some (PStr i)" "map_of cp ''channel_values'' = Some (PDict cv)"
  shows "tc' = tc\<lparr>tc_checkpoint := Some i\<rparr>"
    and "d' = d\<lparr>sd_blobs := put_blobs se tc cv nv (sd_blobs d),
           sd_checkpoints := merge checkpoint_key (put_row se tc cp md i) (sd_checkpoints d)\<rparr>"
  using assms by (simp_all add: put_def put_row_def dict_or_empty_def)

lemma put_row_key: "checkpoint_key (put_row se tc cp md i) = (tc_thread tc, tc_ns tc, i)"
  by (simp add: checkpoint_key_def put_row_def)

lemma put_row_tuple:
  assumes "faithful se"
  shows "ct_metadata (to_tuple se d (put_row se tc cp md i)) = PDict md"
    and "k \<noteq> ''channel_values'' \<Longrightarrow> dget (ct_checkpoint (to_tuple se d (put_row se tc cp md i))) k = dget cp k"
    and "dget cp ''channel_versions'' = PDict vs \<Longrightarrow>
      dget (ct_checkpoint (to_tuple se d (put_row se tc cp md i))) ''channel_values'' =
        PDict (List.map_filter (channel_value se (put_row se tc cp md i) (sd_blobs d)) vs)"
  using assms by (simp_all add: to_tuple_def put_row_def faithful_def dict_or_empty_def drop_key_get Let_def)

lemma put_row_values:
  assumes law: "faithful se" and vs: "distinct (map fst vs)"
    and old: "\<forall>(ch, ver)\<in>set vs. (ch, ver) \<notin> set nv \<longrightarrow>
        held se (tc_thread tc) (tc_ns tc) blobs ch (version_key ver) = map_of cv ch"
  shows "map_of (List.map_filter (channel_value se (put_row se tc cp md i) (put_blobs se tc cv nv blobs)) vs) ch =
     (if ch \<in> fst ` set vs then map_of cv ch else None)"
proof -
  let ?f = "\<lambda>ch ver. held se (tc_thread tc) (tc_ns tc) (put_blobs se tc cv nv blobs) ch (version_key ver)"
  have "map_of (List.map_filter (channel_value se (put_row se tc cp md i) (put_blobs se tc cv nv blobs)) vs) ch =
      (case map_of vs ch of None \<Rightarrow> None | Some ver \<Rightarrow> ?f ch ver)"
    unfolding channel_value_held using map_of_channel_values [OF vs, of ?f ch] by (simp add: put_row_def)
  also have "\<dots> = (if ch \<in> fst ` set vs then map_of cv ch else None)"
  proof (cases "map_of vs ch")
    case None
    then have "ch \<notin> fst ` set vs" by (simp add: map_of_eq_None_iff)
    with None show ?thesis by simp
  next
    case (Some ver)
    then have m: "(ch, ver) \<in> set vs" by (rule map_of_SomeD)
    then have "(ch, ver) \<notin> set nv \<Longrightarrow> held se (tc_thread tc) (tc_ns tc) blobs ch (version_key ver) = map_of cv ch"
      using old by blast
    then have "?f ch ver = map_of cv ch" by (auto simp: held_put_blobs [OF law])
    moreover have "ch \<in> fst ` set vs" using m by force
    ultimately show ?thesis using Some by simp
  qed
  finally show ?thesis .
qed

lemma map_filter_cong: "(\<And>x. x \<in> set xs \<Longrightarrow> f x = g x) \<Longrightarrow> List.map_filter f xs = List.map_filter g xs"
  by (induction xs) (auto simp: map_filter_simps split: option.split)

lemma to_tuple_other:
  assumes law: "faithful se"
    and fresh: "\<forall>(ch, ver)\<in>set (dict_or_empty (dget (dict_or_empty (se_loads se (kp_checkpoint r))) ''channel_versions'')).
           \<forall>(c, v)\<in>set nv. c = ch \<longrightarrow> version_key v \<noteq> version_key ver"
    and d': "sd_blobs d' = put_blobs se tc cv nv (sd_blobs d)" "sd_writes d' = sd_writes d"
  shows "to_tuple se d' r = to_tuple se d r"
proof -
  have "channel_value se r (sd_blobs d') x = channel_value se r (sd_blobs d) x"
    if "x \<in> set (dict_or_empty (dget (dict_or_empty (se_loads se (kp_checkpoint r))) ''channel_versions''))" for x
  proof -
    obtain ch ver where x: "x = (ch, ver)" by fastforce
    then have "\<not> (\<exists>(c, v)\<in>set nv. c = ch \<and> version_key v = version_key ver)" using fresh that by fast
    then show ?thesis by (simp add: x channel_value_held d' held_put_blobs [OF law])
  qed
  then have "List.map_filter (channel_value se r (sd_blobs d'))
        (dict_or_empty (dget (dict_or_empty (se_loads se (kp_checkpoint r))) ''channel_versions'')) =
      List.map_filter (channel_value se r (sd_blobs d))
        (dict_or_empty (dget (dict_or_empty (se_loads se (kp_checkpoint r))) ''channel_versions''))"
    by (rule map_filter_cong)
  then show ?thesis by (simp add: to_tuple_def Let_def d'(2))
qed

text \<open>
  C10.  A checkpoint reads back as it was put, and stays.  The serialiser loads what it dumped.  A checkpoint is
  put with its channel versions; those that are not new hold the value the checkpoint has (the contract of the
  graph library).  Then reading it by its id gives its metadata, every field but the channel values as it was,
  and for every channel that has a version the value it had.  And every other checkpoint whose versions the put
  does not write again reads back exactly as before.
\<close>

theorem checkpoint_roundtrip:
  assumes law: "faithful se" and put: "put se tc cp md nv d = (Inr tc', d')"
    and ident: "map_of cp ''id'' = Some (PStr i)" "i \<noteq> []"
    and cv: "map_of cp ''channel_values'' = Some (PDict cv)"
    and vs: "map_of cp ''channel_versions'' = Some (PDict vs)" "distinct (map fst vs)"
    and old: "\<forall>(ch, ver)\<in>set vs. (ch, ver) \<notin> set nv \<longrightarrow>
        held se (tc_thread tc) (tc_ns tc) (sd_blobs d) ch (version_key ver) = map_of cv ch"
  shows "(\<exists>tp. get_tuple se tc' d' = Some tp \<and> ct_metadata tp = PDict md \<and>
       (\<forall>k. k \<noteq> ''channel_values'' \<longrightarrow> dget (ct_checkpoint tp) k = dget cp k) \<and>
       (\<exists>out. dget (ct_checkpoint tp) ''channel_values'' = PDict out \<and>
          (\<forall>ch. map_of out ch = (if ch \<in> fst ` set vs then map_of cv ch else None)))) \<and>
     (\<forall>tc2 j r. tc_checkpoint tc2 = Some j \<longrightarrow> j \<noteq> [] \<longrightarrow> find_record d tc2 = Some r \<longrightarrow>
        (tc_thread tc2, tc_ns tc2, j) \<noteq> (tc_thread tc, tc_ns tc, i) \<longrightarrow>
        (\<forall>(ch, ver)\<in>set (dict_or_empty (dget (dict_or_empty (se_loads se (kp_checkpoint r))) ''channel_versions'')).
           \<forall>(c, v)\<in>set nv. c = ch \<longrightarrow> version_key v \<noteq> version_key ver) \<longrightarrow>
        get_tuple se tc2 d' = get_tuple se tc2 d)"
proof -
  let ?row = "put_row se tc cp md i"
  note result = put_result [OF put ident(1) cv]
  have "find_record d' tc' = Some ?row"
    using find_record_put [of tc' i d'] ident(2) by (simp add: result lookup_merge put_row_key)
  then have get: "get_tuple se tc' d' = Some (to_tuple se d' ?row)" by (simp add: get_tuple_def)
  have versions: "dget cp ''channel_versions'' = PDict vs" using vs(1) by (simp add: dget_def)
  have vals: "map_of (List.map_filter (channel_value se ?row (sd_blobs d')) vs) ch =
      (if ch \<in> fst ` set vs then map_of cv ch else None)" for ch
    using put_row_values [OF law vs(2) old] by (simp add: result(2))
  have first: "\<exists>tp. get_tuple se tc' d' = Some tp \<and> ct_metadata tp = PDict md \<and>
       (\<forall>k. k \<noteq> ''channel_values'' \<longrightarrow> dget (ct_checkpoint tp) k = dget cp k) \<and>
       (\<exists>out. dget (ct_checkpoint tp) ''channel_values'' = PDict out \<and>
          (\<forall>ch. map_of out ch = (if ch \<in> fst ` set vs then map_of cv ch else None)))"
  proof (intro exI conjI allI impI)
    show "get_tuple se tc' d' = Some (to_tuple se d' ?row)" by (rule get)
    show "dget (ct_checkpoint (to_tuple se d' ?row)) ''channel_values'' =
        PDict (List.map_filter (channel_value se ?row (sd_blobs d')) vs)"
      by (rule put_row_tuple(3) [OF law versions])
  qed (simp_all add: put_row_tuple [OF law] vals)
  have "get_tuple se tc2 d' = get_tuple se tc2 d"
    if tc2: "tc_checkpoint tc2 = Some j" "j \<noteq> []" "find_record d tc2 = Some r"
      and other: "(tc_thread tc2, tc_ns tc2, j) \<noteq> (tc_thread tc, tc_ns tc, i)"
      and fresh: "\<forall>(ch, ver)\<in>set (dict_or_empty (dget (dict_or_empty (se_loads se (kp_checkpoint r))) ''channel_versions'')).
           \<forall>(c, v)\<in>set nv. c = ch \<longrightarrow> version_key v \<noteq> version_key ver" for tc2 j r
  proof -
    have "find_record d' tc2 = Some r"
      using tc2 other by (auto simp: find_record_put result(2) lookup_merge put_row_key)
    moreover have "to_tuple se d' r = to_tuple se d r"
      by (rule to_tuple_other [OF law fresh]) (simp_all add: result(2))
    ultimately show ?thesis using tc2(3) by (simp add: get_tuple_def)
  qed
  with first show ?thesis by blast
qed

section \<open>Writes and deletion\<close>

lemma merge_unique: "x \<in> set (merge key r rows) \<Longrightarrow> key x = key r \<Longrightarrow> x = r"
  unfolding merge_def by (cases "\<exists>x\<in>set rows. key x = key r") (auto split: if_splits)

lemma merge_again: "merge key r (merge key r rows) = merge key r rows"
proof -
  have "r \<in> set (merge key r rows)"
    unfolding merge_def by (cases "\<exists>x\<in>set rows. key x = key r") force+
  then have "merge key r (merge key r rows) = map (\<lambda>x. if key x = key r then r else x) (merge key r rows)"
    unfolding merge_def [of key r "merge key r rows"] by (intro if_P bexI [of _ r]) simp_all
  also have "\<dots> = merge key r rows"
    by (rule map_idI) (metis merge_unique)
  finally show ?thesis .
qed

lemma put_write_again:
  assumes "put_write se tc cid task path w rows = rows'"
  shows "put_write se tc cid task path w rows' = rows'"
proof -
  obtain p ch v where w: "w = (p, ch, v)" by (cases w)
  define row where "row = \<lparr>wr_thread = tc_thread tc, wr_ns = tc_ns tc, wr_checkpoint = cid, wr_task = task,
      wr_index = (case se_write_index se ch of None \<Rightarrow> int p | Some i \<Rightarrow> i), wr_channel = ch, wr_value = se_dumps se v, wr_path = path\<rparr>"
  have put: "put_write se tc cid task path w rs =
      (if lookup write_key (write_key row) rs \<noteq> None \<and> 0 \<le> wr_index row then rs else merge write_key row rs)" for rs
    unfolding put_write_def w row_def Let_def prod.case by (rule if_cong) simp_all
  define kept where "kept rs \<longleftrightarrow> lookup write_key (write_key row) rs \<noteq> None \<and> 0 \<le> wr_index row" for rs :: "'a write_row list"
  have put': "put_write se tc cid task path w rs = (if kept rs then rs else merge write_key row rs)" for rs
    unfolding kept_def by (rule put)
  have "rows' = (if kept rows then rows else merge write_key row rows)" using assms put' [of rows] by simp
  then show ?thesis using put' [of rows'] merge_again [of write_key row rows] by (cases "kept rows") simp_all
qed

lemma deleted_thread_is_gone:
  assumes "tc_thread tc = thread"
  shows "get_tuple se tc (delete_thread thread d) = None"
proof -
  have "filter (\<lambda>r. kp_thread r = tc_thread tc \<and> kp_ns r = tc_ns tc) (sd_checkpoints (delete_thread thread d)) = []"
    using assms by (auto simp: delete_thread_def filter_empty_conv)
  then show ?thesis by (simp add: get_tuple_def find_record_def newest_first_def split: option.split)
qed

section \<open>Witness\<close>

definition w_serde :: "pyval serde" where
  "w_serde = \<lparr>se_dumps = (\<lambda>v. (''value'', v)), se_loads = snd, se_no_bytes = PNone, se_write_index = (\<lambda>_. None)\<rparr>"

definition w_thread :: thread_config where
  "w_thread = \<lparr>tc_thread = ''run'', tc_ns = [], tc_checkpoint = None\<rparr>"

definition w_checkpoint :: pydict where
  "w_checkpoint = [(''id'', PStr ''1''), (''channel_values'', PDict [(''status'', PStr ''running'')]),
     (''channel_versions'', PDict [(''status'', PInt 1)])]"

theorem checkpoint_roundtrip_witness:
  "\<exists>tp d. get_tuple w_serde (w_thread\<lparr>tc_checkpoint := Some ''1''\<rparr>) d = Some tp \<and> ct_metadata tp = PDict [] \<and>
     (\<exists>out. dget (ct_checkpoint tp) ''channel_values'' = PDict out \<and> map_of out ''status'' = Some (PStr ''running''))"
proof -
  have law: "faithful w_serde" by (simp add: faithful_def w_serde_def)
  obtain d' where put: "put w_serde w_thread w_checkpoint [] [(''status'', PInt 1)] \<lparr>sd_checkpoints = [], sd_blobs = [], sd_writes = []\<rparr> =
      (Inr (w_thread\<lparr>tc_checkpoint := Some ''1''\<rparr>), d')"
    by (simp add: put_def w_checkpoint_def)
  have facts: "map_of w_checkpoint ''id'' = Some (PStr ''1'')" "''1'' \<noteq> []"
    "map_of w_checkpoint ''channel_values'' = Some (PDict [(''status'', PStr ''running'')])"
    "map_of w_checkpoint ''channel_versions'' = Some (PDict [(''status'', PInt 1)])"
    "distinct (map fst [(''status'', PInt 1)])"
    by (simp_all add: w_checkpoint_def)
  have old: "\<forall>(ch, ver)\<in>set [(''status'', PInt 1)]. (ch, ver) \<notin> set [(''status'', PInt 1)] \<longrightarrow>
      held w_serde (tc_thread w_thread) (tc_ns w_thread) (sd_blobs \<lparr>sd_checkpoints = [], sd_blobs = [], sd_writes = []\<rparr>)
        ch (version_key ver) = map_of [(''status'', PStr ''running'')] ch"
    by simp
  from conjunct1 [OF checkpoint_roundtrip [OF law put facts old]] show ?thesis by fastforce
qed

end
