(* ===== verification/Indexing.thy ===== *)
theory Indexing
  imports Settings
begin

text \<open>
  The index of a repository: \<open>backend/app/services/index_service.py\<close> over the source files
  \<open>indexing/filters.py\<close> selects.  The checkout, the rows of the database and the vectors live in three
  stores; the service builds a staging checkout and compensates when a later operation fails.  Every operation
  outside the service may fail: \<open>ix_fails\<close> gives its error.  Chunkers, the digest, git and the embedding
  provider are parameters.
\<close>

section \<open>Source files\<close>

datatype entry = Regular string | Link

type_synonym tree = "(string \<times> entry) list"

definition IGNORED_DIRS :: "string list" where
  "IGNORED_DIRS = [''node_modules'', ''dist'', ''build'', ''.next'', ''coverage'', ''.git'']"

definition IGNORED_SUFFIXES :: "string list" where
  "IGNORED_SUFFIXES = [''.png'', ''.jpg'', ''.jpeg'', ''.gif'', ''.webp'', ''.svg'', ''.ico'', ''.mp4'', ''.mov'', ''.avi'',
     ''.mkv'', ''.mp3'', ''.wav'', ''.pdf'', ''.zip'', ''.tar'', ''.gz'', ''.7z'', ''.lock'']"

definition LANGUAGE_BY_SUFFIX :: "(string \<times> string) list" where
  "LANGUAGE_BY_SUFFIX = [(''.ts'', ''typescript''), (''.tsx'', ''typescript''), (''.js'', ''javascript''),
     (''.jsx'', ''javascript''), (''.py'', ''python''), (''.vue'', ''vue'')]"

definition base_name :: "string \<Rightarrow> string" where
  \<comment> \<open>\<open>path.name\<close>\<close>
  "base_name path = last (py_split CHR ''/'' path)"

definition path_suffix :: "string \<Rightarrow> string" where
  \<comment> \<open>\<open>path.suffix\<close>: from the last dot, unless it begins or ends the name\<close>
  "path_suffix path =
     (let name = base_name path;
          ext = rev (takeWhile (\<lambda>c. c \<noteq> CHR ''.'') (rev name))
      in if ext = [] \<or> length name \<le> Suc (length ext) then [] else CHR ''.'' # ext)"

definition detect_language :: "string \<Rightarrow> string option" where
  "detect_language path = map_of LANGUAGE_BY_SUFFIX (py_lower (path_suffix path))"

definition should_ignore_path :: "int \<Rightarrow> string \<Rightarrow> entry \<Rightarrow> bool" where
  "should_ignore_path max_file_size path e \<longleftrightarrow>
     list_ex (\<lambda>part. part \<in> set IGNORED_DIRS) (py_split CHR ''/'' path) \<or>
     base_name path = ''.env'' \<or> starts_with ''.env.'' (base_name path) \<or>
     py_lower (path_suffix path) \<in> set IGNORED_SUFFIXES \<or>
     (case e of Regular raw \<Rightarrow> max_file_size < int (length raw) | Link \<Rightarrow> False)"

definition source_files :: "int \<Rightarrow> tree \<Rightarrow> (string \<times> string) list" where
  \<comment> \<open>\<open>iter_source_files\<close> without the symbolic links \<open>_scan_source_files\<close> skips: path and bytes, in order\<close>
  "source_files max_file_size t =
     sort_key (\<lambda>(path, raw). py_split CHR ''/'' path) (List.map_filter
       (\<lambda>(path, e). if should_ignore_path max_file_size path e \<or> detect_language path = None then None
                    else case e of Regular raw \<Rightarrow> Some (path, raw) | Link \<Rightarrow> None) t)"

text \<open>\<open>raw.decode("utf-8", errors="ignore")\<close>: the bytes of the well-formed sequences, the others dropped.\<close>

definition byte_in :: "nat \<Rightarrow> nat \<Rightarrow> char \<Rightarrow> bool" where
  "byte_in lo hi c \<longleftrightarrow> lo \<le> of_char c \<and> of_char c \<le> hi"

fun utf8_head :: "string \<Rightarrow> nat" where
  \<comment> \<open>the length of the well-formed sequence the bytes begin with, 0 when there is none\<close>
  "utf8_head [] = 0"
| "utf8_head (a # rest) =
     (let trail = (\<lambda>k. k \<le> length rest \<and> list_all (byte_in 128 191) (take k rest));
          second = (\<lambda>lo hi. rest \<noteq> [] \<and> byte_in lo hi (hd rest))
      in if byte_in 0 127 a then 1
         else if byte_in 194 223 a \<and> trail 1 then 2
         else if byte_in 224 239 a \<and> trail 2 \<and> (of_char a = (224 :: nat) \<longrightarrow> second 160 191) \<and>
                 (of_char a = (237 :: nat) \<longrightarrow> second 128 159) then 3
         else if byte_in 240 244 a \<and> trail 3 \<and> (of_char a = (240 :: nat) \<longrightarrow> second 144 191) \<and>
                 (of_char a = (244 :: nat) \<longrightarrow> second 128 143) then 4
         else 0)"

function decode_ignoring :: "string \<Rightarrow> string" where
  "decode_ignoring bs =
     (if bs = [] then []
      else let n = utf8_head bs in if n = 0 then decode_ignoring (drop 1 bs) else take n bs @ decode_ignoring (drop n bs))"
  by pat_completeness auto
termination by (relation "measure length") auto

declare decode_ignoring.simps [simp del]

section \<open>Rows\<close>

record chunk_data =
  cd_symbol_name :: string
  cd_symbol_type :: string
  cd_start_line :: int
  cd_end_line :: int
  cd_content :: string
  cd_content_hash :: string
  cd_imports :: "string list"
  cd_exports :: "string list"

record parsed_file =
  pf_imports :: "string list"
  pf_exports :: "string list"
  pf_chunks :: "chunk_data list"

record scanned_file =
  sf_path :: string
  sf_language :: string
  sf_raw :: string
  sf_content :: string
  sf_hash :: string
  sf_parsed :: parsed_file

record file_row =
  cf_id :: string
  cf_path :: string
  cf_language :: string
  cf_hash :: string
  cf_line_count :: int
  cf_size_bytes :: int
  cf_imports :: "string list"
  cf_exports :: "string list"

record chunk_row =
  cc_id :: string
  cc_file_id :: string
  cc_path :: string
  cc_language :: string
  cc_data :: chunk_data
  cc_embedding_id :: "string option"

record repo_row =
  rp_status :: string
  rp_error_message :: "string option"
  rp_has_local_path :: bool
  rp_last_commit_hash :: "string option"
  rp_language_summary :: "(string \<times> int) list"
  rp_file_count :: int
  rp_chunk_count :: int

record tables =
  tb_repo :: repo_row
  tb_files :: "file_row list"
  tb_chunks :: "chunk_row list"

text \<open>
  The world of one repository: what is committed and what the session sees, the vectors by the size of their
  collection, the three directories, and the two variables the exception handler reads.
\<close>

record world =
  wd_committed :: tables
  wd_session :: tables
  wd_points :: "(int \<times> string) set"
  wd_target :: "tree option"
  wd_staging :: "tree option"
  wd_backup :: "tree option"
  wd_new_point_ids :: "string list"
  wd_replaced :: bool
  wd_next_id :: nat

datatype index_step = Prepare | Save_status string | Copy | Fetch | Read_commit | Scan | Collection | Read_rows | Delete_rows | Persist
  | Embed | Upsert nat | Remove_backup | Rename_target | Rename_staging | Rename_back | Commit | Delete_points
  | Remove_target | Restore_backup | Remove_staging

record index_env =
  ix_fails :: "index_step \<Rightarrow> string option"
  ix_fetch :: "tree option \<Rightarrow> tree"
  ix_commit_hash :: "string option"
  ix_sha :: "string \<Rightarrow> string"
  ix_parse :: "string \<Rightarrow> string \<Rightarrow> string \<Rightarrow> parsed_file"
  ix_dimension :: int
  ix_partial :: "nat \<Rightarrow> string \<Rightarrow> bool"
  ix_new_id :: "nat \<Rightarrow> string"
  ix_max_file_size :: int

section \<open>Steps that may fail\<close>

type_synonym 'a step = "world \<Rightarrow> (string + 'a) \<times> world"

definition attempt :: "index_env \<Rightarrow> index_step \<Rightarrow> (world \<Rightarrow> world) \<Rightarrow> unit step" where
  "attempt E s f w = (case ix_fails E s of Some e \<Rightarrow> (Inl e, w) | None \<Rightarrow> (Inr (), f w))"

definition andthen :: "'a step \<Rightarrow> ('a \<Rightarrow> 'b step) \<Rightarrow> 'b step" where
  "andthen m f w = (case m w of (Inl e, w') \<Rightarrow> (Inl e, w') | (Inr x, w') \<Rightarrow> f x w')"

definition best_effort :: "index_env \<Rightarrow> index_step \<Rightarrow> (world \<Rightarrow> world) \<Rightarrow> world \<Rightarrow> world" where
  "best_effort E s f w = snd (attempt E s f w)"

definition rollback :: "world \<Rightarrow> world" where
  "rollback w = w\<lparr>wd_session := wd_committed w\<rparr>"

definition commit :: "world \<Rightarrow> world" where
  "commit w = w\<lparr>wd_committed := wd_session w\<rparr>"

definition set_repository :: "(repo_row \<Rightarrow> repo_row) \<Rightarrow> world \<Rightarrow> world" where
  "set_repository f w = w\<lparr>wd_session := (wd_session w)\<lparr>tb_repo := f (tb_repo (wd_session w))\<rparr>\<rparr>"

definition update_repository :: "index_env \<Rightarrow> string \<Rightarrow> (repo_row \<Rightarrow> repo_row) \<Rightarrow> unit step" where
  "update_repository E status' f =
     attempt E (Save_status status') (\<lambda>w. commit (set_repository (\<lambda>r. f (r\<lparr>rp_status := status'\<rparr>)) w))"

section \<open>Scanning and persisting\<close>

definition scan_source_files :: "index_env \<Rightarrow> tree \<Rightarrow> scanned_file list" where
  "scan_source_files E t =
     map (\<lambda>(path, raw). let language = the (detect_language path) in
            \<lparr>sf_path = path, sf_language = language, sf_raw = raw, sf_content = decode_ignoring raw,
             sf_hash = ix_sha E raw, sf_parsed = ix_parse E language path (decode_ignoring raw)\<rparr>)
       (source_files (ix_max_file_size E) t)"

definition count_lines :: "string \<Rightarrow> int" where
  "count_lines content =
     (if content = [] then 0
      else int (length (filter (\<lambda>c. c = CHR 0x0A) content)) + (if last content = CHR 0x0A then 0 else 1))"

definition file_row_of :: "string \<Rightarrow> scanned_file \<Rightarrow> file_row" where
  "file_row_of i s = \<lparr>cf_id = i, cf_path = sf_path s, cf_language = sf_language s, cf_hash = sf_hash s,
     cf_line_count = count_lines (sf_content s), cf_size_bytes = int (length (sf_raw s)),
     cf_imports = pf_imports (sf_parsed s), cf_exports = pf_exports (sf_parsed s)\<rparr>"

definition chunk_row_of :: "string \<Rightarrow> string \<Rightarrow> scanned_file \<Rightarrow> chunk_data \<Rightarrow> chunk_row" where
  "chunk_row_of i file_id s c = \<lparr>cc_id = i, cc_file_id = file_id, cc_path = sf_path s, cc_language = sf_language s,
     cc_data = c, cc_embedding_id = None\<rparr>"

fun persist_scanned_files :: "(nat \<Rightarrow> string) \<Rightarrow> nat \<Rightarrow> scanned_file list \<Rightarrow> file_row list \<times> chunk_row list" where
  \<comment> \<open>the rows added, ids drawn from the counter on\<close>
  "persist_scanned_files new_id n [] = ([], [])"
| "persist_scanned_files new_id n (s # rest) =
     (let chunks = pf_chunks (sf_parsed s);
          rows = map (\<lambda>(k, c). chunk_row_of (new_id (Suc n + k)) (new_id n) s c) (enumerate 0 chunks);
          (files', chunks') = persist_scanned_files new_id (Suc n + length chunks) rest
      in (file_row_of (new_id n) s # files', rows @ chunks'))"

definition ids_used :: "scanned_file list \<Rightarrow> nat" where
  "ids_used scanned = sum_list (map (\<lambda>s. Suc (length (pf_chunks (sf_parsed s)))) scanned)"

definition embedded :: "chunk_row \<Rightarrow> chunk_row" where
  "embedded c = c\<lparr>cc_embedding_id := Some (cc_id c)\<rparr>"

definition persist :: "index_env \<Rightarrow> scanned_file list \<Rightarrow> chunk_row list step" where
  "persist E scanned w =
     (let (fs, cs) = persist_scanned_files (ix_new_id E) (wd_next_id w) scanned;
          tb = wd_session w
      in andthen (attempt E Persist (\<lambda>w. w\<lparr>wd_next_id := wd_next_id w + ids_used scanned,
              wd_session := tb\<lparr>tb_files := tb_files tb @ fs, tb_chunks := tb_chunks tb @ cs\<rparr>\<rparr>))
           (\<lambda>_ w. (Inr cs, w)) w)"

section \<open>Vectors\<close>

definition drop_points :: "index_env \<Rightarrow> string list \<Rightarrow> world \<Rightarrow> world" where
  \<comment> \<open>\<open>_delete_vector_points_best_effort\<close> in the active collection\<close>
  "drop_points E ids w =
     (if ids = [] then w
      else best_effort E Delete_points (\<lambda>w. w\<lparr>wd_points := wd_points w - {ix_dimension E} \<times> set ids\<rparr>) w)"

function upsert_batches :: "index_env \<Rightarrow> nat \<Rightarrow> string list \<Rightarrow> string list \<Rightarrow> unit step" where
  "upsert_batches E n done' ids w =
     (if ids = [] then (Inr (), w)
      else let batch = take 64 ids in
        case ix_fails E (Upsert n) of
          Some e \<Rightarrow>
            (Inl e, drop_points E (done' @ batch)
               (w\<lparr>wd_points := wd_points w \<union> {ix_dimension E} \<times> set (filter (ix_partial E n) batch)\<rparr>))
        | None \<Rightarrow>
            upsert_batches E (Suc n) (done' @ batch) (drop 64 ids)
              (w\<lparr>wd_points := wd_points w \<union> {ix_dimension E} \<times> set batch\<rparr>))"
  by pat_completeness auto
termination by (relation "measure (\<lambda>(E, n, done', ids, w). length ids)") auto

declare upsert_batches.simps [simp del]

definition write_embeddings :: "index_env \<Rightarrow> chunk_row list \<Rightarrow> string list step" where
  "write_embeddings E chunks w =
     (if chunks = [] then (Inr [], w)
      else
        let ids = map cc_id chunks;
            mark = (\<lambda>c. if cc_id c \<in> set ids then embedded c else c)
        in andthen (attempt E Embed (\<lambda>w. w\<lparr>wd_session := (wd_session w)\<lparr>tb_chunks := map mark (tb_chunks (wd_session w))\<rparr>\<rparr>))
             (\<lambda>_. andthen (upsert_batches E 0 [] ids) (\<lambda>_ w. (Inr ids, w))) w)"

section \<open>Directories\<close>

definition replace_workspace :: "index_env \<Rightarrow> unit step" where
  "replace_workspace E =
     andthen (attempt E Remove_backup (\<lambda>w. w\<lparr>wd_backup := None\<rparr>))
       (\<lambda>_. andthen (\<lambda>w. if wd_target w = None then (Inr (), w)
                          else attempt E Rename_target (\<lambda>w. w\<lparr>wd_backup := wd_target w, wd_target := None\<rparr>) w)
         (\<lambda>_ w. case ix_fails E Rename_staging of
                   None \<Rightarrow> (Inr (), w\<lparr>wd_target := wd_staging w, wd_staging := None\<rparr>)
                 | Some e \<Rightarrow>
                     if wd_backup w = None then (Inl e, w)
                     else (case attempt E Rename_back (\<lambda>w. w\<lparr>wd_target := wd_backup w, wd_backup := None\<rparr>) w of
                             (Inl e', w') \<Rightarrow> (Inl e', w') | (Inr _, w') \<Rightarrow> (Inl e, w'))))"

definition restore_workspace :: "index_env \<Rightarrow> unit step" where
  "restore_workspace E =
     andthen (attempt E Remove_target (\<lambda>w. w\<lparr>wd_target := None\<rparr>))
       (\<lambda>_ w. if wd_backup w = None then (Inr (), w)
              else attempt E Restore_backup (\<lambda>w. w\<lparr>wd_target := wd_backup w, wd_backup := None\<rparr>) w)"

section \<open>Reading and deleting rows\<close>

definition existing_files :: "tables \<Rightarrow> string \<Rightarrow> file_row option" where
  "existing_files tb = map_of (rev (map (\<lambda>r. (cf_path r, r)) (tb_files tb)))"

definition point_id :: "chunk_row \<Rightarrow> string" where
  \<comment> \<open>\<open>embedding_id or chunk_id\<close>\<close>
  "point_id c = (case cc_embedding_id c of Some e \<Rightarrow> if e = [] then cc_id c else e | None \<Rightarrow> cc_id c)"

definition chunk_point_ids :: "tables \<Rightarrow> string list option \<Rightarrow> string list" where
  "chunk_point_ids tb paths =
     (case paths of
        None \<Rightarrow> map point_id (tb_chunks tb)
      | Some ps \<Rightarrow> map point_id (filter (\<lambda>c. cc_path c \<in> set ps) (tb_chunks tb)))"

definition delete_indexed_files_from_db :: "index_env \<Rightarrow> string list \<Rightarrow> unit step" where
  "delete_indexed_files_from_db E paths w =
     (if paths = [] then (Inr (), w)
      else attempt E Delete_rows (\<lambda>w. let tb = wd_session w in w\<lparr>wd_session := tb\<lparr>
             tb_chunks := filter (\<lambda>c. cc_path c \<notin> set paths) (tb_chunks tb),
             tb_files := filter (\<lambda>f. cf_path f \<notin> set paths) (tb_files tb)\<rparr>\<rparr>) w)"

definition delete_all_rows :: "world \<Rightarrow> world" where
  "delete_all_rows w = w\<lparr>wd_session := (wd_session w)\<lparr>tb_chunks := [], tb_files := []\<rparr>\<rparr>"

definition deleted_paths :: "tables \<Rightarrow> scanned_file list \<Rightarrow> string list" where
  "deleted_paths tb scanned = sorted_list_of_set (set (map cf_path (tb_files tb)) - set (map sf_path scanned))"

definition changed_files :: "tables \<Rightarrow> scanned_file list \<Rightarrow> scanned_file list" where
  "changed_files tb scanned =
     filter (\<lambda>s. case existing_files tb (sf_path s) of None \<Rightarrow> True | Some r \<Rightarrow> cf_hash r \<noteq> sf_hash s) scanned"

definition counter :: "string list \<Rightarrow> (string \<times> int) list" where
  \<comment> \<open>\<open>dict(Counter(xs))\<close>\<close>
  "counter xs = map (\<lambda>x. (x, int (count_list xs x))) (rev (remdups (rev xs)))"

section \<open>Publishing an index\<close>

definition indexed_values :: "index_env \<Rightarrow> scanned_file list \<Rightarrow> int \<Rightarrow> repo_row \<Rightarrow> repo_row" where
  "indexed_values E scanned chunks r = r\<lparr>rp_status := ''indexed'', rp_has_local_path := True,
     rp_last_commit_hash := ix_commit_hash E, rp_language_summary := counter (map sf_language scanned),
     rp_file_count := int (length scanned), rp_chunk_count := chunks\<rparr>"

definition publish :: "index_env \<Rightarrow> scanned_file list \<Rightarrow> scanned_file list \<Rightarrow> (world \<Rightarrow> int) \<Rightarrow> unit step" where
  \<comment> \<open>the common end of both runs: rows, vectors, directory, commit\<close>
  "publish E scanned added chunk_count =
     andthen (persist E added) (\<lambda>cs.
     andthen (write_embeddings E cs) (\<lambda>ids w.
     andthen (replace_workspace E) (\<lambda>_ w.
       attempt E Commit commit
         (set_repository (indexed_values E scanned (chunk_count w)) (w\<lparr>wd_replaced := True\<rparr>)))
     (w\<lparr>wd_new_point_ids := ids\<rparr>)))"

definition full_body :: "index_env \<Rightarrow> string list step" where
  "full_body E =
     andthen (\<lambda>w. attempt E Fetch id (w\<lparr>wd_staging := Some (ix_fetch E None)\<rparr>)) (\<lambda>_.
     andthen (attempt E Read_commit id) (\<lambda>_.
     andthen (update_repository E ''parsing'' id) (\<lambda>_.
     andthen (attempt E Scan id) (\<lambda>_ w.
       let scanned = scan_source_files E (the (wd_staging w)) in
       andthen (update_repository E ''embedding'' id) (\<lambda>_.
       andthen (attempt E Collection id) (\<lambda>_.
       andthen (attempt E Read_rows id) (\<lambda>_ w.
         let old_point_ids = chunk_point_ids (wd_session w) None in
         andthen (attempt E Delete_rows delete_all_rows) (\<lambda>_.
         andthen (publish E scanned scanned (\<lambda>_. int (length (concat (map (pf_chunks \<circ> sf_parsed) scanned))))) (\<lambda>_ w.
           (Inr old_point_ids, w))) w))) w))))"

definition incremental_body :: "index_env \<Rightarrow> string list step" where
  "incremental_body E =
     andthen (\<lambda>w. attempt E Copy id (w\<lparr>wd_staging := wd_target w\<rparr>)) (\<lambda>_.
     andthen (\<lambda>w. attempt E Fetch id (w\<lparr>wd_staging := Some (ix_fetch E (wd_staging w))\<rparr>)) (\<lambda>_.
     andthen (attempt E Read_commit id) (\<lambda>_.
     andthen (update_repository E ''parsing'' id) (\<lambda>_.
     andthen (attempt E Collection id) (\<lambda>_.
     andthen (attempt E Scan id) (\<lambda>_.
     andthen (attempt E Read_rows id) (\<lambda>_ w.
       let scanned = scan_source_files E (the (wd_staging w));
           changed = changed_files (wd_session w) scanned;
           replaced_paths = deleted_paths (wd_session w) scanned @ map sf_path changed
       in andthen (update_repository E ''embedding'' id) (\<lambda>_ w.
            let old_point_ids = chunk_point_ids (wd_session w) (Some replaced_paths) in
            andthen (delete_indexed_files_from_db E replaced_paths) (\<lambda>_.
            andthen (publish E scanned changed (\<lambda>w. int (length (tb_chunks (wd_session w))))) (\<lambda>_ w.
              (Inr old_point_ids, w))) w) w)))))))"

section \<open>A run\<close>

definition on_failure :: "index_env \<Rightarrow> string \<Rightarrow> string list step" where
  \<comment> \<open>the \<open>except\<close> of both runs, which raises again\<close>
  "on_failure E e w =
     (let w = drop_points E (wd_new_point_ids w) (rollback w)
      in if wd_replaced w
         then andthen (restore_workspace E) (\<lambda>_ w. (Inl e, w)) w
         else (Inl e, best_effort E Remove_staging (\<lambda>w. w\<lparr>wd_staging := None\<rparr>) w))"

definition index_run :: "index_env \<Rightarrow> string list step \<Rightarrow> unit step" where
  \<comment> \<open>\<open>_index_full\<close> and \<open>_index_incremental\<close> around their bodies\<close>
  "index_run E body =
     andthen (attempt E Prepare (\<lambda>w. w\<lparr>wd_staging := None, wd_new_point_ids := [], wd_replaced := False\<rparr>)) (\<lambda>_.
     andthen (update_repository E ''cloning'' (\<lambda>r. r\<lparr>rp_error_message := None\<rparr>)) (\<lambda>_.
     andthen (\<lambda>w. case body w of (Inl e, w') \<Rightarrow> on_failure E e w' | (Inr x, w') \<Rightarrow> (Inr x, w')) (\<lambda>old_point_ids w.
       (Inr (), drop_points E old_point_ids (best_effort E Remove_backup (\<lambda>w. w\<lparr>wd_backup := None\<rparr>) w)))))"

definition safe_index_error_message :: "string \<Rightarrow> string" where
  "safe_index_error_message e =
     (if starts_with ''Repository '' (py_strip e) then py_strip e
      else ''Repository indexing failed. Check repository contents and configuration.'')"

definition index_repository :: "index_env \<Rightarrow> bool \<Rightarrow> unit step" where
  "index_repository E full w =
     (case index_run E (if full \<or> \<not> rp_has_local_path (tb_repo (wd_session w)) \<or> wd_target w = None
                        then full_body E else incremental_body E) w of
        (Inr _, w') \<Rightarrow> (Inr (), w')
      | (Inl e, w') \<Rightarrow>
          update_repository E ''failed'' (\<lambda>r. r\<lparr>rp_error_message := Some (safe_index_error_message e)\<rparr>) (rollback w'))"

end
