(* ===== verification/IndexTheorems.thy ===== *)
theory IndexTheorems
  imports Indexing "HOL-Library.Multiset"
begin

text \<open>
  What the compensations of \<open>Indexing\<close> achieve.  Part 1: weakest preconditions of the steps, with one
  postcondition for a return and one for an exception.  Part 2: a run that does not end with the status
  \<open>indexed\<close> leaves the rows, the vectors and the checkout as they were.  Part 3: after a run that ends with it
  the rows are those of a scan of the published checkout, whether the run was full or incremental.
\<close>

section \<open>Weakest preconditions\<close>

definition wp :: "'a step \<Rightarrow> ('a \<Rightarrow> world \<Rightarrow> bool) \<Rightarrow> (world \<Rightarrow> bool) \<Rightarrow> world \<Rightarrow> bool" where
  "wp m Q X w = (case m w of (Inl e, w') \<Rightarrow> X w' | (Inr x, w') \<Rightarrow> Q x w')"

lemma wp_andthen [simp]: "wp (andthen m f) Q X = wp m (\<lambda>x. wp (f x) Q X) X"
  by (rule ext) (simp add: wp_def andthen_def split: prod.splits sum.splits)

lemma wp_attempt [simp]: "wp (attempt E s f) Q X w \<longleftrightarrow> (case ix_fails E s of Some e \<Rightarrow> X w | None \<Rightarrow> Q () (f w))"
  by (simp add: wp_def attempt_def split: option.splits)

lemma wp_return [simp]: "wp (\<lambda>w. (Inr (x w), f w)) Q X w \<longleftrightarrow> Q (x w) (f w)"
  by (simp add: wp_def)

lemma wp_pair [simp]: "wp (Pair (Inr x)) Q X = Q x" "wp (Pair (Inl e)) Q X = X"
  by (rule ext, simp add: wp_def)+

lemma wp_raise [simp]: "wp (\<lambda>w. (Inl (e w), f w)) Q X w \<longleftrightarrow> X (f w)"
  by (simp add: wp_def)

lemma wp_update_repository [simp]:
  "wp (update_repository E s f) Q X w \<longleftrightarrow>
     (case ix_fails E (Save_status s) of Some e \<Rightarrow> X w
      | None \<Rightarrow> Q () (commit (set_repository (\<lambda>r. f (r\<lparr>rp_status := s\<rparr>)) w)))"
  by (simp add: update_repository_def)

lemma wp_andthen_at [simp]:
  "wp (\<lambda>v. andthen (m v) (f v) (h v)) Q X w \<longleftrightarrow> wp (m w) (\<lambda>x. wp (f w x) Q X) X (h w)"
  by (simp add: wp_def andthen_def split: prod.splits sum.splits)

lemma wp_attempt_at [simp]:
  "wp (\<lambda>v. attempt (E v) (s v) (f v) (h v)) Q X w \<longleftrightarrow>
     (case ix_fails (E w) (s w) of Some e \<Rightarrow> X (h w) | None \<Rightarrow> Q () (f w (h w)))"
  by (simp add: wp_def attempt_def split: option.splits)

lemma wp_attempt_atI:
  "Q () (f w (h w)) \<Longrightarrow> X (h w) \<Longrightarrow> wp (\<lambda>v. attempt (E v) (s v) (f v) (h v)) Q X w"
  by (simp split: option.split)

lemma wp_let [simp]: "wp (\<lambda>v. let y = a v in b v y) Q X w \<longleftrightarrow> wp (\<lambda>v. b v (a v)) Q X w"
  by (simp add: Let_def)

lemma wp_if [simp]: "wp (\<lambda>v. if b v then m v else k v) Q X w \<longleftrightarrow> (if b w then wp m Q X w else wp k Q X w)"
  by (simp add: wp_def)

lemma wp_mono: "wp m Q X w \<Longrightarrow> (\<And>x w. Q x w \<Longrightarrow> Q' x w) \<Longrightarrow> (\<And>w. X w \<Longrightarrow> X' w) \<Longrightarrow> wp m Q' X' w"
  by (auto simp: wp_def split: prod.splits sum.splits)

lemma wp_conj: "wp m Q X w \<Longrightarrow> wp m Q' X' w \<Longrightarrow> wp m (\<lambda>x w. Q x w \<and> Q' x w) (\<lambda>w. X w \<and> X' w) w"
  by (auto simp: wp_def split: prod.splits sum.splits)

section \<open>A run that fails leaves things as they were\<close>

definition compensations_work :: "index_env \<Rightarrow> bool" where
  "compensations_work E \<longleftrightarrow> ix_fails E Delete_points = None \<and> ix_fails E Remove_target = None \<and>
     ix_fails E Restore_backup = None \<and> ix_fails E Rename_back = None"

definition fresh_from :: "index_env \<Rightarrow> nat \<Rightarrow> (int \<times> string) set \<Rightarrow> bool" where
  "fresh_from E n P \<longleftrightarrow> (\<forall>k. n \<le> k \<longrightarrow> (ix_dimension E, ix_new_id E k) \<notin> P)"

definition same_rows :: "world \<Rightarrow> world \<Rightarrow> bool" where
  "same_rows w0 w \<longleftrightarrow> tb_files (wd_committed w) = tb_files (wd_committed w0) \<and>
     tb_chunks (wd_committed w) = tb_chunks (wd_committed w0)"

definition quiet :: "world \<Rightarrow> world \<Rightarrow> bool" where
  "quiet w0 w \<longleftrightarrow> same_rows w0 w \<and> wd_points w = wd_points w0 \<and> wd_target w = wd_target w0 \<and>
     wd_new_point_ids w = [] \<and> \<not> wd_replaced w \<and> wd_next_id w = wd_next_id w0"

definition clean :: "world \<Rightarrow> bool" where
  "clean w \<longleftrightarrow> tb_files (wd_session w) = tb_files (wd_committed w) \<and> tb_chunks (wd_session w) = tb_chunks (wd_committed w)"

definition compensable :: "index_env \<Rightarrow> world \<Rightarrow> world \<Rightarrow> bool" where
  "compensable E w0 w \<longleftrightarrow> same_rows w0 w \<and>
     wd_points w = wd_points w0 \<union> {ix_dimension E} \<times> set (wd_new_point_ids w) \<and>
     wd_points w0 \<inter> {ix_dimension E} \<times> set (wd_new_point_ids w) = {} \<and>
     (if wd_replaced w then wd_backup w = wd_target w0 else wd_target w = wd_target w0)"

lemma quiet_compensable: "quiet w0 w \<Longrightarrow> compensable E w0 w"
  by (auto simp: quiet_def compensable_def)

lemma quiet_updates [simp]:
  "quiet w0 (w\<lparr>wd_staging := x\<rparr>) \<longleftrightarrow> quiet w0 w"
  "quiet w0 (w\<lparr>wd_session := y\<rparr>) \<longleftrightarrow> quiet w0 w"
  "quiet w0 (w\<lparr>wd_backup := x\<rparr>) \<longleftrightarrow> quiet w0 w"
  "clean (w\<lparr>wd_staging := x\<rparr>) \<longleftrightarrow> clean w"
  "compensable E w0 (w\<lparr>wd_staging := x\<rparr>) \<longleftrightarrow> compensable E w0 w"
  by (simp_all add: quiet_def same_rows_def clean_def compensable_def)

lemma quiet_saved:
  assumes "quiet w0 w" "clean w"
  shows "quiet w0 (commit (set_repository f w))" "clean (commit (set_repository f w))"
  using assms by (simp_all add: quiet_def same_rows_def clean_def commit_def set_repository_def)

lemma upsert_batches_all_or_nothing:
  assumes "ix_fails E Delete_points = None"
    and "wd_points w = P \<union> {ix_dimension E} \<times> set done'"
    and "P \<inter> {ix_dimension E} \<times> set (done' @ ids) = {}"
  shows "wp (upsert_batches E n done' ids) (\<lambda>_ w'. w' = w\<lparr>wd_points := P \<union> {ix_dimension E} \<times> set (done' @ ids)\<rparr>)
           (\<lambda>w'. w' = w\<lparr>wd_points := P\<rparr>) w"
  using assms
proof (induction E n done' ids w rule: upsert_batches.induct)
  case (1 E n done' ids w)
  let ?d = "ix_dimension E" and ?batch = "take 64 ids"
  have sub: "set ?batch \<subseteq> set ids" by (rule set_take_subset)
  have split: "set ids = set ?batch \<union> set (drop 64 ids)" by (metis append_take_drop_id set_append)
  show ?case
  proof (cases "ids = []")
    case True
    then show ?thesis using "1.prems" by (simp add: wp_def upsert_batches.simps)
  next
    case False
    show ?thesis
    proof (cases "ix_fails E (Upsert n)")
      case (Some e)
      have "P \<union> {?d} \<times> set done' \<union> {?d} \<times> set (filter (ix_partial E n) ?batch) - {?d} \<times> set (done' @ ?batch) = P"
        using "1.prems"(3) sub by auto
      then show ?thesis
        using False Some "1.prems"
        by (simp add: wp_def upsert_batches.simps [of E n done' ids w] drop_points_def best_effort_def attempt_def)
    next
      case None
      let ?w = "w\<lparr>wd_points := wd_points w \<union> {?d} \<times> set ?batch\<rparr>"
      have "wd_points ?w = P \<union> {?d} \<times> set (done' @ ?batch)"
        using "1.prems"(2) by auto
      moreover have "P \<inter> {?d} \<times> set ((done' @ ?batch) @ drop 64 ids) = {}"
        using "1.prems"(3) by simp
      ultimately have "wp (upsert_batches E (Suc n) (done' @ ?batch) (drop 64 ids))
          (\<lambda>_ w'. w' = ?w\<lparr>wd_points := P \<union> {?d} \<times> set ((done' @ ?batch) @ drop 64 ids)\<rparr>)
          (\<lambda>w'. w' = ?w\<lparr>wd_points := P\<rparr>) ?w"
        using "1.IH" [OF False refl None] "1.prems"(1) by blast
      then show ?thesis
        using False None by (simp add: wp_def upsert_batches.simps [of E n done' ids w] Let_def)
    qed
  qed
qed

lemma persist_Cons:
  "persist_scanned_files f n (s # rest) =
     (file_row_of (f n) s # fst (persist_scanned_files f (Suc n + length (pf_chunks (sf_parsed s))) rest),
      map (\<lambda>(k, c). chunk_row_of (f (Suc n + k)) (f n) s c) (enumerate 0 (pf_chunks (sf_parsed s))) @
      snd (persist_scanned_files f (Suc n + length (pf_chunks (sf_parsed s))) rest))"
  by (simp add: Let_def split_beta)

lemma persisted_ids:
  assumes "c \<in> set (snd (persist_scanned_files f n scanned))"
  shows "\<exists>k\<ge>n. cc_id c = f k"
  using assms
proof (induction scanned arbitrary: n)
  case (Cons s rest)
  let ?m = "Suc n + length (pf_chunks (sf_parsed s))"
  consider k d where "c = chunk_row_of (f (Suc n + k)) (f n) s d" | "c \<in> set (snd (persist_scanned_files f ?m rest))"
    using Cons.prems unfolding persist_Cons by (auto simp del: persist_scanned_files.simps)
  then show ?case
  proof cases
    case 1
    then have "cc_id c = f (Suc n + k)" by (simp add: chunk_row_of_def)
    then show ?thesis by (intro exI [of _ "Suc n + k"]) simp
  next
    case 2
    then obtain k where "?m \<le> k" "cc_id c = f k" using Cons.IH by blast
    then show ?thesis by (intro exI [of _ k]) simp
  qed
qed simp


lemma wp_persist [simp]:
  "wp (persist E scanned) Q X w \<longleftrightarrow>
     (case ix_fails E Persist of Some e \<Rightarrow> X w
      | None \<Rightarrow>
          (let rows = persist_scanned_files (ix_new_id E) (wd_next_id w) scanned; tb = wd_session w
           in Q (snd rows) (w\<lparr>wd_next_id := wd_next_id w + ids_used scanned,
                wd_session := tb\<lparr>tb_files := tb_files tb @ fst rows, tb_chunks := tb_chunks tb @ snd rows\<rparr>\<rparr>)))"
  by (simp add: persist_def wp_def andthen_def attempt_def split_beta Let_def split: option.splits)

definition mark_embedded :: "chunk_row list \<Rightarrow> tables \<Rightarrow> tables" where
  "mark_embedded cs tb = tb\<lparr>tb_chunks := map (\<lambda>c. if cc_id c \<in> set (map cc_id cs) then embedded c else c) (tb_chunks tb)\<rparr>"

lemma write_embeddings_all_or_nothing:
  assumes "ix_fails E Delete_points = None"
    and "wd_points w \<inter> {ix_dimension E} \<times> set (map cc_id cs) = {}"
  shows "wp (write_embeddings E cs)
           (\<lambda>ids w'. ids = map cc_id cs \<and> w' = w\<lparr>wd_session := mark_embedded cs (wd_session w),
              wd_points := wd_points w \<union> {ix_dimension E} \<times> set (map cc_id cs)\<rparr>)
           (\<lambda>w'. \<exists>tb. w' = w\<lparr>wd_session := tb\<rparr>) w"
proof (cases "cs = []")
  case True
  then show ?thesis by (simp add: wp_def write_embeddings_def mark_embedded_def)
next
  case False
  let ?w = "w\<lparr>wd_session := mark_embedded cs (wd_session w)\<rparr>"
  have restored: "?w\<lparr>wd_points := wd_points w\<rparr> = ?w" by simp
  have "wp (upsert_batches E 0 [] (map cc_id cs))
      (\<lambda>_ w'. w' = ?w\<lparr>wd_points := wd_points w \<union> {ix_dimension E} \<times> set ([] @ map cc_id cs)\<rparr>)
      (\<lambda>w'. w' = ?w\<lparr>wd_points := wd_points w\<rparr>) ?w"
    by (rule upsert_batches_all_or_nothing) (use assms in auto)
  then have batches: "wp (upsert_batches E 0 [] (map cc_id cs))
      (\<lambda>_ w'. w' = ?w\<lparr>wd_points := wd_points w \<union> {ix_dimension E} \<times> set (map cc_id cs)\<rparr>)
      (\<lambda>w'. w' = ?w) ?w"
    by (rule wp_mono) (simp_all add: restored)
  have "write_embeddings E cs w = andthen (attempt E Embed (\<lambda>w. w\<lparr>wd_session := mark_embedded cs (wd_session w)\<rparr>))
      (\<lambda>_. andthen (upsert_batches E 0 [] (map cc_id cs)) (\<lambda>_ w. (Inr (map cc_id cs), w))) w"
    using False by (simp add: write_embeddings_def mark_embedded_def Let_def)
  moreover have "wp (andthen (attempt E Embed (\<lambda>w. w\<lparr>wd_session := mark_embedded cs (wd_session w)\<rparr>))
      (\<lambda>_. andthen (upsert_batches E 0 [] (map cc_id cs)) (\<lambda>_ w. (Inr (map cc_id cs), w))))
      (\<lambda>ids w'. ids = map cc_id cs \<and> w' = w\<lparr>wd_session := mark_embedded cs (wd_session w),
              wd_points := wd_points w \<union> {ix_dimension E} \<times> set (map cc_id cs)\<rparr>)
      (\<lambda>w'. \<exists>tb. w' = w\<lparr>wd_session := tb\<rparr>) w"
  proof (cases "ix_fails E Embed")
    case None
    then show ?thesis by simp (rule wp_mono [OF batches], auto)
  next
    case (Some e)
    have "w = w\<lparr>wd_session := wd_session w\<rparr>" by simp
    then show ?thesis using Some by (simp, intro exI) 
  qed
  ultimately show ?thesis unfolding wp_def by (simp only:)
qed

lemma replace_workspace_all_or_nothing:
  assumes "ix_fails E Rename_back = None"
  shows "wp (replace_workspace E)
           (\<lambda>_ w'. w' = w\<lparr>wd_target := wd_staging w, wd_staging := None, wd_backup := wd_target w\<rparr>)
           (\<lambda>w'. w'\<lparr>wd_backup := None\<rparr> = w\<lparr>wd_backup := None\<rparr>) w"
  using assms
  by (cases w; cases "wd_target w"; cases "ix_fails E Remove_backup"; cases "ix_fails E Rename_target"; cases "ix_fails E Rename_staging")
    (simp_all add: replace_workspace_def wp_def andthen_def attempt_def)

lemma compensable_backup:
  "w'\<lparr>wd_backup := None\<rparr> = w\<lparr>wd_backup := None\<rparr> \<Longrightarrow> \<not> wd_replaced w \<Longrightarrow> compensable E w0 w \<Longrightarrow> compensable E w0 w'"
  by (cases w; cases w') (simp add: compensable_def same_rows_def)

type_synonym chunk_view = "string \<times> string \<times> chunk_data"

definition chunk_view :: "chunk_row \<Rightarrow> chunk_view" where
  "chunk_view c = (cc_path c, cc_language c, cc_data c)"

lemma mark_embedded_rows [simp]:
  "tb_files (mark_embedded cs tb) = tb_files tb" "tb_repo (mark_embedded cs tb) = tb_repo tb"
  "map chunk_view (tb_chunks (mark_embedded cs tb)) = map chunk_view (tb_chunks tb)"
  by (simp_all add: mark_embedded_def chunk_view_def embedded_def)

text \<open>What \<open>publish\<close> has done when it returns, with the session it began with.\<close>

definition published :: "index_env \<Rightarrow> scanned_file list \<Rightarrow> world \<Rightarrow> world \<Rightarrow> bool" where
  "published E added w w' \<longleftrightarrow>
     (let rows = persist_scanned_files (ix_new_id E) (wd_next_id w) added
      in rp_status (tb_repo (wd_committed w')) = ''indexed'' \<and>
         tb_files (wd_committed w') = tb_files (wd_session w) @ fst rows \<and>
         map chunk_view (tb_chunks (wd_committed w')) = map chunk_view (tb_chunks (wd_session w) @ snd rows) \<and>
         wd_target w' = wd_staging w)"

lemma publish_ok:
  assumes comp: "compensations_work E" and fresh: "fresh_from E (wd_next_id w0) (wd_points w0)" and q: "quiet w0 w"
  shows "wp (publish E scanned added counted) (\<lambda>_. published E added w) (compensable E w0) w"
proof (cases "ix_fails E Persist")
  case (Some e)
  then show ?thesis using quiet_compensable [OF q] by (simp add: publish_def)
next
  case None
  define rows where "rows = persist_scanned_files (ix_new_id E) (wd_next_id w) added"
  define w1 where "w1 = w\<lparr>wd_next_id := wd_next_id w + ids_used added, wd_session := (wd_session w)\<lparr>
     tb_files := tb_files (wd_session w) @ fst rows, tb_chunks := tb_chunks (wd_session w) @ snd rows\<rparr>\<rparr>"
  let ?ids = "map cc_id (snd rows)"
  have "\<exists>k\<ge>wd_next_id w0. i = ix_new_id E k" if "i \<in> set ?ids" for i
    using that persisted_ids [of _ "ix_new_id E" "wd_next_id w" added] q by (auto simp: rows_def quiet_def)
  then have new: "wd_points w0 \<inter> {ix_dimension E} \<times> set ?ids = {}" using fresh by (fastforce simp: fresh_from_def)
  have w1: "compensable E w0 w1" "wd_points w1 = wd_points w0" "\<not> wd_replaced w1" "wd_new_point_ids w1 = []"
    using quiet_compensable [OF q] q by (auto simp: w1_def quiet_def compensable_def same_rows_def)
  have later: "wp (\<lambda>v. andthen (replace_workspace E) (\<lambda>_ w. attempt E Commit commit
         (set_repository (indexed_values E scanned (counted w)) (w\<lparr>wd_replaced := True\<rparr>))) (v\<lparr>wd_new_point_ids := ids\<rparr>))
      (\<lambda>_. published E added w) (compensable E w0) v"
    if "ids = ?ids \<and> v = w1\<lparr>wd_session := mark_embedded (snd rows) (wd_session w1),
         wd_points := wd_points w1 \<union> {ix_dimension E} \<times> set ?ids\<rparr>" for ids v
  proof -
    let ?v = "v\<lparr>wd_new_point_ids := ids\<rparr>"
    have v: "compensable E w0 ?v" "\<not> wd_replaced ?v"
      using that w1 new by (auto simp: compensable_def same_rows_def)
    have session: "wd_session v = mark_embedded (snd rows) (wd_session w1)" "wd_staging v = wd_staging w" "ids = ?ids"
      using that by (simp_all add: w1_def)
    have committed: "published E added w (commit (set_repository (indexed_values E scanned n)
        (?v\<lparr>wd_target := wd_staging ?v, wd_staging := None, wd_backup := wd_target ?v, wd_replaced := True\<rparr>)))" for n
      by (simp add: published_def commit_def set_repository_def indexed_values_def session w1_def rows_def [symmetric]
          del: map_append)
    have undo: "compensable E w0 (set_repository f
        (?v\<lparr>wd_target := wd_staging ?v, wd_staging := None, wd_backup := wd_target ?v, wd_replaced := True\<rparr>))" for f
      using v by (simp add: compensable_def same_rows_def set_repository_def)
    have "wp (replace_workspace E) (\<lambda>_ w'. w' = ?v\<lparr>wd_target := wd_staging ?v, wd_staging := None, wd_backup := wd_target ?v\<rparr>)
           (\<lambda>w'. w'\<lparr>wd_backup := None\<rparr> = ?v\<lparr>wd_backup := None\<rparr>) ?v"
      by (rule replace_workspace_all_or_nothing) (use comp in \<open>simp add: compensations_work_def\<close>)
    then have "wp (replace_workspace E) (\<lambda>_. wp (\<lambda>w. attempt E Commit commit
         (set_repository (indexed_values E scanned (counted w)) (w\<lparr>wd_replaced := True\<rparr>)))
           (\<lambda>_. published E added w) (compensable E w0)) (compensable E w0) ?v"
    proof (rule wp_mono)
      show "wp (\<lambda>w. attempt E Commit commit
         (set_repository (indexed_values E scanned (counted w)) (w\<lparr>wd_replaced := True\<rparr>)))
           (\<lambda>_. published E added w) (compensable E w0) w'"
        if "w' = ?v\<lparr>wd_target := wd_staging ?v, wd_staging := None, wd_backup := wd_target ?v\<rparr>" for w'
        unfolding that by (rule wp_attempt_atI; (rule committed | rule undo))
    qed (rule compensable_backup [OF _ v(2,1)])
    then show ?thesis by (simp only: wp_andthen_at)
  qed
  have "wp (write_embeddings E (snd rows)) (\<lambda>ids v. ids = ?ids \<and> v = w1\<lparr>wd_session := mark_embedded (snd rows) (wd_session w1),
         wd_points := wd_points w1 \<union> {ix_dimension E} \<times> set ?ids\<rparr>) (\<lambda>v. \<exists>tb. v = w1\<lparr>wd_session := tb\<rparr>) w1"
    by (rule write_embeddings_all_or_nothing) (use comp new w1 in \<open>simp_all add: compensations_work_def\<close>)
  then have "wp (write_embeddings E (snd rows)) (\<lambda>ids. wp (\<lambda>v. andthen (replace_workspace E) (\<lambda>_ w. attempt E Commit commit
         (set_repository (indexed_values E scanned (counted w)) (w\<lparr>wd_replaced := True\<rparr>))) (v\<lparr>wd_new_point_ids := ids\<rparr>))
      (\<lambda>_. published E added w) (compensable E w0)) (compensable E w0) w1"
  proof (rule wp_mono)
    show "compensable E w0 v" if "\<exists>tb. v = w1\<lparr>wd_session := tb\<rparr>" for v
      using that w1(1) by (auto simp: compensable_def same_rows_def)
  qed (rule later)
  then show ?thesis
    by (simp only: publish_def wp_andthen wp_persist None option.case Let_def rows_def [symmetric] w1_def [symmetric])
qed


text \<open>The rules that walk through a body: each step either passes a quiet world on or fails in it.\<close>

lemma wp_andthenI: "wp m (\<lambda>x. wp (f x) Q X) X w \<Longrightarrow> wp (andthen m f) Q X w"
  by simp

lemma wp_andthen_atI: "wp (m w) (\<lambda>x. wp (f w x) Q X) X (h w) \<Longrightarrow> wp (\<lambda>v. andthen (m v) (f v) (h v)) Q X w"
  by simp

lemma wp_letI: "wp (\<lambda>v. b v (a v)) Q X w \<Longrightarrow> wp (\<lambda>v. let y = a v in b v y) Q X w"
  by simp

lemma wp_attemptI: "X w \<Longrightarrow> Q () (f w) \<Longrightarrow> wp (attempt E s f) Q X w"
  by (simp split: option.split)

definition settled :: "world \<Rightarrow> tree \<Rightarrow> world \<Rightarrow> bool" where
  "settled w0 t w \<longleftrightarrow> quiet w0 w \<and> clean w \<and> wd_staging w = Some t"

lemma settled_compensable: "settled w0 t w \<Longrightarrow> compensable E w0 w"
  by (simp add: settled_def quiet_compensable)

lemma wp_update_settled:
  assumes "settled w0 t w" "\<And>w. settled w0 t w \<Longrightarrow> Q w"
  shows "wp (update_repository E s f) (\<lambda>_. Q) (compensable E w0) w"
proof -
  have "quiet w0 w" "clean w" using assms(1) by (simp_all add: settled_def)
  then have "settled w0 t (commit (set_repository g w))" for g
    using quiet_saved [of w0 w g] assms(1) by (simp add: settled_def commit_def set_repository_def)
  then show ?thesis using assms settled_compensable by (simp split: option.split)
qed

definition file_view :: "file_row \<Rightarrow> file_row" where
  "file_view r = r\<lparr>cf_id := []\<rparr>"

definition scanned_chunks :: "scanned_file \<Rightarrow> chunk_view list" where
  "scanned_chunks s = map (\<lambda>c. (sf_path s, sf_language s, c)) (pf_chunks (sf_parsed s))"

lemma persisted_views:
  "map file_view (fst (persist_scanned_files f n scanned)) = map (file_row_of []) scanned"
  "map chunk_view (snd (persist_scanned_files f n scanned)) = concat (map scanned_chunks scanned)"
proof (induction scanned arbitrary: n)
  case (Cons s rest)
  have "map chunk_view (map (\<lambda>(k, c). chunk_row_of (f (Suc n + k)) (f n) s c) (enumerate 0 (pf_chunks (sf_parsed s)))) =
      map ((\<lambda>c. (sf_path s, sf_language s, c)) \<circ> snd) (enumerate 0 (pf_chunks (sf_parsed s)))" for n
    by (simp add: chunk_view_def chunk_row_of_def case_prod_unfold comp_def)
  then have chunks: "map chunk_view (map (\<lambda>(k, c). chunk_row_of (f (Suc n + k)) (f n) s c) (enumerate 0 (pf_chunks (sf_parsed s)))) = scanned_chunks s" for n
    unfolding map_map [symmetric] by (simp add: scanned_chunks_def)
  case 1 then show ?case using Cons.IH(1) unfolding persist_Cons by (simp add: file_view_def file_row_of_def)
  case 2 show ?case unfolding persist_Cons snd_conv map_append chunks Cons.IH(2) by simp
qed simp_all

text \<open>The committed rows are those of a scan of the checkout.\<close>

definition rows_of_tree :: "index_env \<Rightarrow> tree \<Rightarrow> tables \<Rightarrow> bool" where
  "rows_of_tree E t tb \<longleftrightarrow>
     mset (map file_view (tb_files tb)) = mset (map (file_row_of []) (scan_source_files E t)) \<and>
     mset (map chunk_view (tb_chunks tb)) = mset (concat (map scanned_chunks (scan_source_files E t)))"

definition up_to_date :: "index_env \<Rightarrow> world \<Rightarrow> bool" where
  "up_to_date E w \<longleftrightarrow> (\<exists>t. wd_target w = Some t \<and> rows_of_tree E t (wd_committed w))"

definition indexed :: "index_env \<Rightarrow> bool \<Rightarrow> world \<Rightarrow> bool" where
  "indexed E sure w \<longleftrightarrow> rp_status (tb_repo (wd_committed w)) = ''indexed'' \<and> (sure \<longrightarrow> up_to_date E w)"

lemma full_body_ok:
  assumes comp: "compensations_work E" and fresh: "fresh_from E (wd_next_id w0) (wd_points w0)"
    and q: "quiet w0 w" "clean w"
  shows "wp (full_body E) (\<lambda>_. indexed E sure) (compensable E w0) w"
proof -
  define t where "t = ix_fetch E None"
  have start: "settled w0 t (w\<lparr>wd_staging := Some t\<rparr>)" using q by (simp add: settled_def)
  have publish: "wp (publish E (scan_source_files E t) (scan_source_files E t) counted) (\<lambda>_. indexed E sure) (compensable E w0) (delete_all_rows v)"
    if v: "settled w0 t v" for v counted
  proof (rule wp_mono [OF publish_ok [OF comp fresh]])
    show "quiet w0 (delete_all_rows v)" using v by (simp add: settled_def delete_all_rows_def)
    show "indexed E sure w'" if "published E (scan_source_files E t) (delete_all_rows v) w'" for w'
      using that v by (simp add: published_def indexed_def up_to_date_def rows_of_tree_def settled_def delete_all_rows_def
          Let_def persisted_views)
  qed
  show ?thesis
    unfolding full_body_def
    apply (rule wp_andthenI, rule wp_attempt_atI)
     apply (fold t_def, simp only: id_apply)
     apply (rule wp_andthenI, rule wp_attemptI, rule settled_compensable [OF start], simp only: id_apply)
     apply (rule wp_andthenI, rule wp_update_settled [OF start])
     apply (rule wp_andthenI, rule wp_attemptI, erule settled_compensable, simp only: id_apply)
     apply (rule wp_letI, rule wp_andthen_atI, rule wp_update_settled, assumption)
     apply (rule wp_andthenI, rule wp_attemptI, erule settled_compensable, simp only: id_apply)
     apply (rule wp_andthenI, rule wp_attemptI, erule settled_compensable, simp only: id_apply)
     apply (rule wp_letI, rule wp_andthen_atI, rule wp_attemptI, erule settled_compensable)
     apply (rule wp_andthenI)
    subgoal for w1 w2
      using publish [of w2] by (simp add: settled_def [of w0 t w1])
    by (rule settled_compensable [OF start])
qed


section \<open>The rows of an incremental run\<close>

definition raws :: "tree \<Rightarrow> string set" where
  "raws t = {raw. \<exists>path. (path, Regular raw) \<in> set t}"

lemma source_files_in: "(path, raw) \<in> set (source_files m t) \<Longrightarrow> (path, Regular raw) \<in> set t"
  by (auto simp: source_files_def map_filter_def split: if_splits entry.splits)

lemma distinct_map_filter:
  assumes "distinct (map fst t)" "\<And>x y. f x = Some y \<Longrightarrow> fst y = fst x"
  shows "distinct (map fst (List.map_filter f t)) \<and> fst ` set (List.map_filter f t) \<subseteq> fst ` set t"
  using assms
proof (induction t)
  case (Cons x t)
  then show ?case by (cases "f x") (auto simp: map_filter_simps)
qed (simp add: map_filter_simps)

lemma distinct_source_files:
  assumes "distinct (map fst t)"
  shows "distinct (map fst (source_files m t))"
proof -
  let ?f = "\<lambda>(path, e). if should_ignore_path m path e \<or> detect_language path = None then None
       else case e of Regular raw \<Rightarrow> Some (path, raw) | Link \<Rightarrow> None"
  have "distinct (map fst (List.map_filter ?f t))"
    by (rule conjunct1 [OF distinct_map_filter [OF assms]]) (auto split: if_splits entry.splits)
  then show ?thesis
    unfolding source_files_def by (metis (no_types, lifting) mset_eq_imp_distinct_iff mset_map mset_sort)
qed

lemma scanned_distinct: "distinct (map fst t) \<Longrightarrow> distinct (map sf_path (scan_source_files E t))"
  using distinct_source_files [of t "ix_max_file_size E"]
  by (simp add: scan_source_files_def comp_def case_prod_unfold Let_def)

lemma scanned_raw: "s \<in> set (scan_source_files E t) \<Longrightarrow> sf_raw s \<in> raws t"
  using source_files_in by (force simp: scan_source_files_def raws_def Let_def)

lemma scanned_determined:
  assumes "s \<in> set (scan_source_files E t)" "s' \<in> set (scan_source_files E t')" "sf_path s = sf_path s'" "sf_raw s = sf_raw s'"
  shows "s = s'"
  using assms by (auto simp: scan_source_files_def Let_def)

lemma scanned_hash: "s \<in> set (scan_source_files E t) \<Longrightarrow> sf_hash s = ix_sha E (sf_raw s)"
  by (auto simp: scan_source_files_def Let_def)

lemma existing_scanned:
  assumes "rows_of_tree E t tb"
  shows "existing_files tb path = Some r \<Longrightarrow> \<exists>s\<in>set (scan_source_files E t). sf_path s = path \<and> sf_hash s = cf_hash r"
    and "set (map cf_path (tb_files tb)) = set (map sf_path (scan_source_files E t))"
proof -
  have eq: "file_view ` set (tb_files tb) = file_row_of [] ` set (scan_source_files E t)"
    using assms by (metis rows_of_tree_def set_map set_mset_mset)
  show "\<exists>s\<in>set (scan_source_files E t). sf_path s = path \<and> sf_hash s = cf_hash r" if "existing_files tb path = Some r"
  proof -
    have r: "r \<in> set (tb_files tb)" "cf_path r = path"
      using map_of_SomeD [OF that [unfolded existing_files_def]] by auto
    then obtain s where "s \<in> set (scan_source_files E t)" "file_view r = file_row_of [] s" using eq by blast
    then show ?thesis using r by (auto simp: file_view_def file_row_of_def intro!: bexI [of _ s] dest: arg_cong [of _ _ cf_path] arg_cong [of _ _ cf_hash])
  qed
  have "cf_path ` (file_view ` set (tb_files tb)) = cf_path ` (file_row_of [] ` set (scan_source_files E t))" by (simp only: eq)
  then show "set (map cf_path (tb_files tb)) = set (map sf_path (scan_source_files E t))"
    by (simp add: image_image file_view_def file_row_of_def)
qed

lemma existing_None: "existing_files tb path = None \<longleftrightarrow> path \<notin> set (map cf_path (tb_files tb))"
  by (simp add: existing_files_def map_of_eq_None_iff image_image)

lemma kept_files:
  assumes rows: "rows_of_tree E t tb" and dist: "distinct (map fst t)" "distinct (map fst t')"
    and inj: "inj_on (ix_sha E) (raws t \<union> raws t')"
    and scanned: "scanned = scan_source_files E t'" and changed: "changed = changed_files tb scanned"
  shows "mset (filter (\<lambda>s. sf_path s \<notin> set (deleted_paths tb scanned @ map sf_path changed)) (scan_source_files E t)) =
     mset (filter (\<lambda>s. sf_path s \<notin> set (map sf_path changed)) scanned)"
proof -
  let ?old = "scan_source_files E t" and ?C = "set (map sf_path changed)"
  have d: "distinct (map sf_path ?old)" "distinct (map sf_path scanned)"
    using dist scanned_distinct scanned by blast+
  have same: "s = s'" if "s \<in> set ?old" "s' \<in> set scanned" "sf_path s = sf_path s'" "sf_hash s = sf_hash s'" for s s'
  proof -
    have "sf_raw s \<in> raws t \<union> raws t'" "sf_raw s' \<in> raws t \<union> raws t'" using that scanned scanned_raw by blast+
    then have "sf_raw s = sf_raw s'" using inj_onD [OF inj] that scanned scanned_hash by metis
    then show ?thesis using scanned_determined that scanned by blast
  qed
  have unchanged: "s \<in> set ?old" if "s \<in> set scanned" "sf_path s \<notin> ?C" for s
  proof -
    have "s \<notin> set changed" using that by auto
    with that(1) have "case existing_files tb (sf_path s) of None \<Rightarrow> False | Some r \<Rightarrow> cf_hash r = sf_hash s"
      unfolding changed changed_files_def by (auto split: option.splits)
    then obtain r where r: "existing_files tb (sf_path s) = Some r" "cf_hash r = sf_hash s"
      by (auto split: option.splits)
    obtain s' where "s' \<in> set ?old" "sf_path s' = sf_path s" "sf_hash s' = cf_hash r"
      using existing_scanned(1) [OF rows r(1)] by blast
    then show ?thesis using same [of s' s] that(1) r(2) by simp
  qed
  have deleted: "set (deleted_paths tb scanned) = set (map sf_path ?old) - set (map sf_path scanned)"
    using existing_scanned(2) [OF rows] by (simp add: deleted_paths_def)
  have "s \<in> set ?old \<and> sf_path s \<notin> set (deleted_paths tb scanned) \<union> ?C \<longleftrightarrow> s \<in> set scanned \<and> sf_path s \<notin> ?C" for s
  proof
    assume s: "s \<in> set ?old \<and> sf_path s \<notin> set (deleted_paths tb scanned) \<union> ?C"
    then obtain s' where s': "s' \<in> set scanned" "sf_path s' = sf_path s" by (auto simp: deleted)
    then have "s' \<in> set ?old" using unchanged s by simp
    then have "s' = s" using s s'(2) d(1) by (metis distinct_map inj_on_def)
    then show "s \<in> set scanned \<and> sf_path s \<notin> ?C" using s s' by simp
  qed (use unchanged deleted in auto)
  then have "set (filter (\<lambda>s. sf_path s \<notin> set (deleted_paths tb scanned @ map sf_path changed)) ?old) =
      set (filter (\<lambda>s. sf_path s \<notin> ?C) scanned)"
    by auto
  moreover have "distinct ?old" "distinct scanned" using d distinct_map by blast+
  ultimately show ?thesis using set_eq_iff_mset_eq_distinct [OF distinct_filter distinct_filter] by blast
qed

lemma mset_concat_map: "mset (concat (map g xs)) = (\<Sum>x\<in>#mset xs. mset (g x))"
  by (induction xs) simp_all

lemma filter_views:
  "filter_mset (\<lambda>v. cf_path v \<notin> R) (mset (map file_view fs)) = mset (map file_view (filter (\<lambda>f. cf_path f \<notin> R) fs))"
  "filter_mset (\<lambda>v. cf_path v \<notin> R) (mset (map (file_row_of []) ss)) = mset (map (file_row_of []) (filter (\<lambda>s. sf_path s \<notin> R) ss))"
  "filter_mset (\<lambda>v. fst v \<notin> R) (mset (map chunk_view cs)) = mset (map chunk_view (filter (\<lambda>c. cc_path c \<notin> R) cs))"
  "filter_mset (\<lambda>v. fst v \<notin> R) (mset (concat (map scanned_chunks ss))) = mset (concat (map scanned_chunks (filter (\<lambda>s. sf_path s \<notin> R) ss)))"
proof -
  show "filter_mset (\<lambda>v. cf_path v \<notin> R) (mset (map file_view fs)) = mset (map file_view (filter (\<lambda>f. cf_path f \<notin> R) fs))"
    by (induction fs) (simp_all add: file_view_def)
  show "filter_mset (\<lambda>v. cf_path v \<notin> R) (mset (map (file_row_of []) ss)) = mset (map (file_row_of []) (filter (\<lambda>s. sf_path s \<notin> R) ss))"
    by (induction ss) (simp_all add: file_row_of_def)
  show "filter_mset (\<lambda>v. fst v \<notin> R) (mset (map chunk_view cs)) = mset (map chunk_view (filter (\<lambda>c. cc_path c \<notin> R) cs))"
    by (induction cs) (simp_all add: chunk_view_def)
  have "filter_mset (\<lambda>v. fst v \<notin> R) (mset (scanned_chunks s)) = (if sf_path s \<notin> R then mset (scanned_chunks s) else {#})" for s
    by (simp add: scanned_chunks_def mset_filter [symmetric] filter_map comp_def del: mset_filter mset_map)
  then show "filter_mset (\<lambda>v. fst v \<notin> R) (mset (concat (map scanned_chunks ss))) = mset (concat (map scanned_chunks (filter (\<lambda>s. sf_path s \<notin> R) ss)))"
    by (induction ss) simp_all
qed

text \<open>
  Deleting the rows of deleted and changed paths and adding those of the changed files gives the rows of the new
  tree: what the run kept is exactly what a new scan would have written again.
\<close>

lemma incremental_rows:
  assumes rows: "rows_of_tree E t tb" and dist: "distinct (map fst t)" "distinct (map fst t')"
    and inj: "inj_on (ix_sha E) (raws t \<union> raws t')"
    and scanned: "scanned = scan_source_files E t'" and changed: "changed = changed_files tb scanned"
    and R: "R = set (deleted_paths tb scanned @ map sf_path changed)"
    and files': "tb_files tb' = filter (\<lambda>f. cf_path f \<notin> R) (tb_files tb) @ fst (persist_scanned_files f n changed)"
    and chunks': "map chunk_view (tb_chunks tb') =
        map chunk_view (filter (\<lambda>c. cc_path c \<notin> R) (tb_chunks tb) @ snd (persist_scanned_files f n changed))"
  shows "rows_of_tree E t' tb'"
proof -
  let ?kept = "filter (\<lambda>s. sf_path s \<notin> set (map sf_path changed)) scanned"
  have kept: "mset (filter (\<lambda>s. sf_path s \<notin> R) (scan_source_files E t)) = mset ?kept"
    unfolding R by (rule kept_files [OF rows dist inj scanned changed])
  have d: "distinct (map sf_path scanned)" using dist(2) scanned scanned_distinct by blast
  have "s \<in> set changed \<longleftrightarrow> sf_path s \<in> set (map sf_path changed)" if "s \<in> set scanned" for s
  proof
    assume "sf_path s \<in> set (map sf_path changed)"
    then obtain s' where "s' \<in> set changed" "sf_path s' = sf_path s" by auto
    moreover have "set changed \<subseteq> set scanned" by (simp add: changed changed_files_def)
    ultimately show "s \<in> set changed" using that d by (metis distinct_map inj_onD subsetD)
  qed simp
  then have "filter (\<lambda>s. s \<in> set changed) scanned = filter (\<lambda>s. \<not> sf_path s \<notin> set (map sf_path changed)) scanned"
    by (intro filter_cong) simp_all
  moreover have "changed = filter (\<lambda>s. s \<in> set changed) scanned"
    unfolding changed changed_files_def by (rule filter_cong) auto
  ultimately have "changed = filter (\<lambda>s. \<not> sf_path s \<notin> set (map sf_path changed)) scanned" by (rule trans [rotated])
  then have c: "mset changed = filter_mset (\<lambda>s. \<not> sf_path s \<notin> set (map sf_path changed)) (mset scanned)"
    unfolding mset_filter [symmetric] by (rule arg_cong)
  have split: "mset scanned = mset ?kept + mset changed"
    unfolding mset_filter c by (rule multiset_partition)
  let ?fs = "filter (\<lambda>f. cf_path f \<notin> R) (tb_files tb)" and ?cs = "filter (\<lambda>c. cc_path c \<notin> R) (tb_chunks tb)"
  have "mset (map file_view ?fs) = filter_mset (\<lambda>v. cf_path v \<notin> R) (mset (map (file_row_of []) (scan_source_files E t)))"
    using rows unfolding rows_of_tree_def filter_views(1) [symmetric] by (simp only:)
  also have "\<dots> = mset (map (file_row_of []) ?kept)" by (simp only: filter_views(2)) (simp only: mset_map kept)
  finally have fs: "mset (map file_view ?fs) = mset (map (file_row_of []) ?kept)" .
  have "mset (map chunk_view ?cs) = filter_mset (\<lambda>v. fst v \<notin> R) (mset (concat (map scanned_chunks (scan_source_files E t))))"
    using rows unfolding rows_of_tree_def filter_views(3) [symmetric] by (simp only:)
  also have "\<dots> = mset (concat (map scanned_chunks ?kept))" by (simp only: filter_views(4)) (simp only: mset_concat_map kept)
  finally have cs: "mset (map chunk_view ?cs) = mset (concat (map scanned_chunks ?kept))" .
  show ?thesis
    unfolding rows_of_tree_def scanned [symmetric]
  proof
    show "mset (map file_view (tb_files tb')) = mset (map (file_row_of []) scanned)"
      unfolding files' map_append mset_append fs persisted_views by (simp only: split mset_map image_mset_union)
    show "mset (map chunk_view (tb_chunks tb')) = mset (concat (map scanned_chunks scanned))"
      unfolding chunks' map_append mset_append cs persisted_views by (simp only: split mset_concat_map image_mset_union sum_mset.union)
  qed
qed


section \<open>Runs\<close>

text \<open>What an incremental run may rely on: the rows show the checkout it starts from, and digests tell contents apart.\<close>

definition incremental_ready :: "index_env \<Rightarrow> world \<Rightarrow> bool" where
  "incremental_ready E w \<longleftrightarrow>
     (case wd_target w of None \<Rightarrow> True
      | Some t \<Rightarrow> rows_of_tree E t (wd_committed w) \<and> distinct (map fst t) \<and>
          distinct (map fst (ix_fetch E (Some t))) \<and> inj_on (ix_sha E) (raws t \<union> raws (ix_fetch E (Some t))))"

lemma changed_files_cong: "tb_files tb = tb_files tb' \<Longrightarrow> changed_files tb scanned = changed_files tb' scanned"
  by (simp add: changed_files_def existing_files_def)

lemma deleted_paths_cong: "tb_files tb = tb_files tb' \<Longrightarrow> deleted_paths tb scanned = deleted_paths tb' scanned"
  by (simp add: deleted_paths_def)

lemma incremental_body_ok:
  assumes comp: "compensations_work E" and fresh: "fresh_from E (wd_next_id w0) (wd_points w0)"
    and q: "quiet w0 w" "clean w" and t0: "wd_target w0 = Some t0"
  shows "wp (incremental_body E) (\<lambda>_. indexed E (incremental_ready E w0)) (compensable E w0) w"
proof -
  define t where "t = ix_fetch E (Some t0)"
  define scanned where "scanned = scan_source_files E t"
  have target: "wd_target w = Some t0" using q t0 by (simp add: quiet_def)
  have copied: "settled w0 t0 (w\<lparr>wd_staging := wd_target w\<rparr>)" using q target by (simp add: settled_def)
  have start: "settled w0 t (w\<lparr>wd_staging := wd_target w, wd_staging := Some (ix_fetch E (wd_staging (w\<lparr>wd_staging := wd_target w\<rparr>)))\<rparr>)"
    using q by (simp add: settled_def t_def target)
  have publish: "wp (delete_indexed_files_from_db E paths) (\<lambda>_. wp (publish E scanned (changed_files (wd_session u) scanned) counted)
      (\<lambda>_. indexed E (incremental_ready E w0)) (compensable E w0)) (compensable E w0) v"
    if u: "settled w0 t u" and v: "settled w0 t v"
      and paths: "paths = deleted_paths (wd_session u) scanned @ map sf_path (changed_files (wd_session u) scanned)"
    for u v counted paths
  proof -
    let ?changed = "changed_files (wd_session u) scanned" and ?R = "set paths"
    define v' where "v' = v\<lparr>wd_session := (wd_session v)\<lparr>
       tb_chunks := filter (\<lambda>c. cc_path c \<notin> ?R) (tb_chunks (wd_session v)),
       tb_files := filter (\<lambda>f. cf_path f \<notin> ?R) (tb_files (wd_session v))\<rparr>\<rparr>"
    have rows: "tb_files (wd_session v) = tb_files (wd_committed w0)" "tb_chunks (wd_session v) = tb_chunks (wd_committed w0)"
      "tb_files (wd_session u) = tb_files (wd_committed w0)"
      using u v by (simp_all add: settled_def quiet_def clean_def same_rows_def)
    have "wp (publish E scanned ?changed counted) (\<lambda>_. indexed E (incremental_ready E w0)) (compensable E w0) v'"
    proof (rule wp_mono [OF publish_ok [OF comp fresh]])
      show "quiet w0 v'" using v by (simp add: settled_def v'_def)
      show "indexed E (incremental_ready E w0) w'" if p: "published E ?changed v' w'" for w'
      proof -
        have "up_to_date E w'" if "incremental_ready E w0"
        proof -
        from that have ready: "rows_of_tree E t0 (wd_committed w0)" "distinct (map fst t0)" "distinct (map fst t)"
            "inj_on (ix_sha E) (raws t0 \<union> raws t)"
          by (simp_all add: incremental_ready_def t0 t_def)
        have "rows_of_tree E t (wd_committed w')"
          by (rule incremental_rows [OF ready scanned_def, of ?changed ?R _ "ix_new_id E" "wd_next_id v'"])
            (use p in \<open>simp_all add: published_def Let_def v'_def rows paths changed_files_cong [OF rows(3)] deleted_paths_cong [OF rows(3)]\<close>)
        moreover have "wd_target w' = Some t" using p v by (simp add: published_def Let_def v'_def settled_def)
        ultimately show ?thesis unfolding up_to_date_def by blast
        qed
        moreover have "rp_status (tb_repo (wd_committed w')) = ''indexed''" using p by (simp add: published_def Let_def)
        ultimately show ?thesis unfolding indexed_def by blast
      qed
    qed
    moreover have "v' = v" if "paths = []" using that by (simp add: v'_def)
    ultimately show ?thesis
      using settled_compensable [OF v]
      by (cases "paths = []"; cases "ix_fails E Delete_rows") (simp_all add: wp_def delete_indexed_files_from_db_def attempt_def v'_def [symmetric] Let_def)
  qed
  show ?thesis
    unfolding incremental_body_def
    apply (rule wp_andthenI, rule wp_attempt_atI)
     apply (rule wp_andthenI, rule wp_attempt_atI)
      apply (simp only: id_apply)
      apply (rule wp_andthenI, rule wp_attemptI, rule settled_compensable [OF start], simp only: id_apply)
      apply (rule wp_andthenI, rule wp_update_settled [OF start])
      apply (rule wp_andthenI, rule wp_attemptI, erule settled_compensable, simp only: id_apply)
      apply (rule wp_andthenI, rule wp_attemptI, erule settled_compensable, simp only: id_apply)
      apply (rule wp_andthenI, rule wp_attemptI, erule settled_compensable, simp only: id_apply)
      apply (rule wp_letI, rule wp_letI, rule wp_letI, rule wp_andthen_atI, rule wp_update_settled, assumption)
      apply (rule wp_letI, rule wp_andthen_atI)
    subgoal for w1 w2
      using publish [of w1 w2] by (simp add: settled_def [of w0 t w1] scanned_def [symmetric])
    using settled_compensable [OF start] settled_compensable [OF copied] by simp_all
qed

definition intact :: "world \<Rightarrow> world \<Rightarrow> bool" where
  "intact w0 w \<longleftrightarrow> same_rows w0 w \<and> wd_points w = wd_points w0 \<and> wd_target w = wd_target w0"

lemma on_failure_restores:
  assumes comp: "compensations_work E" and w: "compensable E w0 w"
  shows "wp (on_failure E e) Q (intact w0) w"
proof -
  define v where "v = drop_points E (wd_new_point_ids w) (rollback w)"
  have v: "same_rows w0 v" "wd_points v = wd_points w0" "wd_replaced v = wd_replaced w" "wd_backup v = wd_backup w" "wd_target v = wd_target w"
    using w comp by (auto simp: v_def drop_points_def best_effort_def attempt_def rollback_def compensable_def compensations_work_def same_rows_def)
  show ?thesis
  proof (cases "wd_replaced w")
    case True
    then have "wd_backup v = wd_target w0" using w v by (simp add: compensable_def)
    then show ?thesis using True v comp
      by (simp add: on_failure_def v_def [symmetric] restore_workspace_def wp_def andthen_def attempt_def compensations_work_def
          intact_def same_rows_def)
  next
    case False
    then have "wd_target v = wd_target w0" using w v by (simp add: compensable_def)
    then show ?thesis using False v
      by (simp add: on_failure_def v_def [symmetric] wp_def best_effort_def attempt_def intact_def same_rows_def split: option.split)
  qed
qed

lemma index_run_ok:
  assumes comp: "compensations_work E" and clean: "clean w0"
    and body: "\<And>w. quiet w0 w \<Longrightarrow> clean w \<Longrightarrow> wp body (\<lambda>_. Q) (compensable E w0) w"
    and Q: "\<And>w w'. Q w \<Longrightarrow> wd_committed w' = wd_committed w \<Longrightarrow> wd_target w' = wd_target w \<Longrightarrow> Q w'"
  shows "wp (index_run E body) (\<lambda>_. Q) (intact w0) w0"
proof -
  let ?w = "w0\<lparr>wd_staging := None, wd_new_point_ids := [], wd_replaced := False\<rparr>"
  have w: "quiet w0 ?w" "clean ?w" using clean by (simp_all add: quiet_def same_rows_def clean_def)
  have tried: "wp (\<lambda>w. case body w of (Inl e, w') \<Rightarrow> on_failure E e w' | (Inr x, w') \<Rightarrow> (Inr x, w')) (\<lambda>_. Q) (intact w0) v"
    if "quiet w0 v" "clean v" for v
  proof (cases "body v")
    case (Pair r v')
    show ?thesis
    proof (cases r)
      case (Inl e)
      then have "compensable E w0 v'" using Pair body [OF that] by (simp add: wp_def)
      from on_failure_restores [OF comp this, of e "\<lambda>_. Q"] Pair Inl show ?thesis by (simp add: wp_def)
    next
      case (Inr x)
      then show ?thesis using Pair body [OF that] by (simp add: wp_def)
    qed
  qed
  have after: "Q (drop_points E ids (best_effort E s (\<lambda>w. w\<lparr>wd_backup := None\<rparr>) v))" if "Q v" for v ids s
    by (rule Q [OF that]) (simp_all add: drop_points_def best_effort_def attempt_def split: option.split)
  have quiet: "intact w0 v" if "quiet w0 v" for v using that by (simp add: quiet_def intact_def)
  show ?thesis
    unfolding index_run_def
  proof (rule wp_andthenI, rule wp_attemptI)
    show "intact w0 w0" by (simp add: intact_def same_rows_def)
    show "wp (andthen (update_repository E ''cloning'' (\<lambda>r. r\<lparr>rp_error_message := None\<rparr>))
        (\<lambda>_. andthen (\<lambda>w. case body w of (Inl e, w') \<Rightarrow> on_failure E e w' | (Inr x, w') \<Rightarrow> (Inr x, w'))
          (\<lambda>old_point_ids w. (Inr (), drop_points E old_point_ids (best_effort E Remove_backup (\<lambda>w. w\<lparr>wd_backup := None\<rparr>) w)))))
        (\<lambda>_. Q) (intact w0) ?w"
      using quiet_saved [OF w] quiet [OF w(1)] wp_mono [OF tried] after by (simp split: option.split)
  qed
qed

lemma chosen_run_ok:
  assumes comp: "compensations_work E" and fresh: "fresh_from E (wd_next_id w) (wd_points w)" and clean: "clean w"
  shows "wp (index_run E (if full \<or> \<not> rp_has_local_path (tb_repo (wd_session w)) \<or> wd_target w = None
                          then full_body E else incremental_body E))
     (\<lambda>_. indexed E (full \<or> incremental_ready E w)) (intact w) w"
    (is "wp (index_run E (if ?full then _ else _)) _ _ _")
proof (rule index_run_ok [OF comp clean])
  fix v assume v: "quiet w v" "clean v"
  show "wp (if ?full then full_body E else incremental_body E) (\<lambda>_. indexed E (full \<or> incremental_ready E w)) (compensable E w) v"
  proof (cases ?full)
    case True
    then show ?thesis using full_body_ok [OF comp fresh v] by (simp only: if_True)
  next
    case False
    then obtain t where "wd_target w = Some t" by auto
    have "indexed E (full \<or> incremental_ready E w) = indexed E (incremental_ready E w)" using False by simp
    with incremental_body_ok [OF comp fresh v \<open>wd_target w = Some t\<close>] show ?thesis using False by (simp only: if_False)
  qed
qed (simp add: indexed_def up_to_date_def)

lemma index_repository_ok:
  assumes "compensations_work E" "fresh_from E (wd_next_id w) (wd_points w)" "clean w"
  shows "wp (index_repository E full)
     (\<lambda>_ w'. intact w w' \<and> rp_status (tb_repo (wd_committed w')) = ''failed'' \<or> indexed E (full \<or> incremental_ready E w) w')
     (intact w) w"
proof -
  note chosen_run_ok [OF assms, of full]
  moreover have "intact w (commit (set_repository f (rollback v)))" if "intact w v" for v f
    using that by (simp add: intact_def same_rows_def commit_def set_repository_def rollback_def)
  moreover have "rp_status (tb_repo (wd_committed (commit (set_repository (\<lambda>r. r\<lparr>rp_status := s, rp_error_message := m\<rparr>) v)))) = s" for s m v
    by (simp add: commit_def set_repository_def)
  moreover have "intact w (rollback v)" if "intact w v" for v
    using that by (simp add: intact_def same_rows_def rollback_def)
  ultimately show ?thesis
    unfolding index_repository_def wp_def update_repository_def attempt_def
    by (auto split: sum.splits prod.splits option.splits)
qed

text \<open>When no operation fails a run returns.\<close>

lemma upsert_batches_returns:
  assumes "\<And>s. ix_fails E s = None"
  shows "\<exists>w'. upsert_batches E n done' ids w = (Inr (), w')"
  using assms
proof (induction E n done' ids w rule: upsert_batches.induct)
  case (1 E n done' ids w)
  show ?case
  proof (cases "ids = []")
    case True
    then show ?thesis by (subst upsert_batches.simps) simp
  next
    case False
    then show ?thesis using 1 by (subst upsert_batches.simps) (simp add: Let_def)
  qed
qed

lemma wp_write_embeddings_returns:
  assumes "\<And>s. ix_fails E s = None" "\<And>ids w. Q ids w"
  shows "wp (write_embeddings E cs) Q (\<lambda>_. False) w"
proof (cases "cs = []")
  case False
  obtain w' where "upsert_batches E 0 [] (map cc_id cs) (w\<lparr>wd_session := mark_embedded cs (wd_session w)\<rparr>) = (Inr (), w')"
    using upsert_batches_returns [OF assms(1)] by blast
  then show ?thesis
    using False assms by (simp add: wp_def write_embeddings_def andthen_def attempt_def Let_def mark_embedded_def)
qed (simp add: wp_def write_embeddings_def assms)

lemma wp_replace_workspace_returns:
  assumes "\<And>s. ix_fails E s = None" "\<And>w. Q () w"
  shows "wp (replace_workspace E) Q (\<lambda>_. False) w"
  using assms by (simp add: wp_def replace_workspace_def andthen_def attempt_def)

lemma publish_returns:
  assumes "\<And>s. ix_fails E s = None"
  shows "wp (publish E scanned added counted) (\<lambda>_ _. True) (\<lambda>_. False) w"
  unfolding publish_def
  by (simp add: assms Let_def wp_write_embeddings_returns [OF assms] wp_replace_workspace_returns [OF assms])

lemma index_run_returns:
  assumes ok: "\<And>s. ix_fails E s = None"
  shows "wp (index_run E (if b then full_body E else incremental_body E)) (\<lambda>_ _. True) (\<lambda>_. False) w"
proof -
  have "wp (delete_indexed_files_from_db E paths) Q (\<lambda>_. False) v" if "\<And>v. Q () v" for Q paths v
    using that by (simp add: wp_def delete_indexed_files_from_db_def attempt_def ok)
  then have bodies: "wp (full_body E) (\<lambda>_ _. True) (\<lambda>_. False) v" "wp (incremental_body E) (\<lambda>_ _. True) (\<lambda>_. False) v" for v
    using publish_returns [OF ok] by (simp_all add: full_body_def incremental_body_def ok)
  have "wp (\<lambda>w. case body w of (Inl e, w') \<Rightarrow> h e w' | (Inr x, w') \<Rightarrow> (Inr x, w')) Q X v"
    if "wp body (\<lambda>_ _. True) (\<lambda>_. False) v" "\<And>x v. Q x v" for body :: "string list step" and h Q X v
    using that by (simp add: wp_def split: prod.splits sum.splits)
  then show ?thesis
    using bodies by (simp add: index_run_def ok)
qed


text \<open>
  C17.  An incremental index gives what a full one gives.  Suppose the rows show the checkout the run starts from
  and digests tell the contents of the two checkouts apart (for a full run neither is needed).  Then a run that
  ends with the status \<open>indexed\<close> has published a checkout whose scan the committed rows are: every file and chunk,
  up to the ids, whether it was written by this run or kept.  And when no operation fails the run does end so.
\<close>

theorem index_is_up_to_date:
  assumes "compensations_work E" "fresh_from E (wd_next_id w) (wd_points w)" "clean w"
    and "full \<or> incremental_ready E w"
  shows "(case index_repository E full w of
       (Inl e, w') \<Rightarrow> True
     | (Inr _, w') \<Rightarrow> rp_status (tb_repo (wd_committed w')) = ''failed'' \<or>
         rp_status (tb_repo (wd_committed w')) = ''indexed'' \<and> up_to_date E w') \<and>
     ((\<forall>s. ix_fails E s = None) \<longrightarrow> (\<exists>w'. index_repository E full w = (Inr (), w') \<and>
         rp_status (tb_repo (wd_committed w')) = ''indexed'' \<and> up_to_date E w'))"
proof
  show "case index_repository E full w of
       (Inl e, w') \<Rightarrow> True
     | (Inr _, w') \<Rightarrow> rp_status (tb_repo (wd_committed w')) = ''failed'' \<or>
         rp_status (tb_repo (wd_committed w')) = ''indexed'' \<and> up_to_date E w'"
    using index_repository_ok [OF assms(1-3), of full] assms(4)
    by (auto simp: wp_def indexed_def split: prod.splits sum.splits)
  show "(\<forall>s. ix_fails E s = None) \<longrightarrow> (\<exists>w'. index_repository E full w = (Inr (), w') \<and>
         rp_status (tb_repo (wd_committed w')) = ''indexed'' \<and> up_to_date E w')"
  proof
    assume "\<forall>s. ix_fails E s = None"
    then have "wp (index_run E (if b then full_body E else incremental_body E)) (\<lambda>_ _. True) (\<lambda>_. False) w" for b
      by (intro index_run_returns) simp
    from wp_conj [OF chosen_run_ok [OF assms(1-3), of full] this] show
      "\<exists>w'. index_repository E full w = (Inr (), w') \<and> rp_status (tb_repo (wd_committed w')) = ''indexed'' \<and> up_to_date E w'"
      using assms(4) unfolding index_repository_def wp_def indexed_def by (auto split: prod.splits sum.splits)
  qed
qed

section \<open>Concrete runs\<close>

definition w_index_env :: "(index_step \<Rightarrow> string option) \<Rightarrow> tree \<Rightarrow> index_env" where
  "w_index_env fails t = \<lparr>ix_fails = fails, ix_fetch = (\<lambda>_. t), ix_commit_hash = Some ''c0ffee'', ix_sha = (\<lambda>raw. raw),
     ix_parse = (\<lambda>language path content. \<lparr>pf_imports = [], pf_exports = [], pf_chunks =
       [\<lparr>cd_symbol_name = path, cd_symbol_type = ''module'', cd_start_line = 1, cd_end_line = 1, cd_content = content,
         cd_content_hash = content, cd_imports = [], cd_exports = []\<rparr>]\<rparr>),
     ix_dimension = 8, ix_partial = (\<lambda>_ _. True), ix_new_id = (\<lambda>n. replicate (Suc n) CHR ''n''), ix_max_file_size = 1000\<rparr>"

definition w_index_world :: "tree option \<Rightarrow> tables \<Rightarrow> world" where
  "w_index_world t tb = \<lparr>wd_committed = tb, wd_session = tb, wd_points = {(8, ''old'')}, wd_target = t, wd_staging = None,
     wd_backup = None, wd_new_point_ids = [], wd_replaced = False, wd_next_id = 0\<rparr>"

definition w_index_tables :: tables where
  "w_index_tables = \<lparr>tb_repo = \<lparr>rp_status = ''pending'', rp_error_message = None, rp_has_local_path = False,
     rp_last_commit_hash = None, rp_language_summary = [], rp_file_count = 0, rp_chunk_count = 0\<rparr>, tb_files = [], tb_chunks = []\<rparr>"

definition w_commit_fails :: "index_step \<Rightarrow> string option" where
  "w_commit_fails s = (if s = Commit then Some ''database is locked'' else None)"


text \<open>A first index of one tree, then an incremental one of a tree with one file changed, one gone and one new.\<close>

definition w_index_old :: tree where
  "w_index_old = [(''a.py'', Regular ''x''), (''b.py'', Regular ''y''), (''c.py'', Regular ''z'')]"

definition w_index_new :: tree where
  "w_index_new = [(''a.py'', Regular ''x''), (''b.py'', Regular ''yy''), (''d.py'', Regular ''w'')]"

definition w_indexed_tables :: tables where
  "w_indexed_tables = w_index_tables\<lparr>tb_repo := (tb_repo w_index_tables)\<lparr>rp_has_local_path := True\<rparr>,
     tb_files := fst (persist_scanned_files (\<lambda>n. [CHR ''o'', char_of n]) 0 (scan_source_files (w_index_env (\<lambda>_. None) w_index_old) w_index_old)),
     tb_chunks := snd (persist_scanned_files (\<lambda>n. [CHR ''o'', char_of n]) 0 (scan_source_files (w_index_env (\<lambda>_. None) w_index_old) w_index_old))\<rparr>"

theorem index_is_up_to_date_witness:
  "\<exists>w'. index_repository (w_index_env (\<lambda>_. None) w_index_new) False (w_index_world (Some w_index_old) w_indexed_tables) = (Inr (), w') \<and>
     rp_status (tb_repo (wd_committed w')) = ''indexed'' \<and> up_to_date (w_index_env (\<lambda>_. None) w_index_new) w'"
proof -
  let ?E = "w_index_env (\<lambda>_. None) w_index_new" and ?w = "w_index_world (Some w_index_old) w_indexed_tables"
  have 1: "compensations_work ?E" by (simp add: compensations_work_def w_index_env_def)
  have 2: "fresh_from ?E (wd_next_id ?w) (wd_points ?w)" by (simp add: fresh_from_def w_index_env_def w_index_world_def)
  have 3: "clean ?w" by (simp add: clean_def w_index_world_def)
  have "scan_source_files ?E w_index_old = scan_source_files (w_index_env (\<lambda>_. None) w_index_old) w_index_old"
    by (simp add: scan_source_files_def w_index_env_def)
  then have "rows_of_tree ?E w_index_old (wd_committed ?w)"
    by (simp add: rows_of_tree_def w_index_world_def w_indexed_tables_def persisted_views del: mset_map)
  then have 4: "False \<or> incremental_ready ?E ?w"
    by (simp add: incremental_ready_def w_index_world_def w_index_env_def w_index_old_def w_index_new_def)
  have "\<forall>s. ix_fails ?E s = None" by (simp add: w_index_env_def)
  then show ?thesis using index_is_up_to_date [OF 1 2 3 4] by blast
qed

text \<open>
  An incremental run embeds changed files only.  When the dimension of the embedding, and with it the collection,
  has changed, re-indexing an unchanged repository stores \<open>indexed\<close> and no chunk has a vector.
\<close>

definition w_one_indexed :: tables where
  "w_one_indexed = w_index_tables\<lparr>tb_repo := (tb_repo w_index_tables)\<lparr>rp_has_local_path := True\<rparr>,
     tb_files := [\<lparr>cf_id = ''f'', cf_path = ''a.py'', cf_language = ''python'', cf_hash = ''x'', cf_line_count = 1, cf_size_bytes = 1,
       cf_imports = [], cf_exports = []\<rparr>],
     tb_chunks := [\<lparr>cc_id = ''c'', cc_file_id = ''f'', cc_path = ''a.py'', cc_language = ''python'', cc_data = \<lparr>cd_symbol_name = ''a.py'',
       cd_symbol_type = ''module'', cd_start_line = 1, cd_end_line = 1, cd_content = ''x'', cd_content_hash = ''x'', cd_imports = [],
       cd_exports = []\<rparr>, cc_embedding_id = Some ''c''\<rparr>]\<rparr>"

lemma unchanged_files_are_not_embedded:
  "rp_status (tb_repo (wd_committed (snd (index_repository (w_index_env (\<lambda>_. None) [(''a.py'', Regular ''x'')]) False
     (w_index_world (Some [(''a.py'', Regular ''x'')]) w_one_indexed))))) = ''indexed''"
  "map point_id (tb_chunks (wd_committed (snd (index_repository (w_index_env (\<lambda>_. None) [(''a.py'', Regular ''x'')]) False
     (w_index_world (Some [(''a.py'', Regular ''x'')]) w_one_indexed))))) = [''c'']"
  "wd_points (snd (index_repository (w_index_env (\<lambda>_. None) [(''a.py'', Regular ''x'')]) False
     (w_index_world (Some [(''a.py'', Regular ''x'')]) w_one_indexed))) = {(8, ''old'')}"
  by code_simp+

end
