(* ===== verification/Retrieval.thy ===== *)
theory Retrieval
  imports Settings "HOL-Library.Product_Lexorder" "HOL-Library.Option_ord" "HOL-Library.AList"
begin

text \<open>
  Retrieval of code chunks, \<open>backend/app/services/retrieval_service.py\<close>: rewriting of the query, keyword and
  vector candidates, reciprocal rank fusion, reranking and expansion by neighbours.  The full text search of
  Postgres and the vector store with its embedding answer through \<open>rank_env\<close>; scores are rationals where
  the code has floats.  Strings are UTF-8 bytes: bytes beyond ASCII count as letters of a regular expression.
\<close>

record code_chunk =
  rc_id :: string
  rc_repo :: string
  rc_file_id :: string
  rc_path :: string
  rc_language :: string
  rc_symbol_name :: "string option"
  rc_symbol_type :: "string option"
  rc_start :: "int option"
  rc_end :: "int option"
  rc_content :: "string option"
  rc_imports :: "string list"
  rc_exports :: "string list"

record query_terms =
  qt_keywords :: "string list"
  qt_file_paths :: "string list"
  qt_symbols :: "string list"
  qt_error_terms :: "string list"

record retrieval_result =
  rr_chunk :: code_chunk
  rr_score :: rat
  rr_source :: string

record retrieval_settings =
  rs_top_k :: int
  rs_strategy :: string
  rs_min_vector_score :: rat
  rs_candidate_multiplier :: int
  rs_rerank_enabled :: bool
  rs_context_expansion_enabled :: bool
  rs_context_window :: int
  rs_context_max_extra :: int
  rs_max_repos :: int

text \<open>
  \<open>rk_full_text\<close> is the answer of Postgres to repositories, terms and limit, \<open>None\<close> on other databases;
  \<open>rk_vectors\<close> the points of one repository for a query text and a limit, by the chunk id of their payload, and
  \<open>None\<close> when the embedding or the store raises.
\<close>

record rank_env =
  rk_full_text :: "(string list \<Rightarrow> string list \<Rightarrow> int \<Rightarrow> (code_chunk \<times> rat) list) option"
  rk_vectors :: "string \<Rightarrow> string \<Rightarrow> int \<Rightarrow> (string option \<times> rat) list option"

definition RRF_K :: nat where
  "RRF_K = 60"

definition CHINESE_HINTS :: "(string \<times> string list) list" where
  "CHINESE_HINTS = [
     (utf8 [0xE7, 0x99, 0xBB, 0xE5, 0xBD, 0x95], [''login'', ''auth'', ''signin'', ''sign_in'', ''authenticate'', ''session'', ''token'']),
     (utf8 [0xE8, 0xAE, 0xA4, 0xE8, 0xAF, 0x81], [''auth'', ''authenticate'', ''authorization'', ''token'', ''session'']),
     (utf8 [0xE9, 0x89, 0xB4, 0xE6, 0x9D, 0x83], [''auth'', ''authorization'', ''permission'', ''token'']),
     (utf8 [0xE8, 0xB7, 0xAF, 0xE7, 0x94, 0xB1], [''route'', ''router'', ''routes'']),
     (utf8 [0xE8, 0xAE, 0xA2, 0xE5, 0x8D, 0x95], [''order'', ''checkout'']),
     (utf8 [0xE5, 0xBA, 0x93, 0xE5, 0xAD, 0x98], [''inventory'', ''stock'']),
     (utf8 [0xE6, 0x94, 0xAF, 0xE4, 0xBB, 0x98], [''payment'', ''billing'', ''invoice'']),
     (utf8 [0xE7, 0x94, 0xA8, 0xE6, 0x88, 0xB7], [''user'', ''account'', ''profile'']),
     (utf8 [0xE5, 0x88, 0xB7, 0xE6, 0x96, 0xB0], [''refresh'', ''renew'']),
     (utf8 [0xE8, 0xBF, 0x87, 0xE6, 0x9C, 0x9F], [''expire'', ''expired'', ''expiry'', ''timeout''])]"

definition STOPWORDS :: "string list" where
  "STOPWORDS = [''the'', ''and'', ''for'', ''with'', ''where'', ''what'', ''how'', ''why'', ''this'', ''that'',
     utf8 [0xE9, 0x80, 0xBB, 0xE8, 0xBE, 0x91], utf8 [0xE5, 0x93, 0xAA, 0xE9, 0x87, 0x8C], utf8 [0xE5, 0x9C, 0xA8, 0xE5, 0x93, 0xAA], utf8 [0xE5, 0xAE, 0x9E, 0xE7, 0x8E, 0xB0], utf8 [0xE4, 0xBB, 0xA3, 0xE7, 0xA0, 0x81]]"

section \<open>Regular expressions\<close>

definition re_alpha :: "char \<Rightarrow> bool" where
  "re_alpha c \<longleftrightarrow> (let n = (of_char c :: nat) in (65 \<le> n \<and> n \<le> 90) \<or> (97 \<le> n \<and> n \<le> 122))"

definition re_digit :: "char \<Rightarrow> bool" where
  "re_digit c \<longleftrightarrow> (48 :: nat) \<le> of_char c \<and> of_char c \<le> (57 :: nat)"

definition re_word :: "char \<Rightarrow> bool" where
  "re_word c \<longleftrightarrow> re_alpha c \<or> re_digit c \<or> c = CHR ''_'' \<or> (128 :: nat) \<le> of_char c"

definition re_ident :: "char \<Rightarrow> bool" where
  \<comment> \<open>\<open>[A-Za-z0-9_$]\<close>\<close>
  "re_ident c \<longleftrightarrow> re_alpha c \<or> re_digit c \<or> c = CHR ''_'' \<or> c = CHR ''$''"

definition word_before :: "char option \<Rightarrow> bool" where
  "word_before c = (case c of None \<Rightarrow> False | Some c \<Rightarrow> re_word c)"

definition boundary :: "char option \<Rightarrow> string \<Rightarrow> bool" where
  \<comment> \<open>the word boundary between the character before and the rest\<close>
  "boundary c s \<longleftrightarrow> word_before c \<noteq> word_before (case s of [] \<Rightarrow> None | d # _ \<Rightarrow> Some d)"

definition boundary_at :: "string \<Rightarrow> nat \<Rightarrow> bool" where
  "boundary_at s n = boundary (Some (s ! (n - 1))) (drop n s)"

fun longest :: "(nat \<Rightarrow> bool) \<Rightarrow> nat \<Rightarrow> nat" where
  \<comment> \<open>a greedy repetition backtracks from the longest\<close>
  "longest p 0 = 0"
| "longest p (Suc n) = (if p (Suc n) then Suc n else longest p n)"

function findall :: "(char option \<Rightarrow> string \<Rightarrow> nat) \<Rightarrow> char option \<Rightarrow> string \<Rightarrow> string list" where
  \<comment> \<open>\<open>re.findall\<close> of a pattern given by the length it matches after a character, 0 for no match\<close>
  "findall m c [] = []"
| "findall m c (d # s) =
     (let n = m c (d # s)
      in if n = 0 then findall m (Some d) s
         else take n (d # s) # findall m (Some (last (take n (d # s)))) (drop n (d # s)))"
  by pat_completeness auto
termination by (relation "measure (\<lambda>(m, c, s). length s)") auto

declare findall.simps [simp del]

fun runs :: "(char \<Rightarrow> bool) \<Rightarrow> string \<Rightarrow> string list" where
  \<comment> \<open>the non-empty pieces of \<open>re.split\<close> at the characters that do not satisfy the predicate\<close>
  "runs p [] = []"
| "runs p (c # s) =
     (if p c then (case s of
          d # _ \<Rightarrow> if p d then (case runs p s of w # ws \<Rightarrow> (c # w) # ws | [] \<Rightarrow> [[c]]) else [c] # runs p s
        | [] \<Rightarrow> [[c]])
      else runs p s)"

definition path_char :: "char \<Rightarrow> bool" where
  "path_char c \<longleftrightarrow> re_word c \<or> c \<in> set ''./@-''"

definition extension_length :: "string \<Rightarrow> nat" where
  \<comment> \<open>the dot and one of the extensions, alternatives in the order of the pattern\<close>
  "extension_length s =
     (case List.find (\<lambda>e. starts_with e s) [''.ts'', ''.tsx'', ''.js'', ''.jsx'', ''.py'', ''.vue''] of
        None \<Rightarrow> 0 | Some e \<Rightarrow> length e)"

definition path_match :: "char option \<Rightarrow> string \<Rightarrow> nat" where
  "path_match c s =
     (let k = longest (\<lambda>k. extension_length (drop k s) \<noteq> 0) (length (takeWhile path_char s))
      in if k = 0 then 0 else k + extension_length (drop k s))"

definition error_length :: "string \<Rightarrow> nat \<Rightarrow> nat" where
  "error_length s k =
     (if starts_with ''Error'' (drop k s) \<and> boundary_at s (k + 5) then 5
      else if starts_with ''Exception'' (drop k s) \<and> boundary_at s (k + 9) then 9 else 0)"

definition error_match :: "char option \<Rightarrow> string \<Rightarrow> nat" where
  \<comment> \<open>a boundary, an identifier ending in Error or Exception, a boundary\<close>
  "error_match c s =
     (if boundary c s \<and> s \<noteq> [] \<and> (re_alpha (hd s) \<or> hd s = CHR ''_'')
      then let k = longest (\<lambda>k. error_length s k \<noteq> 0)
                     (length (takeWhile (\<lambda>d. re_alpha d \<or> re_digit d \<or> d = CHR ''_'') s))
           in if k = 0 then 0 else k + error_length s k
      else 0)"

definition ident_start :: "string \<Rightarrow> bool" where
  "ident_start s \<longleftrightarrow> s \<noteq> [] \<and> (re_alpha (hd s) \<or> hd s = CHR ''_'' \<or> hd s = CHR ''$'')"

definition symbol_match :: "char option \<Rightarrow> string \<Rightarrow> nat" where
  \<comment> \<open>a boundary, an identifier of at least three characters, a boundary\<close>
  "symbol_match c s =
     (if boundary c s \<and> ident_start s then longest (\<lambda>n. 3 \<le> n \<and> boundary_at s n) (length (takeWhile re_ident s)) else 0)"

definition identifier_match :: "char option \<Rightarrow> string \<Rightarrow> nat" where
  \<comment> \<open>\<open>IDENTIFIER_RE\<close>\<close>
  "identifier_match c s = (if ident_start s then length (takeWhile re_ident s) else 0)"

definition sorted_unique :: "string list \<Rightarrow> string list" where
  "sorted_unique xs = sort (remdups xs)"

definition rewrite_query :: "string \<Rightarrow> query_terms" where
  "rewrite_query query =
     (let file_paths = findall path_match None query;
          error_terms = findall error_match None query;
          symbols = findall symbol_match None query;
          parts = concat (map (runs (\<lambda>c. c \<notin> set ''/_.-'')) file_paths);
          hints = concat (map snd (filter (\<lambda>(chinese, _). py_contains chinese query) CHINESE_HINTS));
          tokens = filter (\<lambda>t. 2 \<le> length t) (runs re_ident query);
          keywords = symbols @ error_terms @ parts @ hints @ tokens
      in \<lparr>qt_keywords = sorted_unique (filter (\<lambda>k. k \<notin> set STOPWORDS) (map py_lower keywords)),
          qt_file_paths = sorted_unique file_paths, qt_symbols = sorted_unique symbols,
          qt_error_terms = sorted_unique error_terms\<rparr>)"

section \<open>Bounds\<close>

fun bounded_ids :: "int \<Rightarrow> string list \<Rightarrow> string list \<Rightarrow> string list" where
  "bounded_ids max_repos bounded [] = bounded"
| "bounded_ids max_repos bounded (r # rs) =
     (let normalized = py_strip r
      in if normalized = [] \<or> normalized \<in> set bounded then bounded_ids max_repos bounded rs
         else if max_repos \<le> int (length bounded) + 1 then bounded @ [normalized]
         else bounded_ids max_repos (bounded @ [normalized]) rs)"

definition bounded_repo_ids :: "retrieval_settings \<Rightarrow> string list \<Rightarrow> string list" where
  "bounded_repo_ids cfg repo_ids = bounded_ids (rs_max_repos cfg) [] repo_ids"

fun clean_terms :: "string list \<Rightarrow> string list \<Rightarrow> string list" where
  "clean_terms cleaned [] = cleaned"
| "clean_terms cleaned (t # ts) =
     (let normalized = py_lower (py_strip t)
      in if length normalized < 2 \<or> normalized \<in> set STOPWORDS then clean_terms cleaned ts
         else let cleaned' = (if normalized \<in> set cleaned then cleaned else cleaned @ [normalized])
              in if 24 \<le> length cleaned' then cleaned' else clean_terms cleaned' ts)"

definition bounded_terms :: "query_terms \<Rightarrow> string list" where
  "bounded_terms terms = clean_terms [] (qt_keywords terms @ qt_file_paths terms @ qt_symbols terms @ qt_error_terms terms)"

section \<open>Candidates\<close>

definition text_of :: "string option \<Rightarrow> string" where
  "text_of t = (case t of None \<Rightarrow> [] | Some s \<Rightarrow> s)"

definition by_score :: "retrieval_result list \<Rightarrow> retrieval_result list" where
  "by_score = sort_key (\<lambda>r. (- rr_score r, rc_id (rr_chunk r)))"

fun like :: "string \<Rightarrow> string \<Rightarrow> bool" where
  \<comment> \<open>\<open>ilike\<close>: a percent sign stands for any text, an underscore for one character\<close>
  "like [] s \<longleftrightarrow> s = []"
| "like (p # ps) s \<longleftrightarrow>
     (if p = CHR ''%'' then like ps s \<or> (case s of [] \<Rightarrow> False | _ # t \<Rightarrow> like (p # ps) t)
      else (case s of [] \<Rightarrow> False | c # t \<Rightarrow> (p = CHR ''_'' \<or> lower_char p = lower_char c) \<and> like ps t))"

definition matches_term :: "code_chunk \<Rightarrow> string \<Rightarrow> bool" where
  "matches_term c term \<longleftrightarrow>
     (let pattern = CHR ''%'' # term @ ''%''
      in like pattern (rc_path c) \<or> (case rc_symbol_name c of None \<Rightarrow> False | Some s \<Rightarrow> like pattern s) \<or>
         (case rc_content c of None \<Rightarrow> False | Some s \<Rightarrow> like pattern s))"

definition keyword_score :: "code_chunk \<Rightarrow> string list \<Rightarrow> rat" where
  "keyword_score c terms =
     sum_list (map (\<lambda>term. let t = py_lower term in
        (if py_contains t (py_lower (text_of (rc_symbol_name c))) then 5 else 0) +
        (if py_contains t (py_lower (rc_path c)) then 3 else 0) +
        (if py_contains t (py_lower (text_of (rc_content c))) then 1 else 0)) terms)"

definition sql_limit :: "int \<Rightarrow> 'a list \<Rightarrow> 'a list" where
  \<comment> \<open>\<open>LIMIT\<close>; a negative limit is none\<close>
  "sql_limit n xs = (if n < 0 then xs else take (nat n) xs)"

definition keyword_search ::
  "rank_env \<Rightarrow> code_chunk list \<Rightarrow> string list \<Rightarrow> query_terms \<Rightarrow> int \<Rightarrow> retrieval_result list" where
  "keyword_search K rows repo_ids terms limit =
     (let search_terms = bounded_terms terms
      in if search_terms = [] then []
         else case rk_full_text K of
           Some fts \<Rightarrow> map (\<lambda>(c, s). \<lparr>rr_chunk = c, rr_score = s, rr_source = ''keyword''\<rparr>) (fts repo_ids search_terms limit)
         | None \<Rightarrow>
             by_score (map (\<lambda>c. \<lparr>rr_chunk = c, rr_score = keyword_score c search_terms, rr_source = ''keyword''\<rparr>)
               (sql_limit limit (sort_key (\<lambda>c. (rc_path c, rc_start c, rc_id c))
                 (filter (\<lambda>c. rc_repo c \<in> set repo_ids \<and> list_ex (matches_term c) search_terms) rows)))))"

definition query_text :: "string \<Rightarrow> query_terms \<Rightarrow> string" where
  \<comment> \<open>\<open>build_query_embedding_text\<close>\<close>
  "query_text query terms =
     (let part = (\<lambda>label n xs. if xs = [] then [] else [label @ join '', '' (take n xs)])
      in join [CHR 0x0A] ([''query: '' @ query] @ part ''keywords: '' 24 (qt_keywords terms) @
           part ''file_paths: '' 8 (qt_file_paths terms) @ part ''symbols: '' 16 (qt_symbols terms) @
           part ''errors: '' 8 (qt_error_terms terms)))"

fun search_repos :: "rank_env \<Rightarrow> string \<Rightarrow> int \<Rightarrow> string list \<Rightarrow> (string option \<times> rat) list option" where
  "search_repos K text limit [] = Some []"
| "search_repos K text limit (r # rs) =
     (case rk_vectors K r text limit of
        None \<Rightarrow> None
      | Some points \<Rightarrow> map_option (\<lambda>later. points @ later) (search_repos K text limit rs))"

fun scored_ids :: "(string \<times> rat) list \<Rightarrow> (string option \<times> rat) list \<Rightarrow> (string \<times> rat) list" where
  \<comment> \<open>the highest score of each chunk id\<close>
  "scored_ids acc [] = acc"
| "scored_ids acc ((i, s) # ps) =
     (case i of
        None \<Rightarrow> scored_ids acc ps
      | Some i \<Rightarrow> scored_ids (AList.update i (case map_of acc i of None \<Rightarrow> s | Some s' \<Rightarrow> max s' s) acc) ps)"

definition vector_search ::
  "rank_env \<Rightarrow> code_chunk list \<Rightarrow> string list \<Rightarrow> string \<Rightarrow> query_terms \<Rightarrow> int \<Rightarrow> retrieval_result list" where
  "vector_search K rows repo_ids query terms limit =
     (case search_repos K (query_text query terms) limit repo_ids of
        None \<Rightarrow> []
      | Some points \<Rightarrow>
          List.map_filter (\<lambda>(i, s). map_option (\<lambda>c. \<lparr>rr_chunk = c, rr_score = s, rr_source = ''vector''\<rparr>)
              (List.find (\<lambda>c. rc_repo c \<in> set repo_ids \<and> rc_id c = i) rows))
            (sort_key (\<lambda>(i, s). (- s, i)) (scored_ids [] points)))"

section \<open>Fusion\<close>

definition fuse_result ::
  "string \<Rightarrow> nat \<Rightarrow> retrieval_result \<Rightarrow> (string \<times> retrieval_result) list \<Rightarrow> (string \<times> retrieval_result) list" where
  \<comment> \<open>the second source that finds a chunk makes it hybrid\<close>
  "fuse_result source rank r fused =
     (let i = rc_id (rr_chunk r); gain = 1 / of_nat (RRF_K + rank)
      in case map_of fused i of
           None \<Rightarrow> fused @ [(i, \<lparr>rr_chunk = rr_chunk r, rr_score = gain, rr_source = source\<rparr>)]
         | Some x \<Rightarrow> map (\<lambda>(j, y). (j, if j = i then y\<lparr>rr_score := rr_score y + gain,
                        rr_source := (if rr_source y = source then source else ''hybrid'')\<rparr> else y)) fused)"

fun fuse_source ::
  "string \<Rightarrow> nat \<Rightarrow> string list \<Rightarrow> retrieval_result list \<Rightarrow> (string \<times> retrieval_result) list \<Rightarrow>
   (string \<times> retrieval_result) list" where
  "fuse_source source rank seen [] fused = fused"
| "fuse_source source rank seen (r # rs) fused =
     (if rc_id (rr_chunk r) \<in> set seen then fuse_source source (Suc rank) seen rs fused
      else fuse_source source (Suc rank) (rc_id (rr_chunk r) # seen) rs (fuse_result source rank r fused))"

definition reciprocal_rank_fusion :: "retrieval_result list \<Rightarrow> retrieval_result list \<Rightarrow> retrieval_result list" where
  "reciprocal_rank_fusion keyword_results vector_results =
     by_score (map snd (fuse_source ''vector'' 1 [] vector_results (fuse_source ''keyword'' 1 [] keyword_results [])))"

section \<open>Reranking\<close>

definition ranking_text :: "code_chunk \<Rightarrow> string" where
  "ranking_text c =
     py_lower (join '' '' [rc_path c, rc_language c, text_of (rc_symbol_name c), text_of (rc_symbol_type c),
         join '' '' (rc_imports c), join '' '' (rc_exports c)] @ [CHR 0x0A] @ text_of (rc_content c))"

definition rerank_score :: "string \<Rightarrow> query_terms \<Rightarrow> string list \<Rightarrow> rat \<Rightarrow> retrieval_result \<Rightarrow> rat" where
  "rerank_score query terms bounded max_initial r =
     (let c = rr_chunk r; haystack = ranking_text c; symbol_name = py_lower (text_of (rc_symbol_name c));
          path = py_lower (rc_path c)
      in rr_score r / max_initial * 2 +
         (if rr_source r = ''hybrid'' then 1 else if rr_source r = ''vector'' then 35 / 100 else 0) +
         (if bounded = [] then 0
          else of_nat (length (filter (\<lambda>t. py_contains t haystack) bounded)) / of_nat (length bounded) * 5) +
         sum_list (map (\<lambda>p. let l = py_lower p in
            if path = l \<or> ends_with l path then 6 else if py_contains l path then 3 else 0) (qt_file_paths terms)) +
         sum_list (map (\<lambda>s. let l = py_lower s in
            if symbol_name = l then 5 else if py_contains l symbol_name then 5 / 2 else 0) (qt_symbols terms)) +
         sum_list (map (\<lambda>e. if py_contains (py_lower e) haystack then 3 else 0) (qt_error_terms terms)) +
         sum_list (map (\<lambda>i. if py_contains i symbol_name then 3 / 2 else 0)
            (findall identifier_match None (py_lower query))))"

definition rerank :: "string \<Rightarrow> query_terms \<Rightarrow> retrieval_result list \<Rightarrow> retrieval_result list" where
  "rerank query terms results =
     (if results = [] then []
      else let highest = Max (set (map (\<lambda>r. \<bar>rr_score r\<bar>) results));
               max_initial = (if highest = 0 then 1 else highest)
           in by_score (map (\<lambda>r. r\<lparr>rr_score := rerank_score query terms (bounded_terms terms) max_initial r,
                rr_source := (if py_contains ''rerank'' (rr_source r) then rr_source r else rr_source r @ ''+rerank'')\<rparr>) results))"

section \<open>Expansion\<close>

definition chunks_of_file :: "code_chunk list \<Rightarrow> string list \<Rightarrow> string list \<Rightarrow> string \<Rightarrow> code_chunk list" where
  \<comment> \<open>one group of \<open>_chunks_by_file\<close>\<close>
  "chunks_of_file rows repo_ids file_ids file_id =
     (if file_id \<in> set file_ids
      then sort_key (\<lambda>c. (rc_start c, rc_end c))
        (filter (\<lambda>c. rc_repo c \<in> set repo_ids \<and> rc_file_id c = file_id \<and> rc_start c \<noteq> None \<and> rc_end c \<noteq> None) rows)
      else [])"

definition contains_chunk :: "code_chunk \<Rightarrow> code_chunk \<Rightarrow> bool" where
  "contains_chunk parent child =
     (if rc_id parent = rc_id child then False
      else case (rc_start parent, rc_end parent, rc_start child, rc_end child) of
        (Some ps, Some pe, Some cs, Some ce) \<Rightarrow> ps \<le> cs \<and> ce \<le> pe
      | _ \<Rightarrow> False)"

fun unique_chunks :: "string list \<Rightarrow> code_chunk list \<Rightarrow> code_chunk list" where
  "unique_chunks seen [] = []"
| "unique_chunks seen (c # cs) =
     (if rc_id c \<in> set seen then unique_chunks seen cs else c # unique_chunks (rc_id c # seen) cs)"

fun chunk_index :: "string \<Rightarrow> code_chunk list \<Rightarrow> nat option" where
  "chunk_index i [] = None"
| "chunk_index i (c # cs) = (if rc_id c = i then Some 0 else map_option Suc (chunk_index i cs))"

definition neighbor_chunks :: "int \<Rightarrow> code_chunk \<Rightarrow> code_chunk list \<Rightarrow> code_chunk list" where
  "neighbor_chunks window seed chunks =
     (case chunk_index (rc_id seed) chunks of
        None \<Rightarrow> []
      | Some index \<Rightarrow>
          unique_chunks [] (filter (\<lambda>c. contains_chunk c seed) chunks @
            drop (index - nat window) (take index chunks) @ take (nat window) (drop (Suc index) chunks)))"

fun add_neighbors ::
  "int \<Rightarrow> retrieval_result \<Rightarrow> code_chunk list \<Rightarrow> string list \<times> retrieval_result list \<times> int \<Rightarrow>
   string list \<times> retrieval_result list \<times> int" where
  "add_neighbors max_extra r [] st = st"
| "add_neighbors max_extra r (c # cs) (seen, out, extra) =
     (if rc_id c \<in> set seen then add_neighbors max_extra r cs (seen, out, extra)
      else let st = (rc_id c # seen,
                     out @ [\<lparr>rr_chunk = c, rr_score = rr_score r * (65 / 100), rr_source = rr_source r @ ''+expanded''\<rparr>],
                     extra + 1)
           in if max_extra \<le> extra + 1 then st else add_neighbors max_extra r cs st)"

fun expand_results ::
  "int \<Rightarrow> (retrieval_result \<Rightarrow> code_chunk list) \<Rightarrow> retrieval_result list \<Rightarrow>
   string list \<times> retrieval_result list \<times> int \<Rightarrow> string list \<times> retrieval_result list \<times> int" where
  "expand_results max_extra neighbors [] st = st"
| "expand_results max_extra neighbors (r # rs) (seen, out, extra) =
     (let st = (seen, out @ [r], extra)
      in expand_results max_extra neighbors rs
           (if max_extra \<le> extra then st else add_neighbors max_extra r (neighbors r) st))"

definition expand_context ::
  "retrieval_settings \<Rightarrow> code_chunk list \<Rightarrow> string list \<Rightarrow> retrieval_result list \<Rightarrow> retrieval_result list" where
  "expand_context cfg rows repo_ids results =
     (if results = [] \<or> rs_context_window cfg \<le> 0 then results
      else let file_ids = sorted_unique (map (\<lambda>r. rc_file_id (rr_chunk r)) results);
               neighbors = (\<lambda>r. neighbor_chunks (rs_context_window cfg) (rr_chunk r)
                              (chunks_of_file rows repo_ids file_ids (rc_file_id (rr_chunk r))))
           in fst (snd (expand_results (rs_context_max_extra cfg) neighbors results
                (map (\<lambda>r. rc_id (rr_chunk r)) results, [], 0))))"

section \<open>Retrieval\<close>

definition result_limit :: "retrieval_settings \<Rightarrow> int option \<Rightarrow> int" where
  \<comment> \<open>\<open>top_k or settings.retrieval_top_k\<close>\<close>
  "result_limit cfg top_k = (case top_k of None \<Rightarrow> rs_top_k cfg | Some k \<Rightarrow> if k = 0 then rs_top_k cfg else k)"

definition retrieve_many ::
  "retrieval_settings \<Rightarrow> rank_env \<Rightarrow> code_chunk list \<Rightarrow> string list \<Rightarrow> string \<Rightarrow> int option \<Rightarrow>
   string + retrieval_result list" where
  "retrieve_many cfg K rows repo_ids query top_k =
     (let scoped = bounded_repo_ids cfg repo_ids;
          limit = result_limit cfg top_k;
          candidate_limit = max (limit * rs_candidate_multiplier cfg) limit;
          terms = rewrite_query query;
          strategy = py_lower (py_strip (rs_strategy cfg))
      in if scoped = [] then Inr []
         else if strategy \<noteq> ''vector'' \<and> strategy \<noteq> ''hybrid''
         then Inl ''RETRIEVAL_STRATEGY must be either vector or hybrid''
         else
           let keyword_results = (if strategy = ''hybrid'' then keyword_search K rows scoped terms (candidate_limit * 2) else []);
               vector_results = filter (\<lambda>r. rs_min_vector_score cfg \<le> rr_score r) (vector_search K rows scoped query terms candidate_limit);
               candidates = (if strategy = ''hybrid'' then reciprocal_rank_fusion keyword_results vector_results else vector_results);
               ranked = (if rs_rerank_enabled cfg then rerank query terms candidates else by_score candidates);
               results = py_head limit ranked
           in Inr (if rs_context_expansion_enabled cfg then expand_context cfg rows scoped results else results))"

definition retrieve ::
  "retrieval_settings \<Rightarrow> rank_env \<Rightarrow> code_chunk list \<Rightarrow> string \<Rightarrow> string \<Rightarrow> int option \<Rightarrow>
   string + retrieval_result list" where
  "retrieve cfg K rows repo_id query top_k = retrieve_many cfg K rows [repo_id] query top_k"

end
