(* ===== verification/RetrievalTheorems.thy ===== *)
theory RetrievalTheorems
  imports Retrieval "HOL-Library.Multiset"
begin

text \<open>
  What retrieval answers with: chunks of the repositories asked for, each once, within the limits; and what the
  fused score of a chunk is.
\<close>

section \<open>Bounds\<close>

lemma bounded_ids_facts:
  assumes "distinct bounded" "int (length bounded) < max 1 m"
  shows "set (bounded_ids m bounded rs) \<subseteq> set bounded \<union> py_strip ` set rs \<and> distinct (bounded_ids m bounded rs) \<and>
     int (length (bounded_ids m bounded rs)) \<le> max 1 m"
  using assms
proof (induction rs arbitrary: bounded)
  case (Cons r rs)
  let ?n = "py_strip r"
  show ?case
  proof (cases "?n = [] \<or> ?n \<in> set bounded")
    case True
    then have "bounded_ids m bounded (r # rs) = bounded_ids m bounded rs" by (simp add: Let_def)
    then show ?thesis using Cons.IH [OF Cons.prems] by auto
  next
    case new: False
    show ?thesis
    proof (cases "m \<le> int (length bounded) + 1")
      case True
      then have "bounded_ids m bounded (r # rs) = bounded @ [?n]" using new by (simp add: Let_def)
      then show ?thesis using Cons.prems new by auto
    next
      case False
      then have "bounded_ids m bounded (r # rs) = bounded_ids m (bounded @ [?n]) rs" using new by (simp add: Let_def)
      moreover have "distinct (bounded @ [?n])" "int (length (bounded @ [?n])) < max 1 m" using Cons.prems new False by auto
      ultimately show ?thesis using Cons.IH [of "bounded @ [?n]"] by auto
    qed
  qed
qed simp

lemma clean_terms_facts:
  assumes "length cleaned < 24" "distinct cleaned" "set cleaned \<inter> set STOPWORDS = {}"
  shows "length (clean_terms cleaned ts) \<le> 24 \<and> distinct (clean_terms cleaned ts) \<and> set (clean_terms cleaned ts) \<inter> set STOPWORDS = {}"
  using assms
proof (induction ts arbitrary: cleaned)
  case (Cons t ts)
  let ?n = "py_lower (py_strip t)"
  show ?case
  proof (cases "length ?n < 2 \<or> ?n \<in> set STOPWORDS")
    case True
    then show ?thesis using Cons by (simp add: Let_def)
  next
    case False
    then show ?thesis using Cons by (cases "?n \<in> set cleaned") (auto simp: Let_def)
  qed
qed simp

section \<open>Candidates\<close>

definition in_scope :: "code_chunk list \<Rightarrow> string list \<Rightarrow> code_chunk \<Rightarrow> bool" where
  "in_scope rows repo_ids c \<longleftrightarrow> c \<in> set rows \<and> rc_repo c \<in> set repo_ids"

definition result_ids :: "retrieval_result list \<Rightarrow> string list" where
  "result_ids rs = map (\<lambda>r. rc_id (rr_chunk r)) rs"

text \<open>The full text search answers with rows of the repositories it was asked for.\<close>

definition full_text_in_scope :: "rank_env \<Rightarrow> code_chunk list \<Rightarrow> bool" where
  "full_text_in_scope K rows \<longleftrightarrow>
     (case rk_full_text K of None \<Rightarrow> True
      | Some fts \<Rightarrow> \<forall>repo_ids terms n. \<forall>(c, s)\<in>set (fts repo_ids terms n). in_scope rows repo_ids c)"

lemma set_by_score [simp]: "set (by_score rs) = set rs"
  by (simp add: by_score_def)

lemma length_by_score [simp]: "length (by_score rs) = length rs"
  by (simp add: by_score_def)

lemma distinct_by_score: "distinct (result_ids (by_score rs)) = distinct (result_ids rs)"
  unfolding result_ids_def by_score_def by (rule mset_eq_imp_distinct_iff) (simp only: mset_map mset_sort)

lemma set_sql_limit: "set (sql_limit n xs) \<subseteq> set xs"
  by (auto simp: sql_limit_def dest: in_set_takeD)

lemma find_in: "List.find P xs = Some x \<Longrightarrow> x \<in> set xs \<and> P x"
  by (induction xs) (auto split: if_splits)

lemma in_map_filter: "y \<in> set (List.map_filter f xs) \<longleftrightarrow> (\<exists>x\<in>set xs. f x = Some y)"
  by (induction xs) (auto simp: map_filter_simps split: option.splits)

lemma keyword_search_scope:
  assumes "full_text_in_scope K rows" "r \<in> set (keyword_search K rows repo_ids terms limit)"
  shows "in_scope rows repo_ids (rr_chunk r)"
proof (cases "rk_full_text K")
  case None
  let ?found = "sort_key (\<lambda>c. (rc_path c, rc_start c, rc_id c))
    (filter (\<lambda>c. rc_repo c \<in> set repo_ids \<and> list_ex (matches_term c) (bounded_terms terms)) rows)"
  have nonempty: "bounded_terms terms \<noteq> []"
  proof
    assume "bounded_terms terms = []"
    then have "keyword_search K rows repo_ids terms limit = []" by (simp only: keyword_search_def Let_def simp_thms if_True)
    then show False using assms(2) by simp
  qed
  have "keyword_search K rows repo_ids terms limit =
      by_score (map (\<lambda>c. \<lparr>rr_chunk = c, rr_score = keyword_score c (bounded_terms terms), rr_source = ''keyword''\<rparr>) (sql_limit limit ?found))"
    using nonempty None by (simp only: keyword_search_def Let_def if_False option.case)
  with assms(2) have "r \<in> (\<lambda>c. \<lparr>rr_chunk = c, rr_score = keyword_score c (bounded_terms terms), rr_source = ''keyword''\<rparr>) `
      set (sql_limit limit ?found)"
    by (simp only: set_by_score set_map)
  then have "rr_chunk r \<in> set (sql_limit limit ?found)" by (rule imageE) simp
  then have "rr_chunk r \<in> set ?found" by (rule subsetD [OF set_sql_limit])
  then show ?thesis by (simp add: in_scope_def)
next
  case (Some fts)
  then have "r \<in> (\<lambda>(c, s). \<lparr>rr_chunk = c, rr_score = s, rr_source = ''keyword''\<rparr>) ` set (fts repo_ids (bounded_terms terms) limit)"
    using assms(2) by (auto simp: keyword_search_def Let_def split: if_splits)
  then obtain c s where "(c, s) \<in> set (fts repo_ids (bounded_terms terms) limit)" "rr_chunk r = c" by auto
  moreover have "\<forall>(c, s)\<in>set (fts repo_ids (bounded_terms terms) limit). in_scope rows repo_ids c"
    using assms(1) Some by (simp add: full_text_in_scope_def)
  ultimately show ?thesis by auto
qed

lemma map_filter_ids:
  assumes "distinct (map fst ps)" "\<And>p r. p \<in> set ps \<Longrightarrow> f p = Some r \<Longrightarrow> rc_id (rr_chunk r) = fst p"
  shows "distinct (result_ids (List.map_filter f ps))"
  using assms
proof (induction ps)
  case (Cons p ps)
  then have IH: "distinct (result_ids (List.map_filter f ps))" by simp
  show ?case
  proof (cases "f p")
    case (Some r)
    then have "rc_id (rr_chunk r) = fst p" using Cons.prems(2) by simp
    moreover have "fst p \<notin> set (result_ids (List.map_filter f ps))"
    proof
      assume "fst p \<in> set (result_ids (List.map_filter f ps))"
      then obtain q r' where q: "q \<in> set ps" "f q = Some r'" "rc_id (rr_chunk r') = fst p"
        by (auto simp: result_ids_def in_map_filter)
      then have "fst q = fst p" using Cons.prems(2) [of q r'] by simp
      then have "fst p \<in> fst ` set ps" using q(1) by (metis imageI)
      then show False using Cons.prems(1) by simp
    qed
    ultimately show ?thesis using IH Some by (simp add: map_filter_simps result_ids_def)
  qed (use IH in \<open>simp add: map_filter_simps result_ids_def\<close>)
qed (simp add: map_filter_simps result_ids_def)

lemma distinct_scored_ids: "distinct (map fst acc) \<Longrightarrow> distinct (map fst (scored_ids acc ps))"
  by (induction acc ps rule: scored_ids.induct) (auto split: option.split simp: distinct_update)

definition vector_result :: "code_chunk list \<Rightarrow> string list \<Rightarrow> string \<times> rat \<Rightarrow> retrieval_result option" where
  "vector_result rows repo_ids = (\<lambda>(i, s). map_option (\<lambda>c. \<lparr>rr_chunk = c, rr_score = s, rr_source = ''vector''\<rparr>)
     (List.find (\<lambda>c. rc_repo c \<in> set repo_ids \<and> rc_id c = i) rows))"

lemma vector_resultD:
  "vector_result rows repo_ids p = Some r \<Longrightarrow>
     in_scope rows repo_ids (rr_chunk r) \<and> rc_id (rr_chunk r) = fst p \<and> rr_source r = ''vector''"
  by (auto simp: vector_result_def in_scope_def case_prod_unfold dest: find_in)

lemma vector_search_eq:
  "vector_search K rows repo_ids query terms limit =
     (case search_repos K (query_text query terms) limit repo_ids of None \<Rightarrow> []
      | Some points \<Rightarrow> List.map_filter (vector_result rows repo_ids) (sort_key (\<lambda>(i, s). (- s, i)) (scored_ids [] points)))"
  unfolding vector_search_def vector_result_def ..

lemma vector_search_scope:
  "r \<in> set (vector_search K rows repo_ids query terms limit) \<Longrightarrow> in_scope rows repo_ids (rr_chunk r)"
  by (auto simp: vector_search_eq in_map_filter dest: vector_resultD split: option.splits)

lemma vector_search_distinct: "distinct (result_ids (vector_search K rows repo_ids query terms limit))"
proof (cases "search_repos K (query_text query terms) limit repo_ids")
  case (Some points)
  let ?ps = "sort_key (\<lambda>(i, s). (- s, i)) (scored_ids [] points)"
  have d: "distinct (map fst (scored_ids [] points))" by (rule distinct_scored_ids) simp
  have "mset (map fst ?ps) = mset (map fst (scored_ids [] points))" by (simp only: mset_map mset_sort)
  then have "distinct (map fst ?ps)" using d by (metis mset_eq_imp_distinct_iff)
  then have "distinct (result_ids (List.map_filter (vector_result rows repo_ids) ?ps))"
    by (rule map_filter_ids) (simp add: vector_resultD)
  then show ?thesis using Some by (simp add: vector_search_eq)
qed (simp add: vector_search_eq result_ids_def)


section \<open>Fusion\<close>

text \<open>What a source adds to the score of a chunk: the reciprocal of its first rank there.\<close>

fun gain :: "nat \<Rightarrow> string \<Rightarrow> retrieval_result list \<Rightarrow> rat option" where
  "gain rank i [] = None"
| "gain rank i (r # rs) = (if rc_id (rr_chunk r) = i then Some (1 / of_nat (RRF_K + rank)) else gain (Suc rank) i rs)"

definition gained :: "rat option \<Rightarrow> rat" where
  "gained g = (case g of None \<Rightarrow> 0 | Some x \<Rightarrow> x)"

lemma gain_None: "gain rank i rs = None \<longleftrightarrow> i \<notin> set (result_ids rs)"
  by (induction rank i rs rule: gain.induct) (auto simp: result_ids_def)

definition fused_ok :: "(string \<times> retrieval_result) list \<Rightarrow> bool" where
  "fused_ok fused \<longleftrightarrow> distinct (map fst fused) \<and> (\<forall>(i, r)\<in>set fused. rc_id (rr_chunk r) = i)"

lemma map_of_map_value: "map_of (map (\<lambda>(j, y). (j, if j = i then f y else y)) ps) k =
    (if k = i then map_option f (map_of ps k) else map_of ps k)"
  by (induction ps) auto

definition fused_once :: "string \<Rightarrow> nat \<Rightarrow> retrieval_result \<Rightarrow> retrieval_result option \<Rightarrow> retrieval_result" where
  "fused_once source rank r x =
     (case x of
        None \<Rightarrow> \<lparr>rr_chunk = rr_chunk r, rr_score = 1 / of_nat (RRF_K + rank), rr_source = source\<rparr>
      | Some y \<Rightarrow> y\<lparr>rr_score := rr_score y + 1 / of_nat (RRF_K + rank),
                   rr_source := (if rr_source y = source then source else ''hybrid'')\<rparr>)"

lemma map_of_fuse_result:
  "map_of (fuse_result source rank r fused) i =
     (if i = rc_id (rr_chunk r) then Some (fused_once source rank r (map_of fused i)) else map_of fused i)"
proof (cases "map_of fused (rc_id (rr_chunk r))")
  case None
  then show ?thesis by (auto simp: fuse_result_def Let_def fused_once_def map_add_def split: option.split)
next
  case (Some y)
  then show ?thesis
    unfolding fuse_result_def Let_def fused_once_def by (simp only: option.case map_of_map_value) simp
qed

lemma fused_ok_map:
  assumes "fused_ok fused" "\<And>j y. rc_id (rr_chunk (f j y)) = rc_id (rr_chunk y)"
  shows "fused_ok (map (\<lambda>(j, y). (j, f j y)) fused)"
proof -
  have "map fst (map (\<lambda>(j, y). (j, f j y)) fused) = map fst fused" by (simp add: case_prod_unfold comp_def)
  then have "distinct (map fst (map (\<lambda>(j, y). (j, f j y)) fused))" using assms(1) by (simp only: fused_ok_def)
  moreover have "\<forall>(i, r)\<in>set (map (\<lambda>(j, y). (j, f j y)) fused). rc_id (rr_chunk r) = i"
    using assms unfolding fused_ok_def by auto
  ultimately show ?thesis unfolding fused_ok_def by blast
qed

lemma fused_ok_fuse_result:
  assumes "fused_ok fused"
  shows "fused_ok (fuse_result source rank r fused)"
proof (cases "map_of fused (rc_id (rr_chunk r))")
  case None
  then have "rc_id (rr_chunk r) \<notin> fst ` set fused" by (simp add: map_of_eq_None_iff)
  then show ?thesis using assms None by (auto simp: fuse_result_def Let_def fused_ok_def)
next
  case (Some y)
  then show ?thesis unfolding fuse_result_def Let_def by (simp only: option.case) (rule fused_ok_map [OF assms], simp)
qed

lemma fused_ok_fuse_source: "fused_ok fused \<Longrightarrow> fused_ok (fuse_source source rank seen rs fused)"
  by (induction source rank seen rs fused rule: fuse_source.induct) (simp_all add: fused_ok_fuse_result)

text \<open>One source: the chunks seen before keep their entry, each other one gets the gain of its first rank.\<close>

lemma map_of_fuse_source:
  "map_of (fuse_source source rank seen rs fused) i =
     (if i \<in> set seen then map_of fused i
      else case gain rank i rs of None \<Rightarrow> map_of fused i
        | Some g \<Rightarrow> Some (case map_of fused i of
            None \<Rightarrow> \<lparr>rr_chunk = rr_chunk (the (List.find (\<lambda>r. rc_id (rr_chunk r) = i) rs)), rr_score = g, rr_source = source\<rparr>
          | Some y \<Rightarrow> y\<lparr>rr_score := rr_score y + g, rr_source := (if rr_source y = source then source else ''hybrid'')\<rparr>))"
proof (induction source rank seen rs fused rule: fuse_source.induct)
  case (2 source rank seen r rs fused)
  let ?j = "rc_id (rr_chunk r)"
  show ?case
  proof (cases "?j \<in> set seen")
    case True
    then show ?thesis using 2 by (auto split: option.split)
  next
    case False
    then show ?thesis using 2 by (cases "i = ?j") (auto simp: map_of_fuse_result fused_once_def split: option.split)
  qed
qed simp


lemma fused_ok_values:
  assumes "fused_ok fused" "r \<in> set (map snd fused)"
  shows "map_of fused (rc_id (rr_chunk r)) = Some r"
  using assms by (auto simp: fused_ok_def intro!: map_of_is_SomeI)

lemma fused_ok_ids: "fused_ok fused \<Longrightarrow> result_ids (map snd fused) = map fst fused"
  by (auto simp: fused_ok_def result_ids_def)

lemma dom_fuse_source: "fst ` set (fuse_source source rank seen rs fused) \<union> set seen = fst ` set fused \<union> set (result_ids rs) \<union> set seen"
proof -
  have "i \<in> fst ` set (fuse_source source rank seen rs fused) \<longleftrightarrow> i \<in> fst ` set fused \<or> (i \<notin> set seen \<and> i \<in> set (result_ids rs))" for i
  proof -
    have dom: "i \<in> fst ` set ps \<longleftrightarrow> map_of ps i \<noteq> None" for ps :: "(string \<times> retrieval_result) list"
      by (simp only: map_of_eq_None_iff not_not)
    show ?thesis
      unfolding dom map_of_fuse_source using gain_None [of rank i rs] by (cases "gain rank i rs") simp_all
  qed
  then show ?thesis by auto
qed

lemma fuse_source_chunks:
  "rr_chunk ` snd ` set (fuse_source source rank seen rs fused) \<subseteq> rr_chunk ` snd ` set fused \<union> rr_chunk ` set rs"
proof (induction source rank seen rs fused rule: fuse_source.induct)
  case (2 source rank seen r rs fused)
  have step: "rr_chunk ` snd ` set (fuse_result source rank r fused) \<subseteq> insert (rr_chunk r) (rr_chunk ` snd ` set fused)"
  proof (cases "map_of fused (rc_id (rr_chunk r))")
    case (Some y)
    have same: "rr_chunk ` snd ` set (map (\<lambda>(j, y). (j, f j y)) fused) = rr_chunk ` snd ` set fused"
      if "\<And>j y. rr_chunk (f j y) = rr_chunk y" for f
      by (simp add: image_image case_prod_unfold that)
    show ?thesis unfolding fuse_result_def Let_def by (simp only: Some option.case) (rule order_trans [OF equalityD1 [OF same]], simp, rule subset_insertI)
  next
    case None
    have "set (fuse_result source rank r fused) =
        insert (rc_id (rr_chunk r), \<lparr>rr_chunk = rr_chunk r, rr_score = 1 / of_nat (RRF_K + rank), rr_source = source\<rparr>) (set fused)"
      unfolding fuse_result_def Let_def by (simp only: None option.case) simp
    then show ?thesis by simp
  qed
  have grow: "A \<subseteq> B \<union> C \<Longrightarrow> B \<subseteq> insert x D \<Longrightarrow> A \<subseteq> D \<union> insert x C" for A B C D :: "code_chunk set" and x
    by blast
  show ?case
  proof (cases "rc_id (rr_chunk r) \<in> set seen")
    case True
    show ?thesis using grow [OF "2.IH"(1) [OF True] subset_insertI] True by (simp only: fuse_source.simps if_True list.set image_insert)
  next
    case False
    show ?thesis using grow [OF "2.IH"(2) [OF False] step] False
      by (simp only: fuse_source.simps if_False list.set image_insert)
  qed
qed simp

lemma fused_distinct: "distinct (result_ids (reciprocal_rank_fusion kws vs))"
proof -
  let ?f = "fuse_source ''vector'' 1 [] vs (fuse_source ''keyword'' 1 [] kws [])"
  have ok: "fused_ok ?f" by (intro fused_ok_fuse_source) (simp add: fused_ok_def)
  then have "distinct (map fst ?f)" by (simp only: fused_ok_def)
  then show ?thesis unfolding reciprocal_rank_fusion_def distinct_by_score fused_ok_ids [OF ok] .
qed

text \<open>
  C14.  The score of a fused chunk is the sum, over the two sources, of the reciprocal of sixty plus its first rank
  there, whatever the raw scores were; it is labelled hybrid exactly when both sources found it; the fused list
  holds each chunk of either source once, and is sorted by falling score, ties by id.
\<close>

theorem fusion_is_reciprocal_rank:
  "(\<forall>r\<in>set (reciprocal_rank_fusion kws vs).
      rr_score r = gained (gain 1 (rc_id (rr_chunk r)) kws) + gained (gain 1 (rc_id (rr_chunk r)) vs) \<and>
      rr_source r = (if rc_id (rr_chunk r) \<notin> set (result_ids vs) then ''keyword''
                     else if rc_id (rr_chunk r) \<notin> set (result_ids kws) then ''vector'' else ''hybrid'')) \<and>
   distinct (result_ids (reciprocal_rank_fusion kws vs)) \<and>
   set (result_ids (reciprocal_rank_fusion kws vs)) = set (result_ids kws) \<union> set (result_ids vs) \<and>
   sorted_wrt (\<lambda>r r'. rr_score r' < rr_score r \<or> rr_score r = rr_score r' \<and> rc_id (rr_chunk r) \<le> rc_id (rr_chunk r'))
     (reciprocal_rank_fusion kws vs)"
proof -
  let ?k = "fuse_source ''keyword'' 1 [] kws []"
  let ?f = "fuse_source ''vector'' 1 [] vs ?k"
  have ok: "fused_ok ?f" by (intro fused_ok_fuse_source) (simp add: fused_ok_def)
  have fused: "reciprocal_rank_fusion kws vs = by_score (map snd ?f)" by (simp only: reciprocal_rank_fusion_def)
  have "rr_score r = gained (gain 1 (rc_id (rr_chunk r)) kws) + gained (gain 1 (rc_id (rr_chunk r)) vs) \<and>
      rr_source r = (if rc_id (rr_chunk r) \<notin> set (result_ids vs) then ''keyword''
                     else if rc_id (rr_chunk r) \<notin> set (result_ids kws) then ''vector'' else ''hybrid'')"
    if r: "r \<in> set (map snd ?f)" for r
  proof -
    let ?i = "rc_id (rr_chunk r)"
    have m: "map_of ?f ?i = Some r" by (rule fused_ok_values [OF ok r])
    then have "map_of ?f ?i \<noteq> None" by simp
    then have "rr_score (the (map_of ?f ?i)) = gained (gain 1 ?i kws) + gained (gain 1 ?i vs) \<and>
      rr_source (the (map_of ?f ?i)) = (if ?i \<notin> set (result_ids vs) then ''keyword''
                     else if ?i \<notin> set (result_ids kws) then ''vector'' else ''hybrid'')"
      by (cases "gain 1 ?i kws"; cases "gain 1 ?i vs") (auto simp: map_of_fuse_source gained_def gain_None [of 1, symmetric])
    then show ?thesis unfolding m option.sel .
  qed
  moreover have "distinct (result_ids (by_score (map snd ?f)))"
    using fused_distinct [of kws vs] unfolding fused .
  moreover have "set (result_ids (by_score (map snd ?f))) = set (result_ids kws) \<union> set (result_ids vs)"
  proof -
    have "set (result_ids (by_score (map snd ?f))) = set (map fst ?f)"
      unfolding fused_ok_ids [OF ok, symmetric] result_ids_def set_map set_by_score ..
    then show ?thesis
      using dom_fuse_source [of "''vector''" 1 "[]" vs ?k] dom_fuse_source [of "''keyword''" 1 "[]" kws "[]"] by simp
  qed
  moreover have "sorted_wrt (\<lambda>r r'. rr_score r' < rr_score r \<or> rr_score r = rr_score r' \<and> rc_id (rr_chunk r) \<le> rc_id (rr_chunk r'))
     (by_score rs)" for rs
  proof -
    have "sorted (map (\<lambda>r. (- rr_score r, rc_id (rr_chunk r))) (by_score rs))" by (simp add: by_score_def)
    then show ?thesis by (auto simp: sorted_wrt_map elim!: sorted_wrt_mono_rel [rotated])
  qed
  ultimately show ?thesis unfolding fused set_by_score by blast
qed


section \<open>Reranking and expansion\<close>

lemma rerank_chunks: "mset (map rr_chunk (rerank query terms rs)) = mset (map rr_chunk rs)"
proof (cases "rs = []")
  case False
  have "mset (map rr_chunk (by_score (map f rs))) = mset (map rr_chunk rs)" if "\<And>r. rr_chunk (f r) = rr_chunk r" for f
  proof -
    have "mset (map rr_chunk (by_score (map f rs))) = mset (map rr_chunk (map f rs))" by (simp only: by_score_def mset_map mset_sort)
    also have "map rr_chunk (map f rs) = map rr_chunk rs" using that by simp
    finally show ?thesis .
  qed
  then show ?thesis using False unfolding rerank_def Let_def by (simp only: if_False) simp
qed (simp add: rerank_def)

lemma chunks_ids:
  assumes "mset (map rr_chunk rs) = mset (map rr_chunk rs')"
  shows "distinct (result_ids rs) = distinct (result_ids rs')" "rr_chunk ` set rs = rr_chunk ` set rs'"
proof -
  have "mset (result_ids rs) = mset (result_ids rs')"
    using arg_cong [OF assms, of "image_mset rc_id"] by (simp add: result_ids_def comp_def multiset.map_comp)
  then show "distinct (result_ids rs) = distinct (result_ids rs')" by (rule mset_eq_imp_distinct_iff)
  show "rr_chunk ` set rs = rr_chunk ` set rs'" using mset_eq_setD [OF assms] by simp
qed

lemma py_head_facts:
  "set (py_head n xs) \<subseteq> set xs" "distinct (map f xs) \<Longrightarrow> distinct (map f (py_head n xs))"
  "0 \<le> n \<Longrightarrow> int (length (py_head n xs)) \<le> n"
  by (auto simp: py_head_def distinct_map take_map [symmetric] dest: in_set_takeD intro: inj_on_subset [OF _ set_take_subset])

lemma set_unique_chunks: "set (unique_chunks seen cs) \<subseteq> set cs"
  by (induction seen cs rule: unique_chunks.induct) auto

lemma neighbor_chunks_scope:
  assumes "c \<in> set (neighbor_chunks window seed (chunks_of_file rows repo_ids file_ids file_id))"
  shows "in_scope rows repo_ids c"
proof -
  let ?cs = "chunks_of_file rows repo_ids file_ids file_id"
  have "set (neighbor_chunks window seed ?cs) \<subseteq> set ?cs"
    unfolding neighbor_chunks_def using set_unique_chunks
    by (fastforce split: option.split dest: in_set_takeD in_set_dropD)
  moreover have "\<forall>c\<in>set ?cs. in_scope rows repo_ids c" by (simp add: chunks_of_file_def in_scope_def)
  ultimately show ?thesis using assms by blast
qed

lemma add_neighbors_extends:
  assumes "extra < max_extra"
  shows "\<exists>new. add_neighbors max_extra r cs (seen, out, extra) =
       (rev (result_ids new) @ seen, out @ new, extra + int (length new)) \<and>
     set (result_ids new) \<inter> set seen = {} \<and> distinct (result_ids new) \<and> rr_chunk ` set new \<subseteq> set cs \<and>
     extra + int (length new) \<le> max_extra"
  using assms
proof (induction cs arbitrary: seen out extra)
  case Nil
  then show ?case by (simp add: result_ids_def)
next
  case (Cons c cs)
  let ?x = "\<lparr>rr_chunk = c, rr_score = rr_score r * (65 / 100), rr_source = rr_source r @ ''+expanded''\<rparr>"
  show ?case
  proof (cases "rc_id c \<in> set seen")
    case True
    then show ?thesis using Cons.IH [OF Cons.prems, of seen out] by auto
  next
    case new: False
    show ?thesis
    proof (cases "max_extra \<le> extra + 1")
      case True
      then show ?thesis using new Cons.prems by (intro exI [of _ "[?x]"]) (simp add: result_ids_def)
    next
      case False
      then obtain xs where xs: "add_neighbors max_extra r cs (rc_id c # seen, out @ [?x], extra + 1) =
           (rev (result_ids xs) @ rc_id c # seen, (out @ [?x]) @ xs, extra + 1 + int (length xs))"
        "set (result_ids xs) \<inter> set (rc_id c # seen) = {}" "distinct (result_ids xs)" "rr_chunk ` set xs \<subseteq> set cs"
        "extra + 1 + int (length xs) \<le> max_extra"
        using Cons.IH [of "extra + 1" "rc_id c # seen" "out @ [?x]"] by auto
      then show ?thesis using new False
        by (intro exI [of _ "?x # xs"]) (auto simp: result_ids_def)
    qed
  qed
qed

lemma expand_results_facts:
  assumes "set (result_ids rs) \<subseteq> set seen" "set (result_ids out) \<subseteq> set seen" "distinct (result_ids out)"
    "distinct (result_ids rs)" "set (result_ids out) \<inter> set (result_ids rs) = {}" "extra \<le> max 0 max_extra"
    and scope: "\<And>r c. r \<in> set rs \<Longrightarrow> c \<in> set (neighbors r) \<Longrightarrow> P c" "\<forall>r\<in>set (out @ rs). P (rr_chunk r)"
  shows "\<exists>seen' out' extra'. expand_results max_extra neighbors rs (seen, out, extra) = (seen', out', extra') \<and>
     distinct (result_ids out') \<and> (\<forall>r\<in>set out'. P (rr_chunk r)) \<and> extra' \<le> max 0 max_extra \<and>
     int (length out') - extra' = int (length out) + int (length rs) - extra"
  using assms
proof (induction rs arbitrary: seen out extra)
  case (Cons r rs)
  show ?case
  proof (cases "max_extra \<le> extra")
    case True
    have "\<exists>seen' out' extra'. expand_results max_extra neighbors rs (seen, out @ [r], extra) = (seen', out', extra') \<and>
     distinct (result_ids out') \<and> (\<forall>r\<in>set out'. P (rr_chunk r)) \<and> extra' \<le> max 0 max_extra \<and>
     int (length out') - extra' = int (length (out @ [r])) + int (length rs) - extra"
      by (rule Cons.IH) (use Cons.prems in \<open>auto simp: result_ids_def\<close>)
    then show ?thesis using True by (simp add: algebra_simps)
  next
    case False
    then obtain new where new: "add_neighbors max_extra r (neighbors r) (seen, out @ [r], extra) =
         (rev (result_ids new) @ seen, (out @ [r]) @ new, extra + int (length new))"
      "set (result_ids new) \<inter> set seen = {}" "distinct (result_ids new)" "rr_chunk ` set new \<subseteq> set (neighbors r)"
      "extra + int (length new) \<le> max_extra"
      using add_neighbors_extends [of extra max_extra r "neighbors r" seen "out @ [r]"] by auto
    have "\<exists>seen' out' extra'. expand_results max_extra neighbors rs (rev (result_ids new) @ seen, (out @ [r]) @ new, extra + int (length new)) =
        (seen', out', extra') \<and>
     distinct (result_ids out') \<and> (\<forall>r\<in>set out'. P (rr_chunk r)) \<and> extra' \<le> max 0 max_extra \<and>
     int (length out') - extra' = int (length ((out @ [r]) @ new)) + int (length rs) - (extra + int (length new))"
    proof (rule Cons.IH)
      show "\<forall>x\<in>set (((out @ [r]) @ new) @ rs). P (rr_chunk x)" using Cons.prems(7,8) new(4) by auto
      show "extra + int (length new) \<le> max 0 max_extra" using new(5) by simp
      show "distinct (result_ids ((out @ [r]) @ new))" using Cons.prems(1-5) new(2,3) by (auto simp: result_ids_def)
      have "set (result_ids rs) \<subseteq> set seen" "rc_id (rr_chunk r) \<notin> set (result_ids rs)" "set (result_ids out) \<inter> set (result_ids rs) = {}"
        using Cons.prems(1,4,5) by (auto simp: result_ids_def)
      moreover have "set (result_ids ((out @ [r]) @ new)) = set (result_ids out) \<union> {rc_id (rr_chunk r)} \<union> set (result_ids new)"
        by (auto simp: result_ids_def)
      ultimately show "set (result_ids ((out @ [r]) @ new)) \<inter> set (result_ids rs) = {}" using new(2) by blast
    qed (use Cons.prems in \<open>auto simp: result_ids_def\<close>)
    then show ?thesis using False new(1) by (simp add: algebra_simps)
  qed
qed simp


lemma expand_context_facts:
  assumes "distinct (result_ids rs)" "\<forall>r\<in>set rs. in_scope rows repo_ids (rr_chunk r)"
  shows "distinct (result_ids (expand_context cfg rows repo_ids rs)) \<and>
     (\<forall>r\<in>set (expand_context cfg rows repo_ids rs). in_scope rows repo_ids (rr_chunk r)) \<and>
     int (length (expand_context cfg rows repo_ids rs)) \<le> int (length rs) + max 0 (rs_context_max_extra cfg)"
proof (cases "rs = [] \<or> rs_context_window cfg \<le> 0")
  case True
  then have "expand_context cfg rows repo_ids rs = rs" unfolding expand_context_def by (rule if_P)
  then show ?thesis using assms by simp
next
  case False
  let ?n = "\<lambda>r. neighbor_chunks (rs_context_window cfg) (rr_chunk r)
     (chunks_of_file rows repo_ids (sorted_unique (map (\<lambda>r. rc_file_id (rr_chunk r)) rs)) (rc_file_id (rr_chunk r)))"
  have eq: "expand_context cfg rows repo_ids rs =
      fst (snd (expand_results (rs_context_max_extra cfg) ?n rs (map (\<lambda>r. rc_id (rr_chunk r)) rs, [], 0)))"
    using False unfolding expand_context_def Let_def by (rule if_not_P)
  have "\<exists>seen' out' extra'. expand_results (rs_context_max_extra cfg) ?n rs (map (\<lambda>r. rc_id (rr_chunk r)) rs, [], 0) = (seen', out', extra') \<and>
     distinct (result_ids out') \<and> (\<forall>r\<in>set out'. in_scope rows repo_ids (rr_chunk r)) \<and> extra' \<le> max 0 (rs_context_max_extra cfg) \<and>
     int (length out') - extra' = int (length ([] :: retrieval_result list)) + int (length rs) - 0"
    by (rule expand_results_facts) (use assms in \<open>auto simp: result_ids_def intro: neighbor_chunks_scope\<close>)
  then show ?thesis unfolding eq by auto
qed

lemma candidates_scope:
  assumes "distinct (result_ids vs)" "\<forall>r\<in>set vs. in_scope rows scoped (rr_chunk r)"
    and "\<forall>r\<in>set kws. in_scope rows scoped (rr_chunk r)"
  shows "distinct (result_ids (if hybrid then reciprocal_rank_fusion kws vs else vs)) \<and>
    (\<forall>r\<in>set (if hybrid then reciprocal_rank_fusion kws vs else vs). in_scope rows scoped (rr_chunk r))"
proof (cases hybrid)
  case True
  have "rr_chunk ` set (reciprocal_rank_fusion kws vs) \<subseteq> rr_chunk ` set kws \<union> rr_chunk ` set vs"
    using fuse_source_chunks [of "''vector''" 1 "[]" vs "fuse_source ''keyword'' 1 [] kws []"] fuse_source_chunks [of "''keyword''" 1 "[]" kws "[]"]
    unfolding reciprocal_rank_fusion_def by (simp only: set_by_score set_map image_empty list.set) blast
  then have "\<forall>r\<in>set (reciprocal_rank_fusion kws vs). in_scope rows scoped (rr_chunk r)" using assms by fastforce
  then show ?thesis using fused_distinct [of kws vs] True by simp
qed (use assms in simp)

lemma ranked_scope:
  assumes "distinct (result_ids rs) \<and> (\<forall>r\<in>set rs. in_scope rows scoped (rr_chunk r))"
  shows "distinct (result_ids (if b then rerank query terms rs else by_score rs)) \<and>
    (\<forall>r\<in>set (if b then rerank query terms rs else by_score rs). in_scope rows scoped (rr_chunk r))"
proof -
  let ?ranked = "if b then rerank query terms rs else by_score rs"
  have "mset (map rr_chunk ?ranked) = mset (map rr_chunk rs)"
  proof (cases b)
    case True
    then show ?thesis by (simp only: if_True rerank_chunks)
  next
    case False
    then show ?thesis by (simp only: if_False by_score_def mset_map mset_sort)
  qed
  note same = chunks_ids [OF this]
  have "in_scope rows scoped (rr_chunk r)" if "r \<in> set ?ranked" for r
  proof -
    have "rr_chunk r \<in> rr_chunk ` set rs" unfolding same(2) [symmetric] using that by (rule imageI)
    then obtain r' where "r' \<in> set rs" "rr_chunk r = rr_chunk r'" by (rule imageE)
    then show ?thesis using assms by simp
  qed
  then show ?thesis using assms same(1) by blast
qed



section \<open>Concrete queries\<close>

text \<open>
  The alternatives of the pattern for file paths are tried in order, and \<open>ts\<close> comes before \<open>tsx\<close>: the last
  letter of a path to a tsx or jsx file is lost, and such a path never equals the one it names.
\<close>

lemma tsx_path_is_truncated:
  "qt_file_paths (rewrite_query ''App.tsx'') = [''App.ts'']"
proof -
  have chars: "path_char CHR ''A''" "path_char CHR ''p''" "path_char CHR ''.''" "path_char CHR ''t''" "path_char CHR ''s''" "path_char CHR ''x''"
    by (simp_all add: path_char_def re_word_def re_alpha_def)
  have "path_match None ''App.tsx'' = 6"
    using chars by (simp add: path_match_def extension_length_def eval_nat_numeral)
  moreover have "path_match c ''x'' = 0" for c
    by (simp add: path_match_def extension_length_def)
  ultimately have "findall path_match None ''App.tsx'' = [''App.ts'']"
    by (simp add: findall.simps)
  moreover have "qt_file_paths (rewrite_query query) = sorted_unique (findall path_match None query)" for query
    by (simp add: rewrite_query_def Let_def)
  ultimately show ?thesis by (simp add: sorted_unique_def)
qed

definition w_chunk :: "string \<Rightarrow> string \<Rightarrow> int \<Rightarrow> string \<Rightarrow> code_chunk" where
  "w_chunk i repo line content = \<lparr>rc_id = i, rc_repo = repo, rc_file_id = ''f'', rc_path = ''src/auth.py'', rc_language = ''python'',
     rc_symbol_name = Some ''login'', rc_symbol_type = None, rc_start = Some line, rc_end = Some (line + 5), rc_content = Some content,
     rc_imports = [], rc_exports = []\<rparr>"

definition w_rank_env :: rank_env where
  "w_rank_env = \<lparr>rk_full_text = None, rk_vectors = (\<lambda>repo text n. Some [(Some ''b'', 9 / 10), (None, 1), (Some ''x'', 1)])\<rparr>"

definition w_retrieval_settings :: retrieval_settings where
  "w_retrieval_settings = \<lparr>rs_top_k = 2, rs_strategy = ''vector'', rs_min_vector_score = 72 / 100, rs_candidate_multiplier = 4,
     rs_rerank_enabled = False, rs_context_expansion_enabled = True, rs_context_window = 1, rs_context_max_extra = 4, rs_max_repos = 8\<rparr>"

definition w_chunks :: "code_chunk list" where
  "w_chunks = [w_chunk ''a'' ''r'' 1 ''def login'', w_chunk ''b'' ''r'' 10 ''login again'', w_chunk ''x'' ''other'' 1 ''def login'']"

lemma w_retrieved:
  "map_sum id (map (\<lambda>r. (rc_id (rr_chunk r), rr_source r))) (retrieve_many w_retrieval_settings w_rank_env w_chunks [''r''] ''login'' None) =
     Inr [(''b'', ''vector''), (''a'', ''vector+expanded'')]"
proof -
  have "bounded_repo_ids w_retrieval_settings [''r''] = [''r'']" "py_lower (py_strip (rs_strategy w_retrieval_settings)) = ''vector''"
    by code_simp+
  moreover have "vector_search w_rank_env w_chunks [''r''] ''login'' terms 8 =
      [\<lparr>rr_chunk = w_chunk ''b'' ''r'' 10 ''login again'', rr_score = 9 / 10, rr_source = ''vector''\<rparr>]" for terms
    by (simp add: vector_search_def w_rank_env_def w_chunks_def w_chunk_def)
  moreover have "result_limit w_retrieval_settings None = 2" "rs_candidate_multiplier w_retrieval_settings = 4"
    "\<not> rs_rerank_enabled w_retrieval_settings" "rs_context_expansion_enabled w_retrieval_settings"
    "rs_min_vector_score w_retrieval_settings = 72 / 100"
    by (simp_all add: result_limit_def w_retrieval_settings_def)
  moreover have "map (\<lambda>r. (rc_id (rr_chunk r), rr_source r)) (expand_context w_retrieval_settings w_chunks [''r'']
      [\<lparr>rr_chunk = w_chunk ''b'' ''r'' 10 ''login again'', rr_score = 9 / 10, rr_source = ''vector''\<rparr>]) =
      [(''b'', ''vector''), (''a'', ''vector+expanded'')]"
    by code_simp
  ultimately show ?thesis by (simp add: retrieve_many_def by_score_def py_head_def)
qed


definition w_hit :: "string \<Rightarrow> rat \<Rightarrow> retrieval_result" where
  "w_hit i score = \<lparr>rr_chunk = w_chunk i ''r'' 1 ''def login'', rr_score = score, rr_source = ''vector''\<rparr>"

text \<open>A chunk that leads both sources: its score is twice the gain of the first rank.\<close>

lemma fusion_is_reciprocal_rank_witness:
  "\<exists>r \<in> set (reciprocal_rank_fusion [w_hit ''a'' 9, w_hit ''b'' 8] [w_hit ''a'' 3]).
     rc_id (rr_chunk r) = ''a'' \<and> rr_score r = 1 / 61 + 1 / 61 \<and> rr_source r = ''hybrid''"
proof -
  note fused = fusion_is_reciprocal_rank [of "[w_hit ''a'' 9, w_hit ''b'' 8]" "[w_hit ''a'' 3]"]
  have "''a'' \<in> set (result_ids (reciprocal_rank_fusion [w_hit ''a'' 9, w_hit ''b'' 8] [w_hit ''a'' 3]))"
    unfolding conjunct1 [OF conjunct2 [OF conjunct2 [OF fused]]] by (simp add: result_ids_def w_hit_def w_chunk_def)
  then obtain r where r: "r \<in> set (reciprocal_rank_fusion [w_hit ''a'' 9, w_hit ''b'' 8] [w_hit ''a'' 3])"
    "rc_id (rr_chunk r) = ''a''" by (auto simp: result_ids_def)
  with conjunct1 [OF fused] show ?thesis
    by (intro bexI [of _ r]) (auto simp: result_ids_def gained_def w_hit_def w_chunk_def RRF_K_def)
qed

end
