(* ===== verification/Datasets.thy ===== *)
theory Datasets
  imports Tables Retrieval Timeline "HOL-Library.Monad_Syntax"
begin

text \<open>
  Benchmark datasets and the tables of the evaluation services: the cases of a benchmark and their schemas
  (\<open>backend/app/schemas/evaluations.py\<close>), datasets and their immutable snapshots
  (\<open>evaluation_dataset_service.py\<close>), the creation of evaluation runs with the snapshot they are bound to
  (\<open>evaluation_service.py\<close>) and the backfill of snapshots of old runs
  (\<open>evaluation_snapshot_backfill_service.py\<close>).  Stored cases are those a schema accepted, so they are records;
  a request brings dictionaries.  A method that raises commits nothing.  Floats are real numbers.
\<close>

section \<open>Cases\<close>

record retrieval_case =
  qc_case_id :: "string option"
  qc_repo_id :: string
  qc_question :: string
  qc_expected_file :: string
  qc_expected_lines :: pyval
  qc_category :: string
  qc_tags :: "string list"

record fix_case =
  fc_case_id :: "string option"
  fc_repo_id :: string
  fc_issue :: string
  fc_test_command :: "string option"
  fc_expected_status :: string
  fc_expected_diff_contains :: "string list"
  fc_allowed_changed_files :: "string list"
  fc_category :: string
  fc_tags :: "string list"

datatype eval_cases = Retrieval_cases "retrieval_case list" | Fix_cases "fix_case list"

datatype eval_error = Missing string | Invalid string | Invalid_case string

fun task_type_of :: "eval_cases \<Rightarrow> string" where
  "task_type_of (Retrieval_cases cs) = ''retrieval''"
| "task_type_of (Fix_cases cs) = ''fix''"

fun case_count_of :: "eval_cases \<Rightarrow> nat" where
  "case_count_of (Retrieval_cases cs) = length cs"
| "case_count_of (Fix_cases cs) = length cs"

definition characters :: "string \<Rightarrow> nat" where
  \<comment> \<open>the length in characters: UTF-8 continuation bytes do not count\<close>
  "characters s = length (filter (\<lambda>c. (of_char c :: nat) div 64 \<noteq> 2) s)"

definition text_field :: "nat \<Rightarrow> nat \<Rightarrow> pyval \<Rightarrow> string option" where
  \<comment> \<open>\<open>str\<close> with \<open>min_length\<close> and \<open>max_length\<close>\<close>
  "text_field lo hi v = (case v of PStr s \<Rightarrow> if lo \<le> characters s \<and> characters s \<le> hi then Some s else None | _ \<Rightarrow> None)"

definition optional_field :: "nat \<Rightarrow> pyval \<Rightarrow> string option option" where
  \<comment> \<open>\<open>str | None\<close>\<close>
  "optional_field hi v = (if v = PNone then Some None else map_option Some (text_field 0 hi v))"

fun texts_of :: "pyval list \<Rightarrow> string list option" where
  "texts_of [] = Some []"
| "texts_of (PStr s # vs) = map_option ((#) s) (texts_of vs)"
| "texts_of (v # vs) = None"

definition texts_field :: "nat \<Rightarrow> pyval \<Rightarrow> string list option" where
  "texts_field hi v = (case v of PList vs \<Rightarrow> if length vs \<le> hi then texts_of vs else None | _ \<Rightarrow> None)"

definition lines_field :: "pyval \<Rightarrow> pyval option" where
  \<comment> \<open>\<open>dict | list | None\<close>\<close>
  "lines_field v = (case v of PNone \<Rightarrow> Some v | PList _ \<Rightarrow> Some v | PDict _ \<Rightarrow> Some v | _ \<Rightarrow> None)"

definition EXPECTED_STATUSES :: "string set" where
  "EXPECTED_STATUSES = {''verified_success'', ''unverified_patch'', ''not_reproduced'', ''failed'', ''infra_error''}"

definition normalize_legacy_success :: "pyval \<Rightarrow> pyval" where
  "normalize_legacy_success v = (if v = PStr ''success'' then PStr ''verified_success'' else v)"

definition status_field :: "pyval \<Rightarrow> string option" where
  "status_field v =
     (case normalize_legacy_success v of PStr s \<Rightarrow> if s \<in> EXPECTED_STATUSES then Some s else None | _ \<Rightarrow> None)"

definition retrieval_case_of :: "pydict \<Rightarrow> retrieval_case option" where
  \<comment> \<open>\<open>RetrievalEvaluationCase(**case)\<close>, \<open>None\<close> for a ValidationError\<close>
  "retrieval_case_of d =
     do { case_id \<leftarrow> optional_field 128 (dget d ''case_id'');
          repo_id \<leftarrow> text_field 1 36 (dget d ''repo_id'');
          question \<leftarrow> text_field 1 8000 (dget d ''question'');
          expected_file \<leftarrow> text_field 1 2048 (dget d ''expected_file'');
          expected_lines \<leftarrow> lines_field (dget d ''expected_lines'');
          category \<leftarrow> text_field 1 64 (dget_or d ''category'' (PStr ''unspecified''));
          tags \<leftarrow> texts_field 20 (dget_or d ''tags'' (PList []));
          Some \<lparr>qc_case_id = case_id, qc_repo_id = repo_id, qc_question = question, qc_expected_file = expected_file,
            qc_expected_lines = expected_lines, qc_category = category, qc_tags = tags\<rparr> }"

definition fix_case_of :: "pydict \<Rightarrow> fix_case option" where
  "fix_case_of d =
     do { case_id \<leftarrow> optional_field 128 (dget d ''case_id'');
          repo_id \<leftarrow> text_field 1 36 (dget d ''repo_id'');
          issue \<leftarrow> text_field 1 20000 (dget d ''issue'');
          test_command \<leftarrow> optional_field 255 (dget d ''test_command'');
          expected_status \<leftarrow> status_field (dget_or d ''expected_status'' (PStr ''verified_success''));
          expected_diff_contains \<leftarrow> texts_field 20 (dget_or d ''expected_diff_contains'' (PList []));
          allowed_changed_files \<leftarrow> texts_field 20 (dget_or d ''allowed_changed_files'' (PList []));
          category \<leftarrow> text_field 1 64 (dget_or d ''category'' (PStr ''unspecified''));
          tags \<leftarrow> texts_field 20 (dget_or d ''tags'' (PList []));
          Some \<lparr>fc_case_id = case_id, fc_repo_id = repo_id, fc_issue = issue, fc_test_command = test_command,
            fc_expected_status = expected_status, fc_expected_diff_contains = expected_diff_contains,
            fc_allowed_changed_files = allowed_changed_files, fc_category = category, fc_tags = tags\<rparr> }"

definition texts_value :: "string list \<Rightarrow> pyval" where
  "texts_value xs = PList (map PStr xs)"

definition retrieval_case_dump :: "retrieval_case \<Rightarrow> pydict" where
  \<comment> \<open>\<open>case.model_dump()\<close>\<close>
  "retrieval_case_dump c =
     [(''case_id'', str_or_none (qc_case_id c)), (''repo_id'', PStr (qc_repo_id c)), (''question'', PStr (qc_question c)),
      (''expected_file'', PStr (qc_expected_file c)), (''expected_lines'', qc_expected_lines c),
      (''category'', PStr (qc_category c)), (''tags'', texts_value (qc_tags c))]"

definition fix_case_dump :: "fix_case \<Rightarrow> pydict" where
  "fix_case_dump c =
     [(''case_id'', str_or_none (fc_case_id c)), (''repo_id'', PStr (fc_repo_id c)), (''issue'', PStr (fc_issue c)),
      (''test_command'', str_or_none (fc_test_command c)), (''expected_status'', PStr (fc_expected_status c)),
      (''expected_diff_contains'', texts_value (fc_expected_diff_contains c)),
      (''allowed_changed_files'', texts_value (fc_allowed_changed_files c)),
      (''category'', PStr (fc_category c)), (''tags'', texts_value (fc_tags c))]"

fun cases_dump :: "eval_cases \<Rightarrow> pydict list" where
  "cases_dump (Retrieval_cases cs) = map retrieval_case_dump cs"
| "cases_dump (Fix_cases cs) = map fix_case_dump cs"

fun all_some :: "('a \<Rightarrow> 'b option) \<Rightarrow> 'a list \<Rightarrow> 'b list option" where
  \<comment> \<open>a comprehension whose body may raise\<close>
  "all_some f [] = Some []"
| "all_some f (x # xs) = (case f x of None \<Rightarrow> None | Some y \<Rightarrow> map_option ((#) y) (all_some f xs))"

definition validate_cases :: "string \<Rightarrow> pydict list \<Rightarrow> eval_error + eval_cases" where
  "validate_cases task_type cases =
     (let limit = (if task_type = ''retrieval'' then 200 else 50)
      in if limit < int (length cases)
         then Inl (Invalid (task_type @ '' datasets support at most '' @ str_int limit @ '' cases''))
         else if task_type = ''retrieval''
         then (case all_some retrieval_case_of cases of
                 None \<Rightarrow> Inl (Invalid_case task_type) | Some cs \<Rightarrow> Inr (Retrieval_cases cs))
         else if task_type = ''fix''
         then (case all_some fix_case_of cases of
                 None \<Rightarrow> Inl (Invalid_case task_type) | Some cs \<Rightarrow> Inr (Fix_cases cs))
         else Inl (Invalid (''Unsupported evaluation dataset task type: '' @ task_type)))"

section \<open>Tables\<close>

record gate_policy =
  gp_max_primary_metric_drop :: real
  gp_max_regressed_cases :: int
  gp_allow_incompatible :: bool
  gp_require_matching_snapshot :: bool
  gp_max_avg_latency_increase :: "real option"
  gp_max_avg_tool_call_increase :: "real option"

definition default_gate_policy :: gate_policy where
  "default_gate_policy = \<lparr>gp_max_primary_metric_drop = 0, gp_max_regressed_cases = 0, gp_allow_incompatible = False,
     gp_require_matching_snapshot = True, gp_max_avg_latency_increase = None, gp_max_avg_tool_call_increase = None\<rparr>"

record dataset =
  ds_id :: string
  ds_name :: string
  ds_task_type :: string
  ds_description :: "string option"
  ds_version :: int
  ds_baseline_run_id :: "string option"
  ds_gate_policy :: gate_policy
  ds_cases :: eval_cases
  ds_metadata :: pydict

record snapshot =
  sn_id :: string
  sn_dataset_id :: string
  sn_name :: string
  sn_task_type :: string
  sn_description :: "string option"
  sn_version :: int
  sn_baseline_run_id :: "string option"
  sn_gate_policy :: gate_policy
  sn_cases :: eval_cases
  sn_metadata :: pydict

record eval_request =
  rq_name :: "string option"
  rq_dataset_id :: "string option"
  rq_dataset_version :: "int option"
  rq_snapshot_id :: "string option"
  rq_cases :: eval_cases
  rq_top_k :: int
  rq_require_tests_ran :: bool

text \<open>The values of \<open>metrics_json\<close>: JSON with floats.\<close>

datatype metric = MNone | MBool bool | MInt int | MFloat real | MStr string | MDict "(string \<times> metric) list"

type_synonym metrics = "(string \<times> metric) list"

definition mget :: "metrics \<Rightarrow> string \<Rightarrow> metric" where
  "mget m k = (case map_of m k of None \<Rightarrow> MNone | Some v \<Rightarrow> v)"

fun number :: "metric \<Rightarrow> real option" where
  \<comment> \<open>\<open>isinstance(v, int | float)\<close>, which holds of booleans\<close>
  "number (MBool b) = Some (of_bool b)"
| "number (MInt n) = Some (real_of_int n)"
| "number (MFloat x) = Some x"
| "number v = None"

record eval_run =
  er_id :: string
  er_name :: "string option"
  er_task_type :: string
  er_status :: string
  er_dataset_id :: "string option"
  er_dataset_version :: "int option"
  er_snapshot_id :: "string option"
  er_case_count :: int
  er_passed_count :: int
  er_failed_count :: int
  er_metrics :: metrics
  er_config :: pydict
  er_request :: eval_request
  er_created_at :: time
  er_finished_at :: "time option"

text \<open>What one case leaves in \<open>result_json\<close>.\<close>

record citation =
  ci_chunk_id :: string
  ci_repo_id :: string
  ci_file_path :: string
  ci_symbol_name :: "string option"
  ci_symbol_type :: "string option"
  ci_start :: "int option"
  ci_end :: "int option"
  ci_score :: rat
  ci_source :: string

record case_metrics =
  cm_relevant_hit :: bool
  cm_first_relevant_rank :: "nat option"
  cm_reciprocal_rank :: real
  cm_ndcg :: real
  cm_file_hit :: bool
  cm_first_file_rank :: "nat option"
  cm_lines_required :: bool
  cm_line_hit :: "bool option"
  cm_line_overlap :: "real option"
  cm_citation_precision :: real
  cm_relevant_citations :: nat
  cm_citation_count :: nat

record agent_result =
  ar_agent_run_id :: string
  ar_agent_status :: string
  ar_summary :: "string option"
  ar_iterations :: int
  ar_tool_calls :: int
  ar_local_tool_calls :: int
  ar_mcp_tool_calls :: int
  ar_planner_tokens :: int
  ar_total_tokens :: int
  ar_token_usage_estimated :: bool
  ar_steps_by_type :: "(string \<times> int) list"
  ar_test_result :: "pydict option"
  ar_final_diff_length :: nat
  ar_final_diff_preview :: string

datatype case_result =
    Retrieval_result "citation list" int string pyval case_metrics
  | Agent_result agent_result
  | Error_result string

record evaluation =
  ev_run_id :: string
  ev_case_id :: "string option"
  ev_repo_id :: "string option"
  ev_task_type :: string
  ev_status :: string
  ev_question :: string
  ev_expected_file :: "string option"
  ev_expected_lines :: pyval
  ev_result :: case_result
  ev_passed :: bool
  ev_latency_ms :: int
  ev_score :: real
  ev_failure_category :: "string option"
  ev_agent_run_id :: "string option"
  ev_provider :: string
  ev_model :: string
  ev_metadata :: pydict
  ev_id :: string

text \<open>Rows are listed in the order of their creation; \<open>created_at\<close> orders runs.\<close>

record eval_db =
  ed_datasets :: "dataset list"
  ed_snapshots :: "snapshot list"
  ed_runs :: "eval_run list"
  ed_results :: "evaluation list"

definition find_dataset :: "eval_db \<Rightarrow> string \<Rightarrow> dataset option" where
  "find_dataset D i = List.find (\<lambda>d. ds_id d = i) (ed_datasets D)"

definition find_snapshot :: "eval_db \<Rightarrow> string \<Rightarrow> snapshot option" where
  "find_snapshot D i = List.find (\<lambda>s. sn_id s = i) (ed_snapshots D)"

definition find_run :: "eval_db \<Rightarrow> string \<Rightarrow> eval_run option" where
  "find_run D i = List.find (\<lambda>r. er_id r = i) (ed_runs D)"

definition save_dataset :: "dataset \<Rightarrow> eval_db \<Rightarrow> eval_db" where
  "save_dataset d D = D\<lparr>ed_datasets := map (\<lambda>e. if ds_id e = ds_id d then d else e) (ed_datasets D)\<rparr>"

definition save_run :: "eval_run \<Rightarrow> eval_db \<Rightarrow> eval_db" where
  "save_run r D = D\<lparr>ed_runs := map (\<lambda>e. if er_id e = er_id r then r else e) (ed_runs D)\<rparr>"

definition version_snapshot :: "eval_db \<Rightarrow> string \<Rightarrow> int \<Rightarrow> snapshot option" where
  "version_snapshot D i v = List.find (\<lambda>s. sn_dataset_id s = i \<and> sn_version s = v) (ed_snapshots D)"

section \<open>Datasets and snapshots\<close>

definition new_snapshot :: "string \<Rightarrow> dataset \<Rightarrow> snapshot" where
  "new_snapshot i d =
     \<lparr>sn_id = i, sn_dataset_id = ds_id d, sn_name = ds_name d, sn_task_type = ds_task_type d, sn_description = ds_description d,
      sn_version = ds_version d, sn_baseline_run_id = ds_baseline_run_id d, sn_gate_policy = ds_gate_policy d,
      sn_cases = ds_cases d, sn_metadata = ds_metadata d\<rparr>"

definition add_snapshot :: "snapshot \<Rightarrow> eval_db \<Rightarrow> eval_db" where
  "add_snapshot s D = D\<lparr>ed_snapshots := ed_snapshots D @ [s]\<rparr>"

definition upsert_snapshot :: "string \<Rightarrow> dataset \<Rightarrow> eval_db \<Rightarrow> eval_error + snapshot \<times> eval_db" where
  \<comment> \<open>\<open>i\<close> is the id a new row gets\<close>
  "upsert_snapshot i d D =
     (case version_snapshot D (ds_id d) (ds_version d) of
        Some s \<Rightarrow>
          if sn_task_type s \<noteq> ds_task_type d \<or> sn_cases s \<noteq> ds_cases d
          then Inl (Invalid ''Dataset version already has a different snapshot; bump dataset version'')
          else Inr (s, D)
      | None \<Rightarrow> let s = new_snapshot i d in Inr (s, add_snapshot s D))"

definition validate_baseline_run ::
  "eval_db \<Rightarrow> string \<Rightarrow> string option \<Rightarrow> string \<Rightarrow> eval_error + string option" where
  "validate_baseline_run D dataset_id baseline task_type =
     (if none_or_empty baseline then Inr None
      else case find_run D (the baseline) of
        None \<Rightarrow> Inl (Invalid ''Baseline evaluation run not found'')
      | Some r \<Rightarrow>
        if er_status r \<noteq> ''completed'' then Inl (Invalid ''Baseline evaluation run must be completed'')
        else if er_task_type r \<noteq> task_type
        then Inl (Invalid ''Baseline evaluation run task type must match dataset task type'')
        else if \<not> none_or_empty (er_dataset_id r) \<and> er_dataset_id r \<noteq> Some dataset_id
        then Inl (Invalid ''Baseline evaluation run must belong to this benchmark dataset'')
        else Inr (Some (er_id r)))"

record dataset_create =
  dc_name :: string
  dc_task_type :: string
  dc_description :: "string option"
  dc_version :: int
  dc_baseline_run_id :: "string option"
  dc_gate_policy :: gate_policy
  dc_cases :: "pydict list"
  dc_metadata :: pydict

definition create_dataset ::
  "string \<Rightarrow> string \<Rightarrow> dataset_create \<Rightarrow> eval_db \<Rightarrow> (eval_error + dataset) \<times> eval_db" where
  \<comment> \<open>the ids are those of the new dataset and of its snapshot\<close>
  "create_dataset i j q D =
     (case validate_cases (dc_task_type q) (dc_cases q) of
        Inl e \<Rightarrow> (Inl e, D)
      | Inr cs \<Rightarrow>
        case validate_baseline_run D i (dc_baseline_run_id q) (dc_task_type q) of
          Inl e \<Rightarrow> (Inl e, D)
        | Inr baseline \<Rightarrow>
          let d = \<lparr>ds_id = i, ds_name = py_strip (dc_name q), ds_task_type = dc_task_type q, ds_description = dc_description q,
                   ds_version = dc_version q, ds_baseline_run_id = baseline, ds_gate_policy = dc_gate_policy q,
                   ds_cases = cs, ds_metadata = dc_metadata q\<rparr>
          in case upsert_snapshot j d (D\<lparr>ed_datasets := ed_datasets D @ [d]\<rparr>) of
               Inl e \<Rightarrow> (Inl e, D)
             | Inr (s, D') \<Rightarrow> (Inr d, D'))"

text \<open>A field of an update is \<open>None\<close> when the request does not set it.\<close>

record dataset_update =
  du_name :: "string option option"
  du_task_type :: "string option option"
  du_description :: "string option option"
  du_version :: "int option option"
  du_baseline_run_id :: "string option option"
  du_gate_policy :: "gate_policy option option"
  du_cases :: "pydict list option option"
  du_metadata :: "pydict option option"

definition updated_name :: "dataset_update \<Rightarrow> dataset \<Rightarrow> eval_error + string" where
  "updated_name u d =
     (case du_name u of
        None \<Rightarrow> Inr (ds_name d)
      | Some n \<Rightarrow> if none_or_empty n \<or> py_strip (the n) = [] then Inl (Invalid ''Dataset name is required'')
                  else Inr (py_strip (the n)))"

definition updated_cases :: "dataset_update \<Rightarrow> dataset \<Rightarrow> eval_error + pydict list" where
  "updated_cases u d =
     (case du_cases u of
        None \<Rightarrow> Inr (cases_dump (ds_cases d))
      | Some cs \<Rightarrow> if cs = None \<or> cs = Some [] then Inl (Invalid ''Dataset cases are required'') else Inr (the cs))"

definition updated_task_type :: "dataset_update \<Rightarrow> dataset \<Rightarrow> string" where
  "updated_task_type u d = (case du_task_type u of Some t \<Rightarrow> or_default t (ds_task_type d) | None \<Rightarrow> ds_task_type d)"

definition updated_baseline ::
  "eval_db \<Rightarrow> dataset_update \<Rightarrow> dataset \<Rightarrow> string \<Rightarrow> eval_error + string option" where
  \<comment> \<open>a baseline that the request does not set is only checked\<close>
  "updated_baseline D u d task_type =
     (case du_baseline_run_id u of
        Some b \<Rightarrow> validate_baseline_run D (ds_id d) b task_type
      | None \<Rightarrow>
          if none_or_empty (ds_baseline_run_id d) then Inr (ds_baseline_run_id d)
          else case validate_baseline_run D (ds_id d) (ds_baseline_run_id d) task_type of
            Inl e \<Rightarrow> Inl e | Inr b \<Rightarrow> Inr (ds_baseline_run_id d))"

definition updated_version :: "dataset_update \<Rightarrow> dataset \<Rightarrow> eval_error + int" where
  "updated_version u d =
     (case du_version u of
        Some (Some v) \<Rightarrow>
          if du_cases u \<noteq> None \<and> v \<le> ds_version d
          then Inl (Invalid ''Dataset version must increase when cases change'') else Inr v
      | _ \<Rightarrow> Inr (if du_cases u \<noteq> None then ds_version d + 1 else ds_version d))"

definition updated_dataset :: "eval_db \<Rightarrow> dataset_update \<Rightarrow> dataset \<Rightarrow> eval_error + dataset" where
  "updated_dataset D u d =
     (case updated_name u d of
        Inl e \<Rightarrow> Inl e
      | Inr name \<Rightarrow>
        case updated_cases u d of
          Inl e \<Rightarrow> Inl e
        | Inr raw \<Rightarrow>
          let task_type = updated_task_type u d in
          case validate_cases task_type raw of
            Inl e \<Rightarrow> Inl e
          | Inr cs \<Rightarrow>
            case updated_baseline D u d task_type of
              Inl e \<Rightarrow> Inl e
            | Inr baseline \<Rightarrow>
              case updated_version u d of
                Inl e \<Rightarrow> Inl e
              | Inr v \<Rightarrow> Inr (d\<lparr>ds_name := name, ds_task_type := task_type,
                  ds_description := (case du_description u of Some x \<Rightarrow> x | None \<Rightarrow> ds_description d),
                  ds_version := v, ds_baseline_run_id := baseline,
                  ds_gate_policy := (case du_gate_policy u of Some (Some p) \<Rightarrow> p | _ \<Rightarrow> ds_gate_policy d),
                  ds_cases := cs,
                  ds_metadata := (case du_metadata u of Some m \<Rightarrow> (case m of Some x \<Rightarrow> x | None \<Rightarrow> []) | None \<Rightarrow> ds_metadata d)\<rparr>))"

definition update_dataset ::
  "string \<Rightarrow> string \<Rightarrow> dataset_update \<Rightarrow> eval_db \<Rightarrow> (eval_error + dataset) \<times> eval_db" where
  "update_dataset j i u D =
     (case find_dataset D i of
        None \<Rightarrow> (Inl (Missing ''Evaluation dataset not found''), D)
      | Some d \<Rightarrow>
        case updated_dataset D u d of
          Inl e \<Rightarrow> (Inl e, D)
        | Inr d' \<Rightarrow>
          case upsert_snapshot j d' (save_dataset d' D) of
            Inl e \<Rightarrow> (Inl e, D)
          | Inr (s, D') \<Rightarrow> (Inr d', D'))"

definition delete_dataset :: "string \<Rightarrow> eval_db \<Rightarrow> (eval_error + unit) \<times> eval_db" where
  "delete_dataset i D =
     (case find_dataset D i of
        None \<Rightarrow> (Inl (Missing ''Evaluation dataset not found''), D)
      | Some d \<Rightarrow> (Inr (), D\<lparr>ed_datasets := filter (\<lambda>e. ds_id e \<noteq> i) (ed_datasets D)\<rparr>))"

section \<open>Runs bound to a snapshot\<close>

definition matching_dataset_snapshot ::
  "string \<Rightarrow> eval_request \<Rightarrow> eval_db \<Rightarrow> snapshot option \<times> eval_db" where
  "matching_dataset_snapshot j q D =
     (if none_or_empty (rq_dataset_id q) then (None, D)
      else case find_dataset D (the (rq_dataset_id q)) of
        None \<Rightarrow> (None, D)
      | Some d \<Rightarrow>
        let version = (case rq_dataset_version q of None \<Rightarrow> ds_version d
                       | Some v \<Rightarrow> if v = 0 then ds_version d else v)
        in if ds_task_type d \<noteq> task_type_of (rq_cases q) then (None, D)
           else case version_snapshot D (ds_id d) version of
             Some s \<Rightarrow> (if sn_task_type s \<noteq> task_type_of (rq_cases q) \<or> sn_cases s \<noteq> rq_cases q then None else Some s, D)
           | None \<Rightarrow>
               if version \<noteq> ds_version d \<or> ds_cases d \<noteq> rq_cases q then (None, D)
               else let s = new_snapshot j d in
                    (if sn_task_type s \<noteq> task_type_of (rq_cases q) \<or> sn_cases s \<noteq> rq_cases q then None else Some s,
                     add_snapshot s D))"

definition resolve_dataset_snapshot ::
  "string \<Rightarrow> eval_request \<Rightarrow> eval_db \<Rightarrow> eval_error + snapshot option \<times> eval_db" where
  "resolve_dataset_snapshot j q D =
     (case rq_snapshot_id q of
        None \<Rightarrow> Inr (matching_dataset_snapshot j q D)
      | Some i \<Rightarrow>
        if rq_dataset_id q = None
        then Inl (Invalid ''Dataset id is required when dataset snapshot is provided'')
        else case find_snapshot D i of
          None \<Rightarrow> Inl (Invalid ''Evaluation dataset snapshot not found'')
        | Some s \<Rightarrow>
          if Some (sn_dataset_id s) \<noteq> rq_dataset_id q
          then Inl (Invalid ''Evaluation dataset snapshot does not match dataset'')
          else if rq_dataset_version q \<noteq> None \<and> Some (sn_version s) \<noteq> rq_dataset_version q
          then Inl (Invalid ''Evaluation dataset snapshot does not match dataset version'')
          else if sn_task_type s \<noteq> task_type_of (rq_cases q)
          then Inl (Invalid ''Evaluation dataset snapshot task type does not match run task type'')
          else if sn_cases s \<noteq> rq_cases q
          then Inl (Invalid ''Evaluation cases do not match dataset snapshot'')
          else Inr (Some s, D))"

definition bound_version :: "snapshot option \<Rightarrow> int option \<Rightarrow> int option" where
  "bound_version s v = (case s of Some s' \<Rightarrow> (if v = None then Some (sn_version s') else v) | None \<Rightarrow> v)"

definition new_run :: "pydict \<Rightarrow> time \<Rightarrow> string \<Rightarrow> eval_request \<Rightarrow> snapshot option \<Rightarrow> eval_run" where
  "new_run config t i q s =
     (let v = bound_version s (rq_dataset_version q);
          q' = (case s of None \<Rightarrow> q | Some s' \<Rightarrow> q\<lparr>rq_snapshot_id := Some (sn_id s'), rq_dataset_version := v\<rparr>)
      in \<lparr>er_id = i, er_name = rq_name q, er_task_type = task_type_of (rq_cases q), er_status = ''running'',
          er_dataset_id = rq_dataset_id q, er_dataset_version = v, er_snapshot_id = map_option sn_id s,
          er_case_count = int (case_count_of (rq_cases q)), er_passed_count = 0, er_failed_count = 0, er_metrics = [],
          er_config = config, er_request = q', er_created_at = t, er_finished_at = None\<rparr>)"

definition create_run ::
  "pydict \<Rightarrow> time \<Rightarrow> string \<Rightarrow> string \<Rightarrow> eval_request \<Rightarrow> eval_db \<Rightarrow> (eval_error + eval_run) \<times> eval_db" where
  "create_run config t i j q D =
     (case resolve_dataset_snapshot j q D of
        Inl e \<Rightarrow> (Inl e, D)
      | Inr (s, D') \<Rightarrow> let r = new_run config t i q s in (Inr r, D'\<lparr>ed_runs := ed_runs D' @ [r]\<rparr>))"

text \<open>The two entry points differ in the cases of their request.\<close>

definition create_retrieval_run ::
  "pydict \<Rightarrow> time \<Rightarrow> string \<Rightarrow> string \<Rightarrow> eval_request \<Rightarrow> retrieval_case list \<Rightarrow> eval_db \<Rightarrow>
   (eval_error + eval_run) \<times> eval_db" where
  "create_retrieval_run config t i j q cs D = create_run config t i j (q\<lparr>rq_cases := Retrieval_cases cs\<rparr>) D"

definition create_fix_run ::
  "pydict \<Rightarrow> time \<Rightarrow> string \<Rightarrow> string \<Rightarrow> eval_request \<Rightarrow> fix_case list \<Rightarrow> eval_db \<Rightarrow>
   (eval_error + eval_run) \<times> eval_db" where
  "create_fix_run config t i j q cs D = create_run config t i j (q\<lparr>rq_cases := Fix_cases cs\<rparr>) D"

definition fail_run :: "time \<Rightarrow> string \<Rightarrow> string \<Rightarrow> eval_db \<Rightarrow> eval_db" where
  "fail_run t i reason D =
     (case find_run D i of
        None \<Rightarrow> D
      | Some r \<Rightarrow> save_run (r\<lparr>er_status := ''failed'', er_metrics := [(''error'', MStr reason)], er_finished_at := Some t\<rparr>) D)"

section \<open>Backfill of old runs\<close>

datatype backfill_status =
    Backfilled | Missing_request_cases | Missing_dataset | Dataset_task_type_mismatch | Invalid_dataset_version
  | Missing_snapshot | Snapshot_task_type_mismatch | Snapshot_cases_mismatch

definition candidate_runs ::
  "string option \<Rightarrow> string option \<Rightarrow> string option \<Rightarrow> int option \<Rightarrow> eval_db \<Rightarrow> eval_run list" where
  "candidate_runs dataset_id rid task_type limit D =
     (let chosen = filter (\<lambda>r. er_dataset_id r \<noteq> None \<and> er_snapshot_id r = None \<and>
                      (none_or_empty dataset_id \<or> er_dataset_id r = dataset_id) \<and>
                      (none_or_empty rid \<or> Some (er_id r) = rid) \<and>
                      (none_or_empty task_type \<or> Some (er_task_type r) = task_type)) (ed_runs D);
          ordered = sort_key er_created_at chosen
      in case limit of Some n \<Rightarrow> if 0 < n then take (nat n) ordered else ordered | None \<Rightarrow> ordered)"

definition backfill_version :: "eval_run \<Rightarrow> dataset \<Rightarrow> int" where
  "backfill_version r d =
     (case (er_dataset_version r, rq_dataset_version (er_request r)) of
        (Some v, w) \<Rightarrow> if v \<noteq> 0 then v else (case w of Some u \<Rightarrow> if u \<noteq> 0 then u else ds_version d | None \<Rightarrow> ds_version d)
      | (None, Some u) \<Rightarrow> if u \<noteq> 0 then u else ds_version d
      | (None, None) \<Rightarrow> ds_version d)"

definition backfill_metadata :: "(time \<Rightarrow> string) \<Rightarrow> time \<Rightarrow> dataset \<Rightarrow> eval_run \<Rightarrow> pydict" where
  "backfill_metadata fmt t d r =
     dset (ds_metadata d) ''_snapshot_backfill''
       (PDict [(''source_run_id'', PStr (er_id r)), (''source_run_created_at'', PStr (fmt (er_created_at r))),
               (''backfilled_at'', PStr (fmt t)), (''dataset_metadata_source'', PStr ''current_dataset'')])"

definition bind_run :: "snapshot \<Rightarrow> int \<Rightarrow> eval_run \<Rightarrow> eval_run" where
  "bind_run s version r =
     (let v = (if er_dataset_version r = None then Some version else er_dataset_version r)
      in r\<lparr>er_snapshot_id := Some (sn_id s), er_dataset_version := v,
           er_request := (er_request r)\<lparr>rq_snapshot_id := Some (sn_id s), rq_dataset_version := v\<rparr>\<rparr>)"

definition backfill_run ::
  "(time \<Rightarrow> string) \<Rightarrow> time \<Rightarrow> bool \<Rightarrow> string \<Rightarrow> eval_run \<Rightarrow> eval_db \<Rightarrow> backfill_status \<times> eval_db" where
  \<comment> \<open>stored cases are accepted by their schema again, so normalising them changes nothing\<close>
  "backfill_run fmt t create_missing j r D =
     (let cases = rq_cases (er_request r) in
      if case_count_of cases = 0 then (Missing_request_cases, D)
      else case find_dataset D (or_default (er_dataset_id r) []) of
        None \<Rightarrow> (Missing_dataset, D)
      | Some d \<Rightarrow>
        let version = backfill_version r d in
        if ds_task_type d \<noteq> er_task_type r then (Dataset_task_type_mismatch, D)
        else if version < 1 then (Invalid_dataset_version, D)
        else case version_snapshot D (ds_id d) version of
          None \<Rightarrow>
            if \<not> create_missing then (Missing_snapshot, D)
            else let s = (new_snapshot j d)\<lparr>sn_version := version, sn_cases := cases,
                            sn_metadata := backfill_metadata fmt t d r\<rparr>
                 in (Backfilled, save_run (bind_run s version r) (add_snapshot s D))
        | Some s \<Rightarrow>
            if sn_task_type s \<noteq> er_task_type r then (Snapshot_task_type_mismatch, D)
            else if sn_cases s \<noteq> cases then (Snapshot_cases_mismatch, D)
            else (Backfilled, save_run (bind_run s version r) D))"

fun backfill_runs ::
  "(time \<Rightarrow> string) \<Rightarrow> time \<Rightarrow> bool \<Rightarrow> (nat \<Rightarrow> string) \<Rightarrow> nat \<Rightarrow> eval_run list \<Rightarrow> eval_db \<Rightarrow>
   backfill_status list \<times> eval_db" where
  "backfill_runs fmt t create_missing ids n [] D = ([], D)"
| "backfill_runs fmt t create_missing ids n (r # rs) D =
     (let (st, D1) = backfill_run fmt t create_missing (ids n) r D;
          (sts, D2) = backfill_runs fmt t create_missing ids (Suc n) rs D1
      in (st # sts, D2))"

record backfill_report =
  bf_scanned :: nat
  bf_backfilled :: nat
  bf_skipped :: nat
  bf_statuses :: "backfill_status list"

definition backfill ::
  "(time \<Rightarrow> string) \<Rightarrow> time \<Rightarrow> (nat \<Rightarrow> string) \<Rightarrow> string option \<Rightarrow> string option \<Rightarrow> string option \<Rightarrow> int option \<Rightarrow>
   bool \<Rightarrow> bool \<Rightarrow> eval_db \<Rightarrow> backfill_report \<times> eval_db" where
  "backfill fmt t ids dataset_id rid task_type limit dry_run create_missing D =
     (let runs = candidate_runs dataset_id rid task_type limit D;
          (sts, D') = backfill_runs fmt t create_missing ids 0 runs D
      in (\<lparr>bf_scanned = length runs, bf_backfilled = length (filter (\<lambda>s. s = Backfilled) sts),
           bf_skipped = length (filter (\<lambda>s. s \<noteq> Backfilled) sts), bf_statuses = sts\<rparr>,
          if dry_run then D else D'))"

end
