(* ===== verification/EvalRuns.thy ===== *)
theory EvalRuns
  imports Datasets Verification
begin

text \<open>
  Running a benchmark, \<open>backend/app/services/evaluation_service.py\<close>: one result per case, the judgement of a
  retrieval by its citations and of a repair by its verdict and diff, the metrics of a run, and the
  execution that replaces the results of an earlier one.  Retrieval is \<open>Retrieval.retrieve\<close>; the repair
  run of a case, the clock and the ids of new rows come from \<open>case_env\<close>.
\<close>

section \<open>Judging a retrieval\<close>

lemma size_dget [termination_simp]: "dget d k = PList xs \<Longrightarrow> size_list size xs < size_list (\<lambda>x. Suc (size (snd x))) d"
  by (induction d) (auto simp: dget_def split: if_splits)

definition line_range :: "pyval \<Rightarrow> pyval \<Rightarrow> (int \<times> int) list" where
  "line_range start stop =
     (case (py_int start, py_int stop) of
        (Some a, Some b) \<Rightarrow> if 0 < a \<and> a \<le> b then [(a, b)] else []
      | _ \<Rightarrow> [])"

fun normalize_line_ranges :: "pyval \<Rightarrow> (int \<times> int) list" where
  "normalize_line_ranges (PDict d) =
     (case dget d ''ranges'' of
        PList xs \<Rightarrow> normalize_line_ranges (PList xs)
      | _ \<Rightarrow> let start = dget_or d ''start_line'' (dget d ''start'')
             in line_range start (dget_or d ''end_line'' (dget_or d ''end'' start)))"
| "normalize_line_ranges (PList xs) =
     (if length xs = 2 \<and> (\<forall>x \<in> set xs. py_int x \<noteq> None) then line_range (xs ! 0) (xs ! 1)
      else concat (map (\<lambda>x. case x of PDict d \<Rightarrow> normalize_line_ranges (PDict d)
                                    | PList ys \<Rightarrow> normalize_line_ranges (PList ys) | _ \<Rightarrow> []) xs))"
| "normalize_line_ranges v = []"

definition citation_line_overlap :: "citation \<Rightarrow> (int \<times> int) list \<Rightarrow> real" where
  "citation_line_overlap c ranges =
     (case (ci_start c, ci_end c) of
        (Some s, Some e) \<Rightarrow>
          let expected = (\<Sum>(a, b) \<leftarrow> ranges. b - a + 1);
              overlapping = (\<Sum>(a, b) \<leftarrow> ranges. max 0 (min e b - max s a + 1))
          in if e < s \<or> expected \<le> 0 then 0 else min 1 (real_of_int overlapping / real_of_int expected)
      | _ \<Rightarrow> 0)"

definition overlap_of :: "string \<Rightarrow> (int \<times> int) list \<Rightarrow> citation \<Rightarrow> real" where
  "overlap_of expected_file ranges c =
     (if ci_file_path c = expected_file then (if ranges \<noteq> [] then citation_line_overlap c ranges else 1) else 0)"

definition relevant :: "string \<Rightarrow> (int \<times> int) list \<Rightarrow> citation \<Rightarrow> bool" where
  "relevant expected_file ranges c \<longleftrightarrow>
     ci_file_path c = expected_file \<and> (ranges = [] \<or> 0 < overlap_of expected_file ranges c)"

fun first_rank :: "bool list \<Rightarrow> nat option" where
  \<comment> \<open>the first rank, from 1, that holds\<close>
  "first_rank [] = None"
| "first_rank (b # bs) = (if b then Some 1 else map_option Suc (first_rank bs))"

definition discount :: "nat \<Rightarrow> real" where
  \<comment> \<open>\<open>1 / math.log2(rank + 1)\<close>\<close>
  "discount rank = 1 / log 2 (real (rank + 1))"

fun discounted_gain :: "nat \<Rightarrow> bool list \<Rightarrow> real" where
  "discounted_gain rank [] = 0"
| "discounted_gain rank (b # bs) = (if b then discount rank else 0) + discounted_gain (Suc rank) bs"

definition ideal_gain :: "nat \<Rightarrow> real" where
  "ideal_gain n = (\<Sum>rank \<leftarrow> [1..<n + 1]. discount rank)"

definition retrieval_case_metrics :: "citation list \<Rightarrow> string \<Rightarrow> pyval \<Rightarrow> case_metrics" where
  "retrieval_case_metrics citations expected_file expected_lines =
     (let ranges = normalize_line_ranges expected_lines;
          lines_required = (ranges \<noteq> []);
          relevances = map (relevant expected_file ranges) citations;
          overlaps = map (overlap_of expected_file ranges) citations;
          file_rank = first_rank (map (\<lambda>c. ci_file_path c = expected_file) citations);
          first_relevant = first_rank relevances;
          relevant_count = length (filter id relevances);
          max_overlap = (if lines_required then Some (if overlaps = [] then 0 else Max (set overlaps)) else None)
      in \<lparr>cm_relevant_hit = (first_relevant \<noteq> None), cm_first_relevant_rank = first_relevant,
          cm_reciprocal_rank = (case first_relevant of Some r \<Rightarrow> 1 / real r | None \<Rightarrow> 0),
          cm_ndcg = (if ideal_gain relevant_count = 0 then 0 else discounted_gain 1 relevances / ideal_gain relevant_count),
          cm_file_hit = (file_rank \<noteq> None), cm_first_file_rank = file_rank,
          cm_lines_required = lines_required,
          cm_line_hit = (case max_overlap of Some m \<Rightarrow> Some (0 < m) | None \<Rightarrow> None),
          cm_line_overlap = max_overlap,
          cm_citation_precision = (if citations = [] then 0 else real relevant_count / real (length citations)),
          cm_relevant_citations = relevant_count,
          cm_citation_count = length citations\<rparr>)"

definition citation_of :: "retrieval_result \<Rightarrow> citation" where
  "citation_of r =
     (let c = rr_chunk r
      in \<lparr>ci_chunk_id = rc_id c, ci_repo_id = rc_repo c, ci_file_path = rc_path c, ci_symbol_name = rc_symbol_name c,
          ci_symbol_type = rc_symbol_type c, ci_start = rc_start c, ci_end = rc_end c,
          ci_score = rr_score r, ci_source = rr_source r\<rparr>)"

definition retrieval_failure :: "citation list \<Rightarrow> string \<Rightarrow> pyval \<Rightarrow> string" where
  "retrieval_failure citations expected_file expected_lines =
     (if citations = [] then ''no_retrieval_results''
      else if (\<exists>c \<in> set citations. ci_file_path c = expected_file) \<and> normalize_line_ranges expected_lines \<noteq> []
      then ''expected_lines_not_retrieved'' else ''expected_file_not_retrieved'')"

section \<open>Judging a repair\<close>

fun lines_of :: "string \<Rightarrow> string list" where
  \<comment> \<open>the stretches between newlines, where the anchors of the pattern hold\<close>
  "lines_of [] = [[]]"
| "lines_of (c # s) =
     (if c = CHR 0x0A then [] # lines_of s
      else case lines_of s of l # ls \<Rightarrow> (c # l) # ls | [] \<Rightarrow> [[c]])"

fun lazy_split :: "string \<Rightarrow> string \<Rightarrow> (string \<times> string) option" where
  \<comment> \<open>\<open>(.+?) b/(.+)\<close> after the characters read so far: the shortest non-empty left part\<close>
  "lazy_split p [] = None"
| "lazy_split p (c # s) =
     (if p \<noteq> [] \<and> starts_with '' b/'' (c # s) \<and> drop 3 (c # s) \<noteq> [] then Some (p, drop 3 (c # s))
      else lazy_split (p @ [c]) s)"

definition diff_header :: "string \<Rightarrow> (string \<times> string) option" where
  "diff_header l = (if starts_with ''diff --git a/'' l then lazy_split [] (drop 13 l) else None)"

definition changed_files_of :: "string \<Rightarrow> string list" where
  "changed_files_of diff = concat (map (\<lambda>(a, b). [a, b]) (List.map_filter diff_header (lines_of diff)))"

definition changed_files_allowed :: "string \<Rightarrow> string list \<Rightarrow> bool" where
  "changed_files_allowed diff allowed \<longleftrightarrow>
     allowed = [] \<or> (changed_files_of diff \<noteq> [] \<and> set (changed_files_of diff) \<subseteq> set allowed)"

definition fix_case_passed :: "run_row \<Rightarrow> fix_case \<Rightarrow> bool" where
  "fix_case_passed run c \<longleftrightarrow>
     (let final_diff = or_default (u_final_diff run) []
      in u_status run = fc_expected_status c \<and>
         (\<forall>fragment \<in> set (fc_expected_diff_contains c). py_contains fragment final_diff) \<and>
         changed_files_allowed final_diff (fc_allowed_changed_files c) \<and>
         (fc_expected_status c = status_str VERIFIED_SUCCESS \<longrightarrow> verification_evidence_is_complete (u_test_result run)))"

definition suite_outcome :: "pydict \<Rightarrow> string \<Rightarrow> test_outcome" where
  "suite_outcome result suite = classify_test_result (as_dict (dget result suite))"

definition fix_failure :: "run_row \<Rightarrow> fix_case \<Rightarrow> string" where
  "fix_failure run c =
     (let final_diff = or_default (u_final_diff run) [];
          test_result = dict_of (u_test_result run);
          outcomes = {suite_outcome test_result ''targeted'', suite_outcome test_result ''regression''}
      in if \<exists>fragment \<in> set (fc_expected_diff_contains c). \<not> py_contains fragment final_diff then ''expected_diff_not_found''
         else if \<not> changed_files_allowed final_diff (fc_allowed_changed_files c) then ''unexpected_file_changed''
         else if fc_expected_status c = status_str VERIFIED_SUCCESS \<and> \<not> verification_evidence_is_complete (Some test_result)
         then (if u_status run = ''infra_error'' then ''verification_infrastructure_error''
               else if u_status run = ''not_reproduced'' then ''failure_not_reproduced''
               else if Skipped \<in> outcomes then ''tests_not_run''
               else if Failed \<in> outcomes then ''tests_failed''
               else ''incomplete_verification_evidence'')
         else if u_status run \<noteq> fc_expected_status c
         then (if u_status run = ''failed''
               then (if suite_outcome test_result ''targeted'' = Failed then ''tests_failed''
                     else if py_contains ''patch'' (py_lower (py_str (dget_or test_result ''stderr'' (PStr []))))
                     then ''patch_apply_failed''
                     else if final_diff = [] then ''no_patch_generated'' else ''agent_failed'')
               else if u_status run = ''infra_error'' then ''verification_infrastructure_error''
               else if u_status run = ''unverified_patch'' then ''tests_not_run''
               else if u_status run = ''not_reproduced'' then ''failure_not_reproduced''
               else ''unexpected_status'')
         else ''unknown'')"

section \<open>What a repair run cost\<close>

definition LOCAL_AGENT_TOOL_NAMES :: "string set" where
  "LOCAL_AGENT_TOOL_NAMES =
     {''apply_patch'', ''find_references'', ''find_symbol'', ''get_call_graph'', ''get_import_graph'', ''git_diff'',
      ''inspect_repository'', ''list_files'', ''read_file'', ''reset_workspace'', ''run_tests'', ''search_code''}"

definition token_count :: "pyval \<Rightarrow> int" where
  "token_count v = (case py_int v of Some n \<Rightarrow> max 0 n | None \<Rightarrow> 0)"

definition has_tokens :: "pyval \<Rightarrow> bool" where
  "has_tokens v \<longleftrightarrow> (case py_int v of Some n \<Rightarrow> 0 \<le> n | None \<Rightarrow> False)"

definition step_tokens :: "step_row \<Rightarrow> int \<times> int \<times> bool \<Rightarrow> int \<times> int \<times> bool" where
  "step_tokens s acc =
     (case acc of (planner, spent_total, estimated) \<Rightarrow>
        let output = dict_of (as_dict (sp_output s));
            usage = as_dict (dget output ''llm_usage'');
            total_now = (case usage of Some u \<Rightarrow> spent_total + token_count (dget u ''total_tokens'') | None \<Rightarrow> spent_total);
            estimated1 = (case usage of Some u \<Rightarrow> estimated \<or> dget u ''estimated'' = PBool True | None \<Rightarrow> estimated);
            spent = dget output ''token_usage''
        in if sp_step_type s = ''agent_plan'' \<and> has_tokens spent
           then (planner + token_count spent, (if usage = None then total_now + token_count spent else total_now),
                 estimated1 \<or> usage = None)
           else (planner, total_now, estimated1))"

definition agent_token_usage :: "step_row list \<Rightarrow> int \<times> int \<times> bool" where
  "agent_token_usage steps = fold step_tokens steps (0, 0, False)"

fun count_up :: "string \<Rightarrow> (string \<times> int) list \<Rightarrow> (string \<times> int) list" where
  \<comment> \<open>\<open>Counter\<close>: keys in the order of their first occurrence\<close>
  "count_up k [] = [(k, 1)]"
| "count_up k ((l, n) # c) = (if l = k then (l, n + 1) # c else (l, n) # count_up k c)"

definition tally :: "string list \<Rightarrow> (string \<times> int) list" where
  "tally ks = fold count_up ks []"

fun take_characters :: "nat \<Rightarrow> string \<Rightarrow> string" where
  \<comment> \<open>\<open>s[:n]\<close>, a character with its continuation bytes\<close>
  "take_characters n [] = []"
| "take_characters n (c # s) =
     (if (of_char c :: nat) div 64 = 2 then c # take_characters n s
      else case n of 0 \<Rightarrow> [] | Suc m \<Rightarrow> c # take_characters m s)"

definition agent_result_of :: "string \<Rightarrow> run_row \<Rightarrow> step_row list \<Rightarrow> agent_result" where
  "agent_result_of i run steps =
     (let final_diff = or_default (u_final_diff run) [];
          tool_steps = filter (\<lambda>s. sp_step_type s = ''tool_call'') steps;
          local_calls = length (filter (\<lambda>s. case sp_tool_name s of Some n \<Rightarrow> n \<in> LOCAL_AGENT_TOOL_NAMES | None \<Rightarrow> False) tool_steps);
          (planner, spent_total, estimated) = agent_token_usage steps
      in \<lparr>ar_agent_run_id = i, ar_agent_status = u_status run, ar_summary = u_final_summary run,
          ar_iterations = u_iterations run, ar_tool_calls = int (length tool_steps), ar_local_tool_calls = int local_calls,
          ar_mcp_tool_calls = int (length tool_steps) - int local_calls, ar_planner_tokens = planner, ar_total_tokens = spent_total,
          ar_token_usage_estimated = estimated, ar_steps_by_type = tally (map sp_step_type steps),
          ar_test_result = u_test_result run, ar_final_diff_length = characters final_diff,
          ar_final_diff_preview = take_characters 12000 final_diff\<rparr>)"

section \<open>Metrics\<close>

definition average :: "real option list \<Rightarrow> real option" where
  "average xs = (let ns = List.map_filter id xs in if ns = [] then None else Some (sum_list ns / real (length ns)))"

definition or_zero :: "real option \<Rightarrow> real" where
  "or_zero x = (case x of Some y \<Rightarrow> y | None \<Rightarrow> 0)"

definition share :: "nat \<Rightarrow> nat \<Rightarrow> real" where
  \<comment> \<open>\<open>n / count if count else 0.0\<close>\<close>
  "share n count = (if count = 0 then 0 else real n / real count)"

definition count_if :: "('a \<Rightarrow> bool) \<Rightarrow> 'a list \<Rightarrow> nat" where
  "count_if p xs = length (filter p xs)"

definition rate :: "('a \<Rightarrow> bool) \<Rightarrow> ('a \<Rightarrow> bool) \<Rightarrow> 'a list \<Rightarrow> real option" where
  "rate field eligible ms =
     (let es = filter eligible ms in if es = [] then None else Some (real (count_if field es) / real (length es)))"

definition percentile :: "int list \<Rightarrow> real \<Rightarrow> real" where
  "percentile vs p =
     (if vs = [] then 0
      else
        let ordered = sort vs;
            position = real (length ordered - 1) * p;
            lower = nat \<lfloor>position\<rfloor>; upper = nat \<lceil>position\<rceil>
        in if lower = upper then real_of_int (ordered ! lower)
           else real_of_int (ordered ! lower) +
                real_of_int (ordered ! upper - ordered ! lower) * (position - real lower))"

definition mean_int :: "int list \<Rightarrow> real" where
  "mean_int vs = (if vs = [] then 0 else real_of_int (sum_list vs) / real (length vs))"

definition opt_float :: "real option \<Rightarrow> metric" where
  "opt_float x = (case x of Some y \<Rightarrow> MFloat y | None \<Rightarrow> MNone)"

definition mnat :: "nat \<Rightarrow> metric" where
  "mnat n = MInt (int n)"

definition failure_distribution :: "evaluation list \<Rightarrow> metric" where
  "failure_distribution rs =
     MDict (map (map_prod id MInt)
       (tally (map (\<lambda>r. or_default (ev_failure_category r) ''unknown'') (filter (\<lambda>r. \<not> ev_passed r) rs))))"

definition category_of :: "evaluation \<Rightarrow> string" where
  "category_of r =
     (case dget (ev_metadata r) ''category'' of PStr s \<Rightarrow> if s = [] then ''unspecified'' else s | _ \<Rightarrow> ''unspecified'')"

definition results_by_category :: "evaluation list \<Rightarrow> (string \<times> evaluation list) list" where
  "results_by_category rs =
     map (\<lambda>c. (c, filter (\<lambda>r. category_of r = c) rs)) (sort (remdups (map category_of rs)))"

fun metrics_of :: "case_result \<Rightarrow> case_metrics option" where
  "metrics_of (Retrieval_result cs k f l m) = Some m"
| "metrics_of v = None"

definition retrieval_category :: "evaluation list \<Rightarrow> metric" where
  "retrieval_category rs =
     (let ms = List.map_filter (\<lambda>r. metrics_of (ev_result r)) rs
      in MDict [(''cases'', mnat (length rs)),
           (''recall'', MFloat (real (count_if ev_passed rs) / real (length rs))),
           (''mrr'', MFloat (or_zero (average (map (\<lambda>m. Some (cm_reciprocal_rank m)) ms)))),
           (''ndcg'', MFloat (or_zero (average (map (\<lambda>m. Some (cm_ndcg m)) ms)))),
           (''p95_latency_sec'', MFloat (percentile (map ev_latency_ms rs) (95 / 100) / 1000))])"

definition recall_name :: "int \<Rightarrow> string" where
  "recall_name top_k = ''recall_at_'' @ str_int top_k"

definition retrieval_metrics :: "evaluation list \<Rightarrow> int \<Rightarrow> metrics" where
  "retrieval_metrics rs top_k =
     (let n = length rs; passed = count_if ev_passed rs; latencies = map ev_latency_ms rs;
          ms = List.map_filter (\<lambda>r. metrics_of (ev_result r)) rs
      in [(''cases'', mnat n), (''passed'', mnat passed), (''failed'', mnat (n - passed)),
          (''primary_metric'', MStr (recall_name top_k)),
          (recall_name top_k, MFloat (share passed n)),
          (''mrr'', MFloat (or_zero (average (map (\<lambda>m. Some (cm_reciprocal_rank m)) ms)))),
          (''ndcg'', MFloat (or_zero (average (map (\<lambda>m. Some (cm_ndcg m)) ms)))),
          (''file_hit_rate'', opt_float (rate cm_file_hit (\<lambda>m. True) ms)),
          (''line_hit_rate'', opt_float (rate (\<lambda>m. cm_line_hit m = Some True) cm_lines_required ms)),
          (''line_overlap'', opt_float (average (map cm_line_overlap (filter cm_lines_required ms)))),
          (''citation_precision'', MFloat (or_zero (average (map (\<lambda>m. Some (cm_citation_precision m)) ms)))),
          (''avg_latency_sec'', MFloat (mean_int latencies / 1000)),
          (''p50_latency_sec'', MFloat (percentile latencies (1 / 2) / 1000)),
          (''p95_latency_sec'', MFloat (percentile latencies (95 / 100) / 1000)),
          (''failure_distribution'', failure_distribution rs),
          (''by_category'', MDict (map (map_prod id retrieval_category) (results_by_category rs))),
          (''top_k'', MInt top_k)])"

fun agent_of :: "case_result \<Rightarrow> agent_result option" where
  "agent_of (Agent_result a) = Some a"
| "agent_of v = None"

definition agent_field :: "(agent_result \<Rightarrow> int) \<Rightarrow> evaluation \<Rightarrow> int" where
  \<comment> \<open>\<open>int(payload.get(field, 0))\<close>\<close>
  "agent_field f r = (case agent_of (ev_result r) of Some a \<Rightarrow> f a | None \<Rightarrow> 0)"

definition verified_result :: "evaluation \<Rightarrow> bool" where
  "verified_result r \<longleftrightarrow>
     (case agent_of (ev_result r) of Some a \<Rightarrow> ar_agent_status a = status_str VERIFIED_SUCCESS | None \<Rightarrow> False)"

definition test_results :: "evaluation list \<Rightarrow> pydict list" where
  "test_results rs = List.map_filter (\<lambda>r. Option.bind (agent_of (ev_result r)) ar_test_result) rs"

definition verification_tests_skipped :: "pydict \<Rightarrow> bool" where
  "verification_tests_skipped v \<longleftrightarrow>
     {suite_outcome v ''targeted'', suite_outcome v ''regression''} \<inter> {Skipped, Not_run} \<noteq> {}"

definition fix_category :: "evaluation list \<Rightarrow> metric" where
  "fix_category rs =
     MDict [(''cases'', mnat (length rs)),
       (''final_verified_fix_rate'', MFloat (real (count_if verified_result rs) / real (length rs))),
       (''expectation_match_rate'', MFloat (real (count_if ev_passed rs) / real (length rs))),
       (''tests_skipped_rate'', MFloat (real (count_if verification_tests_skipped (test_results rs)) / real (length rs)))]"

definition fix_metrics :: "real option \<Rightarrow> evaluation list \<Rightarrow> metrics" where
  "fix_metrics cost_rate rs =
     (let n = length rs; matched = count_if ev_passed rs; verified = count_if verified_result rs;
          at_one = count_if (\<lambda>r. verified_result r \<and> agent_field ar_iterations r \<le> 1) rs;
          vs = test_results rs; latencies = map ev_latency_ms rs;
          tokens = map (agent_field ar_total_tokens) rs;
          cost = map_option (\<lambda>c. real_of_int (sum_list tokens) * c / 1000000) cost_rate
      in [(''cases'', mnat n), (''passed'', mnat matched), (''failed'', mnat (n - matched)),
          (''primary_metric'', MStr ''final_verified_fix_rate''),
          (''verified_successes'', mnat verified),
          (''verified_fix_at_1'', MFloat (share at_one n)),
          (''final_verified_fix_rate'', MFloat (share verified n)),
          (''fix_success_rate'', MFloat (share verified n)),
          (''baseline_reproduced_rate'', MFloat (share (count_if (\<lambda>v. dget v ''baseline_reproduced'' = PBool True) vs) n)),
          (''patch_apply_rate'', MFloat (share (count_if (\<lambda>v. dget v ''patch_applied'' = PBool True) vs) n)),
          (''regression_pass_rate'', MFloat (share (count_if (\<lambda>v. suite_outcome v ''regression'' = Passed) vs) n)),
          (''regression_rate'', MFloat (share (count_if (\<lambda>v. suite_outcome v ''regression'' = Failed) vs) n)),
          (''tests_skipped_rate'', MFloat (share (count_if verification_tests_skipped vs) n)),
          (''expectation_match_rate'', MFloat (share matched n)),
          (''avg_iterations'', MFloat (mean_int (map (agent_field ar_iterations) rs))),
          (''avg_tool_calls'', MFloat (mean_int (map (agent_field ar_tool_calls) rs))),
          (''avg_planner_tokens'', MFloat (mean_int (map (agent_field ar_planner_tokens) rs))),
          (''avg_total_tokens'', MFloat (mean_int tokens)),
          (''total_tokens'', MInt (sum_list tokens)),
          (''estimated_total_cost_usd'', opt_float cost),
          (''avg_estimated_cost_usd'', (case cost of Some c \<Rightarrow> if n = 0 then MNone else MFloat (c / real n) | None \<Rightarrow> MNone)),
          (''cost_estimation_status'', MStr (if cost_rate = None then ''not_configured'' else ''configured'')),
          (''avg_latency_sec'', MFloat (mean_int latencies / 1000)),
          (''p50_latency_sec'', MFloat (percentile latencies (1 / 2) / 1000)),
          (''p95_latency_sec'', MFloat (percentile latencies (95 / 100) / 1000)),
          (''failure_distribution'', failure_distribution rs),
          (''by_category'', MDict (map (map_prod id fix_category) (results_by_category rs)))])"

section \<open>Running the cases\<close>

text \<open>
  \<open>ce_agent\<close> is a repair run of the agent service for the case of that rank: the id of the run once it is
  created, and the run with its steps when it returns or the exception it raises.
\<close>

record case_env =
  ce_retrieval :: retrieval_settings
  ce_rank :: rank_env
  ce_chunks :: "code_chunk list"
  ce_repository :: "string \<Rightarrow> bool"
  ce_agent :: "nat \<Rightarrow> fix_case \<Rightarrow> string option \<times> (string + run_row \<times> step_row list)"
  ce_latency :: "nat \<Rightarrow> int"
  ce_ids :: "nat \<Rightarrow> string"
  ce_embedding_provider :: string
  ce_embedding_model :: string
  ce_embedding_dimension :: int
  ce_llm_provider :: string
  ce_llm_model :: "string option"
  ce_cost_rate :: "real option"

definition effective_llm_model :: "case_env \<Rightarrow> string" where
  "effective_llm_model E =
     (if py_lower (py_strip (ce_llm_provider E)) = ''mock'' then ''mock-rule-based-v1''
      else or_default (ce_llm_model E) ''provider-default'')"

definition effective_embedding_model :: "case_env \<Rightarrow> string" where
  "effective_embedding_model E =
     (if py_lower (py_strip (ce_embedding_provider E)) = ''mock''
      then ''mock-deterministic-'' @ str_int (ce_embedding_dimension E) @ ''d-v1'' else ce_embedding_model E)"

definition safe_repo_id :: "case_env \<Rightarrow> string \<Rightarrow> string option" where
  "safe_repo_id E repo = (if ce_repository E repo then Some repo else None)"

definition judged_retrieval :: "case_env \<Rightarrow> string \<Rightarrow> nat \<Rightarrow> int \<Rightarrow> retrieval_case \<Rightarrow> case_result \<Rightarrow> evaluation" where
  \<comment> \<open>the row of a result: a runner error without metrics, else the judgement of the metrics\<close>
  "judged_retrieval E rid n top_k c result =
     (let m = metrics_of result;
          passed = (case m of Some cm \<Rightarrow> cm_relevant_hit cm | None \<Rightarrow> False)
      in \<lparr>ev_run_id = rid, ev_case_id = Some (or_default (qc_case_id c) (''retrieval-'' @ str_int (int n))),
          ev_repo_id = safe_repo_id E (qc_repo_id c), ev_task_type = ''retrieval'',
          ev_status = (if m = None then ''error'' else if passed then ''passed'' else ''failed''),
          ev_question = qc_question c, ev_expected_file = Some (qc_expected_file c), ev_expected_lines = qc_expected_lines c,
          ev_result = result, ev_passed = passed, ev_latency_ms = ce_latency E n,
          ev_score = (case m of Some cm \<Rightarrow> cm_ndcg cm | None \<Rightarrow> 0),
          ev_failure_category =
            (case result of
               Retrieval_result cs k f l cm \<Rightarrow> if passed then None else Some (retrieval_failure cs f l)
             | _ \<Rightarrow> Some ''runner_error''),
          ev_agent_run_id = None, ev_provider = ce_embedding_provider E, ev_model = effective_embedding_model E,
          ev_metadata = [(''metric'', PStr (recall_name top_k)), (''category'', PStr (qc_category c)), (''tags'', texts_value (qc_tags c))],
          ev_id = ce_ids E n\<rparr>)"

definition run_retrieval_case :: "case_env \<Rightarrow> string \<Rightarrow> int \<Rightarrow> nat \<Rightarrow> retrieval_case \<Rightarrow> evaluation" where
  "run_retrieval_case E rid top_k n c =
     judged_retrieval E rid n top_k c
       (case retrieve (ce_retrieval E) (ce_rank E) (ce_chunks E) (qc_repo_id c) (qc_question c) (Some top_k) of
          Inl e \<Rightarrow> Error_result e
        | Inr retrieved \<Rightarrow>
            let citations = map citation_of (py_head top_k retrieved)
            in Retrieval_result citations top_k (qc_expected_file c) (qc_expected_lines c)
                 (retrieval_case_metrics citations (qc_expected_file c) (qc_expected_lines c)))"

definition fix_metadata :: "bool \<Rightarrow> fix_case \<Rightarrow> pydict" where
  "fix_metadata require_tests_ran c =
     [(''metric'', PStr ''fix_success_rate''), (''expected_status'', PStr (fc_expected_status c)),
      (''expected_diff_contains'', texts_value (fc_expected_diff_contains c)),
      (''allowed_changed_files'', texts_value (fc_allowed_changed_files c)), (''category'', PStr (fc_category c)),
      (''tags'', texts_value (fc_tags c)), (''require_tests_ran'', PBool require_tests_ran),
      (''test_command'', str_or_none (fc_test_command c))]"

definition run_fix_case :: "case_env \<Rightarrow> string \<Rightarrow> bool \<Rightarrow> nat \<Rightarrow> fix_case \<Rightarrow> evaluation" where
  "run_fix_case E rid require_tests_ran n c =
     (let (agent_run_id, outcome) =
            (if ce_repository E (fc_repo_id c) then ce_agent E n c else (None, Inl ''Repository not found''));
          passed = (case outcome of Inr (run, steps) \<Rightarrow> fix_case_passed run c | Inl e \<Rightarrow> False)
      in \<lparr>ev_run_id = rid, ev_case_id = Some (or_default (fc_case_id c) (''fix-'' @ str_int (int n))),
          ev_repo_id = safe_repo_id E (fc_repo_id c), ev_task_type = ''fix'',
          ev_status = (case outcome of Inl e \<Rightarrow> ''error'' | Inr r \<Rightarrow> if passed then ''passed'' else ''failed''),
          ev_question = fc_issue c, ev_expected_file = None, ev_expected_lines = PNone,
          ev_result = (case outcome of Inl e \<Rightarrow> Error_result e
             | Inr (run, steps) \<Rightarrow> Agent_result (agent_result_of (or_default agent_run_id []) run steps)),
          ev_passed = passed, ev_latency_ms = ce_latency E n, ev_score = of_bool passed,
          ev_failure_category = (case outcome of Inl e \<Rightarrow> Some ''runner_error''
             | Inr (run, steps) \<Rightarrow> if passed then None else Some (fix_failure run c)),
          ev_agent_run_id = agent_run_id, ev_provider = ce_llm_provider E, ev_model = effective_llm_model E,
          ev_metadata = fix_metadata require_tests_ran c, ev_id = ce_ids E n\<rparr>)"

fun from_rank :: "(nat \<Rightarrow> 'a \<Rightarrow> 'b) \<Rightarrow> nat \<Rightarrow> 'a list \<Rightarrow> 'b list" where
  \<comment> \<open>\<open>for index, case in enumerate(cases, start=n)\<close>\<close>
  "from_rank f n [] = []"
| "from_rank f n (x # xs) = f n x # from_rank f (Suc n) xs"

section \<open>Executing a run\<close>

definition clear_existing_results :: "string \<Rightarrow> eval_db \<Rightarrow> eval_db" where
  "clear_existing_results i D = D\<lparr>ed_results := filter (\<lambda>e. ev_run_id e \<noteq> i) (ed_results D)\<rparr>"

definition completed_run :: "time \<Rightarrow> metrics \<Rightarrow> evaluation list \<Rightarrow> eval_run \<Rightarrow> eval_run" where
  "completed_run t m rs r =
     r\<lparr>er_status := ''completed'', er_passed_count := int (count_if ev_passed rs),
       er_failed_count := int (length rs) - int (count_if ev_passed rs), er_metrics := m, er_finished_at := Some t\<rparr>"

definition store_results :: "time \<Rightarrow> eval_run \<Rightarrow> metrics \<Rightarrow> evaluation list \<Rightarrow> eval_db \<Rightarrow> eval_db" where
  "store_results t r m rs D =
     (let D1 = clear_existing_results (er_id r) D
      in save_run (completed_run t m rs r) (D1\<lparr>ed_results := ed_results D1 @ rs\<rparr>))"

definition execute_retrieval_run :: "case_env \<Rightarrow> time \<Rightarrow> eval_run \<Rightarrow> retrieval_case list \<Rightarrow> eval_db \<Rightarrow> eval_db" where
  "execute_retrieval_run E t r cs D =
     (let top_k = rq_top_k (er_request r); rs = from_rank (run_retrieval_case E (er_id r) top_k) 1 cs
      in store_results t r (retrieval_metrics rs top_k) rs D)"

definition execute_fix_run :: "case_env \<Rightarrow> time \<Rightarrow> eval_run \<Rightarrow> fix_case list \<Rightarrow> eval_db \<Rightarrow> eval_db" where
  "execute_fix_run E t r cs D =
     (let rs = from_rank (run_fix_case E (er_id r) (rq_require_tests_ran (er_request r))) 1 cs
      in store_results t r (fix_metrics (ce_cost_rate E) rs) rs D)"

definition execute_run :: "case_env \<Rightarrow> time \<Rightarrow> string \<Rightarrow> eval_db \<Rightarrow> eval_error option \<times> eval_db" where
  "execute_run E t i D =
     (case find_run D i of
        None \<Rightarrow> (Some (Missing ''Evaluation run not found''), D)
      | Some r \<Rightarrow>
        if er_task_type r = ''retrieval''
        then (case rq_cases (er_request r) of
                Retrieval_cases cs \<Rightarrow> (None, execute_retrieval_run E t r cs D)
              | Fix_cases cs \<Rightarrow> (Some (Invalid_case ''retrieval''), D))
        else if er_task_type r = ''fix''
        then (case rq_cases (er_request r) of
                Fix_cases cs \<Rightarrow> (None, execute_fix_run E t r cs D)
              | Retrieval_cases cs \<Rightarrow> (Some (Invalid_case ''fix''), D))
        else (Some (Invalid (''Unsupported evaluation task type: '' @ er_task_type r)), D))"

definition run_results :: "eval_db \<Rightarrow> string \<Rightarrow> evaluation list" where
  \<comment> \<open>the relationship \<open>run.results\<close>, ordered by creation\<close>
  "run_results D i = filter (\<lambda>e. ev_run_id e = i) (ed_results D)"

end
