(* ===== verification/EvalGate.thy ===== *)
theory EvalGate
  imports EvalRuns
begin

text \<open>
  Comparing two evaluation rows, the gate of a benchmark dataset and its history,
  \<open>backend/app/services/evaluation_service.py\<close>.  Messages of checks that are constant text are left out.
\<close>

section \<open>Metrics of two rows\<close>

fun metric_true :: "metric \<Rightarrow> bool" where
  "metric_true MNone = False"
| "metric_true (MBool b) = b"
| "metric_true (MInt n) = (n \<noteq> 0)"
| "metric_true (MFloat x) = (x \<noteq> 0)"
| "metric_true (MStr s) = (s \<noteq> [])"
| "metric_true (MDict d) = (d \<noteq> [])"

definition numeric_metric :: "metrics \<Rightarrow> string \<Rightarrow> real option" where
  "numeric_metric m name = number (mget m name)"

definition primary_metric_for_task :: "string \<Rightarrow> string \<Rightarrow> string" where
  "primary_metric_for_task task_type top_k =
     (if task_type = ''fix'' then ''final_verified_fix_rate'' else ''recall_at_'' @ top_k)"

definition primary_metric_for_run :: "eval_run \<Rightarrow> string" where
  "primary_metric_for_run r =
     (let top_k = (case mget (er_metrics r) ''top_k'' of MInt n \<Rightarrow> str_int n | MBool b \<Rightarrow> str_bool b | _ \<Rightarrow> ''5'')
      in case mget (er_metrics r) ''primary_metric'' of
           MStr s \<Rightarrow> if s = [] then primary_metric_for_task (er_task_type r) top_k else s
         | _ \<Rightarrow> primary_metric_for_task (er_task_type r) top_k)"

record metric_delta =
  md_name :: string
  md_baseline :: "real option"
  md_candidate :: "real option"
  md_delta :: "real option"
  md_percent_delta :: "real option"
  md_direction :: string

definition delta_of :: "eval_run \<Rightarrow> eval_run \<Rightarrow> string \<times> string \<Rightarrow> metric_delta" where
  "delta_of baseline candidate spec =
     (let name = fst spec; b = numeric_metric (er_metrics baseline) name; c = numeric_metric (er_metrics candidate) name;
          d = (case (b, c) of (Some x, Some y) \<Rightarrow> Some (y - x) | _ \<Rightarrow> None)
      in \<lparr>md_name = name, md_baseline = b, md_candidate = c, md_delta = d,
          md_percent_delta = (case (b, d) of (Some x, Some y) \<Rightarrow> if x = 0 then None else Some (y / x) | _ \<Rightarrow> None),
          md_direction = snd spec\<rparr>)"

definition comparison_metric_deltas :: "eval_run \<Rightarrow> eval_run \<Rightarrow> string \<Rightarrow> metric_delta list" where
  "comparison_metric_deltas baseline candidate primary =
     map (delta_of baseline candidate)
       ([(primary, ''higher_is_better''), (''passed'', ''higher_is_better''), (''failed'', ''lower_is_better''),
         (''avg_latency_sec'', ''lower_is_better'')] @
        (if er_task_type baseline = ''fix'' then [(''avg_tool_calls'', ''lower_is_better'')] else []))"

definition find_delta :: "metric_delta list \<Rightarrow> string \<Rightarrow> metric_delta option" where
  "find_delta ds name = List.find (\<lambda>d. md_name d = name) ds"

definition metric_delta_of :: "metric_delta list \<Rightarrow> string \<Rightarrow> real option" where
  "metric_delta_of ds name = (case find_delta ds name of None \<Rightarrow> None | Some d \<Rightarrow> md_delta d)"

fun dict_metric :: "metric \<Rightarrow> metrics" where
  "dict_metric (MDict d) = d"
| "dict_metric v = []"

fun int_metric :: "metric \<Rightarrow> int" where
  \<comment> \<open>\<open>int(count)\<close>\<close>
  "int_metric (MBool b) = of_bool b"
| "int_metric (MInt n) = n"
| "int_metric (MFloat x) = (if 0 \<le> x then \<lfloor>x\<rfloor> else \<lceil>x\<rceil>)"
| "int_metric v = 0"

definition failure_distribution_delta :: "metrics \<Rightarrow> metrics \<Rightarrow> (string \<times> int) list" where
  "failure_distribution_delta baseline candidate =
     (let b = dict_metric (mget baseline ''failure_distribution''); c = dict_metric (mget candidate ''failure_distribution'')
      in map (\<lambda>k. (k, int_metric (mget c k) - int_metric (mget b k))) (sort (remdups (map fst b @ map fst c))))"

section \<open>Cases of two rows\<close>

datatype case_status = Regressed | Improved | Baseline_only | Candidate_only | Unchanged_fail | Unchanged_pass

fun status_order :: "case_status \<Rightarrow> nat" where
  "status_order Regressed = 0"
| "status_order Improved = 1"
| "status_order Baseline_only = 2"
| "status_order Candidate_only = 3"
| "status_order Unchanged_fail = 4"
| "status_order Unchanged_pass = 5"

definition comparison_case_key :: "evaluation \<Rightarrow> string" where
  "comparison_case_key r = or_default (ev_case_id r) (ev_id r)"

definition keyed_results :: "evaluation list \<Rightarrow> string \<Rightarrow> evaluation option" where
  \<comment> \<open>a dictionary comprehension: the last result of a key\<close>
  "keyed_results rs = map_of (rev (map (\<lambda>r. (comparison_case_key r, r)) rs))"

definition comparison_case_status :: "evaluation option \<Rightarrow> evaluation option \<Rightarrow> case_status" where
  "comparison_case_status baseline candidate =
     (case (baseline, candidate) of
        (None, _) \<Rightarrow> Candidate_only
      | (Some b, None) \<Rightarrow> Baseline_only
      | (Some b, Some c) \<Rightarrow>
          if ev_passed b \<and> \<not> ev_passed c then Regressed
          else if \<not> ev_passed b \<and> ev_passed c then Improved
          else if ev_passed b \<and> ev_passed c then Unchanged_pass else Unchanged_fail)"

datatype result_summary =
    Fix_summary "string option" "int option" "int option" "nat option" "string option"
  | Retrieval_summary nat "citation option"
  | Json_summary case_result

definition comparison_result_summary :: "evaluation \<Rightarrow> result_summary" where
  "comparison_result_summary r =
     (let error = (case ev_result r of Error_result e \<Rightarrow> Some e | _ \<Rightarrow> None)
      in if ev_task_type r = ''fix''
         then (let a = agent_of (ev_result r)
               in Fix_summary (map_option ar_agent_status a) (map_option ar_tool_calls a) (map_option ar_iterations a)
                    (map_option ar_final_diff_length a) error)
         else case ev_result r of
           Retrieval_result cs k f l m \<Rightarrow> Retrieval_summary (length cs) (case cs of [] \<Rightarrow> None | c # _ \<Rightarrow> Some c)
         | v \<Rightarrow> Json_summary v)"

record case_comparison =
  cc_case_id :: string
  cc_status :: case_status
  cc_question :: "string option"
  cc_expected_file :: "string option"
  cc_baseline_passed :: "bool option"
  cc_candidate_passed :: "bool option"
  cc_baseline_status :: "string option"
  cc_candidate_status :: "string option"
  cc_baseline_failure :: "string option"
  cc_candidate_failure :: "string option"
  cc_baseline_latency_ms :: "int option"
  cc_candidate_latency_ms :: "int option"
  cc_latency_delta_ms :: "int option"
  cc_baseline_result :: "result_summary option"
  cc_candidate_result :: "result_summary option"

definition first_value :: "evaluation option \<Rightarrow> evaluation option \<Rightarrow> (evaluation \<Rightarrow> string option) \<Rightarrow> string option" where
  \<comment> \<open>the candidate before the baseline, empty texts skipped\<close>
  "first_value baseline candidate f =
     (case List.find (\<lambda>v. \<not> none_or_empty v) [Option.bind candidate f, Option.bind baseline f] of
        Some v \<Rightarrow> v | None \<Rightarrow> None)"

definition compare_case :: "evaluation list \<Rightarrow> evaluation list \<Rightarrow> string \<Rightarrow> case_comparison" where
  "compare_case baseline_results candidate_results i =
     (let b = keyed_results baseline_results i; c = keyed_results candidate_results i;
          lb = map_option ev_latency_ms b; lc = map_option ev_latency_ms c
      in \<lparr>cc_case_id = i, cc_status = comparison_case_status b c,
          cc_question = first_value b c (\<lambda>r. Some (ev_question r)), cc_expected_file = first_value b c ev_expected_file,
          cc_baseline_passed = map_option ev_passed b, cc_candidate_passed = map_option ev_passed c,
          cc_baseline_status = map_option ev_status b, cc_candidate_status = map_option ev_status c,
          cc_baseline_failure = Option.bind b ev_failure_category, cc_candidate_failure = Option.bind c ev_failure_category,
          cc_baseline_latency_ms = lb, cc_candidate_latency_ms = lc,
          cc_latency_delta_ms = (case (lb, lc) of (Some x, Some y) \<Rightarrow> Some (y - x) | _ \<Rightarrow> None),
          cc_baseline_result = map_option comparison_result_summary b,
          cc_candidate_result = map_option comparison_result_summary c\<rparr>)"

definition comparison_cases :: "evaluation list \<Rightarrow> evaluation list \<Rightarrow> case_comparison list" where
  "comparison_cases baseline_results candidate_results =
     (let keys = sort (remdups (map comparison_case_key (baseline_results @ candidate_results)))
      in sort_key (\<lambda>c. (status_order (cc_status c), cc_case_id c))
           (map (compare_case baseline_results candidate_results) keys))"

section \<open>The comparison\<close>

definition snapshot_warning :: string where
  "snapshot_warning = ''Runs use different benchmark dataset snapshots''"

definition comparison_warnings :: "eval_run \<Rightarrow> evaluation list \<Rightarrow> eval_run \<Rightarrow> evaluation list \<Rightarrow> string list" where
  "comparison_warnings b brs c crs =
     (if er_status b \<noteq> ''completed'' then [''Baseline run is not completed''] else []) @
     (if er_status c \<noteq> ''completed'' then [''Candidate run is not completed''] else []) @
     (if er_dataset_id b \<noteq> er_dataset_id c then [''Runs use different benchmark datasets''] else []) @
     (if er_dataset_version b \<noteq> er_dataset_version c then [''Runs use different benchmark dataset versions''] else []) @
     (if \<not> none_or_empty (er_snapshot_id b) \<and> \<not> none_or_empty (er_snapshot_id c) \<and> er_snapshot_id b \<noteq> er_snapshot_id c
      then [snapshot_warning] else []) @
     (if er_case_count b \<noteq> er_case_count c then [''Runs have different case counts''] else []) @
     (if set (map comparison_case_key brs) \<inter> set (map comparison_case_key crs) = {}
      then [''Runs have no common case ids''] else []) @
     (if metric_true (mget (er_metrics b) ''top_k'') \<and> metric_true (mget (er_metrics c) ''top_k'') \<and>
         mget (er_metrics b) ''top_k'' \<noteq> mget (er_metrics c) ''top_k''
      then [''Runs use different retrieval top_k values''] else [])"

record run_context =
  rx_id :: string
  rx_name :: "string option"
  rx_task_type :: string
  rx_status :: string
  rx_dataset_id :: "string option"
  rx_dataset_version :: "int option"
  rx_snapshot_id :: "string option"
  rx_created_at :: time
  rx_finished_at :: "time option"
  rx_llm_provider :: pyval
  rx_llm_model :: pyval
  rx_embedding_provider :: pyval
  rx_embedding_model :: pyval

definition run_context_of :: "eval_run \<Rightarrow> run_context" where
  "run_context_of r =
     \<lparr>rx_id = er_id r, rx_name = er_name r, rx_task_type = er_task_type r, rx_status = er_status r,
      rx_dataset_id = er_dataset_id r, rx_dataset_version = er_dataset_version r, rx_snapshot_id = er_snapshot_id r,
      rx_created_at = er_created_at r, rx_finished_at = er_finished_at r,
      rx_llm_provider = dget (er_config r) ''llm_provider'', rx_llm_model = dget (er_config r) ''llm_model'',
      rx_embedding_provider = dget (er_config r) ''embedding_provider'', rx_embedding_model = dget (er_config r) ''embedding_model''\<rparr>"

record comparison_summary =
  sm_common_cases :: nat
  sm_regressions :: nat
  sm_improvements :: nat
  sm_baseline_only :: nat
  sm_candidate_only :: nat
  sm_primary_delta :: "metric_delta option"
  sm_baseline_context :: run_context
  sm_candidate_context :: run_context

definition comparison_summary_of ::
  "eval_run \<Rightarrow> eval_run \<Rightarrow> case_comparison list \<Rightarrow> metric_delta list \<Rightarrow> string \<Rightarrow> comparison_summary" where
  "comparison_summary_of b c cases deltas primary =
     \<lparr>sm_common_cases = count_if (\<lambda>x. cc_status x \<notin> {Baseline_only, Candidate_only}) cases,
      sm_regressions = count_if (\<lambda>x. cc_status x = Regressed) cases,
      sm_improvements = count_if (\<lambda>x. cc_status x = Improved) cases,
      sm_baseline_only = count_if (\<lambda>x. cc_status x = Baseline_only) cases,
      sm_candidate_only = count_if (\<lambda>x. cc_status x = Candidate_only) cases,
      sm_primary_delta = find_delta deltas primary,
      sm_baseline_context = run_context_of b, sm_candidate_context = run_context_of c\<rparr>"

definition comparison_verdict ::
  "eval_run \<Rightarrow> eval_run \<Rightarrow> comparison_summary \<Rightarrow> metric_delta list \<Rightarrow> string \<Rightarrow> string" where
  "comparison_verdict b c summary deltas primary =
     (if er_status b \<noteq> ''completed'' \<or> er_status c \<noteq> ''completed'' \<or> sm_common_cases summary = 0 then ''inconclusive''
      else case metric_delta_of deltas primary of
        None \<Rightarrow> ''inconclusive''
      | Some d \<Rightarrow> if d < 0 \<or> 0 < sm_regressions summary then ''regression'' else ''pass'')"

record comparison =
  cp_baseline :: eval_run
  cp_candidate :: eval_run
  cp_warnings :: "string list"
  cp_compatible :: bool
  cp_verdict :: string
  cp_primary_metric :: string
  cp_deltas :: "metric_delta list"
  cp_summary :: comparison_summary
  cp_failure_delta :: "(string \<times> int) list"
  cp_cases :: "case_comparison list"

definition comparison_of :: "eval_run \<Rightarrow> evaluation list \<Rightarrow> eval_run \<Rightarrow> evaluation list \<Rightarrow> comparison" where
  "comparison_of b brs c crs =
     (let warnings = comparison_warnings b brs c crs;
          primary = primary_metric_for_run b;
          deltas = comparison_metric_deltas b c primary;
          cases = comparison_cases brs crs;
          summary = comparison_summary_of b c cases deltas primary
      in \<lparr>cp_baseline = b, cp_candidate = c, cp_warnings = warnings, cp_compatible = (warnings = []),
          cp_verdict = comparison_verdict b c summary deltas primary, cp_primary_metric = primary,
          cp_deltas = deltas, cp_summary = summary,
          cp_failure_delta = failure_distribution_delta (er_metrics b) (er_metrics c), cp_cases = cases\<rparr>)"

definition compare_runs :: "eval_db \<Rightarrow> string \<Rightarrow> string \<Rightarrow> eval_error + comparison" where
  "compare_runs D i j =
     (case (find_run D i, find_run D j) of
        (Some b, Some c) \<Rightarrow>
          if er_task_type b \<noteq> er_task_type c then Inl (Invalid ''Evaluation runs must have the same task type'')
          else Inr (comparison_of b (run_results D i) c (run_results D j))
      | _ \<Rightarrow> Inl (Missing ''Evaluation run not found''))"

section \<open>The gate\<close>

datatype gate_value = Nothing | Text string | Number real

record gate_check =
  gk_name :: string
  gk_passed :: "bool option"
  gk_observed :: gate_value
  gk_threshold :: gate_value

definition dataset_snapshot_check_passed :: "string option \<Rightarrow> string option \<Rightarrow> bool \<Rightarrow> bool option" where
  "dataset_snapshot_check_passed baseline candidate required =
     (if \<not> required then Some True
      else if none_or_empty baseline \<or> none_or_empty candidate then None
      else Some (baseline = candidate))"

definition dataset_snapshot_observed :: "string option \<Rightarrow> string option \<Rightarrow> string" where
  "dataset_snapshot_observed baseline candidate =
     ''baseline='' @ or_default baseline ''missing'' @ '', candidate='' @ or_default candidate ''missing''"

definition gate_compatibility_warnings :: "string list \<Rightarrow> string list" where
  "gate_compatibility_warnings warnings = filter (\<lambda>w. w \<noteq> snapshot_warning) warnings"

definition observed_number :: "real option \<Rightarrow> gate_value" where
  "observed_number x = (case x of Some y \<Rightarrow> Number y | None \<Rightarrow> Nothing)"

definition increase_check :: "string \<Rightarrow> real option \<Rightarrow> real option \<Rightarrow> gate_check list" where
  "increase_check name bound delta =
     (case bound of
        None \<Rightarrow> []
      | Some m \<Rightarrow> [\<lparr>gk_name = name, gk_passed = map_option (\<lambda>d. d \<le> m) delta, gk_observed = observed_number delta,
                   gk_threshold = Number m\<rparr>])"

definition gate_checks :: "comparison \<Rightarrow> gate_policy \<Rightarrow> gate_check list" where
  "gate_checks cp p =
     (let summary = cp_summary cp;
          primary = Option.bind (sm_primary_delta summary) md_delta;
          regressed = int (sm_regressions summary);
          warnings = gate_compatibility_warnings (cp_warnings cp);
          b = rx_snapshot_id (sm_baseline_context summary); c = rx_snapshot_id (sm_candidate_context summary)
      in [\<lparr>gk_name = ''matching_dataset_snapshot'',
           gk_passed = dataset_snapshot_check_passed b c (gp_require_matching_snapshot p),
           gk_observed = Text (dataset_snapshot_observed b c),
           gk_threshold = Text (if gp_require_matching_snapshot p then ''matching dataset_snapshot_id'' else ''ignored'')\<rparr>,
          \<lparr>gk_name = ''compatible_runs'', gk_passed = Some (gp_allow_incompatible p \<or> warnings = []),
           gk_observed = Text (if warnings = [] then ''compatible'' else join ''; '' warnings),
           gk_threshold = Text (if gp_allow_incompatible p then ''ignored'' else ''compatible'')\<rparr>,
          \<lparr>gk_name = ''primary_metric_drop'',
           gk_passed = map_option (\<lambda>d. - gp_max_primary_metric_drop p \<le> d) primary,
           gk_observed = observed_number primary, gk_threshold = Number (- gp_max_primary_metric_drop p)\<rparr>,
          \<lparr>gk_name = ''case_regressions'', gk_passed = Some (regressed \<le> gp_max_regressed_cases p),
           gk_observed = Number (real_of_int regressed), gk_threshold = Number (real_of_int (gp_max_regressed_cases p))\<rparr>] @
         increase_check ''avg_latency_increase'' (gp_max_avg_latency_increase p)
           (metric_delta_of (cp_deltas cp) ''avg_latency_sec'') @
         increase_check ''avg_tool_call_increase'' (gp_max_avg_tool_call_increase p)
           (metric_delta_of (cp_deltas cp) ''avg_tool_calls''))"

definition gate_status :: "gate_check list \<Rightarrow> string" where
  "gate_status checks =
     (if \<exists>k \<in> set checks. gk_passed k = Some False then ''failed''
      else if \<exists>k \<in> set checks. gk_passed k = None then ''inconclusive'' else ''passed'')"

record gate_result =
  gr_dataset :: dataset
  gr_status :: string
  gr_checks :: "gate_check list"
  gr_comparison :: comparison

definition evaluate_gate :: "eval_db \<Rightarrow> string \<Rightarrow> string \<Rightarrow> eval_error + gate_result" where
  "evaluate_gate D dataset_id candidate_id =
     (case find_dataset D dataset_id of
        None \<Rightarrow> Inl (Missing ''Evaluation dataset not found'')
      | Some d \<Rightarrow>
        if none_or_empty (ds_baseline_run_id d) then Inl (Invalid ''Benchmark dataset has no baseline evaluation run'')
        else case find_run D candidate_id of
          None \<Rightarrow> Inl (Missing ''Evaluation run not found'')
        | Some c \<Rightarrow>
          if er_task_type c \<noteq> ds_task_type d
          then Inl (Invalid ''Candidate evaluation run task type must match dataset task type'')
          else if er_dataset_id c \<noteq> Some (ds_id d)
          then Inl (Invalid ''Candidate evaluation run must belong to this benchmark dataset'')
          else case compare_runs D (the (ds_baseline_run_id d)) candidate_id of
            Inl e \<Rightarrow> Inl e
          | Inr cp \<Rightarrow>
            let checks = gate_checks cp (ds_gate_policy d)
            in Inr \<lparr>gr_dataset = d, gr_status = gate_status checks, gr_checks = checks, gr_comparison = cp\<rparr>)"

section \<open>The history of a dataset\<close>

record history_run =
  hr_run :: eval_run
  hr_gate_status :: string
  hr_primary_value :: "real option"
  hr_primary_delta :: "real option"
  hr_pass_rate :: "real option"
  hr_avg_latency :: "real option"
  hr_avg_tool_calls :: "real option"
  hr_failure_distribution :: "(string \<times> int) list"
  hr_regressions :: "nat option"
  hr_improvements :: "nat option"
  hr_provider :: pyval
  hr_model :: pyval

definition history_pass_rate :: "eval_run \<Rightarrow> string \<Rightarrow> real option" where
  "history_pass_rate r primary =
     (case numeric_metric (er_metrics r) primary of
        Some x \<Rightarrow> Some x
      | None \<Rightarrow> if er_case_count r \<le> 0 then None
                else Some (real_of_int (er_passed_count r) / real_of_int (er_case_count r)))"

definition history_source :: "eval_run \<Rightarrow> string \<Rightarrow> pyval" where
  "history_source r field =
     dget (er_config r) ((if er_task_type r = ''fix'' then ''llm_'' else ''embedding_'') @ field)"

definition int_dict :: "metric \<Rightarrow> (string \<times> int) list" where
  "int_dict v = map (map_prod id int_metric) (filter (\<lambda>kv. number (snd kv) \<noteq> None) (dict_metric v))"

definition history_run_of :: "eval_db \<Rightarrow> dataset \<Rightarrow> string \<Rightarrow> eval_run \<Rightarrow> history_run" where
  "history_run_of D d primary r =
     (let other = (\<not> none_or_empty (ds_baseline_run_id d) \<and> Some (er_id r) \<noteq> ds_baseline_run_id d);
          compared = (if other \<and> er_status r = ''completed''
                      then (case compare_runs D (the (ds_baseline_run_id d)) (er_id r) of Inr cp \<Rightarrow> Some cp | Inl e \<Rightarrow> None)
                      else None)
      in \<lparr>hr_run = r,
          hr_gate_status = (case compared of Some cp \<Rightarrow> gate_status (gate_checks cp (ds_gate_policy d))
                            | None \<Rightarrow> if other then ''inconclusive'' else ''not_evaluated''),
          hr_primary_value = numeric_metric (er_metrics r) primary,
          hr_primary_delta = (case compared of Some cp \<Rightarrow> Option.bind (sm_primary_delta (cp_summary cp)) md_delta | None \<Rightarrow> None),
          hr_pass_rate = history_pass_rate r primary,
          hr_avg_latency = numeric_metric (er_metrics r) ''avg_latency_sec'',
          hr_avg_tool_calls = numeric_metric (er_metrics r) ''avg_tool_calls'',
          hr_failure_distribution = int_dict (mget (er_metrics r) ''failure_distribution''),
          hr_regressions = map_option (\<lambda>cp. sm_regressions (cp_summary cp)) compared,
          hr_improvements = map_option (\<lambda>cp. sm_improvements (cp_summary cp)) compared,
          hr_provider = history_source r ''provider'', hr_model = history_source r ''model''\<rparr>)"

definition dataset_primary_metric :: "dataset \<Rightarrow> eval_run list \<Rightarrow> string" where
  "dataset_primary_metric d rows =
     (let baseline = (if none_or_empty (ds_baseline_run_id d) then None
                      else List.find (\<lambda>r. Some (er_id r) = ds_baseline_run_id d) rows)
      in case baseline of
           Some r \<Rightarrow> primary_metric_for_run r
         | None \<Rightarrow> (case List.find (\<lambda>r. er_status r = ''completed'') rows of
                     Some r \<Rightarrow> primary_metric_for_run r
                   | None \<Rightarrow> primary_metric_for_task (ds_task_type d) ''5''))"

definition contains_filter :: "pyval \<Rightarrow> string \<Rightarrow> bool" where
  "contains_filter v t = py_contains (py_lower (py_strip t)) (py_lower (if truthy v then py_str v else []))"

definition history_run_matches :: "string option \<Rightarrow> string option \<Rightarrow> string option \<Rightarrow> history_run \<Rightarrow> bool" where
  "history_run_matches gate_filter provider_filter model_filter h \<longleftrightarrow>
     (none_or_empty gate_filter \<or> Some (hr_gate_status h) = gate_filter) \<and>
     (none_or_empty provider_filter \<or> contains_filter (hr_provider h) (the provider_filter)) \<and>
     (none_or_empty model_filter \<or> contains_filter (hr_model h) (the model_filter))"

record history_summary =
  hs_run_count :: nat
  hs_completed_count :: nat
  hs_failed_run_count :: nat
  hs_running_count :: nat
  hs_latest_run :: "string option"
  hs_latest_completed_run :: "string option"
  hs_latest_primary :: "real option"
  hs_previous_primary :: "real option"
  hs_latest_delta :: "real option"
  hs_avg_primary :: "real option"
  hs_avg_latency :: "real option"
  hs_avg_tool_calls :: "real option"

definition run_status :: "history_run \<Rightarrow> string" where
  "run_status h = er_status (hr_run h)"

definition history_summary_of :: "history_run list \<Rightarrow> history_summary" where
  "history_summary_of hs =
     (let completed = filter (\<lambda>h. run_status h = ''completed'') hs;
          newest = (case completed of h # _ \<Rightarrow> hr_primary_value h | [] \<Rightarrow> None);
          previous = (case completed of _ # h # _ \<Rightarrow> hr_primary_value h | _ \<Rightarrow> None)
      in \<lparr>hs_run_count = length hs, hs_completed_count = length completed,
          hs_failed_run_count = count_if (\<lambda>h. run_status h = ''failed'') hs,
          hs_running_count = count_if (\<lambda>h. run_status h = ''running'') hs,
          hs_latest_run = (case hs of h # _ \<Rightarrow> Some (er_id (hr_run h)) | [] \<Rightarrow> None),
          hs_latest_completed_run = (case completed of h # _ \<Rightarrow> Some (er_id (hr_run h)) | [] \<Rightarrow> None),
          hs_latest_primary = newest, hs_previous_primary = previous,
          hs_latest_delta = (case (newest, previous) of (Some x, Some y) \<Rightarrow> Some (x - y) | _ \<Rightarrow> None),
          hs_avg_primary = average (map hr_primary_value completed),
          hs_avg_latency = average (map hr_avg_latency completed),
          hs_avg_tool_calls = average (map hr_avg_tool_calls completed)\<rparr>)"

record history_filters =
  hf_limit :: nat
  hf_created_after :: "time option"
  hf_created_before :: "time option"
  hf_status :: "string option"
  hf_gate_status :: "string option"
  hf_provider :: "string option"
  hf_model :: "string option"

record dataset_history =
  dh_primary_metric :: string
  dh_summary :: history_summary
  dh_gate_status_counts :: "(string \<times> int) list"
  dh_runs :: "history_run list"

definition history_rows :: "eval_db \<Rightarrow> string \<Rightarrow> history_filters \<Rightarrow> eval_run list" where
  "history_rows D i f =
     sort_key (\<lambda>r. - er_created_at r)
       (filter (\<lambda>r. er_dataset_id r = Some i \<and>
          (case hf_created_after f of Some t \<Rightarrow> t \<le> er_created_at r | None \<Rightarrow> True) \<and>
          (case hf_created_before f of Some t \<Rightarrow> er_created_at r \<le> t | None \<Rightarrow> True) \<and>
          (case hf_status f of Some s \<Rightarrow> er_status r = s | None \<Rightarrow> True)) (ed_runs D))"

definition dataset_history_of :: "eval_db \<Rightarrow> string \<Rightarrow> history_filters \<Rightarrow> eval_error + dataset_history" where
  "dataset_history_of D i f =
     (case find_dataset D i of
        None \<Rightarrow> Inl (Missing ''Evaluation dataset not found'')
      | Some d \<Rightarrow>
        let rows = history_rows D i f;
            primary = dataset_primary_metric d rows;
            hs = take (hf_limit f) (filter (history_run_matches (hf_gate_status f) (hf_provider f) (hf_model f))
                   (map (history_run_of D d primary) rows))
        in Inr \<lparr>dh_primary_metric = primary, dh_summary = history_summary_of hs,
                dh_gate_status_counts = tally (map hr_gate_status hs), dh_runs = hs\<rparr>)"

definition list_runs :: "eval_db \<Rightarrow> nat \<Rightarrow> eval_run list" where
  "list_runs D limit = take limit (sort_key (\<lambda>r. - er_created_at r) (ed_runs D))"

end
