(* ===== verification/EvalTheorems.thy ===== *)
theory EvalTheorems
  imports EvalGate
begin

text \<open>
  What the evaluation services guarantee: the range of the retrieval metrics, the judgement of a repair, the
  immutable snapshots runs are bound to, and what a passed gate means.
\<close>

section \<open>Retrieval metrics\<close>

lemma citation_line_overlap_range: "0 \<le> citation_line_overlap c ranges \<and> citation_line_overlap c ranges \<le> 1"
proof -
  have "0 \<le> (\<Sum>(a, b) \<leftarrow> ranges. max 0 (min e b - max s a + 1))" for s e :: int
    by (rule sum_list_nonneg) auto
  then show ?thesis
    by (auto simp: citation_line_overlap_def Let_def min_def split: option.splits intro: divide_nonneg_pos)
qed

lemma overlap_of_range: "0 \<le> overlap_of f ranges c \<and> overlap_of f ranges c \<le> 1"
  using citation_line_overlap_range [of c ranges] by (simp add: overlap_of_def)

lemma first_rank_Some: "first_rank bs = Some r \<Longrightarrow> 1 \<le> r \<and> r \<le> length bs"
  by (induction bs arbitrary: r) (auto split: if_splits)

lemma first_rank_None: "first_rank bs = None \<longleftrightarrow> True \<notin> set bs"
  by (induction bs) auto

lemma discount_pos: "0 < rank \<Longrightarrow> 0 < discount rank"
  by (simp add: discount_def)

lemma discount_mono: "0 < a \<Longrightarrow> a \<le> b \<Longrightarrow> discount b \<le> discount a"
  by (simp add: discount_def divide_left_mono)

lemma discounted_gain_nonneg: "0 < rank \<Longrightarrow> 0 \<le> discounted_gain rank bs"
proof (induction rank bs rule: discounted_gain.induct)
  case (2 rank b bs)
  then show ?case using discount_pos [of rank] by simp
qed simp

lemma discounted_gain_pos: "0 < rank \<Longrightarrow> 0 < discounted_gain rank bs \<longleftrightarrow> True \<in> set bs"
proof (induction rank bs rule: discounted_gain.induct)
  case (2 rank b bs)
  then show ?case
    using discount_pos [of rank] discounted_gain_nonneg [of "Suc rank" bs] by (cases b) auto
qed simp

text \<open>A gain is at most that of as many hits at the first ranks.\<close>

definition hits :: "bool list \<Rightarrow> nat" where
  "hits bs = length (filter id bs)"

lemma hits_simps [simp]: "hits [] = 0" "hits (b # bs) = (if b then Suc (hits bs) else hits bs)"
  by (simp_all add: hits_def)

lemma hits_pos: "0 < hits bs \<longleftrightarrow> True \<in> set bs"
  by (induction bs) auto

lemma hits_le: "hits bs \<le> length bs"
  by (simp add: hits_def)

fun first_gains :: "nat \<Rightarrow> nat \<Rightarrow> real" where
  "first_gains rank 0 = 0"
| "first_gains rank (Suc n) = discount rank + first_gains (Suc rank) n"

lemma first_gains_sum: "first_gains rank n = (\<Sum>i \<leftarrow> [rank..<rank + n]. discount i)"
  by (induction n arbitrary: rank) (simp_all add: upt_conv_Cons del: upt_Suc)

lemma first_gains_later: "0 < rank \<Longrightarrow> first_gains (Suc rank) n \<le> first_gains rank n"
proof (induction n arbitrary: rank)
  case (Suc n)
  have "first_gains (Suc (Suc rank)) n \<le> first_gains (Suc rank) n" by (rule Suc.IH) simp
  then show ?case using discount_mono [of rank "Suc rank"] Suc.prems by simp
qed simp

lemma discounted_gain_le: "0 < rank \<Longrightarrow> discounted_gain rank bs \<le> first_gains rank (hits bs)"
proof (induction rank bs rule: discounted_gain.induct)
  case (2 rank b bs)
  then show ?case
    using first_gains_later [of rank "hits bs"] by (cases b) simp_all
qed simp

lemma ideal_gain_first: "ideal_gain n = first_gains 1 n"
  unfolding ideal_gain_def first_gains_sum by (simp add: add.commute)

lemma first_gains_nonneg: "0 < rank \<Longrightarrow> 0 \<le> first_gains rank n"
proof (induction n arbitrary: rank)
  case (Suc n)
  then show ?case using discount_pos [of rank] Suc.IH [of "Suc rank"] by simp
qed simp

lemma ideal_gain_pos: "0 < ideal_gain n \<longleftrightarrow> 0 < n"
  using discount_pos [of 1] first_gains_nonneg [of 2 "n - 1"]
  by (cases n) (simp_all add: ideal_gain_first numeral_2_eq_2)

text \<open>
  The metrics of a retrieval are rates: normalised discounted gain, reciprocal rank and precision are between
  zero and one, the gain and the reciprocal rank are positive exactly when some citation is relevant, that is, is
  of the expected file and meets the expected lines if there are any, and a case passes exactly then.
\<close>

theorem retrieval_metrics_are_rates:
  "let m = retrieval_case_metrics citations expected_file expected_lines;
       ranges = normalize_line_ranges expected_lines
   in 0 \<le> cm_ndcg m \<and> cm_ndcg m \<le> 1 \<and> 0 \<le> cm_reciprocal_rank m \<and> cm_reciprocal_rank m \<le> 1 \<and>
      0 \<le> cm_citation_precision m \<and> cm_citation_precision m \<le> 1 \<and>
      (cm_relevant_hit m \<longleftrightarrow> 0 < cm_ndcg m) \<and> (cm_relevant_hit m \<longleftrightarrow> 0 < cm_reciprocal_rank m) \<and>
      (cm_relevant_hit m \<longleftrightarrow> (\<exists>c \<in> set citations. ci_file_path c = expected_file \<and>
         (ranges = [] \<or> 0 < citation_line_overlap c ranges)))"
proof -
  define ranges where "ranges = normalize_line_ranges expected_lines"
  define bs where "bs = map (relevant expected_file ranges) citations"
  define m where "m = retrieval_case_metrics citations expected_file expected_lines"
  note defs = m_def retrieval_case_metrics_def Let_def ranges_def [symmetric] bs_def [symmetric] hits_def [symmetric]
  have hit: "cm_relevant_hit m \<longleftrightarrow> True \<in> set bs"
    unfolding defs using first_rank_None [of bs] by simp
  have ndcg: "cm_ndcg m = discounted_gain 1 bs / ideal_gain (hits bs)"
    unfolding defs by simp
  have precision: "cm_citation_precision m = real (hits bs) / real (length bs)"
    unfolding defs by (simp add: bs_def)
  have rr: "cm_reciprocal_rank m = (case first_rank bs of Some r \<Rightarrow> 1 / real r | None \<Rightarrow> 0)"
    unfolding defs by simp
  have "0 \<le> cm_ndcg m \<and> cm_ndcg m \<le> 1 \<and> (cm_relevant_hit m \<longleftrightarrow> 0 < cm_ndcg m)"
    using discounted_gain_nonneg [of 1 bs] discounted_gain_pos [of 1 bs] discounted_gain_le [of 1 bs] ideal_gain_pos [of "hits bs"]
    unfolding hit ndcg ideal_gain_first [symmetric] hits_pos
    by (cases "True \<in> set bs") (auto simp: divide_le_eq_1 zero_le_divide_iff zero_less_divide_iff)
  moreover have "0 \<le> cm_reciprocal_rank m \<and> cm_reciprocal_rank m \<le> 1 \<and> (cm_relevant_hit m \<longleftrightarrow> 0 < cm_reciprocal_rank m)"
    using first_rank_Some [of bs] first_rank_None [of bs] unfolding hit rr by (cases "first_rank bs") auto
  moreover have "0 \<le> cm_citation_precision m \<and> cm_citation_precision m \<le> 1"
    using hits_le [of bs] unfolding precision by (simp add: divide_le_eq_1)
  moreover have "True \<in> set bs \<longleftrightarrow> (\<exists>c \<in> set citations. ci_file_path c = expected_file \<and>
         (ranges = [] \<or> 0 < citation_line_overlap c ranges))"
    unfolding bs_def relevant_def overlap_of_def by auto
  ultimately show ?thesis unfolding m_def [symmetric] ranges_def [symmetric] Let_def hit by blast
qed

section \<open>The judgement of a repair\<close>

lemma fix_failure_unknown: "fix_failure run c = ''unknown'' \<longleftrightarrow> fix_case_passed run c"
proof -
  have "verification_evidence_is_complete (Some (dict_of (u_test_result run))) =
        verification_evidence_is_complete (u_test_result run)"
    by (cases "u_test_result run") (simp_all add: verification_evidence_is_complete_def present_def dict_of_def)
  then show ?thesis
    by (simp add: fix_failure_def fix_case_passed_def Let_def)
qed


text \<open>
  Git quotes a path with unusual characters, and the pattern of the header does not match a quoted one: such a
  file is not among the changed files, so a diff that touches it passes a list of allowed files without it.
\<close>

definition escaped_name :: string where
  "escaped_name = ''caf'' @ [CHR 0x5C] @ ''303'' @ [CHR 0x5C] @ ''251.py''"

definition quoted_diff :: string where
  "quoted_diff = ''diff --git a/app.py b/app.py'' @ [CHR 0x0A] @ ''diff --git '' @ [CHR 0x22] @ ''a/'' @ escaped_name @
     [CHR 0x22, CHR '' ''] @ [CHR 0x22] @ ''b/'' @ escaped_name @ [CHR 0x22]"

lemma quoted_path_is_not_checked: "changed_files_of quoted_diff = [''app.py'', ''app.py''] \<and> changed_files_allowed quoted_diff [''app.py'']"
proof -
  have "changed_files_of quoted_diff = [''app.py'', ''app.py'']"
    by (simp add: quoted_diff_def escaped_name_def changed_files_of_def diff_header_def)
  then show ?thesis by (simp add: changed_files_allowed_def)
qed

text \<open>A verified run whose diff touches the one allowed file.\<close>

definition w_verdict :: pydict where
  "w_verdict =
     (let passed = PDict [(''tests_ran'', PBool True), (''passed'', PBool True), (''exit_code'', PInt 0)]
      in [(''status'', PStr ''verified_success''), (''patch_applied'', PBool True),
          (''baseline'', PDict [(''failure_kind'', PStr ''test_failure'')]), (''targeted'', passed), (''regression'', passed)])"

definition w_repair :: run_row where
  "w_repair = \<lparr>u_repo_id = ''r'', u_user_input = ''bug'', u_test_command = None, u_status = ''verified_success'',
     u_final_diff = Some ''diff --git a/app.py b/app.py'', u_final_summary = None, u_failure_reason = None,
     u_test_result = Some w_verdict, u_iterations = 1, u_updated_at = 0, u_finished_at = None\<rparr>"

definition w_case_env :: case_env where
  "w_case_env = \<lparr>ce_retrieval = \<lparr>rs_top_k = 5, rs_strategy = ''vector'', rs_min_vector_score = 0, rs_candidate_multiplier = 1,
       rs_rerank_enabled = False, rs_context_expansion_enabled = False, rs_context_window = 0, rs_context_max_extra = 0, rs_max_repos = 1\<rparr>,
     ce_rank = \<lparr>rk_full_text = None, rk_vectors = \<lambda>_ _ _. None\<rparr>, ce_chunks = [], ce_repository = (\<lambda>_. True),
     ce_agent = (\<lambda>_ _. (Some ''run'', Inr (w_repair, []))), ce_latency = (\<lambda>_. 7), ce_ids = (\<lambda>n. str_int (int n)),
     ce_embedding_provider = ''mock'', ce_embedding_model = [], ce_embedding_dimension = 8, ce_llm_provider = ''mock'',
     ce_llm_model = None, ce_cost_rate = None\<rparr>"

definition w_fix_case :: fix_case where
  "w_fix_case = \<lparr>fc_case_id = None, fc_repo_id = ''r'', fc_issue = ''bug'', fc_test_command = None,
     fc_expected_status = ''verified_success'', fc_expected_diff_contains = [], fc_allowed_changed_files = [''app.py''],
     fc_category = ''c'', fc_tags = []\<rparr>"

lemma w_repair_passes: "fix_case_passed w_repair w_fix_case"
proof -
  have evidence: "verification_evidence_is_complete (Some w_verdict)"
    by (simp add: w_verdict_def verification_evidence_is_complete_def classify_test_result_def present_def dict_of_def Let_def)
  have "changed_files_allowed ''diff --git a/app.py b/app.py'' [''app.py'']"
    by (simp add: changed_files_allowed_def changed_files_of_def diff_header_def)
  then show ?thesis
    using evidence by (simp add: fix_case_passed_def w_repair_def w_fix_case_def or_default_def none_or_empty_def)
qed

lemma run_fix_case_passes: "ev_passed (run_fix_case w_case_env i True n w_fix_case)"
  using w_repair_passes by (simp add: run_fix_case_def w_case_env_def Let_def)

lemma w_verified_result: "verified_result (run_fix_case w_case_env i True n w_fix_case)"
  by (simp add: verified_result_def run_fix_case_def w_case_env_def agent_result_of_def w_repair_def Let_def split_beta)


end
