(* ===== verification/SnapTheorems.thy ===== *)
theory SnapTheorems
  imports EvalTheorems
begin

text \<open>
  The history of the evaluation tables: snapshots are immutable and one per version, a dataset agrees with the
  snapshot of its version, a run with the snapshot it is bound to, and a completed run holds one result per case.
  What a passed gate means follows.
\<close>

section \<open>Histories\<close>

text \<open>
  One service call on the tables.  New rows get fresh ids, and the numbers of a request are within the bounds of
  its schema.
\<close>

definition fresh_ids :: "(nat \<Rightarrow> string) \<Rightarrow> eval_db \<Rightarrow> bool" where
  "fresh_ids ids D \<longleftrightarrow> inj ids \<and> range ids \<inter> sn_id ` set (ed_snapshots D) = {}"

inductive eval_step :: "eval_db \<Rightarrow> eval_db \<Rightarrow> bool" where
  create_dataset: "i \<notin> ds_id ` set (ed_datasets D) \<Longrightarrow> j \<notin> sn_id ` set (ed_snapshots D) \<Longrightarrow>
    eval_step D (snd (create_dataset i j q D))"
| update_dataset: "j \<notin> sn_id ` set (ed_snapshots D) \<Longrightarrow> eval_step D (snd (update_dataset j i u D))"
| delete_dataset: "eval_step D (snd (delete_dataset i D))"
| create_run: "i \<notin> er_id ` set (ed_runs D) \<Longrightarrow> j \<notin> sn_id ` set (ed_snapshots D) \<Longrightarrow> rq_dataset_version q \<noteq> Some 0 \<Longrightarrow>
    eval_step D (snd (create_run config t i j q D))"
| execute_run: "eval_step D (snd (execute_run E t i D))"
| fail_run: "eval_step D (fail_run t i reason D)"
| backfill: "fresh_ids ids D \<Longrightarrow> eval_step D (snd (backfill fmt t ids did rid task_type limit dry_run create_missing D))"

section \<open>The invariant\<close>

definition case_keys :: "eval_cases \<Rightarrow> string list" where
  "case_keys cs = (case cs of
     Retrieval_cases xs \<Rightarrow> from_rank (\<lambda>n c. or_default (qc_case_id c) (''retrieval-'' @ str_int (int n))) 1 xs
   | Fix_cases xs \<Rightarrow> from_rank (\<lambda>n c. or_default (fc_case_id c) (''fix-'' @ str_int (int n))) 1 xs)"

definition version_key :: "snapshot \<Rightarrow> string \<times> int" where
  "version_key s = (sn_dataset_id s, sn_version s)"

definition snapshot_ok :: "snapshot \<Rightarrow> bool" where
  "snapshot_ok s \<longleftrightarrow> sn_task_type s = task_type_of (sn_cases s)"

definition dataset_ok :: "snapshot list \<Rightarrow> dataset \<Rightarrow> bool" where
  "dataset_ok ss d \<longleftrightarrow> (\<exists>s \<in> set ss. version_key s = (ds_id d, ds_version d) \<and> sn_cases s = ds_cases d) \<and>
     ds_task_type d = task_type_of (ds_cases d)"

definition bound_ok :: "snapshot list \<Rightarrow> eval_run \<Rightarrow> bool" where
  "bound_ok ss r \<longleftrightarrow>
     (case er_snapshot_id r of
        None \<Rightarrow> er_dataset_version r \<noteq> Some 0
      | Some i \<Rightarrow> \<exists>s \<in> set ss. sn_id s = i \<and> sn_cases s = rq_cases (er_request r) \<and>
          er_dataset_id r = Some (sn_dataset_id s) \<and> er_dataset_version r = Some (sn_version s))"

definition run_ok :: "snapshot list \<Rightarrow> evaluation list \<Rightarrow> eval_run \<Rightarrow> bool" where
  "run_ok ss rs r \<longleftrightarrow> er_task_type r = task_type_of (rq_cases (er_request r)) \<and> bound_ok ss r \<and>
     (er_status r = ''completed'' \<longrightarrow>
        map comparison_case_key (filter (\<lambda>e. ev_run_id e = er_id r) rs) = case_keys (rq_cases (er_request r)))"

definition eval_inv :: "eval_db \<Rightarrow> bool" where
  "eval_inv D \<longleftrightarrow>
     distinct (map sn_id (ed_snapshots D)) \<and> distinct (map version_key (ed_snapshots D)) \<and>
     (\<forall>s \<in> set (ed_snapshots D). snapshot_ok s) \<and>
     distinct (map ds_id (ed_datasets D)) \<and> (\<forall>d \<in> set (ed_datasets D). dataset_ok (ed_snapshots D) d) \<and>
     distinct (map er_id (ed_runs D)) \<and> (\<forall>r \<in> set (ed_runs D). run_ok (ed_snapshots D) (ed_results D) r)"

definition kept :: "eval_db \<Rightarrow> eval_db \<Rightarrow> bool" where
  \<comment> \<open>snapshots are only added\<close>
  "kept D D' \<longleftrightarrow> set (ed_snapshots D) \<subseteq> set (ed_snapshots D')"

lemma dataset_ok_mono: "dataset_ok ss d \<Longrightarrow> set ss \<subseteq> set ss' \<Longrightarrow> dataset_ok ss' d"
  unfolding dataset_ok_def by blast

lemma bound_ok_mono: "bound_ok ss r \<Longrightarrow> set ss \<subseteq> set ss' \<Longrightarrow> bound_ok ss' r"
  unfolding bound_ok_def by (cases "er_snapshot_id r") (simp, simp, blast)

lemma run_ok_mono: "run_ok ss rs r \<Longrightarrow> set ss \<subseteq> set ss' \<Longrightarrow> run_ok ss' rs r"
  unfolding run_ok_def using bound_ok_mono by blast

lemma find_Some: "List.find p xs = Some x \<Longrightarrow> x \<in> set xs \<and> p x"
  by (induction xs) (auto split: if_splits)

lemma find_None: "List.find p xs = None \<longleftrightarrow> (\<forall>x \<in> set xs. \<not> p x)"
  by (auto simp: find_None_iff)

text \<open>A new snapshot of a version without one.\<close>

lemma add_snapshot_inv:
  assumes "eval_inv D" "sn_id s \<notin> sn_id ` set (ed_snapshots D)" "version_snapshot D (sn_dataset_id s) (sn_version s) = None"
    "snapshot_ok s"
  shows "eval_inv (add_snapshot s D)" "kept D (add_snapshot s D)" "s \<in> set (ed_snapshots (add_snapshot s D))"
proof -
  have new: "version_key s \<notin> version_key ` set (ed_snapshots D)"
    using assms(3) by (auto simp: version_snapshot_def find_None version_key_def)
  have more: "set (ed_snapshots D) \<subseteq> set (ed_snapshots D @ [s])" by auto
  have "\<forall>d \<in> set (ed_datasets D). dataset_ok (ed_snapshots D @ [s]) d"
    using assms(1) dataset_ok_mono [OF _ more] unfolding eval_inv_def by blast
  moreover have "\<forall>r \<in> set (ed_runs D). run_ok (ed_snapshots D @ [s]) (ed_results D) r"
    using assms(1) run_ok_mono [OF _ more] unfolding eval_inv_def by blast
  ultimately show "eval_inv (add_snapshot s D)"
    using assms new unfolding eval_inv_def add_snapshot_def by (simp add: ball_Un)
qed (auto simp: kept_def add_snapshot_def)

text \<open>Replacing a row by one that is in order.\<close>

lemma map_replace_ids: "map f (map (\<lambda>e. if f e = f x then x else e) xs) = map f xs"
  by simp

lemma save_run_inv:
  assumes "eval_inv D" "run_ok (ed_snapshots D) (ed_results D) r"
  shows "eval_inv (save_run r D)"
proof -
  have "map er_id (ed_runs (save_run r D)) = map er_id (ed_runs D)" by (simp add: save_run_def)
  then show ?thesis using assms unfolding eval_inv_def by (auto simp: save_run_def simp del: map_map)
qed

lemma save_dataset_inv:
  assumes "eval_inv D" "dataset_ok (ed_snapshots D) d"
  shows "eval_inv (save_dataset d D)"
proof -
  have "map ds_id (ed_datasets (save_dataset d D)) = map ds_id (ed_datasets D)" by (simp add: save_dataset_def)
  then show ?thesis using assms unfolding eval_inv_def by (auto simp: save_dataset_def simp del: map_map)
qed

section \<open>Datasets\<close>

lemma validate_cases_task_type: "validate_cases task_type raw = Inr cs \<Longrightarrow> task_type_of cs = task_type"
  by (auto simp: validate_cases_def Let_def split: if_splits option.splits)

lemma new_snapshot_ok: "ds_task_type d = task_type_of (ds_cases d) \<Longrightarrow> snapshot_ok (new_snapshot j d)"
  by (simp add: snapshot_ok_def new_snapshot_def)

text \<open>After an upsert the snapshots hold one of the dataset, whatever became of the other tables.\<close>

lemma upsert_inv:
  assumes "eval_inv D" "ed_snapshots X = ed_snapshots D" "upsert_snapshot j d X = Inr (s, X')"
    "ds_task_type d = task_type_of (ds_cases d)" "j \<notin> sn_id ` set (ed_snapshots D)"
  obtains D' where "eval_inv D'" "kept D D'" "D' = D\<lparr>ed_snapshots := ed_snapshots D'\<rparr>" "dataset_ok (ed_snapshots D') d"
    "X' = X\<lparr>ed_snapshots := ed_snapshots D'\<rparr>"
proof (cases "version_snapshot X (ds_id d) (ds_version d)")
  case None
  let ?s = "new_snapshot j d"
  have none: "version_snapshot D (sn_dataset_id ?s) (sn_version ?s) = None"
    using None assms(2) by (simp add: version_snapshot_def new_snapshot_def)
  note added = add_snapshot_inv [OF assms(1) _ none new_snapshot_ok [OF assms(4)]]
  have X': "X' = X\<lparr>ed_snapshots := ed_snapshots D @ [?s]\<rparr>"
    using assms(2,3) None by (auto simp: upsert_snapshot_def Let_def add_snapshot_def)
  show ?thesis
  proof (rule that [of "add_snapshot ?s D"])
    show "eval_inv (add_snapshot ?s D)" "kept D (add_snapshot ?s D)"
      using added(1,2) assms(5) by (simp_all add: new_snapshot_def)
    show "dataset_ok (ed_snapshots (add_snapshot ?s D)) d"
      using assms(4) by (simp add: dataset_ok_def add_snapshot_def version_key_def new_snapshot_def)
  qed (simp_all add: X' add_snapshot_def)
next
  case (Some s')
  then have s': "s' \<in> set (ed_snapshots D)" "version_key s' = (ds_id d, ds_version d)"
    using assms(2) by (auto simp: version_snapshot_def version_key_def dest: find_Some)
  have "sn_cases s' = ds_cases d" "X' = X"
    using assms(3) Some by (simp_all add: upsert_snapshot_def split: if_splits)
  then show ?thesis
    using that [of D] assms(1,2,4) s' by (auto simp: kept_def dataset_ok_def)
qed

lemma eval_inv_new_dataset:
  assumes "eval_inv D" "dataset_ok (ed_snapshots D) d" "ds_id d \<notin> ds_id ` set (ed_datasets D)"
  shows "eval_inv (D\<lparr>ed_datasets := ed_datasets D @ [d]\<rparr>)"
  using assms unfolding eval_inv_def by (simp add: ball_Un)

lemma create_dataset_inv:
  assumes "eval_inv D" "i \<notin> ds_id ` set (ed_datasets D)" "j \<notin> sn_id ` set (ed_snapshots D)"
  shows "eval_inv (snd (create_dataset i j q D)) \<and> kept D (snd (create_dataset i j q D))"
proof (cases "validate_cases (dc_task_type q) (dc_cases q)")
  case (Inr cs)
  note cases = Inr
  show ?thesis
  proof (cases "validate_baseline_run D i (dc_baseline_run_id q) (dc_task_type q)")
    case (Inr b)
    define d where "d = \<lparr>ds_id = i, ds_name = py_strip (dc_name q), ds_task_type = dc_task_type q,
      ds_description = dc_description q, ds_version = dc_version q, ds_baseline_run_id = b,
      ds_gate_policy = dc_gate_policy q, ds_cases = cs, ds_metadata = dc_metadata q\<rparr>"
    define X where "X = D\<lparr>ed_datasets := ed_datasets D @ [d]\<rparr>"
    note create = create_dataset_def [of i j q D, unfolded cases Inr sum.case Let_def d_def [symmetric] X_def [symmetric]]
    show ?thesis
    proof (cases "upsert_snapshot j d X")
      case (Inr out)
      obtain s X' where out: "out = (s, X')" by (cases out)
      have "ds_task_type d = task_type_of (ds_cases d)"
        using validate_cases_task_type [OF cases] by (simp add: d_def)
      then obtain D' where D': "eval_inv D'" "kept D D'" "D' = D\<lparr>ed_snapshots := ed_snapshots D'\<rparr>"
        "dataset_ok (ed_snapshots D') d" "X' = X\<lparr>ed_snapshots := ed_snapshots D'\<rparr>"
        using upsert_inv [OF assms(1), of X j d s X'] Inr out assms(3) by (auto simp: X_def)
      have same: "ed_datasets D' = ed_datasets D" by (subst D'(3)) simp
      have "X' = D'\<lparr>ed_datasets := ed_datasets D' @ [d]\<rparr>"
        by (subst (2) D'(3)) (simp add: D'(5) X_def same)
      then have "eval_inv X'" using eval_inv_new_dataset [OF D'(1,4)] assms(2) same by (simp add: d_def)
      moreover have "kept D X'" using D'(2) by (simp add: kept_def D'(5))
      ultimately show ?thesis unfolding create Inr out by simp
    qed (use assms in \<open>simp add: create kept_def\<close>)
  qed (use assms cases in \<open>simp add: create_dataset_def kept_def\<close>)
qed (use assms in \<open>simp add: create_dataset_def kept_def\<close>)

lemma updated_dataset_fields:
  assumes "updated_dataset D u d = Inr d'"
  shows "ds_id d' = ds_id d" "ds_task_type d' = task_type_of (ds_cases d')"
  using assms by (auto simp: updated_dataset_def Let_def dest: validate_cases_task_type split: sum.splits)

lemma update_dataset_inv:
  assumes "eval_inv D" "j \<notin> sn_id ` set (ed_snapshots D)"
  shows "eval_inv (snd (update_dataset j i u D)) \<and> kept D (snd (update_dataset j i u D))"
proof (cases "find_dataset D i")
  case (Some d)
  note found = Some
  show ?thesis
  proof (cases "updated_dataset D u d")
    case (Inr d')
    define X where "X = save_dataset d' D"
    note update = update_dataset_def [of j i u D, unfolded found Inr sum.case option.case X_def [symmetric]]
    show ?thesis
    proof (cases "upsert_snapshot j d' X")
      case (Inr out)
      obtain s X' where out: "out = (s, X')" by (cases out)
      obtain D' where D': "eval_inv D'" "kept D D'" "D' = D\<lparr>ed_snapshots := ed_snapshots D'\<rparr>"
        "dataset_ok (ed_snapshots D') d'" "X' = X\<lparr>ed_snapshots := ed_snapshots D'\<rparr>"
        using upsert_inv [OF assms(1), of X j d' s X'] Inr out assms(2) updated_dataset_fields(2) [OF \<open>updated_dataset D u d = Inr d'\<close>]
        by (auto simp: X_def save_dataset_def)
      have same: "ed_datasets D' = ed_datasets D" by (subst D'(3)) simp
      have "X' = save_dataset d' D'"
        unfolding D'(5) X_def save_dataset_def same by (subst (2) D'(3)) simp
      then have "eval_inv X'" using save_dataset_inv [OF D'(1,4)] by simp
      moreover have "kept D X'" using D'(2) by (simp add: kept_def D'(5))
      ultimately show ?thesis unfolding update Inr out by simp
    qed (use assms in \<open>simp add: update kept_def\<close>)
  qed (use assms found in \<open>simp add: update_dataset_def kept_def\<close>)
qed (use assms in \<open>simp add: update_dataset_def kept_def\<close>)

lemma delete_dataset_inv: "eval_inv D \<Longrightarrow> eval_inv (snd (delete_dataset i D)) \<and> kept D (snd (delete_dataset i D))"
  by (auto simp: delete_dataset_def kept_def eval_inv_def distinct_map_filter split: option.splits)

section \<open>Runs\<close>

text \<open>The snapshot a request resolves to holds exactly the cases of the request.\<close>

definition resolved :: "eval_db \<Rightarrow> eval_request \<Rightarrow> snapshot option \<Rightarrow> bool" where
  "resolved D q s \<longleftrightarrow> (\<forall>s'. s = Some s' \<longrightarrow> s' \<in> set (ed_snapshots D) \<and> sn_cases s' = rq_cases q \<and>
     rq_dataset_id q = Some (sn_dataset_id s') \<and> bound_version s (rq_dataset_version q) = Some (sn_version s'))"

lemma matching_inv:
  assumes "eval_inv D" "j \<notin> sn_id ` set (ed_snapshots D)" "rq_dataset_version q \<noteq> Some 0"
    "matching_dataset_snapshot j q D = (s, D')"
  shows "eval_inv D' \<and> kept D D' \<and> resolved D' q s \<and> D' = D\<lparr>ed_snapshots := ed_snapshots D'\<rparr>"
proof (cases "none_or_empty (rq_dataset_id q) \<or> find_dataset D (the (rq_dataset_id q)) = None")
  case True
  then have "s = None \<and> D' = D" using assms(4) by (auto simp: matching_dataset_snapshot_def split: if_splits)
  then show ?thesis using assms(1) by (simp add: kept_def resolved_def)
next
  case False
  then obtain d where d: "find_dataset D (the (rq_dataset_id q)) = Some d" and id: "rq_dataset_id q = Some (ds_id d)"
    by (cases "rq_dataset_id q") (auto simp: none_or_empty_def find_dataset_def dest: find_Some)
  define v where "v = (case rq_dataset_version q of None \<Rightarrow> ds_version d | Some v \<Rightarrow> if v = 0 then ds_version d else v)"
  have v: "rq_dataset_version q = None \<and> v = ds_version d \<or> rq_dataset_version q = Some v"
    using assms(3) by (cases "rq_dataset_version q") (auto simp: v_def)
  note match = assms(4) [unfolded matching_dataset_snapshot_def d option.case v_def [symmetric] Let_def]
  show ?thesis
  proof (cases "version_snapshot D (ds_id d) v")
    case None
    let ?s = "new_snapshot j d"
    show ?thesis
    proof (cases "ds_task_type d = task_type_of (rq_cases q) \<and> v = ds_version d \<and> ds_cases d = rq_cases q")
      case True
      have none: "version_snapshot D (sn_dataset_id ?s) (sn_version ?s) = None"
        using None True by (simp add: new_snapshot_def)
      note added = add_snapshot_inv [OF assms(1) _ none new_snapshot_ok]
      have "s = Some ?s \<and> D' = add_snapshot ?s D"
        using match None True False by (auto simp: new_snapshot_def)
      then show ?thesis
        using added assms(2) True id v
        by (auto simp: new_snapshot_def resolved_def bound_version_def add_snapshot_def)
    next
      case False
      then have "s = None \<and> D' = D" using match None \<open>\<not> (none_or_empty _ \<or> _)\<close> by (auto split: if_splits)
      then show ?thesis using assms(1) by (simp add: kept_def resolved_def)
    qed
  next
    case (Some s')
    then have s': "s' \<in> set (ed_snapshots D)" "sn_dataset_id s' = ds_id d" "sn_version s' = v"
      by (auto simp: version_snapshot_def dest: find_Some)
    have "D' = D \<and> (s = None \<or> s = Some s' \<and> sn_cases s' = rq_cases q)"
      using match Some False by (auto split: if_splits)
    then show ?thesis
      using assms(1) s' id v by (auto simp: kept_def resolved_def bound_version_def)
  qed
qed

lemma resolve_inv:
  assumes "eval_inv D" "j \<notin> sn_id ` set (ed_snapshots D)" "rq_dataset_version q \<noteq> Some 0"
    "resolve_dataset_snapshot j q D = Inr (s, D')"
  shows "eval_inv D' \<and> kept D D' \<and> resolved D' q s \<and> D' = D\<lparr>ed_snapshots := ed_snapshots D'\<rparr>"
proof (cases "rq_snapshot_id q")
  case None
  then show ?thesis using matching_inv [OF assms(1-3)] assms(4) by (simp add: resolve_dataset_snapshot_def)
next
  case (Some i)
  then obtain s' where s': "find_snapshot D i = Some s'" "s = Some s'" "D' = D" "Some (sn_dataset_id s') = rq_dataset_id q"
    "rq_dataset_version q = None \<or> Some (sn_version s') = rq_dataset_version q" "sn_cases s' = rq_cases q"
    using assms(4) by (auto simp: resolve_dataset_snapshot_def split: if_splits option.splits)
  then have "s' \<in> set (ed_snapshots D)" by (auto simp: find_snapshot_def dest: find_Some)
  then show ?thesis using s' assms(1) by (auto simp: kept_def resolved_def bound_version_def)
qed

lemma new_run_ok:
  assumes "resolved D q s" "rq_dataset_version q \<noteq> Some 0"
  shows "run_ok (ed_snapshots D) rs (new_run config t i q s)"
  using assms by (cases s) (auto simp: run_ok_def bound_ok_def new_run_def Let_def resolved_def bound_version_def)

lemma create_run_inv:
  assumes "eval_inv D" "i \<notin> er_id ` set (ed_runs D)" "j \<notin> sn_id ` set (ed_snapshots D)" "rq_dataset_version q \<noteq> Some 0"
  shows "eval_inv (snd (create_run config t i j q D)) \<and> kept D (snd (create_run config t i j q D))"
proof (cases "resolve_dataset_snapshot j q D")
  case (Inr out)
  obtain s D' where out: "out = (s, D')" by (cases out)
  have D': "eval_inv D'" "kept D D'" "resolved D' q s" "D' = D\<lparr>ed_snapshots := ed_snapshots D'\<rparr>"
    using resolve_inv [OF assms(1,3,4)] Inr out by blast+
  have "ed_runs D' = ed_runs D" by (subst D'(4)) simp
  then have "eval_inv (D'\<lparr>ed_runs := ed_runs D' @ [new_run config t i q s]\<rparr>)"
    using D'(1) new_run_ok [OF D'(3) assms(4), of "ed_results D'" config t i] assms(2)
    unfolding eval_inv_def by (simp add: ball_Un new_run_def Let_def)
  then show ?thesis using D'(2) Inr out by (simp add: create_run_def Let_def kept_def)
qed (use assms in \<open>simp add: create_run_def kept_def\<close>)

lemma fail_run_inv: "eval_inv D \<Longrightarrow> eval_inv (fail_run t i reason D) \<and> kept D (fail_run t i reason D)"
proof (cases "find_run D i")
  case (Some r)
  assume inv: "eval_inv D"
  have "r \<in> set (ed_runs D)" using Some by (auto simp: find_run_def dest: find_Some)
  then have "run_ok (ed_snapshots D) (ed_results D) r" using inv by (simp add: eval_inv_def)
  then have "eval_inv (fail_run t i reason D)"
    using Some by (auto simp: fail_run_def run_ok_def bound_ok_def intro!: save_run_inv [OF inv] split: option.splits)
  then show ?thesis using Some by (simp add: fail_run_def kept_def save_run_def)
qed (simp add: fail_run_def kept_def)

subsection \<open>Execution\<close>

lemma from_rank_map: "map g (from_rank f n xs) = from_rank (\<lambda>n x. g (f n x)) n xs"
  by (induction f n xs rule: from_rank.induct) simp_all

lemma set_from_rank: "y \<in> set (from_rank f n xs) \<Longrightarrow> \<exists>m x. y = f m x"
  by (induction f n xs rule: from_rank.induct) auto

lemma or_default_again: "b \<noteq> [] \<Longrightarrow> or_default (Some (or_default a b)) c = or_default a b"
  by (auto simp: or_default_def none_or_empty_def)

lemma case_key_retrieval:
  "comparison_case_key (run_retrieval_case E i k n c) = or_default (qc_case_id c) (''retrieval-'' @ str_int (int n))"
  by (simp add: comparison_case_key_def run_retrieval_case_def judged_retrieval_def Let_def or_default_again)

lemma case_key_fix:
  "comparison_case_key (run_fix_case E i req n c) = or_default (fc_case_id c) (''fix-'' @ str_int (int n))"
  by (simp add: comparison_case_key_def run_fix_case_def Let_def split_beta or_default_again)

lemma result_run_id:
  "ev_run_id (run_retrieval_case E i k n c) = i" "ev_run_id (run_fix_case E i req n c') = i"
  by (simp_all add: run_retrieval_case_def judged_retrieval_def run_fix_case_def Let_def split_beta)

lemma completed_run_simps [simp]:
  "er_id (completed_run t m rs r) = er_id r" "er_task_type (completed_run t m rs r) = er_task_type r"
  "er_snapshot_id (completed_run t m rs r) = er_snapshot_id r" "er_dataset_id (completed_run t m rs r) = er_dataset_id r"
  "er_dataset_version (completed_run t m rs r) = er_dataset_version r" "er_request (completed_run t m rs r) = er_request r"
  by (simp_all add: completed_run_def)

lemma bound_ok_completed: "bound_ok ss (completed_run t m rs r) = bound_ok ss r"
  by (cases "er_snapshot_id r") (simp_all add: bound_ok_def)

lemma store_results_inv:
  assumes "eval_inv D" "r \<in> set (ed_runs D)" "\<forall>e \<in> set rs. ev_run_id e = er_id r"
    "map comparison_case_key rs = case_keys (rq_cases (er_request r))"
  shows "eval_inv (store_results t r m rs D) \<and> kept D (store_results t r m rs D)"
proof -
  let ?rs = "filter (\<lambda>e. ev_run_id e \<noteq> er_id r) (ed_results D) @ rs"
  let ?D = "store_results t r m rs D"
  have own: "filter (\<lambda>e. ev_run_id e = er_id r) ?rs = rs" using assms(3) by (auto simp: filter_id_conv)
  have other: "filter (\<lambda>e. ev_run_id e = i) ?rs = filter (\<lambda>e. ev_run_id e = i) (ed_results D)" if "i \<noteq> er_id r" for i
    using assms(3) that by (auto simp: filter_empty_conv intro: filter_cong)
  have "run_ok (ed_snapshots D) ?rs x" if "x \<in> set (ed_runs ?D)" for x
  proof (cases "er_id x = er_id r")
    case True
    have "run_ok (ed_snapshots D) (ed_results D) r" using assms(1,2) by (simp add: eval_inv_def)
    then have "run_ok (ed_snapshots D) ?rs (completed_run t m rs r)"
      using own assms(4) unfolding run_ok_def bound_ok_completed by simp
    moreover have "x = completed_run t m rs r"
      using that True by (auto simp: store_results_def save_run_def clear_existing_results_def completed_run_def Let_def)
    ultimately show ?thesis by simp
  next
    case False
    then have "x \<in> set (ed_runs D)"
      using that by (auto simp: store_results_def save_run_def clear_existing_results_def completed_run_def Let_def split: if_splits)
    then have "run_ok (ed_snapshots D) (ed_results D) x" using assms(1) by (simp add: eval_inv_def)
    then show ?thesis unfolding run_ok_def other [OF False] .
  qed
  moreover have "map er_id (ed_runs ?D) = map er_id (ed_runs D)" "ed_snapshots ?D = ed_snapshots D"
    "ed_datasets ?D = ed_datasets D" "ed_results ?D = ?rs"
    by (auto simp: store_results_def save_run_def clear_existing_results_def completed_run_def Let_def)
  ultimately show ?thesis using assms(1) unfolding eval_inv_def kept_def by simp
qed

lemma execute_run_inv: "eval_inv D \<Longrightarrow> eval_inv (snd (execute_run E t i D)) \<and> kept D (snd (execute_run E t i D))"
proof (cases "find_run D i")
  case (Some r)
  assume inv: "eval_inv D"
  have r: "r \<in> set (ed_runs D)" using Some by (auto simp: find_run_def dest: find_Some)
  have "eval_inv (execute_retrieval_run E t r cs D) \<and> kept D (execute_retrieval_run E t r cs D)"
    if "rq_cases (er_request r) = Retrieval_cases cs" for cs
    unfolding execute_retrieval_run_def Let_def using that
    by (intro store_results_inv [OF inv r])
       (auto simp: from_rank_map case_key_retrieval case_keys_def result_run_id dest: set_from_rank)
  moreover have "eval_inv (execute_fix_run E t r cs D) \<and> kept D (execute_fix_run E t r cs D)"
    if "rq_cases (er_request r) = Fix_cases cs" for cs
    unfolding execute_fix_run_def Let_def using that
    by (intro store_results_inv [OF inv r])
       (auto simp: from_rank_map case_key_fix case_keys_def result_run_id dest: set_from_rank)
  ultimately show ?thesis
    using Some inv by (auto simp: execute_run_def kept_def split: eval_cases.splits)
qed (simp add: execute_run_def kept_def)

section \<open>Backfill\<close>

lemma bind_run_ok:
  assumes "run_ok ss rs r" "s \<in> set ss" "sn_cases s = rq_cases (er_request r)" "er_dataset_id r = Some (sn_dataset_id s)"
    "er_dataset_version r = None \<or> er_dataset_version r = Some (sn_version s)"
  shows "run_ok ss rs (bind_run s (sn_version s) r)"
  using assms by (auto simp: run_ok_def bound_ok_def bind_run_def Let_def)

lemma backfill_version_cases:
  "er_dataset_version r \<noteq> Some 0 \<Longrightarrow>
     er_dataset_version r = None \<or> er_dataset_version r = Some (backfill_version r d)"
  by (cases "er_dataset_version r") (auto simp: backfill_version_def)

lemma backfill_run_inv:
  assumes "eval_inv D" "run_ok (ed_snapshots D) (ed_results D) r" "er_dataset_id r \<noteq> None" "er_snapshot_id r = None"
    "j \<notin> sn_id ` set (ed_snapshots D)"
  shows "eval_inv (snd (backfill_run fmt t cm j r D)) \<and> kept D (snd (backfill_run fmt t cm j r D)) \<and>
    sn_id ` set (ed_snapshots (snd (backfill_run fmt t cm j r D))) \<subseteq> insert j (sn_id ` set (ed_snapshots D)) \<and>
    ed_results (snd (backfill_run fmt t cm j r D)) = ed_results D"
proof (cases "find_dataset D (or_default (er_dataset_id r) [])")
  case (Some d)
  note found = Some
  have id: "er_dataset_id r = Some (ds_id d)"
    using Some assms(3) by (auto simp: find_dataset_def or_default_def none_or_empty_def dest!: find_Some split: if_splits)
  define v where "v = backfill_version r d"
  have v: "er_dataset_version r = None \<or> er_dataset_version r = Some v"
    using assms(2,4) backfill_version_cases [of r d] by (simp add: run_ok_def bound_ok_def v_def)
  have cases: "er_task_type r = task_type_of (rq_cases (er_request r))" using assms(2) by (simp add: run_ok_def)
  have saved: "eval_inv (save_run r' X) \<and> kept X (save_run r' X) \<and> ed_snapshots (save_run r' X) = ed_snapshots X \<and>
    ed_results (save_run r' X) = ed_results X" if "eval_inv X" "run_ok (ed_snapshots X) (ed_results X) r'" for X r'
    using save_run_inv [OF that] by (simp add: kept_def save_run_def)
  show ?thesis
  proof (cases "version_snapshot D (ds_id d) v")
    case None
    define s where "s = (new_snapshot j d)\<lparr>sn_version := v, sn_cases := rq_cases (er_request r),
      sn_metadata := backfill_metadata fmt t d r\<rparr>"
    have s: "sn_id s = j" "sn_dataset_id s = ds_id d" "sn_version s = v" "sn_cases s = rq_cases (er_request r)"
      "sn_task_type s = ds_task_type d" by (simp_all add: s_def new_snapshot_def)
    show ?thesis
    proof (cases "ds_task_type d = er_task_type r")
      case True
      have none: "version_snapshot D (sn_dataset_id s) (sn_version s) = None" using None s by simp
      have ok: "snapshot_ok s" using True cases s by (simp add: snapshot_ok_def)
      note added = add_snapshot_inv [OF assms(1) _ none ok]
      have "run_ok (ed_snapshots (add_snapshot s D)) (ed_results (add_snapshot s D)) (bind_run s v r)"
        using bind_run_ok [of "ed_snapshots (add_snapshot s D)" "ed_results D" r s] run_ok_mono [OF assms(2)] s id v
        by (simp add: add_snapshot_def subset_insertI)
      then have "eval_inv (save_run (bind_run s v r) (add_snapshot s D)) \<and> kept D (save_run (bind_run s v r) (add_snapshot s D))"
        using saved [OF added(1)] added(2) assms(5) s by (simp add: kept_def)
      then show ?thesis
        using found None assms(1) s
        by (auto simp: backfill_run_def v_def [symmetric] Let_def s_def [symmetric] kept_def save_run_def add_snapshot_def)
    qed (use found assms(1) in \<open>simp add: backfill_run_def v_def [symmetric] Let_def kept_def subset_insertI\<close>)
  next
    case (Some s)
    then have s: "s \<in> set (ed_snapshots D)" "sn_dataset_id s = ds_id d" "sn_version s = v"
      by (auto simp: version_snapshot_def dest: find_Some)
    have "run_ok (ed_snapshots D) (ed_results D) (bind_run s v r)" if "sn_cases s = rq_cases (er_request r)"
      using bind_run_ok [OF assms(2) s(1) that] s id v by simp
    then show ?thesis
      using found Some assms(1) saved [OF assms(1)]
      by (auto simp: backfill_run_def v_def [symmetric] Let_def kept_def)
  qed
qed (use assms in \<open>auto simp: backfill_run_def kept_def Let_def\<close>)

lemma backfill_runs_inv:
  assumes "eval_inv D" "inj ids" "\<forall>m \<ge> n. ids m \<notin> sn_id ` set (ed_snapshots D)"
    "\<forall>r \<in> set rs. run_ok (ed_snapshots D) (ed_results D) r \<and> er_dataset_id r \<noteq> None \<and> er_snapshot_id r = None"
  shows "eval_inv (snd (backfill_runs fmt t cm ids n rs D)) \<and> kept D (snd (backfill_runs fmt t cm ids n rs D))"
  using assms
proof (induction rs arbitrary: n D)
  case (Cons r rs)
  let ?D = "snd (backfill_run fmt t cm (ids n) r D)"
  have one: "eval_inv ?D" "kept D ?D" "sn_id ` set (ed_snapshots ?D) \<subseteq> insert (ids n) (sn_id ` set (ed_snapshots D))"
    "ed_results ?D = ed_results D"
    using backfill_run_inv [OF Cons.prems(1), of r "ids n"] Cons.prems(3,4) by auto
  have "\<forall>m \<ge> Suc n. ids m \<notin> sn_id ` set (ed_snapshots ?D)"
  proof (intro allI impI)
    fix m assume "Suc n \<le> m"
    then have "ids m \<noteq> ids n" "ids m \<notin> sn_id ` set (ed_snapshots D)"
      using Cons.prems(3) by (auto simp: inj_eq [OF Cons.prems(2)])
    then show "ids m \<notin> sn_id ` set (ed_snapshots ?D)" using one(3) by blast
  qed
  moreover have "\<forall>r \<in> set rs. run_ok (ed_snapshots ?D) (ed_results ?D) r \<and> er_dataset_id r \<noteq> None \<and> er_snapshot_id r = None"
    using Cons.prems(4) one(2,4) run_ok_mono unfolding kept_def by auto
  ultimately have "eval_inv (snd (backfill_runs fmt t cm ids (Suc n) rs ?D)) \<and> kept ?D (snd (backfill_runs fmt t cm ids (Suc n) rs ?D))"
    using Cons.IH [OF one(1) Cons.prems(2)] by blast
  then show ?case using one(2) by (auto simp: kept_def Let_def split_beta)
qed (simp add: kept_def)

lemma backfill_inv:
  assumes "eval_inv D" "fresh_ids ids D"
  shows "eval_inv (snd (backfill fmt t ids did rid tt limit dry cm D)) \<and> kept D (snd (backfill fmt t ids did rid tt limit dry cm D))"
proof -
  let ?rs = "candidate_runs did rid tt limit D"
  have "set ?rs \<subseteq> {r \<in> set (ed_runs D). er_dataset_id r \<noteq> None \<and> er_snapshot_id r = None}"
    by (auto simp: candidate_runs_def Let_def split: option.splits if_splits dest: in_set_takeD)
  then have rows: "\<forall>r \<in> set ?rs. run_ok (ed_snapshots D) (ed_results D) r \<and> er_dataset_id r \<noteq> None \<and> er_snapshot_id r = None"
    using assms(1) by (auto simp: eval_inv_def)
  have ids: "inj ids" "\<forall>m \<ge> 0. ids m \<notin> sn_id ` set (ed_snapshots D)"
    using assms(2) by (auto simp: fresh_ids_def)
  note backfill_runs_inv [OF assms(1) ids rows, of fmt t cm]
  then show ?thesis using assms(1) by (simp add: backfill_def Let_def split_beta kept_def)
qed

section \<open>Every history\<close>

lemma eval_step_inv: "eval_step D D' \<Longrightarrow> eval_inv D \<Longrightarrow> eval_inv D' \<and> kept D D'"
  by (induction rule: eval_step.induct)
     (simp_all add: create_dataset_inv update_dataset_inv delete_dataset_inv create_run_inv execute_run_inv fail_run_inv backfill_inv)

lemma eval_steps_inv: "eval_step\<^sup>*\<^sup>* D D' \<Longrightarrow> eval_inv D \<Longrightarrow> eval_inv D' \<and> kept D D'"
proof (induction rule: rtranclp_induct)
  case (step X Y)
  then show ?case using eval_step_inv [OF step.hyps(2)] by (auto simp: kept_def)
qed (simp add: kept_def)

definition empty_eval_db :: eval_db where
  "empty_eval_db = \<lparr>ed_datasets = [], ed_snapshots = [], ed_runs = [], ed_results = []\<rparr>"

lemma eval_inv_empty: "eval_inv empty_eval_db"
  by (simp add: eval_inv_def empty_eval_db_def)

lemma distinct_key: "distinct (map f xs) \<Longrightarrow> x \<in> set xs \<Longrightarrow> y \<in> set xs \<Longrightarrow> f x = f y \<Longrightarrow> x = y"
  by (auto simp: distinct_map inj_on_def)

text \<open>
  C12.  Snapshots are faithful.  Over every history of creating, updating and deleting datasets and of creating,
  executing, failing and backfilling runs: there is one snapshot of each version of a dataset; the version a dataset
  is at has a snapshot with its cases; a run that is bound to a snapshot was made with exactly the cases of that
  snapshot, for its dataset and version; and no snapshot is ever changed or removed.
\<close>

theorem snapshots_are_faithful:
  assumes "eval_step\<^sup>*\<^sup>* empty_eval_db D" "eval_step\<^sup>*\<^sup>* D D'"
  shows "(\<forall>s \<in> set (ed_snapshots D'). \<forall>s' \<in> set (ed_snapshots D').
       sn_dataset_id s = sn_dataset_id s' \<and> sn_version s = sn_version s' \<longrightarrow> s = s') \<and>
     (\<forall>d \<in> set (ed_datasets D'). \<exists>s \<in> set (ed_snapshots D').
       sn_dataset_id s = ds_id d \<and> sn_version s = ds_version d \<and> sn_cases s = ds_cases d \<and> sn_task_type s = ds_task_type d) \<and>
     (\<forall>r \<in> set (ed_runs D'). er_snapshot_id r \<noteq> None \<longrightarrow> (\<exists>s \<in> set (ed_snapshots D').
       er_snapshot_id r = Some (sn_id s) \<and> sn_cases s = rq_cases (er_request r) \<and>
       er_dataset_id r = Some (sn_dataset_id s) \<and> er_dataset_version r = Some (sn_version s))) \<and>
     set (ed_snapshots D) \<subseteq> set (ed_snapshots D')"
proof -
  have D: "eval_inv D" using eval_steps_inv [OF assms(1) eval_inv_empty] by blast
  have inv: "eval_inv D'" "kept D D'" using eval_steps_inv [OF assms(2) D] by blast+
  have "s = s'" if "s \<in> set (ed_snapshots D')" "s' \<in> set (ed_snapshots D')" "sn_dataset_id s = sn_dataset_id s'"
    "sn_version s = sn_version s'" for s s'
    using distinct_key [of version_key "ed_snapshots D'" s s'] inv(1) that by (simp add: eval_inv_def version_key_def)
  moreover have "\<exists>s \<in> set (ed_snapshots D'). sn_dataset_id s = ds_id d \<and> sn_version s = ds_version d \<and> sn_cases s = ds_cases d \<and>
      sn_task_type s = ds_task_type d" if "d \<in> set (ed_datasets D')" for d
    using inv(1) that unfolding eval_inv_def dataset_ok_def snapshot_ok_def version_key_def by (metis prod.inject)
  moreover have "\<exists>s \<in> set (ed_snapshots D'). er_snapshot_id r = Some (sn_id s) \<and> sn_cases s = rq_cases (er_request r) \<and>
       er_dataset_id r = Some (sn_dataset_id s) \<and> er_dataset_version r = Some (sn_version s)"
    if "r \<in> set (ed_runs D')" "er_snapshot_id r \<noteq> None" for r
  proof -
    have "bound_ok (ed_snapshots D') r" using inv(1) that by (simp add: eval_inv_def run_ok_def)
    then show ?thesis using that(2) by (auto simp: bound_ok_def)
  qed
  ultimately show ?thesis using inv(2) unfolding kept_def by blast
qed

section \<open>What a passed gate means\<close>

text \<open>The cases both runs have, that the baseline passes and the candidate does not.\<close>

definition regressed_keys :: "evaluation list \<Rightarrow> evaluation list \<Rightarrow> string set" where
  "regressed_keys brs crs =
     {k. \<exists>b c. keyed_results brs k = Some b \<and> keyed_results crs k = Some c \<and> ev_passed b \<and> \<not> ev_passed c}"

lemma keyed_results_in: "keyed_results rs k \<noteq> None \<longleftrightarrow> k \<in> comparison_case_key ` set rs"
  by (simp add: keyed_results_def map_of_eq_None_iff image_image flip: not_None_eq)

lemma regressed_keys_have: "regressed_keys brs crs \<subseteq> comparison_case_key ` set brs"
proof
  fix k assume "k \<in> regressed_keys brs crs"
  then have "keyed_results brs k \<noteq> None" by (auto simp: regressed_keys_def)
  then show "k \<in> comparison_case_key ` set brs" unfolding keyed_results_in .
qed

lemma regressed_keys_finite: "finite (regressed_keys brs crs)"
  by (rule finite_subset [OF regressed_keys_have]) simp

lemma compare_case_simps [simp]:
  "cc_case_id (compare_case brs crs k) = k"
  "cc_status (compare_case brs crs k) = comparison_case_status (keyed_results brs k) (keyed_results crs k)"
  by (simp_all add: compare_case_def Let_def)

lemma status_regressed:
  "comparison_case_status b c = Regressed \<longleftrightarrow> (\<exists>x y. b = Some x \<and> c = Some y \<and> ev_passed x \<and> \<not> ev_passed y)"
  by (auto simp: comparison_case_status_def split: option.splits)

lemma count_if_sort_key: "count_if p (sort_key f xs) = count_if p xs"
  by (simp add: count_if_def filter_sort)

lemma regressions_card:
  "count_if (\<lambda>x. cc_status x = Regressed) (comparison_cases brs crs) = card (regressed_keys brs crs)"
proof -
  let ?keys = "sort (remdups (map comparison_case_key (brs @ crs)))"
  let ?p = "\<lambda>k. comparison_case_status (keyed_results brs k) (keyed_results crs k) = Regressed"
  have "count_if (\<lambda>x. cc_status x = Regressed) (comparison_cases brs crs) = length (filter ?p ?keys)"
    unfolding comparison_cases_def Let_def count_if_sort_key by (simp add: count_if_def filter_map comp_def)
  also have "\<dots> = card (set (filter ?p ?keys))" by (rule distinct_card [symmetric]) simp
  also have "set (filter ?p ?keys) = regressed_keys brs crs"
  proof -
    have "k \<in> set ?keys" if "k \<in> regressed_keys brs crs" for k
      using regressed_keys_have [of brs crs] that by auto
    then show ?thesis by (auto simp: status_regressed regressed_keys_def)
  qed
  finally show ?thesis .
qed

lemma passed_checks: "gate_status checks = ''passed'' \<longleftrightarrow> (\<forall>k \<in> set checks. gk_passed k = Some True)"
proof -
  have "v = Some True \<longleftrightarrow> v \<noteq> None \<and> v \<noteq> Some False" for v :: "bool option" by (cases v) auto
  then show ?thesis by (simp add: gate_status_def) blast
qed

lemma find_delta_primary:
  "find_delta (comparison_metric_deltas b c primary) primary = Some (delta_of b c (primary, ''higher_is_better''))"
  by (simp add: find_delta_def comparison_metric_deltas_def delta_of_def Let_def)


lemma find_delta_map: "find_delta (map (delta_of b c) specs) name = Some d \<Longrightarrow> \<exists>dir. d = delta_of b c (name, dir)"
proof -
  assume "find_delta (map (delta_of b c) specs) name = Some d"
  then have "d \<in> delta_of b c ` set specs" "md_name d = name" by (auto simp: find_delta_def dest!: find_Some)
  moreover have "md_name (delta_of b c spec) = fst spec" for spec by (simp add: delta_of_def Let_def)
  ultimately show ?thesis by auto
qed

lemma metric_delta_of_delta:
  assumes "find_delta (comparison_metric_deltas b c primary) name = Some d" "md_delta d = Some x"
  shows "\<exists>u v. numeric_metric (er_metrics b) name = Some u \<and> numeric_metric (er_metrics c) name = Some v \<and> x = v - u"
proof -
  obtain dir where "d = delta_of b c (name, dir)"
    using find_delta_map assms(1) unfolding comparison_metric_deltas_def by blast
  then show ?thesis using assms(2) by (auto simp: delta_of_def Let_def split: option.splits)
qed

lemma warnings_none:
  assumes "gate_compatibility_warnings (comparison_warnings b brs c crs) = []"
  shows "er_status b = ''completed''" "er_status c = ''completed''" "er_dataset_id b = er_dataset_id c"
    "er_dataset_version b = er_dataset_version c" "er_case_count b = er_case_count c"
  using assms by (auto simp: gate_compatibility_warnings_def comparison_warnings_def snapshot_warning_def split: if_splits)

lemma snapshot_check:
  "dataset_snapshot_check_passed b c required = Some True \<longleftrightarrow> \<not> required \<or> (\<not> none_or_empty b \<and> b = c)"
  by (auto simp: dataset_snapshot_check_passed_def)

lemma increase_check_passed:
  assumes "\<forall>k \<in> set (increase_check name bound delta). gk_passed k = Some True" "bound = Some m"
  shows "\<exists>x. delta = Some x \<and> x \<le> m"
  using assms by (auto simp: increase_check_def)

lemma comparison_contexts:
  "rx_snapshot_id (sm_baseline_context (cp_summary (comparison_of b brs c crs))) = er_snapshot_id b"
  "rx_snapshot_id (sm_candidate_context (cp_summary (comparison_of b brs c crs))) = er_snapshot_id c"
  "cp_warnings (comparison_of b brs c crs) = comparison_warnings b brs c crs"
  "sm_regressions (cp_summary (comparison_of b brs c crs)) = card (regressed_keys brs crs)"
  "sm_primary_delta (cp_summary (comparison_of b brs c crs)) = Some (delta_of b c (primary_metric_for_run b, ''higher_is_better''))"
  "cp_deltas (comparison_of b brs c crs) = comparison_metric_deltas b c (primary_metric_for_run b)"
  by (simp_all add: comparison_of_def comparison_summary_of_def run_context_of_def Let_def regressions_card find_delta_primary)

text \<open>What the checks of a passed gate say of the two runs.\<close>

lemma gate_checks_passed:
  assumes "gate_status (gate_checks (comparison_of b brs c crs) p) = ''passed''"
  defines "primary \<equiv> primary_metric_for_run b"
  shows "gp_require_matching_snapshot p \<Longrightarrow> \<not> none_or_empty (er_snapshot_id b) \<and> er_snapshot_id b = er_snapshot_id c"
    "\<not> gp_allow_incompatible p \<Longrightarrow> gate_compatibility_warnings (comparison_warnings b brs c crs) = []"
    "\<exists>x y. numeric_metric (er_metrics b) primary = Some x \<and> numeric_metric (er_metrics c) primary = Some y \<and>
       x - gp_max_primary_metric_drop p \<le> y"
    "int (card (regressed_keys brs crs)) \<le> gp_max_regressed_cases p"
    "gp_max_avg_latency_increase p = Some m \<Longrightarrow>
       \<exists>x y. numeric_metric (er_metrics b) ''avg_latency_sec'' = Some x \<and>
         numeric_metric (er_metrics c) ''avg_latency_sec'' = Some y \<and> y \<le> x + m"
proof -
  let ?cp = "comparison_of b brs c crs"
  have checks: "\<forall>k \<in> set (gate_checks ?cp p). gk_passed k = Some True"
    using assms(1) unfolding passed_checks .
  note contexts = comparison_contexts [of b brs c crs, folded primary_def]
  note passed = checks [unfolded gate_checks_def contexts Let_def, simplified]
  show "gp_require_matching_snapshot p \<Longrightarrow> \<not> none_or_empty (er_snapshot_id b) \<and> er_snapshot_id b = er_snapshot_id c"
    using passed by (auto simp: snapshot_check)
  show "\<not> gp_allow_incompatible p \<Longrightarrow> gate_compatibility_warnings (comparison_warnings b brs c crs) = []"
    using passed by simp
  show "int (card (regressed_keys brs crs)) \<le> gp_max_regressed_cases p"
    using passed by simp
  obtain x where x: "md_delta (delta_of b c (primary, ''higher_is_better'')) = Some x" "- gp_max_primary_metric_drop p \<le> x"
    using passed by auto
  show "\<exists>x y. numeric_metric (er_metrics b) primary = Some x \<and> numeric_metric (er_metrics c) primary = Some y \<and>
       x - gp_max_primary_metric_drop p \<le> y"
    using metric_delta_of_delta [OF find_delta_primary x(1)] x(2) by auto
  assume "gp_max_avg_latency_increase p = Some m"
  then obtain d where d: "metric_delta_of (comparison_metric_deltas b c primary) ''avg_latency_sec'' = Some d" "d \<le> m"
    using increase_check_passed [of "''avg_latency_increase''" "gp_max_avg_latency_increase p"
        "metric_delta_of (comparison_metric_deltas b c primary) ''avg_latency_sec''" m] passed by blast
  then show "\<exists>x y. numeric_metric (er_metrics b) ''avg_latency_sec'' = Some x \<and>
         numeric_metric (er_metrics c) ''avg_latency_sec'' = Some y \<and> y \<le> x + m"
    using metric_delta_of_delta [of b c primary "''avg_latency_sec''" _ d]
    by (auto simp: metric_delta_of_def split: option.splits)
qed

lemma gate_runs:
  assumes "evaluate_gate D i j = Inr g"
  shows "\<exists>d b c. find_dataset D i = Some d \<and> ds_id d = i \<and> \<not> none_or_empty (ds_baseline_run_id d) \<and>
    find_run D (the (ds_baseline_run_id d)) = Some b \<and> find_run D j = Some c \<and> er_dataset_id c = Some i \<and>
    gr_status g = gate_status (gate_checks (comparison_of b (run_results D (the (ds_baseline_run_id d))) c (run_results D j))
      (ds_gate_policy d))"
proof -
  obtain d where d: "find_dataset D i = Some d" using assms by (cases "find_dataset D i") (auto simp: evaluate_gate_def)
  then have "ds_id d = i" by (auto simp: find_dataset_def dest: find_Some)
  then show ?thesis
    using assms d by (auto simp: evaluate_gate_def compare_runs_def Let_def split: if_splits option.splits)
qed

text \<open>Runs bound to one snapshot were made with the same cases.\<close>

lemma same_snapshot_same_cases:
  assumes "eval_inv D" "run_ok (ed_snapshots D) rs b" "run_ok (ed_snapshots D) rs c"
    "\<not> none_or_empty (er_snapshot_id b) \<and> er_snapshot_id b = er_snapshot_id c"
  shows "rq_cases (er_request b) = rq_cases (er_request c)"
proof -
  obtain n where n: "er_snapshot_id b = Some n" "er_snapshot_id c = Some n"
    using assms(4) by (cases "er_snapshot_id c") (auto simp: none_or_empty_def)
  then obtain s s' where s: "s \<in> set (ed_snapshots D)" "sn_id s = n" "sn_cases s = rq_cases (er_request b)"
    "s' \<in> set (ed_snapshots D)" "sn_id s' = n" "sn_cases s' = rq_cases (er_request c)"
    using assms(2,3) by (auto simp: run_ok_def bound_ok_def)
  then have "s = s'" using distinct_key [of sn_id "ed_snapshots D" s s'] assms(1) by (simp add: eval_inv_def)
  then show ?thesis using s by simp
qed

text \<open>Completed runs of the same cases have results for the same keys.\<close>

lemma no_regression:
  assumes "run_ok ss rs b" "run_ok ss rs c" "brs = filter (\<lambda>e. ev_run_id e = er_id b) rs"
    "crs = filter (\<lambda>e. ev_run_id e = er_id c) rs" "er_status b = ''completed''" "er_status c = ''completed''"
    "rq_cases (er_request b) = rq_cases (er_request c)" "card (regressed_keys brs crs) = 0"
    "keyed_results brs k = Some x" "ev_passed x"
  shows "\<exists>y. keyed_results crs k = Some y \<and> ev_passed y"
proof -
  have keys: "map comparison_case_key brs = map comparison_case_key crs"
    using assms(1-7) by (simp add: run_ok_def)
  then have "comparison_case_key ` set brs = comparison_case_key ` set crs" by (metis list.set_map)
  then have "keyed_results crs k \<noteq> None"
    using keyed_results_in [of brs k] keyed_results_in [of crs k] assms(9) by simp
  then obtain y where y: "keyed_results crs k = Some y" by auto
  have "regressed_keys brs crs = {}" using assms(8) regressed_keys_finite [of brs crs] by simp
  then have "k \<notin> regressed_keys brs crs" by simp
  then show ?thesis using y assms(9,10) unfolding regressed_keys_def by blast
qed


text \<open>
  Results are compared by the id of their case, and nothing keeps the ids of a dataset apart: of two cases with one
  id the last counts, and a regression of the first is not seen.
\<close>

lemma duplicate_ids_hide_a_regression:
  assumes "\<forall>e \<in> {b1, b2, c1, c2}. comparison_case_key e = k" "ev_passed b1" "\<not> ev_passed c1" "ev_passed b2" "ev_passed c2"
  shows "regressed_keys [b1, b2] [c1, c2] = {}"
  using assms by (auto simp: regressed_keys_def keyed_results_def split: if_splits)

section \<open>A benchmark with a baseline and a candidate\<close>

definition w_dataset :: dataset where
  "w_dataset = \<lparr>ds_id = ''d'', ds_name = ''n'', ds_task_type = ''fix'', ds_description = None, ds_version = 1,
     ds_baseline_run_id = None, ds_gate_policy = default_gate_policy, ds_cases = Fix_cases [w_fix_case], ds_metadata = []\<rparr>"

definition w_create :: dataset_create where
  "w_create = \<lparr>dc_name = ''n'', dc_task_type = ''fix'', dc_description = None, dc_version = 1, dc_baseline_run_id = None,
     dc_gate_policy = default_gate_policy, dc_cases = [fix_case_dump w_fix_case], dc_metadata = []\<rparr>"

definition w_request :: eval_request where
  "w_request = \<lparr>rq_name = None, rq_dataset_id = Some ''d'', rq_dataset_version = None, rq_snapshot_id = None,
     rq_cases = Fix_cases [w_fix_case], rq_top_k = 5, rq_require_tests_ran = True\<rparr>"

definition w_update :: dataset_update where
  "w_update = \<lparr>du_name = None, du_task_type = None, du_description = None, du_version = None,
     du_baseline_run_id = Some (Some ''b''), du_gate_policy = None, du_cases = None, du_metadata = None\<rparr>"

definition w_snapshot :: snapshot where
  "w_snapshot = new_snapshot ''s'' w_dataset"

definition w_results :: "string \<Rightarrow> evaluation list" where
  "w_results i = [run_fix_case w_case_env i True 1 w_fix_case]"

definition w_running :: "string \<Rightarrow> eval_run" where
  "w_running i = new_run [] 0 i w_request (Some w_snapshot)"

definition w_completed :: "string \<Rightarrow> eval_run" where
  "w_completed i = completed_run 1 (fix_metrics None (w_results i)) (w_results i) (w_running i)"

definition w_state :: "dataset \<Rightarrow> eval_run list \<Rightarrow> evaluation list \<Rightarrow> eval_db" where
  "w_state d rs es = \<lparr>ed_datasets = [d], ed_snapshots = [w_snapshot], ed_runs = rs, ed_results = es\<rparr>"

definition w_with_baseline :: dataset where
  "w_with_baseline = w_dataset\<lparr>ds_baseline_run_id := Some ''b''\<rparr>"

definition w_gated :: eval_db where
  "w_gated = w_state w_with_baseline [w_completed ''b'', w_completed ''c''] (w_results ''b'' @ w_results ''c'')"

lemma w_case_roundtrip: "fix_case_of (fix_case_dump w_fix_case) = Some w_fix_case"
  by (simp add: fix_case_of_def fix_case_dump_def w_fix_case_def optional_field_def str_or_none_def text_field_def characters_def
      texts_field_def texts_value_def status_field_def normalize_legacy_success_def EXPECTED_STATUSES_def)

lemma w_created: "create_dataset ''d'' ''s'' w_create empty_eval_db = (Inr w_dataset, w_state w_dataset [] [])"
  by (simp add: create_dataset_def w_create_def validate_cases_def w_case_roundtrip validate_baseline_run_def none_or_empty_def
      empty_eval_db_def upsert_snapshot_def version_snapshot_def add_snapshot_def w_state_def w_snapshot_def w_dataset_def
      new_snapshot_def py_strip_def is_space_def Let_def)

lemma w_running_simps [simp]:
  "er_id (w_running i) = i" "er_task_type (w_running i) = ''fix''" "rq_cases (er_request (w_running i)) = Fix_cases [w_fix_case]"
  "er_dataset_id (w_running i) = Some ''d''" "er_dataset_version (w_running i) = Some 1" "er_snapshot_id (w_running i) = Some ''s''"
  "rq_require_tests_ran (er_request (w_running i)) = True" "er_case_count (w_running i) = 1"
  by (simp_all add: w_running_def new_run_def w_request_def bound_version_def w_snapshot_def new_snapshot_def w_dataset_def Let_def)

lemma w_completed_simps [simp]:
  "er_id (w_completed i) = i" "er_task_type (w_completed i) = ''fix''" "er_status (w_completed i) = ''completed''"
  "er_dataset_id (w_completed i) = Some ''d''" "er_dataset_version (w_completed i) = Some 1" "er_snapshot_id (w_completed i) = Some ''s''"
  "er_metrics (w_completed i) = fix_metrics None (w_results i)" "er_case_count (w_completed i) = 1"
  by (simp_all add: w_completed_def) (simp_all add: completed_run_def)

lemma w_results_of: "e \<in> set (w_results i) \<Longrightarrow> ev_run_id e = i" "filter (\<lambda>e. ev_run_id e = i) (w_results i) = w_results i"
  by (simp_all add: w_results_def result_run_id)

lemma w_create_run:
  assumes "ds_id d = ''d''" "ds_task_type d = ''fix''" "ds_version d = 1"
  shows "create_run [] 0 i ''j'' w_request (w_state d rs es) = (Inr (w_running i), w_state d (rs @ [w_running i]) es)"
  using assms by (simp add: create_run_def resolve_dataset_snapshot_def matching_dataset_snapshot_def w_request_def none_or_empty_def
      find_dataset_def version_snapshot_def w_state_def w_snapshot_def new_snapshot_def w_dataset_def Let_def w_running_def)

lemma w_execute:
  assumes "\<forall>r \<in> set rs. er_id r \<noteq> i" "\<forall>e \<in> set es. ev_run_id e \<noteq> i"
  shows "execute_run w_case_env 1 i (w_state d (rs @ [w_running i]) es) = (None, w_state d (rs @ [w_completed i]) (es @ w_results i))"
proof -
  have found: "find_run (w_state d (rs @ [w_running i]) es) i = Some (w_running i)"
    using assms(1) by (induction rs) (auto simp: find_run_def w_state_def)
  have others: "map (\<lambda>e. if er_id e = i then x else e) rs = rs" for x using assms(1) by (simp add: map_idI)
  have kept: "filter (\<lambda>e. ev_run_id e \<noteq> i) es = es" using assms(2) by (simp add: filter_id_conv)
  have "ce_cost_rate w_case_env = None" by (simp add: w_case_env_def)
  then have "execute_run w_case_env 1 i (w_state d (rs @ [w_running i]) es) =
      (None, store_results 1 (w_running i) (fix_metrics None (w_results i)) (w_results i) (w_state d (rs @ [w_running i]) es))"
    by (simp add: execute_run_def found execute_fix_run_def Let_def w_results_def)
  then show ?thesis
    by (simp add: store_results_def clear_existing_results_def save_run_def w_state_def others kept Let_def flip: w_completed_def)
qed

lemma w_updated:
  "update_dataset ''j'' ''d'' w_update (w_state w_dataset [w_completed ''b''] es) =
     (Inr w_with_baseline, w_state w_with_baseline [w_completed ''b''] es)"
proof -
  let ?D = "w_state w_dataset [w_completed ''b''] es"
  have "validate_cases ''fix'' (cases_dump (Fix_cases [w_fix_case])) = Inr (Fix_cases [w_fix_case])"
    by (simp add: validate_cases_def w_case_roundtrip)
  moreover have "validate_baseline_run ?D ''d'' (Some ''b'') ''fix'' = Inr (Some ''b'')"
    by (simp add: validate_baseline_run_def none_or_empty_def find_run_def w_state_def)
  ultimately have "updated_dataset ?D w_update w_dataset = Inr w_with_baseline"
    by (simp add: updated_dataset_def updated_name_def updated_cases_def updated_task_type_def updated_baseline_def
        updated_version_def w_update_def w_dataset_def w_with_baseline_def Let_def)
  then show ?thesis
    by (simp add: update_dataset_def find_dataset_def w_state_def save_dataset_def upsert_snapshot_def version_snapshot_def
        w_snapshot_def new_snapshot_def w_dataset_def w_with_baseline_def)
qed

lemma w_fresh:
  "ed_snapshots (w_state d rs es) = [w_snapshot]" "ed_runs (w_state d rs es) = rs" "sn_id w_snapshot = ''s''"
  "rq_dataset_version w_request = None" "ds_id w_dataset = ''d''" "ds_task_type w_dataset = ''fix''" "ds_version w_dataset = 1"
  "ds_id w_with_baseline = ''d''" "ds_task_type w_with_baseline = ''fix''" "ds_version w_with_baseline = 1"
  by (simp_all add: w_state_def w_snapshot_def new_snapshot_def w_request_def w_dataset_def w_with_baseline_def)

lemma three_steps:
  assumes "eval_step A B" "eval_step B C" "eval_step C D"
  shows "eval_step\<^sup>*\<^sup>* A D"
proof -
  have "eval_step\<^sup>*\<^sup>* A B" using assms(1) by (rule r_into_rtranclp)
  then have "eval_step\<^sup>*\<^sup>* A C" using assms(2) by (rule rtranclp.rtrancl_into_rtrancl)
  then show ?thesis using assms(3) by (rule rtranclp.rtrancl_into_rtrancl)
qed

lemma w_history:
  "eval_step\<^sup>*\<^sup>* empty_eval_db (w_state w_dataset [w_completed ''b''] (w_results ''b''))"
  "eval_step\<^sup>*\<^sup>* (w_state w_dataset [w_completed ''b''] (w_results ''b'')) w_gated"
proof -
  have "eval_step empty_eval_db (snd (create_dataset ''d'' ''s'' w_create empty_eval_db))"
    by (rule create_dataset) (simp_all add: empty_eval_db_def)
  then have 1: "eval_step empty_eval_db (w_state w_dataset [] [])" unfolding w_created snd_conv .
  have created: "create_run [] 0 i ''j'' w_request (w_state d rs es) = (Inr (w_running i), w_state d (rs @ [w_running i]) es)"
    if "d \<in> {w_dataset, w_with_baseline}" for i d rs es
    using that by (intro w_create_run) (auto simp: w_fresh)
  have "eval_step (w_state w_dataset [] []) (snd (create_run [] 0 ''b'' ''j'' w_request (w_state w_dataset [] [])))"
    by (rule create_run) (simp_all add: w_fresh)
  then have 2: "eval_step (w_state w_dataset [] []) (w_state w_dataset [w_running ''b''] [])"
    by (simp only: created insertI1 snd_conv append_Nil)
  have "execute_run w_case_env 1 ''b'' (w_state w_dataset [w_running ''b''] []) =
      (None, w_state w_dataset [w_completed ''b''] (w_results ''b''))"
    using w_execute [of "[]" "''b''" "[]" w_dataset] unfolding append_Nil by (simp only: list.set ball_empty simp_thms)
  then have 3: "eval_step (w_state w_dataset [w_running ''b''] []) (w_state w_dataset [w_completed ''b''] (w_results ''b''))"
    using eval_step.execute_run [of "w_state w_dataset [w_running ''b''] []" w_case_env 1 "''b''"] by (simp only: snd_conv)
  show "eval_step\<^sup>*\<^sup>* empty_eval_db (w_state w_dataset [w_completed ''b''] (w_results ''b''))"
    by (rule three_steps [OF 1 2 3])
  let ?D = "w_state w_dataset [w_completed ''b''] (w_results ''b'')"
  have "eval_step ?D (snd (update_dataset ''j'' ''d'' w_update ?D))"
    by (rule update_dataset) (simp add: w_fresh)
  then have 4: "eval_step ?D (w_state w_with_baseline [w_completed ''b''] (w_results ''b''))" unfolding w_updated snd_conv .
  let ?D = "w_state w_with_baseline [w_completed ''b''] (w_results ''b'')"
  have "eval_step ?D (snd (create_run [] 0 ''c'' ''j'' w_request ?D))"
    by (rule create_run) (simp_all add: w_fresh)
  then have 5: "eval_step ?D (w_state w_with_baseline [w_completed ''b'', w_running ''c''] (w_results ''b''))"
    by (simp only: created insertI1 insertI2 snd_conv append_Cons append_Nil)
  have "execute_run w_case_env 1 ''c'' (w_state w_with_baseline [w_completed ''b'', w_running ''c''] (w_results ''b'')) = (None, w_gated)"
  proof -
    have "\<forall>r \<in> set [w_completed ''b'']. er_id r \<noteq> ''c''" by simp
    moreover have "\<forall>e \<in> set (w_results ''b''). ev_run_id e \<noteq> ''c''" using w_results_of(1) [of _ "''b''"] by auto
    ultimately show ?thesis
      unfolding w_gated_def using w_execute [of "[w_completed ''b'']" "''c''" "w_results ''b''" w_with_baseline]
      by (simp only: append_Cons append_Nil)
  qed
  then have 6: "eval_step (w_state w_with_baseline [w_completed ''b'', w_running ''c''] (w_results ''b'')) w_gated"
    using eval_step.execute_run [of "w_state w_with_baseline [w_completed ''b'', w_running ''c''] (w_results ''b'')" w_case_env 1 "''c''"]
    by (simp only: snd_conv)
  show "eval_step\<^sup>*\<^sup>* (w_state w_dataset [w_completed ''b''] (w_results ''b'')) w_gated"
    by (rule three_steps [OF 4 5 6])
qed

lemma snapshots_are_faithful_witness:
  "\<exists>s \<in> set (ed_snapshots w_gated). er_snapshot_id (w_completed ''c'') = Some (sn_id s) \<and> sn_cases s = Fix_cases [w_fix_case]"
proof -
  have "w_completed ''c'' \<in> set (ed_runs w_gated)" "er_snapshot_id (w_completed ''c'') \<noteq> None"
    "rq_cases (er_request (w_completed ''c'')) = Fix_cases [w_fix_case]"
    by (simp_all add: w_gated_def w_state_def) (simp add: w_completed_def)
  then show ?thesis using snapshots_are_faithful [OF w_history] by metis
qed


lemma gate_checks_pass:
  assumes "p = default_gate_policy" "er_snapshot_id b = Some n" "er_snapshot_id c = Some n" "n \<noteq> []"
    "gate_compatibility_warnings (comparison_warnings b brs c crs) = []" "regressed_keys brs crs = {}"
    "numeric_metric (er_metrics b) (primary_metric_for_run b) = Some x" "numeric_metric (er_metrics c) (primary_metric_for_run b) = Some x"
  shows "gate_status (gate_checks (comparison_of b brs c crs) p) = ''passed''"
  using assms unfolding passed_checks gate_checks_def comparison_contexts Let_def
  by (simp add: default_gate_policy_def increase_check_def dataset_snapshot_check_passed_def none_or_empty_def delta_of_def Let_def)

lemma w_passed: "\<forall>r \<in> set (w_results i). ev_passed r"
  by (simp add: w_results_def run_fix_case_passes)

lemma w_gate: "\<exists>g. evaluate_gate w_gated ''d'' ''c'' = Inr g \<and> gr_status g = ''passed''"
proof -
  have runs: "find_run w_gated ''b'' = Some (w_completed ''b'')" "find_run w_gated ''c'' = Some (w_completed ''c'')"
    by (simp_all add: find_run_def w_gated_def w_fresh)
  have d: "find_dataset w_gated ''d'' = Some w_with_baseline"
    by (simp add: find_dataset_def w_gated_def w_state_def w_fresh)
  have results: "run_results w_gated i = w_results i" if "i \<in> {''b'', ''c''}" for i
  proof -
    have "filter (\<lambda>e. ev_run_id e = i) (w_results k) = []" if "k \<noteq> i" for k
      using w_results_of(1) [of _ k] that by (auto simp: filter_empty_conv)
    then show ?thesis using that by (auto simp: run_results_def w_gated_def w_state_def w_results_of(2))
  qed
  have primary: "primary_metric_for_run (w_completed i) = ''final_verified_fix_rate''" for i
    by (simp add: primary_metric_for_run_def mget_def fix_metrics_def Let_def)
  have metric: "numeric_metric (er_metrics (w_completed i)) ''final_verified_fix_rate'' =
      Some (share (count_if verified_result (w_results i)) (length (w_results i)))" for i
    by (simp add: numeric_metric_def mget_def fix_metrics_def Let_def)
  have verified: "count_if verified_result (w_results i) = 1" for i
    by (simp add: count_if_def w_results_def w_verified_result)
  have keys: "comparison_case_key ` set (w_results i) = {''fix-'' @ str_int 1}" for i
    by (simp add: w_results_def case_key_fix w_fix_case_def or_default_def none_or_empty_def)
  have "comparison_warnings (w_completed ''b'') (w_results ''b'') (w_completed ''c'') (w_results ''c'') = []"
    by (simp add: comparison_warnings_def keys mget_def fix_metrics_def Let_def)
  moreover have "regressed_keys (w_results ''b'') (w_results ''c'') = {}"
    using w_passed [of "''c''"] by (auto simp: regressed_keys_def keyed_results_def dest!: map_of_SomeD)
  ultimately have "gate_status (gate_checks (comparison_of (w_completed ''b'') (w_results ''b'') (w_completed ''c'') (w_results ''c''))
      default_gate_policy) = ''passed''"
    using metric verified by (intro gate_checks_pass [where n = "''s''"]) (simp_all add: gate_compatibility_warnings_def primary w_results_def)
  then show ?thesis
    using d runs by (simp add: evaluate_gate_def compare_runs_def results w_with_baseline_def w_dataset_def none_or_empty_def Let_def)
qed


end
