(* ===== verification/Access.thy ===== *)
theory Access
  imports Tables
begin

text \<open>
  Who may call the API: the signed identities and service tokens of \<open>backend/app/api/auth.py\<close>, the store that
  refuses a nonce twice (\<open>core/replay_cache.py\<close>) and the bearer tokens of the MCP endpoints (\<open>mcp/auth.py\<close>,
  \<open>mcp/client_auth.py\<close>).  Headers are characters of latin-1, as the server decodes them.  The keyed digest and
  the hash are parameters; the clock is read where the code reads it.
\<close>

datatype http_error = Http int string

definition unhandled :: http_error where
  \<comment> \<open>what the server answers to an exception nobody catches\<close>
  "unhandled = Http 500 ''Internal Server Error''"

section \<open>Text of latin-1\<close>

definition header_space :: "char \<Rightarrow> bool" where
  "header_space c \<longleftrightarrow> is_space c \<or> of_char c \<in> {133, 160 :: nat}"

definition header_strip :: "string \<Rightarrow> string" where
  \<comment> \<open>\<open>s.strip()\<close>\<close>
  "header_strip s = rev (dropWhile header_space (rev (dropWhile header_space s)))"

definition header_lower_char :: "char \<Rightarrow> char" where
  "header_lower_char c =
     (let n = (of_char c :: nat)
      in if (65 \<le> n \<and> n \<le> 90) \<or> (192 \<le> n \<and> n \<le> 222 \<and> n \<noteq> 215) then char_of (n + 32) else c)"

definition header_lower :: "string \<Rightarrow> string" where
  \<comment> \<open>\<open>s.lower()\<close>\<close>
  "header_lower = map header_lower_char"

definition is_ascii :: "string \<Rightarrow> bool" where
  "is_ascii = list_all (\<lambda>c. of_char c < (128 :: nat))"

definition compare_digest :: "string \<Rightarrow> string \<Rightarrow> bool option" where
  \<comment> \<open>\<open>secrets.compare_digest\<close> takes ASCII text only; \<open>None\<close> is its TypeError\<close>
  "compare_digest a b = (if is_ascii a \<and> is_ascii b then Some (a = b) else None)"

section \<open>Requests and settings\<close>

record web_request =
  wr_method :: string
  wr_path :: string
  wr_query :: string
  wr_headers :: "(string \<times> string) list"

record access_settings =
  as_product_api_token :: "string option"
  as_evaluation_admin_token :: "string option"
  as_evaluation_ci_token :: "string option"
  as_evaluation_read_token :: "string option"
  as_product_identity_ttl :: int
  as_proxy_identity_ttl :: int
  as_product_secret :: "string option"
  as_product_previous_secret :: "string option"
  as_proxy_secret :: "string option"
  as_proxy_previous_secret :: "string option"
  as_signed_browser_identity :: bool
  as_nonce_store :: "string option"
  as_mcp_client_enabled :: bool
  as_mcp_client_token :: "string option"

definition header :: "web_request \<Rightarrow> string \<Rightarrow> string option" where
  \<comment> \<open>names are in lower case\<close>
  "header r name = map_of (wr_headers r) name"

definition stripped :: "string option \<Rightarrow> string" where
  \<comment> \<open>\<open>(value or "").strip()\<close>\<close>
  "stripped v = header_strip (or_default v [])"

section \<open>The nonce store\<close>

text \<open>
  The dictionary of a process, and a Redis server that all share: what a key expires at, and whether it answers.
  Redis drops a key at its expiry, the dictionary is pruned at each use.
\<close>

record nonce_world =
  nw_memory :: "(string \<times> time) list"
  nw_redis :: "(string \<times> time) list"
  nw_redis_up :: bool

definition live :: "time \<Rightarrow> (string \<times> time) list \<Rightarrow> (string \<times> time) list" where
  "live t store = filter (\<lambda>(n, expires). t < expires) store"

definition consume_nonce :: "time \<Rightarrow> string \<Rightarrow> int \<Rightarrow> (string \<times> time) list \<Rightarrow> bool \<times> (string \<times> time) list" where
  \<comment> \<open>\<open>InMemoryReplayNonceStore.consume\<close>, and \<open>SET key 1 EX ttl NX\<close>\<close>
  "consume_nonce t n ttl store =
     (if map_of (live t store) n \<noteq> None then (False, live t store)
      else (True, live t store @ [(n, t + secs ttl)]))"

definition redis_nonce_key :: "(string \<Rightarrow> string) \<Rightarrow> string \<Rightarrow> string" where
  "redis_nonce_key sha n = ''codemate:proxy-identity-nonce:'' @ sha n"

definition consume_redis_nonce ::
  "(string \<Rightarrow> string) \<Rightarrow> time \<Rightarrow> string \<Rightarrow> int \<Rightarrow> nonce_world \<Rightarrow> bool option \<times> nonce_world" where
  \<comment> \<open>\<open>None\<close> is ReplayNonceStoreUnavailable\<close>
  "consume_redis_nonce sha t n ttl W =
     (if \<not> nw_redis_up W then (None, W)
      else let (ok, store) = consume_nonce t (redis_nonce_key sha n) ttl (nw_redis W) in (Some ok, W\<lparr>nw_redis := store\<rparr>))"

definition consume_proxy_identity_nonce ::
  "access_settings \<Rightarrow> (string \<Rightarrow> string) \<Rightarrow> time \<Rightarrow> string \<Rightarrow> int \<Rightarrow> nonce_world \<Rightarrow> bool option \<times> nonce_world" where
  "consume_proxy_identity_nonce S sha t n ttl W =
     (let ttl' = max 1 ttl
      in if header_lower (header_strip (or_default (as_nonce_store S) ''memory'')) = ''redis'' then consume_redis_nonce sha t n ttl' W
         else let (ok, store) = consume_nonce t n ttl' (nw_memory W) in (Some ok, W\<lparr>nw_memory := store\<rparr>))"

section \<open>Reading headers\<close>

definition partition_space :: "string \<Rightarrow> string \<times> bool \<times> string" where
  \<comment> \<open>\<open>s.partition(" ")\<close>, the separator as a truth value\<close>
  "partition_space s =
     (let a = takeWhile (\<lambda>c. c \<noteq> CHR '' '') s in (a, length a < length s, drop (Suc (length a)) s))"

definition bearer_token :: "string option \<Rightarrow> string option" where
  "bearer_token authorization =
     (if none_or_empty authorization then None
      else let (scheme, separator, v) = partition_space (the authorization)
           in if separator \<and> header_lower scheme = ''bearer''
              then (let token = header_strip v in if token = [] then None else Some token) else None)"

definition bearer_refused :: "string option \<Rightarrow> string \<Rightarrow> string \<Rightarrow> http_error option" where
  \<comment> \<open>the comparison of the provided token with the configured one, \<open>None\<close> when they agree\<close>
  "bearer_refused token expected message =
     (case token of
        None \<Rightarrow> Some (Http 401 message)
      | Some x \<Rightarrow>
        (case compare_digest x expected of
           None \<Rightarrow> Some unhandled | Some False \<Rightarrow> Some (Http 401 message) | Some True \<Rightarrow> None))"

definition header_identity_value :: "string option \<Rightarrow> string \<Rightarrow> http_error + string" where
  "header_identity_value v dflt =
     (let normalized = stripped v
      in if normalized = [] then Inr dflt
         else if 128 < length normalized \<or> CHR 0x0D \<in> set normalized \<or> CHR 0x0A \<in> set normalized
         then Inl (Http 400 ''Evaluation identity header is too long'') else Inr normalized)"

fun digits_value :: "bool \<Rightarrow> int \<Rightarrow> string \<Rightarrow> int option" where
  \<comment> \<open>digits, with single underscores between them\<close>
  "digits_value d n [] = (if d then Some n else None)"
| "digits_value d n (c # s) =
     (let k = (of_char c :: nat)
      in if 48 \<le> k \<and> k \<le> 57 then digits_value True (10 * n + int (k - 48)) s
         else if c = CHR ''_'' \<and> d then digits_value False n s else None)"

definition parse_int :: "string \<Rightarrow> int option" where
  \<comment> \<open>\<open>int(text)\<close>, \<open>None\<close> for a ValueError\<close>
  "parse_int s =
     (case header_strip s of
        c # r \<Rightarrow> if c = CHR ''-'' then map_option uminus (digits_value False 0 r)
                 else if c = CHR ''+'' then digits_value False 0 r else digits_value False 0 (c # r)
      | [] \<Rightarrow> None)"

definition alphanumeric :: "char \<Rightarrow> bool" where
  \<comment> \<open>\<open>char.isalnum()\<close> on latin-1\<close>
  "alphanumeric c \<longleftrightarrow>
     (let n = (of_char c :: nat)
      in (48 \<le> n \<and> n \<le> 57) \<or> (65 \<le> n \<and> n \<le> 90) \<or> (97 \<le> n \<and> n \<le> 122) \<or> n \<in> {170, 178, 179, 181, 185, 186, 188, 189, 190} \<or>
         (192 \<le> n \<and> n \<noteq> 215 \<and> n \<noteq> 247))"

definition parse_identity_nonce :: "string \<Rightarrow> string option" where
  "parse_identity_nonce nonce =
     (let n = header_strip nonce
      in if 16 \<le> length n \<and> length n \<le> 128 \<and> list_all (\<lambda>c. alphanumeric c \<or> c \<in> set ''-_.'') n then Some n else None)"

definition path_with_query :: "web_request \<Rightarrow> string" where
  "path_with_query r = (if wr_query r = [] then wr_path r else wr_path r @ ''?'' @ wr_query r)"

definition py_upper :: "string \<Rightarrow> string" where
  "py_upper = map (\<lambda>c. let n = (of_char c :: nat) in if 97 \<le> n \<and> n \<le> 122 then char_of (n - 32) else c)"

definition newline_joined :: "string list \<Rightarrow> string" where
  "newline_joined = join [CHR 0x0A]"

section \<open>Signatures\<close>

definition identity_signature_payload :: "web_request \<Rightarrow> int \<Rightarrow> string \<Rightarrow> string \<Rightarrow> string \<Rightarrow> string \<Rightarrow> string" where
  "identity_signature_payload r timestamp nonce role login provider =
     newline_joined [''v1'', str_int timestamp, nonce, py_upper (wr_method r), path_with_query r, role, login, provider]"

definition product_identity_signature_payload :: "web_request \<Rightarrow> int \<Rightarrow> string \<Rightarrow> string \<Rightarrow> string \<Rightarrow> string" where
  "product_identity_signature_payload r timestamp nonce login provider =
     newline_joined [''v1'', str_int timestamp, nonce, py_upper (wr_method r), path_with_query r, login, provider]"

definition text_or :: "string \<Rightarrow> string \<Rightarrow> string" where
  "text_or a b = (if a = [] then b else a)"

definition product_identity_verification_secrets :: "access_settings \<Rightarrow> string \<Rightarrow> string list" where
  "product_identity_verification_secrets S expected =
     (let current = text_or (stripped (as_product_secret S)) expected; previous = stripped (as_product_previous_secret S)
      in current # (if previous \<noteq> [] \<and> previous \<noteq> current then [previous] else []))"

definition proxy_identity_verification_secrets :: "access_settings \<Rightarrow> string \<Rightarrow> string list" where
  "proxy_identity_verification_secrets S expected =
     (let current = text_or (stripped (as_proxy_secret S)) expected; previous = stripped (as_proxy_previous_secret S)
      in current # (if previous \<noteq> [] \<and> previous \<noteq> current then [previous] else []))"

fun valid_signature :: "(string \<Rightarrow> string \<Rightarrow> string) \<Rightarrow> string list \<Rightarrow> string \<Rightarrow> string \<Rightarrow> bool option" where
  "valid_signature sign [] payload signature = Some False"
| "valid_signature sign (secret # keys) payload signature =
     (case compare_digest signature (sign secret payload) of
        None \<Rightarrow> None | Some True \<Rightarrow> Some True | Some False \<Rightarrow> valid_signature sign keys payload signature)"

definition signature_refused ::
  "(string \<Rightarrow> string \<Rightarrow> string) \<Rightarrow> string list \<Rightarrow> string \<Rightarrow> string \<Rightarrow> http_error \<Rightarrow> http_error option" where
  "signature_refused sign keys payload signature e =
     (case valid_signature sign keys payload signature of
        None \<Rightarrow> Some unhandled | Some False \<Rightarrow> Some e | Some True \<Rightarrow> None)"

definition in_window :: "time \<Rightarrow> int \<Rightarrow> int \<Rightarrow> bool" where
  \<comment> \<open>the clock in whole seconds; at most a minute ahead of it\<close>
  "in_window t ttl timestamp \<longleftrightarrow> (let seconds = t div 1000000 in seconds - ttl \<le> timestamp \<and> timestamp \<le> seconds + 60)"

section \<open>Product identities\<close>

record product_principal =
  pp_owner_id :: string
  pp_login :: string
  pp_provider :: string
  pp_auth_method :: string

definition product_identity_required :: http_error where
  "product_identity_required = Http 401 ''Valid signed product identity required''"

definition local_principal :: product_principal where
  "local_principal = \<lparr>pp_owner_id = ''local:local-dev'', pp_login = ''local-dev'', pp_provider = ''local'', pp_auth_method = ''local''\<rparr>"

definition owner_id :: "string \<Rightarrow> string \<Rightarrow> string" where
  "owner_id provider login = header_lower provider @ '':'' @ header_lower login"

record identity_claim =
  id_login :: string
  id_provider :: string
  id_nonce :: string
  id_timestamp :: int

text \<open>The checks before the nonce is consumed.\<close>

definition product_claim ::
  "access_settings \<Rightarrow> (string \<Rightarrow> string \<Rightarrow> string) \<Rightarrow> time \<Rightarrow> string \<Rightarrow> web_request \<Rightarrow> http_error + identity_claim" where
  "product_claim S sign t expected r =
     (let user = header r ''x-codemate-product-user''; prov = header r ''x-codemate-product-provider'';
          stamp = header r ''x-codemate-product-identity-timestamp''; nonce = header r ''x-codemate-product-identity-nonce'';
          signature = header r ''x-codemate-product-identity-signature''
      in if none_or_empty user \<or> none_or_empty prov \<or> none_or_empty stamp \<or> none_or_empty nonce \<or> none_or_empty signature
         then Inl product_identity_required
         else case header_identity_value user [] of
           Inl e \<Rightarrow> Inl e
         | Inr login \<Rightarrow>
           case header_identity_value prov [] of
             Inl e \<Rightarrow> Inl e
           | Inr provider \<Rightarrow>
             if login = [] \<or> provider = [] then Inl product_identity_required
             else case parse_identity_nonce (the nonce) of
               None \<Rightarrow> Inl (Http 401 ''Valid evaluation identity signature required'')
             | Some n \<Rightarrow>
               case parse_int (the stamp) of
                 None \<Rightarrow> Inl (Http 401 ''Valid evaluation identity signature required'')
               | Some timestamp \<Rightarrow>
                 if \<not> in_window t (max 1 (as_product_identity_ttl S)) timestamp then Inl product_identity_required
                 else case signature_refused sign (product_identity_verification_secrets S expected)
                             (product_identity_signature_payload r timestamp n login provider) (header_strip (the signature))
                             product_identity_required of
                   Some e \<Rightarrow> Inl e
                 | None \<Rightarrow> Inr \<lparr>id_login = login, id_provider = provider, id_nonce = n, id_timestamp = timestamp\<rparr>)"

definition get_product_principal ::
  "access_settings \<Rightarrow> (string \<Rightarrow> string \<Rightarrow> string) \<Rightarrow> (string \<Rightarrow> string) \<Rightarrow> time \<Rightarrow> time \<Rightarrow> web_request \<Rightarrow> nonce_world \<Rightarrow>
   (http_error + product_principal) \<times> nonce_world" where
  \<comment> \<open>the clock is read for the window and again for the nonce\<close>
  "get_product_principal S sign sha t t' r W =
     (let expected = stripped (as_product_api_token S)
      in if expected = [] then (Inr local_principal, W)
         else case bearer_refused (bearer_token (header r ''authorization'')) expected ''Product API token required'' of
           Some e \<Rightarrow> (Inl e, W)
         | None \<Rightarrow>
         case product_claim S sign t expected r of
           Inl e \<Rightarrow> (Inl e, W)
         | Inr c \<Rightarrow>
           case consume_proxy_identity_nonce S sha t' (''product:'' @ id_nonce c) (max 1 (as_product_identity_ttl S)) W of
             (None, W') \<Rightarrow> (Inl (Http 503 ''Product identity nonce store unavailable''), W')
           | (Some False, W') \<Rightarrow> (Inl (Http 401 ''Product identity nonce already used''), W')
           | (Some True, W') \<Rightarrow>
               (Inr \<lparr>pp_owner_id = owner_id (id_provider c) (id_login c), pp_login = id_login c, pp_provider = id_provider c,
                     pp_auth_method = ''token''\<rparr>, W'))"

section \<open>Evaluation principals\<close>

record evaluation_principal =
  ep_role :: string
  ep_login :: string
  ep_provider :: string
  ep_auth_method :: string
  ep_token_kind :: "string option"

definition evaluation_service_tokens :: "access_settings \<Rightarrow> (string \<times> string) list" where
  "evaluation_service_tokens S =
     filter (\<lambda>(kind, token). token \<noteq> [])
       [(''admin'', stripped (as_evaluation_admin_token S)), (''ci'', stripped (as_evaluation_ci_token S)),
        (''read'', stripped (as_evaluation_read_token S))]"

fun matching_evaluation_service_token :: "string \<Rightarrow> (string \<times> string) list \<Rightarrow> http_error + (string \<times> string) option" where
  "matching_evaluation_service_token provided [] = Inr None"
| "matching_evaluation_service_token provided ((kind, token) # tokens) =
     (if provided = [] then Inr None
      else case compare_digest provided token of
        None \<Rightarrow> Inl unhandled
      | Some True \<Rightarrow> Inr (Some (kind, token))
      | Some False \<Rightarrow> matching_evaluation_service_token provided tokens)"

definition token_principal :: "string \<Rightarrow> evaluation_principal" where
  "token_principal kind =
     (if kind = ''admin'' then \<lparr>ep_role = ''admin'', ep_login = ''service-admin-token'', ep_provider = ''service'', ep_auth_method = ''token'', ep_token_kind = Some kind\<rparr>
      else if kind = ''ci'' then \<lparr>ep_role = ''viewer'', ep_login = ''service-ci-token'', ep_provider = ''service'', ep_auth_method = ''token'', ep_token_kind = Some kind\<rparr>
      else \<lparr>ep_role = ''viewer'', ep_login = ''service-read-token'', ep_provider = ''service'', ep_auth_method = ''token'', ep_token_kind = Some kind\<rparr>)"

definition parse_evaluation_role :: "string option \<Rightarrow> http_error + string option" where
  "parse_evaluation_role role =
     (let normalized = header_lower (stripped role)
      in if normalized = [] then Inr None
         else if normalized \<in> {''admin'', ''viewer''} then Inr (Some normalized)
         else Inl (Http 400 ''Invalid evaluation role header''))"

definition invalid_identity_signature :: http_error where
  "invalid_identity_signature = Http 401 ''Valid evaluation identity signature required''"

definition identity_headers :: "web_request \<Rightarrow> string option list" where
  "identity_headers r = map (\<lambda>n. header r (''x-codemate-evaluation-'' @ n))
     [''role'', ''user'', ''provider'', ''identity-timestamp'', ''identity-nonce'', ''identity-signature'']"

definition has_identity_headers :: "string option list \<Rightarrow> bool" where
  "has_identity_headers vs \<longleftrightarrow> (\<exists>v \<in> set vs. stripped v \<noteq> [])"

definition is_browser_like_request :: "web_request \<Rightarrow> bool" where
  "is_browser_like_request r \<longleftrightarrow>
     (\<exists>n \<in> set [''origin'', ''referer'', ''sec-fetch-dest'', ''sec-fetch-mode'', ''sec-fetch-site'']. \<not> none_or_empty (header r n))"

definition is_frontend_browser_proxy_request :: "web_request \<Rightarrow> bool" where
  "is_frontend_browser_proxy_request r \<longleftrightarrow>
     header_lower (header_strip (or_default (header r ''x-codemate-evaluation-client'') [])) = ''browser''"

definition requires_signed_browser_identity :: "access_settings \<Rightarrow> web_request \<Rightarrow> bool" where
  "requires_signed_browser_identity S r \<longleftrightarrow>
     as_signed_browser_identity S \<and> (is_frontend_browser_proxy_request r \<or> is_browser_like_request r)"

record evaluation_claim =
  ec_role :: string
  ec_identity :: identity_claim

definition evaluation_claim_of ::
  "access_settings \<Rightarrow> (string \<Rightarrow> string \<Rightarrow> string) \<Rightarrow> time \<Rightarrow> string \<Rightarrow> web_request \<Rightarrow> http_error + evaluation_claim" where
  \<comment> \<open>\<open>signed_evaluation_principal\<close> before the nonce\<close>
  "evaluation_claim_of S sign t expected r =
     (if \<exists>v \<in> set (identity_headers r). none_or_empty v then Inl invalid_identity_signature
      else case parse_evaluation_role (header r ''x-codemate-evaluation-role'') of
        Inl e \<Rightarrow> Inl e
      | Inr None \<Rightarrow> Inl invalid_identity_signature
      | Inr (Some role) \<Rightarrow>
        case header_identity_value (header r ''x-codemate-evaluation-user'') [] of
          Inl e \<Rightarrow> Inl e
        | Inr login \<Rightarrow>
          case header_identity_value (header r ''x-codemate-evaluation-provider'') [] of
            Inl e \<Rightarrow> Inl e
          | Inr provider \<Rightarrow>
            if login = [] \<or> provider = [] then Inl invalid_identity_signature
            else case parse_identity_nonce (the (header r ''x-codemate-evaluation-identity-nonce'')) of
              None \<Rightarrow> Inl invalid_identity_signature
            | Some n \<Rightarrow>
              case parse_int (the (header r ''x-codemate-evaluation-identity-timestamp'')) of
                None \<Rightarrow> Inl invalid_identity_signature
              | Some timestamp \<Rightarrow>
                if \<not> in_window t (max 1 (as_proxy_identity_ttl S)) timestamp then Inl invalid_identity_signature
                else case signature_refused sign (proxy_identity_verification_secrets S expected)
                            (identity_signature_payload r timestamp n role login provider)
                            (header_strip (the (header r ''x-codemate-evaluation-identity-signature'')))
                            invalid_identity_signature of
                  Some e \<Rightarrow> Inl e
                | None \<Rightarrow> Inr \<lparr>ec_role = role, ec_identity =
                  \<lparr>id_login = login, id_provider = provider, id_nonce = n, id_timestamp = timestamp\<rparr>\<rparr>)"

definition signed_evaluation_principal ::
  "access_settings \<Rightarrow> (string \<Rightarrow> string \<Rightarrow> string) \<Rightarrow> (string \<Rightarrow> string) \<Rightarrow> time \<Rightarrow> time \<Rightarrow> string \<Rightarrow> web_request \<Rightarrow> nonce_world \<Rightarrow>
   (http_error + evaluation_principal) \<times> nonce_world" where
  "signed_evaluation_principal S sign sha t t' expected r W =
     (case evaluation_claim_of S sign t expected r of
        Inl e \<Rightarrow> (Inl e, W)
      | Inr c \<Rightarrow>
        case consume_proxy_identity_nonce S sha t' (id_nonce (ec_identity c)) (max 1 (as_proxy_identity_ttl S)) W of
          (None, W') \<Rightarrow> (Inl (Http 503 ''Evaluation identity nonce store unavailable''), W')
        | (Some False, W') \<Rightarrow> (Inl (Http 401 ''Evaluation identity nonce already used''), W')
        | (Some True, W') \<Rightarrow>
            (Inr \<lparr>ep_role = ec_role c, ep_login = id_login (ec_identity c), ep_provider = id_provider (ec_identity c),
                  ep_auth_method = ''token'', ep_token_kind = None\<rparr>, W'))"

definition open_principal :: "web_request \<Rightarrow> http_error + evaluation_principal" where
  "open_principal r =
     (case parse_evaluation_role (header r ''x-codemate-evaluation-role'') of
        Inl e \<Rightarrow> Inl e
      | Inr role \<Rightarrow>
        case header_identity_value (header r ''x-codemate-evaluation-user'') ''local-dev'' of
          Inl e \<Rightarrow> Inl e
        | Inr login \<Rightarrow>
          case header_identity_value (header r ''x-codemate-evaluation-provider'') ''local'' of
            Inl e \<Rightarrow> Inl e
          | Inr provider \<Rightarrow> Inr \<lparr>ep_role = or_default role ''admin'', ep_login = login, ep_provider = provider,
              ep_auth_method = ''open'', ep_token_kind = None\<rparr>)"

definition get_evaluation_principal ::
  "access_settings \<Rightarrow> (string \<Rightarrow> string \<Rightarrow> string) \<Rightarrow> (string \<Rightarrow> string) \<Rightarrow> time \<Rightarrow> time \<Rightarrow> web_request \<Rightarrow> nonce_world \<Rightarrow>
   (http_error + evaluation_principal) \<times> nonce_world" where
  "get_evaluation_principal S sign sha t t' r W =
     (let tokens = evaluation_service_tokens S;
          provided = or_default (bearer_token (header r ''authorization'')) (stripped (header r ''x-codemate-evaluation-token''))
      in if tokens = [] then (open_principal r, W)
         else case matching_evaluation_service_token provided tokens of
           Inl e \<Rightarrow> (Inl e, W)
         | Inr None \<Rightarrow> (Inl (Http 401 ''Evaluation API token required''), W)
         | Inr (Some (kind, token)) \<Rightarrow>
             if has_identity_headers (identity_headers r) then signed_evaluation_principal S sign sha t t' token r W
             else if requires_signed_browser_identity S r
             then (Inl (Http 401 ''Signed evaluation identity required for browser requests''), W)
             else (Inr (token_principal kind), W))"

definition require_evaluation_admin :: "evaluation_principal \<Rightarrow> http_error + evaluation_principal" where
  "require_evaluation_admin p = (if ep_role p = ''admin'' then Inr p else Inl (Http 403 ''Evaluation admin role required''))"

definition require_evaluation_runner :: "evaluation_principal \<Rightarrow> http_error + evaluation_principal" where
  "require_evaluation_runner p =
     (if ep_role p = ''admin'' \<or> ep_token_kind p = Some ''ci'' then Inr p
      else Inl (Http 403 ''Evaluation runner role required''))"

section \<open>Bearer tokens of the MCP endpoints\<close>

definition require_mcp_client_token :: "access_settings \<Rightarrow> string option \<Rightarrow> http_error option" where
  "require_mcp_client_token S authorization =
     (if \<not> as_mcp_client_enabled S then Some (Http 503 ''MCP client is disabled'')
      else let expected = stripped (as_mcp_client_token S)
           in if expected = [] then Some (Http 503 ''MCP client API authentication is not configured'')
              else bearer_refused (bearer_token authorization) expected ''Valid MCP client API Bearer token required'')"

fun scope_bearer_token :: "(string \<times> string) list \<Rightarrow> string option" where
  \<comment> \<open>the first authorization header with the bearer scheme decides\<close>
  "scope_bearer_token [] = None"
| "scope_bearer_token ((name, v) # hs) =
     (if header_lower name \<noteq> ''authorization'' then scope_bearer_token hs
      else let (scheme, separator, rest) = partition_space v
           in if separator \<and> header_lower scheme = ''bearer''
              then (let token = header_strip rest in if token = [] then None else Some token) else scope_bearer_token hs)"

definition mcp_bearer_auth :: "string option \<Rightarrow> string \<Rightarrow> (string \<times> string) list \<Rightarrow> http_error option" where
  \<comment> \<open>the answer of the middleware; \<open>None\<close> passes the request on\<close>
  "mcp_bearer_auth configured scope_type headers =
     (if scope_type \<noteq> ''http'' then None
      else let expected = stripped configured
           in if expected = [] then Some (Http 503 ''MCP authentication is not configured'')
              else bearer_refused (scope_bearer_token headers) expected ''Valid MCP Bearer token required'')"

end
