(* ===== verification/Egress.thy ===== *)
theory Egress
  imports Access
begin

text \<open>
  The gateway that MCP traffic leaves through: the resolution of a target (\<open>backend/app/mcp/egress.py\<close>) and one
  CONNECT request (\<open>mcp/egress_gateway.py\<close>).  Name resolution, the parser of addresses with its classification, the
  decoder of the credentials, \<open>urlsplit\<close> and the connections are parameters; bytes are latin-1 characters.
\<close>

record egress_settings =
  eg_ports :: "int set"
  eg_hosts :: "string set"
  eg_proxy_token :: "string option"
  eg_proxy_url :: "string option"
  eg_sandbox_enabled :: bool

text \<open>
  \<open>nt_address\<close> is \<open>ipaddress.ip_address\<close>: the canonical text and whether it is global, \<open>None\<close> for a ValueError;
  \<open>nt_lookup\<close> the addresses of \<open>getaddrinfo\<close> or the OSError; \<open>nt_connect\<close> whether a connection opens.
\<close>

record network =
  nt_address :: "string \<Rightarrow> (string \<times> bool) option"
  nt_lookup :: "string \<Rightarrow> int \<Rightarrow> string + string list"
  nt_connect :: "string \<Rightarrow> int \<Rightarrow> bool"
  nt_decode :: "string \<Rightarrow> string option"

record egress_target =
  et_host :: string
  et_port :: int
  et_addresses :: "string list"

definition normalized_host :: "string \<Rightarrow> string" where
  \<comment> \<open>\<open>host.strip().rstrip(".").lower()\<close>\<close>
  "normalized_host host = header_lower (rev (dropWhile (\<lambda>c. c = CHR ''.'') (rev (header_strip host))))"

definition candidate_addresses :: "network \<Rightarrow> string \<Rightarrow> int \<Rightarrow> string + string list" where
  "candidate_addresses N host port =
     (case nt_address N host of
        Some (text, g) \<Rightarrow> Inr [text]
      | None \<Rightarrow> (case nt_lookup N host port of
                   Inl e \<Rightarrow> Inl (''MCP egress DNS resolution failed: '' @ e) | Inr xs \<Rightarrow> Inr xs))"

fun first_denied :: "network \<Rightarrow> string \<Rightarrow> string list \<Rightarrow> string option" where
  \<comment> \<open>the exception of the loop over the addresses, if any\<close>
  "first_denied N host [] = None"
| "first_denied N host (a # as) =
     (case nt_address N a of
        None \<Rightarrow> Some ''MCP egress resolved an invalid address''
      | Some (text, g) \<Rightarrow>
          if \<not> g then Some (''MCP egress resolved a non-global address for '' @ host) else first_denied N host as)"

definition resolve_egress_target :: "egress_settings \<Rightarrow> network \<Rightarrow> string \<Rightarrow> int \<Rightarrow> string + egress_target" where
  \<comment> \<open>the left side is the text of an MCPEgressDeniedError\<close>
  "resolve_egress_target S N raw port =
     (let host = normalized_host raw
      in if host = [] then Inl ''MCP egress host is required''
         else if port \<notin> eg_ports S then Inl (''MCP egress port '' @ str_int port @ '' is not allowed'')
         else if eg_hosts S = {} \<or> host \<notin> eg_hosts S then Inl ''MCP egress host is not explicitly allowlisted''
         else case candidate_addresses N host port of
           Inl e \<Rightarrow> Inl e
         | Inr candidates \<Rightarrow>
           let addresses = rev (remdups (rev candidates))
           in if addresses = [] then Inl ''MCP egress DNS resolution returned no addresses''
              else case first_denied N host addresses of
                Some e \<Rightarrow> Inl e
              | None \<Rightarrow> Inr \<lparr>et_host = host, et_port = port, et_addresses = addresses\<rparr>)"

record url_parts =
  url_scheme :: string
  url_hostname :: "string option"
  url_username :: "string option"
  url_password :: "string option"
  url_fragment :: string
  url_port :: "int option"

definition validate_egress_url :: "egress_settings \<Rightarrow> network \<Rightarrow> url_parts \<Rightarrow> string + egress_target" where
  "validate_egress_url S N u =
     (if url_scheme u \<noteq> ''https'' \<or> none_or_empty (url_hostname u) then Inl ''MCP egress requires an HTTPS URL''
      else if \<not> none_or_empty (url_username u) \<or> \<not> none_or_empty (url_password u) \<or> url_fragment u \<noteq> []
      then Inl ''MCP egress URL contains forbidden components''
      else resolve_egress_target S N (the (url_hostname u))
             (case url_port u of None \<Rightarrow> 443 | Some p \<Rightarrow> if p = 0 then 443 else p))"

definition egress_httpx_proxy :: "egress_settings \<Rightarrow> string + (string \<times> string \<times> string) option" where
  \<comment> \<open>the url of the proxy with user and token\<close>
  "egress_httpx_proxy S =
     (if \<not> eg_sandbox_enabled S then Inr None
      else let url = stripped (eg_proxy_url S); token = stripped (eg_proxy_token S)
           in if url = [] \<or> token = [] then Inl ''MCP egress proxy authentication is not configured''
              else Inr (Some (url, ''codemate'', token)))"

section \<open>The gateway\<close>

definition MAX_HEADER_BYTES :: nat where
  "MAX_HEADER_BYTES = 16384"

definition partition_at :: "char \<Rightarrow> string \<Rightarrow> string \<times> bool \<times> string" where
  "partition_at c s = (let a = takeWhile (\<lambda>d. d \<noteq> c) s in (a, length a < length s, drop (Suc (length a)) s))"

definition valid_proxy_token :: "egress_settings \<Rightarrow> network \<Rightarrow> string option \<Rightarrow> bool option" where
  \<comment> \<open>\<open>None\<close> is the TypeError of the comparison\<close>
  "valid_proxy_token S N v =
     (let expected = stripped (eg_proxy_token S)
      in if expected = [] \<or> none_or_empty v then Some False
         else let (scheme, separator, encoded) = partition_space (the v)
              in if \<not> separator \<or> header_lower scheme \<noteq> ''basic'' then Some False
                 else case nt_decode N encoded of
                   None \<Rightarrow> Some False
                 | Some decoded \<Rightarrow>
                     let (username, colon, token) = partition_at (CHR '':'') decoded
                     in if colon \<and> username = ''codemate'' then compare_digest token expected else Some False)"

fun split_bracket :: "string \<Rightarrow> string \<Rightarrow> (string \<times> string) option" where
  \<comment> \<open>\<open>s.partition("]:")\<close>\<close>
  "split_bracket p [] = None"
| "split_bracket p (c # s) = (if starts_with '']:'' (c # s) then Some (p, drop 1 s) else split_bracket (p @ [c]) s)"

definition rpartition_colon :: "string \<Rightarrow> (string \<times> string) option" where
  "rpartition_colon s =
     (let after = takeWhile (\<lambda>c. c \<noteq> CHR '':'') (rev s)
      in if length after < length s then Some (take (length s - Suc (length after)) s, rev after) else None)"

definition parse_authority :: "string \<Rightarrow> string + string \<times> int" where
  \<comment> \<open>the left side covers the ValueError of \<open>int\<close>\<close>
  "parse_authority authority =
     (case (if starts_with ''['' authority then split_bracket [] (drop 1 authority) else rpartition_colon authority) of
        None \<Rightarrow> Inl ''CONNECT authority must include a port''
      | Some (host, port) \<Rightarrow>
          (case parse_int port of None \<Rightarrow> Inl ''invalid literal for int() with base 10'' | Some n \<Rightarrow> Inr (host, n)))"

fun crlf_lines :: "string \<Rightarrow> string list" where
  \<comment> \<open>\<open>text.split("\r\n")\<close>\<close>
  "crlf_lines [] = [[]]"
| "crlf_lines [c] = [[c]]"
| "crlf_lines (c # d # s) =
     (if c = CHR 0x0D \<and> d = CHR 0x0A then [] # crlf_lines s
      else case crlf_lines (d # s) of l # ls \<Rightarrow> (c # l) # ls | [] \<Rightarrow> [[c]])"

definition request_line :: "string \<Rightarrow> (string \<times> string) option" where
  \<comment> \<open>method and authority of a line that \<open>split(" ", 2)\<close> cuts in three\<close>
  "request_line l =
     (let (verb, one, rest) = partition_space l; (authority, two, version) = partition_space rest
      in if one \<and> two then Some (verb, authority) else None)"

definition proxy_headers :: "string list \<Rightarrow> (string \<times> string) list" where
  \<comment> \<open>in the order of the dictionary: a later header of the same name replaces an earlier one\<close>
  "proxy_headers ls =
     fold (\<lambda>l hs. let (name, colon, v) = partition_at (CHR '':'') l
                  in if l = [] \<or> \<not> colon then hs else AList.update (header_lower (header_strip name)) (header_strip v) hs) ls []"

datatype gateway_answer =
    Refused int string
  | Tunnel string int
  | Dropped \<comment> \<open>closed without an answer, after an exception the handler does not name\<close>

text \<open>\<open>gi_request\<close> is the head of the request up to the empty line, or what reading it raised.\<close>

datatype gateway_input = Head string | Read_timeout | Read_failed string

fun connect_first :: "network \<Rightarrow> int \<Rightarrow> string list \<Rightarrow> string option" where
  "connect_first N port [] = None"
| "connect_first N port (a # as) = (if nt_connect N a port then Some a else connect_first N port as)"

definition forbidden :: "string \<Rightarrow> gateway_answer" where
  "forbidden e = Refused 403 (if e = [] then ''Forbidden'' else take 200 e)"

definition handle_client :: "egress_settings \<Rightarrow> network \<Rightarrow> gateway_input \<Rightarrow> gateway_answer" where
  "handle_client S N input =
     (case input of
        Read_timeout \<Rightarrow> Refused 504 ''Gateway Timeout''
      | Read_failed e \<Rightarrow> forbidden e
      | Head request \<Rightarrow>
        if MAX_HEADER_BYTES < length request then forbidden ''Proxy request headers are too large''
        else
          let ls = crlf_lines request in
          case request_line (hd ls) of
            None \<Rightarrow> forbidden ''not enough values to unpack''
          | Some (verb, authority) \<Rightarrow>
            if py_upper verb \<noteq> ''CONNECT'' then forbidden ''Only HTTPS CONNECT is supported''
            else case valid_proxy_token S N (map_of (proxy_headers (tl ls)) ''proxy-authorization'') of
              None \<Rightarrow> Dropped
            | Some False \<Rightarrow> Refused 407 ''Proxy Authentication Required''
            | Some True \<Rightarrow>
            case parse_authority authority of
              Inl e \<Rightarrow> forbidden e
            | Inr (host, port) \<Rightarrow>
              case resolve_egress_target S N host port of
                Inl e \<Rightarrow> forbidden e
              | Inr target \<Rightarrow>
                case connect_first N (et_port target) (et_addresses target) of
                  None \<Rightarrow> forbidden ''MCP egress connection failed''
                | Some a \<Rightarrow> Tunnel a (et_port target))"

definition serve_refused :: "egress_settings \<Rightarrow> string option" where
  \<comment> \<open>the exception that keeps the gateway from starting, if any\<close>
  "serve_refused S =
     (if length (stripped (eg_proxy_token S)) < 32 then Some ''MCP egress proxy token must contain at least 32 characters''
      else if eg_hosts S = {} then Some ''MCP egress host allowlist must not be empty''
      else if eg_ports S \<noteq> {443} then Some ''MCP egress gateway only permits TLS port 443'' else None)"

end
