(* ===== verification/AccessTheorems.thy ===== *)
theory AccessTheorems
  imports Access
begin

text \<open>
  What an accepted identity proves: a signature over exactly this request under a configured secret, made within the
  window, with a nonce that no accepted request used before it expired.  A history interleaves the calls of a process
  with the other processes that share the Redis store and with its failures.
\<close>

section \<open>Nonce stores\<close>

definition in_redis :: "access_settings \<Rightarrow> bool" where
  "in_redis S \<longleftrightarrow> header_lower (header_strip (or_default (as_nonce_store S) ''memory'')) = ''redis''"

definition stored :: "access_settings \<Rightarrow> (string \<Rightarrow> string) \<Rightarrow> nonce_world \<Rightarrow> string \<Rightarrow> time option" where
  \<comment> \<open>until when the configured store holds a nonce\<close>
  "stored S sha W n = (if in_redis S then map_of (nw_redis W) (redis_nonce_key sha n) else map_of (nw_memory W) n)"

definition nonce_held :: "access_settings \<Rightarrow> (string \<Rightarrow> string) \<Rightarrow> time \<Rightarrow> string \<Rightarrow> nonce_world \<Rightarrow> bool" where
  "nonce_held S sha u n W \<longleftrightarrow> (case stored S sha W n of None \<Rightarrow> False | Some e \<Rightarrow> u \<le> e)"

lemma map_of_live: "map_of store n = Some e \<Longrightarrow> t < e \<Longrightarrow> map_of (live t store) n = Some e"
  unfolding live_def by (induction store) (auto split: if_splits)

lemma consume_nonce_keeps:
  assumes "map_of store n = Some e" "t < e" "consume_nonce t m ttl store = (ok, store')"
  shows "map_of store' n = Some e" and "m = n \<Longrightarrow> \<not> ok"
  using assms map_of_live [OF assms(1,2)] by (auto simp: consume_nonce_def map_add_def split: if_splits option.splits)

lemma consume_nonce_grants:
  assumes "consume_nonce t n ttl store = (True, store')"
  shows "map_of store' n = Some (t + secs ttl)"
  using assms by (auto simp: consume_nonce_def map_add_def split: if_splits)

lemma consume_keeps_held:
  assumes "nonce_held S sha u n W" "t < u" "consume_proxy_identity_nonce S sha t m ttl W = (ok, W')"
  shows "nonce_held S sha u n W'" and "m = n \<Longrightarrow> ok \<noteq> Some True"
proof -
  obtain e where e: "stored S sha W n = Some e" "u \<le> e" using assms(1) by (auto simp: nonce_held_def split: option.splits)
  then have "t < e" using assms(2) by simp
  have "stored S sha W' n = Some e \<and> (m = n \<longrightarrow> ok \<noteq> Some True)"
  proof (cases "in_redis S")
    case True
    then show ?thesis
      using e assms(3) \<open>t < e\<close> consume_nonce_keeps [of "nw_redis W" "redis_nonce_key sha n" e t "redis_nonce_key sha m" "max 1 ttl"]
      by (auto simp: stored_def consume_proxy_identity_nonce_def in_redis_def consume_redis_nonce_def Let_def
          split: if_splits prod.splits)
  next
    case False
    then show ?thesis
      using e assms(3) \<open>t < e\<close> consume_nonce_keeps [of "nw_memory W" n e t m "max 1 ttl"]
      by (auto simp: stored_def consume_proxy_identity_nonce_def in_redis_def Let_def split: prod.splits)
  qed
  then show "nonce_held S sha u n W'" "m = n \<Longrightarrow> ok \<noteq> Some True" using e by (auto simp: nonce_held_def)
qed

lemma consume_grants:
  assumes "consume_proxy_identity_nonce S sha t n ttl W = (Some True, W')"
  shows "nonce_held S sha (t + secs (max 1 ttl)) n W'"
proof (cases "in_redis S")
  case True
  then show ?thesis
    using assms consume_nonce_grants [of t "redis_nonce_key sha n" "max 1 ttl" "nw_redis W"]
    by (auto simp: nonce_held_def stored_def consume_proxy_identity_nonce_def in_redis_def consume_redis_nonce_def Let_def
        split: if_splits prod.splits)
next
  case False
  then show ?thesis
    using assms consume_nonce_grants [of t n "max 1 ttl" "nw_memory W"]
    by (auto simp: nonce_held_def stored_def consume_proxy_identity_nonce_def in_redis_def Let_def split: prod.splits)
qed

section \<open>What the checks establish\<close>

lemma compare_digest_True: "compare_digest a b = Some True \<Longrightarrow> a = b"
  by (auto simp: compare_digest_def split: if_splits)

lemma bearer_accepted: "bearer_refused token expected message = None \<Longrightarrow> token = Some expected"
  by (auto simp: bearer_refused_def dest: compare_digest_True split: option.splits bool.splits)

lemma signature_accepted:
  assumes "signature_refused sign keys payload signature e = None"
  shows "\<exists>secret \<in> set keys. signature = sign secret payload"
proof -
  have "valid_signature sign keys payload signature = Some True"
    using assms by (auto simp: signature_refused_def split: option.splits bool.splits)
  then show ?thesis
    by (induction keys) (auto dest: compare_digest_True split: option.splits bool.splits)
qed

text \<open>The evidence a signed identity gives for a request.\<close>

definition product_signed ::
  "access_settings \<Rightarrow> (string \<Rightarrow> string \<Rightarrow> string) \<Rightarrow> time \<Rightarrow> web_request \<Rightarrow> identity_claim \<Rightarrow> bool" where
  "product_signed S sign t r c \<longleftrightarrow>
     (let expected = stripped (as_product_api_token S) in
      bearer_token (header r ''authorization'') = Some expected \<and>
      (\<exists>signature. header r ''x-codemate-product-identity-signature'' = Some signature \<and>
        (\<exists>secret \<in> set (product_identity_verification_secrets S expected).
           header_strip signature = sign secret
             (product_identity_signature_payload r (id_timestamp c) (id_nonce c) (id_login c) (id_provider c)))) \<and>
      in_window t (max 1 (as_product_identity_ttl S)) (id_timestamp c) \<and>
      (\<exists>nonce. header r ''x-codemate-product-identity-nonce'' = Some nonce \<and> parse_identity_nonce nonce = Some (id_nonce c)))"

lemma some_nonempty: "\<not> none_or_empty v \<Longrightarrow> v = Some (the v)"
  by (auto simp: none_or_empty_def)

lemma product_claim_facts:
  assumes "product_claim S sign t expected r = Inr c"
  shows "\<not> none_or_empty (header r ''x-codemate-product-identity-nonce'')"
    "\<not> none_or_empty (header r ''x-codemate-product-identity-signature'')"
    "parse_identity_nonce (the (header r ''x-codemate-product-identity-nonce'')) = Some (id_nonce c)"
    "in_window t (max 1 (as_product_identity_ttl S)) (id_timestamp c)"
    "signature_refused sign (product_identity_verification_secrets S expected)
       (product_identity_signature_payload r (id_timestamp c) (id_nonce c) (id_login c) (id_provider c))
       (header_strip (the (header r ''x-codemate-product-identity-signature''))) product_identity_required = None"
  using assms by (simp_all add: product_claim_def Let_def split: if_splits sum.splits option.splits) auto

lemma product_claim_signed:
  assumes "product_claim S sign t (stripped (as_product_api_token S)) r = Inr c"
    and "bearer_token (header r ''authorization'') = Some (stripped (as_product_api_token S))"
  shows "product_signed S sign t r c"
proof -
  note facts = product_claim_facts [OF assms(1)]
  show ?thesis
    using assms(2) facts(3,4) signature_accepted [OF facts(5)] some_nonempty [OF facts(1)] some_nonempty [OF facts(2)]
    unfolding product_signed_def Let_def by blast
qed

lemma product_accepted:
  assumes "get_product_principal S sign sha t t' r W = (Inr p, W')" "stripped (as_product_api_token S) \<noteq> []"
  obtains c where "product_signed S sign t r c"
    "consume_proxy_identity_nonce S sha t' (''product:'' @ id_nonce c) (max 1 (as_product_identity_ttl S)) W = (Some True, W')"
    "p = \<lparr>pp_owner_id = owner_id (id_provider c) (id_login c), pp_login = id_login c, pp_provider = id_provider c,
          pp_auth_method = ''token''\<rparr>"
  using assms
  by (auto simp: get_product_principal_def Let_def split: if_splits option.splits sum.splits prod.splits bool.splits
      dest!: bearer_accepted dest: product_claim_signed)

lemma product_world:
  assumes "get_product_principal S sign sha t t' r W = (a, W')"
  shows "W' = W \<or> (\<exists>n ttl ok. consume_proxy_identity_nonce S sha t' n ttl W = (ok, W'))"
  using assms
  by (auto simp: get_product_principal_def Let_def split: if_splits option.splits sum.splits prod.splits bool.splits)

definition evaluation_signed ::
  "access_settings \<Rightarrow> (string \<Rightarrow> string \<Rightarrow> string) \<Rightarrow> time \<Rightarrow> web_request \<Rightarrow> evaluation_claim \<Rightarrow> bool" where
  "evaluation_signed S sign t r k \<longleftrightarrow>
     (let c = ec_identity k in
      \<exists>kind token. (kind, token) \<in> set (evaluation_service_tokens S) \<and>
       token = or_default (bearer_token (header r ''authorization'')) (stripped (header r ''x-codemate-evaluation-token'')) \<and>
       (\<exists>signature. header r ''x-codemate-evaluation-identity-signature'' = Some signature \<and>
        (\<exists>secret \<in> set (proxy_identity_verification_secrets S token).
           header_strip signature = sign secret
             (identity_signature_payload r (id_timestamp c) (id_nonce c) (ec_role k) (id_login c) (id_provider c)))) \<and>
       in_window t (max 1 (as_proxy_identity_ttl S)) (id_timestamp c) \<and>
       (\<exists>nonce. header r ''x-codemate-evaluation-identity-nonce'' = Some nonce \<and>
          parse_identity_nonce nonce = Some (id_nonce c)))"

lemma evaluation_claim_facts:
  assumes "evaluation_claim_of S sign t expected r = Inr k"
  shows "\<not> none_or_empty (header r ''x-codemate-evaluation-identity-nonce'')"
    "\<not> none_or_empty (header r ''x-codemate-evaluation-identity-signature'')"
    "parse_identity_nonce (the (header r ''x-codemate-evaluation-identity-nonce'')) = Some (id_nonce (ec_identity k))"
    "in_window t (max 1 (as_proxy_identity_ttl S)) (id_timestamp (ec_identity k))"
    "signature_refused sign (proxy_identity_verification_secrets S expected)
       (identity_signature_payload r (id_timestamp (ec_identity k)) (id_nonce (ec_identity k)) (ec_role k)
         (id_login (ec_identity k)) (id_provider (ec_identity k)))
       (header_strip (the (header r ''x-codemate-evaluation-identity-signature''))) invalid_identity_signature = None"
proof -
  have *: "\<forall>v \<in> set (identity_headers r). \<not> none_or_empty v"
    using assms by (auto simp: evaluation_claim_of_def split: if_splits)
  then show "\<not> none_or_empty (header r ''x-codemate-evaluation-identity-nonce'')"
    "\<not> none_or_empty (header r ''x-codemate-evaluation-identity-signature'')"
    by (simp_all add: identity_headers_def)
  show "parse_identity_nonce (the (header r ''x-codemate-evaluation-identity-nonce'')) = Some (id_nonce (ec_identity k))"
    "in_window t (max 1 (as_proxy_identity_ttl S)) (id_timestamp (ec_identity k))"
    "signature_refused sign (proxy_identity_verification_secrets S expected)
       (identity_signature_payload r (id_timestamp (ec_identity k)) (id_nonce (ec_identity k)) (ec_role k)
         (id_login (ec_identity k)) (id_provider (ec_identity k)))
       (header_strip (the (header r ''x-codemate-evaluation-identity-signature''))) invalid_identity_signature = None"
    using assms by (simp_all add: evaluation_claim_of_def split: if_splits sum.splits option.splits) auto
qed

lemma service_token_matches:
  "matching_evaluation_service_token provided tokens = Inr (Some (kind, token)) \<Longrightarrow>
   (kind, token) \<in> set tokens \<and> token = provided"
  by (induction provided tokens rule: matching_evaluation_service_token.induct)
    (auto dest: compare_digest_True split: if_splits option.splits bool.splits)

lemma evaluation_claim_signed:
  assumes "evaluation_claim_of S sign t token r = Inr k" "(kind, token) \<in> set (evaluation_service_tokens S)"
    "token = or_default (bearer_token (header r ''authorization'')) (stripped (header r ''x-codemate-evaluation-token''))"
  shows "evaluation_signed S sign t r k"
proof -
  note facts = evaluation_claim_facts [OF assms(1)]
  show ?thesis
    using assms(2,3) facts(3,4) signature_accepted [OF facts(5)] some_nonempty [OF facts(1)] some_nonempty [OF facts(2)]
    unfolding evaluation_signed_def Let_def by blast
qed

lemma signed_evaluation_accepted:
  assumes "signed_evaluation_principal S sign sha t t' token r W = (Inr p, W')"
  obtains k where "evaluation_claim_of S sign t token r = Inr k"
    "consume_proxy_identity_nonce S sha t' (id_nonce (ec_identity k)) (max 1 (as_proxy_identity_ttl S)) W = (Some True, W')"
    "p = \<lparr>ep_role = ec_role k, ep_login = id_login (ec_identity k), ep_provider = id_provider (ec_identity k),
          ep_auth_method = ''token'', ep_token_kind = None\<rparr>"
  using assms by (auto simp: signed_evaluation_principal_def split: sum.splits option.splits prod.splits bool.splits)

text \<open>Three ways in: no token is configured, a token without an identity, a token with a signed identity.\<close>

lemma evaluation_accepted:
  assumes "get_evaluation_principal S sign sha t t' r W = (Inr p, W')" "evaluation_service_tokens S \<noteq> []"
  shows "(\<exists>kind. kind \<in> fst ` set (evaluation_service_tokens S) \<and> p = token_principal kind \<and>
            \<not> requires_signed_browser_identity S r \<and> W' = W) \<or>
         (\<exists>k. evaluation_signed S sign t r k \<and>
            consume_proxy_identity_nonce S sha t' (id_nonce (ec_identity k)) (max 1 (as_proxy_identity_ttl S)) W = (Some True, W') \<and>
            p = \<lparr>ep_role = ec_role k, ep_login = id_login (ec_identity k), ep_provider = id_provider (ec_identity k),
                 ep_auth_method = ''token'', ep_token_kind = None\<rparr>)"
proof -
  define provided where
    "provided = or_default (bearer_token (header r ''authorization'')) (stripped (header r ''x-codemate-evaluation-token''))"
  obtain kind token where m: "matching_evaluation_service_token provided (evaluation_service_tokens S) = Inr (Some (kind, token))"
    and p: "(if has_identity_headers (identity_headers r) then signed_evaluation_principal S sign sha t t' token r W
             else if requires_signed_browser_identity S r
             then (Inl (Http 401 ''Signed evaluation identity required for browser requests''), W)
             else (Inr (token_principal kind), W)) = (Inr p, W')"
    using assms unfolding get_evaluation_principal_def provided_def Let_def
    by (simp split: sum.splits option.splits prod.splits)
  note tok = service_token_matches [OF m]
  show ?thesis
  proof (cases "has_identity_headers (identity_headers r)")
    case True
    then have "signed_evaluation_principal S sign sha t t' token r W = (Inr p, W')" using p by simp
    then show ?thesis
      by (elim signed_evaluation_accepted) (use tok in \<open>auto simp: provided_def intro!: evaluation_claim_signed\<close>)
  next
    case False
    then show ?thesis using p tok by (force split: if_splits)
  qed
qed

lemma evaluation_world:
  assumes "get_evaluation_principal S sign sha t t' r W = (a, W')"
  shows "W' = W \<or> (\<exists>n ttl ok. consume_proxy_identity_nonce S sha t' n ttl W = (ok, W'))"
  using assms
  by (auto simp: get_evaluation_principal_def signed_evaluation_principal_def Let_def
      split: if_splits option.splits sum.splits prod.splits bool.splits)

section \<open>Histories\<close>

datatype door_event =
    Product_call web_request "http_error + product_principal"
  | Evaluation_call web_request "http_error + evaluation_principal"
  | Peer_consumes string int \<comment> \<open>another process consumes a nonce in the shared store\<close>
  | Redis_answers bool

text \<open>The clock of a state is the time the last event ended; a call reads it twice.\<close>

inductive door_step ::
  "access_settings \<Rightarrow> (string \<Rightarrow> string \<Rightarrow> string) \<Rightarrow> (string \<Rightarrow> string) \<Rightarrow> time \<times> nonce_world \<Rightarrow> time \<times> door_event \<Rightarrow>
   time \<times> nonce_world \<Rightarrow> bool" for S sign sha where
  product: "now \<le> t \<Longrightarrow> t \<le> t' \<Longrightarrow> get_product_principal S sign sha t t' r W = (a, W') \<Longrightarrow>
    door_step S sign sha (now, W) (t', Product_call r a) (t', W')"
| evaluation: "now \<le> t \<Longrightarrow> t \<le> t' \<Longrightarrow> get_evaluation_principal S sign sha t t' r W = (a, W') \<Longrightarrow>
    door_step S sign sha (now, W) (t', Evaluation_call r a) (t', W')"
| peer: "now \<le> t' \<Longrightarrow> consume_redis_nonce sha t' n ttl W = (ok, W') \<Longrightarrow>
    door_step S sign sha (now, W) (t', Peer_consumes n ttl) (t', W')"
| redis: "now \<le> t' \<Longrightarrow> door_step S sign sha (now, W) (t', Redis_answers b) (t', W\<lparr>nw_redis_up := b\<rparr>)"

inductive door_history ::
  "access_settings \<Rightarrow> (string \<Rightarrow> string \<Rightarrow> string) \<Rightarrow> (string \<Rightarrow> string) \<Rightarrow> time \<times> nonce_world \<Rightarrow> (time \<times> door_event) list \<Rightarrow>
   time \<times> nonce_world \<Rightarrow> bool" for S sign sha where
  none: "door_history S sign sha s [] s"
| more: "door_step S sign sha s e s' \<Longrightarrow> door_history S sign sha s' es s'' \<Longrightarrow> door_history S sign sha s (e # es) s''"

inductive_cases door_step_cases: "door_step S sign sha s e s'"
inductive_cases door_history_Cons: "door_history S sign sha s (e # es) s''"

text \<open>The nonce an accepted event spent, and for how long it is taken.\<close>

fun spent :: "access_settings \<Rightarrow> door_event \<Rightarrow> (string \<times> int) option" where
  "spent S (Product_call r (Inr p)) =
     (if stripped (as_product_api_token S) = [] then None
      else map_option (\<lambda>n. (''product:'' @ n, max 1 (as_product_identity_ttl S)))
             (parse_identity_nonce (the (header r ''x-codemate-product-identity-nonce''))))"
| "spent S (Evaluation_call r (Inr p)) =
     (if evaluation_service_tokens S = [] \<or> ep_token_kind p \<noteq> None then None
      else map_option (\<lambda>n. (n, max 1 (as_proxy_identity_ttl S)))
             (parse_identity_nonce (the (header r ''x-codemate-evaluation-identity-nonce''))))"
| "spent S e = None"

lemma max_one [simp]: "max 1 (max 1 (n :: int)) = max 1 n"
  by simp

lemma token_principal_kind [simp]: "ep_token_kind (token_principal kind) = Some kind"
  by (simp add: token_principal_def)

lemma spent_consumed:
  assumes "door_step S sign sha (now, W) (t', e) s'" "spent S e = Some (n, ttl)"
  shows "\<exists>W'. s' = (t', W') \<and> now \<le> t' \<and> consume_proxy_identity_nonce S sha t' n ttl W = (Some True, W') \<and> ttl = max 1 ttl"
  using assms(1)
proof (cases rule: door_step.cases)
  case (product t r a W')
  then obtain p where p: "a = Inr p" and token: "stripped (as_product_api_token S) \<noteq> []" and a: "e = Product_call r (Inr p)"
    using assms(2) by (cases a) (auto split: if_splits)
  obtain c where c: "product_signed S sign t r c"
    "consume_proxy_identity_nonce S sha t' (''product:'' @ id_nonce c) (max 1 (as_product_identity_ttl S)) W = (Some True, W')"
    using product product_accepted [of S sign sha t t' r W p W'] p token by metis
  then show ?thesis using product assms(2) a token by (auto simp: product_signed_def Let_def)
next
  case (evaluation t r a W')
  then obtain p where p: "a = Inr p" and token: "evaluation_service_tokens S \<noteq> []" "ep_token_kind p = None"
    and a: "e = Evaluation_call r (Inr p)"
    using assms(2) by (cases a) (auto split: if_splits)
  obtain c where c: "evaluation_signed S sign t r c"
    "consume_proxy_identity_nonce S sha t' (id_nonce (ec_identity c)) (max 1 (as_proxy_identity_ttl S)) W = (Some True, W')"
    using evaluation evaluation_accepted [of S sign sha t t' r W p W'] p token by auto
  then show ?thesis using evaluation assms(2) a token by (auto simp: evaluation_signed_def Let_def)
qed (use assms(2) in auto)

lemma consume_peer_held:
  assumes "nonce_held S sha u n W" "t < u" "consume_redis_nonce sha t m ttl W = (ok, W')"
  shows "nonce_held S sha u n W'"
proof -
  obtain e where e: "stored S sha W n = Some e" "u \<le> e" using assms(1) by (auto simp: nonce_held_def split: option.splits)
  then have "stored S sha W' n = Some e"
    using assms(2,3) consume_nonce_keeps [of "nw_redis W" "redis_nonce_key sha n" e t "redis_nonce_key sha m" ttl]
    by (auto simp: stored_def consume_redis_nonce_def split: if_splits prod.splits)
  then show ?thesis using e by (simp add: nonce_held_def)
qed

lemma held_step:
  assumes "door_step S sign sha (now, W) (t', e) s'" "nonce_held S sha u n W" "t' < u"
  shows "\<exists>W'. s' = (t', W') \<and> nonce_held S sha u n W'"
  using assms(1)
proof (cases rule: door_step.cases)
  case (product t r a W')
  then show ?thesis using product_world [of S sign sha t t' r W a W'] consume_keeps_held assms(2,3) by metis
next
  case (evaluation t r a W')
  then show ?thesis using evaluation_world [of S sign sha t t' r W a W'] consume_keeps_held assms(2,3) by metis
next
  case (peer m ttl ok W')
  then show ?thesis using consume_peer_held assms(2,3) by metis
next
  case (redis b)
  then show ?thesis using assms(2) by (simp add: nonce_held_def stored_def cong: if_cong)
qed

lemma door_step_now: "door_step S sign sha (now, W) (t', e) s' \<Longrightarrow> now \<le> t' \<and> fst s' = t'"
  by (auto elim: door_step.cases)

lemma door_history_times: "door_history S sign sha s es s' \<Longrightarrow> \<forall>(t, e) \<in> set es. fst s \<le> t"
  by (induction rule: door_history.induct) (use door_step_now in \<open>force+\<close>)

lemma held_is_not_spent:
  assumes "door_history S sign sha s es s'" "nonce_held S sha u n (snd s)" "(t, e) \<in> set es" "spent S e = Some (n, ttl)"
  shows "u \<le> t"
  using assms
proof (induction arbitrary: t e rule: door_history.induct)
  case (more s x s' es s'')
  obtain now W t0 e0 where s: "s = (now, W)" "x = (t0, e0)" by fastforce
  show ?case
  proof (cases "t0 < u")
    case True
    then obtain W' where W': "s' = (t0, W')" "nonce_held S sha u n W'" using held_step more.hyps(1) more.prems(1) s by (metis snd_conv)
    show ?thesis
    proof (cases "(t, e) = x")
      case True
      then have "consume_proxy_identity_nonce S sha t n ttl W = (Some True, W')"
        using spent_consumed [of S sign sha now W t e s' n ttl] more s W' by auto
      then show ?thesis using consume_keeps_held(2) [of S sha u n W t n ttl] more.prems(1) \<open>t0 < u\<close> True s by auto
    next
      case False
      then show ?thesis using more W' by auto
    qed
  next
    case False
    have "t0 \<le> t" using door_history_times [OF more.hyps(2)] door_step_now more.hyps(1) more.prems(2) s by fastforce
    then show ?thesis using False by simp
  qed
qed auto

lemma door_history_append:
  "door_history S sign sha s (xs @ ys) s'' \<Longrightarrow> \<exists>s'. door_history S sign sha s xs s' \<and> door_history S sign sha s' ys s''"
proof (induction xs arbitrary: s)
  case (Cons x xs)
  then show ?case by (metis append_Cons door_history.more door_history_Cons)
qed (auto intro: door_history.none)

lemma nonce_is_spent_once:
  assumes "door_history S sign sha s (xs @ (t, e) # ys) s'" "spent S e = Some (n, ttl)"
    "(t2, e2) \<in> set ys" "spent S e2 = Some (n, ttl2)"
  shows "t + secs ttl \<le> t2"
proof -
  obtain s1 s2 where h: "door_step S sign sha s1 (t, e) s2" "door_history S sign sha s2 ys s'"
    using door_history_append [OF assms(1)] by (auto elim: door_history_Cons)
  obtain W W' where W: "s2 = (t, W')" "consume_proxy_identity_nonce S sha t n ttl W = (Some True, W')" "ttl = max 1 ttl"
    using spent_consumed [of S sign sha "fst s1" "snd s1" t e s2 n ttl] h(1) assms(2) by auto
  have "nonce_held S sha (t + secs ttl) n W'" using consume_grants [OF W(2)] W(3) by simp
  then show ?thesis using held_is_not_spent [OF h(2)] W(1) assms(3,4) by simp
qed

section \<open>The property\<close>

text \<open>
  C31.  Signed identities are used once.  In every history of the API, whatever other processes do to the shared nonce store and
  whenever it fails: once a bearer token is configured, every product call that is accepted presents that token and a
  signature by one of the configured secrets over exactly its method, path, query, time, nonce and owner, dated within the
  window; every evaluation call accepted under an identity does the same with its role; and two accepted calls that spent
  the same nonce lie at least the configured lifetime apart.
\<close>

theorem identities_are_used_once:
  assumes "door_history S sign sha s (xs @ (t1, e1) # ys @ (t2, e2) # zs) s'"
  shows "(\<forall>r p. e1 = Product_call r (Inr p) \<and> stripped (as_product_api_token S) \<noteq> [] \<longrightarrow>
            (\<exists>t c. t \<le> t1 \<and> product_signed S sign t r c \<and> pp_owner_id p = owner_id (id_provider c) (id_login c) \<and>
               spent S e1 = Some (''product:'' @ id_nonce c, max 1 (as_product_identity_ttl S)))) \<and>
         (\<forall>r p. e1 = Evaluation_call r (Inr p) \<and> evaluation_service_tokens S \<noteq> [] \<and> ep_token_kind p = None \<longrightarrow>
            (\<exists>t k. t \<le> t1 \<and> evaluation_signed S sign t r k \<and> ep_role p = ec_role k \<and> ep_login p = id_login (ec_identity k) \<and>
               spent S e1 = Some (id_nonce (ec_identity k), max 1 (as_proxy_identity_ttl S)))) \<and>
         (\<forall>n ttl ttl2. spent S e1 = Some (n, ttl) \<and> spent S e2 = Some (n, ttl2) \<longrightarrow> t1 + secs ttl \<le> t2)"
proof -
  obtain s1 s2 where h: "door_step S sign sha s1 (t1, e1) s2"
    using door_history_append [OF assms] by (auto elim: door_history_Cons)
  show ?thesis
  proof (intro conjI allI impI)
    fix r p assume e: "e1 = Product_call r (Inr p) \<and> stripped (as_product_api_token S) \<noteq> []"
    from h e obtain now W t W' where g: "s1 = (now, W)" "t \<le> t1" "get_product_principal S sign sha t t1 r W = (Inr p, W')"
      by (auto elim: door_step_cases)
    obtain c where c: "product_signed S sign t r c" "pp_owner_id p = owner_id (id_provider c) (id_login c)"
      using product_accepted [OF g(3) e [THEN conjunct2]] by (metis product_principal.select_convs(1))
    have "parse_identity_nonce (the (header r ''x-codemate-product-identity-nonce'')) = Some (id_nonce c)"
      using c(1) by (auto simp: product_signed_def Let_def)
    then show "\<exists>t c. t \<le> t1 \<and> product_signed S sign t r c \<and> pp_owner_id p = owner_id (id_provider c) (id_login c) \<and>
       spent S e1 = Some (''product:'' @ id_nonce c, max 1 (as_product_identity_ttl S))"
      using e g c by auto
  next
    fix r p assume e: "e1 = Evaluation_call r (Inr p) \<and> evaluation_service_tokens S \<noteq> [] \<and> ep_token_kind p = None"
    from h e obtain now W t W' where g: "s1 = (now, W)" "t \<le> t1" "get_evaluation_principal S sign sha t t1 r W = (Inr p, W')"
      by (auto elim: door_step_cases)
    then obtain k where k: "evaluation_signed S sign t r k" "ep_role p = ec_role k" "ep_login p = id_login (ec_identity k)"
      using evaluation_accepted [OF g(3)] e by auto
    have "parse_identity_nonce (the (header r ''x-codemate-evaluation-identity-nonce'')) = Some (id_nonce (ec_identity k))"
      using k(1) by (auto simp: evaluation_signed_def Let_def)
    then show "\<exists>t k. t \<le> t1 \<and> evaluation_signed S sign t r k \<and> ep_role p = ec_role k \<and> ep_login p = id_login (ec_identity k) \<and>
       spent S e1 = Some (id_nonce (ec_identity k), max 1 (as_proxy_identity_ttl S))"
      using e g k by auto
  next
    fix n ttl ttl2 assume "spent S e1 = Some (n, ttl) \<and> spent S e2 = Some (n, ttl2)"
    then show "t1 + secs ttl \<le> t2" using nonce_is_spent_once [of S sign sha s xs t1 e1 "ys @ (t2, e2) # zs" s'] assms by auto
  qed
qed

section \<open>A concrete door\<close>

definition demo_sign :: "string \<Rightarrow> string \<Rightarrow> string" where
  "demo_sign secret payload = ''mac-'' @ secret"

definition demo_access :: access_settings where
  "demo_access = \<lparr>
     as_product_api_token = Some ''token'',
     as_evaluation_admin_token = Some ''admin'',
     as_evaluation_ci_token = None,
     as_evaluation_read_token = None,
     as_product_identity_ttl = 300,
     as_proxy_identity_ttl = 300,
     as_product_secret = Some ''key'',
     as_product_previous_secret = None,
     as_proxy_secret = Some ''key'',
     as_proxy_previous_secret = None,
     as_signed_browser_identity = True,
     as_nonce_store = Some ''memory'',
     as_mcp_client_enabled = False,
     as_mcp_client_token = None\<rparr>"

definition demo_request :: web_request where
  "demo_request = \<lparr>wr_method = ''GET'', wr_path = ''/runs'', wr_query = [],
     wr_headers =
       [(''authorization'', ''Bearer token''), (''x-codemate-product-user'', ''Ann''),
        (''x-codemate-product-provider'', ''github''), (''x-codemate-product-identity-timestamp'', ''0''),
        (''x-codemate-product-identity-nonce'', ''aaaaaaaaaaaaaaaa''),
        (''x-codemate-product-identity-signature'', ''mac-key'')]\<rparr>"

definition demo_principal :: product_principal where
  "demo_principal = \<lparr>pp_owner_id = ''github:ann'', pp_login = ''Ann'', pp_provider = ''github'', pp_auth_method = ''token''\<rparr>"

definition fresh_world :: nonce_world where
  "fresh_world = \<lparr>nw_memory = [], nw_redis = [], nw_redis_up = True\<rparr>"

definition demo_claim :: identity_claim where
  "demo_claim = \<lparr>id_login = ''Ann'', id_provider = ''github'', id_nonce = ''aaaaaaaaaaaaaaaa'', id_timestamp = 0\<rparr>"

lemmas text_defs = header_strip_def header_space_def is_space_def header_lower_def header_lower_char_def is_ascii_def
  compare_digest_def stripped_def or_default_def none_or_empty_def

lemma demo_claimed:
  "in_window t 300 0 \<Longrightarrow> product_claim demo_access demo_sign t ''token'' demo_request = Inr demo_claim"
  by (simp add: product_claim_def demo_access_def demo_request_def demo_claim_def header_def header_identity_value_def
      parse_identity_nonce_def parse_int_def alphanumeric_def signature_refused_def demo_sign_def
      product_identity_verification_secrets_def text_or_def text_defs Let_def)

lemma demo_texts:
  "header_lower ''Bearer'' = ''bearer''" "owner_id ''github'' ''Ann'' = ''github:ann''"
  "owner_id ''github'' ''enterprise:ann'' = ''github:enterprise:ann''"
  "owner_id ''github:enterprise'' ''ann'' = ''github:enterprise:ann''"
  by code_simp+

lemma demo_token:
  "stripped (as_product_api_token demo_access) = ''token''"
  "bearer_refused (bearer_token (header demo_request ''authorization'')) ''token'' m = None"
  by (simp_all add: demo_access_def demo_request_def header_def bearer_refused_def bearer_token_def partition_space_def demo_texts
      header_strip_def header_space_def is_space_def is_ascii_def compare_digest_def stripped_def or_default_def none_or_empty_def)

lemma demo_accepted:
  assumes "in_window t 300 0" "map_of (live t' store) (''product:'' @ ''aaaaaaaaaaaaaaaa'') = None"
  shows "get_product_principal demo_access demo_sign sha t t' demo_request (fresh_world\<lparr>nw_memory := store\<rparr>) =
    (Inr demo_principal, fresh_world\<lparr>nw_memory := live t' store @ [(''product:'' @ ''aaaaaaaaaaaaaaaa'', t' + secs 300)]\<rparr>)"
proof -
  have "consume_proxy_identity_nonce demo_access sha t' (''product:'' @ id_nonce demo_claim)
      (max 1 (as_product_identity_ttl demo_access)) (fresh_world\<lparr>nw_memory := store\<rparr>) =
    (Some True, fresh_world\<lparr>nw_memory := live t' store @ [(''product:'' @ ''aaaaaaaaaaaaaaaa'', t' + secs 300)]\<rparr>)"
    using assms(2)
    by (simp add: consume_proxy_identity_nonce_def consume_nonce_def demo_access_def demo_claim_def text_defs fresh_world_def)
  then show ?thesis
    using demo_claimed [OF assms(1)] demo_token
    by (simp add: get_product_principal_def demo_principal_def demo_claim_def demo_texts)
qed

text \<open>
  A nonce lives for the lifetime, but the window reaches a minute ahead of the clock and the clock is cut to seconds: an
  identity dated at most 60 seconds ahead, or used within the second it was made in, is accepted again once its nonce is gone.
\<close>

lemma expired_nonce_is_replayed:
  "\<exists>W1 W2. get_product_principal demo_access demo_sign sha 0 0 demo_request fresh_world = (Inr demo_principal, W1) \<and>
     get_product_principal demo_access demo_sign sha (secs 300) (secs 300) demo_request W1 = (Inr demo_principal, W2)"
proof -
  have "in_window 0 300 0" "in_window (secs 300) 300 0" by (simp_all add: in_window_def secs_def Let_def)
  moreover have "live 0 [] = []" "live (secs 300) [(''product:'' @ ''aaaaaaaaaaaaaaaa'', secs 300)] = []"
    by (simp_all add: live_def)
  ultimately show ?thesis
    using demo_accepted [of 0 0 "[]" sha] demo_accepted [of "secs 300" "secs 300" "[(''product:'' @ ''aaaaaaaaaaaaaaaa'', secs 300)]" sha]
    by (simp add: fresh_world_def)
qed

lemma owner_ids_collide: "owner_id ''github'' ''enterprise:ann'' = owner_id ''github:enterprise'' ''ann''"
  by (simp add: demo_texts)

lemma non_ascii_token_is_unhandled:
  "expected \<noteq> [] \<Longrightarrow> \<not> is_ascii token \<Longrightarrow> bearer_refused (Some token) expected m = Some unhandled"
  by (simp add: bearer_refused_def compare_digest_def)

lemma identities_are_used_once_witness:
  "\<exists>t c. t \<le> 0 \<and> product_signed demo_access demo_sign t demo_request c \<and> owner_id (id_provider c) (id_login c) = ''github:ann''"
proof -
  define W1 where "W1 = fresh_world\<lparr>nw_memory := [(''product:'' @ ''aaaaaaaaaaaaaaaa'', secs 300)]\<rparr>"
  have w: "in_window 0 300 0" "in_window (secs 300) 300 0" by (simp_all add: in_window_def secs_def Let_def)
  have "get_product_principal demo_access demo_sign id 0 0 demo_request fresh_world = (Inr demo_principal, W1)"
    using demo_accepted [of 0 0 "[]" id] w by (simp add: live_def fresh_world_def W1_def)
  note first = door_step.product [OF order_refl order_refl this]
  have "get_product_principal demo_access demo_sign id (secs 300) (secs 300) demo_request W1 =
      (Inr demo_principal, fresh_world\<lparr>nw_memory := [(''product:'' @ ''aaaaaaaaaaaaaaaa'', secs 600)]\<rparr>)"
    using demo_accepted [of "secs 300" "secs 300" "[(''product:'' @ ''aaaaaaaaaaaaaaaa'', secs 300)]" id] w
    by (simp add: live_def fresh_world_def W1_def secs_def)
  note again = door_step.product [OF _ order_refl this, of 0]
  have "door_history demo_access demo_sign id (0, fresh_world)
      ([] @ (0, Product_call demo_request (Inr demo_principal)) # [] @
        (secs 300, Product_call demo_request (Inr demo_principal)) # [])
      (secs 300, fresh_world\<lparr>nw_memory := [(''product:'' @ ''aaaaaaaaaaaaaaaa'', secs 600)]\<rparr>)"
    unfolding append_Nil by (rule door_history.more [OF first door_history.more [OF again door_history.none]]) (simp add: secs_def)
  from identities_are_used_once [OF this, THEN conjunct1, rule_format, of demo_request demo_principal] demo_token(1)
  obtain t c where "t \<le> 0" "product_signed demo_access demo_sign t demo_request c"
    "pp_owner_id demo_principal = owner_id (id_provider c) (id_login c)" by auto
  moreover have "pp_owner_id demo_principal = ''github:ann''" by (simp add: demo_principal_def)
  ultimately show ?thesis by metis
qed

end
