(* ===== verification/AuditTrail.thy ===== *)
theory AuditTrail
  imports Access
begin

text \<open>
  The security audit: the middleware and the records of \<open>backend/app/core/audit.py\<close>, and the outbox that delivers them,
  \<open>services/security_audit_delivery_service.py\<close> over \<open>models/security_audit_delivery.py\<close>.  Digests, the SIEM, the object
  store, the texts of times, generated ids and the log file are parameters.  Text is characters of latin-1.
\<close>

section \<open>Rows and settings\<close>

record delivery =
  dl_id :: string
  dl_event_id :: string
  dl_sink :: string
  dl_payload :: pydict
  dl_sha256 :: string
  dl_status :: string
  dl_attempt_count :: int
  dl_next_attempt_at :: "time option"
  dl_lease_token :: "string option"
  dl_lease_expires_at :: "time option"
  dl_delivered_at :: "time option"
  dl_receipt :: "pydict option"
  dl_last_error :: "string option"
  dl_created_at :: time
  dl_updated_at :: time

record audit_settings =
  au_sinks :: "string set"
  au_fail_closed :: bool
  au_batch_size :: int
  au_max_attempts :: int
  au_lease_seconds :: int
  au_retention_days :: int
  au_siem_url :: "string option"
  au_siem_hmac_secret :: "string option"
  au_s3_bucket :: "string option"
  au_s3_prefix :: string
  au_s3_retention_days :: int

text \<open>An exception is the name of its type and its text.\<close>

type_synonym failure = "string \<times> string"

record audit_env =
  ae_sha256 :: "string \<Rightarrow> string"
  ae_sha256_base64 :: "string \<Rightarrow> string"
  ae_hmac :: "string \<Rightarrow> string \<Rightarrow> string"
  ae_day :: "time \<Rightarrow> string"
  ae_isoformat :: "time \<Rightarrow> string"

record http_post =
  hp_url :: string
  hp_content :: string
  hp_headers :: "(string \<times> string) list"

record put_object =
  po_bucket :: string
  po_key :: string
  po_body :: string
  po_checksum :: string
  po_event_sha256 :: string
  po_lock_mode :: string
  po_retain_until :: time

record sink_network =
  sn_post :: "http_post \<Rightarrow> failure + int \<times> string option"
  sn_put :: "put_object \<Rightarrow> failure + string option \<times> string option"

section \<open>Enqueueing\<close>

definition ascii_char :: "char \<Rightarrow> string" where
  \<comment> \<open>the escape of \<open>ensure_ascii\<close>\<close>
  "ascii_char c =
     (let n = (of_char c :: nat)
      in if n < 127 then [c] else [CHR 0x5C] @ ''u00'' @ [hex_digit (n div 16), hex_digit (n mod 16)])"

definition canonical_payload :: "pydict \<Rightarrow> string" where
  "canonical_payload record = concat (map ascii_char (canonical_json (PDict record)))"

definition delivery_error :: "string \<Rightarrow> failure" where
  "delivery_error text = (''SecurityAuditDeliveryError'', text)"

definition record_event_id :: "pydict \<Rightarrow> string" where
  \<comment> \<open>\<open>str(record.get("id") or "").strip()\<close>\<close>
  "record_event_id record = header_strip (let v = dget record ''id'' in if truthy v then py_str v else [])"

definition new_delivery :: "audit_env \<Rightarrow> time \<Rightarrow> pydict \<Rightarrow> string \<times> string \<Rightarrow> delivery" where
  "new_delivery E t record id_sink = \<lparr>
     dl_id = fst id_sink, dl_event_id = record_event_id record, dl_sink = snd id_sink, dl_payload = record,
     dl_sha256 = ae_sha256 E (canonical_payload record), dl_status = ''pending'', dl_attempt_count = 0,
     dl_next_attempt_at = None, dl_lease_token = None, dl_lease_expires_at = None, dl_delivered_at = None,
     dl_receipt = None, dl_last_error = None, dl_created_at = t, dl_updated_at = t\<rparr>"

definition enqueue ::
  "audit_settings \<Rightarrow> audit_env \<Rightarrow> time \<Rightarrow> string list \<Rightarrow> pydict \<Rightarrow> delivery list \<Rightarrow> (failure + int) \<times> delivery list" where
  \<comment> \<open>with fresh ids for the rows; the unique constraint is on event and sink\<close>
  "enqueue A E t ids record rows =
     (let sinks = sorted_list_of_set (au_sinks A); unsupported = au_sinks A - {''http'', ''s3''}; event = record_event_id record
      in if unsupported \<noteq> {}
         then (Inl (delivery_error (''Unsupported security audit sinks: '' @ join '', '' (sorted_list_of_set unsupported))), rows)
         else if sinks = [] then (Inr 0, rows)
         else if event = [] then (Inl (delivery_error ''Security audit event requires an id''), rows)
         else if \<exists>r \<in> set rows. dl_event_id r = event \<and> dl_sink r \<in> set sinks
         then if length (filter (\<lambda>r. dl_event_id r = event) rows) \<noteq> length sinks
              then (Inl (''IntegrityError'', ''uq_security_audit_event_sink''), rows) else (Inr (int (length sinks)), rows)
         else (Inr (int (length sinks)), rows @ map (new_delivery E t record) (zip ids sinks)))"

section \<open>Claiming\<close>

definition eligible :: "time \<Rightarrow> delivery \<Rightarrow> bool" where
  "eligible t r \<longleftrightarrow>
     dl_status r = ''pending'' \<or>
     (dl_status r = ''retry'' \<and> (case dl_next_attempt_at r of None \<Rightarrow> True | Some n \<Rightarrow> n \<le> t)) \<or>
     (dl_status r = ''delivering'' \<and> (case dl_lease_expires_at r of None \<Rightarrow> False | Some e \<Rightarrow> e < t))"

definition leased_delivery :: "audit_settings \<Rightarrow> time \<Rightarrow> string \<Rightarrow> delivery \<Rightarrow> delivery" where
  "leased_delivery A t token r = r\<lparr>
     dl_status := ''delivering'', dl_attempt_count := dl_attempt_count r + 1, dl_lease_token := Some token,
     dl_lease_expires_at := Some (t + secs (max 10 (au_lease_seconds A))), dl_updated_at := t\<rparr>"

definition claimable_ids :: "time \<Rightarrow> int \<Rightarrow> delivery list \<Rightarrow> string list" where
  "claimable_ids t limit rows = map dl_id (py_head (max 1 limit) (sort_key dl_created_at (filter (eligible t) rows)))"

definition claim_batch ::
  "audit_settings \<Rightarrow> time \<Rightarrow> (string \<Rightarrow> string) \<Rightarrow> int \<Rightarrow> delivery list \<Rightarrow> (string \<times> string) list \<times> delivery list" where
  \<comment> \<open>with a fresh token for each row\<close>
  "claim_batch A t token_of limit rows =
     (let ids = claimable_ids t limit rows
      in (map (\<lambda>i. (i, token_of i)) ids,
          map (\<lambda>r. if dl_id r \<in> set ids then leased_delivery A t (token_of (dl_id r)) r else r) rows))"

section \<open>Delivering\<close>

definition siem_request :: "audit_settings \<Rightarrow> audit_env \<Rightarrow> time \<Rightarrow> delivery \<Rightarrow> string \<Rightarrow> http_post" where
  "siem_request A E t r payload =
     (let timestamp = str_int (t div 1000000);
          signature = ae_hmac E (stripped (au_siem_hmac_secret A)) (timestamp @ ''.'' @ dl_sha256 r)
      in \<lparr>hp_url = stripped (au_siem_url A), hp_content = payload, hp_headers =
           [(''Content-Type'', ''application/json''), (''Idempotency-Key'', dl_event_id r),
            (''X-CodeMate-Event-SHA256'', dl_sha256 r), (''X-CodeMate-Timestamp'', timestamp),
            (''X-CodeMate-Signature'', ''sha256='' @ signature)]\<rparr>)"

definition deliver_http :: "audit_settings \<Rightarrow> audit_env \<Rightarrow> sink_network \<Rightarrow> time \<Rightarrow> delivery \<Rightarrow> string \<Rightarrow> failure + pydict" where
  \<comment> \<open>a status outside 200 to 299 raises\<close>
  "deliver_http A E N t r payload =
     (if stripped (au_siem_url A) = [] \<or> stripped (au_siem_hmac_secret A) = []
      then Inl (delivery_error ''SIEM URL and HMAC secret are required'')
      else case sn_post N (siem_request A E t r payload) of
        Inl e \<Rightarrow> Inl e
      | Inr (status_code, request_id) \<Rightarrow>
          if status_code < 200 \<or> 299 < status_code then Inl (''HTTPStatusError'', str_int status_code)
          else Inr [(''status_code'', PInt status_code), (''request_id'', str_or_none request_id)])"

definition strip_slashes :: "string \<Rightarrow> string" where
  "strip_slashes s = rev (dropWhile (\<lambda>c. c = CHR ''/'') (rev (dropWhile (\<lambda>c. c = CHR ''/'') s)))"

definition archive_object :: "audit_settings \<Rightarrow> audit_env \<Rightarrow> time \<Rightarrow> delivery \<Rightarrow> string \<Rightarrow> put_object" where
  "archive_object A E t r payload = \<lparr>
     po_bucket = stripped (au_s3_bucket A),
     po_key = strip_slashes (au_s3_prefix A) @ ''/'' @ ae_day E (dl_created_at r) @ ''/'' @ dl_event_id r @ ''.json'',
     po_body = payload, po_checksum = ae_sha256_base64 E payload, po_event_sha256 = dl_sha256 r,
     po_lock_mode = ''COMPLIANCE'', po_retain_until = t + secs (86400 * max 30 (au_s3_retention_days A))\<rparr>"

definition deliver_s3 :: "audit_settings \<Rightarrow> audit_env \<Rightarrow> sink_network \<Rightarrow> time \<Rightarrow> delivery \<Rightarrow> string \<Rightarrow> failure + pydict" where
  "deliver_s3 A E N t r payload =
     (if stripped (au_s3_bucket A) = [] then Inl (delivery_error ''Security audit S3 bucket is required'')
      else let object = archive_object A E t r payload
           in case sn_put N object of
                Inl e \<Rightarrow> Inl e
              | Inr (version_id, etag) \<Rightarrow>
                  Inr [(''bucket'', PStr (po_bucket object)), (''key'', PStr (po_key object)),
                       (''version_id'', str_or_none version_id), (''etag'', str_or_none etag),
                       (''retention_mode'', PStr ''COMPLIANCE''),
                       (''retain_until'', PStr (ae_isoformat E (po_retain_until object)))])"

definition deliver :: "audit_settings \<Rightarrow> audit_env \<Rightarrow> sink_network \<Rightarrow> time \<Rightarrow> delivery \<Rightarrow> failure + pydict" where
  "deliver A E N t r =
     (let payload = canonical_payload (dl_payload r)
      in if ae_sha256 E payload \<noteq> dl_sha256 r then Inl (delivery_error ''Audit payload integrity check failed'')
         else if dl_sink r = ''http'' then deliver_http A E N t r payload
         else if dl_sink r = ''s3'' then deliver_s3 A E N t r payload
         else Inl (delivery_error (''Unsupported sink: '' @ dl_sink r)))"

definition retry_delay :: "int \<Rightarrow> int" where
  "retry_delay attempts = min 3600 (2 ^ nat (min 10 attempts))"

definition finished_delivery :: "audit_settings \<Rightarrow> time \<Rightarrow> delivery \<Rightarrow> failure + pydict \<Rightarrow> delivery \<Rightarrow> delivery" where
  \<comment> \<open>what is written of a delivery that was read as \<open>seen\<close>, onto the row as it is now\<close>
  "finished_delivery A t seen result r =
     (case result of
        Inr receipt \<Rightarrow> r\<lparr>dl_status := ''delivered'', dl_delivered_at := Some t, dl_receipt := Some receipt, dl_last_error := None\<rparr>
      | Inl (name, text) \<Rightarrow>
          let failed = r\<lparr>dl_last_error := Some (take 4000 (name @ '': '' @ text))\<rparr>
          in if max 1 (au_max_attempts A) \<le> dl_attempt_count seen then failed\<lparr>dl_status := ''dead_letter''\<rparr>
             else failed\<lparr>dl_status := ''retry'', dl_next_attempt_at := Some (t + secs (retry_delay (dl_attempt_count seen)))\<rparr>)
     \<lparr>dl_lease_token := None, dl_lease_expires_at := None, dl_updated_at := t\<rparr>"

definition begin_delivery :: "string \<Rightarrow> string \<Rightarrow> delivery list \<Rightarrow> delivery option" where
  "begin_delivery i token rows =
     (case List.find (\<lambda>r. dl_id r = i) rows of
        None \<Rightarrow> None | Some r \<Rightarrow> if dl_lease_token r \<noteq> Some token then None else Some r)"

definition finish_delivery :: "audit_settings \<Rightarrow> time \<Rightarrow> delivery \<Rightarrow> failure + pydict \<Rightarrow> delivery list \<Rightarrow> delivery list" where
  "finish_delivery A t seen result rows =
     map (\<lambda>r. if dl_id r = dl_id seen then finished_delivery A t seen result r else r) rows"

text \<open>One batch of a worker that runs alone; the counts are claimed, delivered, to retry and dead.\<close>

fun deliver_claimed ::
  "audit_settings \<Rightarrow> audit_env \<Rightarrow> sink_network \<Rightarrow> time \<Rightarrow> (string \<times> string) list \<Rightarrow> delivery list \<Rightarrow> int \<times> int \<times> int \<Rightarrow>
   delivery list \<times> int \<times> int \<times> int" where
  "deliver_claimed A E N t [] rows counts = (rows, counts)"
| "deliver_claimed A E N t ((i, token) # claimed) rows (delivered, retry, dead) =
     (case begin_delivery i token rows of
        None \<Rightarrow> deliver_claimed A E N t claimed rows (delivered, retry, dead)
      | Some r \<Rightarrow>
          let result = deliver A E N t r
          in deliver_claimed A E N t claimed (finish_delivery A t r result rows)
               (case result of
                  Inr receipt \<Rightarrow> (delivered + 1, retry, dead)
                | Inl e \<Rightarrow> if max 1 (au_max_attempts A) \<le> dl_attempt_count r then (delivered, retry, dead + 1)
                           else (delivered, retry + 1, dead)))"

definition deliver_batch ::
  "audit_settings \<Rightarrow> audit_env \<Rightarrow> sink_network \<Rightarrow> time \<Rightarrow> (string \<Rightarrow> string) \<Rightarrow> int option \<Rightarrow> delivery list \<Rightarrow>
   pydict \<times> delivery list" where
  "deliver_batch A E N t token_of limit rows =
     (let (claimed, rows1) = claim_batch A t token_of
            (case limit of None \<Rightarrow> au_batch_size A | Some n \<Rightarrow> if n = 0 then au_batch_size A else n) rows;
          (rows2, delivered, retry, dead) = deliver_claimed A E N t claimed rows1 (0, 0, 0)
      in ([(''claimed'', PInt (int (length claimed))), (''delivered'', PInt delivered), (''retry'', PInt retry),
           (''dead_letter'', PInt dead)], rows2))"

section \<open>Housekeeping\<close>

definition purged :: "audit_settings \<Rightarrow> time \<Rightarrow> delivery \<Rightarrow> bool" where
  "purged A t r \<longleftrightarrow>
     dl_status r = ''delivered'' \<and>
     (case dl_delivered_at r of None \<Rightarrow> False | Some d \<Rightarrow> d < t - secs (86400 * max 30 (au_retention_days A)))"

definition purge_delivered :: "audit_settings \<Rightarrow> time \<Rightarrow> delivery list \<Rightarrow> int \<times> delivery list" where
  "purge_delivered A t rows = (int (length (filter (purged A t) rows)), filter (\<lambda>r. \<not> purged A t r) rows)"

definition requeued_delivery :: "time \<Rightarrow> delivery \<Rightarrow> delivery" where
  "requeued_delivery t r = r\<lparr>dl_status := ''pending'', dl_attempt_count := 0, dl_next_attempt_at := None,
     dl_lease_token := None, dl_lease_expires_at := None, dl_last_error := None, dl_updated_at := t\<rparr>"

definition requeue_dead_letters :: "time \<Rightarrow> int \<Rightarrow> delivery list \<Rightarrow> int \<times> delivery list" where
  "requeue_dead_letters t limit rows =
     (let ids = map dl_id (py_head (max 1 (min limit 1000))
            (sort_key dl_created_at (filter (\<lambda>r. dl_status r = ''dead_letter'') rows)))
      in (int (length ids), map (\<lambda>r. if dl_id r \<in> set ids then requeued_delivery t r else r) rows))"

definition event_status :: "string \<Rightarrow> delivery list \<Rightarrow> (string \<times> int) list \<times> time option" where
  \<comment> \<open>the counts by status of an event, and the oldest creation of a delivery that is not done\<close>
  "event_status event rows =
     (let mine = filter (\<lambda>r. dl_event_id r = event) rows;
          counts = fold (\<lambda>r c. AList.update (dl_status r) (case map_of c (dl_status r) of None \<Rightarrow> 1 | Some n \<Rightarrow> n + 1) c) mine [];
          waiting = map dl_created_at (filter (\<lambda>r. dl_status r \<noteq> ''delivered'') mine)
      in (counts, if waiting = [] then None else Some (Min (set waiting))))"

definition verified_probe :: "string \<Rightarrow> delivery list \<Rightarrow> bool" where
  \<comment> \<open>\<open>verify_security_integrations\<close> after its deliveries\<close>
  "verified_probe event rows \<longleftrightarrow>
     (let mine = filter (\<lambda>r. dl_event_id r = event) rows in mine \<noteq> [] \<and> (\<forall>r \<in> set mine. dl_status r = ''delivered''))"

section \<open>Which requests are audited\<close>

definition under_path :: "string \<Rightarrow> string \<Rightarrow> bool" where
  "under_path prefix path \<longleftrightarrow> path = prefix \<or> starts_with (prefix @ ''/'') path"

definition is_product_path :: "string \<Rightarrow> bool" where
  "is_product_path path \<longleftrightarrow> under_path ''/repos'' path \<or> starts_with ''/runs/'' path"

definition is_security_audit_path :: "string \<Rightarrow> bool" where
  "is_security_audit_path path \<longleftrightarrow>
     is_product_path path \<or> under_path ''/evaluations'' path \<or> under_path ''/mcp-approvals'' path \<or>
     under_path ''/mcp-executions'' path \<or> under_path ''/mcp-operations'' path \<or> under_path ''/mcp-registry'' path \<or>
     under_path ''/mcp-tenancy'' path \<or> under_path ''/mcp-quotas'' path"

definition backend_request_event_type :: "string \<Rightarrow> string" where
  "backend_request_event_type path =
     (if is_product_path path then ''backend_product_request''
      else if under_path ''/mcp-quotas'' path then ''backend_mcp_quota_request''
      else if under_path ''/mcp-tenancy'' path then ''backend_mcp_tenancy_request''
      else if under_path ''/mcp-registry'' path then ''backend_mcp_registry_request''
      else if under_path ''/mcp-operations'' path then ''backend_mcp_operations_request''
      else if under_path ''/mcp-executions'' path then ''backend_mcp_execution_request''
      else if under_path ''/mcp-approvals'' path then ''backend_mcp_approval_request''
      else ''backend_evaluation_request'')"

definition audit_outcome :: "int \<Rightarrow> string" where
  "audit_outcome status = (if status < 400 then ''success'' else if status \<in> {401, 403} then ''blocked'' else ''failure'')"

definition audit_reason :: "int \<Rightarrow> string option" where
  "audit_reason status =
     (if status < 400 then None else if status = 401 then Some ''unauthorized'' else if status = 403 then Some ''forbidden''
      else if 500 \<le> status then Some ''server_error'' else Some ''request_failed'')"

definition truncate_header :: "string option \<Rightarrow> string option" where
  "truncate_header v = map_option (\<lambda>s. take 512 (header_strip s)) v"

definition client_ip :: "web_request \<Rightarrow> string option \<Rightarrow> string option" where
  \<comment> \<open>the second argument is the host of the connection\<close>
  "client_ip r host =
     (let forwarded = header r ''x-forwarded-for''; real = header r ''x-real-ip''
      in if \<not> none_or_empty forwarded then truncate_header (Some (header_strip (hd (py_split (CHR '','') (the forwarded)))))
         else if \<not> none_or_empty real then truncate_header real else host)"

text \<open>Who a record names: the principal the handler's dependencies attached, the product one first.\<close>

record audit_actor =
  ac_provider :: string
  ac_login :: string
  ac_role :: "string option"
  ac_auth_method :: "string option"
  ac_token_kind :: "string option"

definition actor_of :: "product_principal option \<Rightarrow> evaluation_principal option \<Rightarrow> audit_actor" where
  "actor_of p e =
     (case p of
        Some q \<Rightarrow> \<lparr>ac_provider = pp_provider q, ac_login = pp_login q, ac_role = None, ac_auth_method = Some (pp_auth_method q),
          ac_token_kind = None\<rparr>
      | None \<Rightarrow>
        (case e of
           Some q \<Rightarrow> \<lparr>ac_provider = ep_provider q, ac_login = ep_login q, ac_role = Some (ep_role q),
             ac_auth_method = Some (ep_auth_method q), ac_token_kind = ep_token_kind q\<rparr>
         | None \<Rightarrow> \<lparr>ac_provider = ''unknown'', ac_login = ''anonymous'', ac_role = None, ac_auth_method = None, ac_token_kind = None\<rparr>))"

definition intent_record :: "audit_env \<Rightarrow> time \<Rightarrow> string \<Rightarrow> web_request \<Rightarrow> string option \<Rightarrow> pydict" where
  "intent_record E t i r host =
     [(''id'', PStr i), (''timestamp'', PStr (ae_isoformat E t)), (''eventType'', PStr ''backend_security_request_intent''),
      (''outcome'', PStr ''pending''),
      (''actor'', PDict [(''provider'', PStr ''unresolved''), (''login'', PStr ''unresolved''), (''role'', PNone)]),
      (''method'', PStr (wr_method r)), (''path'', PStr (wr_path r)), (''status'', PNone), (''reason'', PNone),
      (''ip'', str_or_none (client_ip r host)), (''userAgent'', str_or_none (truncate_header (header r ''user-agent''))),
      (''metadata'', PDict [(''phase'', PStr ''before_handler'')])]"

definition completion_record ::
  "audit_env \<Rightarrow> time \<Rightarrow> string \<Rightarrow> web_request \<Rightarrow> string option \<Rightarrow> audit_actor \<Rightarrow> int \<Rightarrow> pyval \<Rightarrow> string option \<Rightarrow> string option \<Rightarrow> pydict" where
  \<comment> \<open>the rounded duration is a number with decimals, an argument here\<close>
  "completion_record E t i r host a status duration reason intent =
     [(''id'', PStr i), (''timestamp'', PStr (ae_isoformat E t)), (''eventType'', PStr (backend_request_event_type (wr_path r))),
      (''outcome'', PStr (audit_outcome status)),
      (''actor'', PDict [(''provider'', PStr (ac_provider a)), (''login'', PStr (ac_login a)), (''role'', str_or_none (ac_role a))]),
      (''method'', PStr (wr_method r)), (''path'', PStr (wr_path r)), (''status'', PInt status),
      (''reason'', str_or_none (if none_or_empty reason then audit_reason status else reason)),
      (''ip'', str_or_none (client_ip r host)), (''userAgent'', str_or_none (truncate_header (header r ''user-agent''))),
      (''metadata'', PDict [(''authMethod'', str_or_none (ac_auth_method a)), (''tokenKind'', str_or_none (ac_token_kind a)),
         (''durationMs'', duration), (''intentId'', str_or_none intent)])]"

section \<open>The middleware\<close>

text \<open>
  The lines of the log file and the outbox.  \<open>am_log_ok\<close> and \<open>am_db_ok\<close> say whether the file can be written and the
  database answers, for the record written before the handler and for the one after it.
\<close>

record audit_world =
  aw_lines :: "string list"
  aw_rows :: "delivery list"

definition emit_security_audit_record ::
  "audit_settings \<Rightarrow> audit_env \<Rightarrow> bool \<Rightarrow> bool \<Rightarrow> time \<Rightarrow> string list \<Rightarrow> pydict \<Rightarrow> audit_world \<Rightarrow> failure option \<times> audit_world" where
  \<comment> \<open>a failed append is logged; a failed enqueue is raised when the audit fails closed\<close>
  "emit_security_audit_record A E log_ok db_ok t ids record w =
     (let w1 = (if log_ok then w\<lparr>aw_lines := aw_lines w @ [canonical_payload record]\<rparr> else w)
      in if au_sinks A = {} then (None, w1)
         else let (answer, rows) = (if db_ok then enqueue A E t ids record (aw_rows w1)
                                    else (Inl (''OperationalError'', ''database''), aw_rows w1))
              in (case answer of
                    Inr n \<Rightarrow> (None, w1\<lparr>aw_rows := rows\<rparr>)
                  | Inl e \<Rightarrow> (if au_fail_closed A then Some e else None, w1\<lparr>aw_rows := rows\<rparr>)))"

record 'w handled =
  hd_answer :: "failure + int"
  hd_actor :: audit_actor
  hd_duration :: pyval
  hd_world :: 'w

definition evaluation_audit_middleware ::
  "audit_settings \<Rightarrow> audit_env \<Rightarrow> bool \<times> bool \<Rightarrow> bool \<times> bool \<Rightarrow> time \<times> time \<Rightarrow> string \<times> string \<Rightarrow> string list \<times> string list \<Rightarrow>
   web_request \<Rightarrow> string option \<Rightarrow> ('w \<Rightarrow> 'w handled) \<Rightarrow> 'w \<Rightarrow> audit_world \<Rightarrow> (failure + int) \<times> 'w \<times> audit_world" where
  \<comment> \<open>pairs hold what is used before and after the handler; an exception of the last record replaces the answer\<close>
  "evaluation_audit_middleware A E log_ok db_ok ts events ids r host handler w aw =
     (if \<not> is_security_audit_path (wr_path r)
      then let h = handler w in (hd_answer h, hd_world h, aw)
      else
        let intended = (au_fail_closed A \<and> au_sinks A \<noteq> {});
            (refused, aw1) =
              (if intended
               then emit_security_audit_record A E (fst log_ok) (fst db_ok) (fst ts) (fst ids)
                      (intent_record E (fst ts) (fst events) r host) aw
               else (None, aw))
        in case refused of
             Some e \<Rightarrow> (Inl e, w, aw1)
           | None \<Rightarrow>
               let h = handler w;
                   (status, reason) = (case hd_answer h of Inr s \<Rightarrow> (s, None) | Inl e \<Rightarrow> (500, Some ''unhandled_exception''));
                   (failed, aw2) = emit_security_audit_record A E (snd log_ok) (snd db_ok) (snd ts) (snd ids)
                     (completion_record E (snd ts) (snd events) r host (hd_actor h) status (hd_duration h) reason
                        (if intended then Some (fst events) else None)) aw1
               in (case failed of Some e \<Rightarrow> Inl e | None \<Rightarrow> hd_answer h, hd_world h, aw2))"

end
