(* ===== verification/AuditTheorems.thy ===== *)
theory AuditTheorems
  imports AuditTrail
begin

text \<open>
  What the outbox promises.  A history interleaves the transactions of any number of workers; between reading a claimed
  row and writing its outcome a worker holds it in flight, while the others go on, and it may die.
\<close>

section \<open>Histories\<close>

record outbox =
  ob_now :: time
  ob_rows :: "delivery list"
  ob_flight :: "delivery list"
  ob_accepted :: "(string \<times> string \<times> string) list" \<comment> \<open>sink, event and payload of what a sink acknowledged\<close>

definition empty_outbox :: "time \<Rightarrow> outbox" where
  "empty_outbox t = \<lparr>ob_now = t, ob_rows = [], ob_flight = [], ob_accepted = []\<rparr>"

definition fresh_ids :: "string list \<Rightarrow> outbox \<Rightarrow> bool" where
  "fresh_ids ids D \<longleftrightarrow> distinct ids \<and> set ids \<inter> (dl_id ` set (ob_rows D) \<union> dl_id ` set (ob_flight D)) = {}"

definition delivery_key :: "delivery \<Rightarrow> string \<times> string \<times> string" where
  "delivery_key r = (dl_sink r, dl_event_id r, canonical_payload (dl_payload r))"

inductive outbox_step :: "audit_settings \<Rightarrow> audit_env \<Rightarrow> outbox \<Rightarrow> outbox \<Rightarrow> bool" for A E where
  enqueue: "ob_now D \<le> t \<Longrightarrow> fresh_ids ids D \<Longrightarrow> length ids = card (au_sinks A) \<Longrightarrow>
    enqueue A E t ids record (ob_rows D) = (a, rows) \<Longrightarrow> outbox_step A E D (D\<lparr>ob_now := t, ob_rows := rows\<rparr>)"
| claim: "ob_now D \<le> t \<Longrightarrow> claim_batch A t token_of limit (ob_rows D) = (claimed, rows) \<Longrightarrow>
    outbox_step A E D (D\<lparr>ob_now := t, ob_rows := rows\<rparr>)"
| start: "begin_delivery i token (ob_rows D) = Some r \<Longrightarrow> outbox_step A E D (D\<lparr>ob_flight := r # ob_flight D\<rparr>)"
| finish: "ob_now D \<le> t \<Longrightarrow> r \<in> set (ob_flight D) \<Longrightarrow> deliver A E N t r = result \<Longrightarrow>
    outbox_step A E D (D\<lparr>ob_now := t, ob_rows := finish_delivery A t r result (ob_rows D),
      ob_flight := remove1 r (ob_flight D),
      ob_accepted := (case result of Inr receipt \<Rightarrow> [delivery_key r] | Inl e \<Rightarrow> []) @ ob_accepted D\<rparr>)"
| crash: "r \<in> set (ob_flight D) \<Longrightarrow> outbox_step A E D (D\<lparr>ob_flight := remove1 r (ob_flight D)\<rparr>)"
| purge: "ob_now D \<le> t \<Longrightarrow> outbox_step A E D (D\<lparr>ob_now := t, ob_rows := snd (purge_delivered A t (ob_rows D))\<rparr>)"
| requeue: "ob_now D \<le> t \<Longrightarrow> outbox_step A E D (D\<lparr>ob_now := t, ob_rows := snd (requeue_dead_letters t limit (ob_rows D))\<rparr>)"

text \<open>The fields that never change tell a row from the others.\<close>

definition same_delivery :: "delivery \<Rightarrow> delivery \<Rightarrow> bool" where
  "same_delivery r r' \<longleftrightarrow> dl_id r' = dl_id r \<and> dl_event_id r' = dl_event_id r \<and> dl_sink r' = dl_sink r \<and>
     dl_payload r' = dl_payload r \<and> dl_sha256 r' = dl_sha256 r \<and> dl_created_at r' = dl_created_at r"

lemma same_delivery_refl [simp]: "same_delivery r r"
  by (simp add: same_delivery_def)

lemma same_delivery_trans: "same_delivery r r' \<Longrightarrow> same_delivery r' r'' \<Longrightarrow> same_delivery r r''"
  by (simp add: same_delivery_def)

lemma same_delivery_key: "same_delivery r r' \<Longrightarrow> delivery_key r' = delivery_key r"
  by (simp add: same_delivery_def delivery_key_def)

lemma same_delivery_simps [simp]:
  "same_delivery r (leased_delivery A t token r)" "same_delivery r (finished_delivery A t seen result r)"
  "same_delivery r (requeued_delivery t r)"
  by (auto simp: same_delivery_def leased_delivery_def finished_delivery_def requeued_delivery_def Let_def
      split: sum.splits prod.splits)

section \<open>The invariant\<close>

definition due_by :: "audit_settings \<Rightarrow> time \<Rightarrow> delivery \<Rightarrow> bool" where
  \<comment> \<open>the states of a delivery, with how long the others wait for it\<close>
  "due_by A now r \<longleftrightarrow>
     dl_status r \<in> {''pending'', ''dead_letter'', ''delivered''} \<or>
     (dl_status r = ''retry'' \<and> (\<exists>n. dl_next_attempt_at r = Some n \<and> n \<le> now + secs 1024)) \<or>
     (dl_status r = ''delivering'' \<and> (\<exists>e. dl_lease_expires_at r = Some e \<and> e \<le> now + secs (max 10 (au_lease_seconds A))))"

definition outbox_inv :: "audit_settings \<Rightarrow> audit_env \<Rightarrow> outbox \<Rightarrow> bool" where
  "outbox_inv A E D \<longleftrightarrow>
     distinct (map dl_id (ob_rows D)) \<and>
     (\<forall>r \<in> set (ob_rows D) \<union> set (ob_flight D). dl_sha256 r = ae_sha256 E (canonical_payload (dl_payload r))) \<and>
     (\<forall>f \<in> set (ob_flight D). \<forall>r \<in> set (ob_rows D). dl_id r = dl_id f \<longrightarrow> same_delivery f r) \<and>
     (\<forall>r \<in> set (ob_rows D). dl_status r = ''delivered'' \<longrightarrow> delivery_key r \<in> set (ob_accepted D)) \<and>
     (\<forall>r \<in> set (ob_rows D). due_by A (ob_now D) r)"

lemma due_by_mono: "due_by A now r \<Longrightarrow> now \<le> t \<Longrightarrow> due_by A t r"
  by (force simp: due_by_def)

text \<open>A step that maps every row to a later state of itself.\<close>

lemma inv_map:
  assumes "outbox_inv A E D" "\<And>r. r \<in> set (ob_rows D) \<Longrightarrow> same_delivery r (f r)" "ob_now D \<le> t"
    "set flight \<subseteq> set (ob_flight D)" "set (ob_accepted D) \<subseteq> set accepted"
    "\<And>r. r \<in> set (ob_rows D) \<Longrightarrow> dl_status (f r) = ''delivered'' \<Longrightarrow> delivery_key r \<in> set accepted"
    "\<And>r. r \<in> set (ob_rows D) \<Longrightarrow> due_by A t (f r)"
  shows "outbox_inv A E (D\<lparr>ob_now := t, ob_rows := map f (ob_rows D), ob_flight := flight, ob_accepted := accepted\<rparr>)"
proof -
  have ids: "map dl_id (map f (ob_rows D)) = map dl_id (ob_rows D)"
    using assms(2) by (auto simp: same_delivery_def)
  show ?thesis
    unfolding outbox_inv_def
  proof (intro conjI)
    show "distinct (map dl_id (ob_rows (D\<lparr>ob_now := t, ob_rows := map f (ob_rows D), ob_flight := flight, ob_accepted := accepted\<rparr>)))"
      using assms(1) ids by (simp add: outbox_inv_def del: map_map)
  qed (use assms in \<open>fastforce simp: outbox_inv_def same_delivery_def delivery_key_def\<close>)+
qed

lemma inv_rows:
  assumes "outbox_inv A E D" "\<And>r. r \<in> set (ob_rows D) \<Longrightarrow> same_delivery r (f r)" "ob_now D \<le> t"
    "\<And>r. r \<in> set (ob_rows D) \<Longrightarrow> dl_status (f r) = ''delivered'' \<Longrightarrow> dl_status r = ''delivered''"
    "\<And>r. r \<in> set (ob_rows D) \<Longrightarrow> due_by A t (f r)"
  shows "outbox_inv A E (D\<lparr>ob_now := t, ob_rows := map f (ob_rows D)\<rparr>)"
  using inv_map [OF assms(1-3) order_refl order_refl _ assms(5)] assms(1,4) by (auto simp: outbox_inv_def)

lemma inv_sub:
  assumes "outbox_inv A E D" "set flight \<subseteq> set (ob_flight D)"
  shows "outbox_inv A E (D\<lparr>ob_flight := flight\<rparr>)"
  using assms by (auto simp: outbox_inv_def)

lemma retry_delay_bound: "retry_delay n \<le> 1024"
proof -
  have "(2 :: int) ^ nat (min 10 n) \<le> 2 ^ 10" by (rule power_increasing) auto
  then show ?thesis by (simp add: retry_delay_def)
qed

lemma due_by_finished: "due_by A t (finished_delivery A t seen result r)"
  using retry_delay_bound [of "dl_attempt_count seen"]
  by (auto simp: due_by_def finished_delivery_def Let_def secs_def split: sum.splits prod.splits)

lemma due_by_simps [simp]: "due_by A t (leased_delivery A t token r)" "due_by A t (requeued_delivery t r)"
  by (simp_all add: due_by_def leased_delivery_def requeued_delivery_def secs_def)

lemma status_simps [simp]:
  "dl_status (leased_delivery A t token r) = ''delivering''" "dl_status (requeued_delivery t r) = ''pending''"
  by (simp_all add: leased_delivery_def requeued_delivery_def)

lemma inv_due: "outbox_inv A E D \<Longrightarrow> ob_now D \<le> t \<Longrightarrow> r \<in> set (ob_rows D) \<Longrightarrow> due_by A t r"
  by (auto simp: outbox_inv_def intro: due_by_mono)

lemma finished_status: "dl_status (finished_delivery A t seen result r) = ''delivered'' \<longleftrightarrow> (\<exists>receipt. result = Inr receipt)"
  by (auto simp: finished_delivery_def Let_def split: sum.splits prod.splits)

lemma distinct_id: "distinct (map dl_id rows) \<Longrightarrow> r \<in> set rows \<Longrightarrow> r' \<in> set rows \<Longrightarrow> dl_id r = dl_id r' \<Longrightarrow> r = r'"
  by (metis distinct_map inj_onD)

lemma enqueue_rows:
  assumes "enqueue A E t ids record rows = (a, rows')"
  shows "rows' = rows \<or>
    rows' = rows @ map (new_delivery E t record) (zip ids (sorted_list_of_set (au_sinks A))) \<and> a = Inr (int (length (sorted_list_of_set (au_sinks A))))"
  using assms by (auto simp: enqueue_def Let_def split: if_splits)

lemma inv_enqueue:
  assumes "outbox_inv A E D" "ob_now D \<le> t" "fresh_ids ids D" "enqueue A E t ids record (ob_rows D) = (a, rows)"
  shows "outbox_inv A E (D\<lparr>ob_now := t, ob_rows := rows\<rparr>)"
proof (cases "rows = ob_rows D")
  case True
  then show ?thesis using inv_rows [OF assms(1), of id t] assms(1,2) due_by_mono [OF _ assms(2)]
    by (simp add: outbox_inv_def)
next
  case False
  define new where "new = map (new_delivery E t record) (zip ids (sorted_list_of_set (au_sinks A)))"
  have rows: "rows = ob_rows D @ new" using enqueue_rows [OF assms(4)] False by (auto simp: new_def)
  have ids: "map dl_id new = take (length (sorted_list_of_set (au_sinks A))) ids"
    by (simp add: new_def new_delivery_def comp_def) (simp add: map_fst_zip_take min_def)
  then have sub: "dl_id ` set new \<subseteq> set ids" by (metis image_set set_take_subset)
  have fresh: "\<forall>r \<in> set new. dl_sha256 r = ae_sha256 E (canonical_payload (dl_payload r)) \<and> dl_status r = ''pending''"
    by (auto simp: new_def new_delivery_def)
  have "distinct (map dl_id new)" using assms(3) ids by (simp add: fresh_ids_def)
  moreover have "set (map dl_id (ob_rows D)) \<inter> set (map dl_id new) = {}" using assms(3) sub by (auto simp: fresh_ids_def)
  ultimately have "distinct (map dl_id (ob_rows D @ new))" using assms(1) by (simp add: outbox_inv_def del: set_map)
  moreover have "\<forall>r \<in> set (ob_rows D). due_by A t r" "\<forall>r \<in> set new. due_by A t r"
    using inv_due [OF assms(1,2)] fresh by (auto simp: due_by_def [where r = "r :: delivery" for r])
  moreover have "\<forall>f \<in> set (ob_flight D). \<forall>r \<in> set new. dl_id r \<noteq> dl_id f" using assms(3) sub by (auto simp: fresh_ids_def)
  ultimately show ?thesis using assms(1) fresh unfolding outbox_inv_def rows by (simp add: ball_Un)
qed

lemma inv_step: "outbox_step A E D D' \<Longrightarrow> outbox_inv A E D \<Longrightarrow> outbox_inv A E D'"
proof (induction rule: outbox_step.induct)
  case (enqueue D t ids event a rows)
  then show ?case by (intro inv_enqueue)
next
  case (claim D t token_of limit claimed rows)
  define f where "f r = (if dl_id r \<in> set (claimable_ids t limit (ob_rows D)) then leased_delivery A t (token_of (dl_id r)) r else r)" for r
  have rows: "rows = map f (ob_rows D)" using claim by (auto simp: claim_batch_def f_def Let_def)
  show ?case unfolding rows
    using claim by (intro inv_rows) (auto simp: f_def intro: inv_due split: if_splits)
next
  case (start i token D r)
  then have "r \<in> set (ob_rows D)" "dl_id r = i"
    by (auto simp: begin_delivery_def find_Some_iff split: option.splits if_splits)
  then show ?case using start distinct_id [of "ob_rows D"] by (fastforce simp: outbox_inv_def)
next
  case (finish D t r N result)
  let ?new = "case result of Inr receipt \<Rightarrow> [delivery_key r] | Inl e \<Rightarrow> []"
  define f where "f x = (if dl_id x = dl_id r then finished_delivery A t r result x else x)" for x
  have same: "\<forall>x \<in> set (ob_rows D). dl_id x = dl_id r \<longrightarrow> delivery_key x = delivery_key r"
    using finish same_delivery_key by (fastforce simp: outbox_inv_def)
  have "outbox_inv A E (D\<lparr>ob_now := t, ob_rows := map f (ob_rows D), ob_flight := remove1 r (ob_flight D),
      ob_accepted := ?new @ ob_accepted D\<rparr>)"
  proof (rule inv_map [OF finish(4)])
    fix x assume x: "x \<in> set (ob_rows D)"
    show "same_delivery x (f x)" by (simp add: f_def)
    show "due_by A t (f x)" using x finish due_by_finished due_by_mono by (auto simp: f_def outbox_inv_def)
    show "delivery_key x \<in> set (?new @ ob_accepted D)" if "dl_status (f x) = ''delivered''"
      using that x same finish(4) by (auto simp: f_def finished_status outbox_inv_def split: if_splits)
  qed (use finish set_remove1_subset in \<open>auto dest: subsetD [OF set_remove1_subset]\<close>)
  then show ?case by (simp add: finish_delivery_def f_def [abs_def])
next
  case (crash r D)
  then show ?case using inv_sub set_remove1_subset by metis
next
  case (purge D t)
  have "set (snd (purge_delivered A t (ob_rows D))) \<subseteq> set (ob_rows D)" by (auto simp: purge_delivered_def)
  moreover have "distinct (map dl_id (snd (purge_delivered A t (ob_rows D))))"
    using purge by (auto simp: purge_delivered_def outbox_inv_def intro: distinct_map_filter)
  moreover have "\<forall>r \<in> set (ob_rows D). due_by A t r" using inv_due [OF purge(2,1)] by blast
  ultimately show ?case using purge(2) unfolding outbox_inv_def by (simp add: subset_iff ball_Un)
next
  case (requeue D t limit)
  define ids where "ids = map dl_id (py_head (max 1 (min limit 1000))
            (sort_key dl_created_at (filter (\<lambda>r. dl_status r = ''dead_letter'') (ob_rows D))))"
  define f where "f r = (if dl_id r \<in> set ids then requeued_delivery t r else r)" for r
  have eq: "snd (requeue_dead_letters t limit (ob_rows D)) = map f (ob_rows D)"
    by (simp add: requeue_dead_letters_def f_def ids_def Let_def)
  show ?case unfolding eq
    using requeue by (intro inv_rows) (auto simp: f_def intro: inv_due split: if_splits)
qed

lemma inv_steps: "(outbox_step A E)\<^sup>*\<^sup>* D D' \<Longrightarrow> outbox_inv A E D \<Longrightarrow> outbox_inv A E D'"
  by (induction rule: rtranclp_induct) (auto intro: inv_step)

lemma inv_empty: "outbox_inv A E (empty_outbox t)"
  by (simp add: outbox_inv_def empty_outbox_def)

section \<open>Nothing is lost\<close>

text \<open>A row stays, with its identity, until it is purged, which only a delivered one is.\<close>

definition kept_or_accepted :: "delivery \<Rightarrow> outbox \<Rightarrow> bool" where
  "kept_or_accepted r D \<longleftrightarrow> (\<exists>r' \<in> set (ob_rows D). same_delivery r r') \<or> delivery_key r \<in> set (ob_accepted D)"

lemma kept_step:
  assumes "outbox_step A E D D'" "outbox_inv A E D" "kept_or_accepted r D"
  shows "kept_or_accepted r D'"
proof (cases "delivery_key r \<in> set (ob_accepted D)")
  case True
  have "delivery_key r \<in> set (ob_accepted D')" using assms(1) True by (cases rule: outbox_step.cases) auto
  then show ?thesis by (simp add: kept_or_accepted_def)
next
  case False
  then obtain r' where r': "r' \<in> set (ob_rows D)" "same_delivery r r'" using assms(3) by (auto simp: kept_or_accepted_def)
  have mapped: "kept_or_accepted r D'" if "ob_rows D' = map f (ob_rows D)" "\<And>x. same_delivery x (f x)" for f
    using that r' same_delivery_trans by (force simp: kept_or_accepted_def)
  show ?thesis using assms(1)
  proof (cases rule: outbox_step.cases)
    case (enqueue t ids event a rows)
    then show ?thesis using r' enqueue_rows by (fastforce simp: kept_or_accepted_def)
  next
    case (claim t token_of limit claimed rows)
    then show ?thesis
      by (intro mapped [where f = "\<lambda>r. if dl_id r \<in> set (claimable_ids t limit (ob_rows D)) then leased_delivery A t (token_of (dl_id r)) r else r"])
        (auto simp: claim_batch_def Let_def)
  next
    case (finish t x N result)
    then show ?thesis
      by (intro mapped [where f = "\<lambda>r. if dl_id r = dl_id x then finished_delivery A t x result r else r"])
        (auto simp: finish_delivery_def)
  next
    case (purge t)
    show ?thesis
    proof (cases "purged A t r'")
      case True
      then have "delivery_key r' \<in> set (ob_accepted D)" using assms(2) r'(1) by (auto simp: outbox_inv_def purged_def)
      then show ?thesis using False same_delivery_key [OF r'(2)] by simp
    next
      case False
      then show ?thesis using purge r' by (auto simp: kept_or_accepted_def purge_delivered_def)
    qed
  next
    case (requeue t limit)
    let ?ids = "map dl_id (py_head (max 1 (min limit 1000))
      (sort_key dl_created_at (filter (\<lambda>r. dl_status r = ''dead_letter'') (ob_rows D))))"
    show ?thesis
      by (rule mapped [where f = "\<lambda>r. if dl_id r \<in> set ?ids then requeued_delivery t r else r"])
        (auto simp: requeue requeue_dead_letters_def Let_def)
  qed (use r' in \<open>auto simp: kept_or_accepted_def\<close>)
qed

lemma kept_steps: "(outbox_step A E)\<^sup>*\<^sup>* D D' \<Longrightarrow> outbox_inv A E D \<Longrightarrow> kept_or_accepted r D \<Longrightarrow> kept_or_accepted r D'"
  by (induction rule: rtranclp_induct) (auto intro: kept_step inv_steps)

lemma enqueued_row:
  assumes "enqueue A E t ids event rows = (Inr n, rows')" "\<forall>r \<in> set rows. dl_event_id r \<noteq> record_event_id event"
    "sink \<in> au_sinks A" "finite (au_sinks A)" "length ids = card (au_sinks A)"
  shows "\<exists>r \<in> set rows'. delivery_key r = (sink, record_event_id event, canonical_payload event)"
proof -
  have "sorted_list_of_set (au_sinks A) \<noteq> []" using assms(3,4) by auto
  then have rows': "rows' = rows @ map (new_delivery E t event) (zip ids (sorted_list_of_set (au_sinks A)))"
    using assms(1,2) by (auto simp: enqueue_def Let_def split: if_splits)
  have "sink \<in> set (sorted_list_of_set (au_sinks A))" using assms(3,4) by simp
  then obtain k where k: "k < card (au_sinks A)" "sorted_list_of_set (au_sinks A) ! k = sink"
    by (metis in_set_conv_nth length_sorted_list_of_set)
  then have "(ids ! k, sink) \<in> set (zip ids (sorted_list_of_set (au_sinks A)))"
    using assms(5) by (auto simp: set_zip)
  then have "new_delivery E t event (ids ! k, sink) \<in> set rows'" using rows' by auto
  then show ?thesis by (intro bexI) (auto simp: delivery_key_def new_delivery_def)
qed


section \<open>Everything comes due\<close>

text \<open>
  C27.  Nothing waits for ever.  In every reachable state, after 1024 seconds or the lease, whichever is longer, every delivery
  that is neither done nor dead is claimed by the next batch that is large enough, whoever held it and however it ended.
\<close>

theorem undelivered_rows_come_due:
  assumes "(outbox_step A E)\<^sup>*\<^sup>* (empty_outbox t0) D" "r \<in> set (ob_rows D)" "dl_status r \<notin> {''delivered'', ''dead_letter''}"
    "ob_now D + secs (max 1024 (max 10 (au_lease_seconds A))) < t" "int (length (ob_rows D)) \<le> limit"
  shows "(dl_id r, token_of (dl_id r)) \<in> set (fst (claim_batch A t token_of limit (ob_rows D)))"
proof -
  have "due_by A (ob_now D) r" using inv_steps [OF assms(1) inv_empty] assms(2) by (auto simp: outbox_inv_def)
  then have "eligible t r" using assms(3,4) by (auto simp: due_by_def eligible_def secs_def)
  then have "r \<in> set (sort_key dl_created_at (filter (eligible t) (ob_rows D)))" using assms(2) by simp
  moreover have "int (length (sort_key dl_created_at (filter (eligible t) (ob_rows D)))) \<le> max 1 limit"
  proof -
    have "int (length (filter (eligible t) (ob_rows D))) \<le> limit"
      using assms(5) length_filter_le [of "eligible t" "ob_rows D"] by linarith
    then show ?thesis by (simp add: le_max_iff_disj)
  qed
  ultimately have "dl_id r \<in> set (claimable_ids t limit (ob_rows D))" by (simp add: claimable_ids_def py_head_def)
  then show ?thesis by (auto simp: claim_batch_def Let_def)
qed

section \<open>The middleware\<close>

lemma emit_passes:
  assumes "emit_security_audit_record A E log_ok db_ok t ids event w = (None, w')" "au_fail_closed A" "au_sinks A \<noteq> {}"
  shows "\<exists>n. enqueue A E t ids event (aw_rows w) = (Inr n, aw_rows w')"
  using assms by (auto simp: emit_security_audit_record_def Let_def split: if_splits prod.splits sum.splits)

lemma emit_keeps_rows:
  assumes "emit_security_audit_record A E log_ok db_ok t ids event w = (e, w')"
  shows "set (aw_rows w) \<subseteq> set (aw_rows w')"
proof -
  have "set rows \<subseteq> set rows'" if "enqueue A E t ids event rows = (a, rows')" for rows rows' a
    using enqueue_rows [OF that] by auto
  then show ?thesis using assms
    by (auto simp: emit_security_audit_record_def Let_def split: if_splits prod.splits sum.splits) blast+
qed

text \<open>
  C25.  No audited handler runs unrecorded.  When the audit fails closed, a request to an audited path changes nothing unless an
  intent for it was committed to the outbox for every configured sink beforehand; those rows are there when the answer is
  given, and a request whose intent could not be committed is answered with that error.
\<close>

theorem no_handler_without_intent:
  assumes "evaluation_audit_middleware A E log_ok db_ok ts events ids r host handler w aw = (answer, w', aw')"
    "is_security_audit_path (wr_path r)" "au_fail_closed A" "au_sinks A \<noteq> {}" "finite (au_sinks A)"
    "length (fst ids) = card (au_sinks A)" "\<forall>x \<in> set (aw_rows aw). dl_event_id x \<noteq> header_strip (fst events)"
  shows "(w' = w \<and> (\<exists>e. answer = Inl e)) \<or>
         (w' = hd_world (handler w) \<and>
          (\<forall>sink \<in> au_sinks A. \<exists>x \<in> set (aw_rows aw').
             delivery_key x = (sink, header_strip (fst events), canonical_payload (intent_record E (fst ts) (fst events) r host))))"
proof -
  let ?intent = "intent_record E (fst ts) (fst events) r host"
  obtain refused aw1 where first: "emit_security_audit_record A E (fst log_ok) (fst db_ok) (fst ts) (fst ids) ?intent aw = (refused, aw1)"
    by fastforce
  show ?thesis
  proof (cases refused)
    case (Some e)
    then show ?thesis using assms(1-4) first by (cases e) (auto simp: evaluation_audit_middleware_def)
  next
    case None
    obtain n where n: "enqueue A E (fst ts) (fst ids) ?intent (aw_rows aw) = (Inr n, aw_rows aw1)"
      using emit_passes [OF first [unfolded None] assms(3,4)] by blast
    have event: "record_event_id ?intent = header_strip (fst events)"
      by (simp add: record_event_id_def intent_record_def dget_def header_strip_def Let_def)
    have w': "w' = hd_world (handler w) \<and> set (aw_rows aw1) \<subseteq> set (aw_rows aw')"
      using assms(1-4) first None emit_keeps_rows by (auto simp: evaluation_audit_middleware_def Let_def split: prod.splits sum.splits)
    show ?thesis
      using w' event enqueued_row [OF n] assms(5-7) by (metis (no_types, lifting) subsetD)
  qed
qed

section \<open>What the outbox does not do\<close>

text \<open>An event with a used id is answered as accepted and dropped, whatever it says.\<close>

lemma used_id_is_dropped:
  assumes "\<exists>r \<in> set rows. dl_event_id r = record_event_id event \<and> dl_sink r \<in> au_sinks A"
    "length (filter (\<lambda>r. dl_event_id r = record_event_id event) rows) = card (au_sinks A)"
    "finite (au_sinks A)" "au_sinks A \<subseteq> {''http'', ''s3''}" "record_event_id event \<noteq> []"
  shows "enqueue A E t ids event rows = (Inr (int (card (au_sinks A))), rows)"
proof -
  have "au_sinks A - {''http'', ''s3''} = {}" "au_sinks A \<noteq> {}" using assms(1,4) by auto
  then show ?thesis using assms by (simp add: enqueue_def Let_def)
qed

section \<open>A concrete history\<close>

definition demo_audit :: audit_settings where
  "demo_audit = \<lparr>au_sinks = {''http''}, au_fail_closed = True, au_batch_size = 100, au_max_attempts = 12, au_lease_seconds = 60,
     au_retention_days = 90, au_siem_url = Some ''u'', au_siem_hmac_secret = Some ''k'', au_s3_bucket = None, au_s3_prefix = ''p'',
     au_s3_retention_days = 365\<rparr>"

definition demo_env :: audit_env where
  "demo_env = \<lparr>ae_sha256 = (\<lambda>s. s), ae_sha256_base64 = (\<lambda>s. s), ae_hmac = (\<lambda>k s. k), ae_day = (\<lambda>t. ''d''), ae_isoformat = (\<lambda>t. ''t'')\<rparr>"

definition demo_event :: pydict where
  "demo_event = [(''id'', PStr ''e'')]"

definition demo_row :: delivery where
  "demo_row = new_delivery demo_env 0 demo_event (''1'', ''http'')"

definition demo_net :: "(failure + int \<times> string option) \<Rightarrow> sink_network" where
  "demo_net answer = \<lparr>sn_post = (\<lambda>request. answer), sn_put = (\<lambda>object. Inl (''E'', ''x''))\<rparr>"

definition row_a :: delivery where "row_a = leased_delivery demo_audit 0 ''a'' demo_row"
definition row_b :: delivery where "row_b = leased_delivery demo_audit (secs 61) ''b'' row_a"
definition row_done :: delivery where
  "row_done = finished_delivery demo_audit (secs 62) row_b (Inr [(''status_code'', PInt 200), (''request_id'', PNone)]) row_b"
definition row_reopened :: delivery where
  "row_reopened = finished_delivery demo_audit (secs 63) row_a (Inl (''ReadTimeout'', ''x'')) row_done"

definition demo_outbox :: "int \<Rightarrow> delivery list \<Rightarrow> delivery list \<Rightarrow> (string \<times> string \<times> string) list \<Rightarrow> outbox" where
  "demo_outbox n rows flight accepted = \<lparr>ob_now = secs n, ob_rows = rows, ob_flight = flight, ob_accepted = accepted\<rparr>"

lemma demo_event_id: "record_event_id demo_event = ''e''"
  by (simp add: record_event_id_def demo_event_def dget_def header_strip_def header_space_def is_space_def)

lemma demo_enqueue: "enqueue demo_audit demo_env 0 [''1''] demo_event [] = (Inr 1, [demo_row])"
  by (simp add: enqueue_def demo_event_id demo_audit_def demo_row_def)

lemma demo_ids [simp]: "dl_id demo_row = ''1''" "dl_id row_a = ''1''" "dl_id row_b = ''1''" "dl_id row_done = ''1''"
  by (simp_all add: demo_row_def new_delivery_def row_a_def row_b_def row_done_def leased_delivery_def finished_delivery_def)

lemma demo_key: "delivery_key row_a = (''http'', ''e'', canonical_payload demo_event)" "delivery_key row_b = delivery_key row_a"
  by (simp_all add: delivery_key_def row_a_def row_b_def leased_delivery_def demo_row_def new_delivery_def demo_event_id)

lemma demo_claims:
  "claim_batch demo_audit 0 (\<lambda>i. ''a'') 100 [demo_row] = ([(''1'', ''a'')], [row_a])"
  "claim_batch demo_audit (secs 61) (\<lambda>i. ''b'') 100 [row_a] = ([(''1'', ''b'')], [row_b])"
proof -
  have "eligible 0 demo_row" by (simp add: eligible_def demo_row_def new_delivery_def)
  then show "claim_batch demo_audit 0 (\<lambda>i. ''a'') 100 [demo_row] = ([(''1'', ''a'')], [row_a])"
    by (simp add: claim_batch_def claimable_ids_def py_head_def row_a_def)
  have "eligible (secs 61) row_a" by (simp add: eligible_def row_a_def leased_delivery_def demo_audit_def secs_def)
  then show "claim_batch demo_audit (secs 61) (\<lambda>i. ''b'') 100 [row_a] = ([(''1'', ''b'')], [row_b])"
    by (simp add: claim_batch_def claimable_ids_def py_head_def row_b_def)
qed

lemma demo_begin: "begin_delivery ''1'' ''a'' [row_a] = Some row_a" "begin_delivery ''1'' ''b'' [row_b] = Some row_b"
  by (simp_all add: begin_delivery_def) (simp_all add: row_a_def row_b_def leased_delivery_def)

lemma demo_deliver:
  "deliver demo_audit demo_env (demo_net (Inr (200, None))) t row_b = Inr [(''status_code'', PInt 200), (''request_id'', PNone)]"
  "deliver demo_audit demo_env (demo_net (Inl (''ReadTimeout'', ''x''))) t row_a = Inl (''ReadTimeout'', ''x'')"
proof -
  have s: "stripped (au_siem_url demo_audit) \<noteq> []" "stripped (au_siem_hmac_secret demo_audit) \<noteq> []"
    by (simp_all add: demo_audit_def stripped_def or_default_def none_or_empty_def header_strip_def header_space_def is_space_def)
  have f: "dl_sink row_a = ''http''" "dl_sink row_b = ''http''" "dl_payload row_a = demo_event" "dl_payload row_b = demo_event"
    "dl_sha256 row_a = canonical_payload demo_event" "dl_sha256 row_b = canonical_payload demo_event"
    by (simp_all add: row_a_def row_b_def leased_delivery_def demo_row_def new_delivery_def demo_env_def)
  show "deliver demo_audit demo_env (demo_net (Inr (200, None))) t row_b = Inr [(''status_code'', PInt 200), (''request_id'', PNone)]"
    "deliver demo_audit demo_env (demo_net (Inl (''ReadTimeout'', ''x''))) t row_a = Inl (''ReadTimeout'', ''x'')"
    using s f by (simp_all add: deliver_def deliver_http_def demo_net_def str_or_none_def) (simp_all add: demo_env_def deliver_http_def str_or_none_def)
qed

lemma demo_steps:
  "outbox_step demo_audit demo_env (demo_outbox 0 [demo_row] [] []) (demo_outbox 0 [row_a] [] [])"
  "outbox_step demo_audit demo_env (demo_outbox 0 [row_a] [] []) (demo_outbox 0 [row_a] [row_a] [])"
  "outbox_step demo_audit demo_env (demo_outbox 0 [row_a] [row_a] []) (demo_outbox 61 [row_b] [row_a] [])"
  "outbox_step demo_audit demo_env (demo_outbox 61 [row_b] [row_a] []) (demo_outbox 61 [row_b] [row_b, row_a] [])"
  "outbox_step demo_audit demo_env (demo_outbox 61 [row_b] [row_b, row_a] []) (demo_outbox 62 [row_done] [row_a] [delivery_key row_a])"
  "outbox_step demo_audit demo_env (demo_outbox 62 [row_done] [row_a] [delivery_key row_a]) (demo_outbox 63 [row_reopened] [] [delivery_key row_a])"
proof -
  have z: "secs 0 = 0" "secs 0 \<le> secs 61" "secs 61 \<le> secs 62" "secs 62 \<le> secs 63" by (simp_all add: secs_def)
  show "outbox_step demo_audit demo_env (demo_outbox 0 [demo_row] [] []) (demo_outbox 0 [row_a] [] [])"
    using outbox_step.claim [of "demo_outbox 0 [demo_row] [] []" 0 demo_audit "\<lambda>i. ''a''" 100] demo_claims(1) z
    by (simp add: demo_outbox_def)
  show "outbox_step demo_audit demo_env (demo_outbox 0 [row_a] [] []) (demo_outbox 0 [row_a] [row_a] [])"
    using outbox_step.start [of "''1''" "''a''" "demo_outbox 0 [row_a] [] []" row_a] demo_begin(1) by (simp add: demo_outbox_def)
  show "outbox_step demo_audit demo_env (demo_outbox 0 [row_a] [row_a] []) (demo_outbox 61 [row_b] [row_a] [])"
    using outbox_step.claim [of "demo_outbox 0 [row_a] [row_a] []" "secs 61" demo_audit "\<lambda>i. ''b''" 100] demo_claims(2) z
    by (simp add: demo_outbox_def)
  show "outbox_step demo_audit demo_env (demo_outbox 61 [row_b] [row_a] []) (demo_outbox 61 [row_b] [row_b, row_a] [])"
    using outbox_step.start [of "''1''" "''b''" "demo_outbox 61 [row_b] [row_a] []" row_b] demo_begin(2) by (simp add: demo_outbox_def)
  show "outbox_step demo_audit demo_env (demo_outbox 61 [row_b] [row_b, row_a] []) (demo_outbox 62 [row_done] [row_a] [delivery_key row_a])"
    using outbox_step.finish [of "demo_outbox 61 [row_b] [row_b, row_a] []" "secs 62" row_b demo_audit demo_env "demo_net (Inr (200, None))"] demo_deliver(1) z demo_key(2)
    by (simp add: demo_outbox_def finish_delivery_def row_done_def)
  show "outbox_step demo_audit demo_env (demo_outbox 62 [row_done] [row_a] [delivery_key row_a]) (demo_outbox 63 [row_reopened] [] [delivery_key row_a])"
    using outbox_step.finish [of "demo_outbox 62 [row_done] [row_a] [delivery_key row_a]" "secs 63" row_a demo_audit demo_env "demo_net (Inl (''ReadTimeout'', ''x''))"] demo_deliver(2) z
    by (simp add: demo_outbox_def finish_delivery_def row_reopened_def)
qed

lemma demo_history:
  "(outbox_step demo_audit demo_env)\<^sup>*\<^sup>* (demo_outbox 0 [demo_row] [] []) (demo_outbox 62 [row_done] [row_a] [delivery_key row_a])"
  by (rule converse_rtranclp_into_rtranclp [OF demo_steps(1) converse_rtranclp_into_rtranclp [OF demo_steps(2)
    converse_rtranclp_into_rtranclp [OF demo_steps(3) converse_rtranclp_into_rtranclp [OF demo_steps(4)
    r_into_rtranclp [where r = "outbox_step demo_audit demo_env", OF demo_steps(5)]]]]])

text \<open>
  The lease is checked before the delivery and not when its outcome is written: a worker whose lease ran out during a slow
  delivery writes its failure over the success of the worker that took the row over, and the row is delivered again.
\<close>

lemma late_failure_reopens_a_delivered_row:
  "\<exists>D D' r r'. (outbox_step demo_audit demo_env)\<^sup>*\<^sup>* (demo_outbox 0 [demo_row] [] []) D \<and> outbox_step demo_audit demo_env D D' \<and>
     ob_rows D = [r] \<and> dl_status r = ''delivered'' \<and> ob_rows D' = [r'] \<and> same_delivery r r' \<and> dl_status r' = ''retry''"
proof (intro exI conjI)
  show "(outbox_step demo_audit demo_env)\<^sup>*\<^sup>* (demo_outbox 0 [demo_row] [] []) (demo_outbox 62 [row_done] [row_a] [delivery_key row_a])"
    by (rule demo_history)
  show "outbox_step demo_audit demo_env (demo_outbox 62 [row_done] [row_a] [delivery_key row_a])
      (demo_outbox 63 [row_reopened] [] [delivery_key row_a])" by (rule demo_steps(6))
  show "same_delivery row_done row_reopened" by (simp add: row_reopened_def)
  show "dl_status row_done = ''delivered''" by (simp add: row_done_def finished_delivery_def)
  show "dl_status row_reopened = ''retry''"
    by (simp add: row_reopened_def finished_delivery_def row_a_def leased_delivery_def demo_row_def new_delivery_def demo_audit_def)
qed (simp_all add: demo_outbox_def)

lemma demo_sinks: "au_sinks demo_audit = {''http''}"
  by (simp add: demo_audit_def)

lemma demo_enqueued: "(empty_outbox 0)\<lparr>ob_now := 0, ob_rows := [demo_row]\<rparr> = demo_outbox 0 [demo_row] [] []"
  by (simp add: empty_outbox_def demo_outbox_def secs_def)


lemma undelivered_rows_come_due_witness:
  "(''1'', ''c'') \<in> set (fst (claim_batch demo_audit (secs 2000) (\<lambda>i. ''c'') 100 [row_b]))"
proof -
  have z: "secs 0 = 0" by (simp add: secs_def)
  have "outbox_step demo_audit demo_env (empty_outbox 0) (demo_outbox 0 [demo_row] [] [])"
    using outbox_step.enqueue [of "empty_outbox 0" 0 "[''1'']" demo_audit demo_env demo_event] demo_enqueue demo_sinks demo_enqueued
    by (simp add: fresh_ids_def empty_outbox_def)
  from converse_rtranclp_into_rtranclp [OF this converse_rtranclp_into_rtranclp [OF demo_steps(1)
    converse_rtranclp_into_rtranclp [OF demo_steps(2) r_into_rtranclp [where r = "outbox_step demo_audit demo_env", OF demo_steps(3)]]]]
  have h: "(outbox_step demo_audit demo_env)\<^sup>*\<^sup>* (empty_outbox 0) (demo_outbox 61 [row_b] [row_a] [])" .
  have "dl_status row_b \<notin> {''delivered'', ''dead_letter''}" by (simp add: row_b_def)
  then show ?thesis
    using undelivered_rows_come_due [OF h, of row_b "secs 2000" 100 "\<lambda>i. ''c''"]
    by (simp add: demo_outbox_def demo_audit_def secs_def)
qed

definition demo_handler :: "int \<Rightarrow> int handled" where
  "demo_handler n = \<lparr>hd_answer = Inr 200, hd_actor = actor_of None None, hd_duration = PInt 1, hd_world = n + 1\<rparr>"

definition audited_request :: web_request where
  "audited_request = \<lparr>wr_method = ''POST'', wr_path = ''/repos'', wr_query = [], wr_headers = []\<rparr>"

lemma no_handler_without_intent_witness:
  "\<exists>answer w' aw'. evaluation_audit_middleware demo_audit demo_env (True, True) (True, True) (0, 1) (''i'', ''c'') ([''1''], [''2''])
     audited_request None demo_handler 0 \<lparr>aw_lines = [], aw_rows = []\<rparr> = (answer, w', aw') \<and>
     (w' = 0 \<and> (\<exists>e. answer = Inl e) \<or> w' = 1 \<and> (\<exists>x \<in> set (aw_rows aw'). dl_sink x = ''http''))"
proof -
  obtain answer w' aw' where m: "evaluation_audit_middleware demo_audit demo_env (True, True) (True, True) (0, 1) (''i'', ''c'') ([''1''], [''2''])
     audited_request None demo_handler 0 \<lparr>aw_lines = [], aw_rows = []\<rparr> = (answer, w', aw')" by (cases rule: prod_cases3)
  have p: "is_security_audit_path (wr_path audited_request)"
    by (simp add: is_security_audit_path_def is_product_path_def under_path_def audited_request_def)
  have s: "au_fail_closed demo_audit" "au_sinks demo_audit = {''http''}" by (simp_all add: demo_audit_def)
  from no_handler_without_intent [OF m p] s show ?thesis using m
    by (auto simp: demo_handler_def delivery_key_def)
qed

end
