(* ===== verification/Envelope.thy ===== *)
theory Envelope
  imports Access
begin

text \<open>
  Envelope encryption, \<open>backend/app/core/kms.py\<close>: a fresh data key seals the text, and the key service wraps the data key
  under the purpose and the owner of the text.  The cipher (AES-GCM), the digests, the AWS client, random bytes and the
  encoding of an envelope as text (JSON in base64) are parameters; bytes are characters.
\<close>

datatype kms_error = Kms_configuration string | Kms_decryption string | Kms_raised string

record data_key =
  dk_plaintext :: string
  dk_encrypted :: string
  dk_key_id :: string
  dk_provider :: string

text \<open>An envelope as its text reads back: a field that is absent is \<open>None\<close>.\<close>

record envelope =
  en_version :: "int option"
  en_algorithm :: "string option"
  en_purpose :: "string option"
  en_provider :: "string option"
  en_key_id :: "string option"
  en_binding :: "string option"
  en_data_key :: "string option"
  en_nonce :: "string option"
  en_ciphertext :: "string option"

text \<open>
  \<open>cr_seal key nonce plaintext associated\<close> and \<open>cr_open key nonce ciphertext associated\<close>, which gives \<open>None\<close> for the
  exception of a text that does not authenticate.
\<close>

record crypto =
  cr_seal :: "string \<Rightarrow> string \<Rightarrow> string \<Rightarrow> string \<Rightarrow> string"
  cr_open :: "string \<Rightarrow> string \<Rightarrow> string \<Rightarrow> string \<Rightarrow> string option"
  cr_digest :: "string \<Rightarrow> string"
  cr_hexdigest :: "string \<Rightarrow> string"
  cr_encode :: "envelope \<Rightarrow> string"
  cr_decode :: "string \<Rightarrow> envelope option"
  cr_aws_generate :: "string \<Rightarrow> pydict \<Rightarrow> string + string \<times> string \<times> string option"
  cr_aws_decrypt :: "string \<Rightarrow> pydict \<Rightarrow> string + string"

record kms_settings =
  km_provider :: string
  km_key_id :: "string option"
  km_master_key :: "string option"
  km_previous_master_key :: "string option"

record random_bytes =
  rb_data_key :: string
  rb_wrap_nonce :: string
  rb_nonce :: string

definition ENVELOPE_PREFIX :: string where
  "ENVELOPE_PREFIX = ''codemate:kms:v2:''"

definition ENVELOPE_AAD :: string where
  "ENVELOPE_AAD = ''codemate-mcp-credential-v2''"

definition DEFAULT_ENVELOPE_PURPOSE :: string where
  "DEFAULT_ENVELOPE_PURPOSE = ''mcp-credential''"

definition KMS_CONTEXT :: pydict where
  "KMS_CONTEXT = [(''application'', PStr ''codemate''), (''purpose'', PStr ''mcp-credential'')]"

section \<open>Key services\<close>

definition local_wrap_aad :: "pydict option \<Rightarrow> string" where
  "local_wrap_aad context =
     ''codemate-local-envelope-key-v1:'' @
     canonical_json (PDict (case context of None \<Rightarrow> KMS_CONTEXT | Some c \<Rightarrow> if c = [] then KMS_CONTEXT else c))"

definition master_key :: "crypto \<Rightarrow> kms_settings \<Rightarrow> string option \<Rightarrow> kms_error + string" where
  "master_key C K secret =
     (let v = header_strip (case secret of Some s \<Rightarrow> s | None \<Rightarrow> or_default (km_master_key K) [])
      in if length v < 16 then Inl (Kms_configuration ''MCP_REGISTRY_MASTER_KEY is required for local KMS'')
         else Inr (cr_digest C v))"

definition local_generate :: "crypto \<Rightarrow> kms_settings \<Rightarrow> random_bytes \<Rightarrow> pydict option \<Rightarrow> kms_error + data_key" where
  "local_generate C K R context =
     (case master_key C K None of
        Inl e \<Rightarrow> Inl e
      | Inr master \<Rightarrow> Inr \<lparr>dk_plaintext = rb_data_key R,
          dk_encrypted = rb_wrap_nonce R @ cr_seal C master (rb_wrap_nonce R) (rb_data_key R) (local_wrap_aad context),
          dk_key_id = ''local-derived-key'', dk_provider = ''local''\<rparr>)"

fun unwrap_with :: "crypto \<Rightarrow> kms_settings \<Rightarrow> string \<Rightarrow> string \<Rightarrow> string option list \<Rightarrow> string option" where
  \<comment> \<open>the configured secrets in turn; any exception goes on to the next\<close>
  "unwrap_with C K encrypted aad [] = None"
| "unwrap_with C K encrypted aad (secret # secrets) =
     (if stripped secret = [] then unwrap_with C K encrypted aad secrets
      else case master_key C K secret of
        Inl e \<Rightarrow> unwrap_with C K encrypted aad secrets
      | Inr master \<Rightarrow>
          (case cr_open C master (take 12 encrypted) (drop 12 encrypted) aad of
             Some key \<Rightarrow> Some key | None \<Rightarrow> unwrap_with C K encrypted aad secrets))"

definition local_decrypt :: "crypto \<Rightarrow> kms_settings \<Rightarrow> string \<Rightarrow> pydict option \<Rightarrow> kms_error + string" where
  "local_decrypt C K encrypted context =
     (case unwrap_with C K encrypted (local_wrap_aad context) [km_master_key K, km_previous_master_key K] of
        Some key \<Rightarrow> Inr key | None \<Rightarrow> Inl (Kms_decryption ''Local envelope data key could not be unwrapped''))"

datatype key_service = Local_kms | Aws_kms string

definition kms_provider :: "kms_settings \<Rightarrow> string option \<Rightarrow> kms_error + key_service" where
  "kms_provider K name =
     (let provider = header_lower (header_strip (or_default name (km_provider K)))
      in if provider = ''local'' then Inr Local_kms
         else if provider = ''aws''
         then (let key_id = stripped (km_key_id K)
               in if key_id = [] then Inl (Kms_configuration ''MCP_REGISTRY_KMS_KEY_ID is required for AWS KMS'')
                  else Inr (Aws_kms key_id))
         else Inl (Kms_configuration (''Unsupported MCP registry KMS provider: '' @ provider)))"

definition generate_data_key ::
  "crypto \<Rightarrow> kms_settings \<Rightarrow> random_bytes \<Rightarrow> key_service \<Rightarrow> pydict option \<Rightarrow> kms_error + data_key" where
  "generate_data_key C K R service context =
     (case service of
        Local_kms \<Rightarrow> local_generate C K R context
      | Aws_kms key_id \<Rightarrow>
          (case cr_aws_generate C key_id (case context of None \<Rightarrow> KMS_CONTEXT | Some c \<Rightarrow> if c = [] then KMS_CONTEXT else c) of
             Inl e \<Rightarrow> Inl (Kms_raised e)
           | Inr (plain, blob, answered) \<Rightarrow> Inr \<lparr>dk_plaintext = plain, dk_encrypted = blob,
               dk_key_id = or_default answered key_id, dk_provider = ''aws''\<rparr>))"

definition decrypt_data_key ::
  "crypto \<Rightarrow> kms_settings \<Rightarrow> key_service \<Rightarrow> string \<Rightarrow> pydict option \<Rightarrow> kms_error + string" where
  "decrypt_data_key C K service encrypted context =
     (case service of
        Local_kms \<Rightarrow> local_decrypt C K encrypted context
      | Aws_kms key_id \<Rightarrow>
          (case cr_aws_decrypt C encrypted (case context of None \<Rightarrow> KMS_CONTEXT | Some c \<Rightarrow> if c = [] then KMS_CONTEXT else c) of
             Inl e \<Rightarrow> Inl (Kms_raised e) | Inr key \<Rightarrow> Inr key))"

definition verify_kms :: "crypto \<Rightarrow> kms_settings \<Rightarrow> random_bytes \<Rightarrow> kms_error + pydict" where
  "verify_kms C K R =
     (case kms_provider K None of
        Inl e \<Rightarrow> Inl e
      | Inr service \<Rightarrow>
        (case generate_data_key C K R service None of
           Inl e \<Rightarrow> Inl e
         | Inr generated \<Rightarrow>
           (case decrypt_data_key C K service (dk_encrypted generated) None of
              Inl e \<Rightarrow> Inl e
            | Inr restored \<Rightarrow>
                if dk_plaintext generated \<noteq> restored
                then Inl (Kms_decryption ((case service of Local_kms \<Rightarrow> ''Local'' | Aws_kms k \<Rightarrow> ''AWS'') @
                            '' KMS round-trip verification failed''))
                else Inr [(''provider'', PStr (dk_provider generated)), (''key_id'', PStr (dk_key_id generated)),
                          (''status'', PStr ''verified'')])))"

section \<open>Envelopes\<close>

definition binding_sha256 :: "crypto \<Rightarrow> string option \<Rightarrow> string" where
  "binding_sha256 C binding = cr_hexdigest C (or_default binding ''unbound'')"

definition envelope_context :: "string \<Rightarrow> string \<Rightarrow> pydict" where
  "envelope_context purpose binding =
     [(''application'', PStr ''codemate''), (''purpose'', PStr purpose), (''binding'', PStr binding)]"

definition envelope_aad :: "string \<Rightarrow> string \<Rightarrow> string" where
  "envelope_aad purpose binding =
     (if purpose = DEFAULT_ENVELOPE_PURPOSE then ENVELOPE_AAD @ binding
      else ''codemate-envelope-v2:'' @ purpose @ '':'' @ binding)"

definition encrypt_envelope ::
  "crypto \<Rightarrow> kms_settings \<Rightarrow> random_bytes \<Rightarrow> string \<Rightarrow> string option \<Rightarrow> string \<Rightarrow> kms_error + string" where
  "encrypt_envelope C K R plaintext binding purpose =
     (case kms_provider K None of
        Inl e \<Rightarrow> Inl e
      | Inr service \<Rightarrow>
        let bound = binding_sha256 C binding
        in case generate_data_key C K R service (Some (envelope_context purpose bound)) of
             Inl e \<Rightarrow> Inl e
           | Inr generated \<Rightarrow> Inr (ENVELOPE_PREFIX @ cr_encode C \<lparr>
               en_version = Some 2, en_algorithm = Some ''AES-256-GCM'', en_purpose = Some purpose,
               en_provider = Some (dk_provider generated), en_key_id = Some (dk_key_id generated), en_binding = Some bound,
               en_data_key = Some (dk_encrypted generated), en_nonce = Some (rb_nonce R),
               en_ciphertext =
                 Some (cr_seal C (dk_plaintext generated) (rb_nonce R) plaintext (envelope_aad purpose bound))\<rparr>))"

definition decryption_failed :: kms_error where
  "decryption_failed = Kms_decryption ''KMS credential envelope could not be decrypted''"

definition as_decryption_error :: "kms_error \<Rightarrow> kms_error" where
  \<comment> \<open>the handlers of \<open>decrypt_envelope\<close>: a configuration error passes, everything else is replaced\<close>
  "as_decryption_error e = (case e of Kms_configuration t \<Rightarrow> e | _ \<Rightarrow> decryption_failed)"

definition decrypt_envelope ::
  "crypto \<Rightarrow> kms_settings \<Rightarrow> string \<Rightarrow> string option \<Rightarrow> string \<Rightarrow> kms_error + string" where
  "decrypt_envelope C K v binding purpose =
     (if \<not> starts_with ENVELOPE_PREFIX v then Inl (Kms_decryption ''Credential is not a KMS envelope'')
      else case cr_decode C (drop (length ENVELOPE_PREFIX) v) of
        None \<Rightarrow> Inl decryption_failed
      | Some e \<Rightarrow>
        let stored_purpose = or_default (en_purpose e) DEFAULT_ENVELOPE_PURPOSE;
            stored_binding = or_default (en_binding e) (binding_sha256 C None)
        in if en_version e \<noteq> Some 2 \<or> en_algorithm e \<noteq> Some ''AES-256-GCM'' then Inl decryption_failed
           else if stored_purpose \<noteq> purpose then Inl decryption_failed
           else if binding \<noteq> None \<and> stored_binding \<noteq> binding_sha256 C binding then Inl decryption_failed
           else case en_provider e of
             None \<Rightarrow> Inl decryption_failed
           | Some name \<Rightarrow>
             (case kms_provider K (Some name) of
                Inl f \<Rightarrow> Inl (as_decryption_error f)
              | Inr service \<Rightarrow>
                (case (en_data_key e, en_key_id e) of
                   (Some wrapped, Some key_id) \<Rightarrow>
                     (case decrypt_data_key C K service wrapped (Some (envelope_context stored_purpose stored_binding)) of
                        Inl f \<Rightarrow> Inl (as_decryption_error f)
                      | Inr key \<Rightarrow>
                        (case (en_nonce e, en_ciphertext e) of
                           (Some nonce, Some sealed) \<Rightarrow>
                             (case cr_open C key nonce sealed (envelope_aad stored_purpose stored_binding) of
                                None \<Rightarrow> Inl decryption_failed | Some plaintext \<Rightarrow> Inr plaintext)
                         | _ \<Rightarrow> Inl decryption_failed))
                 | _ \<Rightarrow> Inl decryption_failed)))"

definition envelope_metadata :: "crypto \<Rightarrow> string \<Rightarrow> string \<times> string" where
  \<comment> \<open>provider and key id, for display\<close>
  "envelope_metadata C v =
     (if \<not> starts_with ENVELOPE_PREFIX v then (''legacy'', ''application-master-key'')
      else case cr_decode C (drop (length ENVELOPE_PREFIX) v) of
        None \<Rightarrow> (''invalid'', ''invalid'')
      | Some e \<Rightarrow> (or_default (en_provider e) ''unknown'', or_default (en_key_id e) ''unknown''))"

definition envelope_is_unbound :: "crypto \<Rightarrow> string \<Rightarrow> bool" where
  "envelope_is_unbound C v \<longleftrightarrow>
     \<not> starts_with ENVELOPE_PREFIX v \<or>
     (case cr_decode C (drop (length ENVELOPE_PREFIX) v) of
        None \<Rightarrow> False | Some e \<Rightarrow> or_default (en_binding e) (binding_sha256 C None) = binding_sha256 C None)"

end
