(* ===== verification/EnvelopeTheorems.thy ===== *)
theory EnvelopeTheorems
  imports Envelope
begin

text \<open>
  What envelopes promise, given what the cipher and the encoding promise: they open for their owner and purpose, also after
  the master key was rotated once, and for nobody else.
\<close>

section \<open>The contract of the cipher\<close>

definition sound_crypto :: "crypto \<Rightarrow> bool" where
  \<comment> \<open>a sealed text opens under its key and its associated data, and under no others; encodings read back\<close>
  "sound_crypto C \<longleftrightarrow>
     (\<forall>k n p a. cr_open C k n (cr_seal C k n p a) a = Some p) \<and>
     (\<forall>k n p a k' a' q. cr_open C k' n (cr_seal C k n p a) a' = Some q \<longrightarrow> k' = k \<and> a' = a) \<and>
     (\<forall>e. cr_decode C (cr_encode C e) = Some e) \<and> (\<forall>s. cr_hexdigest C s \<noteq> [])"

lemma sound_open: "sound_crypto C \<Longrightarrow> cr_open C k n (cr_seal C k n p a) a = Some p"
  by (simp add: sound_crypto_def)

lemma sound_authentic: "sound_crypto C \<Longrightarrow> cr_open C k' n (cr_seal C k n p a) a' = Some q \<Longrightarrow> k' = k \<and> a' = a"
  unfolding sound_crypto_def by blast

lemma sound_wrong_key: "sound_crypto C \<Longrightarrow> k' \<noteq> k \<Longrightarrow> cr_open C k' n (cr_seal C k n p a) a' = None"
  using sound_authentic by (metis option.exhaust)

lemma binding_not_empty: "sound_crypto C \<Longrightarrow> binding_sha256 C b \<noteq> []"
  by (simp add: sound_crypto_def binding_sha256_def)

section \<open>Wrapped data keys\<close>

definition keeps_master :: "kms_settings \<Rightarrow> kms_settings \<Rightarrow> bool" where
  \<comment> \<open>the master key of the first settings is the current or the previous one of the second\<close>
  "keeps_master K K' \<longleftrightarrow> km_master_key K' = km_master_key K \<or> km_previous_master_key K' = km_master_key K"

lemma master_key_secret:
  assumes "master_key C K None = Inr master"
  shows "master_key C K' (km_master_key K) = Inr master" "stripped (km_master_key K) \<noteq> []"
proof -
  obtain s where s: "km_master_key K = Some s"
    using assms by (cases "km_master_key K") (auto simp: master_key_def or_default_def none_or_empty_def header_strip_def)
  have "or_default (Some s) [] = s" by (auto simp: or_default_def none_or_empty_def)
  then show "master_key C K' (km_master_key K) = Inr master" "stripped (km_master_key K) \<noteq> []"
    using assms s by (auto simp: master_key_def stripped_def Let_def split: if_splits)
qed

lemma unwrap_wrapped:
  assumes "sound_crypto C" "length n = 12" "master_key C K' secret = Inr master" "stripped secret \<noteq> []" "secret \<in> set secrets"
  shows "unwrap_with C K' (n @ cr_seal C master n p a) a secrets = Some p"
  using assms(5)
proof (induction secrets)
  case (Cons s secrets)
  show ?case
  proof (cases "stripped s = []")
    case True
    then show ?thesis using Cons assms(4) by auto
  next
    case False
    show ?thesis
    proof (cases "master_key C K' s")
      case (Inl e)
      then show ?thesis using Cons assms(3) False by auto
    next
      case (Inr m)
      then show ?thesis
      proof (cases "m = master")
        case True
        then show ?thesis using Inr False assms(1,2) by (simp add: sound_open)
      next
        case diff: False
        then have "s \<noteq> secret" using Inr assms(3) by auto
        then show ?thesis using Cons Inr False diff assms(1,2) by (simp add: sound_wrong_key)
      qed
    qed
  qed
qed simp

lemma local_roundtrip:
  assumes "sound_crypto C" "length (rb_wrap_nonce R) = 12" "local_generate C K R context = Inr d" "keeps_master K K'"
  shows "local_decrypt C K' (dk_encrypted d) context = Inr (dk_plaintext d)" "dk_provider d = ''local''"
    "dk_plaintext d = rb_data_key R"
proof -
  obtain master where m: "master_key C K None = Inr master" and d: "d = \<lparr>dk_plaintext = rb_data_key R,
      dk_encrypted = rb_wrap_nonce R @ cr_seal C master (rb_wrap_nonce R) (rb_data_key R) (local_wrap_aad context),
      dk_key_id = ''local-derived-key'', dk_provider = ''local''\<rparr>"
    using assms(3) by (auto simp: local_generate_def split: sum.splits)
  have "km_master_key K \<in> set [km_master_key K', km_previous_master_key K']" using assms(4) by (auto simp: keeps_master_def)
  then have "unwrap_with C K' (rb_wrap_nonce R @ cr_seal C master (rb_wrap_nonce R) (rb_data_key R) (local_wrap_aad context))
      (local_wrap_aad context) [km_master_key K', km_previous_master_key K'] = Some (rb_data_key R)"
    by (rule unwrap_wrapped [OF assms(1,2) master_key_secret [OF m]])
  then show "local_decrypt C K' (dk_encrypted d) context = Inr (dk_plaintext d)" "dk_provider d = ''local''"
    "dk_plaintext d = rb_data_key R"
    by (simp_all add: local_decrypt_def d)
qed

section \<open>Envelopes\<close>

lemma starts_with_prefix: "starts_with p (p @ s)"
  by (simp add: starts_with_def)

lemma kms_local: "kms_provider K (Some ''local'') = Inr Local_kms"
proof -
  have "header_lower (header_strip (or_default (Some ''local'') (km_provider K))) = ''local''"
  proof -
    have "header_lower (header_strip ''local'') = ''local''" by code_simp
    then show ?thesis by (simp add: or_default_def none_or_empty_def)
  qed
  then show ?thesis by (simp add: kms_provider_def)
qed

lemma encrypted_envelope:
  assumes "encrypt_envelope C K R p b purpose = Inr v" "kms_provider K None = Inr Local_kms"
  shows "\<exists>d. local_generate C K R (Some (envelope_context purpose (binding_sha256 C b))) = Inr d \<and>
    v = ENVELOPE_PREFIX @ cr_encode C \<lparr>
      en_version = Some 2, en_algorithm = Some ''AES-256-GCM'', en_purpose = Some purpose,
      en_provider = Some (dk_provider d), en_key_id = Some (dk_key_id d), en_binding = Some (binding_sha256 C b),
      en_data_key = Some (dk_encrypted d), en_nonce = Some (rb_nonce R),
      en_ciphertext = Some (cr_seal C (dk_plaintext d) (rb_nonce R) p (envelope_aad purpose (binding_sha256 C b)))\<rparr>"
  using assms by (auto simp: encrypt_envelope_def generate_data_key_def Let_def split: sum.splits)

text \<open>
  C22.  An envelope opens for its owner and purpose only.  With a cipher that authenticates, what was sealed under the local
  key service for an owner and a purpose opens to the same text for them, also under settings whose current or previous
  master key is the one it was sealed with and whatever provider they name, and for a reader that names no owner; on behalf
  of another owner (one with another digest) or for another purpose it does not open.
\<close>

theorem envelope_opens_for_its_owner:
  assumes "sound_crypto C" "length (rb_wrap_nonce R) = 12" "purpose \<noteq> []"
    "kms_provider K None = Inr Local_kms" "keeps_master K K'" "encrypt_envelope C K R p b purpose = Inr v"
  shows "decrypt_envelope C K' v b purpose = Inr p \<and> decrypt_envelope C K' v None purpose = Inr p \<and>
    (\<forall>b'. binding_sha256 C (Some b') \<noteq> binding_sha256 C b \<longrightarrow>
       decrypt_envelope C K' v (Some b') purpose = Inl decryption_failed) \<and>
    (\<forall>reader purpose'. purpose' \<noteq> purpose \<longrightarrow> decrypt_envelope C K' v reader purpose' = Inl decryption_failed)"
proof -
  obtain d where d: "local_generate C K R (Some (envelope_context purpose (binding_sha256 C b))) = Inr d"
    and v: "v = ENVELOPE_PREFIX @ cr_encode C \<lparr>
      en_version = Some 2, en_algorithm = Some ''AES-256-GCM'', en_purpose = Some purpose,
      en_provider = Some (dk_provider d), en_key_id = Some (dk_key_id d), en_binding = Some (binding_sha256 C b),
      en_data_key = Some (dk_encrypted d), en_nonce = Some (rb_nonce R),
      en_ciphertext = Some (cr_seal C (dk_plaintext d) (rb_nonce R) p (envelope_aad purpose (binding_sha256 C b)))\<rparr>"
    using encrypted_envelope [OF assms(6,4)] by blast
  note unwrapped = local_roundtrip [OF assms(1,2) d assms(5)]
  have decode: "cr_decode C (cr_encode C e) = Some e" for e using assms(1) by (simp add: sound_crypto_def)
  have stored: "or_default (Some purpose) dflt = purpose" "or_default (Some (binding_sha256 C b)) dflt = binding_sha256 C b" for dflt
    using assms(3) binding_not_empty [OF assms(1)] by (simp_all add: or_default_def none_or_empty_def)
  show ?thesis
    using unwrapped sound_open [OF assms(1)]
    by (auto simp: decrypt_envelope_def v starts_with_prefix decode stored kms_local decrypt_data_key_def)
qed

section \<open>An instance\<close>

text \<open>A cipher that writes key, nonce and associated data in front of the text, each character marked and each field closed.\<close>

definition framed :: "string \<Rightarrow> string" where
  "framed s = concat (map (\<lambda>c. [CHR ''+'', c]) s) @ ''-''"

fun frames :: "string \<Rightarrow> string \<Rightarrow> string list" where
  "frames acc [] = []"
| "frames acc (c # r) =
     (if c = CHR ''-'' then rev acc # frames [] r else case r of [] \<Rightarrow> [] | x # r' \<Rightarrow> frames (x # acc) r')"

lemma frames_framed: "frames acc (framed s @ r) = (rev acc @ s) # frames [] r"
  by (induction s arbitrary: acc) (simp_all add: framed_def)

lemma framed_inject: "framed x @ r = framed y @ s \<Longrightarrow> x = y \<and> r = s"
proof (induction x arbitrary: y)
  case Nil
  then show ?case by (cases y) (simp_all add: framed_def)
next
  case (Cons c x)
  then show ?case by (cases y) (auto simp: framed_def)
qed

definition demo_open :: "string \<Rightarrow> string \<Rightarrow> string \<Rightarrow> string \<Rightarrow> string option" where
  "demo_open k n c a =
     (let header = framed k @ framed n @ framed a in if starts_with header c then Some (drop (length header) c) else None)"

definition demo_number :: "int option \<Rightarrow> string" where
  "demo_number v = (case v of None \<Rightarrow> []
     | Some i \<Rightarrow> if i < 0 then CHR ''-'' # replicate (nat (- i)) CHR ''I'' else CHR ''+'' # replicate (nat i) CHR ''I'')"

definition demo_number_of :: "string \<Rightarrow> int option" where
  "demo_number_of s = (case s of [] \<Rightarrow> None
     | c # r \<Rightarrow> Some (if c = CHR ''-'' then - int (length r) else int (length r)))"

lemma demo_number_of: "demo_number_of (demo_number v) = v"
  by (cases v) (simp_all add: demo_number_def demo_number_of_def)

definition demo_optional :: "string option \<Rightarrow> string" where
  "demo_optional v = (case v of None \<Rightarrow> [] | Some s \<Rightarrow> CHR ''='' # s)"

definition demo_optional_of :: "string \<Rightarrow> string option" where
  "demo_optional_of s = (case s of [] \<Rightarrow> None | c # r \<Rightarrow> Some r)"

lemma demo_optional_of: "demo_optional_of (demo_optional v) = v"
  by (cases v) (simp_all add: demo_optional_def demo_optional_of_def)

definition demo_encode :: "envelope \<Rightarrow> string" where
  "demo_encode e = concat (map framed [demo_number (en_version e), demo_optional (en_algorithm e), demo_optional (en_purpose e),
     demo_optional (en_provider e), demo_optional (en_key_id e), demo_optional (en_binding e), demo_optional (en_data_key e),
     demo_optional (en_nonce e), demo_optional (en_ciphertext e)])"

definition demo_decode :: "string \<Rightarrow> envelope option" where
  "demo_decode s = (case frames [] s of
     [v, a, p, q, k, b, d, n, c] \<Rightarrow> Some \<lparr>en_version = demo_number_of v, en_algorithm = demo_optional_of a,
       en_purpose = demo_optional_of p, en_provider = demo_optional_of q, en_key_id = demo_optional_of k,
       en_binding = demo_optional_of b, en_data_key = demo_optional_of d, en_nonce = demo_optional_of n,
       en_ciphertext = demo_optional_of c\<rparr>
   | _ \<Rightarrow> None)"

definition demo_crypto :: crypto where
  "demo_crypto = \<lparr>cr_seal = \<lambda>k n p a. framed k @ framed n @ framed a @ p, cr_open = demo_open, cr_digest = \<lambda>s. s,
     cr_hexdigest = \<lambda>s. CHR ''#'' # s, cr_encode = demo_encode, cr_decode = demo_decode,
     cr_aws_generate = \<lambda>k c. Inl ''offline'', cr_aws_decrypt = \<lambda>k c. Inl ''offline''\<rparr>"

lemma demo_decode_encode: "demo_decode (demo_encode e) = Some e"
proof -
  have last: "frames [] (framed s) = [s]" for s using frames_framed [of "[]" s "[]"] by simp
  show ?thesis
    by (simp add: demo_decode_def demo_encode_def frames_framed last demo_number_of demo_optional_of)
qed

lemma demo_sound: "sound_crypto demo_crypto"
proof -
  have opens: "demo_open k n (framed k @ framed n @ framed a @ p) a = Some p" for k n a p
    by (simp add: demo_open_def starts_with_def)
  have authentic: "k' = k \<and> a' = a" if "demo_open k' n (framed k @ framed n @ framed a @ p) a' = Some q" for k n a p k' a' q
  proof -
    have "starts_with (framed k' @ framed n @ framed a') (framed k @ framed n @ framed a @ p)"
      using that by (simp only: demo_open_def Let_def option.distinct split: if_splits)
    then obtain r where "framed k @ framed n @ framed a @ p = (framed k' @ framed n @ framed a') @ r"
      unfolding starts_with_def by (metis append_take_drop_id)
    then have "framed k @ (framed n @ framed a @ p) = framed k' @ (framed n @ framed a' @ r)" by (simp only: append.assoc)
    then have "k = k'" "framed n @ (framed a @ p) = framed n @ (framed a' @ r)" using framed_inject by blast+
    then show ?thesis using framed_inject same_append_eq by blast
  qed
  show ?thesis
    unfolding sound_crypto_def using authentic
    by (auto simp: demo_crypto_def opens demo_decode_encode)
qed

definition demo_kms :: kms_settings where
  "demo_kms = \<lparr>km_provider = ''local'', km_key_id = None, km_master_key = Some ''first-master-key-01'',
     km_previous_master_key = None\<rparr>"

definition demo_rotated :: kms_settings where
  "demo_rotated = \<lparr>km_provider = ''aws'', km_key_id = None, km_master_key = Some ''other-master-key-02'',
     km_previous_master_key = Some ''first-master-key-01''\<rparr>"

definition demo_random :: random_bytes where
  "demo_random = \<lparr>rb_data_key = ''data-key'', rb_wrap_nonce = ''wrap-nonce-1'', rb_nonce = ''text-nonce-1''\<rparr>"

definition demo_sealed :: string where
  "demo_sealed = (case encrypt_envelope demo_crypto demo_kms demo_random ''token'' (Some ''server:7'') DEFAULT_ENVELOPE_PURPOSE of
     Inr v \<Rightarrow> v | Inl e \<Rightarrow> [])"

lemma demo_sealed: "encrypt_envelope demo_crypto demo_kms demo_random ''token'' (Some ''server:7'') DEFAULT_ENVELOPE_PURPOSE = Inr demo_sealed"
proof -
  have "isl (encrypt_envelope demo_crypto demo_kms demo_random ''token'' (Some ''server:7'') DEFAULT_ENVELOPE_PURPOSE) = False"
    by code_simp
  then show ?thesis by (auto simp: demo_sealed_def split: sum.splits)
qed

lemma envelope_opens_for_its_owner_witness:
  "decrypt_envelope demo_crypto demo_rotated demo_sealed (Some ''server:7'') DEFAULT_ENVELOPE_PURPOSE = Inr ''token'' \<and>
   decrypt_envelope demo_crypto demo_rotated demo_sealed (Some ''server:8'') DEFAULT_ENVELOPE_PURPOSE = Inl decryption_failed \<and>
   decrypt_envelope demo_crypto demo_rotated demo_sealed (Some ''server:7'') ''oauth'' = Inl decryption_failed"
proof -
  have opened: "kms_provider demo_kms None = Inr Local_kms" by code_simp
  have kept: "keeps_master demo_kms demo_rotated" by (simp add: keeps_master_def demo_kms_def demo_rotated_def)
  have other: "binding_sha256 demo_crypto (Some ''server:8'') \<noteq> binding_sha256 demo_crypto (Some ''server:7'')" by code_simp
  have purpose: "DEFAULT_ENVELOPE_PURPOSE \<noteq> []" "''oauth'' \<noteq> DEFAULT_ENVELOPE_PURPOSE"
    by (simp_all add: DEFAULT_ENVELOPE_PURPOSE_def)
  have nonce: "length (rb_wrap_nonce demo_random) = 12" by (simp add: demo_random_def)
  show ?thesis
    using envelope_opens_for_its_owner [OF demo_sound nonce purpose(1) opened kept demo_sealed] other purpose(2) by blast
qed

end
