(* ===== verification/Registry.thy ===== *)
theory Registry
  imports Router Egress Envelope
begin

text \<open>
  The registry of remote MCP servers, \<open>backend/app/services/mcp_registry_service.py\<close>: registrations with their revisions,
  the credentials of servers, and the configurations handed to clients.  Each method is a transaction; the two that talk
  to the network in between, \<open>validate\<close> and the refresh of an OAuth token, are split where they do.  The typed payloads are
  what the request schemas and pydantic make of a request.
\<close>

section \<open>Rows\<close>

text \<open>What \<open>server_config_snapshot\<close> gives, and a change of it: \<open>None\<close> for a key that is absent.\<close>

record spec =
  sp_name :: string
  sp_url :: string
  sp_enabled :: bool
  sp_allowed_tools :: "string list"
  sp_tool_policies :: "(string \<times> string) list"
  sp_agent_context_tools :: "(string \<times> pydict) list"
  sp_idempotency_mode :: string

record spec_change =
  ch_name :: "string option"
  ch_url :: "string option"
  ch_enabled :: "bool option"
  ch_allowed_tools :: "string list option"
  ch_tool_policies :: "(string \<times> string) list option"
  ch_agent_context_tools :: "(string \<times> pydict) list option"
  ch_idempotency_mode :: "string option"

record registration =
  rg_id :: string
  rg_spec :: spec
  rg_validation_status :: string
  rg_validation_error :: "string option"
  rg_protocol_version :: "string option"
  rg_server_info :: pyval
  rg_capabilities :: pyval
  rg_tools_snapshot :: pyval
  rg_validated_at :: "time option"
  rg_version :: int
  rg_created_by :: string
  rg_updated_by :: string
  rg_created_at :: time
  rg_updated_at :: time

record revision =
  rv_id :: string
  rv_server_id :: string
  rv_version :: int
  rv_action :: string
  rv_snapshot :: spec
  rv_actor :: string
  rv_created_at :: time

record credential =
  ct_id :: string
  ct_server_id :: string
  ct_auth_type :: string
  ct_encrypted_payload :: string
  ct_key_version :: int
  ct_expires_at :: "time option"
  ct_last_refreshed_at :: "time option"
  ct_last_error :: "string option"
  ct_version :: int
  ct_created_at :: time
  ct_updated_at :: time

record registry_db =
  rd_servers :: "registration list"
  rd_revisions :: "revision list"
  rd_credentials :: "credential list"
  rd_health :: "string \<Rightarrow> health_row option"

datatype registry_error =
    Registry_not_found string
  | Registry_conflict string
  | Credential_error string
  | Egress_denied string
  | Invalid_config string
  | Client_configuration string
  | Registry_raised string

fun registry_error_text :: "registry_error \<Rightarrow> string" where
  \<comment> \<open>\<open>str(exc)\<close>\<close>
  "registry_error_text (Registry_not_found t) = t"
| "registry_error_text (Registry_conflict t) = t"
| "registry_error_text (Credential_error t) = t"
| "registry_error_text (Egress_denied t) = t"
| "registry_error_text (Invalid_config t) = t"
| "registry_error_text (Client_configuration t) = t"
| "registry_error_text (Registry_raised t) = t"

section \<open>Configurations\<close>

record managed_config =
  mc_url :: string
  mc_config :: server_config

datatype static_servers = Not_json string | Not_array | Static_items "(string + spec \<times> server_config) list"

record registry_settings =
  rs_enabled :: bool
  rs_max_servers :: int
  rs_require_https :: bool
  rs_host_allowlist :: "string set"
  rs_allow_private_networks :: bool
  rs_key_version :: int
  rs_sandbox_enabled :: bool
  rs_broker_mode :: bool
  rs_oauth_skew_seconds :: int
  rs_static :: static_servers
  rs_kms :: kms_settings
  rs_egress :: egress_settings

text \<open>
  The packages and the outside world: \<open>urlsplit\<close>; pydantic's \<open>HttpUrl\<close>, which gives the normal text of a URL and whether it
  has credentials; name resolution; the cipher; \<open>json.loads\<close>, the base64 of old credentials and \<open>isoformat\<close> with its inverse;
  the token endpoint, giving the text of an exception or the decoded answer; the environment; the broker and, past the
  checks of a session and with its authorization header, the server itself, answering to the probe and with its tools.
\<close>

record registry_env =
  re_urlsplit :: "string \<Rightarrow> url_parts"
  re_http_url :: "string \<Rightarrow> (string \<times> bool) option"
  re_network :: network
  re_crypto :: crypto
  re_json_loads :: "string \<Rightarrow> pyval option"
  re_base64_decode :: "string \<Rightarrow> string option"
  re_isoformat :: "time \<Rightarrow> string"
  re_fromisoformat :: "string \<Rightarrow> time option"
  re_token_endpoint :: "string \<Rightarrow> pydict \<Rightarrow> string + pydict"
  re_environ :: "string \<Rightarrow> string option"
  re_broker :: "managed_config \<Rightarrow> string + pydict \<times> pyval"
  re_server :: "managed_config \<Rightarrow> string option \<Rightarrow> string + pydict \<times> pyval"

definition server_config_snapshot :: "registration \<Rightarrow> spec" where
  "server_config_snapshot server = rg_spec server"

definition merged :: "spec \<Rightarrow> spec_change \<Rightarrow> spec" where
  \<comment> \<open>\<open>{**snapshot, **payload}\<close>\<close>
  "merged s c = \<lparr>
     sp_name = (case ch_name c of None \<Rightarrow> sp_name s | Some v \<Rightarrow> v),
     sp_url = (case ch_url c of None \<Rightarrow> sp_url s | Some v \<Rightarrow> v),
     sp_enabled = (case ch_enabled c of None \<Rightarrow> sp_enabled s | Some v \<Rightarrow> v),
     sp_allowed_tools = (case ch_allowed_tools c of None \<Rightarrow> sp_allowed_tools s | Some v \<Rightarrow> v),
     sp_tool_policies = (case ch_tool_policies c of None \<Rightarrow> sp_tool_policies s | Some v \<Rightarrow> v),
     sp_agent_context_tools = (case ch_agent_context_tools c of None \<Rightarrow> sp_agent_context_tools s | Some v \<Rightarrow> v),
     sp_idempotency_mode = (case ch_idempotency_mode c of None \<Rightarrow> sp_idempotency_mode s | Some v \<Rightarrow> v)\<rparr>"

definition whole_change :: "spec \<Rightarrow> spec_change" where
  "whole_change s = \<lparr>ch_name = Some (sp_name s), ch_url = Some (sp_url s), ch_enabled = Some (sp_enabled s),
     ch_allowed_tools = Some (sp_allowed_tools s), ch_tool_policies = Some (sp_tool_policies s),
     ch_agent_context_tools = Some (sp_agent_context_tools s), ch_idempotency_mode = Some (sp_idempotency_mode s)\<rparr>"

fun first_private :: "network \<Rightarrow> string list \<Rightarrow> registry_error option" where
  "first_private N [] = None"
| "first_private N (a # as) =
     (case nt_address N a of
        None \<Rightarrow> Some (Registry_raised ''not an IP address'')
      | Some (text, g) \<Rightarrow>
          if \<not> g then Some (Registry_conflict ''Private or non-global MCP server addresses are not allowed'')
          else first_private N as)"

definition host_addresses :: "network \<Rightarrow> bool \<Rightarrow> string \<Rightarrow> registry_error + string list" where
  "host_addresses N resolve_dns host =
     (case nt_address N host of
        Some (text, g) \<Rightarrow> Inr [text]
      | None \<Rightarrow>
          if resolve_dns
          then (case nt_lookup N host 0 of
                  Inl e \<Rightarrow> Inl (Registry_conflict (''MCP server DNS resolution failed: '' @ e)) | Inr xs \<Rightarrow> Inr xs)
          else Inr [])"

definition validate_registry_url :: "registry_settings \<Rightarrow> registry_env \<Rightarrow> bool \<Rightarrow> string \<Rightarrow> registry_error option" where
  "validate_registry_url S E resolve_dns url =
     (let parts = re_urlsplit E url
      in if url_scheme parts \<notin> {''http'', ''https''} \<or> none_or_empty (url_hostname parts)
         then Some (Registry_conflict ''MCP registry URL must be HTTP(S)'')
         else if \<not> none_or_empty (url_username parts) \<or> \<not> none_or_empty (url_password parts) \<or> url_fragment parts \<noteq> []
         then Some (Registry_conflict ''MCP registry URL must not contain credentials or fragments'')
         else if rs_require_https S \<and> url_scheme parts \<noteq> ''https''
         then Some (Registry_conflict ''Dynamic MCP server URLs must use HTTPS'')
         else let host = header_lower (the (url_hostname parts))
         in if rs_host_allowlist S \<noteq> {} \<and> host \<notin> rs_host_allowlist S
            then Some (Registry_conflict ''MCP server host is not in MCP_REGISTRY_ALLOWED_HOSTS'')
            else if rs_allow_private_networks S then None
            else if host = ''localhost'' \<or> ends_with ''.local'' host
            then Some (Registry_conflict ''Private MCP server hosts are not allowed'')
            else case host_addresses (re_network E) resolve_dns host of
                   Inl e \<Rightarrow> Some e | Inr addresses \<Rightarrow> first_private (re_network E) addresses)"

definition field_error :: "spec \<Rightarrow> string option" where
  \<comment> \<open>the constraints declared on the fields of \<open>MCPRemoteServerConfig\<close> and \<open>MCPAgentContextTool\<close>\<close>
  "field_error s =
     (if length (sp_allowed_tools s) > 100 then Some ''allowed_tools: at most 100 items''
      else if \<exists>p \<in> set (sp_tool_policies s). snd p \<notin> {''auto'', ''approval_required'', ''deny''}
      then Some ''tool_policies: unknown mode''
      else if length (sp_agent_context_tools s) > 10 then Some ''agent_context_tools: at most 10 items''
      else if \<exists>t \<in> set (sp_agent_context_tools s). fst t = [] \<or> length (fst t) > 128
      then Some ''agent_context_tools: tool must have 1 to 128 characters''
      else if sp_idempotency_mode s \<notin> {''none'', ''metadata''} then Some ''idempotency_mode: unknown mode''
      else None)"

definition validate_model :: "registry_env \<Rightarrow> spec \<Rightarrow> server_config \<Rightarrow> string + managed_config" where
  \<comment> \<open>\<open>MCPRemoteServerConfig.model_validate\<close>; the second argument has the fields a registration does not have\<close>
  "validate_model E s extra =
     (case field_error s of
        Some e \<Rightarrow> Inl e
      | None \<Rightarrow>
        (case re_http_url E (sp_url s) of
           None \<Rightarrow> Inl ''url: not a valid URL''
         | Some (text, credentials) \<Rightarrow>
             map_sum id (\<lambda>c. \<lparr>mc_url = text, mc_config = c\<rparr>)
               (validate_server_config (extra\<lparr>sv_name := sp_name s, sv_url_has_credentials := credentials,
                  sv_allowed_tools := sp_allowed_tools s, sv_tool_policies := sp_tool_policies s,
                  sv_agent_context_tools := sp_agent_context_tools s, sv_idempotency_mode := sp_idempotency_mode s,
                  sv_enabled := sp_enabled s\<rparr>))))"

definition managed_extra :: server_config where
  "managed_extra = \<lparr>sv_name = [], sv_url_has_credentials = False, sv_bearer_token_env = None, sv_bearer_token = None,
     sv_allowed_tools = [], sv_tool_policies = [], sv_agent_context_tools = [], sv_idempotency_mode = ''none'',
     sv_registry_managed = True, sv_enabled = True\<rparr>"

definition config_without_credential :: "registry_env \<Rightarrow> spec \<Rightarrow> registry_error + managed_config" where
  "config_without_credential E s = map_sum Invalid_config id (validate_model E s managed_extra)"

definition validate_config_payload :: "registry_settings \<Rightarrow> registry_env \<Rightarrow> spec \<Rightarrow> registry_error + managed_config" where
  "validate_config_payload S E s =
     (let data = s\<lparr>sp_idempotency_mode := (if sp_idempotency_mode s = [] then ''none'' else sp_idempotency_mode s)\<rparr>
      in case validate_registry_url S E False (sp_url data) of
           Some e \<Rightarrow> Inl e
         | None \<Rightarrow> config_without_credential E data)"

fun collect :: "(string + 'a) list \<Rightarrow> string + 'a list" where
  "collect [] = Inr []"
| "collect (Inl e # xs) = Inl e"
| "collect (Inr x # xs) = map_sum id (Cons x) (collect xs)"

definition parse_server_configs :: "registry_env \<Rightarrow> static_servers \<Rightarrow> string + managed_config list" where
  \<comment> \<open>the left side is the text of an MCPClientConfigurationError\<close>
  "parse_server_configs E data =
     (case data of
        Not_json e \<Rightarrow> Inl (''Invalid MCP_CLIENT_SERVERS_JSON: '' @ e)
      | Not_array \<Rightarrow> Inl ''MCP_CLIENT_SERVERS_JSON must be a JSON array''
      | Static_items items \<Rightarrow>
          if length items > 16 then Inl ''At most 16 MCP servers can be configured''
          else (case collect (map (\<lambda>i. case i of Inl e \<Rightarrow> Inl e | Inr (s, extra) \<Rightarrow> validate_model E s extra) items) of
            Inl e \<Rightarrow> Inl (''Invalid MCP server configuration: '' @ e)
          | Inr servers \<Rightarrow>
              if \<not> distinct (map (sv_name \<circ> mc_config) servers) then Inl ''MCP server names must be unique'' else Inr servers))"

definition static_servers_of :: "registry_settings \<Rightarrow> registry_env \<Rightarrow> registry_error + managed_config list" where
  "static_servers_of S E = map_sum Client_configuration id (parse_server_configs E (rs_static S))"

section \<open>Registrations\<close>

definition get_server :: "registry_db \<Rightarrow> string \<Rightarrow> registry_error + registration" where
  \<comment> \<open>\<open>get\<close> and \<open>_locked\<close>\<close>
  "get_server d i =
     (case List.find (\<lambda>r. rg_id r = i) (rd_servers d) of
        None \<Rightarrow> Inl (Registry_not_found ''Dynamic MCP server not found'') | Some r \<Rightarrow> Inr r)"

definition list_servers :: "registry_db \<Rightarrow> registration list" where
  "list_servers d = sort_key (sp_name \<circ> rg_spec) (rd_servers d)"

definition put_server :: "registration \<Rightarrow> registry_db \<Rightarrow> registry_db" where
  "put_server r d = d\<lparr>rd_servers := map (\<lambda>x. if rg_id x = rg_id r then r else x) (rd_servers d)\<rparr>"

definition add_revision :: "string \<Rightarrow> time \<Rightarrow> registration \<Rightarrow> string \<Rightarrow> string \<Rightarrow> registry_db \<Rightarrow> registry_db" where
  \<comment> \<open>\<open>_revision\<close>\<close>
  "add_revision new_id now server action actor d = d\<lparr>rd_revisions := rd_revisions d @
     [\<lparr>rv_id = new_id, rv_server_id = rg_id server, rv_version = rg_version server, rv_action = action,
        rv_snapshot = server_config_snapshot server, rv_actor = actor, rv_created_at = now\<rparr>]\<rparr>"

definition spec_of_config :: "managed_config \<Rightarrow> spec" where
  \<comment> \<open>the columns written from a validated configuration\<close>
  "spec_of_config c = \<lparr>sp_name = sv_name (mc_config c), sp_url = mc_url c, sp_enabled = sv_enabled (mc_config c),
     sp_allowed_tools = sv_allowed_tools (mc_config c), sp_tool_policies = sv_tool_policies (mc_config c),
     sp_agent_context_tools = sv_agent_context_tools (mc_config c),
     sp_idempotency_mode = sv_idempotency_mode (mc_config c)\<rparr>"

definition new_registration :: "string \<Rightarrow> time \<Rightarrow> managed_config \<Rightarrow> string \<Rightarrow> registration" where
  "new_registration i now c actor = \<lparr>rg_id = i, rg_spec = spec_of_config c, rg_validation_status = ''unvalidated'',
     rg_validation_error = None, rg_protocol_version = None, rg_server_info = PNone, rg_capabilities = PNone,
     rg_tools_snapshot = PNone, rg_validated_at = None, rg_version = 1, rg_created_by = actor, rg_updated_by = actor,
     rg_created_at = now, rg_updated_at = now\<rparr>"

definition create_server ::
  "registry_settings \<Rightarrow> registry_env \<Rightarrow> string \<Rightarrow> string \<Rightarrow> time \<Rightarrow> spec \<Rightarrow> string \<Rightarrow> registry_db
     \<Rightarrow> (registry_error + registration) \<times> registry_db" where
  "create_server S E new_id revision_id now payload actor d =
     (if \<not> rs_enabled S then (Inl (Registry_conflict ''Dynamic MCP registry is disabled''), d)
      else if int (length (rd_servers d)) \<ge> max 1 (rs_max_servers S)
      then (Inl (Registry_conflict ''Dynamic MCP server limit reached''), d)
      else case validate_config_payload S E payload of
        Inl e \<Rightarrow> (Inl e, d)
      | Inr config \<Rightarrow>
        (case static_servers_of S E of
           Inl e \<Rightarrow> (Inl e, d)
         | Inr static \<Rightarrow>
           if sv_name (mc_config config) \<in> set (map (sv_name \<circ> mc_config) static)
           then (Inl (Registry_conflict ''Server name conflicts with static MCP configuration''), d)
           else if \<exists>r \<in> set (rd_servers d). sp_name (rg_spec r) = sv_name (mc_config config)
           then (Inl (Registry_conflict ''Dynamic MCP server name already exists''), d)
           else let server = new_registration new_id now config actor
                in (Inr server, add_revision revision_id now server ''create'' actor
                      (d\<lparr>rd_servers := rd_servers d @ [server]\<rparr>))))"

definition updated_server :: "time \<Rightarrow> managed_config \<Rightarrow> string \<Rightarrow> registration \<Rightarrow> registration" where
  "updated_server now c actor r = r\<lparr>rg_spec := spec_of_config c, rg_validation_status := ''unvalidated'',
     rg_validation_error := None, rg_version := rg_version r + 1, rg_updated_by := actor, rg_updated_at := now\<rparr>"

definition update_server ::
  "registry_settings \<Rightarrow> registry_env \<Rightarrow> string \<Rightarrow> time \<Rightarrow> string \<Rightarrow> spec_change \<Rightarrow> int \<Rightarrow> string \<Rightarrow> string \<Rightarrow> registry_db
     \<Rightarrow> (registry_error + registration) \<times> registry_db" where
  "update_server S E revision_id now server_id payload expected_version actor action d =
     (case get_server d server_id of
        Inl e \<Rightarrow> (Inl e, d)
      | Inr server \<Rightarrow>
      if rg_version server \<noteq> expected_version then (Inl (Registry_conflict ''Dynamic MCP server version conflict''), d)
      else case validate_config_payload S E (merged (server_config_snapshot server) payload) of
        Inl e \<Rightarrow> (Inl e, d)
      | Inr config \<Rightarrow>
      if \<exists>r \<in> set (rd_servers d). sp_name (rg_spec r) = sv_name (mc_config config) \<and> rg_id r \<noteq> rg_id server
      then (Inl (Registry_conflict ''Dynamic MCP server name already exists''), d)
      else case static_servers_of S E of
        Inl e \<Rightarrow> (Inl e, d)
      | Inr static \<Rightarrow>
      if sv_name (mc_config config) \<in> set (map (sv_name \<circ> mc_config) static)
      then (Inl (Registry_conflict ''Server name conflicts with static MCP configuration''), d)
      else let server' = updated_server now config actor server;
               old_name = sp_name (rg_spec server);
               d' = (if old_name \<noteq> sp_name (rg_spec server') then d\<lparr>rd_health := (rd_health d)(old_name := None)\<rparr> else d)
           in (Inr server', add_revision revision_id now server' action actor (put_server server' d')))"

definition delete_server :: "string \<Rightarrow> int \<Rightarrow> registry_db \<Rightarrow> (registry_error + unit) \<times> registry_db" where
  \<comment> \<open>the credential and the revisions go with the server (\<open>cascade\<close>)\<close>
  "delete_server server_id expected_version d =
     (case get_server d server_id of
        Inl e \<Rightarrow> (Inl e, d)
      | Inr server \<Rightarrow>
          if rg_version server \<noteq> expected_version then (Inl (Registry_conflict ''Dynamic MCP server version conflict''), d)
          else (Inr (), d\<lparr>rd_servers := filter (\<lambda>r. rg_id r \<noteq> server_id) (rd_servers d),
                 rd_revisions := filter (\<lambda>v. rv_server_id v \<noteq> server_id) (rd_revisions d),
                 rd_credentials := filter (\<lambda>c. ct_server_id c \<noteq> server_id) (rd_credentials d),
                 rd_health := (rd_health d)(sp_name (rg_spec server) := None)\<rparr>))"

definition server_revisions :: "string \<Rightarrow> registry_db \<Rightarrow> registry_error + revision list" where
  "server_revisions server_id d =
     map_sum id (\<lambda>s. sort_key (\<lambda>v. - rv_created_at v) (filter (\<lambda>v. rv_server_id v = server_id) (rd_revisions d)))
       (get_server d server_id)"

definition restore_server ::
  "registry_settings \<Rightarrow> registry_env \<Rightarrow> string \<Rightarrow> time \<Rightarrow> string \<Rightarrow> string \<Rightarrow> int \<Rightarrow> string \<Rightarrow> registry_db
     \<Rightarrow> (registry_error + registration) \<times> registry_db" where
  "restore_server S E new_revision_id now server_id revision_id expected_version actor d =
     (case List.find (\<lambda>v. rv_id v = revision_id) (rd_revisions d) of
        None \<Rightarrow> (Inl (Registry_not_found ''MCP server revision not found''), d)
      | Some revision \<Rightarrow>
          if rv_server_id revision \<noteq> server_id then (Inl (Registry_not_found ''MCP server revision not found''), d)
          else update_server S E new_revision_id now server_id (whole_change (rv_snapshot revision)) expected_version actor
                 ''restore'' d)"

end
