(* ===== verification/Credentials.thy ===== *)
theory Credentials
  imports Registry
begin

text \<open>
  Credentials of registered servers and what clients get of them (\<open>MCPCredentialBroker\<close>, \<open>effective_configs\<close> and
  \<open>validate\<close> of \<open>services/mcp_registry_service.py\<close>).
\<close>

section \<open>Payloads\<close>

definition seal_payload ::
  "registry_settings \<Rightarrow> registry_env \<Rightarrow> random_bytes \<Rightarrow> pydict \<Rightarrow> string option \<Rightarrow> registry_error + string" where
  "seal_payload S E R payload binding =
     (case encrypt_envelope (re_crypto E) (rs_kms S) R (json_dumps False True (PDict payload)) binding DEFAULT_ENVELOPE_PURPOSE of
        Inl (Kms_raised t) \<Rightarrow> Inl (Registry_raised t)
      | Inl (Kms_configuration t) \<Rightarrow> Inl (Credential_error t)
      | Inl (Kms_decryption t) \<Rightarrow> Inl (Credential_error t)
      | Inr text \<Rightarrow> Inr text)"

definition loads_object :: "registry_env \<Rightarrow> string \<Rightarrow> pydict option" where
  \<comment> \<open>\<open>None\<close> for the errors of \<open>json.loads\<close> and the ValueError of a value that is not an object\<close>
  "loads_object E text = Option.bind (re_json_loads E text) as_dict"

definition registry_key :: "registry_settings \<Rightarrow> registry_env \<Rightarrow> string option \<Rightarrow> registry_error + string" where
  "registry_key S E secret =
     (let v = header_strip (case secret of Some s \<Rightarrow> s | None \<Rightarrow> or_default (km_master_key (rs_kms S)) [])
      in if length v < 16 then Inl (Credential_error ''MCP_REGISTRY_MASTER_KEY is not configured'')
         else Inr (cr_digest (re_crypto E) v))"

definition open_legacy :: "registry_settings \<Rightarrow> registry_env \<Rightarrow> string \<Rightarrow> string option \<Rightarrow> pydict option" where
  \<comment> \<open>one turn of the loop over the keys; \<open>None\<close> is the exception that goes on to the next\<close>
  "open_legacy S E v secret =
     (case (re_base64_decode E v, registry_key S E secret) of
        (Some raw, Inr key) \<Rightarrow>
          Option.bind (cr_open (re_crypto E) key (take 12 raw) (drop 12 raw) ''codemate-mcp-credential-v1'') (loads_object E)
      | _ \<Rightarrow> None)"

fun first_legacy :: "registry_settings \<Rightarrow> registry_env \<Rightarrow> string \<Rightarrow> string option list \<Rightarrow> pydict option" where
  "first_legacy S E v [] = None"
| "first_legacy S E v (secret # secrets) =
     (if stripped secret = [] then first_legacy S E v secrets
      else case open_legacy S E v secret of Some payload \<Rightarrow> Some payload | None \<Rightarrow> first_legacy S E v secrets)"

definition open_payload ::
  "registry_settings \<Rightarrow> registry_env \<Rightarrow> string \<Rightarrow> string option \<Rightarrow> registry_error + pydict" where
  "open_payload S E v binding =
     (if starts_with ENVELOPE_PREFIX v
      then (case decrypt_envelope (re_crypto E) (rs_kms S) v binding DEFAULT_ENVELOPE_PURPOSE of
              Inr text \<Rightarrow> (case loads_object E text of
                 Some payload \<Rightarrow> Inr payload
               | None \<Rightarrow> Inl (Credential_error ''MCP KMS credential could not be decrypted''))
            | Inl e \<Rightarrow> Inl (Credential_error ''MCP KMS credential could not be decrypted''))
      else case first_legacy S E v [km_master_key (rs_kms S), km_previous_master_key (rs_kms S)] of
        Some payload \<Rightarrow> Inr payload
      | None \<Rightarrow>
          (case registry_key S E None of
             Inl e \<Rightarrow> Inl e | Inr k \<Rightarrow> Inl (Credential_error ''MCP credential could not be decrypted'')))"

definition payload_text :: "pydict \<Rightarrow> string \<Rightarrow> string" where
  \<comment> \<open>\<open>str(payload.get(k) or "")\<close>\<close>
  "payload_text d k = (if truthy (dget d k) then py_str (dget d k) else [])"

definition text_items :: "pyval \<Rightarrow> string list" where
  "text_items v = (case v of PList xs \<Rightarrow> filter (\<lambda>s. s \<noteq> []) (map py_str xs) | _ \<Rightarrow> [])"

definition validate_payload ::
  "registry_settings \<Rightarrow> registry_env \<Rightarrow> string \<Rightarrow> pydict \<Rightarrow> registry_error + pydict" where
  "validate_payload S E auth_type payload =
     (if auth_type = ''bearer''
      then (let token = py_strip (payload_text payload ''token'')
            in if length token < 8 then Inl (Credential_error ''Bearer token must contain at least 8 characters'')
               else Inr [(''token'', PStr token)])
      else let token_url = py_strip (payload_text payload ''token_url'');
               client_id = py_strip (payload_text payload ''client_id'');
               client_secret = py_strip (payload_text payload ''client_secret'')
           in if token_url = [] \<or> client_id = [] \<or> length client_secret < 8
              then Inl (Credential_error
                ''OAuth token_url, client_id, and a client_secret of at least 8 characters are required'')
              else case validate_registry_url S E False token_url of
                Some e \<Rightarrow> Inl e
              | None \<Rightarrow> Inr [(''token_url'', PStr token_url), (''client_id'', PStr client_id),
                  (''client_secret'', PStr client_secret),
                  (''scopes'', PList (map PStr (text_items (dget payload ''scopes''))))])"

section \<open>The credential of a server\<close>

definition server_credential :: "registry_db \<Rightarrow> string \<Rightarrow> credential option" where
  \<comment> \<open>\<open>server.credential\<close>\<close>
  "server_credential d server_id = List.find (\<lambda>c. ct_server_id c = server_id) (rd_credentials d)"

definition put_credential :: "credential \<Rightarrow> registry_db \<Rightarrow> registry_db" where
  "put_credential c d = d\<lparr>rd_credentials := map (\<lambda>x. if ct_server_id x = ct_server_id c then c else x) (rd_credentials d)\<rparr>"

definition new_credential :: "string \<Rightarrow> string \<Rightarrow> string \<Rightarrow> string \<Rightarrow> int \<Rightarrow> time \<Rightarrow> credential" where
  "new_credential i server_id auth_type text key_version now = \<lparr>ct_id = i, ct_server_id = server_id, ct_auth_type = auth_type,
     ct_encrypted_payload = text, ct_key_version = key_version, ct_expires_at = None, ct_last_refreshed_at = None,
     ct_last_error = None, ct_version = 1, ct_created_at = now, ct_updated_at = now\<rparr>"

definition set_credential ::
  "registry_settings \<Rightarrow> registry_env \<Rightarrow> random_bytes \<Rightarrow> string \<Rightarrow> time \<Rightarrow> string \<Rightarrow> string \<Rightarrow> pydict \<Rightarrow> int option \<Rightarrow> registry_db
     \<Rightarrow> (registry_error + credential) \<times> registry_db" where
  \<comment> \<open>the route gets the server first\<close>
  "set_credential S E R new_id now server_id auth_type payload expected_version d =
     (case get_server d server_id of
        Inl e \<Rightarrow> (Inl e, d)
      | Inr server \<Rightarrow>
      if auth_type \<notin> {''bearer'', ''oauth2_client_credentials''}
      then (Inl (Credential_error ''Unsupported MCP credential type''), d)
      else case validate_payload S E auth_type payload of
        Inl e \<Rightarrow> (Inl e, d)
      | Inr normalized \<Rightarrow>
      let stale = (case server_credential d server_id of
                     None \<Rightarrow> False
                   | Some c \<Rightarrow> (case expected_version of None \<Rightarrow> True | Some v \<Rightarrow> ct_version c \<noteq> v))
      in if stale
         then (Inl (Registry_conflict ''Current expected_version is required to rotate an MCP credential''), d)
         else case seal_payload S E R normalized (Some server_id) of
           Inl e \<Rightarrow> (Inl e, d)
         | Inr text \<Rightarrow>
           (case server_credential d server_id of
              None \<Rightarrow> let c = new_credential new_id server_id auth_type text (rs_key_version S) now
                in (Inr c, d\<lparr>rd_credentials := rd_credentials d @ [c]\<rparr>)
            | Some c \<Rightarrow> let c' = c\<lparr>ct_auth_type := auth_type, ct_encrypted_payload := text, ct_key_version := rs_key_version S,
                  ct_expires_at := None, ct_last_error := None, ct_version := ct_version c + 1, ct_updated_at := now\<rparr>
                in (Inr c', put_credential c' d)))"

definition delete_credential :: "string \<Rightarrow> registry_db \<Rightarrow> (registry_error + unit) \<times> registry_db" where
  "delete_credential server_id d =
     (case get_server d server_id of
        Inl e \<Rightarrow> (Inl e, d)
      | Inr server \<Rightarrow> (Inr (), d\<lparr>rd_credentials := filter (\<lambda>c. ct_server_id c \<noteq> server_id) (rd_credentials d)\<rparr>))"

definition rewrapped ::
  "registry_settings \<Rightarrow> registry_env \<Rightarrow> (string \<Rightarrow> random_bytes) \<Rightarrow> time \<Rightarrow> credential \<Rightarrow> registry_error + credential" where
  "rewrapped S E R now c =
     (case open_payload S E (ct_encrypted_payload c) (Some (ct_server_id c)) of
        Inl e \<Rightarrow> Inl e
      | Inr payload \<Rightarrow>
        (case seal_payload S E (R (ct_server_id c)) payload (Some (ct_server_id c)) of
           Inl e \<Rightarrow> Inl e
         | Inr text \<Rightarrow> Inr (c\<lparr>ct_encrypted_payload := text, ct_key_version := rs_key_version S,
             ct_version := ct_version c + 1, ct_updated_at := now\<rparr>)))"

fun rewrap_each ::
  "registry_settings \<Rightarrow> registry_env \<Rightarrow> (string \<Rightarrow> random_bytes) \<Rightarrow> time \<Rightarrow> credential list \<Rightarrow> registry_error + credential list" where
  "rewrap_each S E R now [] = Inr []"
| "rewrap_each S E R now (c # cs) =
     (case rewrapped S E R now c of
        Inl e \<Rightarrow> Inl e | Inr c' \<Rightarrow> map_sum id (Cons c') (rewrap_each S E R now cs))"

definition rewrap_all ::
  "registry_settings \<Rightarrow> registry_env \<Rightarrow> (string \<Rightarrow> random_bytes) \<Rightarrow> time \<Rightarrow> registry_db \<Rightarrow> (registry_error + int) \<times> registry_db" where
  \<comment> \<open>one commit at the end, so a credential that does not open leaves everything as it was\<close>
  "rewrap_all S E R now d =
     (case rewrap_each S E R now (rd_credentials d) of
        Inl e \<Rightarrow> (Inl e, d)
      | Inr cs \<Rightarrow> (Inr (int (length cs)), d\<lparr>rd_credentials := cs\<rparr>))"

section \<open>Tokens\<close>

text \<open>
  A commit writes the columns whose value the worker changed, onto the row as it then is.  \<open>flushed old new current\<close> is one
  such column.
\<close>

definition flushed :: "'a \<Rightarrow> 'a \<Rightarrow> 'a \<Rightarrow> 'a" where
  "flushed old new current = (if new = old then current else new)"

definition flush_credential :: "credential \<Rightarrow> credential \<Rightarrow> credential \<Rightarrow> credential" where
  "flush_credential old new current = current\<lparr>
     ct_encrypted_payload := flushed (ct_encrypted_payload old) (ct_encrypted_payload new) (ct_encrypted_payload current),
     ct_expires_at := flushed (ct_expires_at old) (ct_expires_at new) (ct_expires_at current),
     ct_last_refreshed_at := flushed (ct_last_refreshed_at old) (ct_last_refreshed_at new) (ct_last_refreshed_at current),
     ct_last_error := flushed (ct_last_error old) (ct_last_error new) (ct_last_error current),
     ct_version := flushed (ct_version old) (ct_version new) (ct_version current),
     ct_updated_at := flushed (ct_updated_at old) (ct_updated_at new) (ct_updated_at current)\<rparr>"

definition cached_token :: "registry_settings \<Rightarrow> registry_env \<Rightarrow> time \<Rightarrow> pydict \<Rightarrow> string option" where
  "cached_token S E now payload =
     (let cached = payload_text payload ''access_token'';
          expires_at = (if truthy (dget payload ''access_token_expires_at'')
                        then re_fromisoformat E (py_str (dget payload ''access_token_expires_at'')) else None)
      in case expires_at of
           None \<Rightarrow> None
         | Some t \<Rightarrow> if cached \<noteq> [] \<and> now + secs (max 0 (rs_oauth_skew_seconds S)) < t then Some cached else None)"

definition token_request :: "pydict \<Rightarrow> pydict" where
  "token_request payload =
     [(''grant_type'', PStr ''client_credentials''), (''client_id'', PStr (py_str (dget payload ''client_id''))),
      (''client_secret'', PStr (py_str (dget payload ''client_secret'')))] @
     (case dget payload ''scopes'' of
        PList (x # xs) \<Rightarrow> [(''scope'', PStr (join '' '' (map py_str (x # xs))))] | _ \<Rightarrow> [])"

definition failed_refresh :: "time \<Rightarrow> registry_error \<Rightarrow> credential \<Rightarrow> registry_error \<times> credential" where
  \<comment> \<open>the handler of \<open>_oauth_access_token\<close>\<close>
  "failed_refresh now e c =
     ((case e of Credential_error t \<Rightarrow> e
        | _ \<Rightarrow> Credential_error (''OAuth client credentials exchange failed: '' @ registry_error_text e)),
      c\<lparr>ct_last_error := Some (py_head 4000 (registry_error_text e)), ct_updated_at := now\<rparr>)"

definition refresh_result ::
  "registry_settings \<Rightarrow> registry_env \<Rightarrow> random_bytes \<Rightarrow> time \<Rightarrow> pydict \<Rightarrow> credential \<Rightarrow> registry_error + string \<times> credential" where
  \<comment> \<open>the body of the \<open>try\<close>\<close>
  "refresh_result S E R now payload c =
     (case egress_httpx_proxy (rs_egress S) of
        Inl e \<Rightarrow> Inl (Egress_denied e)
      | Inr proxy \<Rightarrow>
      case re_token_endpoint E (py_str (dget payload ''token_url'')) (token_request payload) of
        Inl e \<Rightarrow> Inl (Registry_raised e)
      | Inr answer \<Rightarrow>
      let access_token = payload_text answer ''access_token'' in
      if access_token = [] then Inl (Credential_error ''OAuth token response did not contain access_token'')
      else case (let v = dget answer ''expires_in'' in
                 if \<not> truthy v then Some 3600 else case v of PStr s \<Rightarrow> parse_int s | _ \<Rightarrow> py_int v) of
        None \<Rightarrow> Inl (Registry_raised ''invalid literal for int()'')
      | Some lifetime \<Rightarrow>
      let expires = now + secs (max 1 lifetime);
          payload' = dset (dset payload ''access_token'' (PStr access_token))
                       ''access_token_expires_at'' (PStr (re_isoformat E expires))
      in case seal_payload S E R payload' (Some (ct_server_id c)) of
           Inl e \<Rightarrow> Inl e
         | Inr text \<Rightarrow> Inr (access_token, c\<lparr>ct_encrypted_payload := text, ct_expires_at := Some expires,
             ct_last_refreshed_at := Some now, ct_last_error := None, ct_version := ct_version c + 1, ct_updated_at := now\<rparr>))"

definition oauth_access_token ::
  "registry_settings \<Rightarrow> registry_env \<Rightarrow> random_bytes \<Rightarrow> time \<Rightarrow> credential \<Rightarrow> pydict
     \<Rightarrow> (registry_error + string) \<times> credential" where
  \<comment> \<open>the second component is the credential as the worker leaves it\<close>
  "oauth_access_token S E R now c payload =
     (case cached_token S E now payload of
        Some token \<Rightarrow> (Inr token, c)
      | None \<Rightarrow>
      if map_of payload ''token_url'' = None then (Inl (Registry_raised ''token_url''), c)
      else let token_url = py_str (dget payload ''token_url'') in
      case validate_registry_url S E True token_url of
        Some e \<Rightarrow> (Inl e, c)
      | None \<Rightarrow>
      case (if rs_sandbox_enabled S
            then (case validate_egress_url (rs_egress S) (re_network E) (re_urlsplit E token_url) of
                    Inl e \<Rightarrow> Some (Egress_denied e) | Inr t \<Rightarrow> None)
            else None) of
        Some e \<Rightarrow> (Inl e, c)
      | None \<Rightarrow>
      if map_of payload ''client_id'' = None \<or> map_of payload ''client_secret'' = None
      then (Inl (Registry_raised ''client_id''), c)
      else case refresh_result S E R now payload c of
        Inr (token, c') \<Rightarrow> (Inr token, c')
      | Inl e \<Rightarrow> (let (e', c') = failed_refresh now e c in (Inl e', c')))"

definition resolve_bearer_token ::
  "registry_settings \<Rightarrow> registry_env \<Rightarrow> random_bytes \<Rightarrow> time \<Rightarrow> string \<Rightarrow> credential option
     \<Rightarrow> (registry_error + string option) \<times> credential option" where
  "resolve_bearer_token S E R now server_id credential =
     (case credential of
        None \<Rightarrow> (Inr None, None)
      | Some c \<Rightarrow>
        (case open_payload S E (ct_encrypted_payload c) (Some server_id) of
           Inl e \<Rightarrow> (Inl e, Some c)
         | Inr payload \<Rightarrow>
           if ct_auth_type c = ''bearer''
           then (if map_of payload ''token'' = None then Inl (Registry_raised ''token'')
                 else Inr (Some (py_str (dget payload ''token''))), Some c)
           else map_prod (map_sum id Some) Some (oauth_access_token S E R now c payload)))"

text \<open>The commit of a refresh: the row may have been rotated, or be gone, in the meantime.\<close>

definition commit_credential :: "credential option \<Rightarrow> credential option \<Rightarrow> registry_db \<Rightarrow> registry_error option \<times> registry_db" where
  \<comment> \<open>a row that is gone gives the StaleDataError of the flush\<close>
  "commit_credential old new d =
     (case (old, new) of
        (Some c, Some c') \<Rightarrow>
          if c = c' then (None, d)
          else (case server_credential d (ct_server_id c) of
                  Some current \<Rightarrow>
                    if ct_id current = ct_id c then (None, put_credential (flush_credential c c' current) d)
                    else (Some (Registry_raised ''StaleDataError''), d)
                | None \<Rightarrow> (Some (Registry_raised ''StaleDataError''), d))
      | _ \<Rightarrow> (None, d))"

section \<open>What clients get\<close>

definition runtime_config ::
  "registry_settings \<Rightarrow> registry_env \<Rightarrow> random_bytes \<Rightarrow> time \<Rightarrow> registration \<Rightarrow> managed_config \<Rightarrow> registry_db
     \<Rightarrow> (registry_error + managed_config) \<times> registry_db" where
  \<comment> \<open>with nobody in between, what was read is what is written to\<close>
  "runtime_config S E R now server base d =
     (let credential = server_credential d (rg_id server);
          (answer, credential') = resolve_bearer_token S E R now (rg_id server) credential;
          (failed, d') = commit_credential credential credential' d
      in (map_sum id (\<lambda>token. base\<lparr>mc_config := (mc_config base)\<lparr>sv_bearer_token :=
                (if none_or_empty token then None else token)\<rparr>\<rparr>) answer, d'))"

fun hydrate ::
  "registry_settings \<Rightarrow> registry_env \<Rightarrow> (string \<Rightarrow> random_bytes) \<Rightarrow> time \<Rightarrow> (string \<Rightarrow> registration option) \<Rightarrow> managed_config list \<Rightarrow>
   registry_db \<Rightarrow> (registry_error + managed_config list) \<times> registry_db" where
  "hydrate S E R now servers [] d = (Inr [], d)"
| "hydrate S E R now servers (c # cs) d =
     (if \<not> sv_registry_managed (mc_config c)
      then (let (rest, d') = hydrate S E R now servers cs d in (map_sum id (Cons c) rest, d'))
      else case servers (sv_name (mc_config c)) of
        None \<Rightarrow> hydrate S E R now servers cs d
      | Some server \<Rightarrow>
        (case runtime_config S E (R (rg_id server)) now server c d of
           (Inr c', d') \<Rightarrow> (let (rest, d'') = hydrate S E R now servers cs d' in (map_sum id (Cons c') rest, d''))
         | (Inl (Credential_error t), d') \<Rightarrow> hydrate S E R now servers cs d'
         | (Inl e, d') \<Rightarrow> (Inl e, d')))"

definition enabled_servers :: "registry_db \<Rightarrow> registration list" where
  "enabled_servers d = filter (\<lambda>r. sp_enabled (rg_spec r)) (list_servers d)"

fun each_config :: "registry_env \<Rightarrow> registration list \<Rightarrow> registry_error + managed_config list" where
  "each_config E [] = Inr []"
| "each_config E (r # rs) =
     (case config_without_credential E (rg_spec r) of
        Inl e \<Rightarrow> Inl e | Inr c \<Rightarrow> map_sum id (Cons c) (each_config E rs))"

definition effective_configs ::
  "registry_settings \<Rightarrow> registry_env \<Rightarrow> (string \<Rightarrow> random_bytes) \<Rightarrow> time \<Rightarrow> (managed_config list \<Rightarrow> managed_config list) option \<Rightarrow>
   registry_db \<Rightarrow> (registry_error + managed_config list) \<times> registry_db" where
  "effective_configs S E R now config_filter d =
     (case static_servers_of S E of
        Inl e \<Rightarrow> (Inl e, d)
      | Inr static \<Rightarrow>
      if \<not> rs_enabled S then (Inr (case config_filter of None \<Rightarrow> static | Some f \<Rightarrow> f static), d)
      else case each_config E (enabled_servers d) of
        Inl e \<Rightarrow> (Inl e, d)
      | Inr dynamic \<Rightarrow>
      let configs = static @ dynamic in
      if \<not> distinct (map (sv_name \<circ> mc_config) configs)
      then (Inl (Registry_conflict ''Static and dynamic MCP server names conflict''), d)
      else hydrate S E R now (\<lambda>name. List.find (\<lambda>r. sp_name (rg_spec r) = name) (rev (enabled_servers d)))
             (case config_filter of None \<Rightarrow> configs | Some f \<Rightarrow> f configs) d)"

section \<open>Sessions\<close>

definition open_session :: "registry_settings \<Rightarrow> registry_env \<Rightarrow> managed_config \<Rightarrow> registry_error + string option" where
  \<comment> \<open>what \<open>_session\<close> of \<open>mcp/client.py\<close> checks before it connects; the result is the authorization header\<close>
  "open_session S E c =
     (case (if \<not> rs_broker_mode S then None
            else case validate_egress_url (rs_egress S) (re_network E) (re_urlsplit E (mc_url c)) of
              Inl e \<Rightarrow> Some (Egress_denied e)
            | Inr t \<Rightarrow> if stripped (eg_proxy_url (rs_egress S)) = [] \<or> stripped (eg_proxy_token (rs_egress S)) = []
                then Some (Client_configuration ''MCP egress proxy is not configured'') else None) of
        Some e \<Rightarrow> Inl e
      | None \<Rightarrow>
      case (if sv_registry_managed (mc_config c) then validate_registry_url S E True (mc_url c) else None) of
        Some e \<Rightarrow> Inl e
      | None \<Rightarrow>
      case sv_bearer_token (mc_config c) of
        Some token \<Rightarrow> Inr (Some (''Bearer '' @ token))
      | None \<Rightarrow>
      if none_or_empty (sv_bearer_token_env (mc_config c)) then Inr None
      else let name = the (sv_bearer_token_env (mc_config c)); token = stripped (re_environ E name)
           in if token = []
              then Inl (Client_configuration (''Environment variable '' @ [CHR 0x27] @ name @ [CHR 0x27] @ '' is not configured''))
              else Inr (Some (''Bearer '' @ token)))"

definition probe_and_list :: "registry_settings \<Rightarrow> registry_env \<Rightarrow> managed_config \<Rightarrow> string + pydict \<times> pyval" where
  \<comment> \<open>\<open>probe\<close> and \<open>list_tools\<close>\<close>
  "probe_and_list S E c =
     (if \<not> sv_enabled (mc_config c)
      then Inl (''MCP server '' @ [CHR 0x27] @ sv_name (mc_config c) @ [CHR 0x27] @ '' is not configured'')
      else if rs_sandbox_enabled S \<and> \<not> rs_broker_mode S then re_broker E c
      else case open_session S E c of Inl e \<Rightarrow> Inl (registry_error_text e) | Inr authorization \<Rightarrow> re_server E c authorization)"

section \<open>Validation\<close>

text \<open>
  \<open>validate\<close> reads the server, talks to it, and writes what it learnt: between the two others may update or delete the row,
  because it is not locked.
\<close>

record learnt =
  ln_server :: registration
  ln_outcome :: "string + pydict \<times> pyval"

definition begin_validation ::
  "registry_settings \<Rightarrow> registry_env \<Rightarrow> random_bytes \<Rightarrow> time \<Rightarrow> string \<Rightarrow> registry_db \<Rightarrow> (registry_error + learnt) \<times> registry_db" where
  "begin_validation S E R now server_id d =
     (case get_server d server_id of
        Inl e \<Rightarrow> (Inl e, d)
      | Inr server \<Rightarrow>
        let (config, d') = (case config_without_credential E (rg_spec server) of
                              Inl e \<Rightarrow> (Inl e, d) | Inr base \<Rightarrow> runtime_config S E R now server base d)
        in (Inr \<lparr>ln_server = server, ln_outcome =
              (case config of
                 Inl e \<Rightarrow> Inl (registry_error_text e)
               | Inr c \<Rightarrow> probe_and_list S E c)\<rparr>, d'))"

definition validated_server :: "time \<Rightarrow> string \<Rightarrow> learnt \<Rightarrow> registration" where
  "validated_server now actor l =
     (let server = ln_server l;
          judged = (case ln_outcome l of
             Inl e \<Rightarrow> server\<lparr>rg_validation_status := ''invalid'', rg_validation_error := Some (py_head 4000 e)\<rparr>
           | Inr (probe, tools) \<Rightarrow> server\<lparr>rg_validation_status := ''valid'', rg_validation_error := None,
               rg_protocol_version := (let p = payload_text probe ''protocol_version'' in if p = [] then None else Some p),
               rg_server_info := (if truthy (dget probe ''server_info'') then dget probe ''server_info'' else PDict []),
               rg_capabilities := (if truthy (dget probe ''capabilities'') then dget probe ''capabilities'' else PDict []),
               rg_tools_snapshot := tools\<rparr>)
      in judged\<lparr>rg_validated_at := Some now, rg_version := rg_version server + 1, rg_updated_by := actor,
           rg_updated_at := now\<rparr>)"

definition flush_registration :: "registration \<Rightarrow> registration \<Rightarrow> registration \<Rightarrow> registration" where
  "flush_registration old new current = current\<lparr>
     rg_validation_status := flushed (rg_validation_status old) (rg_validation_status new) (rg_validation_status current),
     rg_validation_error := flushed (rg_validation_error old) (rg_validation_error new) (rg_validation_error current),
     rg_protocol_version := flushed (rg_protocol_version old) (rg_protocol_version new) (rg_protocol_version current),
     rg_server_info := flushed (rg_server_info old) (rg_server_info new) (rg_server_info current),
     rg_capabilities := flushed (rg_capabilities old) (rg_capabilities new) (rg_capabilities current),
     rg_tools_snapshot := flushed (rg_tools_snapshot old) (rg_tools_snapshot new) (rg_tools_snapshot current),
     rg_validated_at := flushed (rg_validated_at old) (rg_validated_at new) (rg_validated_at current),
     rg_version := flushed (rg_version old) (rg_version new) (rg_version current),
     rg_updated_by := flushed (rg_updated_by old) (rg_updated_by new) (rg_updated_by current),
     rg_updated_at := flushed (rg_updated_at old) (rg_updated_at new) (rg_updated_at current)\<rparr>"

definition finish_validation ::
  "string \<Rightarrow> time \<Rightarrow> string \<Rightarrow> learnt \<Rightarrow> registry_db \<Rightarrow> (registry_error + registration) \<times> registry_db" where
  "finish_validation revision_id now actor l d =
     (let server = validated_server now actor l
      in case get_server d (rg_id server) of
           Inl e \<Rightarrow> (Inl (Registry_raised ''StaleDataError''), d)
         | Inr current \<Rightarrow>
             let current' = flush_registration (ln_server l) server current
             in (Inr current', add_revision revision_id now server ''validate'' actor (put_server current' d)))"

definition validate_server ::
  "registry_settings \<Rightarrow> registry_env \<Rightarrow> random_bytes \<Rightarrow> string \<Rightarrow> time \<Rightarrow> string \<Rightarrow> string \<Rightarrow> registry_db
     \<Rightarrow> (registry_error + registration) \<times> registry_db" where
  \<comment> \<open>with nobody in between\<close>
  "validate_server S E R revision_id now server_id actor d =
     (case begin_validation S E R now server_id d of
        (Inl e, d') \<Rightarrow> (Inl e, d')
      | (Inr l, d') \<Rightarrow> finish_validation revision_id now actor l d')"

end
