(* ===== verification/RegistryTheorems.thy ===== *)
theory RegistryTheorems
  imports Credentials Tenancy
begin

text \<open>
  The registry over its histories: whatever is registered was validated, still loads, and is what its last revision says;
  what a client gets of a server carries that server's own credential to hosts that may be reached.
\<close>

section \<open>Validated configurations load again\<close>

definition http_url_stable :: "registry_env \<Rightarrow> bool" where
  \<comment> \<open>pydantic: the text of an \<open>HttpUrl\<close> reads back as the same URL\<close>
  "http_url_stable E \<longleftrightarrow> (\<forall>u t b. re_http_url E u = Some (t, b) \<longrightarrow> re_http_url E t = Some (t, b))"

lemma trim_again: "rev (dropWhile P (rev (dropWhile P (rev (dropWhile P (rev (dropWhile P s))))))) = rev (dropWhile P (rev (dropWhile P s)))"
proof -
  define a where "a = dropWhile P s"
  have a: "a = [] \<or> \<not> P (hd a)" unfolding a_def using hd_dropWhile by blast
  define b where "b = rev (dropWhile P (rev a))"
  have "\<exists>z. a = b @ z" unfolding b_def by (metis rev_append rev_rev_ident takeWhile_dropWhile_id)
  then have "b = [] \<or> hd b = hd a" by (metis hd_append2)
  then have "dropWhile P b = b" using a by (metis dropWhile_eq_self_iff dropWhile.simps(1) b_def rev.simps(1))
  then show ?thesis by (metis a_def b_def dropWhile_idem rev_rev_ident)
qed

lemma py_strip_again [simp]: "py_strip (py_strip s) = py_strip s"
  by (simp add: py_strip_def trim_again del: rev_rev_ident)

lemma normalized_again: "normalized_tools (normalized_tools xs) = normalized_tools xs"
  by (induction xs) (simp_all add: normalized_tools_def)

lemma length_normalized: "length (normalized_tools xs) \<le> length xs"
  by (induction xs) (simp_all add: normalized_tools_def)

lemma validated_server_config:
  assumes "validate_server_config s = Inr c"
  shows "c = s\<lparr>sv_allowed_tools := normalized_tools (sv_allowed_tools s)\<rparr>" "validate_server_config c = Inr c"
proof -
  show c: "c = s\<lparr>sv_allowed_tools := normalized_tools (sv_allowed_tools s)\<rparr>"
    using assms by (simp add: validate_server_config_def Let_def split: if_splits)
  show "validate_server_config c = Inr c"
    using assms unfolding c by (simp add: validate_server_config_def Let_def normalized_again split: if_splits)
qed

lemma config_reloads:
  assumes "config_without_credential E s = Inr c" "http_url_stable E"
  shows "config_without_credential E (spec_of_config c) = Inr c"
proof -
  obtain m where m: "validate_model E s managed_extra = Inr m" "c = m"
    using assms(1) by (cases "validate_model E s managed_extra") (auto simp: config_without_credential_def)
  have f: "field_error s = None" using m(1) by (cases "field_error s") (auto simp: validate_model_def)
  obtain t b where u: "re_http_url E (sp_url s) = Some (t, b)"
    using m(1) f by (cases "re_http_url E (sp_url s)") (auto simp: validate_model_def)
  then have t: "re_http_url E t = Some (t, b)" using assms(2) unfolding http_url_stable_def by blast
  define w where "w = managed_extra\<lparr>sv_name := sp_name s, sv_url_has_credentials := b,
    sv_allowed_tools := sp_allowed_tools s, sv_tool_policies := sp_tool_policies s,
    sv_agent_context_tools := sp_agent_context_tools s, sv_idempotency_mode := sp_idempotency_mode s,
    sv_enabled := sp_enabled s\<rparr>"
  obtain v where v: "validate_server_config w = Inr v" "c = \<lparr>mc_url = t, mc_config = v\<rparr>"
    using m f u by (cases "validate_server_config w") (auto simp: validate_model_def w_def)
  note again = validated_server_config [OF v(1)]
  have "length (normalized_tools (sp_allowed_tools s)) \<le> length (sp_allowed_tools s)" by (rule length_normalized)
  then have f': "field_error (spec_of_config c) = None"
    using f by (auto simp: field_error_def spec_of_config_def v(2) again(1) w_def split: if_splits)
  have "validate_model E (spec_of_config c) managed_extra = Inr c"
  proof -
    have w': "managed_extra\<lparr>sv_name := sv_name v, sv_url_has_credentials := b, sv_allowed_tools := sv_allowed_tools v,
      sv_tool_policies := sv_tool_policies v, sv_agent_context_tools := sv_agent_context_tools v,
      sv_idempotency_mode := sv_idempotency_mode v, sv_enabled := sv_enabled v\<rparr> = v"
      by (simp add: again(1) w_def managed_extra_def)
    show ?thesis using f' t again(2) by (simp add: validate_model_def spec_of_config_def v(2) w')
  qed
  then show ?thesis by (simp add: config_without_credential_def)
qed

section \<open>Histories\<close>

definition server_name :: "registration \<Rightarrow> string" where
  "server_name r = sp_name (rg_spec r)"

definition static_names :: "managed_config list \<Rightarrow> string set" where
  "static_names static = set (map (sv_name \<circ> mc_config) static)"

definition latest_spec :: "registry_db \<Rightarrow> string \<Rightarrow> spec option" where
  \<comment> \<open>the snapshot of the last revision that changed the configuration\<close>
  "latest_spec d i =
     (let vs = filter (\<lambda>v. rv_server_id v = i \<and> rv_action v \<noteq> ''validate'') (rd_revisions d)
      in if vs = [] then None else Some (rv_snapshot (last vs)))"

definition loads_as :: "registry_env \<Rightarrow> registration \<Rightarrow> bool" where
  "loads_as E r \<longleftrightarrow> (\<exists>c. config_without_credential E (rg_spec r) = Inr c \<and> spec_of_config c = rg_spec r)"

definition empty_registry :: registry_db where
  "empty_registry = \<lparr>rd_servers = [], rd_revisions = [], rd_credentials = [], rd_health = (\<lambda>_. None)\<rparr>"

text \<open>
  A history: every operation under ids that are new, and the commits of validations and token refreshes that began at any
  time before, whatever they had read.
\<close>

inductive registry_step :: "registry_settings \<Rightarrow> registry_env \<Rightarrow> registry_db \<Rightarrow> registry_db \<Rightarrow> bool" for S E where
  created: "\<lbrakk>new_id \<notin> rg_id ` set (rd_servers d); new_id \<notin> rv_server_id ` set (rd_revisions d);
      create_server S E new_id revision_id now payload actor d = (answer, d')\<rbrakk> \<Longrightarrow> registry_step S E d d'"
| updated: "update_server S E revision_id now server_id payload v actor ''update'' d = (answer, d') \<Longrightarrow> registry_step S E d d'"
| restored: "restore_server S E new_revision now server_id revision_id v actor d = (answer, d') \<Longrightarrow> registry_step S E d d'"
| deleted: "delete_server server_id v d = (gone, d') \<Longrightarrow> registry_step S E d d'"
| validated: "finish_validation revision_id now actor l d = (answer, d') \<Longrightarrow> registry_step S E d d'"
| credential_set: "set_credential S E R new_id now server_id auth_type payload v d = (set_to, d') \<Longrightarrow> registry_step S E d d'"
| credential_deleted: "delete_credential server_id d = (gone, d') \<Longrightarrow> registry_step S E d d'"
| rewrapped: "rewrap_all S E rand now d = (count, d') \<Longrightarrow> registry_step S E d d'"
| refreshed: "commit_credential old new d = (failed, d') \<Longrightarrow> registry_step S E d d'"

definition registry_inv :: "registry_settings \<Rightarrow> registry_env \<Rightarrow> managed_config list \<Rightarrow> registry_db \<Rightarrow> bool" where
  "registry_inv S E static d \<longleftrightarrow>
     distinct (map rg_id (rd_servers d)) \<and> distinct (map server_name (rd_servers d)) \<and>
     int (length (rd_servers d)) \<le> max 1 (rs_max_servers S) \<and>
     (\<forall>r \<in> set (rd_servers d). server_name r \<notin> static_names static \<and> loads_as E r \<and> latest_spec d (rg_id r) = Some (rg_spec r)) \<and>
     (\<forall>v \<in> set (rd_revisions d). rv_server_id v \<in> rg_id ` set (rd_servers d))"

lemma registry_inv_frame:
  assumes "registry_inv S E static d" "rd_servers d' = rd_servers d" "rd_revisions d' = rd_revisions d"
  shows "registry_inv S E static d'"
  using assms by (simp add: registry_inv_def latest_spec_def)

lemma latest_spec_snoc:
  "latest_spec (add_revision i now r action actor d) j =
     (if rg_id r = j \<and> action \<noteq> ''validate'' then Some (rg_spec r) else latest_spec d j)"
  by (simp add: latest_spec_def add_revision_def server_config_snapshot_def)

lemma latest_spec_other [simp]:
  "latest_spec (d\<lparr>rd_servers := servers\<rparr>) j = latest_spec d j" "latest_spec (d\<lparr>rd_health := health\<rparr>) j = latest_spec d j"
  "latest_spec (put_server r d) j = latest_spec d j"
  by (simp_all add: latest_spec_def put_server_def)

lemma registry_inv_created:
  assumes "registry_inv S E static d" "http_url_stable E" "static_servers_of S E = Inr static"
    "new_id \<notin> rg_id ` set (rd_servers d)" "new_id \<notin> rv_server_id ` set (rd_revisions d)"
    "create_server S E new_id revision_id now payload actor d = (answer, d')"
  shows "registry_inv S E static d'"
proof (cases answer)
  case (Inl e)
  then have "d' = d" using assms(6) by (auto simp: create_server_def Let_def split: if_splits sum.splits)
  then show ?thesis using assms(1) by simp
next
  case (Inr server)
  obtain c where c0: "validate_config_payload S E payload = Inr c"
    using assms(6) Inr by (cases "validate_config_payload S E payload") (auto simp: create_server_def split: if_splits)
  have c: "validate_config_payload S E payload = Inr c"
      "sv_name (mc_config c) \<notin> static_names static" "\<forall>r \<in> set (rd_servers d). server_name r \<noteq> sv_name (mc_config c)"
      "int (length (rd_servers d)) < max 1 (rs_max_servers S)" "server = new_registration new_id now c actor"
      "d' = add_revision revision_id now server ''create'' actor (d\<lparr>rd_servers := rd_servers d @ [server]\<rparr>)"
    using assms(6) Inr unfolding create_server_def
    by (auto simp: c0 assms(3) static_names_def server_name_def Let_def not_le split: if_splits)
  have fields: "rg_id server = new_id" "rg_spec server = spec_of_config c" "server_name server = sv_name (mc_config c)"
    by (simp_all add: c(5) new_registration_def server_name_def spec_of_config_def)
  obtain s where s: "config_without_credential E s = Inr c"
    using c0 unfolding validate_config_payload_def Let_def by (simp split: option.splits)
  have loads: "loads_as E server" using config_reloads [OF s assms(2)] by (auto simp: loads_as_def fields)
  have servers: "rd_servers d' = rd_servers d @ [server]" by (simp add: c(6) add_revision_def)
  have latest: "latest_spec d' j = (if new_id = j then Some (rg_spec server) else latest_spec d j)" for j
    unfolding c(6) by (simp add: latest_spec_snoc fields)
  have revisions: "set (rd_revisions d') \<subseteq> set (rd_revisions d) \<union> {v. rv_server_id v = new_id}"
    by (auto simp: c(6) add_revision_def fields)
  show ?thesis
    using assms(1,4) c(2-4) loads revisions unfolding registry_inv_def servers
    by (auto simp: latest fields image_iff)
qed

lemma found_member: "List.find P xs = Some x \<Longrightarrow> x \<in> set xs \<and> P x"
  by (induction xs) (auto split: if_splits)

lemma get_server_found:
  assumes "get_server d i = Inr r"
  shows "r \<in> set (rd_servers d)" "rg_id r = i"
  using assms found_member [of "\<lambda>r. rg_id r = i" "rd_servers d"] by (auto simp: get_server_def split: option.splits)

lemma distinct_replaced:
  assumes "distinct (map key xs)" "distinct (map name xs)" "\<forall>x \<in> set xs. name x = name r \<longrightarrow> key x = key r"
  shows "distinct (map name (map (\<lambda>x. if key x = key r then r else x) xs))"
  using assms
proof (induction xs)
  case (Cons x xs)
  have rest: "distinct (map name (map (\<lambda>x. if key x = key r then r else x) xs))" using Cons by simp
  show ?case
  proof (cases "key x = key r")
    case True
    then have "\<forall>y \<in> set xs. key y \<noteq> key r" using Cons.prems(1) by (auto simp: image_iff)
    then have "\<forall>y \<in> set xs. name y \<noteq> name r" "map (\<lambda>x. if key x = key r then r else x) xs = xs"
      using Cons.prems(3) by (auto intro: map_idI)
    then show ?thesis using True rest by auto
  next
    case False
    then have "name x \<noteq> name r" using Cons.prems(3) by auto
    moreover have "set (map (\<lambda>x. if key x = key r then r else x) xs) \<subseteq> insert r (set xs)" by auto
    ultimately have "name x \<notin> set (map name (map (\<lambda>x. if key x = key r then r else x) xs))"
      using Cons.prems(2) unfolding set_map by fastforce
    then show ?thesis using rest False by (simp del: set_map map_map)
  qed
qed simp

lemma registry_inv_updated:
  assumes "registry_inv S E static d" "http_url_stable E" "static_servers_of S E = Inr static" "action \<noteq> ''validate''"
    "update_server S E revision_id now server_id payload v actor action d = (answer, d')"
  shows "registry_inv S E static d'"
proof (cases answer)
  case (Inl e)
  then have "d' = d" using assms(5) unfolding update_server_def by (auto simp: Let_def split: if_splits sum.splits)
  then show ?thesis using assms(1) by simp
next
  case (Inr server')
  obtain server where g: "get_server d server_id = Inr server"
    using assms(5) Inr by (cases "get_server d server_id") (auto simp: update_server_def)
  obtain c where c0: "validate_config_payload S E (merged (server_config_snapshot server) payload) = Inr c"
    using assms(5) Inr g
    by (cases "validate_config_payload S E (merged (server_config_snapshot server) payload)") (auto simp: update_server_def split: if_splits)
  define d1 where "d1 = (if server_name server \<noteq> sv_name (mc_config c)
    then d\<lparr>rd_health := (rd_health d)(server_name server := None)\<rparr> else d)"
  have new: "rg_spec (updated_server now c actor server) = spec_of_config c"
    "rg_id (updated_server now c actor server) = rg_id server" "server_name (updated_server now c actor server) = sv_name (mc_config c)"
    by (simp_all add: updated_server_def server_name_def spec_of_config_def)
  have c: "sv_name (mc_config c) \<notin> static_names static"
      "\<forall>r \<in> set (rd_servers d). server_name r = sv_name (mc_config c) \<longrightarrow> rg_id r = rg_id server"
      "server' = updated_server now c actor server"
      "d' = add_revision revision_id now server' action actor (put_server server' d1)"
    using assms(5) Inr new unfolding update_server_def d1_def
    by (auto simp: g c0 assms(3) static_names_def server_name_def Let_def split: if_splits)
  obtain s where s: "config_without_credential E s = Inr c"
    using c0 unfolding validate_config_payload_def Let_def by (simp split: option.splits)
  have loads: "loads_as E server'" using config_reloads [OF s assms(2)] new unfolding c(3) loads_as_def by auto
  have d1: "rd_servers d1 = rd_servers d" "rd_revisions d1 = rd_revisions d" by (simp_all add: d1_def)
  have found: "server \<in> set (rd_servers d)" using get_server_found [OF g] by simp
  have servers: "rd_servers d' = map (\<lambda>x. if rg_id x = rg_id server' then server' else x) (rd_servers d)"
    by (simp add: c(4) add_revision_def put_server_def d1)
  have latest: "latest_spec d' j = (if rg_id server' = j then Some (rg_spec server') else latest_spec d j)" for j
    unfolding c(4) using assms(4) by (simp add: latest_spec_snoc d1_def)
  have ids: "rg_id server' = rg_id server" "map rg_id (rd_servers d') = map rg_id (rd_servers d)"
    by (simp_all add: servers c(3) new(2))
  have revisions: "rv_server_id w \<in> rg_id ` set (rd_servers d)" if "w \<in> set (rd_revisions d')" for w
    using that assms(1) found by (auto simp: c(4) add_revision_def put_server_def d1 registry_inv_def ids(1))
  have names: "distinct (map server_name (rd_servers d'))"
    unfolding servers using assms(1) c(2,3) new by (intro distinct_replaced) (auto simp: registry_inv_def)
  have rows: "server_name r \<notin> static_names static \<and> loads_as E r \<and> latest_spec d' (rg_id r) = Some (rg_spec r)"
    if r: "r \<in> set (rd_servers d')" for r
  proof -
    consider "r = server'" | "r \<in> set (rd_servers d)" "rg_id r \<noteq> rg_id server'"
      using r unfolding servers by (auto split: if_splits)
    then show ?thesis
    proof cases
      case 1
      then show ?thesis using loads c(1,3) new by (simp add: latest)
    next
      case 2
      then show ?thesis using assms(1) by (auto simp: registry_inv_def latest)
    qed
  qed
  have same: "rg_id ` set (rd_servers d') = rg_id ` set (rd_servers d)" "length (rd_servers d') = length (rd_servers d)"
    using ids(2) by (metis set_map, simp add: servers)
  show ?thesis
    using assms(1) names rows revisions unfolding registry_inv_def ids(2) same by blast
qed

lemma registry_inv_restored:
  assumes "registry_inv S E static d" "http_url_stable E" "static_servers_of S E = Inr static"
    "restore_server S E new_revision now server_id revision_id v actor d = (answer, d')"
  shows "registry_inv S E static d'"
proof (cases "List.find (\<lambda>v. rv_id v = revision_id) (rd_revisions d)")
  case None
  then show ?thesis using assms(1,4) by (simp add: restore_server_def)
next
  case (Some revision)
  then show ?thesis
    using assms(1,4) registry_inv_updated [OF assms(1-3), of "''restore''"] by (auto simp: restore_server_def split: if_splits)
qed

lemma registry_inv_deleted:
  assumes "registry_inv S E static d" "delete_server server_id v d = (gone, d')"
  shows "registry_inv S E static d'"
proof -
  consider "d' = d"
    | "rd_servers d' = filter (\<lambda>r. rg_id r \<noteq> server_id) (rd_servers d)"
      "rd_revisions d' = filter (\<lambda>v. rv_server_id v \<noteq> server_id) (rd_revisions d)"
    using assms(2) unfolding delete_server_def by (auto split: sum.splits if_splits)
  then show ?thesis
  proof cases
    case 2
    have "latest_spec d' j = latest_spec d j" if "j \<noteq> server_id" for j
    proof -
      have "filter (\<lambda>v. rv_server_id v = j \<and> rv_action v \<noteq> ''validate'') (rd_revisions d') =
          filter (\<lambda>v. rv_server_id v = j \<and> rv_action v \<noteq> ''validate'') (rd_revisions d)"
        unfolding 2(2) filter_filter using that by (intro filter_cong) auto
      then show ?thesis by (simp add: latest_spec_def)
    qed
    moreover have "int (length (filter (\<lambda>r. rg_id r \<noteq> server_id) (rd_servers d))) \<le> int (length (rd_servers d))" by simp
    then have "int (length (filter (\<lambda>r. rg_id r \<noteq> server_id) (rd_servers d))) \<le> max 1 (rs_max_servers S)"
      using assms(1) unfolding registry_inv_def by linarith
    ultimately show ?thesis
      using assms(1) unfolding registry_inv_def 2 by (auto simp: distinct_map_filter)
  qed (use assms(1) in simp)
qed

lemma flush_registration_fields [simp]:
  "rg_id (flush_registration old new current) = rg_id current" "rg_spec (flush_registration old new current) = rg_spec current"
  by (simp_all add: flush_registration_def)

lemma validated_server_fields [simp]:
  "rg_id (validated_server now actor l) = rg_id (ln_server l)" "rg_spec (validated_server now actor l) = rg_spec (ln_server l)"
  "rg_version (validated_server now actor l) = rg_version (ln_server l) + 1"
  by (simp_all add: validated_server_def Let_def split: sum.splits prod.splits)

lemma registry_inv_validated:
  assumes "registry_inv S E static d" "finish_validation revision_id now actor l d = (answer, d')"
  shows "registry_inv S E static d'"
proof (cases "get_server d (rg_id (ln_server l))")
  case (Inl e)
  then show ?thesis using assms by (simp add: finish_validation_def Let_def)
next
  case (Inr current)
  note found = get_server_found [OF Inr]
  define current' where "current' = flush_registration (ln_server l) (validated_server now actor l) current"
  have d': "d' = add_revision revision_id now (validated_server now actor l) ''validate'' actor (put_server current' d)"
    using assms(2) Inr by (simp add: finish_validation_def Let_def current'_def)
  have servers: "rd_servers d' = map (\<lambda>x. if rg_id x = rg_id current then current' else x) (rd_servers d)"
    by (simp add: d' add_revision_def put_server_def current'_def)
  have unique: "x = current" if "x \<in> set (rd_servers d)" "rg_id x = rg_id current" for x
    using assms(1) found(1) that by (auto simp: registry_inv_def distinct_map inj_on_def)
  have same: "map rg_id (rd_servers d') = map rg_id (rd_servers d)" "map rg_spec (rd_servers d') = map rg_spec (rd_servers d)"
    using unique by (auto simp: servers current'_def)
  have names: "map server_name (rd_servers d') = map server_name (rd_servers d)"
    using unique by (auto simp: servers current'_def server_name_def)
  have "latest_spec d' j = latest_spec d j" for j by (simp add: d' latest_spec_snoc)
  moreover have "\<exists>r' \<in> set (rd_servers d). rg_spec r' = rg_spec r \<and> rg_id r' = rg_id r" if "r \<in> set (rd_servers d')" for r
    using that found(1) unfolding servers current'_def by auto
  ultimately have rows: "server_name r \<notin> static_names static \<and> loads_as E r \<and> latest_spec d' (rg_id r) = Some (rg_spec r)"
    if "r \<in> set (rd_servers d')" for r
    using assms(1) that unfolding registry_inv_def server_name_def loads_as_def by metis
  have revisions: "rv_server_id v \<in> rg_id ` set (rd_servers d)" if "v \<in> set (rd_revisions d')" for v
    using that assms(1) imageI [OF found(1), of rg_id] found(2) by (auto simp: d' add_revision_def put_server_def registry_inv_def)
  have size: "rg_id ` set (rd_servers d') = rg_id ` set (rd_servers d)" "length (rd_servers d') = length (rd_servers d)"
    using same(1) by (metis set_map, simp add: servers)
  show ?thesis
    using assms(1) rows revisions unfolding registry_inv_def same(1) names size by blast
qed

lemma credential_frames [simp]:
  "rd_servers (put_credential c d) = rd_servers d" "rd_revisions (put_credential c d) = rd_revisions d"
  by (simp_all add: put_credential_def)

lemma set_credential_frame:
  assumes "set_credential S E R new_id now server_id auth_type payload v d = (answer, d')"
  shows "rd_servers d' = rd_servers d" "rd_revisions d' = rd_revisions d"
  using assms unfolding set_credential_def Let_def by (auto split: sum.splits if_splits option.splits)

lemma commit_credential_frame:
  assumes "commit_credential old new d = (failed, d')"
  shows "rd_servers d' = rd_servers d" "rd_revisions d' = rd_revisions d"
  using assms unfolding commit_credential_def by (auto split: if_splits option.splits)

lemma registry_inv_step:
  assumes "registry_step S E d d'" "registry_inv S E static d" "http_url_stable E" "static_servers_of S E = Inr static"
  shows "registry_inv S E static d'"
  using assms(1)
proof cases
  case created
  then show ?thesis by (rule registry_inv_created [OF assms(2-4)])
next
  case updated
  then show ?thesis by (intro registry_inv_updated [OF assms(2-4)]) auto
next
  case restored
  then show ?thesis by (rule registry_inv_restored [OF assms(2-4)])
next
  case deleted
  then show ?thesis by (rule registry_inv_deleted [OF assms(2)])
next
  case validated
  then show ?thesis by (rule registry_inv_validated [OF assms(2)])
next
  case credential_set
  then show ?thesis by (intro registry_inv_frame [OF assms(2)] set_credential_frame)
next
  case credential_deleted
  then show ?thesis using registry_inv_frame [OF assms(2)] by (auto simp: delete_credential_def split: sum.splits)
next
  case rewrapped
  then show ?thesis using registry_inv_frame [OF assms(2)] by (auto simp: rewrap_all_def split: sum.splits)
next
  case refreshed
  then show ?thesis by (intro registry_inv_frame [OF assms(2)] commit_credential_frame)
qed

lemma registry_inv_steps:
  assumes "(registry_step S E)\<^sup>*\<^sup>* d d'" "registry_inv S E static d" "http_url_stable E" "static_servers_of S E = Inr static"
  shows "registry_inv S E static d'"
  using assms(1,2) by (induction rule: rtranclp_induct) (auto intro: registry_inv_step assms(3,4))

lemma registry_inv_empty: "registry_inv S E static empty_registry"
  by (simp add: registry_inv_def empty_registry_def)

section \<open>What is registered can be used\<close>

lemma each_config_loads:
  assumes "\<forall>r \<in> set rs. loads_as E r"
  shows "\<exists>cs. each_config E rs = Inr cs \<and> map spec_of_config cs = map rg_spec rs"
  using assms
proof (induction rs)
  case (Cons r rs)
  then obtain c cs where "config_without_credential E (rg_spec r) = Inr c" "spec_of_config c = rg_spec r"
    "each_config E rs = Inr cs" "map spec_of_config cs = map rg_spec rs"
    by (auto simp: loads_as_def)
  then show ?case by simp
qed simp

lemma config_names: "map (sv_name \<circ> mc_config) cs = map sp_name (map spec_of_config cs)"
  by (simp add: spec_of_config_def)

lemma distinct_enabled:
  assumes "distinct (map server_name (rd_servers d))"
  shows "distinct (map sp_name (map rg_spec (enabled_servers d)))"
proof -
  have "distinct (map server_name (list_servers d))"
    using assms by (simp add: list_servers_def distinct_map)
  then have "distinct (map server_name (enabled_servers d))" by (simp add: enabled_servers_def distinct_map_filter)
  moreover have "map sp_name (map rg_spec (enabled_servers d)) = map server_name (enabled_servers d)" by (simp add: server_name_def)
  ultimately show ?thesis by metis
qed

lemma static_distinct: "static_servers_of S E = Inr static \<Longrightarrow> distinct (map (sv_name \<circ> mc_config) static)"
  by (auto simp: static_servers_of_def parse_server_configs_def split: static_servers.splits if_splits sum.splits)

text \<open>
  C30.  The registry stays sound.  Over every history of its operations, with validations and token refreshes committing
  whenever they like, the names of servers are unique and none is a static one, there are not more than allowed, every
  server's configuration is the snapshot of its last configuring revision, and every enabled configuration still passes
  the checks of a configuration and gives back what is stored, so a client can always be made.
\<close>

theorem registered_servers_stay_sound:
  assumes "http_url_stable E" "static_servers_of S E = Inr static" "(registry_step S E)\<^sup>*\<^sup>* empty_registry d"
  shows "distinct (map server_name (rd_servers d)) \<and> int (length (rd_servers d)) \<le> max 1 (rs_max_servers S) \<and>
    (\<forall>r \<in> set (rd_servers d). server_name r \<notin> static_names static \<and> latest_spec d (rg_id r) = Some (rg_spec r)) \<and>
    (\<exists>dynamic. each_config E (enabled_servers d) = Inr dynamic \<and> map spec_of_config dynamic = map rg_spec (enabled_servers d) \<and>
       distinct (map (sv_name \<circ> mc_config) (static @ dynamic)))"
proof -
  have inv: "registry_inv S E static d" using registry_inv_steps [OF assms(3) registry_inv_empty assms(1,2)] .
  have members: "set (enabled_servers d) \<subseteq> set (rd_servers d)" by (auto simp: enabled_servers_def list_servers_def)
  obtain dynamic where dynamic: "each_config E (enabled_servers d) = Inr dynamic"
      "map spec_of_config dynamic = map rg_spec (enabled_servers d)"
    using each_config_loads [of "enabled_servers d" E] inv members unfolding registry_inv_def by blast
  have names: "map (sv_name \<circ> mc_config) dynamic = map sp_name (map rg_spec (enabled_servers d))"
    unfolding config_names dynamic(2) ..
  have "set (map sp_name (map rg_spec (enabled_servers d))) \<inter> static_names static = {}"
    using inv members unfolding registry_inv_def server_name_def by auto
  then have "distinct (map (sv_name \<circ> mc_config) (static @ dynamic))"
    using static_distinct [OF assms(2)] distinct_enabled inv
    unfolding registry_inv_def static_names_def map_append names by auto
  then show ?thesis using inv dynamic unfolding registry_inv_def by blast
qed

section \<open>Credentials and hosts\<close>

definition narrower :: "managed_config \<Rightarrow> managed_config \<Rightarrow> bool" where
  "narrower c b \<longleftrightarrow> mc_url c = mc_url b \<and> sv_name (mc_config c) = sv_name (mc_config b) \<and>
     sv_registry_managed (mc_config c) = sv_registry_managed (mc_config b) \<and>
     sv_bearer_token (mc_config c) = sv_bearer_token (mc_config b) \<and>
     sv_bearer_token_env (mc_config c) = sv_bearer_token_env (mc_config b) \<and>
     set (sv_allowed_tools (mc_config c)) \<subseteq> set (sv_allowed_tools (mc_config b))"

definition reachable_url :: "registry_settings \<Rightarrow> registry_env \<Rightarrow> string \<Rightarrow> bool" where
  "reachable_url S E url \<longleftrightarrow>
     (let parts = re_urlsplit E url; host = header_lower (the (url_hostname parts))
      in url_scheme parts \<in> {''http'', ''https''} \<and> (rs_require_https S \<longrightarrow> url_scheme parts = ''https'') \<and>
         (rs_host_allowlist S \<noteq> {} \<longrightarrow> host \<in> rs_host_allowlist S) \<and>
         (\<not> rs_allow_private_networks S \<longrightarrow> host \<noteq> ''localhost'' \<and>
            (\<exists>addresses. host_addresses (re_network E) True host = Inr addresses \<and>
               (\<forall>a \<in> set addresses. \<exists>t. nt_address (re_network E) a = Some (t, True)))))"

definition own_token :: "registry_settings \<Rightarrow> registry_env \<Rightarrow> time \<Rightarrow> registry_db \<Rightarrow> string \<Rightarrow> string \<Rightarrow> bool" where
  \<comment> \<open>a token out of what the credential of a server seals for that server\<close>
  "own_token S E now d server_id token \<longleftrightarrow>
     (\<exists>c payload. server_credential d server_id = Some c \<and>
        open_payload S E (ct_encrypted_payload c) (Some server_id) = Inr payload \<and>
        (if ct_auth_type c = ''bearer'' then token = py_str (dget payload ''token'')
         else cached_token S E now payload = Some token \<or>
              (reachable_url S E (py_str (dget payload ''token_url'')) \<and>
               (\<exists>answer. re_token_endpoint E (py_str (dget payload ''token_url'')) (token_request payload) = Inr answer \<and>
                  token = payload_text answer ''access_token''))))"

lemma first_private_None: "first_private N as = None \<longleftrightarrow> (\<forall>a \<in> set as. \<exists>t. nt_address N a = Some (t, True))"
  by (induction as) (auto split: option.splits)

lemma url_reachable:
  assumes "validate_registry_url S E True url = None"
  shows "reachable_url S E url"
proof -
  have "\<exists>addresses. host_addresses (re_network E) True host = Inr addresses \<and>
      (\<forall>a \<in> set addresses. \<exists>t. nt_address (re_network E) a = Some (t, True))"
    if "(case host_addresses (re_network E) True host of Inl e \<Rightarrow> Some e | Inr as \<Rightarrow> first_private (re_network E) as) = None" for host
    using that by (auto simp: first_private_None split: sum.splits)
  then show ?thesis
    using assms unfolding validate_registry_url_def reachable_url_def Let_def by (simp split: if_splits) blast+
qed

lemma oauth_token:
  assumes "oauth_access_token S E R now c payload = (Inr token, c')"
  shows "cached_token S E now payload = Some token \<or>
    (reachable_url S E (py_str (dget payload ''token_url'')) \<and>
     (\<exists>answer. re_token_endpoint E (py_str (dget payload ''token_url'')) (token_request payload) = Inr answer \<and>
        token = payload_text answer ''access_token''))"
proof (cases "cached_token S E now payload")
  case None
  have url: "validate_registry_url S E True (py_str (dget payload ''token_url'')) = None"
    and result: "refresh_result S E R now payload c = Inr (token, c')"
    using assms None unfolding oauth_access_token_def Let_def
    by (auto simp: failed_refresh_def split: option.splits if_splits sum.splits)
  obtain answer where answer: "re_token_endpoint E (py_str (dget payload ''token_url'')) (token_request payload) = Inr answer"
    using result unfolding refresh_result_def by (auto split: sum.splits)
  then have "token = payload_text answer ''access_token''"
    using result unfolding refresh_result_def Let_def by (auto split: sum.splits if_splits option.splits)
  then show ?thesis using answer url_reachable [OF url] by blast
qed (use assms in \<open>simp add: oauth_access_token_def\<close>)

lemma resolved_token:
  assumes "resolve_bearer_token S E R now i (server_credential d i) = (Inr (Some token), c')"
  shows "own_token S E now d i token"
proof -
  obtain c where c: "server_credential d i = Some c"
    using assms by (cases "server_credential d i") (auto simp: resolve_bearer_token_def)
  obtain payload where p: "open_payload S E (ct_encrypted_payload c) (Some i) = Inr payload"
    using assms c by (cases "open_payload S E (ct_encrypted_payload c) (Some i)") (auto simp: resolve_bearer_token_def)
  show ?thesis
  proof (cases "ct_auth_type c = ''bearer''")
    case True
    then have "token = py_str (dget payload ''token'')"
      using assms c p by (auto simp: resolve_bearer_token_def split: if_splits)
    then show ?thesis using True c p unfolding own_token_def by auto
  next
    case False
    obtain answer c'' where o: "oauth_access_token S E R now c payload = (answer, c'')" by fastforce
    then have "answer = Inr token"
      using assms c p False by (cases answer) (auto simp: resolve_bearer_token_def)
    then show ?thesis using oauth_token o False c p unfolding own_token_def by auto
  qed
qed

lemma find_replaced_other:
  "i \<noteq> key c \<Longrightarrow> List.find (\<lambda>x. key x = i) (map (\<lambda>x. if key x = key c then c else x) xs) = List.find (\<lambda>x. key x = i) xs"
  by (induction xs) auto

lemma runtime_config_other:
  assumes "runtime_config S E R now server base d = (answer, d')" "j \<noteq> rg_id server"
  shows "server_credential d' j = server_credential d j"
proof -
  obtain a c' where r: "resolve_bearer_token S E R now (rg_id server) (server_credential d (rg_id server)) = (a, c')" by fastforce
  have d': "d' = snd (commit_credential (server_credential d (rg_id server)) c' d)"
    using assms(1) r by (simp add: runtime_config_def split: prod.splits)
  have found: "ct_server_id c = i" if "server_credential d i = Some c" for c i
    using that found_member by (fastforce simp: server_credential_def)
  have put: "server_credential (put_credential c d) j = server_credential d j" if "ct_server_id c \<noteq> j" for c
    using that by (simp add: server_credential_def put_credential_def find_replaced_other)
  show ?thesis
    unfolding d' using assms(2) found put
    by (auto simp: commit_credential_def flush_credential_def split: option.splits)
qed

lemma runtime_config_token:
  assumes "runtime_config S E R now server base d = (Inr c, d')"
  shows "\<exists>token. c = base\<lparr>mc_config := (mc_config base)\<lparr>sv_bearer_token := token\<rparr>\<rparr> \<and>
    (token = None \<or> (\<exists>t. token = Some t \<and> own_token S E now d (rg_id server) t))"
proof -
  obtain a c' where r: "resolve_bearer_token S E R now (rg_id server) (server_credential d (rg_id server)) = (a, c')" by fastforce
  then obtain token where a: "a = Inr token"
    and c: "c = base\<lparr>mc_config := (mc_config base)\<lparr>sv_bearer_token := (if none_or_empty token then None else token)\<rparr>\<rparr>"
    using assms by (cases a) (auto simp: runtime_config_def split: prod.splits)
  have "own_token S E now d (rg_id server) t" if "token = Some t" for t
    using resolved_token r a that by metis
  then show ?thesis using c by (cases token) auto
qed

definition given ::
  "registry_settings \<Rightarrow> registry_env \<Rightarrow> time \<Rightarrow> (string \<Rightarrow> registration option) \<Rightarrow> registry_db \<Rightarrow> managed_config list \<Rightarrow>
   managed_config \<Rightarrow> bool" where
  "given S E now servers d cs c \<longleftrightarrow>
     (\<exists>b r token. b \<in> set cs \<and> servers (sv_name (mc_config b)) = Some r \<and>
        c = b\<lparr>mc_config := (mc_config b)\<lparr>sv_bearer_token := token\<rparr>\<rparr> \<and>
        (token = None \<or> (\<exists>t. token = Some t \<and> own_token S E now d (rg_id r) t)))"

lemma given_later:
  assumes "given S E now servers d' xs c"
    "\<And>b r t. b \<in> set xs \<Longrightarrow> servers (sv_name (mc_config b)) = Some r \<Longrightarrow> own_token S E now d' (rg_id r) t \<Longrightarrow> own_token S E now d (rg_id r) t"
  shows "given S E now servers d (x # xs) c"
  using assms unfolding given_def by (metis list.set_intros(2))

lemma hydrated:
  assumes "hydrate S E R now servers cs d = (Inr out, d')" "distinct (map (sv_name \<circ> mc_config) cs)"
    "\<And>name r. servers name = Some r \<Longrightarrow> r \<in> set rows \<and> server_name r = name" "distinct (map rg_id rows)" "c \<in> set out"
    "sv_registry_managed (mc_config c)"
  shows "given S E now servers d cs c"
  using assms(1,2,5)
proof (induction cs arbitrary: d out)
  case (Cons x xs)
  have distinct: "distinct (map (sv_name \<circ> mc_config) xs)" using Cons.prems(2) by (simp add: comp_def)
  have later: "own_token S E now d (rg_id r) t"
    if "own_token S E now d1 (rg_id r) t" "runtime_config S E (R (rg_id s)) now s x d = (a, d1)"
      "servers (sv_name (mc_config x)) = Some s" "b \<in> set xs" "servers (sv_name (mc_config b)) = Some r" for r t d1 s a b
  proof -
    have "sv_name (mc_config b) \<noteq> sv_name (mc_config x)" using Cons.prems(2) that(4) by (auto simp: image_iff)
    then have "rg_id r \<noteq> rg_id s"
      using assms(3) [OF that(3)] assms(3) [OF that(5)] assms(4) by (metis distinct_map inj_on_eq_iff)
    then show ?thesis using that(1) runtime_config_other [OF that(2)] unfolding own_token_def by simp
  qed
  show ?case
  proof (cases "sv_registry_managed (mc_config x)")
    case False
    then obtain rest where "hydrate S E R now servers xs d = (Inr rest, d')" "out = x # rest"
      using Cons.prems(1) by (auto split: prod.splits) (metis map_sum.simps old.sum.exhaust sum.simps(4) sum.inject(2))
    then have "given S E now servers d xs c" using Cons.IH [OF _ distinct] Cons.prems(3) False assms(6) by auto
    then show ?thesis by (rule given_later)
  next
    case managed: True
    show ?thesis
    proof (cases "servers (sv_name (mc_config x))")
      case None
      then have "given S E now servers d xs c" using Cons.IH [OF _ distinct] Cons.prems(1,3) managed by auto
      then show ?thesis by (rule given_later)
    next
      case (Some s)
      obtain a d1 where run: "runtime_config S E (R (rg_id s)) now s x d = (a, d1)" by fastforce
      show ?thesis
      proof (cases a)
        case (Inl e)
        then obtain t where "e = Credential_error t" using Cons.prems(1) managed Some run by (cases e) auto
        then have "hydrate S E R now servers xs d1 = (Inr out, d')" using Cons.prems(1) managed Some run Inl by simp
        then have "given S E now servers d1 xs c" using Cons.IH [OF _ distinct] Cons.prems(3) by auto
        then show ?thesis by (rule given_later) (rule later [OF _ run Some])
      next
        case (Inr c')
        obtain rest where rest: "hydrate S E R now servers xs d1 = (Inr rest, d')" "out = c' # rest"
          using Cons.prems(1) managed Some run Inr
          by (auto split: prod.splits) (metis map_sum.simps old.sum.exhaust sum.simps(4) sum.inject(2))
        show ?thesis
        proof (cases "c = c'")
          case True
          obtain token where "c = x\<lparr>mc_config := (mc_config x)\<lparr>sv_bearer_token := token\<rparr>\<rparr>"
            "token = None \<or> (\<exists>t. token = Some t \<and> own_token S E now d (rg_id s) t)"
            using runtime_config_token [of S E "R (rg_id s)" now s x d c' d1] run Inr True by auto
          then show ?thesis using Some unfolding given_def by (metis list.set_intros(1))
        next
          case False
          then have "given S E now servers d1 xs c" using Cons.IH [OF rest(1) distinct] rest(2) Cons.prems(3) by auto
          then show ?thesis by (rule given_later) (rule later [OF _ run Some])
        qed
      qed
    qed
  qed
qed simp

lemma loaded_config:
  assumes "config_without_credential E s = Inr c"
  shows "sv_name (mc_config c) = sp_name s" "sv_bearer_token_env (mc_config c) = None"
proof -
  obtain t b where "validate_server_config (managed_extra\<lparr>sv_name := sp_name s, sv_url_has_credentials := b,
      sv_allowed_tools := sp_allowed_tools s, sv_tool_policies := sp_tool_policies s,
      sv_agent_context_tools := sp_agent_context_tools s, sv_idempotency_mode := sp_idempotency_mode s,
      sv_enabled := sp_enabled s\<rparr>) = Inr (mc_config c)" "mc_url c = t"
    using assms unfolding config_without_credential_def validate_model_def
    by (auto split: option.splits sum.splits simp: map_sum_def)
  then show "sv_name (mc_config c) = sp_name s" "sv_bearer_token_env (mc_config c) = None"
    using validated_server_config(1) by (fastforce simp: managed_extra_def)+
qed

lemma each_config_mem:
  assumes "each_config E rs = Inr cs" "r \<in> set rs"
  shows "\<exists>c \<in> set cs. config_without_credential E (rg_spec r) = Inr c"
  using assms
proof (induction rs arbitrary: cs)
  case (Cons x xs)
  obtain c rest where "config_without_credential E (rg_spec x) = Inr c" "each_config E xs = Inr rest" "cs = c # rest"
    using Cons.prems(1) by (cases "config_without_credential E (rg_spec x)"; cases "each_config E xs") auto
  then show ?case using Cons by auto
qed simp

lemma session_opened:
  assumes "open_session S E c = Inr authorization" "sv_registry_managed (mc_config c)"
  shows "reachable_url S E (mc_url c)"
    "sv_bearer_token (mc_config c) = Some t \<Longrightarrow> authorization = Some (''Bearer '' @ t)"
    "sv_bearer_token (mc_config c) = None \<Longrightarrow> sv_bearer_token_env (mc_config c) = None \<Longrightarrow> authorization = None"
proof -
  have "validate_registry_url S E True (mc_url c) = None"
    using assms unfolding open_session_def by (auto split: option.splits)
  then show "reachable_url S E (mc_url c)" by (rule url_reachable)
  show "authorization = Some (''Bearer '' @ t)" if "sv_bearer_token (mc_config c) = Some t"
    using assms that unfolding open_session_def by (auto split: option.splits)
  show "authorization = None" if "sv_bearer_token (mc_config c) = None" "sv_bearer_token_env (mc_config c) = None"
    using assms that unfolding open_session_def by (auto simp: none_or_empty_def split: option.splits)
qed

text \<open>What the callers of \<open>effective_configs\<close> may do to the configurations.\<close>

locale config_filter =
  fixes narrow :: "managed_config list \<Rightarrow> managed_config list"
  assumes keeps_distinct: "distinct (map (sv_name \<circ> mc_config) cs) \<Longrightarrow> distinct (map (sv_name \<circ> mc_config) (narrow cs))"
    and narrows: "c \<in> set (narrow cs) \<Longrightarrow> \<exists>b \<in> set cs. narrower c b"
begin

lemma session_of_registration:
  assumes "rs_enabled S" "effective_configs S E R now (Some narrow) d = (Inr cs, d')" "distinct (map rg_id (rd_servers d))"
    "c \<in> set cs" "sv_registry_managed (mc_config c)" "open_session S E c = Inr authorization"
  shows "reachable_url S E (mc_url c) \<and>
    (\<exists>r \<in> set (rd_servers d). \<exists>b. sp_enabled (rg_spec r) \<and> server_name r = sv_name (mc_config c) \<and>
       config_without_credential E (rg_spec r) = Inr b \<and> mc_url c = mc_url b \<and>
       set (sv_allowed_tools (mc_config c)) \<subseteq> set (sv_allowed_tools (mc_config b)) \<and>
       (authorization = None \<or> (\<exists>token. own_token S E now d (rg_id r) token \<and> authorization = Some (''Bearer '' @ token))))"
proof -
  let ?servers = "\<lambda>name. List.find (\<lambda>r. sp_name (rg_spec r) = name) (rev (enabled_servers d))"
  obtain static where static: "static_servers_of S E = Inr static"
    using assms(2) by (cases "static_servers_of S E") (auto simp: effective_configs_def)
  obtain dynamic where dynamic: "each_config E (enabled_servers d) = Inr dynamic"
    using assms(1,2) static by (cases "each_config E (enabled_servers d)") (auto simp: effective_configs_def)
  have unique: "distinct (map (sv_name \<circ> mc_config) (static @ dynamic))"
    and hydrate: "hydrate S E R now ?servers (narrow (static @ dynamic)) d = (Inr cs, d')"
    using assms(1,2) static dynamic unfolding effective_configs_def Let_def by (simp_all only: split: if_splits sum.splits option.splits) auto
  have rows: "r \<in> set (enabled_servers d) \<and> server_name r = name" if "?servers name = Some r" for name r
    using found_member [OF that] by (simp add: server_name_def)
  have ids: "distinct (map rg_id (enabled_servers d))"
    using assms(3) by (auto simp: enabled_servers_def list_servers_def distinct_map inj_on_def)
  obtain b r token where given: "b \<in> set (narrow (static @ dynamic))" "?servers (sv_name (mc_config b)) = Some r"
      "c = b\<lparr>mc_config := (mc_config b)\<lparr>sv_bearer_token := token\<rparr>\<rparr>"
      "token = None \<or> (\<exists>t. token = Some t \<and> own_token S E now d (rg_id r) t)"
    using hydrated [OF hydrate keeps_distinct [OF unique] rows ids assms(4,5)] unfolding given_def by blast
  obtain b0 where b0: "b0 \<in> set (static @ dynamic)" "narrower b b0" using narrows [OF given(1)] by blast
  have r: "r \<in> set (enabled_servers d)" "server_name r = sv_name (mc_config b)" using rows [OF given(2)] by auto
  obtain m where m: "m \<in> set dynamic" "config_without_credential E (rg_spec r) = Inr m"
    using each_config_mem [OF dynamic r(1)] by blast
  note loaded = loaded_config [OF m(2)]
  have "sv_name (mc_config b0) = sv_name (mc_config m)"
    using b0(2) r(2) loaded(1) by (simp add: narrower_def server_name_def)
  moreover have "inj_on (sv_name \<circ> mc_config) (set (static @ dynamic))" "m \<in> set (static @ dynamic)"
    using unique m(1) by (simp_all only: distinct_map) simp
  ultimately have same: "b0 = m" using b0(1) by (metis comp_apply inj_onD)
  have "authorization = None \<or> (\<exists>token. own_token S E now d (rg_id r) token \<and> authorization = Some (''Bearer '' @ token))"
    using given(3,4) b0(2) loaded(2) session_opened(2,3) [OF assms(6,5)] unfolding same narrower_def
    by (cases token) auto
  moreover have "r \<in> set (rd_servers d)" "sp_enabled (rg_spec r)" using r(1) by (auto simp: enabled_servers_def list_servers_def)
  ultimately show ?thesis
    using session_opened(1) [OF assms(6,5)] r(2) m(2) b0(2) given(3) unfolding same narrower_def by auto
qed

end

text \<open>The filter the client of a run has: the policy of its tenant.\<close>

definition tenant_filter :: "settings \<Rightarrow> time \<Rightarrow> tenancy_db \<Rightarrow> auth_context \<Rightarrow> managed_config list \<Rightarrow> managed_config list" where
  "tenant_filter cfg now d cx configs =
     (if \<not> mcp_tenant_authorization_enabled cfg then configs
      else List.map_filter (\<lambda>m. map_option (\<lambda>c. m\<lparr>mc_config := c\<rparr>) (filter_config cfg now d cx (mc_config m))) configs)"

lemma tenant_filter_configs: "map mc_config (tenant_filter cfg now d cx configs) = filter_configs cfg now d cx (map mc_config configs)"
  by (induction configs) (auto simp: tenant_filter_def filter_configs_def List.map_filter_def split: option.splits)

lemma filtered_narrower:
  assumes "filter_config cfg now d cx (mc_config m) = Some c"
  shows "narrower (m\<lparr>mc_config := c\<rparr>) m"
  using assms by (auto simp: filter_config_def narrower_def Let_def split: if_splits)

interpretation tenant: config_filter "tenant_filter cfg now d cx" for cfg now d cx
proof (unfold_locales, goal_cases)
  case (1 cs)
  then show ?case
  proof (cases "mcp_tenant_authorization_enabled cfg")
    case True
    have "distinct (map (sv_name \<circ> mc_config) (tenant_filter cfg now d cx cs)) \<and>
      set (map (sv_name \<circ> mc_config) (tenant_filter cfg now d cx cs)) \<subseteq> set (map (sv_name \<circ> mc_config) cs)"
      using 1 filtered_narrower True
      by (induction cs) (auto simp: tenant_filter_def List.map_filter_def narrower_def split: option.splits)
    then show ?thesis by blast
  qed (simp add: tenant_filter_def)
next
  case (2 c cs)
  then show ?case
    using filtered_narrower
    by (fastforce simp: tenant_filter_def List.map_filter_def narrower_def split: if_splits option.splits)
qed

text \<open>
  C16.  A session carries the credential of its own server.  When a session to a server of the registry opens, for a client
  whose configurations went through the policy of a tenant, there is an enabled registration of its name, its URL is the
  registered one and no tool is allowed that is not registered; the scheme and the host of the URL are allowed and resolve
  to global addresses only (unless private networks are allowed); and the authorization header is absent or carries a token
  out of that registration's own credential, fetched, if it is an OAuth one, from an endpoint of the same kind.
\<close>

theorem sessions_carry_their_own_credential:
  assumes "rs_enabled S" "effective_configs S E R now (Some (tenant_filter cfg now td cx)) d = (Inr cs, d')"
    "distinct (map rg_id (rd_servers d))" "c \<in> set cs" "sv_registry_managed (mc_config c)" "open_session S E c = Inr authorization"
  shows "reachable_url S E (mc_url c) \<and>
    (\<exists>r \<in> set (rd_servers d). \<exists>b. sp_enabled (rg_spec r) \<and> server_name r = sv_name (mc_config c) \<and>
       config_without_credential E (rg_spec r) = Inr b \<and> mc_url c = mc_url b \<and>
       set (sv_allowed_tools (mc_config c)) \<subseteq> set (sv_allowed_tools (mc_config b)) \<and>
       (authorization = None \<or> (\<exists>token. own_token S E now d (rg_id r) token \<and> authorization = Some (''Bearer '' @ token))))"
  using assms by (rule tenant.session_of_registration)

section \<open>Where commits overwrite each other\<close>

text \<open>
  A token refresh writes the whole payload it read back.  When the credential was rotated after it was read, the refresh
  puts the old secrets back in place of the new ones, and the version does not show it.
\<close>

lemma find_replaced:
  "\<exists>x \<in> set xs. key x = key c \<Longrightarrow> List.find (\<lambda>x. key x = key c) (map (\<lambda>x. if key x = key c then c else x) xs) = Some c"
  by (induction xs) auto

lemma refresh_overwrites_rotation:
  assumes "refresh_result S E R now payload c = Inr (token, c')" "server_credential d (ct_server_id c) = Some current"
    "ct_id current = ct_id c" "ct_version current = ct_version c + 1" "ct_encrypted_payload c' \<noteq> ct_encrypted_payload c"
  shows "\<exists>row. server_credential (snd (commit_credential (Some c) (Some c') d)) (ct_server_id c) = Some row \<and>
    ct_encrypted_payload row = ct_encrypted_payload c' \<and> ct_version row = ct_version current"
proof -
  have v: "ct_version c' = ct_version c + 1"
    using assms(1) unfolding refresh_result_def Let_def by (auto split: sum.splits if_splits option.splits)
  let ?row = "flush_credential c c' current"
  have found: "current \<in> set (rd_credentials d)" "ct_server_id current = ct_server_id c"
    using found_member assms(2) by (fastforce simp: server_credential_def)+
  have key: "ct_server_id ?row = ct_server_id c" by (simp add: flush_credential_def found(2))
  have "server_credential (put_credential ?row d) (ct_server_id ?row) = Some ?row"
    using find_replaced [of "rd_credentials d" ct_server_id ?row] found key
    unfolding server_credential_def put_credential_def by auto
  moreover have "snd (commit_credential (Some c) (Some c') d) = put_credential ?row d"
    using assms(2,3,5) by (auto simp: commit_credential_def)
  ultimately show ?thesis
    using assms(4,5) v key by (auto simp: flush_credential_def flushed_def)
qed

text \<open>
  One credential whose token endpoint does not resolve takes the configurations of every server away: the error is not one
  of those \<open>effective_configs\<close> leaves a server out for.
\<close>

lemma unresolvable_endpoint:
  assumes "cached_token S E now payload = None" "map_of payload ''token_url'' \<noteq> None"
    "validate_registry_url S E True (py_str (dget payload ''token_url'')) = Some (Registry_conflict t)"
    "server_credential d (rg_id server) = Some c" "ct_auth_type c \<noteq> ''bearer''"
    "open_payload S E (ct_encrypted_payload c) (Some (rg_id server)) = Inr payload"
    "sv_registry_managed (mc_config b)" "servers (sv_name (mc_config b)) = Some server"
  shows "hydrate S E R now servers (b # cs) d = (Inl (Registry_conflict t), d)"
  using assms by (simp add: runtime_config_def resolve_bearer_token_def oauth_access_token_def commit_credential_def)

section \<open>An instance\<close>

definition demo_urls :: "string \<Rightarrow> url_parts" where
  "demo_urls u = \<lparr>url_scheme = ''https'', url_hostname = Some (drop 8 u), url_username = None, url_password = None,
     url_fragment = [], url_port = None\<rparr>"

definition demo_addresses :: network where
  "demo_addresses = \<lparr>nt_address = (\<lambda>a. if a = ''8.8.8.8'' then Some (a, True) else None),
     nt_lookup = (\<lambda>h p. if h = ''tools.example'' then Inr [''8.8.8.8''] else Inl ''unknown host''),
     nt_connect = (\<lambda>a p. True), nt_decode = Some\<rparr>"

definition demo_registry_settings :: registry_settings where
  "demo_registry_settings = \<lparr>rs_enabled = True, rs_max_servers = 2, rs_require_https = True,
     rs_host_allowlist = {''tools.example'', ''other.example''}, rs_allow_private_networks = False, rs_key_version = 1,
     rs_sandbox_enabled = False, rs_broker_mode = False, rs_oauth_skew_seconds = 30, rs_static = Static_items [],
     rs_kms = \<lparr>km_provider = ''local'', km_key_id = None, km_master_key = Some ''first-master-key-01'', km_previous_master_key = None\<rparr>,
     rs_egress = \<lparr>eg_ports = {443}, eg_hosts = {}, eg_proxy_token = None, eg_proxy_url = None, eg_sandbox_enabled = False\<rparr>\<rparr>"

definition demo_registry_env :: registry_env where
  "demo_registry_env = \<lparr>re_urlsplit = demo_urls, re_http_url = (\<lambda>u. Some (u, False)), re_network = demo_addresses,
     re_crypto = \<lparr>cr_seal = (\<lambda>k n p a. p), cr_open = (\<lambda>k n c a. Some c), cr_digest = (\<lambda>s. s), cr_hexdigest = (\<lambda>s. s),
       cr_encode = (\<lambda>e. case en_ciphertext e of None \<Rightarrow> [] | Some c \<Rightarrow> c),
       cr_decode = (\<lambda>s. Some \<lparr>en_version = Some 2, en_algorithm = Some ''AES-256-GCM'', en_purpose = None,
         en_provider = Some ''local'', en_key_id = Some ''k'', en_binding = Some ''s1'', en_data_key = Some ''k'', en_nonce = Some ''n'',
         en_ciphertext = Some s\<rparr>),
       cr_aws_generate = (\<lambda>k c. Inl ''offline''), cr_aws_decrypt = (\<lambda>k c. Inl ''offline'')\<rparr>,
     re_json_loads = (\<lambda>s. Some (PDict [(''token'', PStr ''secret-token'')])), re_base64_decode = Some,
     re_isoformat = (\<lambda>t. ''t''), re_fromisoformat = (\<lambda>s. None), re_token_endpoint = (\<lambda>u d. Inl ''offline''),
     re_environ = (\<lambda>n. None), re_broker = (\<lambda>c. Inl ''offline''),
     re_server = (\<lambda>c a. Inr ([(''protocol_version'', PStr ''2025-06-18'')], PList []))\<rparr>"

definition demo_spec :: spec where
  "demo_spec = \<lparr>sp_name = ''search'', sp_url = ''https://tools.example'', sp_enabled = True, sp_allowed_tools = ['' find '', '' ''],
     sp_tool_policies = [(''find'', ''auto'')], sp_agent_context_tools = [], sp_idempotency_mode = ''none''\<rparr>"

definition url_change :: "string \<Rightarrow> spec_change" where
  "url_change u = \<lparr>ch_name = None, ch_url = Some u, ch_enabled = None, ch_allowed_tools = None, ch_tool_policies = None,
     ch_agent_context_tools = None, ch_idempotency_mode = None\<rparr>"

definition demo_bytes :: random_bytes where
  "demo_bytes = \<lparr>rb_data_key = ''k'', rb_wrap_nonce = ''w'', rb_nonce = ''n''\<rparr>"

definition demo_created :: registry_db where
  "demo_created = snd (create_server demo_registry_settings demo_registry_env ''s1'' ''v1'' 10 demo_spec ''admin'' empty_registry)"

definition demo_probe :: learnt where
  "demo_probe = (case begin_validation demo_registry_settings demo_registry_env demo_bytes 20 ''s1'' demo_created of
     (Inr l, d) \<Rightarrow> l | (Inl e, d) \<Rightarrow> undefined)"

definition demo_updated :: registry_db where
  "demo_updated = snd (update_server demo_registry_settings demo_registry_env ''v2'' 30 ''s1'' (url_change ''https://other.example'') 1
     ''admin'' ''update'' demo_created)"

definition demo_again :: registry_db where
  "demo_again = snd (update_server demo_registry_settings demo_registry_env ''v3'' 40 ''s1'' (url_change ''https://other.example'') 2
     ''admin'' ''update'' demo_updated)"

definition demo_stale :: registry_db where
  "demo_stale = snd (finish_validation ''v4'' 50 ''admin'' demo_probe demo_again)"

text \<open>
  A validation that began before two updates marks the updated server valid, records the snapshot of the one it had read,
  and takes the version back to one that is used, so a client that read that version passes the version check.
\<close>

lemma stale_validation_is_recorded:
  "map rg_version (rd_servers demo_again) = [3] \<and> map rg_version (rd_servers demo_stale) = [2] \<and>
   map rg_validation_status (rd_servers demo_stale) = [''valid''] \<and>
   map (sp_url \<circ> rg_spec) (rd_servers demo_stale) = [''https://other.example''] \<and>
   map (sp_url \<circ> rv_snapshot) (rd_revisions demo_stale) =
     [''https://tools.example'', ''https://other.example'', ''https://other.example'', ''https://tools.example''] \<and>
   map rv_version (rd_revisions demo_stale) = [1, 2, 3, 2]"
  by code_simp

lemma demo_registry_history: "(registry_step demo_registry_settings demo_registry_env)\<^sup>*\<^sup>* empty_registry demo_stale"
proof -
  have 1: "registry_step demo_registry_settings demo_registry_env empty_registry demo_created"
    unfolding demo_created_def
    by (rule registry_step.created [OF _ _ surjective_pairing]) (simp_all add: empty_registry_def)
  have 2: "registry_step demo_registry_settings demo_registry_env demo_created demo_updated"
    unfolding demo_updated_def by (rule registry_step.updated [OF surjective_pairing])
  have 3: "registry_step demo_registry_settings demo_registry_env demo_updated demo_again"
    unfolding demo_again_def by (rule registry_step.updated [OF surjective_pairing])
  have 4: "registry_step demo_registry_settings demo_registry_env demo_again demo_stale"
    unfolding demo_stale_def by (rule registry_step.validated [OF surjective_pairing])
  show ?thesis using 1 2 3 4 by (meson converse_rtranclp_into_rtranclp rtranclp.rtrancl_refl)
qed

lemma registered_servers_stay_sound_witness:
  "distinct (map server_name (rd_servers demo_stale)) \<and> map server_name (rd_servers demo_stale) = [''search''] \<and>
   latest_spec demo_stale ''s1'' = Some (merged (demo_spec\<lparr>sp_allowed_tools := [''find'']\<rparr>) (url_change ''https://other.example'')) \<and>
   (\<exists>dynamic. each_config demo_registry_env (enabled_servers demo_stale) = Inr dynamic)"
proof -
  have stable: "http_url_stable demo_registry_env" by (simp add: http_url_stable_def demo_registry_env_def)
  have static: "static_servers_of demo_registry_settings demo_registry_env = Inr []" by code_simp
  have rows: "map server_name (rd_servers demo_stale) = [''search''] \<and> map rg_id (rd_servers demo_stale) = [''s1''] \<and>
      map rg_spec (rd_servers demo_stale) = [merged (demo_spec\<lparr>sp_allowed_tools := [''find'']\<rparr>) (url_change ''https://other.example'')]"
    by code_simp
  show ?thesis
    using registered_servers_stay_sound [OF stable static demo_registry_history] rows by (auto simp: map_eq_Cons_conv)
qed

definition demo_secured :: registry_db where
  "demo_secured = snd (set_credential demo_registry_settings demo_registry_env demo_bytes ''c1'' 15 ''s1'' ''bearer''
     [(''token'', PStr '' secret-token '')] None demo_created)"

definition demo_tenants :: tenancy_db where
  "demo_tenants = \<lparr>td_tenants = [], td_memberships = [],
     td_bindings = [\<lparr>bd_tenant_id = ''t'', bd_server_name = ''search'', bd_enabled = True\<rparr>],
     td_grants = [\<lparr>gr_tenant_id = ''t'', gr_repo_id = None, gr_principal_type = ''service'', gr_principal_id = ''ci'',
       gr_server_name = ''search'', gr_tool_name = ''*'', gr_permissions = [''discover'', ''execute''], gr_effect = ''allow'',
       gr_expires_at = None\<rparr>],
     td_providers = [], td_identities = [], td_states = []\<rparr>"

definition demo_context :: auth_context where
  "demo_context = \<lparr>ac_tenant_id = ''t'', ac_repo_id = Some ''r'', ac_principal_type = ''service'', ac_principal_id = ''ci'',
     ac_principal_provider = None, ac_delegated_identity_id = None\<rparr>"

definition demo_tenancy_settings :: settings where
  "demo_tenancy_settings = default_settings\<lparr>mcp_tenant_authorization_enabled := True\<rparr>"

definition demo_filter :: "managed_config list \<Rightarrow> managed_config list" where
  "demo_filter = tenant_filter demo_tenancy_settings 20 demo_tenants demo_context"

definition demo_config :: managed_config where
  "demo_config = \<lparr>mc_url = ''https://tools.example'', mc_config = managed_extra\<lparr>sv_name := ''search'',
     sv_bearer_token := Some ''secret-token'', sv_allowed_tools := [''find''], sv_tool_policies := [(''find'', ''auto'')]\<rparr>\<rparr>"

lemma demo_effective:
  "fst (effective_configs demo_registry_settings demo_registry_env (\<lambda>i. demo_bytes) 20 (Some demo_filter) demo_secured) =
     Inr [demo_config]"
  by code_simp

lemma sessions_carry_their_own_credential_witness:
  "reachable_url demo_registry_settings demo_registry_env ''https://tools.example'' \<and>
   own_token demo_registry_settings demo_registry_env 20 demo_secured ''s1'' ''secret-token''"
proof -
  have on: "rs_enabled demo_registry_settings" by code_simp
  have ids: "distinct (map rg_id (rd_servers demo_secured)) \<and> map rg_id (rd_servers demo_secured) = [''s1'']" by code_simp
  have opened: "open_session demo_registry_settings demo_registry_env demo_config = Inr (Some ''Bearer secret-token'')" by code_simp
  have managed: "sv_registry_managed (mc_config demo_config)" "mc_url demo_config = ''https://tools.example''" by code_simp+
  obtain d' where effective: "effective_configs demo_registry_settings demo_registry_env (\<lambda>i. demo_bytes) 20
      (Some (tenant_filter demo_tenancy_settings 20 demo_tenants demo_context)) demo_secured = (Inr [demo_config], d')"
    using demo_effective unfolding demo_filter_def by (metis prod.collapse)
  from sessions_carry_their_own_credential [OF on effective conjunct1 [OF ids] _ managed(1) opened]
  show ?thesis using conjunct2 [OF ids] managed(2) by auto
qed

end
