(* ===== verification/NavGraph.thy ===== *)
theory NavGraph
  imports Retrieval
begin

text \<open>
  Static navigation for the agent, \<open>backend/app/agent/tools.py\<close>: symbols and references in the indexed chunks, and the graphs
  of imports and of possible calls with their bounds.  Rows are given in the order the queries ask for.  Strings are UTF-8
  bytes, as in the theory of retrieval.
\<close>

section \<open>Paths\<close>

definition pure_parts :: "string \<Rightarrow> string list" where
  \<comment> \<open>the parts of \<open>PurePosixPath(s)\<close> below its root\<close>
  "pure_parts s = filter (\<lambda>c. c \<noteq> [] \<and> c \<noteq> ''.'') (py_split (CHR ''/'') s)"

definition path_root :: "string \<Rightarrow> string" where
  "path_root s = (if starts_with ''///'' s then ''/'' else if starts_with ''//'' s then ''//''
     else if starts_with ''/'' s then ''/'' else [])"

definition path_text :: "string \<Rightarrow> string list \<Rightarrow> string" where
  "path_text anchor parts = (if anchor = [] \<and> parts = [] then ''.'' else anchor @ join ''/'' parts)"

definition parent_text :: "string \<Rightarrow> string" where
  \<comment> \<open>\<open>str(PurePosixPath(s).parent)\<close>\<close>
  "parent_text s = path_text (path_root s) (butlast (pure_parts s))"

definition before_last_dot :: "string \<Rightarrow> string option" where
  "before_last_dot s =
     (let after = takeWhile (\<lambda>c. c \<noteq> CHR ''.'') (rev s)
      in if length after < length s then Some (take (length s - Suc (length after)) s) else None)"

definition after_last_dot :: "string \<Rightarrow> string" where
  \<comment> \<open>\<open>s.rsplit(".", maxsplit=1)[-1]\<close>\<close>
  "after_last_dot s = rev (takeWhile (\<lambda>c. c \<noteq> CHR ''.'') (rev s))"

definition without_suffix :: "string \<Rightarrow> string" where
  "without_suffix name =
     (case before_last_dot name of None \<Rightarrow> name
      | Some stem \<Rightarrow> if stem = [] \<or> after_last_dot name = [] then name else stem)"

definition stem_text :: "string \<Rightarrow> string" where
  \<comment> \<open>\<open>str(PurePosixPath(s).with_suffix(""))\<close> of a path with a name\<close>
  "stem_text s =
     (let ps = pure_parts s
      in path_text (path_root s) (if ps = [] then [] else butlast ps @ [without_suffix (last ps)]))"

definition posix_join :: "string \<Rightarrow> string \<Rightarrow> string" where
  "posix_join a b =
     (if starts_with ''/'' b then b else if a = [] \<or> ends_with ''/'' a then a @ b else a @ ''/'' @ b)"

definition norm_part :: "bool \<Rightarrow> string list \<Rightarrow> string \<Rightarrow> string list" where
  "norm_part absolute kept c =
     (if c = [] \<or> c = ''.'' then kept
      else if c \<noteq> ''..'' \<or> (\<not> absolute \<and> kept = []) \<or> (kept \<noteq> [] \<and> last kept = ''..'') then kept @ [c]
      else butlast kept)"

definition posix_normpath :: "string \<Rightarrow> string" where
  "posix_normpath s =
     (if s = [] then ''.''
      else path_text (path_root s) (foldl (norm_part (path_root s \<noteq> [])) [] (py_split (CHR ''/'') s)))"

section \<open>Imports of the indexed files\<close>

record code_file =
  fl_repo :: string
  fl_path :: string
  fl_language :: string
  fl_imports :: "string list"

definition indexed_files :: "string \<Rightarrow> code_file list \<Rightarrow> code_file list" where
  "indexed_files repo_id rows = sort_key fl_path (filter (\<lambda>f. fl_repo f = repo_id) rows)"

definition import_candidates :: "string \<Rightarrow> string \<Rightarrow> string list" where
  "import_candidates source imported =
     (let normalized = map (\<lambda>c. if c = CHR 0x5C then CHR ''/'' else c) (py_strip imported)
      in if starts_with ''.'' normalized then [posix_normpath (posix_join (parent_text source) normalized)]
         else let parts = py_split (CHR ''.'') (map (\<lambda>c. if c = CHR ''/'' then CHR ''.'' else c) normalized)
              in map (\<lambda>n. join ''/'' (take n parts)) (rev [1..<Suc (length parts)]))"

definition removed_suffix :: "string \<Rightarrow> string \<Rightarrow> string list" where
  "removed_suffix suffix stem = (if ends_with suffix stem then [take (length stem - length suffix) stem] else [])"

definition import_stems :: "string \<Rightarrow> string list" where
  "import_stems path = (let stem = stem_text path
     in [stem] @ removed_suffix ''/index'' stem @ removed_suffix ''/__init__'' stem)"

definition candidate_matches :: "string \<Rightarrow> string \<Rightarrow> bool" where
  "candidate_matches candidate path \<longleftrightarrow>
     candidate \<in> set (import_stems path) \<or> list_ex (ends_with (''/'' @ candidate)) (import_stems path)"

fun first_resolved :: "string list \<Rightarrow> string list \<Rightarrow> string option" where
  "first_resolved paths [] = None"
| "first_resolved paths (c # cs) =
     (case List.find (candidate_matches c) paths of Some p \<Rightarrow> Some p | None \<Rightarrow> first_resolved paths cs)"

definition resolve_import_path :: "code_file list \<Rightarrow> string \<Rightarrow> string \<Rightarrow> string option" where
  "resolve_import_path files source imported = first_resolved (map fl_path files) (import_candidates source imported)"

section \<open>Bounded graphs\<close>

record 'k nav_graph =
  ng_nodes :: "(string \<times> pydict) list"
  ng_edges :: "('k \<times> pydict) list"
  ng_truncated :: bool

definition GRAPH_MAX_NODES :: nat where
  "GRAPH_MAX_NODES = 80"

definition GRAPH_MAX_EDGES :: nat where
  "GRAPH_MAX_EDGES = 120"

definition add_node :: "string \<Rightarrow> pydict \<Rightarrow> 'k nav_graph \<Rightarrow> bool \<times> 'k nav_graph" where
  "add_node i node g =
     (if i \<in> fst ` set (ng_nodes g) then (True, g)
      else if GRAPH_MAX_NODES \<le> length (ng_nodes g) then (False, g\<lparr>ng_truncated := True\<rparr>)
      else (True, g\<lparr>ng_nodes := ng_nodes g @ [(i, node)]\<rparr>))"

definition add_edge :: "'k \<Rightarrow> pydict \<Rightarrow> 'k nav_graph \<Rightarrow> bool \<times> 'k nav_graph" where
  "add_edge k edge g =
     (if k \<in> fst ` set (ng_edges g) then (True, g)
      else if GRAPH_MAX_EDGES \<le> length (ng_edges g) then (False, g\<lparr>ng_truncated := True\<rparr>)
      else (True, g\<lparr>ng_edges := ng_edges g @ [(k, edge)]\<rparr>))"

definition add_both :: "string \<Rightarrow> pydict \<Rightarrow> 'k \<Rightarrow> pydict \<Rightarrow> 'k nav_graph \<Rightarrow> bool \<times> 'k nav_graph" where
  \<comment> \<open>\<open>add_node(...) and add_edge(...)\<close>\<close>
  "add_both i node k edge g =
     (case add_node i node g of (False, g') \<Rightarrow> (False, g') | (True, g') \<Rightarrow> add_edge k edge g')"

definition empty_graph :: "'k nav_graph" where
  "empty_graph = \<lparr>ng_nodes = [], ng_edges = [], ng_truncated = False\<rparr>"

definition navigation_metadata :: "string \<Rightarrow> pydict" where
  "navigation_metadata relation =
     [(''kind'', PStr ''static_navigation''), (''relation'', PStr relation),
      (''supported_languages'', PList (map PStr [''python'', ''javascript'', ''typescript'', ''vue''])),
      (''limitations'', PList (map PStr
         [''Relations are candidates inferred from indexed chunks and identifier-pattern matching.'',
          ''Aliases, dynamic dispatch, overloads, re-exports, and cross-language calls are not resolved.'',
          ''Inspect the referenced source before treating a candidate relation as a dependency.'']))]"

section \<open>The graph of imports\<close>

type_synonym import_key = "string \<times> string \<times> string"

record import_search =
  is_graph :: "import_key nav_graph"
  is_frontier :: "(string \<times> int) list"
  is_visited :: "string list"

definition file_node :: "code_file \<Rightarrow> pydict" where
  "file_node f = [(''id'', PStr (fl_path f)), (''kind'', PStr ''file''), (''path'', PStr (fl_path f)),
     (''language'', PStr (fl_language f))]"

definition file_at :: "code_file list \<Rightarrow> string \<Rightarrow> code_file option" where
  \<comment> \<open>\<open>by_path\<close>, in which the last of two files with one path counts\<close>
  "file_at files path = List.find (\<lambda>f. fl_path f = path) (rev files)"

definition import_edge :: "string \<Rightarrow> string \<Rightarrow> string \<Rightarrow> pydict" where
  "import_edge source target m =
     [(''from'', PStr source), (''to'', PStr target), (''kind'', PStr ''imports''), (''module'', PStr m)]"

definition enqueue_path :: "int \<Rightarrow> int \<Rightarrow> string \<Rightarrow> import_search \<Rightarrow> import_search" where
  "enqueue_path depth current path s =
     (if current + 1 < depth \<and> path \<notin> set (is_visited s)
      then s\<lparr>is_visited := is_visited s @ [path], is_frontier := is_frontier s @ [(path, current + 1)]\<rparr> else s)"

fun follow_imports ::
  "code_file list \<Rightarrow> int \<Rightarrow> string \<Rightarrow> int \<Rightarrow> string list \<Rightarrow> import_search \<Rightarrow> import_search" where
  "follow_imports files depth path current [] s = s"
| "follow_imports files depth path current (m # ms) s =
     (let target = resolve_import_path files path m;
          target_id = (case target of Some t \<Rightarrow> t | None \<Rightarrow> ''module:'' @ m);
          node = (case target of
                    Some t \<Rightarrow> (case file_at files t of Some f \<Rightarrow> file_node f | None \<Rightarrow> [])
                  | None \<Rightarrow> [(''id'', PStr target_id), (''kind'', PStr ''external_module''), (''name'', PStr m)]);
          (added, g) = add_both target_id node (path, target_id, ''imports'') (import_edge path target_id m) (is_graph s)
      in if \<not> added then s\<lparr>is_graph := g\<rparr>
         else follow_imports files depth path current ms
           (case target of None \<Rightarrow> s\<lparr>is_graph := g\<rparr> | Some t \<Rightarrow> enqueue_path depth current t (s\<lparr>is_graph := g\<rparr>)))"

fun follow_importer ::
  "code_file list \<Rightarrow> int \<Rightarrow> string \<Rightarrow> int \<Rightarrow> code_file \<Rightarrow> string list \<Rightarrow> import_search \<Rightarrow> import_search" where
  "follow_importer files depth path current c [] s = s"
| "follow_importer files depth path current c (m # ms) s =
     (if resolve_import_path files (fl_path c) m \<noteq> Some path then follow_importer files depth path current c ms s
      else let (added, g) = add_both (fl_path c) (file_node c) (fl_path c, path, ''imports'')
                 (import_edge (fl_path c) path m) (is_graph s)
           in if \<not> added then s\<lparr>is_graph := g\<rparr>
              else follow_importer files depth path current c ms (enqueue_path depth current (fl_path c) (s\<lparr>is_graph := g\<rparr>)))"

fun follow_importers ::
  "code_file list \<Rightarrow> int \<Rightarrow> string \<Rightarrow> int \<Rightarrow> code_file list \<Rightarrow> import_search \<Rightarrow> import_search" where
  "follow_importers files depth path current [] s = s"
| "follow_importers files depth path current (c # cs) s =
     (let s' = follow_importer files depth path current c (sort (fl_imports c)) s
      in if ng_truncated (is_graph s') then s' else follow_importers files depth path current cs s')"

definition visit_file :: "code_file list \<Rightarrow> string \<Rightarrow> int \<Rightarrow> string \<Rightarrow> int \<Rightarrow> import_search \<Rightarrow> import_search" where
  "visit_file files direction depth path current s =
     (let s1 = (if direction \<in> {''imports'', ''both''}
                then follow_imports files depth path current
                       (case file_at files path of Some f \<Rightarrow> sort (fl_imports f) | None \<Rightarrow> []) s
                else s)
      in if direction \<in> {''importers'', ''both''} \<and> \<not> ng_truncated (is_graph s1)
         then follow_importers files depth path current files s1 else s1)"

text \<open>The loop ends because a file enters the frontier only when it becomes visited.\<close>

definition open_work :: "code_file list \<Rightarrow> import_search \<Rightarrow> nat" where
  "open_work files s = length (is_frontier s) + card (fl_path ` set files - set (is_visited s))"

lemma find_in_list: "List.find P xs = Some x \<Longrightarrow> x \<in> set xs \<and> P x"
  by (induction xs) (auto split: if_splits)

lemma resolved_is_indexed: "resolve_import_path files source m = Some t \<Longrightarrow> t \<in> fl_path ` set files"
proof -
  have "first_resolved paths cs = Some t \<Longrightarrow> t \<in> set paths" for paths cs
    by (induction cs) (auto dest: find_in_list split: option.splits)
  then show "resolve_import_path files source m = Some t \<Longrightarrow> t \<in> fl_path ` set files"
    unfolding resolve_import_path_def by fastforce
qed

lemma open_work_graph [simp]: "open_work files (s\<lparr>is_graph := g\<rparr>) = open_work files s"
  by (simp add: open_work_def)

lemma open_work_enqueue: "t \<in> fl_path ` set files \<Longrightarrow> open_work files (enqueue_path depth d t s) = open_work files s"
proof (cases "d + 1 < depth \<and> t \<notin> set (is_visited s)")
  case True
  assume t: "t \<in> fl_path ` set files"
  let ?rest = "fl_path ` set files - set (is_visited s)"
  have "t \<in> ?rest" using t True by simp
  then have "card (?rest - {t}) = card ?rest - 1" "card ?rest > 0" by (auto simp: card_gt_0_iff)
  moreover have "fl_path ` set files - set (is_visited s @ [t]) = ?rest - {t}" by auto
  ultimately show ?thesis using True by (simp add: open_work_def enqueue_path_def)
qed (auto simp: enqueue_path_def)

lemma open_work_imports: "open_work files (follow_imports files depth p d ms s) = open_work files s"
  by (induction files depth p d ms s rule: follow_imports.induct)
     (auto simp: Let_def open_work_enqueue resolved_is_indexed split: prod.splits option.splits)

lemma open_work_importer: "c \<in> set files \<Longrightarrow> open_work files (follow_importer files depth p d c ms s) = open_work files s"
  by (induction files depth p d c ms s rule: follow_importer.induct)
     (auto simp: Let_def open_work_enqueue split: prod.splits)

lemma open_work_importers: "set cs \<subseteq> set files \<Longrightarrow> open_work files (follow_importers files depth p d cs s) = open_work files s"
  by (induction files depth p d cs s rule: follow_importers.induct) (auto simp: Let_def open_work_importer)

lemma open_work_visit: "open_work files (visit_file files direction depth p d s) = open_work files s"
  by (simp add: visit_file_def Let_def open_work_imports open_work_importers)

function import_loop :: "code_file list \<Rightarrow> string \<Rightarrow> int \<Rightarrow> import_search \<Rightarrow> import_search" where
  "import_loop files direction depth s =
     (case is_frontier s of
        [] \<Rightarrow> s
      | (path, current) # rest \<Rightarrow>
          if ng_truncated (is_graph s) then s
          else import_loop files direction depth (visit_file files direction depth path current (s\<lparr>is_frontier := rest\<rparr>)))"
  by pat_completeness auto
termination
  by (relation "measure (\<lambda>(files, direction, depth, s). open_work files s)")
     (auto simp: open_work_visit, simp add: open_work_def)

declare import_loop.simps [simp del]

definition import_search_from :: "code_file list \<Rightarrow> string \<Rightarrow> int \<Rightarrow> code_file \<Rightarrow> import_search" where
  "import_search_from files direction depth start =
     import_loop files direction depth
       \<lparr>is_graph = snd (add_node (fl_path start) (file_node start) empty_graph),
        is_frontier = [(fl_path start, 0)], is_visited = [fl_path start]\<rparr>"

definition graph_answer :: "pydict \<Rightarrow> ('k :: linorder) nav_graph \<Rightarrow> pydict" where
  \<comment> \<open>nodes and edges in the order of their keys\<close>
  "graph_answer header g = header @
     [(''nodes'', PList (map (PDict \<circ> snd) (sort_key fst (ng_nodes g)))),
      (''edges'', PList (map (PDict \<circ> snd) (sort_key fst (ng_edges g)))),
      (''truncated'', PBool (ng_truncated g))]"

definition build_import_graph :: "code_file list \<Rightarrow> string \<Rightarrow> string \<Rightarrow> int \<Rightarrow> pydict" where
  "build_import_graph files path direction depth =
     (let normalized = py_strip path;
          header = navigation_metadata ''imports'' @
            [(''path'', PStr normalized), (''direction'', PStr direction), (''depth'', PInt depth)]
      in case file_at files normalized of
           None \<Rightarrow> header @ [(''nodes'', PList []), (''edges'', PList []), (''error'', PStr ''indexed_file_not_found''),
                     (''truncated'', PBool False)]
         | Some f \<Rightarrow> graph_answer header (is_graph (import_search_from files direction depth f)))"

end
