(* ===== verification/CallGraph.thy ===== *)
theory CallGraph
  imports NavGraph
begin

text \<open>
  The second half of the navigation of \<open>backend/app/agent/tools.py\<close>: symbols, references and the graph of possible calls.
\<close>

section \<open>Symbols and references\<close>

definition chunk_order :: "code_chunk \<Rightarrow> string \<times> int option \<times> string" where
  "chunk_order c = (rc_path c, rc_start c, rc_id c)"

definition indexed_chunks :: "string \<Rightarrow> code_chunk list \<Rightarrow> code_chunk list" where
  "indexed_chunks repo_id rows =
     sort_key chunk_order (filter (\<lambda>c. rc_repo c = repo_id \<and> rc_symbol_name c \<noteq> None \<and> rc_content c \<noteq> None) rows)"

fun find_text :: "string \<Rightarrow> string \<Rightarrow> nat option" where
  \<comment> \<open>where \<open>re.search(re.escape(p), s)\<close> matches\<close>
  "find_text p [] = (if p = [] then Some 0 else None)"
| "find_text p (c # s) = (if starts_with p (c # s) then Some 0 else map_option Suc (find_text p s))"

definition optional_int :: "int option \<Rightarrow> pyval" where
  "optional_int n = (case n of None \<Rightarrow> PNone | Some i \<Rightarrow> PInt i)"

definition chunk_result :: "code_chunk \<Rightarrow> string \<Rightarrow> pydict" where
  "chunk_result c symbol =
     (let content = text_of (rc_content c);
          preview = (case find_text symbol content of
             Some n \<Rightarrow> take (min (length content) (n + length symbol + 1400) - (n - 600)) (drop (n - 600) content)
           | None \<Rightarrow> take 2000 content)
      in [(''chunk_id'', PStr (rc_id c)), (''file_path'', PStr (rc_path c)), (''symbol_name'', str_or_none (rc_symbol_name c)),
          (''symbol_type'', str_or_none (rc_symbol_type c)), (''start_line'', optional_int (rc_start c)),
          (''end_line'', optional_int (rc_end c)), (''content'', PStr preview)])"

definition find_symbol :: "code_chunk list \<Rightarrow> string \<Rightarrow> string \<Rightarrow> int \<Rightarrow> pydict list" where
  "find_symbol rows repo_id symbol limit =
     map (\<lambda>c. chunk_result c symbol)
       (sql_limit limit (sort_key (\<lambda>c. (rc_path c, rc_start c))
          (filter (\<lambda>c. rc_repo c = repo_id \<and> rc_symbol_name c = Some symbol) rows)))"

fun contains_ignoring_case :: "string \<Rightarrow> string \<Rightarrow> bool" where
  \<comment> \<open>\<open>ilike\<close> with the wildcards of the text escaped, so that they stand for themselves\<close>
  "contains_ignoring_case p [] \<longleftrightarrow> p = []"
| "contains_ignoring_case p (c # s) \<longleftrightarrow>
     starts_with (map lower_char p) (map lower_char (c # s)) \<or> contains_ignoring_case p s"

definition identifier_char :: "char option \<Rightarrow> bool" where
  \<comment> \<open>\<open>[\w$]\<close>\<close>
  "identifier_char c = (case c of None \<Rightarrow> False | Some d \<Rightarrow> re_word d \<or> d = CHR ''$'')"

definition first_char :: "string \<Rightarrow> char option" where
  "first_char s = (case s of [] \<Rightarrow> None | c # t \<Rightarrow> Some c)"

fun mentions :: "string \<Rightarrow> char option \<Rightarrow> string \<Rightarrow> bool" where
  \<comment> \<open>the search for the symbol with no identifier character on either side\<close>
  "mentions p before [] \<longleftrightarrow> p = [] \<and> \<not> identifier_char before"
| "mentions p before (c # s) \<longleftrightarrow>
     (starts_with p (c # s) \<and> \<not> identifier_char before \<and> \<not> identifier_char (first_char (drop (length p) (c # s)))) \<or>
     mentions p (Some c) s"

definition reference_candidates :: "code_chunk list \<Rightarrow> string \<Rightarrow> string \<Rightarrow> int \<Rightarrow> code_chunk list" where
  "reference_candidates rows repo_id symbol limit =
     sql_limit (limit * 4) (sort_key (\<lambda>c. (rc_path c, rc_start c))
       (filter (\<lambda>c. rc_repo c = repo_id \<and>
          (case rc_content c of None \<Rightarrow> False | Some t \<Rightarrow> contains_ignoring_case symbol t)) rows))"

definition find_references :: "code_chunk list \<Rightarrow> string \<Rightarrow> string \<Rightarrow> int \<Rightarrow> pydict list" where
  "find_references rows repo_id symbol limit =
     py_head limit (map (\<lambda>c. chunk_result c symbol)
       (filter (\<lambda>c. mentions symbol None (text_of (rc_content c))) (reference_candidates rows repo_id symbol limit)))"

section \<open>Calls\<close>

definition ident_length :: "string \<Rightarrow> nat" where
  \<comment> \<open>\<open>[A-Za-z_$][A-Za-z0-9_$]*\<close>, 0 for no match\<close>
  "ident_length s =
     (case s of [] \<Rightarrow> 0
      | c # t \<Rightarrow> if re_ident c \<and> \<not> re_digit c then Suc (length (takeWhile re_ident t)) else 0)"

definition call_match :: "char option \<Rightarrow> string \<Rightarrow> (nat \<times> nat) option" where
  \<comment> \<open>\<open>CALL_RE\<close> at one place: the length of the name and of the whole match\<close>
  "call_match before s =
     (let i = ident_length s
      in if identifier_char before \<or> i = 0 then None
         else let j = (case drop i s of [] \<Rightarrow> 0 | c # t \<Rightarrow> if c = CHR ''.'' then ident_length t else 0);
                  n = (if j = 0 then i else i + 1 + j);
                  spaces = length (takeWhile is_space (drop n s))
              in if first_char (drop (n + spaces) s) = Some (CHR ''('') then Some (n, n + spaces + 1) else None)"

lemma call_match_length: "call_match before s = Some (n, m) \<Longrightarrow> 0 < m"
  by (auto simp: call_match_def Let_def split: if_splits)

function call_scan :: "string \<Rightarrow> string \<Rightarrow> (string \<times> string) list" where
  \<comment> \<open>\<open>finditer\<close>: what precedes each match, and its name\<close>
  "call_scan before [] = []"
| "call_scan before (c # s) =
     (case call_match (if before = [] then None else Some (last before)) (c # s) of
        None \<Rightarrow> call_scan (before @ [c]) s
      | Some (n, m) \<Rightarrow> (before, take n (c # s)) # call_scan (before @ take m (c # s)) (drop m (c # s)))"
  by pat_completeness auto
termination
proof (relation "measure (\<lambda>(before, s). length s)", goal_cases)
  case (3 before c s p n m)
  then have "0 < m" using call_match_length by metis
  then show ?case by simp
qed auto

declare call_scan.simps [simp del]

definition CALL_KEYWORDS :: "string list" where
  "CALL_KEYWORDS = [''catch'', ''class'', ''def'', ''for'', ''function'', ''if'', ''switch'', ''while'']"

definition is_call :: "string \<Rightarrow> string \<Rightarrow> bool" where
  "is_call before call \<longleftrightarrow>
     (let prefix = py_strip (drop (length before - 12) before)
      in call \<notin> set CALL_KEYWORDS \<and> \<not> list_ex (\<lambda>w. ends_with w prefix) [''def'', ''function'', ''class''])"

definition called_symbols :: "string \<Rightarrow> string list" where
  "called_symbols content =
     foldl (\<lambda>calls (before, call). if is_call before call \<and> call \<notin> set calls then calls @ [call] else calls) []
       (call_scan [] content)"

definition calls_symbol :: "string \<Rightarrow> string \<Rightarrow> bool" where
  "calls_symbol content symbol \<longleftrightarrow>
     list_ex (\<lambda>call. call = symbol \<or> after_last_dot call = after_last_dot symbol) (called_symbols content)"

definition symbol_matches :: "string \<Rightarrow> string \<Rightarrow> bool" where
  "symbol_matches candidate symbol \<longleftrightarrow> candidate = symbol \<or> after_last_dot candidate = after_last_dot symbol"

section \<open>The graph of possible calls\<close>

type_synonym call_key = "string \<times> string"

type_synonym graph_node = "string \<times> pydict"

record call_search =
  cs_graph :: "call_key nav_graph"
  cs_visited :: "string list"
  cs_next :: "string list"

definition symbol_node :: "code_chunk \<Rightarrow> graph_node" where
  "symbol_node c =
     (let name = text_of (rc_symbol_name c);
          i = ''symbol:'' @ rc_path c @ '':'' @ (case rc_start c of None \<Rightarrow> ''None'' | Some n \<Rightarrow> str_int n) @ '':'' @ name
      in (i, [(''id'', PStr i), (''kind'', PStr ''symbol''), (''name'', PStr name), (''path'', PStr (rc_path c)),
              (''start_line'', optional_int (rc_start c)), (''end_line'', optional_int (rc_end c))]))"

definition unresolved_node :: "string \<Rightarrow> graph_node" where
  "unresolved_node symbol =
     (let i = ''unresolved_symbol:'' @ symbol
      in (i, [(''id'', PStr i), (''kind'', PStr ''unresolved_symbol''), (''name'', PStr symbol)]))"

definition call_edge :: "string \<Rightarrow> string \<Rightarrow> pydict" where
  "call_edge source target = [(''from'', PStr source), (''to'', PStr target), (''kind'', PStr ''possible_call''),
     (''resolution'', PStr ''unresolved''), (''match_method'', PStr ''identifier_pattern'')]"

definition defining_chunks :: "code_chunk list \<Rightarrow> string \<Rightarrow> code_chunk list" where
  "defining_chunks chunks symbol =
     filter (\<lambda>c. text_of (rc_symbol_name c) \<noteq> [] \<and> symbol_matches (text_of (rc_symbol_name c)) symbol) chunks"

definition target_nodes :: "code_chunk list \<Rightarrow> string \<Rightarrow> graph_node list" where
  "target_nodes chunks symbol =
     (let definitions = defining_chunks chunks symbol
      in if definitions = [] then [unresolved_node symbol] else map symbol_node definitions)"

fun add_edges_to :: "string \<Rightarrow> graph_node list \<Rightarrow> call_key nav_graph \<Rightarrow> call_key nav_graph" where
  "add_edges_to source [] g = g"
| "add_edges_to source (t # ts) g =
     (let (added, g') = add_edge (source, fst t) (call_edge source (fst t)) g
      in if \<not> added then g' else add_edges_to source ts g')"

definition expand_symbol :: "int \<Rightarrow> int \<Rightarrow> string \<Rightarrow> call_search \<Rightarrow> call_search" where
  "expand_symbol depth current name s =
     (if name \<noteq> [] \<and> current + 1 < depth then s\<lparr>cs_next := cs_next s @ [name]\<rparr> else s)"

fun follow_callers ::
  "int \<Rightarrow> int \<Rightarrow> string \<Rightarrow> graph_node list \<Rightarrow> code_chunk list \<Rightarrow> call_search \<Rightarrow> call_search" where
  "follow_callers depth current symbol targets [] s = s"
| "follow_callers depth current symbol targets (c # cs) s =
     (if \<not> calls_symbol (text_of (rc_content c)) symbol then follow_callers depth current symbol targets cs s
      else let (source, node) = symbol_node c; (added, g) = add_node source node (cs_graph s)
           in if \<not> added then s\<lparr>cs_graph := g\<rparr>
              else follow_callers depth current symbol targets cs
                     (expand_symbol depth current (text_of (rc_symbol_name c)) (s\<lparr>cs_graph := add_edges_to source targets g\<rparr>)))"

fun add_callees :: "string \<Rightarrow> graph_node list \<Rightarrow> call_key nav_graph \<Rightarrow> call_key nav_graph" where
  "add_callees source [] g = g"
| "add_callees source (t # ts) g =
     (let (added, g') = add_both (fst t) (snd t) (source, fst t) (call_edge source (fst t)) g
      in if \<not> added then g' else add_callees source ts g')"

fun follow_calls :: "code_chunk list \<Rightarrow> int \<Rightarrow> int \<Rightarrow> string \<Rightarrow> string list \<Rightarrow> call_search \<Rightarrow> call_search" where
  "follow_calls chunks depth current source [] s = s"
| "follow_calls chunks depth current source (callee # callees) s =
     follow_calls chunks depth current source callees
       (let s' = s\<lparr>cs_graph := add_callees source (target_nodes chunks callee) (cs_graph s)\<rparr>
        in if current + 1 < depth then s'\<lparr>cs_next := cs_next s' @ [callee]\<rparr> else s')"

fun follow_callees :: "code_chunk list \<Rightarrow> int \<Rightarrow> int \<Rightarrow> code_chunk list \<Rightarrow> call_search \<Rightarrow> call_search" where
  "follow_callees chunks depth current [] s = s"
| "follow_callees chunks depth current (d # ds) s =
     (let (source, node) = symbol_node d; (added, g) = add_node source node (cs_graph s)
      in if \<not> added then s\<lparr>cs_graph := g\<rparr>
         else follow_callees chunks depth current ds
                (follow_calls chunks depth current source (called_symbols (text_of (rc_content d))) (s\<lparr>cs_graph := g\<rparr>)))"

definition visit_symbol :: "code_chunk list \<Rightarrow> string \<Rightarrow> int \<Rightarrow> int \<Rightarrow> string \<Rightarrow> call_search \<Rightarrow> call_search" where
  "visit_symbol chunks direction depth current symbol s =
     (if py_lower symbol \<in> set (cs_visited s) \<or> ng_truncated (cs_graph s) then s
      else let targets = target_nodes chunks symbol;
               s1 = s\<lparr>cs_visited := cs_visited s @ [py_lower symbol],
                      cs_graph := foldl (\<lambda>g t. snd (add_node (fst t) (snd t) g)) (cs_graph s) targets\<rparr>;
               s2 = (if direction \<in> {''callers'', ''both''} then follow_callers depth current symbol targets chunks s1 else s1)
           in if direction \<in> {''callees'', ''both''} \<and> \<not> ng_truncated (cs_graph s2)
              then follow_callees chunks depth current (defining_chunks chunks symbol) s2 else s2)"

fun call_rounds :: "code_chunk list \<Rightarrow> string \<Rightarrow> int \<Rightarrow> nat \<Rightarrow> string list \<Rightarrow> call_search \<Rightarrow> call_search" where
  \<comment> \<open>the rounds that are left\<close>
  "call_rounds chunks direction depth 0 frontier s = s"
| "call_rounds chunks direction depth (Suc n) frontier s =
     (let current = depth - int (Suc n);
          s' = foldl (\<lambda>s symbol. visit_symbol chunks direction depth current symbol s) (s\<lparr>cs_next := []\<rparr>) frontier;
          frontier' = sort (remdups (cs_next s'))
      in if frontier' = [] \<or> ng_truncated (cs_graph s') then s'
         else call_rounds chunks direction depth n frontier' s')"

definition call_search_from :: "code_chunk list \<Rightarrow> string \<Rightarrow> string \<Rightarrow> int \<Rightarrow> call_search" where
  "call_search_from chunks symbol direction depth =
     call_rounds chunks direction depth (nat depth) [symbol] \<lparr>cs_graph = empty_graph, cs_visited = [], cs_next = []\<rparr>"

definition build_call_graph :: "code_chunk list \<Rightarrow> string \<Rightarrow> string \<Rightarrow> int \<Rightarrow> pydict" where
  "build_call_graph chunks symbol direction depth =
     graph_answer (navigation_metadata ''call_candidates'' @
         [(''symbol'', PStr symbol), (''direction'', PStr direction), (''depth'', PInt depth)])
       (cs_graph (call_search_from chunks symbol direction depth))"

end
