(* ===== verification/NavTheorems.thy ===== *)
theory NavTheorems
  imports CallGraph
begin

text \<open>
  The graph of imports is, when it is not cut off, exactly the neighbourhood of a file, and the bounds hold in any case.
\<close>

section \<open>What a file links to\<close>

definition imports_of :: "code_file list \<Rightarrow> string \<Rightarrow> string set" where
  "imports_of files p = (\<Union>f \<in> {f \<in> set files. fl_path f = p}. set (fl_imports f))"

definition imports_file :: "code_file list \<Rightarrow> string \<Rightarrow> string \<Rightarrow> bool" where
  "imports_file files p q \<longleftrightarrow> (\<exists>m \<in> imports_of files p. resolve_import_path files p m = Some q)"

definition external_modules :: "code_file list \<Rightarrow> string \<Rightarrow> string set" where
  "external_modules files p = {''module:'' @ m | m. m \<in> imports_of files p \<and> resolve_import_path files p m = None}"

definition forward :: "string \<Rightarrow> bool" where
  "forward direction \<longleftrightarrow> direction \<in> {''imports'', ''both''}"

definition backward :: "string \<Rightarrow> bool" where
  "backward direction \<longleftrightarrow> direction \<in> {''importers'', ''both''}"

definition links :: "code_file list \<Rightarrow> string \<Rightarrow> string \<Rightarrow> string set" where
  "links files direction p =
     (if forward direction then {q. imports_file files p q} else {}) \<union>
     (if backward direction then {q. imports_file files q p} else {})"

definition linked_nodes :: "code_file list \<Rightarrow> string \<Rightarrow> string \<Rightarrow> string set" where
  "linked_nodes files direction p =
     links files direction p \<union> (if forward direction then external_modules files p else {})"

definition linked_edges :: "code_file list \<Rightarrow> string \<Rightarrow> string \<Rightarrow> import_key set" where
  "linked_edges files direction p =
     (if forward direction then {(p, q, ''imports'') | q. imports_file files p q \<or> q \<in> external_modules files p} else {}) \<union>
     (if backward direction then {(q, p, ''imports'') | q. imports_file files q p} else {})"

primrec neighbours :: "('a \<Rightarrow> 'a set) \<Rightarrow> nat \<Rightarrow> 'a \<Rightarrow> 'a set" where
  "neighbours succ 0 p = {p}"
| "neighbours succ (Suc n) p = neighbours succ n p \<union> \<Union> (succ ` neighbours succ n p)"

lemma neighbours_closed: "\<Union> (succ ` neighbours succ k p) \<subseteq> neighbours succ k p \<Longrightarrow> k \<le> n \<Longrightarrow> neighbours succ n p = neighbours succ k p"
proof (induction n)
  case (Suc n)
  show ?case
  proof (cases "k = Suc n")
    case False
    then have "neighbours succ n p = neighbours succ k p" using Suc by simp
    then show ?thesis using Suc.prems(1) by auto
  qed simp
qed simp

section \<open>Adding to a graph\<close>

definition node_ids :: "'k nav_graph \<Rightarrow> string set" where
  "node_ids g = fst ` set (ng_nodes g)"

definition edge_keys :: "'k nav_graph \<Rightarrow> 'k set" where
  "edge_keys g = fst ` set (ng_edges g)"

lemma add_node_truncated: "add_node i n g = (b, g') \<Longrightarrow> ng_truncated g \<Longrightarrow> ng_truncated g'"
  by (auto simp: add_node_def split: if_splits)

lemma add_both_truncated: "add_both i n k e g = (b, g') \<Longrightarrow> ng_truncated g \<Longrightarrow> ng_truncated g'"
  by (auto simp: add_both_def add_node_def add_edge_def split: if_splits)

lemma add_both_cases:
  assumes "add_both i n k e g = (b, g')"
  shows "b \<Longrightarrow> node_ids g' = insert i (node_ids g) \<and> edge_keys g' = insert k (edge_keys g) \<and> ng_truncated g' = ng_truncated g"
    "\<not> b \<Longrightarrow> ng_truncated g' \<and> node_ids g \<subseteq> node_ids g' \<and> node_ids g' \<subseteq> insert i (node_ids g) \<and> edge_keys g' = edge_keys g"
  using assms by (auto simp: add_both_def add_node_def add_edge_def node_ids_def edge_keys_def split: if_splits)

section \<open>One file\<close>

definition extends :: "import_search \<Rightarrow> int \<Rightarrow> int \<Rightarrow> string set \<Rightarrow> string set \<Rightarrow> import_key set \<Rightarrow> import_search \<Rightarrow> bool" where
  \<comment> \<open>a step at a depth that was not cut off: the files it reached, the nodes and the edges\<close>
  "extends s depth d reached nodes edges s' \<longleftrightarrow>
     \<not> ng_truncated (is_graph s) \<and>
     node_ids (is_graph s') = node_ids (is_graph s) \<union> nodes \<and> edge_keys (is_graph s') = edge_keys (is_graph s) \<union> edges \<and>
     (\<exists>new. is_frontier s' = is_frontier s @ map (\<lambda>q. (q, d + 1)) new \<and> is_visited s' = is_visited s @ new \<and> distinct new \<and>
        set new = (if d + 1 < depth then reached - set (is_visited s) else {}))"

lemma extends_refl: "\<not> ng_truncated (is_graph s) \<Longrightarrow> extends s depth d {} {} {} s"
  by (simp add: extends_def)

lemma extends_eq:
  "extends s depth d r n e s' \<Longrightarrow> r = r' \<Longrightarrow> n = n' \<Longrightarrow> e = e' \<Longrightarrow> extends s depth d r' n' e' s'"
  by simp

lemma extends_trans:
  assumes "extends s depth d r1 n1 e1 t" "extends t depth d r2 n2 e2 u"
  shows "extends s depth d (r1 \<union> r2) (n1 \<union> n2) (e1 \<union> e2) u"
proof -
  obtain x y where x: "is_frontier t = is_frontier s @ map (\<lambda>q. (q, d + 1)) x" "is_visited t = is_visited s @ x" "distinct x"
      "set x = (if d + 1 < depth then r1 - set (is_visited s) else {})"
    and y: "is_frontier u = is_frontier t @ map (\<lambda>q. (q, d + 1)) y" "is_visited u = is_visited t @ y" "distinct y"
      "set y = (if d + 1 < depth then r2 - set (is_visited t) else {})"
    using assms unfolding extends_def by blast
  have "distinct (x @ y)" using x(2,3) y(3,4) by auto
  moreover have "set (x @ y) = (if d + 1 < depth then r1 \<union> r2 - set (is_visited s) else {})" using x(2,4) y(4) by auto
  ultimately show ?thesis
    using assms x(1,2) y(1,2) unfolding extends_def by (auto intro!: exI [of _ "x @ y"])
qed

lemma extends_file:
  assumes "add_both t n k e (is_graph s) = (True, g)" "\<not> ng_truncated g"
  shows "extends s depth d {t} {t} {k} (enqueue_path depth d t (s\<lparr>is_graph := g\<rparr>))"
  using add_both_cases(1) [OF assms(1)] assms(2)
  by (auto simp: extends_def enqueue_path_def intro!: exI [of _ "if d + 1 < depth \<and> t \<notin> set (is_visited s) then [t] else []"])

lemma extends_module:
  assumes "add_both t n k e (is_graph s) = (True, g)" "\<not> ng_truncated g"
  shows "extends s depth d {} {t} {k} (s\<lparr>is_graph := g\<rparr>)"
  using add_both_cases(1) [OF assms(1)] assms(2) by (auto simp: extends_def)

lemma follow_imports_extends:
  assumes "\<not> ng_truncated (is_graph (follow_imports files depth p d ms s))"
  shows "extends s depth d {q. \<exists>m \<in> set ms. resolve_import_path files p m = Some q}
    ({q. \<exists>m \<in> set ms. resolve_import_path files p m = Some q} \<union> {''module:'' @ m | m. m \<in> set ms \<and> resolve_import_path files p m = None})
    ({(p, q, ''imports'') | q. \<exists>m \<in> set ms. resolve_import_path files p m = Some q} \<union>
     {(p, ''module:'' @ m, ''imports'') | m. m \<in> set ms \<and> resolve_import_path files p m = None})
    (follow_imports files depth p d ms s)"
  using assms
proof (induction ms arbitrary: s)
  case Nil
  then show ?case using extends_refl by simp
next
  case (Cons m ms)
  show ?case
  proof (cases "resolve_import_path files p m")
    case None
    obtain b g where add: "add_both (''module:'' @ m) [(''id'', PStr (''module:'' @ m)), (''kind'', PStr ''external_module''), (''name'', PStr m)]
        (p, ''module:'' @ m, ''imports'') (import_edge p (''module:'' @ m) m) (is_graph s) = (b, g)" by fastforce
    then have b: "b" using Cons.prems None add_both_cases(2) [OF add] by (cases b) auto
    define s1 where "s1 = s\<lparr>is_graph := g\<rparr>"
    have step: "follow_imports files depth p d (m # ms) s = follow_imports files depth p d ms s1"
      using add b None by (simp add: s1_def)
    note rest = Cons.IH [of s1, folded step, OF Cons.prems]
    then have "\<not> ng_truncated g" by (simp add: extends_def s1_def)
    then have "extends s depth d {} {''module:'' @ m} {(p, ''module:'' @ m, ''imports'')} s1"
      unfolding s1_def using add b by (intro extends_module) auto
    from extends_trans [OF this rest] show ?thesis unfolding step by (rule extends_eq) (use None in auto)
  next
    case (Some t)
    define node where "node = (case file_at files t of Some f \<Rightarrow> file_node f | None \<Rightarrow> [])"
    obtain b g where add: "add_both t node (p, t, ''imports'') (import_edge p t m) (is_graph s) = (b, g)" by fastforce
    then have b: "b" using Cons.prems Some add_both_cases(2) [OF add] by (cases b) (auto simp: node_def)
    define s1 where "s1 = enqueue_path depth d t (s\<lparr>is_graph := g\<rparr>)"
    have step: "follow_imports files depth p d (m # ms) s = follow_imports files depth p d ms s1"
      using add b Some by (simp add: s1_def node_def)
    note rest = Cons.IH [of s1, folded step, OF Cons.prems]
    then have "\<not> ng_truncated g" by (simp add: extends_def s1_def enqueue_path_def split: if_splits)
    then have "extends s depth d {t} {t} {(p, t, ''imports'')} s1"
      unfolding s1_def using add b by (intro extends_file) auto
    from extends_trans [OF this rest] show ?thesis by (rule extends_eq) (use Some in auto)
  qed
qed

lemma follow_importer_extends:
  assumes "\<not> ng_truncated (is_graph (follow_importer files depth p d c ms s))"
  shows "extends s depth d {q. q = fl_path c \<and> (\<exists>m \<in> set ms. resolve_import_path files q m = Some p)}
    {q. q = fl_path c \<and> (\<exists>m \<in> set ms. resolve_import_path files q m = Some p)}
    {(q, p, ''imports'') | q. q = fl_path c \<and> (\<exists>m \<in> set ms. resolve_import_path files q m = Some p)}
    (follow_importer files depth p d c ms s)"
  using assms
proof (induction ms arbitrary: s)
  case Nil
  then show ?case using extends_refl by simp
next
  case (Cons m ms)
  show ?case
  proof (cases "resolve_import_path files (fl_path c) m = Some p")
    case False
    then have step: "follow_importer files depth p d c (m # ms) s = follow_importer files depth p d c ms s" by simp
    show ?thesis unfolding step using Cons.IH [of s] Cons.prems(1) False unfolding step by (auto elim!: extends_eq)
  next
    case True
    obtain b g where add: "add_both (fl_path c) (file_node c) (fl_path c, p, ''imports'') (import_edge (fl_path c) p m) (is_graph s) = (b, g)"
      by fastforce
    then have b: "b" using Cons.prems True add_both_cases(2) [OF add] by (cases b) auto
    define s1 where "s1 = enqueue_path depth d (fl_path c) (s\<lparr>is_graph := g\<rparr>)"
    have step: "follow_importer files depth p d c (m # ms) s = follow_importer files depth p d c ms s1"
      using add b True by (simp add: s1_def)
    note rest = Cons.IH [of s1, folded step, OF Cons.prems]
    then have "\<not> ng_truncated g" by (simp add: extends_def s1_def enqueue_path_def split: if_splits)
    then have "extends s depth d {fl_path c} {fl_path c} {(fl_path c, p, ''imports'')} s1"
      unfolding s1_def using add b by (intro extends_file) auto
    from extends_trans [OF this rest] show ?thesis by (rule extends_eq) (use True in auto)
  qed
qed

definition importers_among :: "code_file list \<Rightarrow> code_file list \<Rightarrow> string \<Rightarrow> string set" where
  "importers_among files cs p = {fl_path c | c. c \<in> set cs \<and> (\<exists>m \<in> set (fl_imports c). resolve_import_path files (fl_path c) m = Some p)}"

lemma follow_importers_extends:
  assumes "\<not> ng_truncated (is_graph (follow_importers files depth p d cs s))"
  shows "extends s depth d (importers_among files cs p) (importers_among files cs p)
    {(q, p, ''imports'') | q. q \<in> importers_among files cs p} (follow_importers files depth p d cs s)"
  using assms
proof (induction cs arbitrary: s)
  case Nil
  then show ?case using extends_refl by (simp add: importers_among_def)
next
  case (Cons c cs)
  define s1 where "s1 = follow_importer files depth p d c (sort (fl_imports c)) s"
  have open1: "\<not> ng_truncated (is_graph s1)" using Cons.prems by (auto simp: s1_def Let_def split: if_splits)
  then have step: "follow_importers files depth p d (c # cs) s = follow_importers files depth p d cs s1"
    by (simp add: s1_def Let_def)
  note rest = Cons.IH [of s1, folded step, OF Cons.prems]
  from extends_trans [OF follow_importer_extends [OF open1 [unfolded s1_def], folded s1_def] rest]
  show ?case by (rule extends_eq) (auto simp: importers_among_def)
qed

lemma importers_all: "importers_among files files p = {q. imports_file files q p}"
  by (auto simp: importers_among_def imports_file_def imports_of_def)

lemma visit_file_extends:
  assumes "distinct (map fl_path files)" "p \<in> fl_path ` set files" "\<not> ng_truncated (is_graph (visit_file files direction depth p d s))"
  shows "extends s depth d (links files direction p) (linked_nodes files direction p) (linked_edges files direction p)
    (visit_file files direction depth p d s)"
proof -
  obtain f where f: "f \<in> set files" "fl_path f = p" using assms(2) by auto
  have unique: "g = f" if "g \<in> set files" "fl_path g = p" for g
    using assms(1) f that by (auto simp: distinct_map inj_on_def)
  have at: "file_at files p = Some f"
  proof -
    have "\<exists>g. List.find (\<lambda>f. fl_path f = p) xs = Some g" if "f \<in> set xs" for xs
      using that f(2) by (induction xs) auto
    from this [of "rev files"] obtain g where "file_at files p = Some g" using f(1) unfolding file_at_def by auto
    then show ?thesis using find_in_list unique by (fastforce simp: file_at_def)
  qed
  have own: "imports_of files p = set (fl_imports f)" 
  proof -
    have "{g \<in> set files. fl_path g = p} = {f}" using f unique by blast
    then show ?thesis by (simp add: imports_of_def)
  qed
  define s1 where "s1 = (if forward direction then follow_imports files depth p d (sort (fl_imports f)) s else s)"
  have visit: "visit_file files direction depth p d s =
      (if backward direction \<and> \<not> ng_truncated (is_graph s1) then follow_importers files depth p d files s1 else s1)"
    by (simp add: visit_file_def forward_def backward_def s1_def at)
  have open1: "\<not> ng_truncated (is_graph s1)" using assms(3) unfolding visit by (auto split: if_splits)
  have first: "extends s depth d (if forward direction then {q. imports_file files p q} else {})
      (if forward direction then {q. imports_file files p q} \<union> external_modules files p else {})
      (if forward direction then {(p, q, ''imports'') | q. imports_file files p q \<or> q \<in> external_modules files p} else {}) s1"
  proof (cases "forward direction")
    case True
    then have s1: "s1 = follow_imports files depth p d (sort (fl_imports f)) s" by (simp add: s1_def)
    show ?thesis
      unfolding s1 by (rule extends_eq [OF follow_imports_extends [OF open1 [unfolded s1]]])
        (use True in \<open>auto simp: imports_file_def external_modules_def own\<close>)
  qed (use open1 extends_refl in \<open>simp add: s1_def\<close>)
  show ?thesis
  proof (cases "backward direction")
    case True
    then have visit': "visit_file files direction depth p d s = follow_importers files depth p d files s1" using open1 visit by simp
    from follow_importers_extends [OF assms(3) [unfolded visit'], unfolded importers_all]
    show ?thesis unfolding visit'
      by (rule extends_eq [OF extends_trans [OF first]])
        (use True in \<open>auto simp: links_def linked_nodes_def linked_edges_def\<close>)
  next
    case False
    then have "visit_file files direction depth p d s = s1" using visit by simp
    then show ?thesis using extends_eq [OF first] False by (auto simp: links_def linked_nodes_def linked_edges_def)
  qed
qed

section \<open>The search by levels\<close>

text \<open>
  At the head of the loop the frontier holds what is left of one level and what was found of the next; everything else of
  the levels so far is expanded.
\<close>

definition level_inv :: "code_file list \<Rightarrow> string \<Rightarrow> int \<Rightarrow> string \<Rightarrow> nat \<Rightarrow> string list \<Rightarrow> string list \<Rightarrow> import_search \<Rightarrow> bool" where
  "level_inv files direction depth start k xs ys s \<longleftrightarrow>
     (let level = neighbours (links files direction) k start; expanded = level - set xs
      in is_frontier s = map (\<lambda>p. (p, int k)) xs @ map (\<lambda>p. (p, int k + 1)) ys \<and>
         set (is_visited s) = level \<union> set ys \<and> set xs \<subseteq> level \<and> set ys \<inter> level = {} \<and> distinct xs \<and> distinct ys \<and>
         level \<union> set ys \<subseteq> fl_path ` set files \<and> set ys \<subseteq> neighbours (links files direction) (Suc k) start \<and>
         (k = 0 \<or> int k < depth) \<and> (ys \<noteq> [] \<longrightarrow> int k + 1 < depth) \<and>
         (int k + 1 < depth \<longrightarrow> (\<forall>p \<in> expanded. links files direction p \<subseteq> level \<union> set ys)) \<and>
         node_ids (is_graph s) = insert start (\<Union> (linked_nodes files direction ` expanded)) \<and>
         edge_keys (is_graph s) = \<Union> (linked_edges files direction ` expanded))"

lemma links_indexed: "links files direction p \<subseteq> fl_path ` set files"
  by (auto simp: links_def imports_file_def imports_of_def dest: resolved_is_indexed)

lemma level_step:
  assumes "level_inv files direction depth start k (x # xs) ys s" "distinct (map fl_path files)"
    "\<not> ng_truncated (is_graph (visit_file files direction depth x (int k) (s\<lparr>is_frontier := map (\<lambda>p. (p, int k)) xs @ map (\<lambda>p. (p, int k + 1)) ys\<rparr>)))"
  shows "\<exists>ys'. level_inv files direction depth start k xs ys'
    (visit_file files direction depth x (int k) (s\<lparr>is_frontier := map (\<lambda>p. (p, int k)) xs @ map (\<lambda>p. (p, int k + 1)) ys\<rparr>))"
proof -
  let ?s = "s\<lparr>is_frontier := map (\<lambda>p. (p, int k)) xs @ map (\<lambda>p. (p, int k + 1)) ys\<rparr>"
  let ?v = "visit_file files direction depth x (int k) ?s"
  let ?level = "neighbours (links files direction) k start"
  note inv = assms(1) [unfolded level_inv_def Let_def]
  have x: "x \<in> ?level" "x \<notin> set xs" "x \<in> fl_path ` set files" using inv by auto
  have expanded: "?level - set xs = insert x (?level - set (x # xs))" using x by auto
  have ext: "extends ?s depth (int k) (links files direction x) (linked_nodes files direction x) (linked_edges files direction x) ?v"
    by (rule visit_file_extends [OF assms(2) x(3) assms(3)])
  then obtain new where new: "is_frontier ?v = is_frontier ?s @ map (\<lambda>q. (q, int k + 1)) new" "is_visited ?v = is_visited s @ new"
      "distinct new" "set new = (if int k + 1 < depth then links files direction x - set (is_visited s) else {})"
    unfolding extends_def by auto
  have nodes: "node_ids (is_graph ?v) = node_ids (is_graph s) \<union> linked_nodes files direction x"
    "edge_keys (is_graph ?v) = edge_keys (is_graph s) \<union> linked_edges files direction x"
    using ext by (simp_all add: extends_def)
  have "set new \<subseteq> neighbours (links files direction) (Suc k) start" using new(4) x(1) by auto
  moreover have "set new \<subseteq> fl_path ` set files" using new(4) links_indexed [of files direction x] by (auto split: if_splits)
  moreover have "set new \<inter> (?level \<union> set ys) = {}" using new(4) inv by auto
  moreover have "new \<noteq> [] \<Longrightarrow> int k + 1 < depth" using new(4) by (auto split: if_splits)
  moreover have "int k + 1 < depth \<Longrightarrow> links files direction x \<subseteq> ?level \<union> set (ys @ new)" using new(4) inv by auto
  ultimately have "level_inv files direction depth start k xs (ys @ new) ?v"
    unfolding level_inv_def Let_def expanded using inv new(1-3) nodes by auto
  then show ?thesis by blast
qed

lemma level_next:
  assumes "level_inv files direction depth start k [] (y # ys) s"
  shows "level_inv files direction depth start (Suc k) (y # ys) [] s"
proof -
  note inv = assms [unfolded level_inv_def Let_def]
  have "neighbours (links files direction) (Suc k) start = neighbours (links files direction) k start \<union> set (y # ys)"
    using inv by auto
  moreover have "neighbours (links files direction) (Suc k) start - set (y # ys) = neighbours (links files direction) k start"
    using inv calculation by auto
  ultimately show ?thesis
    unfolding level_inv_def Let_def using inv by (auto simp del: neighbours.simps)
qed

lemma level_end:
  assumes "level_inv files direction depth start k [] [] s"
  shows "neighbours (links files direction) (nat (max 1 depth) - 1) start = neighbours (links files direction) k start"
proof (cases "int k + 1 < depth")
  case True
  then show ?thesis using assms by (intro neighbours_closed) (auto simp: level_inv_def Let_def)
next
  case False
  then have "nat (max 1 depth) - 1 = k" using assms by (auto simp: level_inv_def Let_def)
  then show ?thesis by simp
qed

lemma visit_truncated: "ng_truncated (is_graph s) \<Longrightarrow> ng_truncated (is_graph (visit_file files direction depth p d s))"
proof -
  have queued: "ng_truncated (is_graph (enqueue_path depth d t s))" if "ng_truncated (is_graph s)" for t s
    using that by (simp add: enqueue_path_def)
  have 1: "ng_truncated (is_graph s) \<Longrightarrow> ng_truncated (is_graph (follow_imports files depth p d ms s))" for ms s
  proof (induction ms arbitrary: s)
    case (Cons m ms)
    show ?case
      using Cons.prems by (auto simp: Let_def intro!: Cons.IH queued dest: add_both_truncated split: prod.splits option.splits)
  qed simp
  have 2: "ng_truncated (is_graph s) \<Longrightarrow> ng_truncated (is_graph (follow_importers files depth p d cs s))" for cs s
  proof (induction cs arbitrary: s)
    case (Cons c cs)
    have "ng_truncated (is_graph s) \<Longrightarrow> ng_truncated (is_graph (follow_importer files depth p d c ms s))" for ms s
    proof (induction ms arbitrary: s)
      case (Cons m ms)
      show ?case
        using Cons.prems by (auto simp: Let_def intro!: Cons.IH queued dest: add_both_truncated split: prod.splits)
    qed simp
    then show ?case using Cons by (simp add: Let_def)
  qed simp
  show "ng_truncated (is_graph s) \<Longrightarrow> ?thesis" by (auto simp: visit_file_def Let_def 1 2)
qed

lemma loop_truncated: "ng_truncated (is_graph s) \<Longrightarrow> ng_truncated (is_graph (import_loop files direction depth s))"
  by (subst import_loop.simps) (auto split: list.splits)

lemma loop_levels:
  assumes "level_inv files direction depth start k xs ys s" "distinct (map fl_path files)"
    "\<not> ng_truncated (is_graph (import_loop files direction depth s))"
  shows "\<exists>k. level_inv files direction depth start k [] [] (import_loop files direction depth s)"
  using assms
proof (induction files direction depth s arbitrary: k xs ys rule: import_loop.induct)
  case (1 files direction depth s)
  have visit: "\<exists>k. level_inv files direction depth start k [] [] (import_loop files direction depth s)"
    if inv: "level_inv files direction depth start j (z # zs) ws s" for j z zs ws
  proof -
    let ?s = "s\<lparr>is_frontier := map (\<lambda>p. (p, int j)) zs @ map (\<lambda>p. (p, int j + 1)) ws\<rparr>"
    have frontier: "is_frontier s = (z, int j) # map (\<lambda>p. (p, int j)) zs @ map (\<lambda>p. (p, int j + 1)) ws"
      using inv by (simp add: level_inv_def Let_def)
    have untruncated: "\<not> ng_truncated (is_graph s)" using "1.prems"(3) loop_truncated by blast
    have loop: "import_loop files direction depth s = import_loop files direction depth (visit_file files direction depth z (int j) ?s)"
      using untruncated by (subst import_loop.simps) (simp add: frontier)
    have "\<not> ng_truncated (is_graph (visit_file files direction depth z (int j) ?s))"
      using "1.prems"(3) loop_truncated unfolding loop by blast
    then obtain ws' where "level_inv files direction depth start j zs ws' (visit_file files direction depth z (int j) ?s)"
      using level_step [OF inv "1.prems"(2)] by blast
    from "1.IH" [OF frontier _ untruncated this "1.prems"(2)] show ?thesis using "1.prems"(3) unfolding loop by simp
  qed
  consider "xs \<noteq> []" | "xs = []" "ys \<noteq> []" | "xs = []" "ys = []" by blast
  then show ?case
  proof cases
    case 1
    then show ?thesis using visit "1.prems"(1) by (cases xs) auto
  next
    case 2
    then obtain y ys' where "ys = y # ys'" by (cases ys) auto
    then show ?thesis using visit [OF level_next] "1.prems"(1) 2 by auto
  next
    case 3
    then have "import_loop files direction depth s = s"
      using "1.prems"(1) by (subst import_loop.simps) (simp add: level_inv_def Let_def)
    then show ?thesis using 3 "1.prems"(1) by auto
  qed
qed

section \<open>Bounds\<close>

definition small :: "'k nav_graph \<Rightarrow> bool" where
  "small g \<longleftrightarrow> length (ng_nodes g) \<le> GRAPH_MAX_NODES \<and> length (ng_edges g) \<le> GRAPH_MAX_EDGES"

lemma small_added:
  "small g \<Longrightarrow> small (snd (add_node i n g))" "small g \<Longrightarrow> small (snd (add_edge k e g))" "small g \<Longrightarrow> small (snd (add_both i n k e g))"
  by (auto simp: small_def add_both_def add_node_def add_edge_def split: prod.splits bool.splits)

definition real_edge :: "code_file list \<Rightarrow> string set \<Rightarrow> import_key \<Rightarrow> bool" where
  \<comment> \<open>an import of an indexed file, between nodes of the graph\<close>
  "real_edge files ids k \<longleftrightarrow> (\<exists>p q. k = (p, q, ''imports'') \<and> p \<in> ids \<and> q \<in> ids \<and>
     (imports_file files p q \<or> q \<in> external_modules files p))"

definition search_ok :: "code_file list \<Rightarrow> import_search \<Rightarrow> bool" where
  "search_ok files s \<longleftrightarrow> small (is_graph s) \<and> (\<forall>k \<in> edge_keys (is_graph s). real_edge files (node_ids (is_graph s)) k) \<and>
     fst ` set (is_frontier s) \<subseteq> node_ids (is_graph s)"

lemma real_edge_mono: "real_edge files ids k \<Longrightarrow> ids \<subseteq> ids' \<Longrightarrow> real_edge files ids' k"
  unfolding real_edge_def by blast

lemma search_ok_added:
  assumes "search_ok files s" "add_both i n (p, q, ''imports'') e (is_graph s) = (b, g)" "i \<in> {p, q}" "{p, q} - {i} \<subseteq> node_ids (is_graph s)"
    "imports_file files p q \<or> q \<in> external_modules files p"
  shows "search_ok files (s\<lparr>is_graph := g\<rparr>)" "node_ids (is_graph s) \<subseteq> node_ids g" "b \<Longrightarrow> i \<in> node_ids g"
proof -
  have g: "small g" using small_added(3) [of "is_graph s" i n "(p, q, ''imports'')" e] assms(1,2) by (simp add: search_ok_def)
  show grows: "node_ids (is_graph s) \<subseteq> node_ids g" and "b \<Longrightarrow> i \<in> node_ids g" using add_both_cases [OF assms(2)] by (cases b; auto)+
  have "real_edge files (node_ids g) k" if "k \<in> edge_keys g" for k
  proof (cases "k \<in> edge_keys (is_graph s)")
    case True
    then show ?thesis using assms(1) grows real_edge_mono unfolding search_ok_def by blast
  next
    case False
    then have "b" "k = (p, q, ''imports'')" using that add_both_cases [OF assms(2)] by (cases b; auto)+
    then show ?thesis using add_both_cases(1) [OF assms(2)] assms(3-5) grows unfolding real_edge_def by auto
  qed
  then show "search_ok files (s\<lparr>is_graph := g\<rparr>)" using assms(1) g grows unfolding search_ok_def by auto
qed

lemma search_ok_enqueued: "search_ok files s \<Longrightarrow> t \<in> node_ids (is_graph s) \<Longrightarrow> search_ok files (enqueue_path depth d t s)"
  by (simp add: search_ok_def enqueue_path_def)

lemma follow_imports_ok:
  assumes "search_ok files s" "p \<in> node_ids (is_graph s)" "set ms \<subseteq> imports_of files p"
  shows "search_ok files (follow_imports files depth p d ms s) \<and>
    node_ids (is_graph s) \<subseteq> node_ids (is_graph (follow_imports files depth p d ms s))"
  using assms
proof (induction ms arbitrary: s)
  case (Cons m ms)
  define t where "t = (case resolve_import_path files p m of Some t \<Rightarrow> t | None \<Rightarrow> ''module:'' @ m)"
  have real: "imports_file files p t \<or> t \<in> external_modules files p"
    using Cons.prems(3) by (auto simp: t_def imports_file_def external_modules_def split: option.splits)
  have step: "\<exists>node b g s1. add_both t node (p, t, ''imports'') (import_edge p t m) (is_graph s) = (b, g) \<and>
      (s1 = s\<lparr>is_graph := g\<rparr> \<or> (b \<and> s1 = enqueue_path depth d t (s\<lparr>is_graph := g\<rparr>))) \<and>
      follow_imports files depth p d (m # ms) s = (if b then follow_imports files depth p d ms s1 else s1)"
  proof (cases "resolve_import_path files p m")
    case None
    define node where "node = [(''id'', PStr (''module:'' @ m)), (''kind'', PStr ''external_module''), (''name'', PStr m)]"
    obtain b g where "add_both t node (p, t, ''imports'') (import_edge p t m) (is_graph s) = (b, g)" by fastforce
    then show ?thesis using None
      by (intro exI [of _ node] exI [of _ b] exI [of _ g] exI [of _ "s\<lparr>is_graph := g\<rparr>"]) (simp add: t_def node_def)
  next
    case (Some u)
    define node where "node = (case file_at files u of Some f \<Rightarrow> file_node f | None \<Rightarrow> [])"
    obtain b g where "add_both t node (p, t, ''imports'') (import_edge p t m) (is_graph s) = (b, g)" by fastforce
    then show ?thesis using Some
      by (intro exI [of _ node] exI [of _ b] exI [of _ g]
            exI [of _ "if b then enqueue_path depth d t (s\<lparr>is_graph := g\<rparr>) else s\<lparr>is_graph := g\<rparr>"]) (simp add: t_def node_def)
  qed
  then obtain node b g s1 where add: "add_both t node (p, t, ''imports'') (import_edge p t m) (is_graph s) = (b, g)"
    and s1: "s1 = s\<lparr>is_graph := g\<rparr> \<or> (b \<and> s1 = enqueue_path depth d t (s\<lparr>is_graph := g\<rparr>))"
    and eq: "follow_imports files depth p d (m # ms) s = (if b then follow_imports files depth p d ms s1 else s1)" by blast
  note added = search_ok_added [OF Cons.prems(1) add _ _ real]
  have "search_ok files s1" "is_graph s1 = g"
    using s1 added Cons.prems(2) search_ok_enqueued [of files "s\<lparr>is_graph := g\<rparr>" t depth d] by (auto simp: enqueue_path_def)
  then show ?case using Cons.IH [of s1] Cons.prems(2,3) added(2) unfolding eq by (cases b) auto
qed simp

lemma follow_importer_ok:
  assumes "search_ok files s" "p \<in> node_ids (is_graph s)" "c \<in> set files" "set ms \<subseteq> set (fl_imports c)"
  shows "search_ok files (follow_importer files depth p d c ms s) \<and>
    node_ids (is_graph s) \<subseteq> node_ids (is_graph (follow_importer files depth p d c ms s))"
  using assms
proof (induction ms arbitrary: s)
  case (Cons m ms)
  show ?case
  proof (cases "resolve_import_path files (fl_path c) m = Some p")
    case True
    obtain b g where add: "add_both (fl_path c) (file_node c) (fl_path c, p, ''imports'') (import_edge (fl_path c) p m) (is_graph s) = (b, g)"
      by fastforce
    have "imports_file files (fl_path c) p" using True Cons.prems(3,4) by (auto simp: imports_file_def imports_of_def)
    moreover have "fl_path c \<in> {fl_path c, p}" "{fl_path c, p} - {fl_path c} \<subseteq> node_ids (is_graph s)" using Cons.prems(2) by auto
    ultimately have added: "search_ok files (s\<lparr>is_graph := g\<rparr>)" "node_ids (is_graph s) \<subseteq> node_ids g" "b \<Longrightarrow> fl_path c \<in> node_ids g"
      using search_ok_added [OF Cons.prems(1) add] by blast+
    define s1 where "s1 = (if b then enqueue_path depth d (fl_path c) (s\<lparr>is_graph := g\<rparr>) else s\<lparr>is_graph := g\<rparr>)"
    have "search_ok files s1" "is_graph s1 = g"
      using added Cons.prems(2) search_ok_enqueued [of files "s\<lparr>is_graph := g\<rparr>" "fl_path c" depth d]
      by (auto simp: s1_def enqueue_path_def)
    moreover have "follow_importer files depth p d c (m # ms) s = (if b then follow_importer files depth p d c ms s1 else s1)"
      using True add by (simp add: s1_def)
    ultimately show ?thesis using Cons.IH [of s1] Cons.prems(2-4) added(2) by (cases b) auto
  qed (use Cons in simp)
qed simp

lemma follow_importers_ok:
  assumes "search_ok files s" "p \<in> node_ids (is_graph s)" "set cs \<subseteq> set files"
  shows "search_ok files (follow_importers files depth p d cs s) \<and>
    node_ids (is_graph s) \<subseteq> node_ids (is_graph (follow_importers files depth p d cs s))"
  using assms
proof (induction cs arbitrary: s)
  case (Cons c cs)
  define s1 where "s1 = follow_importer files depth p d c (sort (fl_imports c)) s"
  have s1: "search_ok files s1 \<and> node_ids (is_graph s) \<subseteq> node_ids (is_graph s1)"
    unfolding s1_def using Cons.prems by (intro follow_importer_ok) auto
  have "follow_importers files depth p d (c # cs) s = (if ng_truncated (is_graph s1) then s1 else follow_importers files depth p d cs s1)"
    by (simp add: s1_def Let_def)
  then show ?case using s1 Cons.IH [of s1] Cons.prems(2,3) by auto
qed simp

lemma visit_file_ok:
  assumes "search_ok files s" "p \<in> node_ids (is_graph s)"
  shows "search_ok files (visit_file files direction depth p d s)"
proof -
  define ms where "ms = (case file_at files p of Some f \<Rightarrow> sort (fl_imports f) | None \<Rightarrow> [])"
  have "set ms \<subseteq> imports_of files p"
  proof (cases "file_at files p")
    case (Some f)
    then have "f \<in> set files" "fl_path f = p" using find_in_list by (fastforce simp: file_at_def)+
    then show ?thesis using Some by (auto simp: ms_def imports_of_def)
  qed (simp add: ms_def)
  note first = follow_imports_ok [OF assms this]
  have "visit_file files direction depth p d s =
      (let s1 = (if forward direction then follow_imports files depth p d ms s else s)
       in if backward direction \<and> \<not> ng_truncated (is_graph s1) then follow_importers files depth p d files s1 else s1)"
    by (simp add: visit_file_def forward_def backward_def ms_def)
  moreover define s1 where "s1 = (if forward direction then follow_imports files depth p d ms s else s)"
  moreover have "search_ok files s1" "p \<in> node_ids (is_graph s1)" using first assms by (auto simp: s1_def)
  ultimately show ?thesis using follow_importers_ok [of files s1 p files] by (simp add: Let_def)
qed

lemma import_loop_ok: "search_ok files s \<Longrightarrow> search_ok files (import_loop files direction depth s)"
proof (induction files direction depth s rule: import_loop.induct)
  case (1 files direction depth s)
  show ?case
  proof (cases "is_frontier s = [] \<or> ng_truncated (is_graph s)")
    case True
    then show ?thesis using "1.prems" by (subst import_loop.simps) (auto split: list.splits)
  next
    case False
    then obtain p d rest where frontier: "is_frontier s = (p, d) # rest" by (cases "is_frontier s") auto
    let ?s = "s\<lparr>is_frontier := rest\<rparr>"
    have "search_ok files (visit_file files direction depth p d ?s)"
      using "1.prems" frontier by (intro visit_file_ok) (auto simp: search_ok_def)
    then have "search_ok files (import_loop files direction depth (visit_file files direction depth p d ?s))"
      using "1.IH" [OF frontier] False by simp
    then show ?thesis using False by (subst import_loop.simps) (simp add: frontier)
  qed
qed

text \<open>
  C4.  The graph of imports is the neighbourhood of a file.  Whatever the index holds, the search ends with at most 80 nodes
  and 120 edges, and every edge is an import of an indexed file, resolved to an indexed file or naming a module that no
  file resolves, between nodes of the graph.  When it was not cut off, its nodes and edges are exactly those at the files
  that can be reached from the given one in fewer steps than the depth, along imports, importers or both.
\<close>

theorem import_graph_is_the_neighbourhood:
  assumes "distinct (map fl_path files)" "f \<in> set files" "g = is_graph (import_search_from files direction depth f)"
  shows "length (ng_nodes g) \<le> 80 \<and> length (ng_edges g) \<le> 120 \<and> (\<forall>k \<in> edge_keys g. real_edge files (node_ids g) k) \<and>
    (\<not> ng_truncated g \<longrightarrow>
       (let near = neighbours (links files direction) (nat (max 1 depth) - 1) (fl_path f)
        in node_ids g = insert (fl_path f) (\<Union> (linked_nodes files direction ` near)) \<and>
           edge_keys g = \<Union> (linked_edges files direction ` near)))"
proof -
  define s where "s = \<lparr>is_graph = snd (add_node (fl_path f) (file_node f) empty_graph),
    is_frontier = [(fl_path f, 0)], is_visited = [fl_path f]\<rparr>"
  have g: "g = is_graph (import_loop files direction depth s)" by (simp add: assms(3) import_search_from_def s_def)
  have start: "node_ids (is_graph s) = {fl_path f}" "edge_keys (is_graph s) = {}" "\<not> ng_truncated (is_graph s)" "small (is_graph s)"
    by (simp_all add: s_def add_node_def empty_graph_def GRAPH_MAX_NODES_def node_ids_def edge_keys_def small_def)
  have "search_ok files s" using start by (simp add: search_ok_def) (simp add: s_def)
  note ok = import_loop_ok [OF this, of direction depth, folded g]
  have inv: "level_inv files direction depth (fl_path f) 0 [fl_path f] [] s"
    using start assms(2) by (simp add: level_inv_def s_def)
  have "node_ids g = insert (fl_path f) (\<Union> (linked_nodes files direction ` neighbours (links files direction) (nat (max 1 depth) - 1) (fl_path f))) \<and>
      edge_keys g = \<Union> (linked_edges files direction ` neighbours (links files direction) (nat (max 1 depth) - 1) (fl_path f))"
    if open_graph: "\<not> ng_truncated g"
  proof -
    obtain k where k: "level_inv files direction depth (fl_path f) k [] [] (import_loop files direction depth s)"
      using loop_levels [OF inv assms(1)] open_graph unfolding g by blast
    show ?thesis using k level_end [OF k] unfolding level_inv_def Let_def g by simp
  qed
  then show ?thesis using ok unfolding search_ok_def small_def Let_def GRAPH_MAX_NODES_def GRAPH_MAX_EDGES_def g by blast
qed

section \<open>The graph of possible calls\<close>

lemma small_targets: "small g \<Longrightarrow> small (foldl (\<lambda>g t. snd (add_node (fst t) (snd t) g)) g ts)"
  by (induction ts arbitrary: g) (simp_all add: small_added)

lemma small_results:
  "add_node i n g = (b, g') \<Longrightarrow> small g \<Longrightarrow> small g'" "add_edge k e g = (b, g') \<Longrightarrow> small g \<Longrightarrow> small g'"
  "add_both i n k e g = (b, g') \<Longrightarrow> small g \<Longrightarrow> small g'"
  using small_added by (metis snd_conv)+

lemma small_edges: "small g \<Longrightarrow> small (add_edges_to source ts g)"
proof (induction ts arbitrary: g)
  case (Cons t ts)
  then show ?case by (auto simp: Let_def intro!: Cons.IH intro: small_results split: prod.splits)
qed simp

lemma small_callees: "small g \<Longrightarrow> small (add_callees source ts g)"
proof (induction ts arbitrary: g)
  case (Cons t ts)
  then show ?case by (auto simp: Let_def intro!: Cons.IH intro: small_results split: prod.splits)
qed simp

lemma expand_symbol_graph [simp]: "cs_graph (expand_symbol depth d name s) = cs_graph s"
  by (simp add: expand_symbol_def)

lemma small_follow_callers: "small (cs_graph s) \<Longrightarrow> small (cs_graph (follow_callers depth d symbol ts cs s))"
proof (induction cs arbitrary: s)
  case (Cons c cs)
  then show ?case by (auto simp: Let_def intro!: Cons.IH small_edges intro: small_results split: prod.splits)
qed simp

lemma small_follow_calls: "small (cs_graph s) \<Longrightarrow> small (cs_graph (follow_calls chunks depth d source cs s))"
  by (induction cs arbitrary: s) (simp_all add: Let_def small_callees)

lemma small_follow_callees: "small (cs_graph s) \<Longrightarrow> small (cs_graph (follow_callees chunks depth d ds s))"
proof (induction ds arbitrary: s)
  case (Cons c ds)
  then show ?case by (auto simp: Let_def intro!: Cons.IH small_follow_calls intro: small_results split: prod.splits)
qed simp

lemma small_visit: "small (cs_graph s) \<Longrightarrow> small (cs_graph (visit_symbol chunks direction depth d symbol s))"
  by (simp add: visit_symbol_def Let_def small_follow_callees small_follow_callers small_targets)

lemma small_visits: "small (cs_graph s) \<Longrightarrow> small (cs_graph (foldl (\<lambda>s symbol. visit_symbol chunks direction depth d symbol s) s symbols))"
  by (induction symbols arbitrary: s) (simp_all add: small_visit)

lemma call_graph_is_bounded: "small (cs_graph (call_search_from chunks symbol direction depth))"
proof -
  have "small (cs_graph s) \<Longrightarrow> small (cs_graph (call_rounds chunks direction depth n frontier s))" for n frontier s
    by (induction n arbitrary: frontier s) (simp_all add: Let_def small_visits)
  then show ?thesis by (simp add: call_search_from_def small_def empty_graph_def)
qed

text \<open>
  The nodes of the targets are added without asking whether there was room, so an edge of the graph of calls may lead to a
  node it does not have.
\<close>

lemma call_edge_may_dangle:
  assumes "GRAPH_MAX_NODES \<le> length (ng_nodes (cs_graph s))" "ng_edges (cs_graph s) = []" "\<not> ng_truncated (cs_graph s)"
    "py_lower symbol \<notin> set (cs_visited s)" "calls_symbol (text_of (rc_content c)) symbol" "defining_chunks [c] symbol = []"
    "fst (symbol_node c) \<in> node_ids (cs_graph s)" "fst (unresolved_node symbol) \<notin> node_ids (cs_graph s)"
  shows "(fst (symbol_node c), fst (unresolved_node symbol)) \<in> edge_keys (cs_graph (visit_symbol [c] ''callers'' depth d symbol s)) \<and>
    fst (unresolved_node symbol) \<notin> node_ids (cs_graph (visit_symbol [c] ''callers'' depth d symbol s))"
proof -
  obtain a n where c: "symbol_node c = (a, n)" by fastforce
  obtain u m where u: "unresolved_node symbol = (u, m)" by fastforce
  show ?thesis
    using assms unfolding node_ids_def edge_keys_def
    by (simp add: visit_symbol_def target_nodes_def Let_def add_node_def add_edge_def GRAPH_MAX_EDGES_def c u)
qed

section \<open>An instance\<close>

definition demo_file :: "string \<Rightarrow> string list \<Rightarrow> code_file" where
  "demo_file path ms = \<lparr>fl_repo = ''r'', fl_path = path, fl_language = ''javascript'', fl_imports = ms\<rparr>"

definition demo_files :: "code_file list" where
  "demo_files = [demo_file ''src/a.js'' [''./b'', ''react''], demo_file ''src/b.js'' [''./c/index''], demo_file ''src/c/index.js'' [],
     demo_file ''src/App.vue'' [], demo_file ''src/main.js'' [''./App.vue'']]"

text \<open>An import that names its file with the suffix, as imports of Vue components do, resolves to nothing.\<close>

lemma suffixed_import_is_not_resolved:
  "resolve_import_path demo_files ''src/main.js'' ''./App.vue'' = None \<and>
   resolve_import_path demo_files ''src/main.js'' ''./App'' = Some ''src/App.vue''"
  by code_simp

lemma import_graph_is_the_neighbourhood_witness:
  "node_ids (is_graph (import_search_from demo_files ''imports'' 2 (demo_file ''src/a.js'' [''./b'', ''react'']))) =
     {''src/a.js'', ''src/b.js'', ''src/c/index.js'', ''module:react''} \<and>
   length (ng_edges (is_graph (import_search_from demo_files ''imports'' 2 (demo_file ''src/a.js'' [''./b'', ''react''])))) \<le> 120"
proof -
  have files: "distinct (map fl_path demo_files)" "demo_file ''src/a.js'' [''./b'', ''react''] \<in> set demo_files"
    by (simp_all add: demo_files_def demo_file_def)
  have ids: "map fst (ng_nodes (is_graph (import_search_from demo_files ''imports'' 2 (demo_file ''src/a.js'' [''./b'', ''react''])))) =
      [''src/a.js'', ''src/b.js'', ''module:react'', ''src/c/index.js'']"
    by code_simp
  have "node_ids (is_graph (import_search_from demo_files ''imports'' 2 (demo_file ''src/a.js'' [''./b'', ''react'']))) =
      set [''src/a.js'', ''src/b.js'', ''module:react'', ''src/c/index.js'']"
    unfolding node_ids_def ids [symmetric] by simp
  moreover note import_graph_is_the_neighbourhood [OF files refl, of "''imports''" 2]
  ultimately show ?thesis by (simp add: insert_commute)
qed

text \<open>References are sought among the first chunks that contain the text in any case, so the only reference may not be among them.\<close>

definition demo_chunk :: "string \<Rightarrow> string \<Rightarrow> code_chunk" where
  "demo_chunk i content = \<lparr>rc_id = i, rc_repo = ''r'', rc_file_id = ''f'', rc_path = ''src/'' @ i, rc_language = ''python'',
     rc_symbol_name = Some ''g'', rc_symbol_type = Some ''function'', rc_start = Some 1, rc_end = Some 2, rc_content = Some content,
     rc_imports = [], rc_exports = []\<rparr>"

lemma crowded_reference_is_missed:
  "find_references [demo_chunk ''1'' ''LOAD = 1'', demo_chunk ''2'' ''reload(x)'', demo_chunk ''3'' ''Load()'', demo_chunk ''4'' ''upload'',
     demo_chunk ''5'' ''load(x)''] ''r'' ''load'' 1 = [] \<and>
   length (find_references [demo_chunk ''5'' ''load(x)''] ''r'' ''load'' 1) = 1"
  by code_simp

end
