(* ===== verification/GithubApp.thy ===== *)
theory GithubApp
  imports RunLifecycle
begin

text \<open>
  The client of the GitHub App (\<open>backend/app/github_app/client.py\<close>): the signed token of the app, the token of an
  installation, the reading of a failed workflow run and the opening of a draft pull request.  Everything the client and
  the repair service do outside the database is an entry of one log, with the answer it got: requests, git commands,
  recorded steps, enqueued jobs.  An operation takes the log, gives a result or the exception it raises, and the longer
  log; what the outside answers may depend on the whole log so far.
\<close>

section \<open>Effects and their log\<close>

datatype github_failure = Github_error string | Repair_conflict string | Escaped string

fun failure_text :: "github_failure \<Rightarrow> string" where
  \<comment> \<open>\<open>str(exc)\<close>\<close>
  "failure_text (Github_error m) = m"
| "failure_text (Repair_conflict m) = m"
| "failure_text (Escaped m) = m"

record http_request =
  hq_method :: string
  hq_url :: string
  hq_token :: string
  hq_body :: "pydict option"

datatype http_outcome = Http_failed string | Http_raised string | Not_json | Answered pyval

record git_call =
  gt_workspace :: string
  gt_arguments :: "string list"
  gt_input :: "string option"
  gt_environment :: "(string \<times> string) list option"

record git_process =
  gr_returncode :: int
  gr_stdout :: string
  gr_stderr :: string

record step_call =
  sc_run_id :: string
  sc_step_type :: string
  sc_tool_name :: string
  sc_input :: "pydict option"
  sc_output :: pydict

datatype outside =
    Asked http_request http_outcome
  | Git git_call "string + git_process"
  | Recorded step_call
  | Enqueued string bool

type_synonym 'a eff = "outside list \<Rightarrow> (github_failure + 'a) \<times> outside list"

definition give :: "'a \<Rightarrow> 'a eff" where
  "give x = (\<lambda>l. (Inr x, l))"

definition fail_with :: "github_failure \<Rightarrow> 'a eff" where
  "fail_with e = (\<lambda>l. (Inl e, l))"

definition and_then :: "'a eff \<Rightarrow> ('a \<Rightarrow> 'b eff) \<Rightarrow> 'b eff" where
  "and_then m f = (\<lambda>l. case m l of (Inl e, l') \<Rightarrow> (Inl e, l') | (Inr x, l') \<Rightarrow> f x l')"

definition lifted :: "github_failure + 'a \<Rightarrow> 'a eff" where
  "lifted r = (\<lambda>l. (r, l))"

text \<open>
  The configuration and the outside: the signature under a private key, absent where the key does not load; the answers
  to requests; the results of \<open>git\<close>, or the exception of starting it; the clock; the queue; \<open>urlparse\<close>, giving the text of
  its exception or host name and path; directories, the path of the temporary copy of one, or the exception of copying; the
  environment of the process; and the message of an exception of \<open>int\<close>.
\<close>

record github_env =
  gh_enabled :: bool
  gh_app_id :: "string option"
  gh_private_key :: "string option"
  gh_api_url :: string
  gh_branch_prefix :: string
  gh_sign :: "string \<Rightarrow> string \<Rightarrow> string option"
  gh_answer :: "outside list \<Rightarrow> http_request \<Rightarrow> http_outcome"
  gh_git :: "outside list \<Rightarrow> git_call \<Rightarrow> string + git_process"
  gh_clock :: "outside list \<Rightarrow> int"
  gh_enqueue :: "outside list \<Rightarrow> string \<Rightarrow> bool"
  gh_urlparse :: "string \<Rightarrow> string + string option \<times> string"
  gh_is_dir :: "outside list \<Rightarrow> string \<Rightarrow> bool"
  gh_copytree :: "outside list \<Rightarrow> string \<Rightarrow> string + string"
  gh_environ :: "(string \<times> string) list"
  gh_int_message :: "pyval \<Rightarrow> string"

section \<open>The token of the app\<close>

definition base64url_digit :: "nat \<Rightarrow> char" where
  "base64url_digit n =
     (if n < 26 then char_of (65 + n) else if n < 52 then char_of (97 + (n - 26))
      else if n < 62 then char_of (48 + (n - 52)) else if n = 62 then CHR ''-'' else CHR ''_'')"

fun base64url_bytes :: "nat list \<Rightarrow> string" where
  \<comment> \<open>\<open>urlsafe_b64encode\<close> without its padding\<close>
  "base64url_bytes [] = []"
| "base64url_bytes [a] = map base64url_digit [a div 4, a mod 4 * 16]"
| "base64url_bytes [a, b] = map base64url_digit [a div 4, a mod 4 * 16 + b div 16, b mod 16 * 4]"
| "base64url_bytes (a # b # c # rest) =
     map base64url_digit [a div 4, a mod 4 * 16 + b div 16, b mod 16 * 4 + c div 64, c mod 64] @ base64url_bytes rest"

definition base64url :: "string \<Rightarrow> string" where
  "base64url s = base64url_bytes (map of_char s)"

definition base64url_json :: "pydict \<Rightarrow> string" where
  \<comment> \<open>for ASCII texts, as the ids of apps are\<close>
  "base64url_json d = base64url (json_dumps True True (PDict d))"

fun unescape_newlines :: "string \<Rightarrow> string" where
  \<comment> \<open>a backslash and an \<open>n\<close> become a line break\<close>
  "unescape_newlines (a # b # s) =
     (if a = CHR 0x5C \<and> b = CHR ''n'' then CHR 0x0A # unescape_newlines s else a # unescape_newlines (b # s))"
| "unescape_newlines s = s"

definition app_jwt :: "github_env \<Rightarrow> string eff" where
  "app_jwt E =
     (\<lambda>l. let app_id = py_strip (or_default (gh_app_id E) []);
              private_key = py_strip (unescape_newlines (or_default (gh_private_key E) []));
              now = gh_clock E l;
              header = base64url_json [(''alg'', PStr ''RS256''), (''typ'', PStr ''JWT'')];
              claims = base64url_json [(''iat'', PInt (now - 60)), (''exp'', PInt (now + 540)), (''iss'', PStr app_id)];
              signed = header @ ''.'' @ claims
          in if \<not> gh_enabled E then fail_with (Github_error ''GitHub App integration is disabled'') l
             else if app_id = [] \<or> private_key = []
             then fail_with (Github_error ''GitHub App ID and private key must be configured'') l
             else case gh_sign E private_key signed of
               None \<Rightarrow> fail_with (Github_error ''GitHub App private key is invalid'') l
             | Some signature \<Rightarrow> give (signed @ ''.'' @ base64url signature) l)"

section \<open>Requests\<close>

definition api_base :: "github_env \<Rightarrow> string" where
  \<comment> \<open>without the slashes at its end\<close>
  "api_base E = rev (dropWhile (\<lambda>c. c = CHR ''/'') (rev (gh_api_url E)))"

definition github_request :: "github_env \<Rightarrow> string \<Rightarrow> string \<Rightarrow> string \<Rightarrow> pydict option \<Rightarrow> pydict eff" where
  "github_request E verb path token body =
     (\<lambda>l. let q = \<lparr>hq_method = verb, hq_url = api_base E @ path, hq_token = token, hq_body = body\<rparr>;
              a = gh_answer E l q
          in (case a of
                Http_failed why \<Rightarrow> Inl (Github_error (''GitHub API request failed: '' @ why))
              | Http_raised why \<Rightarrow> Inl (Escaped why)
              | Not_json \<Rightarrow> Inl (Github_error ''GitHub API returned an invalid JSON response'')
              | Answered (PDict d) \<Rightarrow> Inr d
              | Answered v \<Rightarrow> Inl (Github_error ''GitHub API returned an unexpected response''),
              l @ [Asked q a]))"

definition installation_token :: "github_env \<Rightarrow> string \<Rightarrow> string eff" where
  "installation_token E installation =
     and_then (app_jwt E) (\<lambda>jwt.
     and_then (github_request E ''POST'' (''/app/installations/'' @ installation @ ''/access_tokens'') jwt None) (\<lambda>payload.
       case dget payload ''token'' of
         PStr token \<Rightarrow> if token = [] then fail_with (Github_error ''GitHub App installation token was not returned'')
                       else give token
       | _ \<Rightarrow> fail_with (Github_error ''GitHub App installation token was not returned'')))"

section \<open>Reading a failed workflow run\<close>

definition FAILED_CONCLUSIONS :: "string set" where
  "FAILED_CONCLUSIONS = {''action_required'', ''failure'', ''startup_failure'', ''timed_out''}"

definition value_text :: "pyval \<Rightarrow> string \<Rightarrow> string" where
  \<comment> \<open>\<open>str(v or default)\<close>\<close>
  "value_text v dflt = (if truthy v then py_str v else dflt)"

fun iter_items :: "pyval \<Rightarrow> github_failure + pyval list" where
  \<comment> \<open>the items of \<open>for x in (v or [])\<close>\<close>
  "iter_items (PList xs) = Inr xs"
| "iter_items (PDict d) = Inr (map (\<lambda>kv. PStr (fst kv)) d)"
| "iter_items (PStr s) = Inr (map (\<lambda>c. PStr [c]) s)"
| "iter_items v = (if truthy v then Inl (Escaped ''TypeError'') else Inr [])"

definition conclusion_of :: "pydict \<Rightarrow> string" where
  "conclusion_of d = py_lower (value_text (dget d ''conclusion'') [])"

fun failed_step_names :: "pyval list \<Rightarrow> string list" where
  "failed_step_names [] = []"
| "failed_step_names (PDict step # steps) =
     (if conclusion_of step \<in> FAILED_CONCLUSIONS then py_head 200 (value_text (dget step ''name'') []) # failed_step_names steps
      else failed_step_names steps)"
| "failed_step_names (v # steps) = failed_step_names steps"

definition failed_job :: "pydict \<Rightarrow> string list \<Rightarrow> pyval" where
  "failed_job job steps = PDict
     [(''name'', PStr (py_head 200 (value_text (dget job ''name'') ''job''))), (''conclusion'', PStr (conclusion_of job)),
      (''failed_steps'', PList (map PStr (py_head 20 steps)))]"

fun each_failed_job :: "pyval list \<Rightarrow> github_failure + pyval list" where
  "each_failed_job [] = Inr []"
| "each_failed_job (PDict job # jobs) =
     (if conclusion_of job \<notin> FAILED_CONCLUSIONS then each_failed_job jobs
      else case iter_items (dget job ''steps'') of
        Inl e \<Rightarrow> Inl e
      | Inr steps \<Rightarrow> map_sum id (\<lambda>found. failed_job job (failed_step_names steps) # found) (each_failed_job jobs))"
| "each_failed_job (v # jobs) = each_failed_job jobs"

definition failed_jobs :: "pyval list \<Rightarrow> github_failure + pyval list" where
  "failed_jobs jobs = map_sum id (py_head 20) (each_failed_job jobs)"

record ci_failure =
  cf_repository_full_name :: string
  cf_workflow_run_id :: string
  cf_workflow_url :: pyval
  cf_head_sha :: string
  cf_base_branch :: string
  cf_failure_summary :: pydict

definition repo_path :: "string \<Rightarrow> string \<Rightarrow> string" where
  "repo_path owner name = ''/repos/'' @ owner @ ''/'' @ name"

definition the_failure :: "string \<Rightarrow> string \<Rightarrow> pydict \<Rightarrow> pydict \<Rightarrow> pyval list \<Rightarrow> ci_failure" where
  "the_failure workflow_run_id full_name workflow repo_data jobs =
     \<lparr>cf_repository_full_name = full_name,
      cf_workflow_run_id = value_text (dget workflow ''id'') workflow_run_id,
      cf_workflow_url = dget workflow ''html_url'',
      cf_head_sha = value_text (dget workflow ''head_sha'') [],
      cf_base_branch = value_text (dget repo_data ''default_branch'') [],
      cf_failure_summary =
        [(''workflow_name'', PStr (py_head 200 (value_text (dget workflow ''name'') ''GitHub Actions''))),
         (''conclusion'', PStr (conclusion_of workflow)), (''failed_jobs'', PList jobs)]\<rparr>"

definition read_failed_workflow_run :: "github_env \<Rightarrow> string \<Rightarrow> string \<Rightarrow> string \<Rightarrow> string \<Rightarrow> ci_failure eff" where
  "read_failed_workflow_run E installation owner name workflow_run_id =
     and_then (installation_token E installation) (\<lambda>token.
     and_then (github_request E ''GET'' (repo_path owner name @ ''/actions/runs/'' @ workflow_run_id) token None) (\<lambda>workflow.
       if conclusion_of workflow \<notin> FAILED_CONCLUSIONS
       then fail_with (Github_error ''GitHub workflow run is not in a repairable failed state'')
       else
     and_then (github_request E ''GET'' (repo_path owner name @ ''/actions/runs/'' @ workflow_run_id @ ''/jobs'') token None) (\<lambda>jobs.
     and_then (github_request E ''GET'' (repo_path owner name) token None) (\<lambda>repo_data.
       let full_name = value_text (dget repo_data ''full_name'') [] in
       if py_lower full_name \<noteq> py_lower (owner @ ''/'' @ name)
       then fail_with (Github_error ''GitHub repository identity does not match the requested repository'')
       else
     and_then (lifted (case iter_items (dget jobs ''jobs'') of Inl e \<Rightarrow> Inl e | Inr items \<Rightarrow> failed_jobs items)) (\<lambda>found.
       give (the_failure workflow_run_id full_name workflow repo_data found))))))"

section \<open>Opening a draft pull request\<close>

definition create_draft_pull_request ::
  "github_env \<Rightarrow> string \<Rightarrow> string \<Rightarrow> string \<Rightarrow> string \<Rightarrow> string \<Rightarrow> string \<Rightarrow> string \<Rightarrow> pydict eff" where
  "create_draft_pull_request E installation owner name branch base title body =
     and_then (installation_token E installation) (\<lambda>token.
       github_request E ''POST'' (repo_path owner name @ ''/pulls'') token
         (Some [(''title'', PStr (py_head 256 title)), (''head'', PStr branch), (''base'', PStr base),
                (''body'', PStr (py_head 65000 body)), (''draft'', PBool True)]))"

end
