(* ===== verification/CiHistory.thy ===== *)
theory CiHistory
  imports CiRepair LifecycleTheorems
begin

text \<open>
  The histories of the repairs of failed workflows: what one publication leaves in the log, the state machine of the routes,
  the worker and a process that dies, and its invariant.
\<close>

section \<open>Effects only add to the log\<close>

definition adds :: "(outside \<Rightarrow> bool) \<Rightarrow> 'a eff \<Rightarrow> bool" where
  "adds P m \<longleftrightarrow> (\<forall>l r l'. m l = (r, l') \<longrightarrow> (\<exists>ext. l' = l @ ext \<and> list_all P ext))"

lemma addsD: "adds P m \<Longrightarrow> m l = (r, l') \<Longrightarrow> \<exists>ext. l' = l @ ext \<and> list_all P ext"
  by (simp add: adds_def)

lemma adds_simple [simp, intro]: "adds P (give x)" "adds P (fail_with e)" "adds P (lifted r')"
  by (auto simp: adds_def give_def fail_with_def lifted_def)

lemma adds_and_then [intro]:
  assumes "adds P m" "\<And>x. adds P (f x)"
  shows "adds P (and_then m f)"
  unfolding adds_def
proof (intro allI impI)
  fix l r l'
  assume run: "and_then m f l = (r, l')"
  obtain r1 l1 where first: "m l = (r1, l1)" by (cases "m l")
  then obtain ext where ext: "l1 = l @ ext" "list_all P ext" using addsD [OF assms(1)] by blast
  show "\<exists>ext. l' = l @ ext \<and> list_all P ext"
  proof (cases r1)
    case (Inl e)
    then show ?thesis using run first ext by (auto simp: and_then_def)
  next
    case (Inr x)
    then obtain more where "l' = l1 @ more" "list_all P more"
      using run first addsD [OF assms(2) [of x], of l1 r l'] by (auto simp: and_then_def)
    then show ?thesis using ext by auto
  qed
qed

lemma and_then_Inr: "and_then m f l = (Inr y, l') \<longleftrightarrow> (\<exists>x l1. m l = (Inr x, l1) \<and> f x l1 = (Inr y, l'))"
  by (auto simp: and_then_def split: prod.splits sum.splits)

lemma effect_results [simp]:
  "give x l = (Inr y, l') \<longleftrightarrow> y = x \<and> l' = l" "fail_with e l = (Inr y, l') \<longleftrightarrow> False"
  "lifted r l = (Inr y, l') \<longleftrightarrow> r = Inr y \<and> l' = l"
  by (auto simp: give_def fail_with_def lifted_def)

section \<open>Entries that open nothing\<close>

definition opens_pull :: "http_request \<Rightarrow> bool" where
  "opens_pull q \<longleftrightarrow> hq_method q = ''POST'' \<and> ends_with ''/pulls'' (hq_url q)"

definition decision_of :: "outside \<Rightarrow> (string \<times> bool) option" where
  "decision_of e = (case e of
     Recorded s \<Rightarrow>
       if sc_step_type s = ''github_draft_pr_approval''
       then (case (dget (dict_of (sc_input s)) ''repair_id'', dget (dict_of (sc_input s)) ''approved'') of
               (PStr rid, PBool approved) \<Rightarrow> Some (rid, approved) | _ \<Rightarrow> None)
       else None
   | _ \<Rightarrow> None)"

definition decisions :: "outside list \<Rightarrow> (string \<times> bool) list" where
  "decisions = List.map_filter decision_of"

fun silent :: "outside \<Rightarrow> bool" where
  "silent (Asked q a) = (\<not> opens_pull q)"
| "silent (Git c a) = True"
| "silent (Recorded s) = (sc_step_type s \<noteq> ''github_draft_pr_approval'')"
| "silent (Enqueued k ok) = True"

lemma decisions_append [simp]: "decisions (l @ m) = decisions l @ decisions m"
  by (simp add: decisions_def List.map_filter_def)

lemma quiet_decisions: "list_all silent l \<Longrightarrow> decisions l = []"
proof (induction l)
  case (Cons e l)
  then show ?case by (cases e) (auto simp: decisions_def List.map_filter_def decision_of_def)
qed (simp add: decisions_def List.map_filter_def)

lemma decisions_decision: "decisions [Recorded (decision_step r b)] = [(rr_id r, b)]"
  by (simp add: decisions_def List.map_filter_def decision_of_def decision_step_def)

lemma adds_request: "\<not> opens_pull \<lparr>hq_method = verb, hq_url = api_base E @ path, hq_token = token, hq_body = body\<rparr> \<Longrightarrow>
    adds silent (github_request E verb path token body)"
  by (auto simp: adds_def github_request_def Let_def)

lemma adds_get [intro]: "adds silent (github_request E ''GET'' path token body)"
  by (rule adds_request) (simp add: opens_pull_def)

lemma adds_app_jwt [intro]: "adds P (app_jwt E)"
  by (auto simp: adds_def app_jwt_def Let_def give_def fail_with_def split: if_splits option.splits)


lemma token_request_opens_nothing:
  "\<not> ends_with ''/pulls'' (a @ ''/app/installations/'' @ i @ ''/access_tokens'')"
  by (simp add: ends_with_def)

lemma adds_installation_token [intro]: "adds silent (installation_token E installation)"
  unfolding installation_token_def
  by (intro adds_and_then adds_app_jwt adds_request)
     (auto simp: opens_pull_def ends_with_def split: pyval.splits)

lemma adds_read_failed [intro]: "adds silent (read_failed_workflow_run E installation owner name workflow_run_id)"
  unfolding read_failed_workflow_run_def
  by (auto simp: Let_def intro!: adds_and_then adds_installation_token adds_get)

lemma adds_git [intro]: "adds silent (git E ws arguments input environment check)"
  by (auto simp: adds_def git_def Let_def)

lemma adds_commit_patch [intro]: "adds silent (commit_patch E ws r branch diff_text)"
  unfolding commit_patch_def
  by (auto intro!: adds_and_then adds_git)

lemma adds_push_commit [intro]: "adds silent (push_commit E ws repository r branch)"
  unfolding push_commit_def by (auto intro!: adds_and_then adds_git adds_installation_token)

lemma adds_push_verified_patch [intro]: "adds silent (push_verified_patch E repository r branch diff_text)"
  unfolding adds_def
proof (intro allI impI)
  fix l res l'
  assume "push_verified_patch E repository r branch diff_text l = (res, l')"
  moreover have "adds silent (and_then (commit_patch E ws r branch diff_text) (\<lambda>_. push_commit E ws repository r branch))" for ws
    by (auto intro!: adds_and_then adds_commit_patch adds_push_commit)
  ultimately show "\<exists>ext. l' = l @ ext \<and> list_all silent ext"
    by (fastforce simp: push_verified_patch_def fail_with_def split: option.splits if_splits sum.splits dest: addsD)
qed

section \<open>The commands of a publication\<close>

definition git_lines :: "outside list \<Rightarrow> (git_call \<times> (string + git_process)) list" where
  "git_lines = List.map_filter (\<lambda>e. case e of Git c a \<Rightarrow> Some (c, a) | _ \<Rightarrow> None)"

lemma git_lines_simps [simp]:
  "git_lines [] = []" "git_lines (Git c a # l) = (c, a) # git_lines l" "git_lines (Asked q b # l) = git_lines l"
  "git_lines (Recorded s # l) = git_lines l" "git_lines (Enqueued k ok # l) = git_lines l"
  "git_lines (l @ m) = git_lines l @ git_lines m"
  by (simp_all add: git_lines_def List.map_filter_def)

definition publication_script :: "repair_row \<Rightarrow> string \<Rightarrow> string \<Rightarrow> (string list \<times> string option) list" where
  "publication_script r branch diff_text =
     [([''rev-parse'', ''HEAD''], None), ([''checkout'', ''--detach'', rr_head_sha r], None),
      ([''apply'', ''--whitespace=error-all'', ''-''], Some diff_text), ([''diff'', ''--check''], None),
      ([''diff'', ''--quiet''], None), ([''switch'', ''-c'', branch], None), ([''add'', ''--all''], None),
      (commit_arguments r, None), (push_arguments branch, None)]"

text \<open>
  A log of git commands that pushes the patch: the commands of the script in one copy of the repository, all successful
  but \<open>diff --quiet\<close>, which says that something changed, and the first answering with the commit that failed.
\<close>

definition answered_well :: "string \<Rightarrow> git_call \<Rightarrow> string + git_process \<Rightarrow> bool" where
  "answered_well ws c a \<longleftrightarrow> gt_workspace c = ws \<and>
     (\<exists>p. a = Inr p \<and> (gr_returncode p = 0 \<longleftrightarrow> gt_arguments c \<noteq> [''diff'', ''--quiet'']))"

definition pushed :: "repair_row \<Rightarrow> string \<Rightarrow> string \<Rightarrow> (git_call \<times> (string + git_process)) list \<Rightarrow> bool" where
  "pushed r branch diff_text lines \<longleftrightarrow>
     map (\<lambda>(c, a). (gt_arguments c, gt_input c)) lines = publication_script r branch diff_text \<and>
     (\<exists>ws. \<forall>(c, a) \<in> set lines. answered_well ws c a) \<and>
     (\<exists>p. snd (hd lines) = Inr p \<and> py_strip (gr_stdout p) = rr_head_sha r)"

lemma git_Inr: "git E ws arguments input environment check l = (Inr p, l') \<longleftrightarrow>
    gh_git E l \<lparr>gt_workspace = ws, gt_arguments = arguments, gt_input = input, gt_environment = environment\<rparr> = Inr p \<and>
    (check \<longrightarrow> gr_returncode p = 0) \<and>
    l' = l @ [Git \<lparr>gt_workspace = ws, gt_arguments = arguments, gt_input = input, gt_environment = environment\<rparr> (Inr p)]"
  by (auto simp: git_def Let_def split: sum.splits if_splits)

lemma token_adds_no_git:
  assumes "installation_token E installation l = (r, l')"
  shows "\<exists>ext. l' = l @ ext \<and> git_lines ext = []"
proof -
  have "adds (\<lambda>e. case e of Git c a \<Rightarrow> False | _ \<Rightarrow> True) (installation_token E installation)"
    unfolding installation_token_def
    by (intro adds_and_then adds_app_jwt) (auto simp: adds_def github_request_def Let_def fail_with_def give_def split: pyval.splits)
  moreover have "list_all (\<lambda>e. case e of Git c a \<Rightarrow> False | _ \<Rightarrow> True) ext \<Longrightarrow> git_lines ext = []" for ext
    by (induction ext) (auto split: outside.splits)
  ultimately show ?thesis using assms by (blast dest: addsD)
qed

lemma commit_is_no_diff [simp]: "commit_arguments r \<noteq> [''diff'', ''--quiet'']" "push_arguments branch \<noteq> [''diff'', ''--quiet'']"
  by (simp_all add: commit_arguments_def push_arguments_def)

lemma commit_succeeds:
  assumes "commit_patch E ws r branch diff_text l = (Inr (), l1)"
  shows "\<exists>lines. l1 = l @ lines \<and>
     map (\<lambda>(c, a). (gt_arguments c, gt_input c)) (git_lines lines) = butlast (publication_script r branch diff_text) \<and>
     (\<forall>(c, a) \<in> set (git_lines lines). answered_well ws c a) \<and>
     (\<exists>p. snd (hd (git_lines lines)) = Inr p \<and> py_strip (gr_stdout p) = rr_head_sha r)"
  using assms
  by (clarsimp simp: commit_patch_def and_then_Inr git_Inr split: if_splits)
     (simp add: publication_script_def answered_well_def)

lemma push_succeeds:
  assumes "push_verified_patch E repository r branch diff_text l = (Inr (), l')"
  shows "\<exists>ext. l' = l @ ext \<and> list_all silent ext \<and> pushed r branch diff_text (git_lines ext)"
proof -
  obtain ws l1 where commit: "commit_patch E ws r branch diff_text l = (Inr (), l1)"
    and push: "push_commit E ws repository r branch l1 = (Inr (), l')"
    using assms by (auto simp: push_verified_patch_def and_then_Inr split: option.splits if_splits sum.splits)
  obtain token l2 p c where token: "installation_token E (rr_installation_id r) l1 = (Inr token, l2)"
    and l': "l' = l2 @ [Git c (Inr p)]" "gt_workspace c = ws" "gt_arguments c = push_arguments branch" "gt_input c = None"
      "gr_returncode p = 0"
    using push by (auto simp: push_commit_def and_then_Inr git_Inr)
  obtain ext where "l' = l @ ext" "list_all silent ext"
    using addsD [OF adds_push_verified_patch assms] by blast
  moreover obtain t where "l2 = l1 @ t" "git_lines t = []" using token_adds_no_git [OF token] by blast
  moreover obtain lines where "l1 = l @ lines"
    "map (\<lambda>(c, a). (gt_arguments c, gt_input c)) (git_lines lines) = butlast (publication_script r branch diff_text)"
    "\<forall>(c, a) \<in> set (git_lines lines). answered_well ws c a"
    "\<exists>p. snd (hd (git_lines lines)) = Inr p \<and> py_strip (gr_stdout p) = rr_head_sha r"
    using commit_succeeds [OF commit] by blast
  ultimately show ?thesis using l' 
    by (intro exI [of _ ext]) (auto simp: pushed_def answered_well_def publication_script_def push_arguments_def)
qed

text \<open>
  A publication either opens nothing, or ends with the one request that opens the draft pull request, after the patch was
  pushed.
\<close>

definition draft_of :: "github_env \<Rightarrow> repair_row \<Rightarrow> http_request \<Rightarrow> bool" where
  "draft_of E r q \<longleftrightarrow> opens_pull q \<and>
     hq_body q = Some [(''title'', PStr (py_head 256 (''fix(ci): repair failed workflow run '' @ rr_workflow_run_id r))),
       (''head'', PStr (repair_branch E (rr_id r))), (''base'', PStr (rr_base_branch r)),
       (''body'', PStr (py_head 65000 (draft_pr_body r))), (''draft'', PBool True)]"

lemma pull_is_opened:
  assumes "pull_request_of E at_github r (repair_branch E (rr_id r)) l = (res, l')"
  shows "(\<exists>ext. l' = l @ ext \<and> list_all silent ext) \<or>
    (\<exists>mid q a. l' = l @ mid @ [Asked q a] \<and> list_all silent mid \<and> git_lines mid = [] \<and> draft_of E r q)"
proof (cases "installation_token E (rr_installation_id r) l")
  case (Pair res1 l1)
  obtain mid where mid: "l1 = l @ mid" "list_all silent mid"
    using addsD [OF adds_installation_token Pair] by blast
  moreover have "git_lines mid = []" using token_adds_no_git [OF Pair] mid by auto
  moreover have "ends_with ''/pulls'' (a @ repo_path owner name @ ''/pulls'')" for a owner name
    by (simp add: ends_with_def)
  ultimately show ?thesis
  proof (cases res1)
    case (Inl e)
    then show ?thesis using assms Pair mid
      by (auto simp: pull_request_of_def create_draft_pull_request_def and_then_def)
  next
    case (Inr token)
    obtain q a where "l' = l1 @ [Asked q a]" "draft_of E r q"
      using assms Pair Inr \<open>\<And>a owner name. ends_with ''/pulls'' (a @ repo_path owner name @ ''/pulls'')\<close>
      by (auto simp: pull_request_of_def create_draft_pull_request_def and_then_def github_request_def Let_def draft_of_def
          opens_pull_def)
    then show ?thesis using mid \<open>git_lines mid = []\<close> by auto
  qed
qed

lemma publication_outcome:
  assumes "publish_pull E repository run r l = (res, l')"
  shows "(\<exists>ext. l' = l @ ext \<and> list_all silent ext) \<or>
    (\<exists>mid q a u diff_text. l' = l @ mid @ [Asked q a] \<and> list_all silent mid \<and> draft_of E r q \<and> run = Some u \<and>
       u_final_diff u = Some diff_text \<and> diff_text \<noteq> [] \<and> pushed r (repair_branch E (rr_id r)) diff_text (git_lines mid))"
proof (cases "\<exists>repo u diff_text at_github. repository = Some repo \<and> run = Some u \<and> u_final_diff u = Some diff_text \<and>
    diff_text \<noteq> [] \<and> github_repository_name E (rp_repo_url repo) = Inr at_github")
  case False
  then have "l' = l" using assms
    by (auto simp: publish_pull_def fail_with_def and_then_def lifted_def split: option.splits if_splits sum.splits)
  then show ?thesis by simp
next
  case True
  then obtain repo u diff_text at_github where given: "repository = Some repo" "run = Some u"
    "u_final_diff u = Some diff_text" "diff_text \<noteq> []" "github_repository_name E (rp_repo_url repo) = Inr at_github"
    by blast
  let ?branch = "repair_branch E (rr_id r)"
  obtain res1 l1 where push: "push_verified_patch E repo r ?branch diff_text l = (res1, l1)"
    by (cases "push_verified_patch E repo r ?branch diff_text l")
  show ?thesis
  proof (cases res1)
    case (Inl e)
    then have "l' = l1" using assms given push by (simp add: publish_pull_def and_then_def lifted_def Let_def)
    then show ?thesis using addsD [OF adds_push_verified_patch push] by blast
  next
    case (Inr ok)
    obtain ext where ext: "l1 = l @ ext" "list_all silent ext" "pushed r ?branch diff_text (git_lines ext)"
      using push_succeeds [of E repo r ?branch diff_text l l1] push Inr by auto
    obtain res2 l2 where pull: "pull_request_of E at_github r ?branch l1 = (res2, l2)"
      by (cases "pull_request_of E at_github r ?branch l1")
    have "l' = l2" using assms given push Inr pull
      by (auto simp: publish_pull_def and_then_def lifted_def Let_def give_def split: sum.splits)
    then show ?thesis using pull_is_opened [OF pull] ext given
      by (elim disjE exE conjE) auto
  qed
qed

section \<open>The state machine of the repairs\<close>

text \<open>
  The graph of a run touches the row of that run only and writes no unproved verdict into it; other jobs (resumptions, approvals,
  runs of other kinds) leave finished runs alone and store no verdict without evidence; repositories are indexed again but
  keep their owner.
\<close>

definition graph_keeps_others :: "graph_env \<Rightarrow> string \<Rightarrow> bool" where
  "graph_keeps_others G k \<longleftrightarrow>
     (\<forall>state d r d'. ge_start G k state d = (r, d') \<or> ge_continue G k d = (r, d') \<longrightarrow>
        (\<forall>other. other \<noteq> k \<longrightarrow> db_runs d' other = db_runs d other))"

definition finished :: "run_row \<Rightarrow> bool" where
  "finished run \<longleftrightarrow> u_status run \<in> TERMINAL_AGENT_RUN_STATUSES"

definition runs_move_on :: "db \<Rightarrow> db \<Rightarrow> bool" where
  "runs_move_on d d' \<longleftrightarrow>
     (\<forall>k run. db_runs d k = Some run \<and> finished run \<longrightarrow> db_runs d' k = Some run) \<and>
     ((\<forall>k run. db_runs d k = Some run \<longrightarrow> backed run) \<longrightarrow> (\<forall>k run. db_runs d' k = Some run \<longrightarrow> backed run))"

definition owners_stay :: "ci_state \<Rightarrow> (string \<Rightarrow> repository_row option) \<Rightarrow> bool" where
  "owners_stay st rs \<longleftrightarrow> (\<forall>k repo. cs_repositories st k = Some repo \<longrightarrow>
     (\<exists>repo'. rs k = Some repo' \<and> rp_owner_id repo' = rp_owner_id repo))"

inductive ci_step :: "github_env \<Rightarrow> ci_state \<Rightarrow> ci_state \<Rightarrow> bool" for E where
  started: "api_start_repair E t k rid caller repo installation workflow_run_id st = (answer, st') \<Longrightarrow> ci_step E st st'"
| agent_ran: "graph_keeps_backed G k \<Longrightarrow> graph_keeps_others G k \<Longrightarrow> ci_step E st (run_agent_job G t t' initial k st)"
| synced: "ci_step E st (snd (sync_agent_result t k st))"
| was_decided: "api_decide E t t' rid caller approved approval_note st = (answer, st') \<Longrightarrow> ci_step E st st'"
| died_publishing: "get_for_owner rid caller st = Some r \<Longrightarrow> rr_status r = ''waiting_approval'' \<Longrightarrow>
    st1 = commit_decision t rid caller approval_note True st \<Longrightarrow>
    seen = drop (length (cs_log st1)) (cs_log (publish_decided E t' rid st1)) \<Longrightarrow>
    ci_step E st (st1\<lparr>cs_log := cs_log st1 @ take n seen\<rparr>)"
| elsewhere: "runs_move_on (cs_db st) d \<Longrightarrow> owners_stay st rs \<Longrightarrow> ci_step E st (st\<lparr>cs_db := d, cs_repositories := rs\<rparr>)"

definition ci_fresh :: "ci_state \<Rightarrow> bool" where
  "ci_fresh st \<longleftrightarrow> cs_repairs st = [] \<and> cs_log st = [] \<and> (\<forall>k run. db_runs (cs_db st) k = Some run \<longrightarrow> backed run)"

definition ci_reachable :: "github_env \<Rightarrow> ci_state \<Rightarrow> bool" where
  "ci_reachable E st \<longleftrightarrow> (\<exists>st0. ci_fresh st0 \<and> (ci_step E)\<^sup>*\<^sup>* st0 st)"

section \<open>The invariant\<close>

definition repair_core ::
  "repair_row \<Rightarrow> (string \<times> string \<times> string \<times> string \<times> string) \<times> (pyval \<times> string \<times> string) \<times> string option" where
  "repair_core r = ((rr_id r, rr_repo_id r, rr_run_id r, rr_installation_id r, rr_workflow_run_id r),
     (rr_workflow_url r, rr_head_sha r, rr_base_branch r), rr_approved_by r)"

definition verified_run :: "ci_state \<Rightarrow> repair_row \<Rightarrow> string \<Rightarrow> bool" where
  "verified_run st r diff_text \<longleftrightarrow> (\<exists>run. db_runs (cs_db st) (rr_run_id r) = Some run \<and>
     u_status run = status_str VERIFIED_SUCCESS \<and> u_final_diff run = Some diff_text \<and> diff_text \<noteq> [])"

definition owned_by :: "ci_state \<Rightarrow> repair_row \<Rightarrow> string \<Rightarrow> bool" where
  "owned_by st r who \<longleftrightarrow> (\<exists>repo. cs_repositories st (rr_repo_id r) = Some repo \<and> rp_owner_id repo = who)"

definition REPAIR_STATUSES :: "string set" where
  "REPAIR_STATUSES = {''fixing'', ''waiting_approval'', ''rejected'', ''creating_draft'', ''draft_pr_created'', ''fix_failed'', ''failed''}"

definition row_ok :: "ci_state \<Rightarrow> repair_row \<Rightarrow> bool" where
  "row_ok st r \<longleftrightarrow> rr_status r \<in> REPAIR_STATUSES \<and>
     (rr_status r = ''waiting_approval'' \<or> rr_approved_by r \<noteq> None \<longrightarrow> (\<exists>diff_text. verified_run st r diff_text)) \<and>
     (rr_status r \<in> {''fixing'', ''waiting_approval''} \<longrightarrow> rr_approved_by r = None) \<and>
     (rr_status r \<in> {''creating_draft'', ''draft_pr_created'', ''rejected''} \<longrightarrow> rr_approved_by r \<noteq> None) \<and>
     (\<forall>who. rr_approved_by r = Some who \<longrightarrow> owned_by st r who)"

definition repair_key :: "repair_row \<Rightarrow> string \<times> string" where
  "repair_key r = (rr_repo_id r, rr_workflow_run_id r)"

definition rows_ok :: "ci_state \<Rightarrow> bool" where
  "rows_ok st \<longleftrightarrow> distinct (map rr_id (cs_repairs st)) \<and> distinct (map rr_run_id (cs_repairs st)) \<and>
     distinct (map repair_key (cs_repairs st)) \<and>
     (\<forall>r \<in> set (cs_repairs st). row_ok st r) \<and> (\<forall>k run. db_runs (cs_db st) k = Some run \<longrightarrow> backed run)"

text \<open>
  What stands before a request that opens a pull request: the recorded approval of a repair, its publication, and nothing else
  that opens a pull request or decides a repair in between.
\<close>

definition licensed :: "github_env \<Rightarrow> ci_state \<Rightarrow> outside list \<Rightarrow> http_request \<Rightarrow> bool" where
  "licensed E st pre q \<longleftrightarrow> (\<exists>r r0 who diff_text before mid.
     r \<in> set (cs_repairs st) \<and> rr_approved_by r = Some who \<and> owned_by st r who \<and> verified_run st r diff_text \<and>
     repair_core r0 = repair_core r \<and> pre = before @ Recorded (decision_step r0 True) # mid \<and> list_all silent mid \<and>
     pushed r (repair_branch E (rr_id r)) diff_text (git_lines mid) \<and> draft_of E r q)"

definition pulls_ok :: "github_env \<Rightarrow> ci_state \<Rightarrow> bool" where
  "pulls_ok E st \<longleftrightarrow> (\<forall>pre q a post. cs_log st = pre @ Asked q a # post \<longrightarrow> opens_pull q \<longrightarrow> licensed E st pre q)"

definition decided_repair :: "ci_state \<Rightarrow> string \<Rightarrow> bool" where
  "decided_repair st i \<longleftrightarrow> (\<exists>r \<in> set (cs_repairs st). rr_id r = i \<and> rr_approved_by r \<noteq> None)"

definition decisions_ok :: "ci_state \<Rightarrow> bool" where
  "decisions_ok st \<longleftrightarrow> distinct (map fst (decisions (cs_log st))) \<and>
     (\<forall>i \<in> fst ` set (decisions (cs_log st)). decided_repair st i)"

definition ci_inv :: "github_env \<Rightarrow> ci_state \<Rightarrow> bool" where
  "ci_inv E st \<longleftrightarrow> rows_ok st \<and> pulls_ok E st \<and> decisions_ok st"

lemma repair_core_eq: "repair_core r = repair_core r' \<longleftrightarrow> rr_id r = rr_id r' \<and> rr_repo_id r = rr_repo_id r' \<and>
    rr_run_id r = rr_run_id r' \<and> rr_installation_id r = rr_installation_id r' \<and> rr_workflow_run_id r = rr_workflow_run_id r' \<and>
    rr_workflow_url r = rr_workflow_url r' \<and> rr_head_sha r = rr_head_sha r' \<and> rr_base_branch r = rr_base_branch r' \<and>
    rr_approved_by r = rr_approved_by r'"
  by (simp add: repair_core_def)

lemma core_cong:
  assumes "repair_core r' = repair_core r"
  shows "pushed r' = pushed r" "draft_of E r' = draft_of E r" "rr_id r' = rr_id r" "rr_approved_by r' = rr_approved_by r"
    "owned_by st r' = owned_by st r" "verified_run st r' = verified_run st r"
  using assms
  by (auto simp: repair_core_eq pushed_def publication_script_def commit_arguments_def draft_of_def draft_pr_body_def
      owned_by_def verified_run_def fun_eq_iff)

text \<open>What a later state keeps: decided repairs, finished runs and owners.\<close>

definition later :: "ci_state \<Rightarrow> ci_state \<Rightarrow> bool" where
  "later st st' \<longleftrightarrow>
     (\<forall>r \<in> set (cs_repairs st). rr_approved_by r \<noteq> None \<longrightarrow> (\<exists>r' \<in> set (cs_repairs st'). repair_core r' = repair_core r)) \<and>
     (\<forall>k run. db_runs (cs_db st) k = Some run \<and> finished run \<longrightarrow> db_runs (cs_db st') k = Some run) \<and>
     owners_stay st (cs_repositories st')"

lemma owners_stay_refl [simp]: "owners_stay st (cs_repositories st)"
  by (simp add: owners_stay_def)

lemma verified_later: "later st st' \<Longrightarrow> verified_run st r d \<Longrightarrow> verified_run st' r d"
  by (fastforce simp: later_def verified_run_def finished_def TERMINAL_AGENT_RUN_STATUSES_def)

lemma owned_later: "later st st' \<Longrightarrow> owned_by st r who \<Longrightarrow> owned_by st' r who"
  by (fastforce simp: later_def owned_by_def owners_stay_def)

lemma licensed_later:
  assumes "later st st'" "licensed E st pre q"
  shows "licensed E st' pre q"
proof -
  obtain r r0 who diff_text before mid where r: "r \<in> set (cs_repairs st)" "rr_approved_by r = Some who" "owned_by st r who"
    "verified_run st r diff_text" and rest: "repair_core r0 = repair_core r" "pre = before @ Recorded (decision_step r0 True) # mid"
    "list_all silent mid" "pushed r (repair_branch E (rr_id r)) diff_text (git_lines mid)" "draft_of E r q"
    using assms(2) unfolding licensed_def by blast
  obtain r' where "r' \<in> set (cs_repairs st')" "repair_core r' = repair_core r" using assms(1) r(1,2) by (auto simp: later_def)
  moreover note core_cong [OF this(2)]
  moreover have "owned_by st' r' who" "verified_run st' r' diff_text"
    using owned_later [OF assms(1)] verified_later [OF assms(1)] r(3,4) core_cong [OF \<open>repair_core r' = repair_core r\<close>] by simp_all
  ultimately show ?thesis using r rest unfolding licensed_def by (intro exI [of _ r'] exI [of _ r0] exI [of _ who] exI [of _ diff_text] exI [of _ before] exI [of _ mid]) auto
qed

lemma silent_no_pull: "list_all silent ext \<Longrightarrow> Asked q a \<in> set ext \<Longrightarrow> \<not> opens_pull q"
  by (auto simp: list_all_iff)

lemma pulls_ok_extend:
  assumes "pulls_ok E st" "later st st'" "cs_log st' = cs_log st @ ext" "list_all silent ext"
  shows "pulls_ok E st'"
  unfolding pulls_ok_def
proof (intro allI impI)
  fix pre q a post
  assume split: "cs_log st' = pre @ Asked q a # post" and pull: "opens_pull q"
  then have "Asked q a \<notin> set ext" using silent_no_pull [OF assms(4)] by blast
  then obtain post' where "cs_log st = pre @ Asked q a # post'"
    using split assms(3) by (auto simp: append_eq_append_conv2 append_eq_Cons_conv Cons_eq_append_conv)
  then show "licensed E st' pre q" using assms(1,2) pull licensed_later unfolding pulls_ok_def by blast
qed


section \<open>What keeps the invariant\<close>

lemma row_ok_later: "later st st' \<Longrightarrow> row_ok st r \<Longrightarrow> row_ok st' r"
  unfolding row_ok_def using verified_later owned_later by blast

lemma inv_log:
  assumes "ci_inv E st" "list_all silent ext"
  shows "ci_inv E (st\<lparr>cs_log := cs_log st @ ext\<rparr>)"
proof -
  let ?st = "st\<lparr>cs_log := cs_log st @ ext\<rparr>"
  have later: "later st ?st" by (auto simp: later_def)
  then have "rows_ok ?st" using assms(1) row_ok_later [OF later] by (auto simp: ci_inv_def rows_ok_def)
  moreover have "pulls_ok E ?st" using assms by (intro pulls_ok_extend [OF _ later]) (auto simp: ci_inv_def)
  ultimately show ?thesis using assms by (auto simp: ci_inv_def decisions_ok_def decided_repair_def quiet_decisions)
qed

lemma inv_db:
  assumes "ci_inv E st" "runs_move_on (cs_db st) d" "owners_stay st rs"
  shows "ci_inv E (st\<lparr>cs_db := d, cs_repositories := rs\<rparr>)"
proof -
  let ?st = "st\<lparr>cs_db := d, cs_repositories := rs\<rparr>"
  have later: "later st ?st" using assms(2,3) by (auto simp: later_def runs_move_on_def)
  have "rows_ok ?st" using assms(1,2) row_ok_later [OF later] by (auto simp: ci_inv_def rows_ok_def runs_move_on_def)
  moreover have "pulls_ok E ?st" using assms(1) by (intro pulls_ok_extend [OF _ later, of _ "[]"]) (auto simp: ci_inv_def)
  ultimately show ?thesis using assms(1) by (auto simp: ci_inv_def decisions_ok_def decided_repair_def)
qed

lemma inv_new:
  assumes "ci_inv E st" "unique_repair r (cs_repairs st)" "rr_status r = ''fixing''" "rr_approved_by r = None"
  shows "ci_inv E (st\<lparr>cs_repairs := cs_repairs st @ [r]\<rparr>)"
proof -
  let ?st = "st\<lparr>cs_repairs := cs_repairs st @ [r]\<rparr>"
  have later: "later st ?st" by (auto simp: later_def)
  have "row_ok ?st r" using assms(3,4) by (simp add: row_ok_def REPAIR_STATUSES_def)
  then have "rows_ok ?st" using assms(1,2) row_ok_later [OF later]
    by (auto simp: ci_inv_def rows_ok_def unique_repair_def repair_key_def)
  moreover have "pulls_ok E ?st" using assms(1) by (intro pulls_ok_extend [OF _ later, of _ "[]"]) (auto simp: ci_inv_def)
  ultimately show ?thesis using assms(1) by (auto simp: ci_inv_def decisions_ok_def decided_repair_def)
qed

lemma repair_at_mem: "repair_at rid st = Some r \<Longrightarrow> r \<in> set (cs_repairs st) \<and> rr_id r = rid"
  unfolding repair_at_def by (auto simp: find_Some_iff)

lemma change_repair_fields [simp]:
  "cs_db (change_repair rid f st) = cs_db st" "cs_log (change_repair rid f st) = cs_log st"
  "cs_repositories (change_repair rid f st) = cs_repositories st"
  "cs_repairs (change_repair rid f st) = map (\<lambda>r. if rr_id r = rid then f r else r) (cs_repairs st)"
  by (simp_all add: change_repair_def)

lemma one_row:
  assumes "rows_ok st" "repair_at rid st = Some r" "x \<in> set (cs_repairs st)" "rr_id x = rid"
  shows "x = r"
  using assms repair_at_mem [OF assms(2)] by (auto simp: rows_ok_def distinct_map dest: inj_onD)

lemma repair_at_changed:
  assumes "repair_at rid st = Some r" "\<And>x. rr_id (f x) = rr_id x"
  shows "repair_at rid (change_repair rid f st) = Some (f r)"
proof -
  have "find (\<lambda>r. rr_id r = rid) (map (\<lambda>r. if rr_id r = rid then f r else r) rs) = map_option f (find (\<lambda>r. rr_id r = rid) rs)" for rs
    by (induction rs) (auto simp: assms(2))
  then show ?thesis using assms(1) by (simp add: repair_at_def)
qed

lemma changed_mem:
  "x \<in> set (cs_repairs st) \<Longrightarrow> (if rr_id x = rid then f x else x) \<in> set (cs_repairs (change_repair rid f st))"
  by (simp add: image_iff) blast

lemma later_changed:
  assumes "rows_ok st" "repair_at rid st = Some r" "\<And>x. repair_core (f x) = repair_core x \<or> rr_approved_by r = None"
  shows "later st (change_repair rid f st)"
proof -
  have "\<exists>r' \<in> set (cs_repairs (change_repair rid f st)). repair_core r' = repair_core x"
    if "x \<in> set (cs_repairs st)" "rr_approved_by x \<noteq> None" for x
    using changed_mem [OF that(1), of rid f] assms(3) [of x] that one_row [OF assms(1,2) that(1)]
    by (intro bexI [OF _ changed_mem [OF that(1), of rid f]]) auto
  then show ?thesis by (simp add: later_def del: change_repair_fields(4))
qed

lemma decided_row_kept:
  assumes "decided_repair st i"
    and "\<And>x. rr_id (f x) = rr_id x" "\<And>x. rr_approved_by x \<noteq> None \<Longrightarrow> rr_approved_by (f x) \<noteq> None"
  shows "decided_repair (change_repair rid f st) i"
proof -
  obtain x where x: "x \<in> set (cs_repairs st)" "rr_id x = i" "rr_approved_by x \<noteq> None"
    using assms(1) by (auto simp: decided_repair_def)
  then show ?thesis using assms(2,3) unfolding decided_repair_def by (intro bexI [OF _ changed_mem [OF x(1), of rid f]]) auto
qed

lemma rows_changed:
  assumes rows: "rows_ok st" and at: "repair_at rid st = Some r" and later: "later st (change_repair rid f st)"
    and ids: "\<And>x. rr_id (f x) = rr_id x" "\<And>x. rr_run_id (f x) = rr_run_id x" "\<And>x. repair_key (f x) = repair_key x" and ok: "row_ok st (f r)"
  shows "rows_ok (change_repair rid f st)"
proof -
  let ?st = "change_repair rid f st"
  have maps: "map rr_id (cs_repairs ?st) = map rr_id (cs_repairs st)" "map rr_run_id (cs_repairs ?st) = map rr_run_id (cs_repairs st)"
    "map repair_key (cs_repairs ?st) = map repair_key (cs_repairs st)"
    by (simp_all add: ids)
  have "row_ok ?st x" if "x \<in> set (cs_repairs ?st)" for x
    using that row_ok_later [OF later] rows ok one_row [OF rows at] by (auto simp: rows_ok_def)
  then show ?thesis using rows unfolding rows_ok_def maps by (simp del: change_repair_fields(4))
qed

lemma inv_status:
  assumes "ci_inv E st" "repair_at rid st = Some r" "\<And>x. repair_core (f x) = repair_core x" "row_ok st (f r)"
  shows "ci_inv E (change_repair rid f st)"
proof -
  let ?st = "change_repair rid f st"
  have rows: "rows_ok st" using assms(1) by (simp add: ci_inv_def)
  have later: "later st ?st" using later_changed [OF rows assms(2)] assms(3) by blast
  have ids: "rr_id (f x) = rr_id x" "rr_run_id (f x) = rr_run_id x" "rr_approved_by (f x) = rr_approved_by x"
    "repair_key (f x) = repair_key x" for x
    using assms(3) [of x] by (simp_all add: repair_core_eq repair_key_def)
  have "rows_ok ?st" using rows_changed [OF rows assms(2) later ids(1,2,4) assms(4)] .
  moreover have "pulls_ok E ?st" using assms(1) by (intro pulls_ok_extend [OF _ later, of _ "[]"]) (auto simp: ci_inv_def)
  moreover have "decisions_ok ?st" using assms(1) decided_row_kept [of st _ f, OF _ ids(1)] ids(3)
    by (simp add: ci_inv_def decisions_ok_def)
  ultimately show ?thesis by (simp add: ci_inv_def)
qed

text \<open>A decision is the first of its repair, and recorded with the row it leaves.\<close>

lemma committed_decision:
  assumes "repair_at rid st = Some r"
  shows "commit_decision t rid approver approval_note approved st =
     (change_repair rid (decided t approver approval_note approved) st)
       \<lparr>cs_log := cs_log st @ [Recorded (decision_step (decided t approver approval_note approved r) approved)]\<rparr>"
  using repair_at_changed [OF assms, of "decided t approver approval_note approved"]
  by (simp add: commit_decision_def note_of_def note_step_def decided_def)

lemma inv_decided:
  assumes inv: "ci_inv E st" and at: "repair_at rid st = Some r" and waits: "rr_status r = ''waiting_approval''"
    and owner: "owned_by st r approver"
  shows "ci_inv E (commit_decision t rid approver approval_note approved st)"
proof -
  let ?f = "decided t approver approval_note approved"
  let ?st1 = "change_repair rid ?f st"
  let ?step = "Recorded (decision_step (?f r) approved)"
  let ?st = "?st1\<lparr>cs_log := cs_log st @ [?step]\<rparr>"
  have rows: "rows_ok st" using inv by (simp add: ci_inv_def)
  have ok: "row_ok st r" using rows repair_at_mem [OF at] by (auto simp: rows_ok_def)
  have undecided: "rr_approved_by r = None" using ok waits by (simp add: row_ok_def)
  have later: "later st ?st1" using later_changed [OF rows at] undecided by blast
  then have later': "later st ?st" by (simp add: later_def)
  have fields: "rr_id (?f x) = rr_id x" "rr_run_id (?f x) = rr_run_id x" "repair_key (?f x) = repair_key x" for x
    by (simp_all add: decided_def repair_key_def)
  have "row_ok st (?f r)" using ok waits owner
    by (auto simp: row_ok_def decided_def REPAIR_STATUSES_def owned_by_def verified_run_def)
  then have "rows_ok ?st1" by (intro rows_changed [OF rows at later]) (simp_all add: fields)
  moreover have "row_ok ?st = row_ok ?st1" by (simp add: fun_eq_iff row_ok_def owned_by_def verified_run_def)
  ultimately have "rows_ok ?st" by (simp add: rows_ok_def)
  moreover have "pulls_ok E ?st" unfolding pulls_ok_def
  proof (intro allI impI)
    fix pre q a post
    assume "cs_log ?st = pre @ Asked q a # post" "opens_pull q"
    moreover then obtain post' where "cs_log st = pre @ Asked q a # post'" by (cases post rule: rev_cases) auto
    ultimately show "licensed E ?st pre q" using inv licensed_later [OF later'] by (auto simp: ci_inv_def pulls_ok_def)
  qed
  moreover have "decisions_ok ?st"
  proof -
    have "\<not> decided_repair st rid" using one_row [OF rows at] undecided by (auto simp: decided_repair_def)
    then have "rid \<notin> fst ` set (decisions (cs_log st))" using inv by (auto simp: ci_inv_def decisions_ok_def)
    moreover have "decisions [?step] = [(rid, approved)]"
      using repair_at_mem [OF at] by (simp add: decisions_decision fields)
    moreover have "decided_repair ?st1 i" if "i \<in> fst ` set (decisions (cs_log st))" for i
      using that inv by (intro decided_row_kept) (auto simp: ci_inv_def decisions_ok_def decided_def)
    moreover have "decided_repair ?st1 rid"
      using repair_at_mem [OF at] unfolding decided_repair_def
      by (intro bexI [OF _ changed_mem [of r st rid ?f]]) (simp_all add: decided_def)
    moreover have "decided_repair ?st = decided_repair ?st1" by (simp add: fun_eq_iff decided_repair_def)
    ultimately show ?thesis using inv unfolding decisions_ok_def ci_inv_def by simp
  qed
  ultimately show ?thesis unfolding committed_decision [OF at] by (simp add: ci_inv_def)
qed

text \<open>The entries of a publication keep the invariant wherever they stop.\<close>

lemma pulls_ok_snoc:
  assumes "pulls_ok E st" "opens_pull q \<Longrightarrow> licensed E st (cs_log st) q"
  shows "pulls_ok E (st\<lparr>cs_log := cs_log st @ [Asked q a]\<rparr>)"
proof -
  let ?st = "st\<lparr>cs_log := cs_log st @ [Asked q a]\<rparr>"
  have same: "licensed E ?st pre p = licensed E st pre p" for pre p
    by (simp add: licensed_def owned_by_def verified_run_def)
  show ?thesis
    unfolding pulls_ok_def same
  proof (intro allI impI)
    fix pre p b post
    assume "cs_log ?st = pre @ Asked p b # post" "opens_pull p"
    then show "licensed E st pre p" using assms by (cases post rule: rev_cases) (auto simp: pulls_ok_def)
  qed
qed

lemma inv_published:
  assumes inv: "ci_inv E st" and at: "repair_at rid st = Some r" and creating: "rr_status r = ''creating_draft''"
    and logged: "cs_log st = before @ [Recorded (decision_step r True)]"
    and run: "publish_pull E repository (db_runs (cs_db st) (rr_run_id r)) r (cs_log st) = (res, cs_log st @ seen)"
  shows "ci_inv E (st\<lparr>cs_log := cs_log st @ take n seen\<rparr>)"
  using publication_outcome [OF run]
proof (elim disjE exE conjE)
  fix ext
  assume "cs_log st @ seen = cs_log st @ ext" "list_all silent ext"
  then show ?thesis using inv by (intro inv_log) (auto simp: list_all_iff dest: in_set_takeD)
next
  fix mid q a u diff_text
  assume seen: "cs_log st @ seen = cs_log st @ mid @ [Asked q a]" and mid: "list_all silent mid" and q: "draft_of E r q"
    and u: "db_runs (cs_db st) (rr_run_id r) = Some u" "u_final_diff u = Some diff_text" "diff_text \<noteq> []"
    and pushed: "pushed r (repair_branch E (rr_id r)) diff_text (git_lines mid)"
  have mem: "r \<in> set (cs_repairs st)" and ok: "row_ok st r"
    using inv repair_at_mem [OF at] by (auto simp: ci_inv_def rows_ok_def)
  then obtain who d where who: "rr_approved_by r = Some who" "owned_by st r who" "verified_run st r d"
    using creating by (auto simp: row_ok_def)
  then have "verified_run st r diff_text" using u by (auto simp: verified_run_def)
  let ?st = "st\<lparr>cs_log := cs_log st @ mid\<rparr>"
  have inv1: "ci_inv E ?st" by (rule inv_log [OF inv mid])
  have "licensed E ?st (cs_log ?st) q"
    using who \<open>verified_run st r diff_text\<close> mem mid q pushed logged unfolding licensed_def
    by (intro exI [of _ r] exI [of _ who] exI [of _ diff_text] exI [of _ before] exI [of _ mid])
       (auto simp: owned_by_def verified_run_def)
  then have "pulls_ok E (?st\<lparr>cs_log := cs_log ?st @ [Asked q a]\<rparr>)"
    using inv1 by (intro pulls_ok_snoc) (auto simp: ci_inv_def)
  moreover have "decisions [Asked q a] = []" by (simp add: decisions_def List.map_filter_def decision_of_def)
  ultimately have inv2: "ci_inv E (st\<lparr>cs_log := cs_log st @ mid @ [Asked q a]\<rparr>)"
    using inv1 by (simp add: ci_inv_def rows_ok_def decisions_ok_def decided_repair_def row_ok_def owned_by_def verified_run_def)
  show ?thesis
  proof (cases "n \<le> length mid")
    case True
    then show ?thesis using seen mid inv by (intro inv_log) (auto simp: list_all_iff dest: in_set_takeD)
  next
    case False
    then show ?thesis using seen inv2 by simp
  qed
qed

lemma publish_adds:
  assumes "publish_pull E repository run r l = (res, l')"
  shows "\<exists>seen. l' = l @ seen"
  using publication_outcome [OF assms] by auto

lemma inv_publish_decided:
  assumes inv: "ci_inv E st" and at: "repair_at rid st = Some r" and creating: "rr_status r = ''creating_draft''"
    and logged: "cs_log st = before @ [Recorded (decision_step r True)]"
  shows "ci_inv E (publish_decided E t rid st)"
    and "ci_inv E (st\<lparr>cs_log := cs_log st @ take n (drop (length (cs_log st)) (cs_log (publish_decided E t rid st)))\<rparr>)"
proof -
  let ?m = "publish_pull E (cs_repositories st (rr_repo_id r)) (db_runs (cs_db st) (rr_run_id r)) r"
  obtain res l' where run: "?m (cs_log st) = (res, l')" by (cases "?m (cs_log st)")
  then obtain seen where seen: "l' = cs_log st @ seen" using publish_adds by blast
  let ?st1 = "st\<lparr>cs_log := cs_log st @ seen\<rparr>"
  note taken = inv_published [OF inv at creating logged run [unfolded seen]]
  have inv1: "ci_inv E ?st1" using taken [of "length seen"] by simp
  have at1: "repair_at rid ?st1 = Some r" using at by (simp add: repair_at_def)
  have ok: "row_ok ?st1 r" using inv1 repair_at_mem [OF at1] by (auto simp: ci_inv_def rows_ok_def)
  have id: "rr_id r = rid" using repair_at_mem [OF at] by simp
  have moved: "ci_inv E (change_repair rid f ?st1)"
    if "\<And>x. repair_core (f x) = repair_core x" "rr_status (f r) \<in> {''failed'', ''draft_pr_created''}" for f
  proof (rule inv_status [OF inv1 at1 that(1)])
    have "owned_by ?st1 (f r) = owned_by ?st1 r" "verified_run ?st1 (f r) = verified_run ?st1 r" "rr_approved_by (f r) = rr_approved_by r"
      using core_cong [OF that(1) [of r]] by simp_all
    then show "row_ok ?st1 (f r)" using ok that(2) creating by (auto simp: row_ok_def REPAIR_STATUSES_def)
  qed
  have "\<exists>more. cs_log (publish_decided E t rid st) = cs_log st @ seen @ more \<and> list_all silent more \<and>
     (\<exists>f. publish_decided E t rid st = (change_repair rid f ?st1)\<lparr>cs_log := cs_log st @ seen @ more\<rparr> \<and>
        (\<forall>x. repair_core (f x) = repair_core x) \<and> rr_status (f r) \<in> {''failed'', ''draft_pr_created''})"
  proof (cases res)
    case (Inl e)
    let ?f = "\<lambda>x. x\<lparr>rr_status := ''failed'', rr_error_message := Some (py_head 2000 (failure_text e)), rr_updated_at := t\<rparr>"
    have "publish_decided E t rid st = change_repair rid ?f ?st1"
      using at run seen Inl by (simp add: publish_decided_def running_eff_def)
    then show ?thesis by (intro exI [of _ "[]"] conjI exI [of _ ?f]) (simp_all add: repair_core_def)
  next
    case (Inr pr)
    obtain branch answer where pr: "pr = (branch, answer)" by (cases pr)
    show ?thesis
    proof (cases "number_of_pull_request E answer")
      case (Inl e)
      let ?f = "\<lambda>x. x\<lparr>rr_status := ''failed'', rr_branch_name := Some branch,
         rr_error_message := Some (py_head 2000 (failure_text e)), rr_updated_at := t\<rparr>"
      have "publish_decided E t rid st = change_repair rid ?f ?st1"
        using at run seen Inr Inl pr by (simp add: publish_decided_def running_eff_def)
      then show ?thesis by (intro exI [of _ "[]"] conjI exI [of _ ?f]) (simp_all add: repair_core_def)
    next
      case number: (Inr n)
      let ?f = "\<lambda>x. x\<lparr>rr_status := ''draft_pr_created'', rr_branch_name := Some branch, rr_pull_request_number := Some n,
         rr_pull_request_url := (let url = value_text (dget answer ''html_url'') [] in if url = [] then None else Some url),
         rr_error_message := None, rr_updated_at := t\<rparr>"
      have "publish_decided E t rid st = note_of rid created_step (change_repair rid ?f ?st1)"
        using at run seen Inr number pr by (simp add: publish_decided_def running_eff_def)
      also have "\<dots> = (change_repair rid ?f ?st1)\<lparr>cs_log := cs_log st @ seen @ [Recorded (created_step (?f r))]\<rparr>"
        using repair_at_changed [OF at1, of ?f] by (simp add: note_of_def note_step_def)
      finally show ?thesis
        by (intro exI [of _ "[Recorded (created_step (?f r))]"] conjI exI [of _ ?f]) (simp_all add: repair_core_def created_step_def)
    qed
  qed
  then obtain more f where log: "cs_log (publish_decided E t rid st) = cs_log st @ seen @ more" and more: "list_all silent more"
    and result: "publish_decided E t rid st = (change_repair rid f ?st1)\<lparr>cs_log := cs_log st @ seen @ more\<rparr>"
    and f: "\<And>x. repair_core (f x) = repair_core x" "rr_status (f r) \<in> {''failed'', ''draft_pr_created''}" by blast
  show "ci_inv E (publish_decided E t rid st)"
    using inv_log [OF moved [OF f] more] unfolding result by simp
  have "ci_inv E (?st1\<lparr>cs_log := cs_log ?st1 @ take k more\<rparr>)" for k
    by (rule inv_log [OF inv1]) (use more in \<open>auto simp: list_all_iff dest: in_set_takeD\<close>)
  then show "ci_inv E (st\<lparr>cs_log := cs_log st @ take n (drop (length (cs_log st)) (cs_log (publish_decided E t rid st)))\<rparr>)"
    using taken [of n] unfolding log by (cases "n \<le> length seen") simp_all
qed

section \<open>Every step keeps the invariant\<close>

lemma run_fix_moves_on:
  assumes "graph_keeps_backed G k" "graph_keeps_others G k"
  shows "runs_move_on d (run_fix G t t' initial k d)"
proof (cases "db_runs d k")
  case None
  then show ?thesis by (simp add: run_fix_def runs_move_on_def)
next
  case (Some run)
  have others: "db_runs (run_fix G t t' initial k d) other = db_runs d other" if "other \<noteq> k" for other
  proof -
    have "db_runs d2 other = db_runs d1 other" if "invoke_fix_graph G k repo state d1 = (r, d2)" for repo state d1 r d2
      using that assms(2) \<open>other \<noteq> k\<close> unfolding graph_keeps_others_def invoke_fix_graph_def Let_def
      by (auto split: if_splits option.splits)
    then show ?thesis using Some that
      by (auto simp: run_fix_def Let_def finish_infra_error_def persist_unless_waiting_def persist_final_state_def
          split: prod.splits sum.splits option.splits)
  qed
  have mine: "(backed run \<longrightarrow> (\<exists>run'. db_runs (run_fix G t t' initial k d) k = Some run' \<and> backed run')) \<and>
     (finished run \<longrightarrow> run_fix G t t' initial k d = d)"
    using run_success_is_backed [OF assms(1) Some] Some by (auto simp: finished_def run_fix_def)
  show ?thesis unfolding runs_move_on_def
  proof (intro conjI allI impI)
    fix key row assume "db_runs d key = Some row \<and> finished row"
    then show "db_runs (run_fix G t t' initial k d) key = Some row" using others mine Some by (cases "key = k") auto
  next
    fix key row assume "\<forall>key row. db_runs d key = Some row \<longrightarrow> backed row" "db_runs (run_fix G t t' initial k d) key = Some row"
    then show "backed row" using others mine Some by (cases "key = k") auto
  qed
qed

lemma synced_cases:
  assumes "find (\<lambda>r. rr_run_id r = k) (cs_repairs st) = Some r" "ci_inv E st"
  shows "repair_at (rr_id r) st = Some r" "rr_run_id r = k"
proof -
  have mem: "r \<in> set (cs_repairs st)" "rr_run_id r = k" using assms(1) by (auto simp: find_Some_iff)
  then obtain x where x: "repair_at (rr_id r) st = Some x"
    by (cases "repair_at (rr_id r) st") (auto simp: repair_at_def find_None_iff)
  moreover have "rows_ok st" using assms(2) by (simp add: ci_inv_def)
  ultimately show "repair_at (rr_id r) st = Some r" using one_row mem(1) by metis
  show "rr_run_id r = k" by (rule mem)
qed

lemma inv_synced:
  assumes inv: "ci_inv E st"
  shows "ci_inv E (snd (sync_agent_result t k st))"
proof (cases "find (\<lambda>r. rr_run_id r = k) (cs_repairs st)")
  case None
  then show ?thesis using inv by (simp add: sync_agent_result_def)
next
  case (Some r)
  note at = synced_cases [OF Some inv]
  have ok: "row_ok st r" using inv repair_at_mem [OF at(1)] by (auto simp: ci_inv_def rows_ok_def)
  have moved: "ci_inv E (change_repair (rr_id r) (\<lambda>x. x\<lparr>rr_status := status, rr_error_message := message, rr_updated_at := t\<rparr>) st)"
    if "rr_status r = ''fixing''" "status \<in> {''failed'', ''fix_failed''}" for status message
    using that ok
    by (intro inv_status [OF inv at(1)]) (auto simp: repair_core_def row_ok_def REPAIR_STATUSES_def verified_run_def owned_by_def)
  have waiting: "ci_inv E (change_repair (rr_id r) (\<lambda>x. x\<lparr>rr_status := ''waiting_approval'', rr_error_message := None, rr_updated_at := t\<rparr>)
      (note_step (approval_required_step r) st))"
    if "rr_status r = ''fixing''" "db_runs (cs_db st) k = Some run" "u_status run = status_str VERIFIED_SUCCESS"
      "\<not> none_or_empty (u_final_diff run)" for run
  proof (rule inv_status)
    show "ci_inv E (note_step (approval_required_step r) st)"
      unfolding note_step_def by (intro inv_log [OF inv]) (simp add: approval_required_step_def)
    show "repair_at (rr_id r) (note_step (approval_required_step r) st) = Some r"
      using at(1) by (simp add: repair_at_def note_step_def)
    show "row_ok (note_step (approval_required_step r) st)
       (r\<lparr>rr_status := ''waiting_approval'', rr_error_message := None, rr_updated_at := t\<rparr>)"
      using ok that at(2)
      by (auto simp: row_ok_def REPAIR_STATUSES_def verified_run_def owned_by_def note_step_def none_or_empty_def)
  qed (simp add: repair_core_def)
  show ?thesis using Some inv moved waiting
    by (auto simp: sync_agent_result_def Let_def split: option.splits)
qed

lemma inv_start:
  assumes inv: "ci_inv E st" and run: "start_failed_ci_repair E t k rid repo repository installation ci_run st = (res, st')"
  shows "ci_inv E st' \<and> (\<forall>r. res = Inr r \<longrightarrow> (rr_status r = ''fixing'' \<longrightarrow> repair_at (rr_id r) st' = Some r))"
proof (cases "find (\<lambda>r. rr_repo_id r = repo \<and> rr_workflow_run_id r = ci_run) (cs_repairs st)")
  case (Some r)
  then have "r \<in> set (cs_repairs st)" by (auto simp: find_Some_iff)
  then have "repair_at (rr_id r) st = Some r"
    using one_row [of st "rr_id r"] inv unfolding ci_inv_def
    by (cases "repair_at (rr_id r) st") (auto simp: repair_at_def find_None_iff)
  then show ?thesis using Some run inv by (auto simp: start_failed_ci_repair_def)
next
  case None
  show ?thesis
  proof (cases "(\<exists>at_github. github_repository_name E (rp_repo_url repository) = Inr at_github) \<and>
      rp_status repository = ''indexed'' \<and> \<not> none_or_empty (rp_local_path repository)")
    case False
    then show ?thesis using None run inv
      by (auto simp: start_failed_ci_repair_def split: if_splits sum.splits)
  next
    case True
    then obtain owner name where gh: "github_repository_name E (rp_repo_url repository) = Inr (owner, name)" by auto
    obtain res1 l1 where read: "read_failed_workflow_run E installation owner name ci_run (cs_log st) = (res1, l1)"
      by (cases "read_failed_workflow_run E installation owner name ci_run (cs_log st)")
    then obtain ext where ext: "l1 = cs_log st @ ext" "list_all silent ext" using addsD [OF adds_read_failed read] by blast
    let ?st1 = "st\<lparr>cs_log := l1\<rparr>"
    have inv1: "ci_inv E ?st1" using inv_log [OF inv ext(2)] ext(1) by simp
    show ?thesis
    proof (cases "\<exists>f st2. res1 = Inr f \<and> cf_head_sha f \<noteq> [] \<and> cf_base_branch f \<noteq> [] \<and>
        create_agent_run t k repo (rp_owner_id repository) (repair_issue f) ?st1 = (Inr (), st2)")
      case False
      then have "st' = ?st1 \<and> (\<exists>e. res = Inl e)" using None True gh read run
        by (auto simp: start_failed_ci_repair_def running_eff_def create_agent_run_def split: if_splits sum.splits option.splits)
      then show ?thesis using inv1 by auto
    next
      case True
      then obtain f st2 where f: "res1 = Inr f" "cf_head_sha f \<noteq> []" "cf_base_branch f \<noteq> []"
        and created: "create_agent_run t k repo (rp_owner_id repository) (repair_issue f) ?st1 = (Inr (), st2)" by blast
      let ?r = "new_repair t rid repo k installation f"
      have st2: "st2 = ?st1\<lparr>cs_db := put_run k (created_run t repo (repair_issue f)) (cs_db st)\<rparr>"
        and new: "db_runs (cs_db st) k = None"
        using created by (auto simp: create_agent_run_def split: option.splits if_splits)
      have "runs_move_on (cs_db ?st1) (put_run k (created_run t repo (repair_issue f)) (cs_db st))"
        using new by (auto simp: runs_move_on_def backed_def created_run_def)
      then have inv2: "ci_inv E st2" using inv_db [OF inv1, of _ "cs_repositories st"] st2 by (simp add: owners_stay_def)
      show ?thesis
      proof (cases "unique_repair ?r (cs_repairs st2)")
        case False
        then show ?thesis using None \<open>(\<exists>at_github. _) \<and> _ \<and> _\<close> gh read run f created inv2
          by (auto simp: start_failed_ci_repair_def running_eff_def Let_def)
      next
        case True
        let ?st3 = "st2\<lparr>cs_repairs := cs_repairs st2 @ [?r]\<rparr>"
        have "ci_inv E ?st3" by (rule inv_new [OF inv2 True]) (simp_all add: new_repair_def)
        then have inv4: "ci_inv E (note_step (ci_failure_step ?r) ?st3)"
          unfolding note_step_def by (rule inv_log) (simp add: ci_failure_step_def)
        have "res = Inr ?r" "st' = note_step (ci_failure_step ?r) ?st3"
          using None \<open>(\<exists>at_github. _) \<and> _ \<and> _\<close> gh read run f created True
          by (auto simp: start_failed_ci_repair_def running_eff_def Let_def)
        moreover have "repair_at (rr_id ?r) ?st3 = Some ?r"
        proof -
          have "find P (xs @ [x]) = Some x" if "\<forall>y \<in> set xs. \<not> P y" "P x" for P and xs and x :: repair_row
            using that by (induction xs) auto
          then show ?thesis using True by (simp add: repair_at_def unique_repair_def)
        qed
        ultimately show ?thesis using inv4 by (simp add: repair_at_def note_step_def)
      qed
    qed
  qed
qed

lemma owned_repair: "get_for_owner rid caller st = Some r \<Longrightarrow> repair_at rid st = Some r \<and> owned_by st r caller"
  by (auto simp: get_for_owner_def owned_by_def split: option.splits if_splits)

lemma synced_row:
  assumes inv: "ci_inv E st" and at: "repair_at rid st = Some r"
  shows "\<exists>r'. repair_at rid (snd (sync_agent_result t k st)) = Some r' \<and> repair_core r' = repair_core r"
    "cs_repositories (snd (sync_agent_result t k st)) = cs_repositories st"
proof -
  have kept: "\<exists>r'. repair_at rid (change_repair i (\<lambda>x. x\<lparr>rr_status := status, rr_error_message := message, rr_updated_at := t\<rparr>) st1) = Some r' \<and>
      repair_core r' = repair_core r" if "cs_repairs st1 = cs_repairs st" for i status message st1
  proof -
    have "find (\<lambda>r. rr_id r = rid) (map (\<lambda>r. if rr_id r = i then f r else r) rs) =
        map_option (\<lambda>r. if rr_id r = i then f r else r) (find (\<lambda>r. rr_id r = rid) rs)"
      if "\<And>x. rr_id (f x) = rr_id x" for f and rs :: "repair_row list"
      by (induction rs) (auto simp: that)
    note found = this [of "\<lambda>x. x\<lparr>rr_status := status, rr_error_message := message, rr_updated_at := t\<rparr>"]
    show ?thesis using at that found by (simp add: repair_at_def repair_core_def)
  qed
  show "\<exists>r'. repair_at rid (snd (sync_agent_result t k st)) = Some r' \<and> repair_core r' = repair_core r"
    using at kept by (auto simp: sync_agent_result_def Let_def note_step_def split: option.splits)
  show "cs_repositories (snd (sync_agent_result t k st)) = cs_repositories st"
    by (auto simp: sync_agent_result_def Let_def note_step_def split: option.splits)
qed

lemma inv_decide:
  assumes inv: "ci_inv E st" and run: "api_decide E t t' rid caller approved approval_note st = (answer, st')"
  shows "ci_inv E st'"
proof (cases "get_for_owner rid caller st")
  case None
  then show ?thesis using run inv by (simp add: api_decide_def)
next
  case (Some r)
  note owned = owned_repair [OF Some]
  let ?st1 = "snd (sync_agent_result t (rr_run_id r) st)"
  have inv1: "ci_inv E ?st1" by (rule inv_synced [OF inv])
  have id: "rr_id r = rid" using owned repair_at_mem by blast
  obtain r1 where r1: "repair_at rid ?st1 = Some r1" "repair_core r1 = repair_core r"
    using synced_row(1) [OF inv] owned by blast
  then have "owned_by ?st1 r1 caller" using owned synced_row(2) [OF inv] by (auto simp: owned_by_def repair_core_eq)
  have id1: "rr_id r1 = rid" using r1 repair_at_mem by blast
  have st': "st' = snd (decide_loaded E t t' r1 caller approved approval_note ?st1)"
    using run Some r1 id by (auto simp: api_decide_def decide_draft_pr_def Let_def split: prod.splits sum.splits)
  show ?thesis
  proof (cases "rr_status r1 = ''waiting_approval''")
    case False
    then show ?thesis using inv1 st' by (auto simp: decide_loaded_def)
  next
    case True
    note decided = inv_decided [OF inv1 r1(1) True \<open>owned_by ?st1 r1 caller\<close>]
    show ?thesis
    proof (cases approved)
      case False
      then show ?thesis using decided st' True id1 by (simp add: decide_loaded_def)
    next
      case yes: True
      let ?f = "decided t caller approval_note True"
      let ?st2 = "commit_decision t rid caller approval_note True ?st1"
      have "repair_at rid (change_repair rid ?f ?st1) = Some (?f r1)" by (rule repair_at_changed [OF r1(1)]) (simp add: decided_def)
      then have at2: "repair_at rid ?st2 = Some (?f r1)" by (simp add: committed_decision [OF r1(1)] repair_at_def)
      have "ci_inv E (publish_decided E t' rid ?st2)"
        by (rule inv_publish_decided(1) [OF decided at2])
           (simp_all add: committed_decision [OF r1(1)], simp add: decided_def)
      then show ?thesis using st' True yes id1 by (simp add: decide_loaded_def)
    qed
  qed
qed

lemma ci_inv_step: "ci_step E st st' \<Longrightarrow> ci_inv E st \<Longrightarrow> ci_inv E st'"
proof (induction rule: ci_step.induct)
  case (started t k rid caller repo installation workflow_run_id st answer st')
  show ?case
  proof (cases "cs_repositories st repo")
    case None
    then show ?thesis using started by (simp add: api_start_repair_def)
  next
    case (Some repository)
    obtain res st1 where start: "start_failed_ci_repair E t k rid repo repository installation workflow_run_id st = (res, st1)"
      by (cases "start_failed_ci_repair E t k rid repo repository installation workflow_run_id st")
    note inv1 = inv_start [OF started(2) start]
    show ?thesis
    proof (cases "rp_owner_id repository = caller \<and> (\<exists>r. res = Inr r \<and> rr_status r = ''fixing'')")
      case False
      then show ?thesis using started Some start inv1
        by (auto simp: api_start_repair_def split: sum.splits if_splits)
    next
      case True
      then obtain r where r: "res = Inr r" "rr_status r = ''fixing''" "repair_at (rr_id r) st1 = Some r" using inv1 by blast
      let ?ok = "gh_enqueue E (cs_log st1) (rr_run_id r)"
      let ?st2 = "st1\<lparr>cs_log := cs_log st1 @ [Enqueued (rr_run_id r) ?ok]\<rparr>"
      have inv2: "ci_inv E ?st2" using inv1 by (intro inv_log) auto
      have at2: "repair_at (rr_id r) ?st2 = Some r" using r by (simp add: repair_at_def)
      have "row_ok ?st2 r" using inv2 repair_at_mem [OF at2] by (auto simp: ci_inv_def rows_ok_def)
      then have "ci_inv E (mark_enqueue_failed t (rr_id r) why ?st2)" for why unfolding mark_enqueue_failed_def using r
        by (intro inv_status [OF inv2 at2]) (auto simp: repair_core_def row_ok_def REPAIR_STATUSES_def)
      then show ?thesis using started Some start True r inv2
        by (auto simp: api_start_repair_def Let_def split: if_splits)
    qed
  qed
next
  case (agent_ran G k st t t' initial)
  have "ci_inv E (st\<lparr>cs_db := run_fix G t t' initial k (cs_db st)\<rparr>)"
    using inv_db [OF agent_ran(3) run_fix_moves_on [OF agent_ran(1,2)], of "cs_repositories st"] by simp
  then show ?case unfolding run_agent_job_def by (rule inv_synced)
next
  case (synced st t k)
  then show ?case by (rule inv_synced)
next
  case (was_decided t t' rid caller approved approval_note st answer st')
  show ?case by (rule inv_decide [OF was_decided(2,1)])
next
  case (died_publishing rid caller st r st1 t approval_note seen t' n)
  note owned = owned_repair [OF died_publishing(1)]
  let ?f = "decided t caller approval_note True"
  have inv1: "ci_inv E st1" using inv_decided [OF died_publishing(5)] owned died_publishing(2,3) by blast
  have "repair_at rid (change_repair rid ?f st) = Some (?f r)" using owned by (intro repair_at_changed) (auto simp: decided_def)
  then have at1: "repair_at rid st1 = Some (?f r)"
    using owned by (simp add: died_publishing(3) committed_decision [of rid st r] repair_at_def)
  show ?case unfolding died_publishing(4)
    by (rule inv_publish_decided(2) [OF inv1 at1])
       (use owned in \<open>simp_all add: died_publishing(3) committed_decision [of rid st r]\<close>, simp add: decided_def)
next
  case (elsewhere st d rs)
  then show ?case by (intro inv_db)
qed

lemma inv_reachable:
  assumes "ci_reachable E st"
  shows "ci_inv E st"
proof -
  obtain st0 where fresh: "ci_fresh st0" and steps: "(ci_step E)\<^sup>*\<^sup>* st0 st" using assms by (auto simp: ci_reachable_def)
  have "ci_inv E st0" using fresh
    by (simp add: ci_fresh_def ci_inv_def rows_ok_def pulls_ok_def decisions_ok_def decisions_def List.map_filter_def)
  then show ?thesis using steps by (induction rule: rtranclp_induct [OF steps]) (auto intro: ci_inv_step)
qed

end
