(* ===== verification/CiRepairTheorems.thy ===== *)
theory CiRepairTheorems
  imports CiHistory
begin

text \<open>
  What the repair of failed workflows guarantees of the pull requests it opens, over every history of its rows, and
  where a repair is left behind.
\<close>

section \<open>Pull requests\<close>

lemma silent_segment:
  assumes "before @ e # mid = pre @ Asked q a # rest" "list_all silent mid" "opens_pull q" "e \<noteq> Asked q a"
  shows "\<exists>between. before = pre @ Asked q a # between \<and> rest = between @ e # mid"
proof -
  have "Asked q a \<notin> set mid" using silent_no_pull [OF assms(2)] assms(3) by blast
  then show ?thesis using assms(1,4)
    by (auto simp: append_eq_append_conv2 append_eq_Cons_conv Cons_eq_append_conv)
qed

definition last_decided :: "outside list \<Rightarrow> string option" where
  "last_decided l = (if decisions l = [] then None else Some (fst (last (decisions l))))"

lemma licensed_last_decided:
  assumes "licensed E st pre q"
  shows "\<exists>before mid (r0 :: repair_row). pre = before @ Recorded (decision_step r0 True) # mid \<and> list_all silent mid \<and>
    decisions pre = decisions before @ [(rr_id r0, True)] \<and> last_decided pre = Some (rr_id r0)"
proof -
  obtain r0 before mid where pre: "pre = before @ Recorded (decision_step r0 True) # mid" and "list_all silent mid"
    using assms by (auto simp: licensed_def)
  moreover have "decisions pre = decisions before @ decisions [Recorded (decision_step r0 True)] @ decisions mid"
    unfolding pre decisions_append [symmetric] by simp
  ultimately show ?thesis by (auto simp: decisions_decision quiet_decisions last_decided_def)
qed

lemma pulls_differ:
  assumes inv: "ci_inv E st" and log: "cs_log st = pre @ Asked q a # mid @ Asked q' a' # post"
    and pulls: "opens_pull q" "opens_pull q'"
  shows "last_decided pre \<noteq> last_decided (pre @ Asked q a # mid)"
proof -
  have "licensed E st pre q" using inv log pulls(1) by (auto simp: ci_inv_def pulls_ok_def)
  then obtain before and r :: repair_row where first: "decisions pre = decisions before @ [(rr_id r, True)]" "last_decided pre = Some (rr_id r)"
    using licensed_last_decided by blast
  have "cs_log st = (pre @ Asked q a # mid) @ Asked q' a' # post" using log by simp
  then have "licensed E st (pre @ Asked q a # mid) q'" using inv pulls(2) unfolding ci_inv_def pulls_ok_def by blast
  then obtain before2 mid2 r2 where second: "pre @ Asked q a # mid = before2 @ Recorded (decision_step r2 True) # mid2"
    "list_all silent mid2" "last_decided (pre @ Asked q a # mid) = Some (rr_id r2)"
    using licensed_last_decided by blast
  obtain between where mid: "mid = between @ Recorded (decision_step r2 True) # mid2"
    using silent_segment [OF second(1) [symmetric] second(2) pulls(1)] by auto
  have "decisions mid = decisions between @ decisions [Recorded (decision_step r2 True)] @ decisions mid2"
    unfolding mid decisions_append [symmetric] by simp
  then have "(rr_id r2, True) \<in> set (decisions mid)" by (simp add: decisions_decision)
  moreover have "decisions (cs_log st) = decisions pre @ decisions [Asked q a] @ decisions mid @ decisions (Asked q' a' # post)"
    unfolding log decisions_append [symmetric] by simp
  then have "distinct (map fst (decisions pre @ decisions mid))" using inv
    by (auto simp: ci_inv_def decisions_ok_def)
  ultimately have "rr_id r \<noteq> rr_id r2" using first(1) by (force simp: image_iff)
  then show ?thesis using first second by simp
qed


section \<open>Where a repair is left behind\<close>

lemma found_by:
  assumes "x \<in> set xs" "distinct (map f xs)"
  shows "find (\<lambda>y. f y = f x) xs = Some x"
  using assms by (induction xs) (auto simp: image_iff)

text \<open>
  A repair that failed while its pull request was opened cannot be tried again, although the handler calls the failure
  retryable, and a repair whose worker died while publishing stays as it is: the decision is refused, and asking for the same
  workflow again gives the same row, starts nothing and enqueues nothing.
\<close>

theorem stuck_repairs_are_not_retried:
  assumes inv: "ci_inv E st" and owned: "get_for_owner rid caller st = Some r"
    and status: "rr_status r \<in> {''failed'', ''creating_draft''}"
  shows "api_decide E t t' rid caller approved approval_note st =
      (Refused 409 ''Draft PR approval is not available for this repair'', st)"
    and "rr_repo_id r = repo \<longrightarrow>
      api_start_repair E t k new caller repo installation (rr_workflow_run_id r) st = (Repair r, st)"
proof -
  have at: "repair_at rid st = Some r" and own: "owned_by st r caller" using owned_repair [OF owned] by auto
  have mem: "r \<in> set (cs_repairs st)" "rr_id r = rid" using repair_at_mem [OF at] by auto
  have "find (\<lambda>x. rr_run_id x = rr_run_id r) (cs_repairs st) = Some r"
    using inv by (intro found_by [OF mem(1)]) (auto simp: ci_inv_def rows_ok_def)
  then have "sync_agent_result t (rr_run_id r) st = (Some r, st)" using status by (auto simp: sync_agent_result_def)
  then show "api_decide E t t' rid caller approved approval_note st =
      (Refused 409 ''Draft PR approval is not available for this repair'', st)"
    using owned at mem status by (auto simp: api_decide_def decide_draft_pr_def decide_loaded_def refusal_def Let_def)
  have "find (\<lambda>x. repair_key x = repair_key r) (cs_repairs st) = Some r"
    using inv by (intro found_by [OF mem(1)]) (auto simp: ci_inv_def rows_ok_def)
  then show "rr_repo_id r = repo \<longrightarrow>
      api_start_repair E t k new caller repo installation (rr_workflow_run_id r) st = (Repair r, st)"
    using own status by (auto simp: api_start_repair_def start_failed_ci_repair_def repair_key_def owned_by_def)
qed

text \<open>
  Two approvals of one repair, both of rows read before either was committed, both publish; when the second one
  fails, as its push of the same branch does, the repair says \<open>failed\<close> and still names the pull request that exists.
\<close>

theorem concurrent_approval_hides_the_pull_request:
  assumes "repair_at rid st = Some r" "rr_status r = ''waiting_approval''"
    and "decide_loaded E t t' r ann True note1 st = (Inr (), st2)"
    and "repair_at rid st2 = Some r2" "rr_status r2 = ''draft_pr_created''" "rr_pull_request_number r2 = Some n"
    and "st3 = commit_decision s rid bob note2 True st2"
    and "publish_pull E (cs_repositories st2 (rr_repo_id r2)) (db_runs (cs_db st2) (rr_run_id r2)) (decided s bob note2 True r2)
      (cs_log st3) = (Inl e, l)"
  shows "\<exists>st4 r4. decide_loaded E s s' r bob True note2 st2 = (Inr (), st4) \<and> repair_at rid st4 = Some r4 \<and>
    rr_status r4 = ''failed'' \<and> rr_pull_request_number r4 = Some n"
proof -
  have ids: "rr_id r = rid" "rr_id r2 = rid" using repair_at_mem assms(1,4) by blast+
  let ?r3 = "decided s bob note2 True r2"
  have "repair_at rid (change_repair rid (decided s bob note2 True) st2) = Some ?r3"
    by (rule repair_at_changed [OF assms(4)]) (simp add: decided_def)
  then have at3: "repair_at rid st3 = Some ?r3" unfolding assms(7) by (simp add: committed_decision [OF assms(4)] repair_at_def)
  have same: "cs_repositories st3 = cs_repositories st2" "cs_db st3 = cs_db st2"
    unfolding assms(7) by (simp_all add: committed_decision [OF assms(4)])
  let ?f = "\<lambda>x. x\<lparr>rr_status := ''failed'', rr_error_message := Some (py_head 2000 (failure_text e)), rr_updated_at := s'\<rparr>"
  let ?st4 = "change_repair rid ?f (st3\<lparr>cs_log := l\<rparr>)"
  have "publish_decided E s' rid st3 = ?st4"
    using at3 assms(8) same by (simp add: publish_decided_def running_eff_def decided_def)
  then have "decide_loaded E s s' r bob True note2 st2 = (Inr (), ?st4)"
    using assms(2,7) ids by (simp add: decide_loaded_def)
  moreover have "repair_at rid (st3\<lparr>cs_log := l\<rparr>) = Some ?r3" using at3 by (simp add: repair_at_def)
  then have "repair_at rid ?st4 = Some (?f ?r3)" by (rule repair_at_changed) simp
  moreover have "rr_pull_request_number (?f ?r3) = Some n" using assms(6) by (simp add: decided_def)
  ultimately show ?thesis by (intro exI [of _ ?st4] exI [of _ "?f ?r3"]) simp
qed

text \<open>
  The test for a change does not see new files: where \<open>git diff --quiet\<close> answers 0, as it does when the patch only adds
  files, the repair fails as if its patch had changed nothing.
\<close>

definition sees_change :: "outside \<Rightarrow> bool" where
  "sees_change e \<longleftrightarrow> (\<forall>c p. e = Git c (Inr p) \<longrightarrow> gt_arguments c = [''diff'', ''--quiet''] \<longrightarrow> gr_returncode p \<noteq> 0)"

definition refuses_no_change :: "unit eff \<Rightarrow> bool" where
  "refuses_no_change m \<longleftrightarrow> (\<forall>l res l'. m l = (res, l') \<longrightarrow>
     res = Inl (Repair_conflict ''Verified repair patch did not change the repository'') \<or>
     (\<exists>ext. l' = l @ ext \<and> list_all sees_change ext))"

lemma adds_other_git: "arguments \<noteq> [''diff'', ''--quiet''] \<Longrightarrow> adds sees_change (git E ws arguments input environment check)"
  by (auto simp: adds_def git_def Let_def sees_change_def)

lemma refuses_adds: "adds sees_change m \<Longrightarrow> refuses_no_change m"
  unfolding refuses_no_change_def by (blast dest: addsD)

lemma refuses_if: "refuses_no_change a \<Longrightarrow> refuses_no_change b \<Longrightarrow> refuses_no_change (if c then a else b)"
  by simp

lemma refuses_and_then:
  assumes "adds sees_change m" "\<And>x. refuses_no_change (f x)"
  shows "refuses_no_change (and_then m f)"
  unfolding refuses_no_change_def
proof (intro allI impI)
  fix l res l'
  assume run: "and_then m f l = (res, l')"
  obtain r1 l1 where first: "m l = (r1, l1)" by (cases "m l")
  then obtain ext where ext: "l1 = l @ ext" "list_all sees_change ext" using addsD [OF assms(1)] by blast
  show "res = Inl (Repair_conflict ''Verified repair patch did not change the repository'') \<or>
      (\<exists>ext. l' = l @ ext \<and> list_all sees_change ext)"
  proof (cases r1)
    case (Inl e)
    then show ?thesis using run first ext by (auto simp: and_then_def)
  next
    case (Inr x)
    then have "f x l1 = (res, l')" using run first by (simp add: and_then_def)
    then show ?thesis using assms(2) [of x] ext unfolding refuses_no_change_def by fastforce
  qed
qed

lemma refuses_diff:
  assumes "adds sees_change m"
  shows "refuses_no_change (and_then (git E ws [''diff'', ''--quiet''] None None False) (\<lambda>changed.
    if gr_returncode changed = 0 then fail_with (Repair_conflict ''Verified repair patch did not change the repository'') else m))"
  unfolding refuses_no_change_def
proof (intro allI impI)
  fix l res l'
  assume run: "and_then (git E ws [''diff'', ''--quiet''] None None False) (\<lambda>changed.
    if gr_returncode changed = 0 then fail_with (Repair_conflict ''Verified repair patch did not change the repository'') else m) l = (res, l')"
  let ?c = "\<lparr>gt_workspace = ws, gt_arguments = [''diff'', ''--quiet''], gt_input = None, gt_environment = None\<rparr>"
  show "res = Inl (Repair_conflict ''Verified repair patch did not change the repository'') \<or>
      (\<exists>ext. l' = l @ ext \<and> list_all sees_change ext)"
  proof (cases "\<exists>p. gh_git E l ?c = Inr p \<and> gr_returncode p \<noteq> 0")
    case False
    then show ?thesis using run
      by (auto simp: and_then_def git_def Let_def fail_with_def sees_change_def split: sum.splits)
  next
    case True
    then obtain p where p: "gh_git E l ?c = Inr p" "gr_returncode p \<noteq> 0" by blast
    then have "m (l @ [Git ?c (Inr p)]) = (res, l')" using run by (simp add: and_then_def git_def)
    then obtain ext where "l' = l @ [Git ?c (Inr p)] @ ext" "list_all sees_change ext" using addsD [OF assms] by fastforce
    then show ?thesis using p by (auto simp: sees_change_def)
  qed
qed

theorem unseen_change_is_refused:
  assumes "commit_patch E ws r branch diff_text l = (res, l @ seen)"
    and "Git c (Inr p) \<in> set seen" "gt_arguments c = [''diff'', ''--quiet'']" "gr_returncode p = 0"
  shows "res = Inl (Repair_conflict ''Verified repair patch did not change the repository'')"
proof -
  have "refuses_no_change (commit_patch E ws r branch diff_text)"
    unfolding commit_patch_def
    by (intro refuses_diff refuses_and_then refuses_if refuses_adds [OF adds_simple(2)] adds_and_then adds_simple adds_other_git)
       simp_all
  moreover have "\<not> list_all sees_change seen" using assms(2-4) by (auto simp: list_all_iff sees_change_def)
  ultimately show ?thesis using assms(1) unfolding refuses_no_change_def by fastforce
qed

text \<open>
  The installation is the caller's word: nothing that is asked of GitHub for a repair depends on who owns the
  repository.
\<close>

definition owned_instead :: "string \<Rightarrow> string \<Rightarrow> ci_state \<Rightarrow> ci_state" where
  "owned_instead repo who st = st\<lparr>cs_repositories := (cs_repositories st)(repo := map_option (\<lambda>r. r\<lparr>rp_owner_id := who\<rparr>) (cs_repositories st repo))\<rparr>"

lemma owned_instead_fields [simp]:
  "cs_repairs (owned_instead repo who st) = cs_repairs st" "cs_log (owned_instead repo who st) = cs_log st"
  "cs_db (owned_instead repo who st) = cs_db st"
  "owned_instead repo who st\<lparr>cs_log := l\<rparr> = owned_instead repo who (st\<lparr>cs_log := l\<rparr>)"
  by (simp_all add: owned_instead_def)

lemma create_owned_instead:
  "cs_repositories st repo = Some repository \<Longrightarrow>
   create_agent_run t k repo who issue (owned_instead repo who st) =
     map_prod id (owned_instead repo who) (create_agent_run t k repo (rp_owner_id repository) issue st)"
  by (simp add: create_agent_run_def) (simp add: owned_instead_def)

theorem installation_is_not_bound_to_the_owner:
  assumes "cs_repositories st repo = Some repository"
  shows "start_failed_ci_repair E t k rid repo (repository\<lparr>rp_owner_id := who\<rparr>) installation ci_run (owned_instead repo who st) =
    map_prod id (owned_instead repo who) (start_failed_ci_repair E t k rid repo repository installation ci_run st)"
proof (cases "github_repository_name E (rp_repo_url repository)")
  case (Inl e)
  then show ?thesis by (auto simp: start_failed_ci_repair_def split: option.split)
next
  case (Inr at_github)
  obtain owner name where gh: "github_repository_name E (rp_repo_url repository) = Inr (owner, name)"
    using Inr by (cases at_github) auto
  obtain res1 l1 where read: "read_failed_workflow_run E installation owner name ci_run (cs_log st) = (res1, l1)"
    by (cases "read_failed_workflow_run E installation owner name ci_run (cs_log st)")
  let ?st1 = "st\<lparr>cs_log := l1\<rparr>"
  have create: "create_agent_run t k repo who issue (owned_instead repo who ?st1) =
     map_prod id (owned_instead repo who) (create_agent_run t k repo (rp_owner_id repository) issue ?st1)" for issue
    using assms by (intro create_owned_instead) simp
  have add: "note_step s (owned_instead repo who st2\<lparr>cs_repairs := cs_repairs st2 @ [r]\<rparr>) =
     owned_instead repo who (note_step s (st2\<lparr>cs_repairs := cs_repairs st2 @ [r]\<rparr>))" for s st2 r
    by (simp add: note_step_def owned_instead_def)
  show ?thesis
  proof (cases "find (\<lambda>r. rr_repo_id r = repo \<and> rr_workflow_run_id r = ci_run) (cs_repairs st) = None \<and>
      rp_status repository = ''indexed'' \<and> \<not> none_or_empty (rp_local_path repository)")
    case False
    then show ?thesis by (auto simp: start_failed_ci_repair_def split: option.split)
  next
    case go: True
    show ?thesis
    proof (cases res1)
      case (Inl e)
      then show ?thesis using go gh read by (simp add: start_failed_ci_repair_def running_eff_def)
    next
      case (Inr f)
      obtain res2 st2 where run: "create_agent_run t k repo (rp_owner_id repository) (repair_issue f) ?st1 = (res2, st2)"
        by (cases "create_agent_run t k repo (rp_owner_id repository) (repair_issue f) ?st1")
      then show ?thesis using go gh read create add Inr
        by (cases res2) (simp_all add: start_failed_ci_repair_def running_eff_def Let_def)
    qed
  qed
qed

text \<open>Asking again for a repair that runs enqueues its run again.\<close>

theorem repeated_request_enqueues_again:
  assumes "find (\<lambda>r. rr_repo_id r = repo \<and> rr_workflow_run_id r = ci_run) (cs_repairs st) = Some r" "rr_status r = ''fixing''"
    and "cs_repositories st repo = Some repository" "gh_enqueue E (cs_log st) (rr_run_id r)"
  shows "api_start_repair E t k new (rp_owner_id repository) repo installation ci_run st =
    (Repair r, st\<lparr>cs_log := cs_log st @ [Enqueued (rr_run_id r) True]\<rparr>)"
  using assms by (simp add: api_start_repair_def start_failed_ci_repair_def)

section \<open>Witness\<close>

text \<open>A repository of \<open>ann\<close>, one failed workflow run, an agent that verifies a patch, and a remote that accepts the push.\<close>

definition demo_answer :: "http_request \<Rightarrow> http_outcome" where
  "demo_answer q =
     (if ends_with ''/access_tokens'' (hq_url q) then Answered (PDict [(''token'', PStr ''t'')])
      else if ends_with ''/pulls'' (hq_url q) then Answered (PDict [(''number'', PInt 12), (''html_url'', PStr ''pr/12'')])
      else if ends_with ''/jobs'' (hq_url q) then Answered (PDict [(''jobs'', PList [])])
      else if ends_with ''/runs/7'' (hq_url q)
      then Answered (PDict [(''conclusion'', PStr ''failure''), (''id'', PStr ''7''), (''head_sha'', PStr ''abc'')])
      else Answered (PDict [(''full_name'', PStr ''octo/ex''), (''default_branch'', PStr ''main'')]))"

definition demo_git :: "git_call \<Rightarrow> string + git_process" where
  "demo_git c = Inr \<lparr>gr_returncode = (if gt_arguments c = [''diff'', ''--quiet''] then 1 else 0),
     gr_stdout = (if gt_arguments c = [''rev-parse'', ''HEAD''] then ''abc'' else []), gr_stderr = []\<rparr>"

definition demo_github :: github_env where
  "demo_github = \<lparr>gh_enabled = True, gh_app_id = Some ''1'', gh_private_key = Some ''key'', gh_api_url = ''https://api'',
     gh_branch_prefix = ''fix'', gh_sign = (\<lambda>k s. Some ''signed''), gh_answer = (\<lambda>l. demo_answer), gh_git = (\<lambda>l. demo_git),
     gh_clock = (\<lambda>l. 0), gh_enqueue = (\<lambda>l k. True),
     gh_urlparse = (\<lambda>u. Inr (Some ''github.com'', ''/octo/ex'')), gh_is_dir = (\<lambda>l d. True),
     gh_copytree = (\<lambda>l d. Inr ''/tmp/w''), gh_environ = [], gh_int_message = (\<lambda>v. [])\<rparr>"

definition demo_home :: repository_row where
  "demo_home = \<lparr>rp_owner_id = ''ann'', rp_repo_url = ''https://github.com/octo/ex'', rp_local_path = Some ''/srv/ex'', rp_status = ''indexed''\<rparr>"

definition demo_start :: ci_state where
  "demo_start = \<lparr>cs_db = empty_db, cs_repositories = [''repo'' \<mapsto> demo_home], cs_repairs = [], cs_log = []\<rparr>"

definition demo_jwt :: string where
  "demo_jwt = projr (fst (app_jwt demo_github []))"

lemma demo_app_jwt: "app_jwt demo_github l = (Inr demo_jwt, l)"
  by (simp add: app_jwt_def demo_github_def demo_jwt_def Let_def or_default_def none_or_empty_def py_strip_def is_space_def give_def fail_with_def)

lemma ci_demo_token: "\<exists>e. installation_token demo_github i l = (Inr ''t'', l @ [e])"
  by (simp add: installation_token_def and_then_def demo_app_jwt github_request_def Let_def)
     (simp add: demo_github_def demo_answer_def ends_with_def give_def)

lemma ci_demo_request: "github_request demo_github verb path token body l =
    (case demo_answer \<lparr>hq_method = verb, hq_url = ''https://api'' @ path, hq_token = token, hq_body = body\<rparr> of
       Answered (PDict d) \<Rightarrow> (Inr d, l @ [Asked \<lparr>hq_method = verb, hq_url = ''https://api'' @ path, hq_token = token, hq_body = body\<rparr> (Answered (PDict d))])
     | _ \<Rightarrow> undefined)"
  by (auto simp: github_request_def Let_def demo_github_def demo_answer_def api_base_def)

definition demo_failure :: ci_failure where
  "demo_failure = the_failure ''7'' ''octo/ex'' [(''conclusion'', PStr ''failure''), (''id'', PStr ''7''), (''head_sha'', PStr ''abc'')]
     [(''full_name'', PStr ''octo/ex''), (''default_branch'', PStr ''main'')] []"

lemma demo_read: "\<exists>ext. read_failed_workflow_run demo_github i ''octo'' ''ex'' ''7'' l = (Inr demo_failure, l @ ext)"
proof -
  obtain e where "installation_token demo_github i l = (Inr ''t'', l @ [e])" using ci_demo_token by blast
  then show ?thesis
    by (simp add: read_failed_workflow_run_def and_then_def ci_demo_request demo_answer_def ends_with_def repo_path_def conclusion_of_def value_text_def FAILED_CONCLUSIONS_def py_lower_def
         lower_char_def is_upper_def Let_def lifted_def failed_jobs_def py_head_def demo_failure_def give_def)
qed

definition ci_demo_state :: "repair_row \<Rightarrow> run_row \<Rightarrow> outside list \<Rightarrow> ci_state" where
  "ci_demo_state r u l = demo_start\<lparr>cs_db := put_run ''k1'' u empty_db, cs_repairs := [r], cs_log := l\<rparr>"

definition ci_demo_row :: repair_row where
  "ci_demo_row = new_repair 1 ''r1'' ''repo'' ''k1'' ''42'' demo_failure"

definition demo_run :: run_row where
  "demo_run = created_run 1 ''repo'' (repair_issue demo_failure)"

lemma demo_name: "github_repository_name demo_github (rp_repo_url demo_home) = Inr (''octo'', ''ex'')"
  by (simp add: github_repository_name_def host_and_path_def demo_github_def demo_home_def path_segments_def trim_slashes_def
      without_git_suffix_def ends_with_def or_default_def none_or_empty_def py_lower_def lower_char_def is_upper_def)

lemma demo_failure_fields: "cf_head_sha demo_failure = ''abc''" "cf_base_branch demo_failure = ''main''"
  "cf_workflow_run_id demo_failure = ''7''" "cf_workflow_url demo_failure = PNone"
  by (simp_all add: demo_failure_def the_failure_def value_text_def)

lemma demo_started: "\<exists>l. api_start_repair demo_github 1 ''k1'' ''r1'' ''ann'' ''repo'' ''42'' ''7'' demo_start =
    (Repair ci_demo_row, ci_demo_state ci_demo_row demo_run l)"
proof -
  obtain ext where "read_failed_workflow_run demo_github ''42'' ''octo'' ''ex'' ''7'' [] = (Inr demo_failure, ext)"
    using demo_read [of "''42''" "[]"] by auto
  then show ?thesis using demo_name demo_failure_fields
    by (simp add: api_start_repair_def start_failed_ci_repair_def demo_start_def demo_home_def running_eff_def
        create_agent_run_def empty_db_def unique_repair_def Let_def none_or_empty_def note_step_def new_repair_def ci_demo_row_def demo_run_def ci_demo_state_def)
       (simp add: demo_github_def)
qed

definition demo_success :: pydict where
  "demo_success = [(''status'', PStr ''verified_success''), (''verification_result'', PDict w_evidence), (''final_diff'', PStr ''+1'')]"

definition demo_verified :: run_row where
  "demo_verified = final_run 3 demo_success (demo_run\<lparr>u_status := ''running'', u_updated_at := 2\<rparr>)"

lemma demo_verified_fields: "u_status demo_verified = ''verified_success''" "u_final_diff demo_verified = Some ''+1''"
proof -
  have "terminal_status_is_valid demo_success"
    by (simp add: terminal_status_is_valid_def verified_evidence_is_valid_def demo_success_def w_evidence_def final_evidence_def
        TERMINAL_AGENT_RUN_STATUSES_def verification_evidence_is_complete_def classify_test_result_def infrastructure_exit_code_def Let_def)
  then show "u_status demo_verified = ''verified_success''" "u_final_diff demo_verified = Some ''+1''"
    by (simp_all add: demo_verified_def final_run_def Let_def) (simp_all add: demo_success_def opt_str_def)
qed

definition demo_waiting :: repair_row where
  "demo_waiting = ci_demo_row\<lparr>rr_status := ''waiting_approval'', rr_error_message := None, rr_updated_at := 3\<rparr>"

lemma demo_agent: "run_agent_job (w_graph \<lparr>th_values = [], th_next = []\<rparr> (Inr demo_success)) 2 3 [] ''k1'' (ci_demo_state ci_demo_row demo_run l) =
    ci_demo_state demo_waiting demo_verified (l @ [Recorded (approval_required_step ci_demo_row)])"
proof -
  have "run_fix (w_graph \<lparr>th_values = [], th_next = []\<rparr> (Inr demo_success)) 2 3 [] ''k1'' (put_run ''k1'' demo_run empty_db) =
      put_run ''k1'' demo_verified empty_db"
    by (simp add: run_fix_def demo_run_def created_run_def TERMINAL_AGENT_RUN_STATUSES_def w_graph_def invoke_fix_graph_def
        checkpoint_is_complete_def persist_unless_waiting_def WAITING_STATUSES_def demo_success_def persist_final_state_def
        demo_verified_def put_run_def)
  then show ?thesis using demo_verified_fields
    by (simp add: run_agent_job_def ci_demo_state_def sync_agent_result_def ci_demo_row_def new_repair_def none_or_empty_def
        note_step_def change_repair_def demo_waiting_def Let_def)
qed

lemma demo_commit: "rr_head_sha r = ''abc'' \<Longrightarrow> \<exists>ext. commit_patch demo_github ws r branch d l = (Inr (), l @ ext)"
  by (simp add: commit_patch_def and_then_def git_def demo_github_def demo_git_def py_strip_def is_space_def give_def)

lemma demo_push: "\<exists>e ext. push_commit demo_github ws demo_home r branch l = (Inr (), l @ e # ext)"
proof -
  obtain e where "installation_token demo_github (rr_installation_id r) l = (Inr ''t'', l @ [e])" using ci_demo_token by blast
  then show ?thesis
    by (simp add: push_commit_def and_then_def lifted_def git_def give_def demo_github_def demo_git_def push_arguments_def)
qed

lemma demo_pushed:
  assumes "rr_head_sha r = ''abc''"
  shows "\<exists>ext. push_verified_patch demo_github demo_home r branch d l = (Inr (), l @ ext)"
proof -
  obtain x where x: "commit_patch demo_github ''/tmp/w'' r branch d l = (Inr (), l @ x)" using demo_commit [OF assms] by blast
  obtain e y where "push_commit demo_github ''/tmp/w'' demo_home r branch (l @ x) = (Inr (), (l @ x) @ e # y)"
    using demo_push by blast
  then have "and_then (commit_patch demo_github ''/tmp/w'' r branch d) (\<lambda>_. push_commit demo_github ''/tmp/w'' demo_home r branch) l =
      (Inr (), l @ x @ e # y)" using x by (simp add: and_then_def)
  moreover have "rp_local_path demo_home = Some ''/srv/ex''" "gh_is_dir demo_github l ''/srv/ex''"
    "gh_copytree demo_github l ''/srv/ex'' = Inr ''/tmp/w''"
    by (simp_all add: demo_home_def demo_github_def)
  ultimately show ?thesis by (simp add: push_verified_patch_def)
qed

lemma demo_publish:
  assumes "rr_head_sha r = ''abc''" "u_final_diff u = Some ''+1''"
  shows "\<exists>mid q a pr. publish_pull demo_github (Some demo_home) (Some u) r l = (Inr pr, l @ mid @ [Asked q a]) \<and> opens_pull q"
proof -
  let ?branch = "repair_branch demo_github (rr_id r)"
  obtain x where push: "push_verified_patch demo_github demo_home r ?branch ''+1'' l = (Inr (), l @ x)"
    using demo_pushed [OF assms(1)] by blast
  obtain e where token: "installation_token demo_github (rr_installation_id r) (l @ x) = (Inr ''t'', (l @ x) @ [e])"
    using ci_demo_token by blast
  let ?q = "\<lparr>hq_method = ''POST'', hq_url = ''https://api/repos/octo/ex/pulls'', hq_token = ''t'',
     hq_body = Some [(''title'', PStr (py_head 256 (''fix(ci): repair failed workflow run '' @ rr_workflow_run_id r))),
       (''head'', PStr ?branch), (''base'', PStr (rr_base_branch r)),
       (''body'', PStr (py_head 65000 (draft_pr_body r))), (''draft'', PBool True)]\<rparr>"
  let ?d = "[(''number'', PInt 12), (''html_url'', PStr ''pr/12'')]"
  have "demo_answer ?q = Answered (PDict ?d)" by (simp add: demo_answer_def ends_with_def)
  then have "pull_request_of demo_github (''octo'', ''ex'') r ?branch (l @ x) =
      (Inr ?d, (l @ x) @ [e] @ [Asked ?q (Answered (PDict ?d))])"
    using token by (simp add: pull_request_of_def create_draft_pull_request_def and_then_def ci_demo_request repo_path_def)
  moreover have "opens_pull ?q" by (simp add: opens_pull_def ends_with_def)
  ultimately show ?thesis using push assms(2) demo_name
    by (simp add: publish_pull_def and_then_def lifted_def Let_def number_of_pull_request_def give_def)
qed

lemma demo_decided:
  assumes "api_decide demo_github 4 5 ''r1'' ''ann'' True None (ci_demo_state demo_waiting demo_verified l) = (answer, st)"
  shows "\<exists>pre q a post. cs_log st = pre @ Asked q a # post \<and> opens_pull q"
proof -
  let ?w = "ci_demo_state demo_waiting demo_verified l"
  let ?r = "decided 4 ''ann'' None True demo_waiting"
  let ?s = "commit_decision 4 ''r1'' ''ann'' None True ?w"
  have row: "rr_id demo_waiting = ''r1''" "rr_run_id demo_waiting = ''k1''" "rr_repo_id demo_waiting = ''repo''"
    "rr_status demo_waiting = ''waiting_approval''" "rr_head_sha demo_waiting = ''abc''"
    by (simp_all add: demo_waiting_def ci_demo_row_def new_repair_def demo_failure_fields)
  have at: "repair_at ''r1'' ?w = Some demo_waiting" by (simp add: repair_at_def ci_demo_state_def row)
  have changed: "repair_at ''r1'' (change_repair ''r1'' (decided 4 ''ann'' None True) ?w) = Some ?r"
    by (rule repair_at_changed [OF at]) (simp add: decided_def)
  have repair_at_log: "repair_at rid (st\<lparr>cs_log := l\<rparr>) = repair_at rid st" for rid st l by (simp add: repair_at_def)
  have s: "cs_repositories ?s ''repo'' = Some demo_home" "db_runs (cs_db ?s) ''k1'' = Some demo_verified" "repair_at ''r1'' ?s = Some ?r"
    unfolding committed_decision [OF at] using changed by (simp_all add: repair_at_log ci_demo_state_def demo_start_def)
  obtain mid q a pr where run: "publish_pull demo_github (Some demo_home) (Some demo_verified) ?r (cs_log ?s) =
      (Inr pr, cs_log ?s @ mid @ [Asked q a])" "opens_pull q"
    using demo_publish [of ?r demo_verified "cs_log ?s"] demo_verified_fields row by (auto simp: decided_def)
  have "rr_repo_id ?r = ''repo''" "rr_run_id ?r = ''k1''" by (simp_all add: decided_def row)
  obtain branch answer where pr: "pr = (branch, answer)" by (cases pr)
  have "\<exists>post. cs_log (publish_decided demo_github 5 ''r1'' ?s) = cs_log ?s @ mid @ Asked q a # post"
    using s run(1) \<open>rr_repo_id ?r = ''repo''\<close> \<open>rr_run_id ?r = ''k1''\<close> unfolding pr
    by (auto simp: publish_decided_def running_eff_def note_of_def note_step_def split: option.split sum.split)
  moreover have "get_for_owner ''r1'' ''ann'' ?w = Some demo_waiting"
    using at row by (simp add: get_for_owner_def) (simp add: ci_demo_state_def demo_start_def demo_home_def)
  then have "st = publish_decided demo_github 5 ''r1'' ?s"
    using assms at row
    by (auto simp: api_decide_def decide_draft_pr_def decide_loaded_def sync_agent_result_def ci_demo_state_def split: option.splits)
  ultimately show ?thesis using run(2) by (metis append.assoc)
qed


end
