(* ===== verification/Spec2Isabelle.thy ===== *)
theory Spec2Isabelle
  imports RepairWitnesses PatchTheorems SandboxTheorems McpWitnesses ApprovalTheorems RouterTheorems
    LifecycleTheorems PlaneTheorems QuotaTheorems TenancyTheorems TimelineTheorems CheckpointTheorems IndexTheorems
    RetrievalTheorems SnapTheorems DoorTheorems AuditTheorems EnvelopeTheorems
    RegistryTheorems NavTheorems CiRepairTheorems
begin

text \<open>
  CodeMate repairs repositories with a language model under deterministic control.  This library models the
  backend under \<open>src/backend/app\<close> (paths below are relative to it) and proves what its controls guarantee.

  THE PROGRAM.  A job starts a run (\<open>services/agent_service.py\<close>).  The run goes through a graph of nodes
  (\<open>agent/graph.py\<close>): it reproduces the failure in a sandbox, lets a planner choose one whitelisted action
  after another (\<open>agent/loop.py\<close>), may call remote MCP tools, generates and applies a patch, runs the
  targeted and the regression tests, reflects and tries again, and ends with a verdict computed from the test
  evidence alone (\<open>agent/verification.py\<close>).  The sandbox (\<open>sandbox/\<close>) repairs and applies patches and runs
  tests locally or on a remote execution plane.  MCP calls pass the router, the policy of the tenant, a quota,
  a circuit breaker and a durable execution record, and some wait for a human approval.

  THEORIES AND THE CODE THEY MODEL.
  Prelude: Python values, dictionaries, slices, \<open>json.dumps\<close>, times.  Settings: \<open>core/config.py\<close>.
  Tables: the rows of \<open>models/\<close>, and the two locales on rows: \<open>versioned_row\<close> (a version that only grows, so
  a writer that saw an old version fails) and \<open>settled_row\<close> (outcomes that stay), interpreted on approvals,
  server health and executions.
  FixState: \<open>agent/state.py\<close>, one record.  Verification: \<open>agent/verification.py\<close>, function by function.
  LocalLoop and Executor: \<open>agent/actions.py\<close> and \<open>LocalAgentExecutor\<close> of \<open>agent/loop.py\<close>, each guard a
  definition, in the order of the source.
  AgentNodes: the closures of \<open>AgentService._nodes\<close>.  FixGraph: edges and routes of \<open>agent/graph.py\<close>, the step
  relation \<open>fix_step\<close> over node, state and workspace, and the relation \<open>resume_step\<close> of a later worker.
  RunLifecycle: \<open>run_fix\<close>, \<open>resume_from_approval\<close>, \<open>resume_from_execution\<close>, \<open>_resolve_approval\<close>,
  \<open>_invoke_fix_graph\<close> and \<open>_persist_final_state\<close> over the tables.
  Patches and Sandbox: \<open>sandbox/patches.py\<close> and \<open>sandbox/runner.py\<close>.  ExecutionPlane:
  \<open>sandbox/execution_plane.py\<close>, both stores of \<open>execution_store.py\<close> (the Lua scripts of Redis step by step),
  the checks of \<open>workload_identity.py\<close>; its locale \<open>lease_store\<close> is interpreted on the memory store.
  Approvals, Executions, Circuit: \<open>services/mcp_approval_service.py\<close>, \<open>mcp_execution_service.py\<close> and the
  breaker of \<open>mcp_operations_service.py\<close>; each method is a transaction, and each has a step relation that is
  the history its rows may have.  Router: \<open>mcp/client.py\<close> and \<open>mcp/router.py\<close>.
  Quota: \<open>services/mcp_quota_service.py\<close> with the script of its Redis limiter.
  Tenancy: \<open>services/mcp_tenancy_service.py\<close> and the client and router of a run.
  Timeline: \<open>core/sensitive_data.py\<close> and \<open>services/agent_step_service.py\<close>.  Checkpoints: \<open>agent/checkpointer.py\<close>.
  Indexing: \<open>services/index_service.py\<close> and \<open>indexing/filters.py\<close>, a run as steps over rows, vectors and
  directories of which each may fail.  Retrieval: \<open>services/retrieval_service.py\<close>.
  Datasets, EvalRuns, EvalGate: benchmark datasets, their snapshots and the backfill, the judgement and execution
  of the cases of a run, the comparison of runs, the gate and the history (\<open>services/evaluation_service.py\<close>,
  \<open>evaluation_dataset_service.py\<close>, \<open>evaluation_snapshot_backfill_service.py\<close>, \<open>schemas/evaluations.py\<close>).
  Access: who may call, \<open>api/auth.py\<close> with the nonces of \<open>core/replay_cache.py\<close> and the bearer tokens of \<open>mcp/auth.py\<close>
  and \<open>mcp/client_auth.py\<close>.  Egress: \<open>mcp/egress.py\<close> and \<open>mcp/egress_gateway.py\<close>.  SecurityConfig: what a process
  checks before it starts, \<open>validate_security_config\<close> and \<open>validate_execution_plane_server_config\<close>.
  NavGraph and CallGraph: the symbols, references, imports and calls an agent navigates by, \<open>agent/tools.py\<close>.
  GithubApp: \<open>github_app/client.py\<close>, with one log of everything done outside the database.  CiRepair:
  \<open>services/github_app_repair_service.py\<close>, its routes and \<open>run_agent_job\<close>.
  AuditTrail: \<open>core/audit.py\<close> and the outbox of \<open>services/security_audit_delivery_service.py\<close>.  Envelope: \<open>core/kms.py\<close>.
  Registry and Credentials: \<open>services/mcp_registry_service.py\<close> with what a session of \<open>mcp/client.py\<close> checks; validations and
  token refreshes are split where they leave the database, and their commits write changed columns onto the rows of then.

  WHAT IS SHOWN.  GraphProps, RepairTheorems: a verified run rests on a failing baseline and on passing runs of
  exactly the final patch, the graph never leaves its declared edges, and it ends within a bound computed from
  the settings.  LoopTheorems: the verdict rules, and that tools are reached past every guard only.
  PatchTheorems, SandboxTheorems: a repaired patch differs in hunk headers only, truncated hunks are refused,
  backends are reached past the gates only, a pass is an exit code of the tested command.
  McpTheorems, ApprovalTheorems: attempts are bounded, a call that may have happened is never silently repeated,
  settled outcomes and decisions are final, leases exclude each other, the breaker keeps its invariant, secrets
  do not survive redaction.  RouterTheorems, TenancyTheorems: a call reaches a server only in the catalog, under
  its policy, with the approved arguments, and with a permission of the tenant that holds at that moment.
  LifecycleTheorems: no success is stored without its evidence, and where an error path loses what happened.
  QuotaTheorems: a granted reservation leaves every policy within its limits.  PlaneTheorems: Redis refines the
  memory store, and the plane answers with committed results only.  TimelineTheorems: the public timeline shows
  no text of a payload, and restricted evidence ends with its retention.  CheckpointTheorems: a checkpoint reads
  back as it was put.  IndexTheorems: a failed index changes nothing, an incremental one gives what a full one
  gives; it has the weakest preconditions of the steps.  RetrievalTheorems: results stay in scope and bounds, and
  fusion is by reciprocal ranks.  EvalTheorems: retrieval metrics are rates, a repair case passes by evidence.
  SnapTheorems: over every history snapshots are immutable and agree with datasets and runs, and what a passed
  gate says of baseline and candidate.  AccessTheorems: over every history an accepted identity is signed for its
  request, and no nonce is spent twice in its lifetime.  DoorTheorems: tunnels lead to listed, global addresses only, and a
  configuration that passes in production leaves no door open.  AuditTheorems: no audit event is lost or waits for ever,
  and no audited handler runs unrecorded.  EnvelopeTheorems: an envelope opens for its owner and purpose, through one
  rotation of the master key, and for no others.  RegistryTheorems: whatever is registered was validated and still loads, over
  every history, and a session carries its own server's credential to allowed, global hosts; the filter that clients put
  on configurations is the locale \<open>config_filter\<close>, interpreted on the policy of the tenant.  NavTheorems: the graph of imports
  is the neighbourhood of a file, by a search in levels, and the graphs keep their bounds.  CiHistory, CiRepairTheorems: over
  every history a pull request publishes the patch of a run verified with evidence, approved by its owner, once; and where a
  repair is stuck.  LoopWitnesses, RepairWitnesses and McpWitnesses (and
  sections of the other theories) apply the properties at concrete inputs.

  PARAMETERS.  Code outside the repository is an argument: the planner and the patch generator, the tools, git,
  docker and the file system, the digest, pydantic's validator (with the law that a dumped action validates to
  itself), the JSON schema validator, langgraph (a thread of checkpoints), the transport, encryption, the token
  endpoint, the clock and generated ids.  Exceptions are values.  Transactions are atomic: rows are locked while
  a method runs, and what other workers do in between is an arbitrary function where it matters.

  BOUNDS.  Nothing uses fuel: recursion is structural, or over the finite lists the settings bound; the length of
  a graph run is a theorem.  Integers are Python's unbounded ones, times are microseconds (whole seconds on the
  plane, as its code uses them), costs and scores are rationals, and metrics of evaluations reals, where the code has
  floats.

  NOT MODELLED.  Spans, metrics text and public dictionaries are output.  Sessions, sockets,
  archives, signing, attestation and embedding are I/O or cryptography.  Of the modelled files: the overview,
  metrics, payload parsing and Redis reconciliation of the quotas, the snapshot and alerts of the operations
  service, and the delegated identity of \<open>create_fix_run\<close>.  Not yet modelled: the configuration snapshot, artifacts and capability report of
  evaluations, the chunkers, compliance reports, the CI workflow writer and the review services.
\<close>

end
